(* ===== verification/Prelude.thy ===== *)
theory Prelude
  imports Main "HOL-Library.Word"
begin

text \<open>
  What every component shares: 64-bit integers with Go's wrap-around, durations and
  instants, the few string operations of Go's standard library the source calls, and the
  development's fact collections.

  Conventions. A Go \<open>int\<close>, \<open>int64\<close> or \<open>time.Duration\<close> is an \<open>int\<close>; where the source can
  overflow, the result goes through \<open>wrap64\<close>, which is the two's complement reading of a
  64-bit word (lemma \<open>wrap64_word\<close>). An instant is a number of nanoseconds since the Unix
  epoch in UTC; Go's zero time (year 1) is \<open>zero_time\<close>. A Go string is a byte string,
  hence a \<open>string\<close>; case mapping and white space are those of the ASCII range, which is
  what identifiers, program names and numbers in this program are made of.
\<close>

named_theorems pres_intros \<open>rules that decompose a program for a preservation proof\<close>
named_theorems eng_defs \<open>definitions of the engine's primitives\<close>
named_theorems row_simps \<open>effect of a queue statement on one row\<close>

type_synonym duration = int
type_synonym time = int


section \<open>64-bit arithmetic\<close>

definition wrap64 :: "int \<Rightarrow> int" where
  "wrap64 n = (n + 2 ^ 63) mod 2 ^ 64 - 2 ^ 63"

definition min_int64 :: int where "min_int64 = - (2 ^ 63)"
definition max_int64 :: int where "max_int64 = 2 ^ 63 - 1"

lemma wrap64_word: "wrap64 n = sint (word_of_int n :: 64 word)"
  by (simp add: wrap64_def int_word_sint)

lemma wrap64_id: "- (2 ^ 63) \<le> n \<Longrightarrow> n < 2 ^ 63 \<Longrightarrow> wrap64 n = n"
  by (simp add: wrap64_def)

lemma wrap64_range: "- (2 ^ 63) \<le> wrap64 n \<and> wrap64 n < 2 ^ 63"
proof -
  have "0 \<le> (n + 2 ^ 63) mod 2 ^ 64" "(n + 2 ^ 63) mod 2 ^ 64 < (2 ^ 64 :: int)" by simp_all
  then show ?thesis by (simp add: wrap64_def)
qed

text \<open>Go's integer division and remainder truncate towards zero.\<close>

definition go_div :: "int \<Rightarrow> int \<Rightarrow> int" where
  "go_div a b = sgn a * sgn b * (\<bar>a\<bar> div \<bar>b\<bar>)"

definition go_mod :: "int \<Rightarrow> int \<Rightarrow> int" where
  "go_mod a b = sgn a * (\<bar>a\<bar> mod \<bar>b\<bar>)"

lemma go_div_nonneg [simp]: "0 \<le> a \<Longrightarrow> 0 < b \<Longrightarrow> go_div a b = a div b"
  by (cases "a = 0") (simp_all add: go_div_def)

lemma go_mod_nonneg [simp]: "0 \<le> a \<Longrightarrow> 0 < b \<Longrightarrow> go_mod a b = a mod b"
  by (cases "a = 0") (simp_all add: go_mod_def)


section \<open>Durations and instants\<close>

definition microsecond :: duration where "microsecond = 1000"
definition millisecond :: duration where "millisecond = 1000000"
definition second :: duration where "second = 1000000000"
definition minute :: duration where "minute = 60000000000"
definition hour :: duration where "hour = 3600000000000"

lemmas duration_units = microsecond_def millisecond_def second_def minute_def hour_def

text \<open>\<open>time.Time{}\<close> is the first instant of year 1.\<close>

definition zero_time :: time where "zero_time = - 62135596800000000000"

definition is_zero :: "time \<Rightarrow> bool" where "is_zero t \<longleftrightarrow> t = zero_time"

text \<open>\<open>Time.Sub\<close> saturates at the bounds of a 64-bit duration.\<close>

definition time_sub :: "time \<Rightarrow> time \<Rightarrow> duration" where
  "time_sub t u = max min_int64 (min max_int64 (t - u))"

lemma time_sub_exact: "\<bar>t - u\<bar> < 2 ^ 63 \<Longrightarrow> time_sub t u = t - u"
  by (simp add: time_sub_def min_int64_def max_int64_def)

lemma time_sub_mono: "t \<le> t' \<Longrightarrow> time_sub t u \<le> time_sub t' u"
  by (simp add: time_sub_def)

lemma time_sub_gt: "k < max_int64 \<Longrightarrow> min_int64 \<le> k \<Longrightarrow> k < time_sub t u \<longleftrightarrow> k < t - u"
  by (auto simp: time_sub_def)

text \<open>\<open>Duration.Round\<close>: to the nearest multiple, halves away from zero, saturating.\<close>

definition dur_round :: "duration \<Rightarrow> duration \<Rightarrow> duration" where
  "dur_round d m =
     (if m \<le> 0 then d
      else if d < 0 then
        (let r = - go_mod d m
         in if r + r < m then d + r
            else if min_int64 \<le> d - m + r then d - m + r else min_int64)
      else
        (let r = go_mod d m
         in if r + r < m then d - r
            else if d + m - r \<le> max_int64 then d + m - r else max_int64))"


section \<open>Strings\<close>

definition digit_char :: "nat \<Rightarrow> char" where "digit_char d = char_of (48 + d)"

function int_digits :: "int \<Rightarrow> string" where
  "int_digits n = (if n < 10 then [digit_char (nat n)]
                   else int_digits (n div 10) @ [digit_char (nat (n mod 10))])"
  by pat_completeness auto
termination
  by (relation "measure nat") auto

declare int_digits.simps [simp del]

text \<open>\<open>strconv.Itoa\<close> and the \<open>%d\<close> verb.\<close>

definition itoa :: "int \<Rightarrow> string" where
  "itoa n = (if n < 0 then CHR ''-'' # int_digits (- n) else int_digits n)"

text \<open>A number padded with zeros on the left, as \<open>%0kd\<close> prints a non-negative number.\<close>

definition pad0 :: "nat \<Rightarrow> int \<Rightarrow> string" where
  "pad0 k n = replicate (k - length (itoa n)) CHR ''0'' @ itoa n"

lemma int_digits_nonempty [simp]: "int_digits n \<noteq> []"
  by (subst int_digits.simps) simp

lemma length_int_digits: "n < 10 ^ k \<Longrightarrow> 0 < k \<Longrightarrow> length (int_digits n) \<le> k"
proof (induction n arbitrary: k rule: int_digits.induct)
  case (1 n)
  show ?case
  proof (cases "n < 10")
    case True
    then show ?thesis using "1.prems" by (simp add: int_digits.simps [of n])
  next
    case False
    with "1.prems" obtain j where k: "k = Suc j" by (cases k) auto
    with "1.prems" False have j: "0 < j" by (cases j) auto
    have "n div 10 < 10 ^ j" using "1.prems" k by simp
    with False j have "length (int_digits (n div 10)) \<le> j" by (intro "1.IH")
    with False k show ?thesis by (simp add: int_digits.simps [of n])
  qed
qed

definition is_digit :: "char \<Rightarrow> bool" where
  "is_digit c \<longleftrightarrow> 48 \<le> (of_char c :: nat) \<and> (of_char c :: nat) \<le> 57"

lemma is_digit_digit_char: "d < 10 \<Longrightarrow> is_digit (digit_char d)"
  by (simp add: is_digit_def digit_char_def)

lemma set_int_digits: "0 \<le> n \<Longrightarrow> c \<in> set (int_digits n) \<Longrightarrow> is_digit c"
proof (induction n rule: int_digits.induct)
  case (1 n)
  show ?case
  proof (cases "n < 10")
    case True
    then show ?thesis
      using "1.prems" by (simp add: int_digits.simps [of n] is_digit_digit_char)
  next
    case False
    then have "c \<in> set (int_digits (n div 10)) \<or> c = digit_char (nat (n mod 10))"
      using "1.prems" by (auto simp: int_digits.simps [of n])
    then show ?thesis using "1.IH" [OF False] "1.prems"(1) by (auto simp: is_digit_digit_char)
  qed
qed

definition lower_char :: "char \<Rightarrow> char" where
  "lower_char c = (let n = (of_char c :: nat) in if 65 \<le> n \<and> n \<le> 90 then char_of (n + 32) else c)"

definition upper_char :: "char \<Rightarrow> char" where
  "upper_char c = (let n = (of_char c :: nat) in if 97 \<le> n \<and> n \<le> 122 then char_of (n - 32) else c)"

definition to_lower :: "string \<Rightarrow> string" where "to_lower = map lower_char"
definition to_upper :: "string \<Rightarrow> string" where "to_upper = map upper_char"

text \<open>White space of \<open>strings.TrimSpace\<close> and \<open>strings.Fields\<close>: tab to carriage return, and blank.\<close>

definition is_space :: "char \<Rightarrow> bool" where
  "is_space c \<longleftrightarrow> (let n = (of_char c :: nat) in n = 32 \<or> 9 \<le> n \<and> n \<le> 13)"

text \<open>\<open>trim_by p s\<close> removes characters satisfying \<open>p\<close> from both ends (\<open>strings.Trim\<close>).\<close>

definition trim_by :: "(char \<Rightarrow> bool) \<Rightarrow> string \<Rightarrow> string" where
  "trim_by p s = rev (dropWhile p (rev (dropWhile p s)))"

definition trim_space :: "string \<Rightarrow> string" where "trim_space = trim_by is_space"

text \<open>\<open>strings.Split\<close> on a one-character separator.\<close>

fun split_on :: "char \<Rightarrow> string \<Rightarrow> string list" where
  "split_on c [] = [[]]"
| "split_on c (x # xs) =
     (if x = c then [] # split_on c xs
      else case split_on c xs of [] \<Rightarrow> [[x]] | y # ys \<Rightarrow> (x # y) # ys)"

text \<open>\<open>strings.Join\<close>.\<close>

fun join :: "string \<Rightarrow> string list \<Rightarrow> string" where
  "join sep [] = []"
| "join sep [x] = x"
| "join sep (x # xs) = x @ sep @ join sep xs"

text \<open>\<open>strings.Fields\<close>: the maximal runs of characters that are not white space.\<close>

fun fields_acc :: "string \<Rightarrow> string \<Rightarrow> string list" where
  "fields_acc acc [] = (if acc = [] then [] else [rev acc])"
| "fields_acc acc (c # cs) =
     (if is_space c then (if acc = [] then fields_acc [] cs else rev acc # fields_acc [] cs)
      else fields_acc (c # acc) cs)"

definition str_fields :: "string \<Rightarrow> string list" where "str_fields = fields_acc []"

text \<open>\<open>strings.Contains\<close>, \<open>strings.HasPrefix\<close>, \<open>strings.TrimSuffix\<close>.\<close>

fun has_prefix :: "string \<Rightarrow> string \<Rightarrow> bool" where
  "has_prefix s [] = True"
| "has_prefix [] (p # ps) = False"
| "has_prefix (c # cs) (p # ps) = (c = p \<and> has_prefix cs ps)"

fun contains :: "string \<Rightarrow> string \<Rightarrow> bool" where
  "contains [] sub = (sub = [])"
| "contains (c # cs) sub = (has_prefix (c # cs) sub \<or> contains cs sub)"

definition trim_suffix :: "string \<Rightarrow> string \<Rightarrow> string" where
  "trim_suffix s suf = (if has_prefix (rev s) (rev suf) then take (length s - length suf) s else s)"

lemma has_prefix_append [simp]: "has_prefix (p @ s) p"
  by (induction p) auto

lemma contains_append: "contains (a @ p @ b) p"
proof (induction a)
  case Nil
  then show ?case
    by (cases "p @ b") (simp_all del: has_prefix.simps, metis has_prefix_append)
qed simp

text \<open>\<open>firstNonEmpty\<close>, which the engine and the worker each define.\<close>

fun first_non_empty :: "string list \<Rightarrow> string" where
  "first_non_empty [] = []"
| "first_non_empty (v # vs) = (if v \<noteq> [] then v else first_non_empty vs)"

lemma first_non_empty_in: "first_non_empty vs \<noteq> [] \<Longrightarrow> first_non_empty vs \<in> set vs"
  by (induction vs) auto

lemma first_non_empty_Nil: "first_non_empty vs = [] \<longleftrightarrow> (\<forall>v \<in> set vs. v = [])"
  by (induction vs) auto


text \<open>
  The \<open>%q\<close> verb: a double-quoted string, with the control characters, the quote and the
  backslash escaped. Bytes from 128 up belong to printable runes and are kept.
\<close>

definition hex_char :: "nat \<Rightarrow> char" where
  "hex_char d = (if d < 10 then char_of (48 + d) else char_of (87 + d))"

definition quote_char :: "char \<Rightarrow> string" where
  "quote_char c =
     (let n = (of_char c :: nat); esc = (\<lambda>k :: nat. [char_of (92 :: nat), char_of k]) in
      if n = 34 then esc 34 else if n = 92 then esc 92
      else if n = 7 then esc 97 else if n = 8 then esc 98 else if n = 12 then esc 102
      else if n = 10 then esc 110 else if n = 13 then esc 114 else if n = 9 then esc 116
      else if n = 11 then esc 118
      else if n < 32 \<or> n = 127 then esc 120 @ [hex_char (n div 16), hex_char (n mod 16)]
      else [c])"

definition quoted :: "string \<Rightarrow> string" where
  "quoted s = [char_of (34 :: nat)] @ concat (map quote_char s) @ [char_of (34 :: nat)]"


text \<open>\<open>strconv.Atoi\<close>: a sign, digits, and a value an int holds.\<close>

definition digits_value :: "string \<Rightarrow> int" where
  "digits_value s = foldl (\<lambda>n c. n * 10 + (int (of_char c) - 48)) 0 s"

definition atoi :: "string \<Rightarrow> int option" where
  "atoi s =
     (let (neg, ds) = (case s of [] \<Rightarrow> (False, [])
                       | c # cs \<Rightarrow> if c = CHR ''-'' then (True, cs) else if c = CHR ''+'' then (False, cs) else (False, s));
          n = (if neg then - digits_value ds else digits_value ds)
      in if ds = [] \<or> \<not> list_all is_digit ds \<or> n < min_int64 \<or> max_int64 < n then None else Some n)"


lemma to_lower_append: "to_lower (a @ b) = to_lower a @ to_lower b" by (simp add: to_lower_def)

lemma contains_after: "contains (p @ s) p" using contains_append [of "[]" p s] by simp

lemma contains_skip: "contains b p \<Longrightarrow> contains (a @ b) p" by (induction a) auto

lemma join_holds: "x \<in> set xs \<Longrightarrow> \<exists>a b. join sep xs = a @ x @ b"
proof (induction xs)
  case (Cons y ys)
  show ?case
  proof (cases "x = y")
    case True
    then show ?thesis by (cases ys) (auto intro: exI [of _ "[]"])
  next
    case False
    then have "x \<in> set ys" using Cons.prems by simp
    then obtain a b where "join sep ys = a @ x @ b" using Cons.IH by blast
    then have "join sep (y # ys) = (y @ sep @ a) @ x @ b" using \<open>x \<in> set ys\<close> by (cases ys) simp_all
    then show ?thesis by blast
  qed
qed simp

lemma digits_value_append: "digits_value (s @ [c]) = digits_value s * 10 + (int (of_char c) - 48)"
  by (simp add: digits_value_def)

lemma digit_char_code: "d < 10 \<Longrightarrow> of_char (digit_char d) = 48 + d"
  by (simp add: digit_char_def)

lemma is_digit_char: "d < 10 \<Longrightarrow> is_digit (digit_char d)"
  by (simp add: is_digit_def digit_char_code)

lemma int_digits_read: "0 \<le> n \<Longrightarrow> digits_value (int_digits n) = n \<and> list_all is_digit (int_digits n)"
proof (induction n rule: int_digits.induct)
  case (1 n)
  show ?case
  proof (cases "n < 10")
    case True
    then show ?thesis using 1(2)
      by (subst (1 2) int_digits.simps) (simp add: digits_value_def digit_char_code is_digit_char)
  next
    case False
    then have ih: "digits_value (int_digits (n div 10)) = n div 10" "list_all is_digit (int_digits (n div 10))"
      using 1 by simp_all
    have m: "nat (n mod 10) < 10" by simp
    show ?thesis using False ih
      by (subst (1 2) int_digits.simps) (simp add: digits_value_append digit_char_code [OF m] is_digit_char [OF m])
  qed
qed

lemma atoi_itoa:
  assumes "0 \<le> n" "n \<le> max_int64"
  shows "atoi (itoa n) = Some n"
proof -
  have d: "digits_value (int_digits n) = n" "list_all is_digit (int_digits n)" using int_digits_read assms(1) by auto
  obtain c cs where c: "int_digits n = c # cs" by (cases "int_digits n") auto
  have "is_digit c" using d(2) c by simp
  then have "c \<noteq> CHR ''-''" "c \<noteq> CHR ''+''" by (auto simp: is_digit_def)
  then show ?thesis using assms d by (simp add: itoa_def atoi_def c min_int64_def)
qed


section \<open>Rendering durations and dates\<close>

text \<open>
  \<open>frac v k\<close> is the part after the point that \<open>Duration.String\<close> prints for \<open>v\<close> units of
  \<open>10^-k\<close>: trailing zeros dropped, and the point with them.
\<close>

definition frac :: "int \<Rightarrow> nat \<Rightarrow> string" where
  "frac v k =
     (let ds = rev (dropWhile (\<lambda>c. c = CHR ''0'') (rev (pad0 k (v mod 10 ^ k))))
      in if k = 0 \<or> ds = [] then [] else CHR ''.'' # ds)"

definition dur_string :: "duration \<Rightarrow> string" where
  "dur_string d =
     (let u = \<bar>d\<bar>; sign = (if d < 0 then ''-'' else '''') in
      if u = 0 then ''0s''
      else if u < microsecond then sign @ itoa u @ ''ns''
      else if u < millisecond then
        sign @ itoa (u div 1000) @ frac u 3 @ [char_of (194 :: nat), char_of (181 :: nat), CHR ''s'']
      else if u < second then sign @ itoa (u div 1000000) @ frac u 6 @ ''ms''
      else
        (let secs = u div second; tail = itoa (secs mod 60) @ frac u 9 @ ''s''; mins = secs div 60 in
         if mins = 0 then sign @ tail
         else if mins div 60 = 0 then sign @ itoa (mins mod 60) @ ''m'' @ tail
         else sign @ itoa (mins div 60) @ ''h'' @ itoa (mins mod 60) @ ''m'' @ tail))"

text \<open>
  The civil date of an instant in UTC: days since the epoch to year, month and day of
  the proleptic Gregorian calendar, by eras of 400 years.
\<close>

definition civil :: "int \<Rightarrow> int \<times> int \<times> int" where
  "civil days =
     (let z = days + 719468;
          era = z div 146097;
          doe = z mod 146097;
          yoe = (doe - doe div 1460 + doe div 36524 - doe div 146096) div 365;
          doy = doe - (365 * yoe + yoe div 4 - yoe div 100);
          mp = (5 * doy + 2) div 153;
          d = doy - (153 * mp + 2) div 5 + 1;
          m = (if mp < 10 then mp + 3 else mp - 9);
          y = yoe + era * 400 + (if m \<le> 2 then 1 else 0)
      in (y, m, d))"

text \<open>Seconds of an instant, and its clock reading.\<close>

definition unix_secs :: "time \<Rightarrow> int" where "unix_secs t = t div second"

definition clock :: "time \<Rightarrow> int \<times> int \<times> int" where
  "clock t = (let s = unix_secs t mod 86400 in (s div 3600, (s mod 3600) div 60, s mod 60))"

text \<open>\<open>Format("20060102150405")\<close> and \<open>Format(time.RFC3339)\<close> of an instant in UTC.\<close>

definition format_compact :: "time \<Rightarrow> string" where
  "format_compact t =
     (case civil (unix_secs t div 86400) of (y, mo, d) \<Rightarrow>
      case clock t of (h, mi, s) \<Rightarrow>
        pad0 4 y @ pad0 2 mo @ pad0 2 d @ pad0 2 h @ pad0 2 mi @ pad0 2 s)"

definition format_rfc3339 :: "time \<Rightarrow> string" where
  "format_rfc3339 t =
     (case civil (unix_secs t div 86400) of (y, mo, d) \<Rightarrow>
      case clock t of (h, mi, s) \<Rightarrow>
        pad0 4 y @ ''-'' @ pad0 2 mo @ ''-'' @ pad0 2 d @ ''T'' @
        pad0 2 h @ '':'' @ pad0 2 mi @ '':'' @ pad0 2 s @ ''Z'')"


section \<open>Lists and maps\<close>

text \<open>Go's \<open>sort.Strings\<close>: byte order, here through the code points.\<close>

definition str_le :: "string \<Rightarrow> string \<Rightarrow> bool" where
  "str_le a b \<longleftrightarrow> a = b \<or> (a, b) \<in> lexord {(x, y). (of_char x :: nat) < of_char y}"

fun str_le_code :: "string \<Rightarrow> string \<Rightarrow> bool" where
  "str_le_code [] bs = True"
| "str_le_code (a # as) [] = False"
| "str_le_code (a # as) (b # bs) =
     (if (of_char a :: nat) < of_char b then True
      else if (of_char b :: nat) < of_char a then False else str_le_code as bs)"

lemma str_le_eq: "str_le a b = str_le_code a b"
proof (induction a arbitrary: b)
  case Nil
  then show ?case by (cases b) (auto simp: str_le_def)
next
  case (Cons x xs)
  then show ?case by (cases b) (auto simp: str_le_def)
qed

fun insert_sorted :: "string \<Rightarrow> string list \<Rightarrow> string list" where
  "insert_sorted x [] = [x]"
| "insert_sorted x (y # ys) = (if str_le_code x y then x # y # ys else y # insert_sorted x ys)"

definition sort_strings :: "string list \<Rightarrow> string list" where
  "sort_strings xs = foldr insert_sorted xs []"

lemma set_insert_sorted [simp]: "set (insert_sorted x xs) = insert x (set xs)"
  by (induction xs) auto

lemma set_sort_strings [simp]: "set (sort_strings xs) = set xs"
  by (induction xs) (auto simp: sort_strings_def)

lemma filter_eq_empty_or: "filter P xs = [] \<longleftrightarrow> (\<forall>x \<in> set xs. \<not> P x)"
  by (induction xs) auto

end
