(* ===== verification/Float64.thy ===== *)
theory Float64
  imports Complex_Main
begin

text \<open>
  Go's \<open>float64\<close>: IEEE 754 binary64 with round to nearest, ties to even. A finite value is
  the real number it denotes, so the two zeros are one value; every arithmetic result goes
  through \<open>rnd\<close>, which rounds an exact real result to 53 bits of mantissa, to the subnormal
  spacing near zero, and to an infinity past the largest finite value.

  The captured values of checks/values.go and the age of a drill in report/confidence.go
  are floats. What the proofs need of rounding is that it is monotone (\<open>rnd_real_mono\<close>) and
  that it fixes representable values; both are proved here of \<open>rnd\<close> itself.
\<close>

datatype f64 = Fin real | PInf | NInf | NaN

fun finite64 :: "f64 \<Rightarrow> bool" where
  "finite64 (Fin _) = True"
| "finite64 _ = False"

text \<open>The comparisons: every one of them is false when a NaN takes part.\<close>

fun less64 :: "f64 \<Rightarrow> f64 \<Rightarrow> bool" where
  "less64 (Fin x) (Fin y) = (x < y)"
| "less64 (Fin _) PInf = True"
| "less64 NInf (Fin _) = True"
| "less64 NInf PInf = True"
| "less64 _ _ = False"

fun eq64 :: "f64 \<Rightarrow> f64 \<Rightarrow> bool" where
  "eq64 (Fin x) (Fin y) = (x = y)"
| "eq64 PInf PInf = True"
| "eq64 NInf NInf = True"
| "eq64 _ _ = False"

definition le64 :: "f64 \<Rightarrow> f64 \<Rightarrow> bool" where
  "le64 x y \<longleftrightarrow> less64 x y \<or> eq64 x y"

lemma le64_Fin [simp]: "le64 (Fin x) (Fin y) \<longleftrightarrow> x \<le> y"
  by (auto simp: le64_def)

lemma le64_inf [simp]: "le64 (Fin x) PInf" "\<not> le64 PInf (Fin x)" "le64 NInf (Fin x)" "\<not> le64 (Fin x) NInf"
  by (simp_all add: le64_def)

lemma le64_NaN [simp]: "\<not> le64 NaN x" "\<not> le64 x NaN" "\<not> less64 NaN x" "\<not> less64 x NaN" "\<not> eq64 NaN x" "\<not> eq64 x NaN"
  by (cases x; simp add: le64_def)+

lemma finite64_iff: "finite64 x \<longleftrightarrow> (\<exists>r. x = Fin r)"
  by (cases x) auto


section \<open>Rounding\<close>

definition p2 :: "int \<Rightarrow> real" where "p2 k = 2 powr of_int k"

lemma p2_pos [simp]: "0 < p2 k"
  by (simp add: p2_def)

lemma p2_nonneg [simp]: "0 \<le> p2 k"
  by (simp add: p2_def)

lemma p2_not_le_0 [simp]: "\<not> p2 k \<le> 0"
  by (simp add: not_le)

lemma p2_nonzero [simp]: "p2 k \<noteq> 0"
  by (simp add: p2_def)

lemma p2_add: "p2 (a + b) = p2 a * p2 b"
  by (simp add: p2_def powr_add)

lemma p2_diff: "p2 (a - b) = p2 a / p2 b"
  by (simp add: p2_def powr_diff)

lemma p2_mono: "a \<le> b \<Longrightarrow> p2 a \<le> p2 b"
  by (simp add: p2_def)

lemma p2_nat: "0 \<le> k \<Longrightarrow> p2 k = of_int (2 ^ nat k)"
  by (simp add: p2_def powr_real_of_int)

text \<open>Nearest integer, ties to even.\<close>

definition rhe :: "real \<Rightarrow> int" where
  "rhe y = (let f = \<lfloor>y\<rfloor> in
     if y - of_int f < 1 / 2 then f
     else if y - of_int f > 1 / 2 then f + 1
     else if even f then f else f + 1)"

lemma rhe_bounds: "\<lfloor>y\<rfloor> \<le> rhe y" "rhe y \<le> \<lfloor>y\<rfloor> + 1"
  by (simp_all add: rhe_def Let_def)

lemma rhe_int [simp]: "rhe (of_int n) = n"
  by (simp add: rhe_def)

lemma rhe_mono: "x \<le> y \<Longrightarrow> rhe x \<le> rhe y"
proof (cases "\<lfloor>x\<rfloor> = \<lfloor>y\<rfloor>")
  case True
  assume "x \<le> y"
  with True show ?thesis by (auto simp: rhe_def Let_def)
next
  case False
  assume "x \<le> y"
  then have "\<lfloor>x\<rfloor> \<le> \<lfloor>y\<rfloor>" by (rule floor_mono)
  with False rhe_bounds(2) [of x] rhe_bounds(1) [of y] show ?thesis by linarith
qed

lemma rhe_minus: "rhe (- y) = - rhe y"
proof (cases "y = of_int \<lfloor>y\<rfloor>")
  case True
  then show ?thesis by (metis of_int_minus rhe_int)
next
  case False
  then have fl: "\<lfloor>- y\<rfloor> = - \<lfloor>y\<rfloor> - 1" by (simp add: floor_minus ceiling_altdef)
  show ?thesis by (auto simp: rhe_def Let_def fl)
qed

text \<open>The binary exponent of a number, and the spacing of the floats around it.\<close>

definition exponent :: "real \<Rightarrow> int" where "exponent x = \<lfloor>log 2 \<bar>x\<bar>\<rfloor>"
definition ulp_exp :: "real \<Rightarrow> int" where "ulp_exp x = max (exponent x - 52) (- 1074)"
definition ulp :: "real \<Rightarrow> real" where "ulp x = p2 (ulp_exp x)"

definition rnd_real :: "real \<Rightarrow> real" where
  "rnd_real x = (if x = 0 then 0 else of_int (rhe (x / ulp x)) * ulp x)"

definition rnd :: "real \<Rightarrow> f64" where
  "rnd x = (let r = rnd_real x in
     if r \<ge> p2 1024 then PInf else if r \<le> - p2 1024 then NInf else Fin r)"

definition representable :: "real \<Rightarrow> bool" where
  "representable x \<longleftrightarrow> rnd x = Fin x"

lemma rnd_0 [simp]: "rnd 0 = Fin 0"
  by (simp add: rnd_def rnd_real_def)

lemma ulp_pos [simp]: "0 < ulp x"
  by (simp add: ulp_def)

lemma ulp_nonneg [simp]: "0 \<le> ulp x"
  by (simp add: ulp_def)

lemma ulp_nonzero [simp]: "ulp x \<noteq> 0"
  by (simp add: ulp_def)

lemma rnd_real_minus: "rnd_real (- x) = - rnd_real x"
  by (simp add: rnd_real_def ulp_def ulp_exp_def exponent_def rhe_minus)

lemma exponent_bounds: "x \<noteq> 0 \<Longrightarrow> p2 (exponent x) \<le> \<bar>x\<bar> \<and> \<bar>x\<bar> < p2 (exponent x + 1)"
  using floor_log_eq_powr_iff [of "\<bar>x\<bar>" 2 "exponent x"] by (simp add: exponent_def p2_def)

lemma exponent_eq: "p2 e \<le> \<bar>x\<bar> \<Longrightarrow> \<bar>x\<bar> < p2 (e + 1) \<Longrightarrow> exponent x = e"
proof -
  assume a: "p2 e \<le> \<bar>x\<bar>" "\<bar>x\<bar> < p2 (e + 1)"
  then have "0 < \<bar>x\<bar>" by (meson less_le_trans p2_pos)
  then show ?thesis
    using a floor_log_eq_powr_iff [of "\<bar>x\<bar>" 2 e] by (simp add: exponent_def p2_def)
qed

lemma exponent_mono: "0 < x \<Longrightarrow> x \<le> y \<Longrightarrow> exponent x \<le> exponent y"
  by (simp add: exponent_def floor_mono)

lemma rnd_real_nonneg: "0 \<le> x \<Longrightarrow> 0 \<le> rnd_real x"
proof -
  assume "0 \<le> x"
  then have "rhe 0 \<le> rhe (x / ulp x)" by (intro rhe_mono) (simp add: less_imp_le)
  then have "0 \<le> rhe (x / ulp x)" using rhe_int [of 0] by simp
  then show ?thesis by (simp add: rnd_real_def)
qed

lemma rnd_real_le_p2:
  assumes "0 < x" "x \<le> p2 e" "ulp_exp x \<le> e"
  shows "rnd_real x \<le> p2 e"
proof -
  have q: "p2 e / ulp x = of_int (2 ^ nat (e - ulp_exp x))"
    using assms(3) by (simp add: ulp_def flip: p2_diff) (simp add: p2_nat)
  have "x / ulp x \<le> p2 e / ulp x" using assms(2) by (simp add: divide_right_mono)
  then have "rhe (x / ulp x) \<le> 2 ^ nat (e - ulp_exp x)"
    unfolding q using rhe_mono rhe_int by (metis)
  then have "of_int (rhe (x / ulp x)) \<le> p2 e / ulp x" unfolding q by (simp only: of_int_le_iff)
  then show ?thesis using assms(1) by (simp add: rnd_real_def pos_le_divide_eq)
qed

lemma rnd_real_ge_p2:
  assumes "0 < x" "p2 e \<le> x" "ulp_exp x \<le> e"
  shows "p2 e \<le> rnd_real x"
proof -
  have q: "p2 e / ulp x = of_int (2 ^ nat (e - ulp_exp x))"
    using assms(3) by (simp add: ulp_def flip: p2_diff) (simp add: p2_nat)
  have "p2 e / ulp x \<le> x / ulp x" using assms(2) by (simp add: divide_right_mono)
  then have "2 ^ nat (e - ulp_exp x) \<le> rhe (x / ulp x)"
    unfolding q using rhe_mono rhe_int by (metis)
  then have "p2 e / ulp x \<le> of_int (rhe (x / ulp x))" unfolding q by (simp only: of_int_le_iff)
  then show ?thesis using assms(1) by (simp add: rnd_real_def pos_divide_le_eq)
qed

lemma rnd_real_mono_pos:
  assumes "0 < x" "x \<le> y"
  shows "rnd_real x \<le> rnd_real y"
proof (cases "ulp_exp x = ulp_exp y")
  case True
  then have u: "ulp x = ulp y" by (simp add: ulp_def)
  have "x / ulp x \<le> y / ulp x" using assms(2) by (simp add: divide_right_mono)
  then have "rhe (x / ulp x) \<le> rhe (y / ulp x)" by (rule rhe_mono)
  then show ?thesis using assms u by (simp add: rnd_real_def mult_right_mono)
next
  case False
  let ?e = "exponent y"
  have ex: "exponent x \<le> ?e" by (rule exponent_mono [OF assms])
  with False have less: "exponent x < ?e" and big: "- 1074 < ?e - 52"
    by (auto simp: ulp_exp_def)
  have "x \<le> p2 ?e"
    using exponent_bounds [of x] p2_mono [of "exponent x + 1" ?e] less assms(1) by simp
  moreover have "ulp_exp x \<le> ?e" using less big by (simp add: ulp_exp_def)
  ultimately have "rnd_real x \<le> p2 ?e" using assms(1) by (intro rnd_real_le_p2)
  also have "p2 ?e \<le> rnd_real y"
    using exponent_bounds [of y] assms big by (intro rnd_real_ge_p2) (auto simp: ulp_exp_def)
  finally show ?thesis .
qed

lemma rnd_real_mono: "x \<le> y \<Longrightarrow> rnd_real x \<le> rnd_real y"
proof -
  assume le: "x \<le> y"
  consider "0 < x" | "x \<le> 0" "0 \<le> y" | "y < 0" by linarith
  then show ?thesis
  proof cases
    case 1
    then show ?thesis using le by (rule rnd_real_mono_pos)
  next
    case 2
    then show ?thesis
      using rnd_real_nonneg [of y] rnd_real_nonneg [of "- x"] by (simp add: rnd_real_minus)
  next
    case 3
    then show ?thesis
      using rnd_real_mono_pos [of "- y" "- x"] le by (simp add: rnd_real_minus)
  qed
qed

lemma rnd_mono: "x \<le> y \<Longrightarrow> le64 (rnd x) (rnd y)"
  using rnd_real_mono [of x y] by (auto simp: rnd_def Let_def le64_def)

lemma rnd_le_representable: "representable m \<Longrightarrow> x \<le> m \<Longrightarrow> le64 (rnd x) (Fin m)"
  using rnd_mono [of x m] by (simp add: representable_def)

lemma rnd_fin_between:
  assumes "representable a" "representable b" "a \<le> x" "x \<le> b"
  shows "\<exists>r. rnd x = Fin r \<and> a \<le> r \<and> r \<le> b"
  using rnd_mono [OF assms(3)] rnd_mono [OF assms(4)] assms(1,2)
  by (cases "rnd x") (auto simp: representable_def)

lemma rnd_real_fixes: "x = of_int n * ulp x \<Longrightarrow> rnd_real x = x"
  by (metis nonzero_mult_div_cancel_right rhe_int rnd_real_def ulp_nonzero)

lemma p2_multiple_of_ulp: "ulp_exp x \<le> k \<Longrightarrow> p2 k = of_int (2 ^ nat (k - ulp_exp x)) * ulp x"
  using p2_add [of "k - ulp_exp x" "ulp_exp x"] by (simp add: ulp_def p2_nat)

text \<open>Dyadic numbers of at most 53 bits are representable.\<close>

lemma representable_dyadic:
  assumes "\<bar>m\<bar> \<le> 2 ^ 53 - 1" "- 1074 \<le> k" "k \<le> 971"
  shows "representable (of_int m * p2 k)"
proof (cases "m = 0")
  case True
  then show ?thesis by (simp add: representable_def)
next
  case False
  let ?x = "of_int m * p2 k"
  have x0: "?x \<noteq> 0" using False by simp
  have "\<bar>m\<bar> < 2 ^ 53" using assms(1) by simp
  then have "(of_int \<bar>m\<bar> :: real) < of_int (2 ^ 53)" by (simp only: of_int_less_iff)
  then have lt: "\<bar>?x\<bar> < p2 (53 + k)" by (simp add: abs_mult p2_add p2_nat [of 53])
  have "p2 (exponent ?x) < p2 (53 + k)" using exponent_bounds [OF x0] lt by linarith
  then have "exponent ?x < 53 + k" using p2_mono [of "53 + k" "exponent ?x"] by linarith
  then have le: "ulp_exp ?x \<le> k" using assms(2) by (simp add: ulp_exp_def)
  have q: "p2 k = of_int (2 ^ nat (k - ulp_exp ?x)) * ulp ?x"
    using le by (rule p2_multiple_of_ulp)
  have "?x = of_int m * (of_int (2 ^ nat (k - ulp_exp ?x)) * ulp ?x)"
    by (rule arg_cong [OF q])
  then have "?x = of_int (m * 2 ^ nat (k - ulp_exp ?x)) * ulp ?x"
    by (simp only: of_int_mult mult.assoc)
  then have r: "rnd_real ?x = ?x" by (rule rnd_real_fixes)
  have "\<bar>?x\<bar> < p2 1024"
    using lt p2_mono [of "53 + k" 1024] assms(3) by linarith
  then show ?thesis by (simp add: representable_def rnd_def r abs_less_iff)
qed

lemma representable_int: "\<bar>m\<bar> \<le> 2 ^ 53 - 1 \<Longrightarrow> representable (of_int m)"
  using representable_dyadic [of m 0] by (simp add: p2_def)

definition max_f64 :: real where "max_f64 = of_int (2 ^ 53 - 1) * p2 971"

lemma representable_max: "representable max_f64" "representable (- max_f64)"
  using representable_dyadic [of "2 ^ 53 - 1" 971] representable_dyadic [of "- (2 ^ 53 - 1)" 971]
  by (simp_all only: max_f64_def of_int_minus minus_mult_left) simp_all

lemma representable_half_max: "representable (max_f64 / 2)" "representable (- (max_f64 / 2))"
proof -
  have h: "max_f64 / 2 = of_int (2 ^ 53 - 1) * p2 970"
    using p2_add [of 970 1] by (simp add: max_f64_def p2_nat [of 1])
  show "representable (max_f64 / 2)"
    unfolding h by (rule representable_dyadic) simp_all
  have "representable (of_int (- (2 ^ 53 - 1)) * p2 970)" by (rule representable_dyadic) simp_all
  then show "representable (- (max_f64 / 2))" unfolding h by simp
qed


section \<open>Arithmetic\<close>

text \<open>
  The operations the source uses, on finite operands rounded and on the others as IEEE 754
  has them. A quotient by zero is an infinity or NaN; the model's zero carries no sign, and
  no caller divides by zero.
\<close>

fun neg64 :: "f64 \<Rightarrow> f64" where
  "neg64 (Fin x) = Fin (- x)"
| "neg64 PInf = NInf"
| "neg64 NInf = PInf"
| "neg64 NaN = NaN"

fun abs64 :: "f64 \<Rightarrow> f64" where
  "abs64 (Fin x) = Fin \<bar>x\<bar>"
| "abs64 PInf = PInf"
| "abs64 NInf = PInf"
| "abs64 NaN = NaN"

fun add64 :: "f64 \<Rightarrow> f64 \<Rightarrow> f64" where
  "add64 (Fin x) (Fin y) = rnd (x + y)"
| "add64 NaN _ = NaN"
| "add64 _ NaN = NaN"
| "add64 PInf NInf = NaN"
| "add64 NInf PInf = NaN"
| "add64 PInf _ = PInf"
| "add64 _ PInf = PInf"
| "add64 NInf _ = NInf"
| "add64 _ NInf = NInf"

definition sub64 :: "f64 \<Rightarrow> f64 \<Rightarrow> f64" where "sub64 x y = add64 x (neg64 y)"

definition inf_of_sign :: "real \<Rightarrow> f64" where
  "inf_of_sign s = (if s > 0 then PInf else if s < 0 then NInf else NaN)"

fun mul64 :: "f64 \<Rightarrow> f64 \<Rightarrow> f64" where
  "mul64 (Fin x) (Fin y) = rnd (x * y)"
| "mul64 NaN _ = NaN"
| "mul64 _ NaN = NaN"
| "mul64 PInf (Fin y) = inf_of_sign y"
| "mul64 (Fin x) PInf = inf_of_sign x"
| "mul64 NInf (Fin y) = inf_of_sign (- y)"
| "mul64 (Fin x) NInf = inf_of_sign (- x)"
| "mul64 PInf PInf = PInf"
| "mul64 NInf NInf = PInf"
| "mul64 PInf NInf = NInf"
| "mul64 NInf PInf = NInf"

fun div64 :: "f64 \<Rightarrow> f64 \<Rightarrow> f64" where
  "div64 (Fin x) (Fin y) = (if y = 0 then inf_of_sign x else rnd (x / y))"
| "div64 NaN _ = NaN"
| "div64 _ NaN = NaN"
| "div64 (Fin _) _ = Fin 0"
| "div64 PInf (Fin y) = (if y \<ge> 0 then PInf else NInf)"
| "div64 NInf (Fin y) = (if y \<ge> 0 then NInf else PInf)"
| "div64 _ _ = NaN"

text \<open>\<open>float64(n)\<close>, \<open>math.Round\<close> (halves away from zero) and the conversion to \<open>int\<close>.\<close>

definition of_int64 :: "int \<Rightarrow> f64" where "of_int64 n = rnd (of_int n)"

definition round_away :: "real \<Rightarrow> int" where
  "round_away x = (if x < 0 then - \<lfloor>\<bar>x\<bar> + 1 / 2\<rfloor> else \<lfloor>x + 1 / 2\<rfloor>)"

lemma round_away_mono: "x \<le> y \<Longrightarrow> round_away x \<le> round_away y"
proof -
  assume le: "x \<le> y"
  then have "\<lfloor>- y + 1 / 2\<rfloor> \<le> \<lfloor>- x + 1 / 2\<rfloor>" "\<lfloor>x + 1 / 2\<rfloor> \<le> \<lfloor>y + 1 / 2\<rfloor>"
    by (auto intro: floor_mono)
  note fl = this
  show ?thesis
  proof (cases "x < 0 \<and> 0 \<le> y")
    case True
    then have "round_away x \<le> 0" "0 \<le> round_away y" by (simp_all add: round_away_def)
    then show ?thesis by linarith
  next
    case False
    then show ?thesis using le fl by (auto simp: round_away_def)
  qed
qed

lemma round_away_int [simp]: "round_away (of_int n) = n"
  by (simp add: round_away_def)

end
