(* ===== verification/Core.thy ===== *)
theory Core
  imports Prelude Float64 "HOL-Library.Multiset"
begin

text \<open>
  The domain model of internal/core: error values and their chains (errors.go), proof
  levels (proof.go), checks and their results (check.go), runs and steps (run.go), the
  provider-neutral types (types.go, exec.go, provider.go).

  A Go string type with named constants is a datatype of those constants; where the code
  has a case for the zero value or for a value read from outside, the datatype has a
  constructor for it. An optional pointer is an \<open>option\<close>.
\<close>

section \<open>Errors\<close>

text \<open>
  The sentinels of core/errors.go, those of recovery, store, catalog and the context package that
  the modelled code compares against. Sentinels are compared by identity.
\<close>

datatype sentinel =
    ErrNotFound | ErrNoBackup | ErrNotManaged | ErrNetworkNotIsolated | ErrIsolationUnverified
  | ErrUnauthorized | ErrInsufficientCapacity | ErrUnsupported | ErrGuestAgentUnavailable
  | ErrTimeout | ErrCancelled
  | ErrChecksInconclusive
  | CtxCanceled | CtxDeadlineExceeded
  | StoreNotFound | StoreAmbiguous | StoreNoHistory | StoreDuplicate | StoreVersionConflict
  | StoreNoWork | StoreAlreadySettled | CatalogInvalid

fun sentinel_text :: "sentinel \<Rightarrow> string" where
  "sentinel_text ErrNotFound = ''not found''"
| "sentinel_text ErrNoBackup = ''no backup available''"
| "sentinel_text ErrNotManaged = ''resource is not managed by restorelab''"
| "sentinel_text ErrNetworkNotIsolated = ''restore network is not isolated''"
| "sentinel_text ErrIsolationUnverified = ''network isolation could not be verified''"
| "sentinel_text ErrUnauthorized = ''unauthorized''"
| "sentinel_text ErrInsufficientCapacity = ''insufficient capacity''"
| "sentinel_text ErrUnsupported = ''unsupported operation''"
| "sentinel_text ErrGuestAgentUnavailable = ''guest agent unavailable''"
| "sentinel_text ErrTimeout = ''timeout''"
| "sentinel_text ErrCancelled = ''cancelled''"
| "sentinel_text ErrChecksInconclusive = ''critical check(s) could not run''"
| "sentinel_text CtxCanceled = ''context canceled''"
| "sentinel_text CtxDeadlineExceeded = ''context deadline exceeded''"
| "sentinel_text StoreNotFound = ''store: run not found''"
| "sentinel_text StoreAmbiguous = ''store: id prefix matches more than one run''"
| "sentinel_text StoreNoHistory = ''store: no history database is configured''"
| "sentinel_text StoreDuplicate = ''store: that name is already taken''"
| "sentinel_text StoreVersionConflict = ''store: the plan changed since it was read''"
| "sentinel_text StoreNoWork = ''store: no queued run to claim''"
| "sentinel_text StoreAlreadySettled = ''store: run has already settled''"
| "sentinel_text CatalogInvalid = ''catalog: the plan is not valid''"

text \<open>
  An error value. \<open>Plain m\<close> is an error made on the spot with no chain behind it
  (\<open>errors.New\<close>, \<open>fmt.Errorf\<close> without \<open>%w\<close>); \<open>Wrapped m e\<close> is \<open>fmt.Errorf\<close> with one \<open>%w\<close>: the
  rendered text and the error it wraps; \<open>Retry_Err e\<close> is core.RetryableError; \<open>Joined es\<close> is
  \<open>errors.Join\<close>.
\<close>

datatype goerr =
    Sentinel sentinel
  | Plain string
  | Wrapped string goerr
  | Retry_Err goerr
  | Joined "goerr list"

fun err_text :: "goerr \<Rightarrow> string" where
  "err_text (Sentinel s) = sentinel_text s"
| "err_text (Plain m) = m"
| "err_text (Wrapped m e) = m"
| "err_text (Retry_Err e) = err_text e"
| "err_text (Joined es) = join [char_of (10 :: nat)] (map err_text es)"

text \<open>\<open>fmt.Errorf("%w" + rest, err)\<close>, the one shape of wrapping the source uses most.\<close>

definition wrap_prefix :: "goerr \<Rightarrow> string \<Rightarrow> goerr" where
  "wrap_prefix e rest = Wrapped (err_text e @ rest) e"

text \<open>\<open>errors.Is(e, s)\<close> for a sentinel \<open>s\<close>: the chain of \<open>Unwrap\<close> holds it.\<close>

fun errors_is :: "goerr \<Rightarrow> sentinel \<Rightarrow> bool" where
  "errors_is (Sentinel t) s = (t = s)"
| "errors_is (Plain m) s = False"
| "errors_is (Wrapped m e) s = errors_is e s"
| "errors_is (Retry_Err e) s = errors_is e s"
| "errors_is (Joined es) s = (\<exists>e \<in> set es. errors_is e s)"

text \<open>\<open>core.Retryable\<close> and \<open>core.IsRetryable\<close> (\<open>errors.As\<close> for a *RetryableError).\<close>

definition retryable :: "goerr option \<Rightarrow> goerr option" where
  "retryable e = (case e of None \<Rightarrow> None | Some e \<Rightarrow> Some (Retry_Err e))"

fun is_retryable :: "goerr \<Rightarrow> bool" where
  "is_retryable (Retry_Err e) = True"
| "is_retryable (Wrapped m e) = is_retryable e"
| "is_retryable (Joined es) = (\<exists>e \<in> set es. is_retryable e)"
| "is_retryable (Sentinel s) = False"
| "is_retryable (Plain m) = False"

lemma errors_is_wrap_prefix [simp]: "errors_is (wrap_prefix e m) s = errors_is e s"
  by (simp add: wrap_prefix_def)

lemma is_retryable_wrap_prefix [simp]: "is_retryable (wrap_prefix e m) = is_retryable e"
  by (simp add: wrap_prefix_def)


section \<open>Proof levels\<close>

datatype proof_level =
  ProofUnknown | ProofNone | ProofBoot | ProofService | ProofData | ProofOther string

text \<open>\<open>ProofOther s\<close> is a level read back that this build does not know; \<open>s\<close> is none of the known names.\<close>

fun rank :: "proof_level \<Rightarrow> int" where
  "rank ProofNone = 0"
| "rank ProofBoot = 1"
| "rank ProofService = 2"
| "rank ProofData = 3"
| "rank ProofUnknown = - 1"
| "rank (ProofOther _) = - 1"

definition recorded :: "proof_level \<Rightarrow> bool" where "recorded l \<longleftrightarrow> rank l \<ge> 0"

definition at_least :: "proof_level \<Rightarrow> proof_level \<Rightarrow> bool" where
  "at_least l other \<longleftrightarrow> rank l \<ge> rank other"

definition raise_to :: "proof_level \<Rightarrow> proof_level \<Rightarrow> proof_level" where
  "raise_to l other = (if rank other > rank l then other else l)"

text \<open>The conversion \<open>ProofLevel(s)\<close> of a string to the string type.\<close>

definition proof_level_of :: "string \<Rightarrow> proof_level" where
  "proof_level_of s =
     (if s = '''' then ProofUnknown else if s = ''NONE'' then ProofNone
      else if s = ''BOOT'' then ProofBoot else if s = ''SERVICE'' then ProofService
      else if s = ''DATA'' then ProofData else ProofOther s)"

definition parse_proof_level :: "string \<Rightarrow> proof_level \<times> bool" where
  "parse_proof_level s =
     (let l = proof_level_of s
      in if l = ProofUnknown \<or> recorded l then (l, True) else (ProofUnknown, False))"

fun proof_level_string :: "proof_level \<Rightarrow> string" where
  "proof_level_string ProofUnknown = ''not recorded''"
| "proof_level_string ProofNone = ''NONE''"
| "proof_level_string ProofBoot = ''BOOT''"
| "proof_level_string ProofService = ''SERVICE''"
| "proof_level_string ProofData = ''DATA''"
| "proof_level_string (ProofOther s) = s"

fun proof_describe :: "proof_level \<Rightarrow> string" where
  "proof_describe ProofNone = ''nothing was verified inside the guest''"
| "proof_describe ProofBoot = ''only the boot was verified''"
| "proof_describe ProofService = ''the service was verified, the data was not''"
| "proof_describe ProofData = ''the service and its data were verified''"
| "proof_describe _ = ''the proof level was not recorded''"

lemma rank_raise_to [simp]: "rank (raise_to l m) = max (rank l) (rank m)"
  by (simp add: raise_to_def)

lemma raise_to_cases: "raise_to l m = l \<or> raise_to l m = m"
  by (simp add: raise_to_def)

lemma rank_range: "- 1 \<le> rank l \<and> rank l \<le> 3"
  by (cases l) simp_all

lemma recorded_inj: "recorded l \<Longrightarrow> rank l = rank m \<Longrightarrow> l = m"
  by (cases l; cases m) (simp_all add: recorded_def)


section \<open>Checks\<close>

text \<open>
  A value of Go's \<open>any\<close> as YAML decoding produces it. A number with a fraction carries the
  text the \<open>%v\<close> verb prints for it, the shortest decimal that reads back as the number.
\<close>

datatype anyval =
    AnyNil | AnyBool bool | AnyInt int | AnyFloat f64 string | AnyString string
  | AnyList "anyval list" | AnyMap "(string \<times> anyval) list"

type_synonym params = "(string \<times> anyval) list"

text \<open>
  The values a check puts in its details, and the \<open>[]any\<close> and \<open>map[string]any\<close> that JSON
  decoding makes of them.
\<close>

datatype detail =
    DetailInt int | DetailBool bool | DetailString string | DetailStrings "string list"
  | DetailFloats "(string \<times> f64) list" | DetailFloat f64
  | DetailList "detail list" | DetailMap "(string \<times> detail) list"

record assert_spec =
  as_min :: "f64 option"
  as_max :: "f64 option"
  as_equals :: "f64 option"

text \<open>\<open>AssertSpec.Any\<close>, on the nil pointer too.\<close>

definition assert_any :: "assert_spec option \<Rightarrow> bool" where
  "assert_any a = (case a of None \<Rightarrow> False
     | Some a \<Rightarrow> as_min a \<noteq> None \<or> as_max a \<noteq> None \<or> as_equals a \<noteq> None)"

record drift_spec =
  max_drop :: f64
  max_drop_is_percent :: bool

record check_config =
  cc_type :: string
  cc_name :: string
  cc_timeout :: duration
  cc_retries :: int
  cc_retry_interval :: duration
  cc_critical :: bool
  cc_params :: params
  cc_proves :: proof_level
  cc_capture :: string
  cc_assert :: "assert_spec option"
  cc_drift :: "drift_spec option"

text \<open>\<open>CheckOther\<close> stands for any other status a check implementation could return.\<close>

datatype check_status = CheckPass | CheckFail | CheckError | CheckSkipped | CheckOther string

record check_result =
  cr_name :: string
  cr_type :: string
  cr_status :: check_status
  cr_started_at :: time
  cr_completed_at :: time
  cr_duration :: duration
  cr_attempts :: int
  cr_message :: string
  cr_details :: "(string \<times> detail) list"

definition cr_ok :: "check_result \<Rightarrow> bool" where "cr_ok r \<longleftrightarrow> cr_status r = CheckPass"

text \<open>
  What a check runs against. Exec and Baseline are interface values; the record says
  whether they are present, and the definitions that call them take them as arguments.
\<close>

record target =
  tg_ip :: string
  tg_ips :: "string list"
  tg_workload_id :: string
  tg_node :: string
  tg_name :: string
  tg_vars :: "(string \<times> string) list"
  tg_exec :: bool
  tg_baseline :: bool

definition template_vars :: "target \<Rightarrow> (string \<rightharpoonup> string)" where
  "template_vars t =
     [''ip'' \<mapsto> tg_ip t, ''id'' \<mapsto> tg_workload_id t, ''node'' \<mapsto> tg_node t,
      ''name'' \<mapsto> tg_name t, ''target'' \<mapsto> tg_ip t] ++ map_of (tg_vars t)"

text \<open>A check's configuration paired with its result, and what a set of them established.\<close>

record proof_check =
  pc_config :: check_config
  pc_result :: check_result

fun proven_by_from :: "proof_level \<Rightarrow> proof_check list \<Rightarrow> proof_level" where
  "proven_by_from level [] = level"
| "proven_by_from level (c # cs) =
     (if cr_status (pc_result c) \<noteq> CheckPass then proven_by_from level cs
      else proven_by_from (raise_to level (cc_proves (pc_config c))) cs)"

definition proven_by :: "proof_check list \<Rightarrow> proof_level" where
  "proven_by checks = proven_by_from ProofNone checks"


section \<open>Runs\<close>

text \<open>\<open>RunNoState\<close> and \<open>ResultNone\<close> are the empty strings of the two types.\<close>

datatype run_state =
    RunNoState | RunQueued | RunDiscoveringBackup | RunPreparing | RunRestoring | RunStarting
  | RunWaitingForGuest | RunRunningChecks | RunGeneratingReport | RunCleaningUp
  | RunSuccess | RunFailed | RunCancelled | RunCleanupFailed | RunInconclusive

fun terminal :: "run_state \<Rightarrow> bool" where
  "terminal RunSuccess = True"
| "terminal RunFailed = True"
| "terminal RunCancelled = True"
| "terminal RunCleanupFailed = True"
| "terminal RunInconclusive = True"
| "terminal _ = False"

datatype run_result = ResultNone | ResultSuccess | ResultDegraded | ResultFailed

fun result_string :: "run_result \<Rightarrow> string" where
  "result_string ResultNone = ''''"
| "result_string ResultSuccess = ''SUCCESS''"
| "result_string ResultDegraded = ''DEGRADED''"
| "result_string ResultFailed = ''FAILED''"

datatype step_status = StepPending | StepRunning | StepDone | StepFailed | StepSkipped

record step =
  st_name :: string
  st_state :: run_state
  st_status :: step_status
  st_started_at :: time
  st_completed_at :: time
  st_duration :: duration
  st_message :: string
  st_err :: string
  st_details :: "(string \<times> detail) list"

datatype verification_state =
  VerificationOK | VerificationFailed | VerificationNone | VerificationUnknown

record backup =
  bk_id :: string
  bk_workload_id :: string
  bk_provider_id :: string
  bk_datastore :: string
  bk_node :: string
  bk_created_at :: time
  bk_size_bytes :: int
  bk_protected :: bool
  bk_encrypted :: bool
  bk_verified :: verification_state
  bk_format :: string
  bk_notes :: string

record recovery_run =
  run_id :: string
  run_plan_name :: string
  run_plan_id :: string
  run_plan_version :: int
  run_provider_id :: string
  run_backup_provider_id :: string
  run_source_workload_id :: string
  run_source_name :: string
  run_temp_workload_id :: string
  run_temp_name :: string
  run_node :: string
  run_backup :: "backup option"
  run_state :: run_state
  run_result :: run_result
  run_proof_level :: proof_level
  run_started_at :: time
  run_completed_at :: time
  run_steps :: "step list"
  run_checks :: "check_result list"
  run_rto :: duration
  run_rto_target :: duration
  run_cleanup_done :: bool
  run_err :: string

definition rto_exceeded :: "recovery_run \<Rightarrow> bool" where
  "rto_exceeded r \<longleftrightarrow> run_rto_target r > 0 \<and> run_rto r > run_rto_target r"

fun step_duration_of :: "step list \<Rightarrow> string \<Rightarrow> duration" where
  "step_duration_of [] name = 0"
| "step_duration_of (s # ss) name =
     (if st_name s = name then st_duration s else step_duration_of ss name)"

definition step_duration :: "recovery_run \<Rightarrow> string \<Rightarrow> duration" where
  "step_duration r name = step_duration_of (run_steps r) name"

definition failed_checks :: "recovery_run \<Rightarrow> check_result list" where
  "failed_checks r = filter (\<lambda>c. \<not> cr_ok c) (run_checks r)"


section \<open>Provider-neutral types\<close>

datatype workload_kind = KindVM | KindContainer | KindUnknown
datatype power_state = PowerRunning | PowerStopped | PowerPaused | PowerUnknown | PowerOther string

fun power_string :: "power_state \<Rightarrow> string" where
  "power_string PowerRunning = ''running''"
| "power_string PowerStopped = ''stopped''"
| "power_string PowerPaused = ''paused''"
| "power_string PowerUnknown = ''unknown''"
| "power_string (PowerOther s) = s"

record node =
  nd_id :: string
  nd_name :: string
  nd_cluster :: string
  nd_online :: bool
  nd_cpu_cores :: int
  nd_cpu_usage :: f64
  nd_memory_total :: int
  nd_memory_used :: int
  nd_disk_total :: int
  nd_disk_used :: int

definition memory_free_bytes :: "node \<Rightarrow> int" where
  "memory_free_bytes n =
     (let free = wrap64 (nd_memory_total n - nd_memory_used n) in if free > 0 then free else 0)"

record workload =
  wl_id :: string
  wl_name :: string
  wl_kind :: workload_kind
  wl_node :: string
  wl_cluster :: string
  wl_tags :: "string list"
  wl_cpu_cores :: int
  wl_memory_bytes :: int
  wl_disk_bytes :: int
  wl_power_state :: power_state
  wl_template :: bool
  wl_managed :: bool
  wl_recovery_run_id :: string

record network_config =
  nw_bridge :: string
  nw_model :: string
  nw_vlan_tag :: int
  nw_firewall :: bool
  nw_isolated :: bool

record restore_options =
  ro_target_workload_id :: string
  ro_name :: string
  ro_node :: string
  ro_storage :: string
  ro_pool :: string
  ro_network :: network_config
  ro_cpu_limit :: int
  ro_memory_limit_mb :: int
  ro_bandwidth_kibps :: int
  ro_start :: bool
  ro_metadata :: "(string \<times> string) list"

record restore_job =
  rj_id :: string
  rj_workload_id :: string
  rj_node :: string
  rj_started_at :: time

record task_state =
  ts_id :: string
  ts_running :: bool
  ts_success :: bool
  ts_exit_code :: string
  ts_message :: string

record workload_status =
  ws_id :: string
  ws_power_state :: power_state
  ws_uptime :: duration
  ws_agent_ready :: bool
  ws_ips :: "string list"
  ws_cpu_usage :: f64
  ws_memory_bytes :: int

definition is_ipv6 :: "string \<Rightarrow> bool" where "is_ipv6 ip \<longleftrightarrow> CHR '':'' \<in> set ip"

text \<open>The first IPv4 address, or the first address of any kind.\<close>

definition primary_ip :: "workload_status \<Rightarrow> string" where
  "primary_ip s =
     (case find (\<lambda>ip. \<not> is_ipv6 ip) (ws_ips s) of
        Some ip \<Rightarrow> ip
      | None \<Rightarrow> (case ws_ips s of [] \<Rightarrow> '''' | ip # _ \<Rightarrow> ip))"

record guest_os =
  go_family :: string
  go_id :: string
  go_name :: string
  go_pretty_name :: string
  go_version :: string

definition guest_os_string :: "guest_os \<Rightarrow> string" where
  "guest_os_string g =
     (if go_pretty_name g \<noteq> '''' then go_pretty_name g
      else if go_name g \<noteq> '''' \<and> go_version g \<noteq> '''' then go_name g @ '' '' @ go_version g
      else if go_name g \<noteq> '''' then go_name g
      else if go_id g \<noteq> '''' then go_id g
      else ''unknown'')"

definition metadata_managed :: string where "metadata_managed = ''restorelab_managed''"
definition metadata_run_id :: string where "metadata_run_id = ''restorelab_run_id''"
definition metadata_source_id :: string where "metadata_source_id = ''restorelab_source_id''"
definition metadata_created_at :: string where "metadata_created_at = ''restorelab_created_at''"

definition default_temp_id_min :: int where "default_temp_id_min = 9000"
definition default_temp_id_max :: int where "default_temp_id_max = 9999"


section \<open>What accumulating proof levels promises\<close>

text \<open>
  The interface between a level that is accumulated fact by fact and whoever reads the
  result: raising keeps one of the two arguments, and the rank of the result is the larger
  of the two ranks. Everything about a run's final level follows from these two laws.
\<close>

locale ladder =
  fixes rk :: "'l \<Rightarrow> int" and up :: "'l \<Rightarrow> 'l \<Rightarrow> 'l"
  assumes rk_up: "rk (up a b) = max (rk a) (rk b)"
    and up_cases: "up a b = a \<or> up a b = b"
begin

lemma rk_foldl: "rk (foldl up a bs) = Max (insert (rk a) (rk ` set bs))"
proof (induction bs arbitrary: a)
  case (Cons b bs)
  have "Max (insert (max (rk a) (rk b)) (rk ` set bs)) = Max (insert (rk a) (insert (rk b) (rk ` set bs)))"
    by (cases "set bs = {}") (simp_all add: max.assoc)
  then show ?case by (simp add: Cons rk_up)
qed simp

lemma foldl_in: "foldl up a bs \<in> insert a (set bs)"
proof (induction bs arbitrary: a)
  case (Cons b bs)
  from Cons [of "up a b"] show ?case using up_cases [of a b] by auto
qed simp

lemma foldl_ge_start: "rk a \<le> rk (foldl up a bs)"
  by (simp add: rk_foldl)

lemma foldl_ge_member: "b \<in> set bs \<Longrightarrow> rk b \<le> rk (foldl up a bs)"
  by (simp add: rk_foldl)

lemma rk_foldl_mset: "mset bs = mset cs \<Longrightarrow> rk (foldl up a bs) = rk (foldl up a cs)"
  using mset_eq_setD by (fastforce simp: rk_foldl)

end

interpretation proof_ladder: ladder rank raise_to
  by unfold_locales (simp_all add: raise_to_cases)

definition passed :: "proof_check \<Rightarrow> bool" where
  "passed c \<longleftrightarrow> cr_status (pc_result c) = CheckPass"

definition passed_levels :: "proof_check list \<Rightarrow> proof_level list" where
  "passed_levels cs = map (\<lambda>c. cc_proves (pc_config c)) (filter passed cs)"

lemma proven_by_from_foldl: "proven_by_from l cs = foldl raise_to l (passed_levels cs)"
  by (induction cs arbitrary: l) (simp_all add: passed_levels_def passed_def)

lemma proven_by_foldl: "proven_by cs = foldl raise_to ProofNone (passed_levels cs)"
  by (simp add: proven_by_def proven_by_from_foldl)

lemma recorded_proven_by: "recorded (proven_by cs)"
  using proof_ladder.foldl_ge_start [of ProofNone "passed_levels cs"]
  by (simp add: recorded_def proven_by_foldl)

end
