(* ===== verification/Plan.thy ===== *)
theory Plan
  imports Core
begin

text \<open>
  Recovery plans, internal/plan: the plan document's types (plan.go), the defaults, the
  validation, what each check would prove (proof.go), the bounds on captured values
  (values.go) and the schedule field (schedule.go).

  Reading YAML itself is the work of a third-party decoder. The model starts from what the
  decoder hands the code: for a check, the raw mapping and the typed head. Cron expressions
  and time zones are likewise read by code outside the repository; \<open>sched_env\<close> holds those
  functions.
\<close>

section \<open>The plan document\<close>

definition default_startup_timeout :: duration where "default_startup_timeout = 5 * minute"
definition default_check_timeout :: duration where "default_check_timeout = 30 * second"
definition default_restore_timeout :: duration where "default_restore_timeout = 60 * minute"
definition default_retry_interval :: duration where "default_retry_interval = 5 * second"
definition default_guest_poll_every :: duration where "default_guest_poll_every = 3 * second"

datatype backup_strategy = StrategyLatest | StrategySpecific | StrategyOther string

text \<open>\<open>StrategyOther ''''\<close> is the strategy of a plan that names none.\<close>

record workload_ref =
  wr_provider :: string
  wr_id :: string
  wr_name :: string

record backup_spec =
  bs_provider :: string
  bs_strategy :: backup_strategy
  bs_id :: string
  bs_max_age :: duration

record restore_spec =
  rs_node :: string
  rs_storage :: string
  rs_pool :: string
  rs_network :: string
  rs_bridge :: string
  rs_cpu_limit :: int
  rs_memory_limit_mb :: int
  rs_bandwidth_kibps :: int
  rs_timeout :: duration

record startup_spec =
  su_skip :: bool
  su_timeout :: duration
  su_wait_for_ip :: "bool option"
  su_wait_for_agent :: "bool option"
  su_ip :: string

record cleanup_spec =
  cl_always :: "bool option"
  cl_keep_on_failure :: bool

record check_spec =
  ck_type :: string
  ck_name :: string
  ck_timeout :: duration
  ck_retries :: int
  ck_retry_interval :: duration
  ck_critical :: "bool option"
  ck_params :: params
  ck_proves :: string
  ck_capture :: string
  ck_assert :: "assert_spec option"
  ck_drift :: "drift_spec option"

record plan =
  pl_name :: string
  pl_description :: string
  pl_tags :: "string list"
  pl_workload :: workload_ref
  pl_backup :: backup_spec
  pl_restore :: restore_spec
  pl_startup :: startup_spec
  pl_checks :: "check_spec list"
  pl_cleanup :: cleanup_spec
  pl_rto_target :: duration
  pl_schedule :: string
  pl_schedule_timezone :: string

definition waits_for_ip :: "startup_spec \<Rightarrow> bool" where
  "waits_for_ip s \<longleftrightarrow> su_wait_for_ip s \<noteq> None \<and> the (su_wait_for_ip s)"

definition waits_for_agent :: "startup_spec \<Rightarrow> bool" where
  "waits_for_agent s \<longleftrightarrow> su_wait_for_agent s \<noteq> None \<and> the (su_wait_for_agent s)"

definition cleanup_always :: "cleanup_spec \<Rightarrow> bool" where
  "cleanup_always c \<longleftrightarrow> cl_always c = None \<or> the (cl_always c)"

definition is_critical :: "check_spec \<Rightarrow> bool" where
  "is_critical c \<longleftrightarrow> ck_critical c = None \<or> the (ck_critical c)"

text \<open>\<open>Duration.Or\<close>.\<close>

definition dur_or :: "duration \<Rightarrow> duration \<Rightarrow> duration" where
  "dur_or d fallback = (if d = 0 then fallback else d)"


section \<open>Names of checks\<close>

text \<open>The \<open>%v\<close> verb on a decoded YAML value; a map prints its keys in order.\<close>

fun insert_pair :: "string \<times> string \<Rightarrow> (string \<times> string) list \<Rightarrow> (string \<times> string) list" where
  "insert_pair p [] = [p]"
| "insert_pair p (q # qs) = (if str_le_code (fst p) (fst q) then p # q # qs else q # insert_pair p qs)"

fun fmt_v :: "anyval \<Rightarrow> string" where
  "fmt_v AnyNil = ''<nil>''"
| "fmt_v (AnyBool b) = (if b then ''true'' else ''false'')"
| "fmt_v (AnyInt n) = itoa n"
| "fmt_v (AnyFloat _ t) = t"
| "fmt_v (AnyString s) = s"
| "fmt_v (AnyList vs) = ''['' @ join '' '' (map fmt_v vs) @ '']''"
| "fmt_v (AnyMap kvs) =
     ''map['' @ join '' '' (map (\<lambda>(k, t). k @ '':'' @ t)
        (foldr insert_pair (map (\<lambda>(k, v). (k, fmt_v v)) kvs) [])) @ '']''"

text \<open>The \<open>%T\<close> verb on a decoded YAML value.\<close>

fun go_type :: "anyval \<Rightarrow> string" where
  "go_type AnyNil = ''<nil>''"
| "go_type (AnyBool _) = ''bool''"
| "go_type (AnyInt _) = ''int''"
| "go_type (AnyFloat _ _) = ''float64''"
| "go_type (AnyString _) = ''string''"
| "go_type (AnyList _) = ''[]interface {}''"
| "go_type (AnyMap _) = ''map[string]interface {}''"

definition display_name :: "check_spec \<Rightarrow> string" where
  "display_name c =
     (if ck_name c \<noteq> '''' then ck_name c
      else case map_of (ck_params c) ''port'' of
             Some port \<Rightarrow> to_upper (ck_type c) @ '' '' @ fmt_v port
           | None \<Rightarrow> to_upper (ck_type c))"


section \<open>Reading and writing one check\<close>

text \<open>\<open>reservedCheckKeys\<close> and the typed head that \<open>UnmarshalYAML\<close> decodes beside the raw mapping.\<close>

definition reserved_check_keys :: "string list" where
  "reserved_check_keys =
     [''type'', ''name'', ''timeout'', ''retries'', ''retry_interval'', ''critical'',
      ''proves'', ''capture'', ''assert'', ''drift'']"

record max_drop_yaml =
  md_value :: f64
  md_is_percent :: bool

record check_head =
  hd_type :: string
  hd_name :: string
  hd_timeout :: duration
  hd_retries :: int
  hd_retry_interval :: duration
  hd_critical :: "bool option"
  hd_proves :: string
  hd_capture :: string
  hd_assert :: "assert_spec option"
  hd_drift :: "max_drop_yaml option"

text \<open>\<open>assertSpec.core\<close> and \<open>driftSpec.core\<close>.\<close>

definition assert_core :: "assert_spec option \<Rightarrow> assert_spec option" where
  "assert_core a = (case a of None \<Rightarrow> None
     | Some a \<Rightarrow> Some \<lparr>as_min = as_min a, as_max = as_max a, as_equals = as_equals a\<rparr>)"

definition drift_core :: "max_drop_yaml option \<Rightarrow> drift_spec option" where
  "drift_core d = (case d of None \<Rightarrow> None
     | Some d \<Rightarrow> Some \<lparr>max_drop = md_value d, max_drop_is_percent = md_is_percent d\<rparr>)"

definition unmarshal_check :: "check_head \<Rightarrow> params \<Rightarrow> check_spec" where
  "unmarshal_check h raw =
     \<lparr>ck_type = hd_type h, ck_name = hd_name h, ck_timeout = hd_timeout h,
      ck_retries = hd_retries h, ck_retry_interval = hd_retry_interval h,
      ck_critical = hd_critical h,
      ck_params = filter (\<lambda>(k, v). k \<notin> set reserved_check_keys) raw,
      ck_proves = hd_proves h, ck_capture = trim_space (hd_capture h),
      ck_assert = assert_core (hd_assert h), ck_drift = drift_core (hd_drift h)\<rparr>"

text \<open>
  \<open>maxDrop.UnmarshalYAML\<close> and \<open>parseTolerance\<close>; \<open>pf\<close> is \<open>strconv.ParseFloat\<close>, \<open>None\<close> its error.
\<close>

definition parse_tolerance :: "(string \<Rightarrow> f64 option) \<Rightarrow> string \<Rightarrow> goerr + f64" where
  "parse_tolerance pf s =
     (case pf (trim_space s) of
        None \<Rightarrow> Inl (Plain (''invalid max_drop '' @ quoted s @
           '': write a percentage like \"10%\" or a number of units''))
      | Some f \<Rightarrow>
          if \<not> finite64 f then
            Inl (Plain (''invalid max_drop '' @ quoted s @
              '': a tolerance that compares false against every value is a check that passes forever''))
          else Inr f)"

definition unmarshal_max_drop :: "(string \<Rightarrow> f64 option) \<Rightarrow> anyval \<Rightarrow> goerr + max_drop_yaml" where
  "unmarshal_max_drop pf raw =
     (case raw of
        AnyString v \<Rightarrow>
          (let s = trim_space v in
           if s \<noteq> [] \<and> last s = CHR ''%'' then
             (case parse_tolerance pf (butlast s) of
                Inl e \<Rightarrow> Inl e | Inr f \<Rightarrow> Inr \<lparr>md_value = f, md_is_percent = True\<rparr>)
           else
             (case parse_tolerance pf s of
                Inl e \<Rightarrow> Inl e | Inr f \<Rightarrow> Inr \<lparr>md_value = f, md_is_percent = False\<rparr>))
      | AnyInt n \<Rightarrow> Inr \<lparr>md_value = of_int64 n, md_is_percent = False\<rparr>
      | AnyFloat f t \<Rightarrow>
          if \<not> finite64 f then
            Inl (Plain (''invalid max_drop '' @ t @
              '': a tolerance that compares false against every value is a check that passes forever''))
          else Inr \<lparr>md_value = f, md_is_percent = False\<rparr>
      | _ \<Rightarrow> Inl (Plain (''invalid max_drop '' @ fmt_v raw @ '' ('' @ go_type raw @
              ''): write a percentage like \"10%\" or a number of units'')))"

text \<open>
  \<open>CheckSpec.MarshalYAML\<close>: the flat mapping, typed fields over parameters. \<open>ff\<close> renders a
  float as \<open>strconv.FormatFloat(f, 'f', -1, 64)\<close> does, \<open>ft\<close> as the \<open>%v\<close> verb; a duration is
  written as \<open>Duration.MarshalYAML\<close> writes it.
\<close>

definition assert_yaml :: "(f64 \<Rightarrow> string) \<Rightarrow> assert_spec \<Rightarrow> params" where
  "assert_yaml ft a =
     (case as_min a of None \<Rightarrow> [] | Some f \<Rightarrow> [(''min'', AnyFloat f (ft f))]) @
     (case as_max a of None \<Rightarrow> [] | Some f \<Rightarrow> [(''max'', AnyFloat f (ft f))]) @
     (case as_equals a of None \<Rightarrow> [] | Some f \<Rightarrow> [(''equals'', AnyFloat f (ft f))])"

definition drift_yaml :: "(f64 \<Rightarrow> string) \<Rightarrow> (f64 \<Rightarrow> string) \<Rightarrow> drift_spec \<Rightarrow> params" where
  "drift_yaml ff ft d =
     (if max_drop_is_percent d then [(''max_drop'', AnyString (ff (max_drop d) @ ''%''))]
      else [(''max_drop'', AnyFloat (max_drop d) (ft (max_drop d)))])"

definition dur_yaml :: "duration \<Rightarrow> anyval" where
  "dur_yaml d = (if d = 0 then AnyNil else AnyString (dur_string d))"

definition marshal_typed :: "(f64 \<Rightarrow> string) \<Rightarrow> (f64 \<Rightarrow> string) \<Rightarrow> check_spec \<Rightarrow> params" where
  "marshal_typed ff ft c =
     [(''type'', AnyString (ck_type c))] @
     (if ck_name c \<noteq> '''' then [(''name'', AnyString (ck_name c))] else []) @
     (if ck_timeout c \<noteq> 0 then [(''timeout'', dur_yaml (ck_timeout c))] else []) @
     (if ck_retries c \<noteq> 0 then [(''retries'', AnyInt (ck_retries c))] else []) @
     (if ck_retry_interval c \<noteq> 0 then [(''retry_interval'', dur_yaml (ck_retry_interval c))] else []) @
     (case ck_critical c of None \<Rightarrow> [] | Some b \<Rightarrow> [(''critical'', AnyBool b)]) @
     (if ck_proves c \<noteq> '''' then [(''proves'', AnyString (ck_proves c))] else []) @
     (if ck_capture c \<noteq> '''' then [(''capture'', AnyString (ck_capture c))] else []) @
     (case ck_assert c of None \<Rightarrow> [] | Some a \<Rightarrow> [(''assert'', AnyMap (assert_yaml ft a))]) @
     (case ck_drift c of None \<Rightarrow> [] | Some d \<Rightarrow> [(''drift'', AnyMap (drift_yaml ff ft d))])"

text \<open>Writing a key a second time overwrites it: the typed fields come first in the list.\<close>

definition marshal_check :: "(f64 \<Rightarrow> string) \<Rightarrow> (f64 \<Rightarrow> string) \<Rightarrow> check_spec \<Rightarrow> params" where
  "marshal_check ff ft c =
     (let typed = marshal_typed ff ft c
      in typed @ filter (\<lambda>(k, v). k \<notin> fst ` set typed) (ck_params c))"


section \<open>What a check would prove\<close>

definition liveness_check_types :: "string list" where
  "liveness_check_types = [''ping'']"

definition liveness_commands :: "string list" where
  "liveness_commands = [''hostname'', ''uname'', ''whoami'', ''true'', ''echo'', ''ver'']"

text \<open>\<open>raw.([]any)\<close> of strings, or nothing.\<close>

fun strings_of :: "anyval list \<Rightarrow> string list option" where
  "strings_of [] = Some []"
| "strings_of (AnyString s # vs) = (case strings_of vs of None \<Rightarrow> None | Some ss \<Rightarrow> Some (s # ss))"
| "strings_of (_ # vs) = None"

definition command_line :: "params \<Rightarrow> string option" where
  "command_line ps =
     (case map_of ps ''run'' of
        Some (AnyString run) \<Rightarrow> Some run
      | _ \<Rightarrow>
        (case map_of ps ''argv'' of
           Some (AnyList raw) \<Rightarrow>
             (case strings_of raw of None \<Rightarrow> None | Some parts \<Rightarrow> Some (join '' '' parts))
         | _ \<Rightarrow> None))"

text \<open>The part after the last slash or backslash, in lower case, without \<open>.exe\<close>.\<close>

definition is_path_sep :: "char \<Rightarrow> bool" where
  "is_path_sep c \<longleftrightarrow> c = CHR ''/'' \<or> c = char_of (92 :: nat)"

definition base_name :: "string \<Rightarrow> string" where
  "base_name arg = rev (takeWhile (\<lambda>c. \<not> is_path_sep c) (rev arg))"

definition program_name :: "string \<Rightarrow> string" where
  "program_name arg = trim_suffix (to_lower (base_name arg)) ''.exe''"

definition chains :: "string \<Rightarrow> bool" where
  "chains cmd \<longleftrightarrow> (\<exists>c \<in> set cmd. c = CHR ''&'' \<or> c = CHR ''|'' \<or> c = CHR '';'' \<or> c = char_of (10 :: nat))"

definition is_liveness_command :: "params \<Rightarrow> bool" where
  "is_liveness_command ps =
     (case command_line ps of
        None \<Rightarrow> False
      | Some cmd \<Rightarrow>
          if chains cmd then False
          else (case str_fields cmd of
                  [] \<Rightarrow> False
                | f # _ \<Rightarrow> program_name f \<in> set liveness_commands))"

definition proves_the_data :: "check_spec \<Rightarrow> bool" where
  "proves_the_data c \<longleftrightarrow> ck_capture c \<noteq> '''' \<and> assert_any (ck_assert c)"

definition deduced_level :: "check_spec \<Rightarrow> proof_level" where
  "deduced_level c =
     (if proves_the_data c then ProofData
      else if ck_type c = ''command'' \<and> is_liveness_command (ck_params c) then ProofBoot
      else if ck_type c \<in> set liveness_check_types then ProofBoot
      else ProofService)"

definition proven_level :: "check_spec \<Rightarrow> proof_level" where
  "proven_level c =
     (if ck_proves c \<noteq> '''' then
        (case parse_proof_level (to_upper (ck_proves c)) of
           (l, ok) \<Rightarrow> if ok \<and> recorded l then l else deduced_level c)
      else deduced_level c)"

fun raise_all :: "proof_level \<Rightarrow> check_spec list \<Rightarrow> proof_level" where
  "raise_all level [] = level"
| "raise_all level (c # cs) = raise_all (raise_to level (proven_level c)) cs"

definition plan_proven_level :: "plan \<Rightarrow> proof_level" where
  "plan_proven_level p =
     (if su_skip (pl_startup p) \<or> pl_checks p = [] then ProofNone
      else raise_all ProofNone (pl_checks p))"

fun plan_proof_phrase :: "proof_level \<Rightarrow> string" where
  "plan_proof_phrase ProofNone = ''no check runs inside the guest''"
| "plan_proof_phrase ProofBoot = ''only the boot would be verified''"
| "plan_proof_phrase ProofService = ''the service would be verified, the data would not''"
| "plan_proof_phrase ProofData = ''the service and its data would be verified''"
| "plan_proof_phrase _ = ''''"

definition proof_summary :: "plan \<Rightarrow> string" where
  "proof_summary p =
     (let l = plan_proven_level p in proof_level_string l @ '', '' @ plan_proof_phrase l)"

definition to_core :: "check_spec \<Rightarrow> check_config" where
  "to_core c =
     \<lparr>cc_type = ck_type c, cc_name = display_name c,
      cc_timeout = dur_or (ck_timeout c) default_check_timeout, cc_retries = ck_retries c,
      cc_retry_interval = dur_or (ck_retry_interval c) default_retry_interval,
      cc_critical = is_critical c, cc_params = ck_params c, cc_proves = proven_level c,
      cc_capture = ck_capture c, cc_assert = ck_assert c, cc_drift = ck_drift c\<rparr>"


section \<open>The schedule field\<close>

text \<open>
  A cron specification \<open>'c\<close> and a time zone \<open>'l\<close> are values of code outside the repository:
  the parser of robfig/cron, its \<open>Next\<close>, and the zone database.
\<close>

record ('c, 'l) sched_env =
  parse_cron :: "string \<Rightarrow> goerr + 'c"
  load_location :: "string \<Rightarrow> goerr + 'l"
  local_zone :: 'l
  cron_next :: "'c \<Rightarrow> 'l \<Rightarrow> time \<Rightarrow> time"

record ('c, 'l) schedule =
  sc_expr :: string
  sc_location :: 'l
  sc_spec :: 'c

definition parse_schedule ::
  "('c, 'l) sched_env \<Rightarrow> string \<Rightarrow> string \<Rightarrow> goerr + ('c, 'l) schedule option" where
  "parse_schedule env expr tz =
     (if expr = '''' then
        (if tz \<noteq> '''' then
           Inl (Plain (''schedule_timezone is set to '' @ quoted tz @
             '' but there is no schedule for it to qualify''))
         else Inr None)
      else
        (case (if tz \<noteq> '''' then load_location env tz else Inr (local_zone env)) of
           Inl e \<Rightarrow> Inl (Wrapped (''schedule_timezone '' @ quoted tz @
             '' is not a known timezone: '' @ err_text e) e)
         | Inr loc \<Rightarrow>
             (case parse_cron env expr of
                Inl e \<Rightarrow> Inl (Wrapped (''schedule '' @ quoted expr @
                  '' is not a valid cron expression: '' @ err_text e) e)
              | Inr spec \<Rightarrow> Inr (Some \<lparr>sc_expr = expr, sc_location = loc, sc_spec = spec\<rparr>))))"

definition schedule_next :: "('c, 'l) sched_env \<Rightarrow> ('c, 'l) schedule \<Rightarrow> time \<Rightarrow> time" where
  "schedule_next env s after = cron_next env (sc_spec s) (sc_location s) after"


section \<open>Defaults\<close>

definition guest_agent_check_types :: "string list" where
  "guest_agent_check_types = [''command'']"

fun needs_network :: "check_spec list \<Rightarrow> bool" where
  "needs_network [] = False"
| "needs_network (c # cs) =
     (if ck_type c \<notin> set guest_agent_check_types then True else needs_network cs)"

definition plan_needs_network :: "plan \<Rightarrow> bool" where
  "plan_needs_network p = (if pl_checks p = [] then True else needs_network (pl_checks p))"

fun needs_guest_agent :: "check_spec list \<Rightarrow> bool" where
  "needs_guest_agent [] = False"
| "needs_guest_agent (c # cs) =
     (if ck_type c \<in> set guest_agent_check_types then True else needs_guest_agent cs)"

definition default_check :: "check_spec \<Rightarrow> check_spec" where
  "default_check c = c\<lparr>
     ck_timeout := (if ck_timeout c = 0 then default_check_timeout else ck_timeout c),
     ck_retry_interval :=
       (if ck_retry_interval c = 0 then default_retry_interval else ck_retry_interval c)\<rparr>"

definition apply_defaults :: "plan \<Rightarrow> plan" where
  "apply_defaults p =
     (let b = pl_backup p; r = pl_restore p; s = pl_startup p; c = pl_cleanup p in
      p\<lparr>pl_backup := (if bs_strategy b = StrategyOther '''' then b\<lparr>bs_strategy := StrategyLatest\<rparr> else b),
        pl_restore := r\<lparr>
          rs_network := (if rs_network r = '''' then ''isolated'' else rs_network r),
          rs_timeout := (if rs_timeout r = 0 then default_restore_timeout else rs_timeout r)\<rparr>,
        pl_startup := s\<lparr>
          su_timeout := (if su_timeout s = 0 then default_startup_timeout else su_timeout s),
          su_wait_for_ip :=
            (case su_wait_for_ip s of
               None \<Rightarrow> Some (\<not> su_skip s \<and> su_ip s = '''' \<and> plan_needs_network p)
             | Some b \<Rightarrow> Some b),
          su_wait_for_agent :=
            (case su_wait_for_agent s of
               None \<Rightarrow> Some (\<not> su_skip s \<and> needs_guest_agent (pl_checks p))
             | Some b \<Rightarrow> Some b)\<rparr>,
        pl_cleanup := c\<lparr>
          cl_always := (case cl_always c of None \<Rightarrow> Some True | Some b \<Rightarrow> Some b)\<rparr>,
        pl_checks := map default_check (pl_checks p)\<rparr>)"


section \<open>Validation\<close>

text \<open>
  Each problem the code reports is a constructor with the values its sentence prints; the
  number is the check's position. \<open>Validate\<close> reports all of them at once, in this order.
\<close>

datatype plan_problem =
    NameRequired | WorkloadIdRequired | WorkloadProviderRequired
  | BackupIdRequired | StrategyUnsupported string
  | CpuLimitNegative | MemoryLimitNegative | ChecksWithSkip
  | ScheduleInvalid goerr
  | CheckTypeRequired nat | ProvesInvalid nat string | CaptureUnread nat string
  | AssertNoBound nat | AssertNoCapture nat | DriftNoCapture nat | DriftNotPositive nat f64
  | DuplicateName nat string

definition capturing_check_types :: "string list" where
  "capturing_check_types = [''command'']"

definition states_a_tolerance :: "drift_spec option \<Rightarrow> bool" where
  "states_a_tolerance d = (case d of None \<Rightarrow> False | Some d \<Rightarrow> less64 (Fin 0) (max_drop d))"

definition check_problems :: "nat \<Rightarrow> check_spec \<Rightarrow> plan_problem list" where
  "check_problems i c =
     (if \<not> snd (parse_proof_level (to_upper (ck_proves c))) then [ProvesInvalid i (ck_proves c)] else []) @
     (if ck_capture c \<noteq> '''' \<and> ck_type c \<noteq> '''' \<and> ck_type c \<notin> set capturing_check_types
      then [CaptureUnread i (ck_type c)] else []) @
     (if ck_assert c \<noteq> None \<and> \<not> assert_any (ck_assert c) then [AssertNoBound i] else []) @
     (if ck_assert c \<noteq> None \<and> ck_capture c = '''' then [AssertNoCapture i] else []) @
     (if ck_drift c \<noteq> None \<and> ck_capture c = '''' then [DriftNoCapture i] else []) @
     (case ck_drift c of None \<Rightarrow> []
      | Some d \<Rightarrow> if \<not> states_a_tolerance (Some d) then [DriftNotPositive i (max_drop d)] else [])"

fun validate_checks :: "nat \<Rightarrow> string list \<Rightarrow> check_spec list \<Rightarrow> plan_problem list" where
  "validate_checks i seen [] = []"
| "validate_checks i seen (c # cs) =
     (if ck_type c = '''' then CheckTypeRequired i # validate_checks (Suc i) seen cs
      else check_problems i c @
        (if display_name c \<in> set seen then [DuplicateName i (display_name c)] else []) @
        validate_checks (Suc i) (display_name c # seen) cs)"

definition validate :: "('c, 'l) sched_env \<Rightarrow> plan \<Rightarrow> plan_problem list" where
  "validate env p =
     (if trim_space (pl_name p) = '''' then [NameRequired] else []) @
     (if wr_id (pl_workload p) = '''' then [WorkloadIdRequired] else []) @
     (if wr_provider (pl_workload p) = '''' then [WorkloadProviderRequired] else []) @
     (case bs_strategy (pl_backup p) of
        StrategyLatest \<Rightarrow> []
      | StrategySpecific \<Rightarrow> if bs_id (pl_backup p) = '''' then [BackupIdRequired] else []
      | StrategyOther s \<Rightarrow> [StrategyUnsupported s]) @
     (if rs_cpu_limit (pl_restore p) < 0 then [CpuLimitNegative] else []) @
     (if rs_memory_limit_mb (pl_restore p) < 0 then [MemoryLimitNegative] else []) @
     (if su_skip (pl_startup p) \<and> pl_checks p \<noteq> [] then [ChecksWithSkip] else []) @
     (case parse_schedule env (pl_schedule p) (pl_schedule_timezone p) of
        Inl e \<Rightarrow> [ScheduleInvalid e] | Inr _ \<Rightarrow> []) @
     validate_checks 0 [] (pl_checks p)"

text \<open>The message of each problem; \<open>fv\<close> prints a float as \<open>%v\<close> does.\<close>

definition at_check :: "nat \<Rightarrow> string \<Rightarrow> string" where
  "at_check i rest = ''checks['' @ itoa (int i) @ '']'' @ rest"

definition problem_text :: "(f64 \<Rightarrow> string) \<Rightarrow> plan_problem \<Rightarrow> string" where
  "problem_text fv p = (case p of
      NameRequired \<Rightarrow> ''name is required''
    | WorkloadIdRequired \<Rightarrow> ''workload.id is required''
    | WorkloadProviderRequired \<Rightarrow> ''workload.provider is required''
    | BackupIdRequired \<Rightarrow> ''backup.id is required with strategy '' @ quoted ''specific''
    | StrategyUnsupported s \<Rightarrow> ''backup.strategy '' @ quoted s @ '' is not supported (latest, specific)''
    | CpuLimitNegative \<Rightarrow> ''restore.cpu_limit must be positive''
    | MemoryLimitNegative \<Rightarrow> ''restore.memory_limit must be positive''
    | ChecksWithSkip \<Rightarrow> ''checks cannot run when startup.skip is set''
    | ScheduleInvalid e \<Rightarrow> err_text e
    | CheckTypeRequired i \<Rightarrow> at_check i ''.type is required''
    | ProvesInvalid i l \<Rightarrow> at_check i (''.proves = '' @ quoted l @ '': must be one of none, boot, service, data'')
    | CaptureUnread i t \<Rightarrow>
        at_check i (''.capture: a '' @ t @ '' check does not read a value; only a command check does'')
    | AssertNoBound i \<Rightarrow> at_check i ''.assert states no bound: set min, max or equals''
    | AssertNoCapture i \<Rightarrow>
        at_check i ''.assert has nothing to bound: set capture to name the value it applies to''
    | DriftNoCapture i \<Rightarrow>
        at_check i ''.drift has nothing to compare: set capture to name the value it bounds''
    | DriftNotPositive i v \<Rightarrow> at_check i (''.drift.max_drop must be a positive tolerance ('' @ quoted ''10%'' @
        '' or a number of units), got '' @ fv v)
    | DuplicateName i n \<Rightarrow>
        at_check i ('': duplicate check name '' @ quoted n @ '', set an explicit name''))"

definition invalid_plan :: "(f64 \<Rightarrow> string) \<Rightarrow> plan_problem list \<Rightarrow> goerr" where
  "invalid_plan fv ps =
     Plain (''invalid plan:'' @ concat (map (\<lambda>p. char_of (10 :: nat) # ''  - '' @ problem_text fv p) ps))"

text \<open>\<open>Parse\<close> after decoding: defaults, then validation.\<close>

definition parse_plan :: "('c, 'l) sched_env \<Rightarrow> plan \<Rightarrow> plan_problem list + plan" where
  "parse_plan env p =
     (let p' = apply_defaults p in
      case validate env p' of [] \<Rightarrow> Inr p' | e # es \<Rightarrow> Inl (e # es))"



section \<open>Lemmas\<close>

text \<open>What validation lets through, said of one check.\<close>

definition check_ok :: "check_spec \<Rightarrow> bool" where
  "check_ok c \<longleftrightarrow>
     ck_type c \<noteq> '''' \<and> snd (parse_proof_level (to_upper (ck_proves c))) \<and>
     (ck_capture c \<noteq> '''' \<longrightarrow> ck_type c \<in> set capturing_check_types) \<and>
     (ck_assert c \<noteq> None \<longrightarrow> assert_any (ck_assert c) \<and> ck_capture c \<noteq> '''') \<and>
     (\<forall>d. ck_drift c = Some d \<longrightarrow> ck_capture c \<noteq> '''' \<and> less64 (Fin 0) (max_drop d))"

lemma check_problems_nil: "ck_type c \<noteq> '''' \<Longrightarrow> check_problems i c = [] \<longleftrightarrow> check_ok c"
  unfolding check_problems_def check_ok_def states_a_tolerance_def
  by (cases "ck_drift c"; cases "ck_assert c") auto

lemma validate_checks_nil:
  "validate_checks i seen cs = [] \<longleftrightarrow>
     (\<forall>c \<in> set cs. check_ok c) \<and> distinct (map display_name cs) \<and>
     set seen \<inter> set (map display_name cs) = {}"
proof (induction cs arbitrary: i seen)
  case (Cons c cs)
  show ?case
  proof (cases "ck_type c = ''''")
    case True then show ?thesis by (simp add: check_ok_def)
  next
    case False
    then show ?thesis by (auto simp: Cons check_problems_nil)
  qed
qed simp

lemma apply_defaults_checks: "pl_checks (apply_defaults p) = map default_check (pl_checks p)"
  by (simp add: apply_defaults_def Let_def)

lemma default_check_idem: "default_check (default_check c) = default_check c"
  by (simp add: default_check_def default_check_timeout_def default_retry_interval_def duration_units)

lemma default_check_fields [simp]:
  "ck_type (default_check c) = ck_type c" "ck_params (default_check c) = ck_params c"
  "ck_capture (default_check c) = ck_capture c" "ck_assert (default_check c) = ck_assert c"
  "ck_drift (default_check c) = ck_drift c" "ck_proves (default_check c) = ck_proves c"
  "ck_name (default_check c) = ck_name c" "ck_critical (default_check c) = ck_critical c"
  by (simp_all add: default_check_def)

lemma deduced_level_default_check [simp]: "deduced_level (default_check c) = deduced_level c"
  by (simp add: deduced_level_def proves_the_data_def)

lemma default_check_views [simp]:
  "display_name (default_check c) = display_name c" "proven_level (default_check c) = proven_level c"
  "is_critical (default_check c) = is_critical c"
  by (simp_all add: display_name_def proven_level_def is_critical_def split: option.split prod.split)

lemma default_check_settled [simp]:
  "ck_timeout (default_check c) \<noteq> 0" "ck_retry_interval (default_check c) \<noteq> 0"
  by (simp_all add: default_check_def default_check_timeout_def default_retry_interval_def duration_units)

lemma default_timeouts_nonzero [simp]:
  "default_check_timeout \<noteq> 0" "default_retry_interval \<noteq> 0" "default_restore_timeout \<noteq> 0"
  "default_startup_timeout \<noteq> 0"
  by (simp_all add: default_check_timeout_def default_retry_interval_def default_restore_timeout_def
      default_startup_timeout_def duration_units)

lemma raise_all_foldl: "raise_all l cs = foldl raise_to l (map proven_level cs)"
  by (induction cs arbitrary: l) simp_all

lemma recorded_proven_level: "recorded (proven_level c)"
proof -
  have "recorded (deduced_level c)" by (simp add: deduced_level_def recorded_def)
  then show ?thesis by (simp add: proven_level_def split: prod.split)
qed

lemma rank_plan_proven_level:
  "\<not> su_skip (pl_startup p) \<Longrightarrow>
   rank (plan_proven_level p) = Max (insert (rank ProofNone) (rank ` proven_level ` set (pl_checks p)))"
  by (cases "pl_checks p = []") (simp_all add: plan_proven_level_def raise_all_foldl proof_ladder.rk_foldl)

lemma apply_defaults_startup:
  "pl_startup (apply_defaults p) =
     (pl_startup p)\<lparr>su_timeout := (if su_timeout (pl_startup p) = 0 then default_startup_timeout
                                   else su_timeout (pl_startup p)),
       su_wait_for_ip := (case su_wait_for_ip (pl_startup p) of
           None \<Rightarrow> Some (\<not> su_skip (pl_startup p) \<and> su_ip (pl_startup p) = '''' \<and> plan_needs_network p)
         | Some b \<Rightarrow> Some b),
       su_wait_for_agent := (case su_wait_for_agent (pl_startup p) of
           None \<Rightarrow> Some (\<not> su_skip (pl_startup p) \<and> needs_guest_agent (pl_checks p)) | Some b \<Rightarrow> Some b)\<rparr>"
  by (simp add: apply_defaults_def Let_def)

text \<open>The keys the code writes for a check are all reserved, so its parameters survive.\<close>

lemma keys_marshal_typed: "fst ` set (marshal_typed ff ft c) \<subseteq> set reserved_check_keys"
  by (auto simp: marshal_typed_def reserved_check_keys_def split: option.splits if_splits)

definition free_params :: "params \<Rightarrow> bool" where
  "free_params ps \<longleftrightarrow> fst ` set ps \<inter> set reserved_check_keys = {}"

lemma marshal_check_params:
  assumes "free_params (ck_params c)"
  shows "filter (\<lambda>(k, v). k \<notin> set reserved_check_keys) (marshal_check ff ft c) = ck_params c"
proof -
  let ?t = "marshal_typed ff ft c"
  have typed: "filter (\<lambda>(k, v). k \<notin> set reserved_check_keys) ?t = []"
    using keys_marshal_typed [of ff ft c] by (auto simp: filter_empty_conv)
  have free: "k \<notin> set reserved_check_keys" if "(k, v) \<in> set (ck_params c)" for k v
    using assms that by (force simp: free_params_def)
  have "filter (\<lambda>(k, v). k \<notin> fst ` set ?t) (ck_params c) = ck_params c"
    using free keys_marshal_typed [of ff ft c] by (intro filter_True) blast
  moreover have "filter (\<lambda>(k, v). k \<notin> set reserved_check_keys) (ck_params c) = ck_params c"
    using free by (intro filter_True) blast
  ultimately show ?thesis by (simp add: marshal_check_def Let_def typed)
qed


section \<open>Properties\<close>

text \<open>C7. A plan is accepted exactly when it names itself, its workload and its provider, its
  backup strategy is complete, no limit is negative, its schedule reads, no check is listed
  under a skipped start, every check states what the engine can honour (a capture something
  reads, an assertion with a bound, a drift with a positive tolerance, both over a capture),
  and no two checks share the name their verdicts are looked up by.\<close>

theorem validate_complete:
  "validate env p = [] \<longleftrightarrow>
     trim_space (pl_name p) \<noteq> '''' \<and> wr_id (pl_workload p) \<noteq> '''' \<and> wr_provider (pl_workload p) \<noteq> '''' \<and>
     (bs_strategy (pl_backup p) = StrategyLatest \<or>
      bs_strategy (pl_backup p) = StrategySpecific \<and> bs_id (pl_backup p) \<noteq> '''') \<and>
     0 \<le> rs_cpu_limit (pl_restore p) \<and> 0 \<le> rs_memory_limit_mb (pl_restore p) \<and>
     \<not> (su_skip (pl_startup p) \<and> pl_checks p \<noteq> []) \<and>
     \<not> isl (parse_schedule env (pl_schedule p) (pl_schedule_timezone p)) \<and>
     list_all check_ok (pl_checks p) \<and> distinct (map display_name (pl_checks p))"
  by (cases "bs_strategy (pl_backup p)"; cases "parse_schedule env (pl_schedule p) (pl_schedule_timezone p)")
    (auto simp: validate_def validate_checks_nil list_all_iff split: if_splits)

text \<open>Filling in defaults is stable: a second pass changes nothing, whatever the plan leaves
  open (the waits, the clean-up, the network, every timeout) is settled after the first, and
  neither the names of the checks nor what the plan would prove move.\<close>

theorem apply_defaults_stable:
  "apply_defaults (apply_defaults p) = apply_defaults p \<and>
   su_wait_for_ip (pl_startup (apply_defaults p)) \<noteq> None \<and>
   su_wait_for_agent (pl_startup (apply_defaults p)) \<noteq> None \<and>
   cl_always (pl_cleanup (apply_defaults p)) \<noteq> None \<and>
   rs_network (pl_restore (apply_defaults p)) \<noteq> '''' \<and>
   list_all (\<lambda>c. ck_timeout c \<noteq> 0 \<and> ck_retry_interval c \<noteq> 0) (pl_checks (apply_defaults p)) \<and>
   map display_name (pl_checks (apply_defaults p)) = map display_name (pl_checks p) \<and>
   plan_proven_level (apply_defaults p) = plan_proven_level p"
proof -
  let ?q = "apply_defaults p"
  have idem: "apply_defaults ?q = ?q"
    by (cases p; simp add: apply_defaults_def Let_def default_check_idem split: option.split)
  have checks: "map proven_level (pl_checks ?q) = map proven_level (pl_checks p)"
    "list_all (\<lambda>c. ck_timeout c \<noteq> 0 \<and> ck_retry_interval c \<noteq> 0) (pl_checks ?q)"
    "map display_name (pl_checks ?q) = map display_name (pl_checks p)"
    by (simp_all add: apply_defaults_checks list_all_iff)
  have settled: "su_wait_for_ip (pl_startup ?q) \<noteq> None" "su_wait_for_agent (pl_startup ?q) \<noteq> None"
    "cl_always (pl_cleanup ?q) \<noteq> None" "rs_network (pl_restore ?q) \<noteq> ''''" "pl_checks ?q = [] \<longleftrightarrow> pl_checks p = []"
    "su_skip (pl_startup ?q) = su_skip (pl_startup p)"
    by (auto simp: apply_defaults_def Let_def split: option.split)
  show ?thesis using idem checks settled by (simp add: plan_proven_level_def raise_all_foldl)
qed

text \<open>A check would prove the data in exactly two cases: its author declares so in a level
  the engine records, or declares none and the check captures a value and bounds it.\<close>

theorem proven_level_data:
  "proven_level c = ProofData \<longleftrightarrow>
     (if snd (parse_proof_level (to_upper (ck_proves c))) \<and>
         recorded (fst (parse_proof_level (to_upper (ck_proves c))))
      then fst (parse_proof_level (to_upper (ck_proves c))) = ProofData
      else ck_capture c \<noteq> '''' \<and> assert_any (ck_assert c))"
proof -
  have "deduced_level c = ProofData \<longleftrightarrow> ck_capture c \<noteq> '''' \<and> assert_any (ck_assert c)"
    by (simp add: deduced_level_def proves_the_data_def)
  moreover have "parse_proof_level (to_upper '''') = (ProofUnknown, True)"
    by (simp add: parse_proof_level_def to_upper_def proof_level_of_def)
  ultimately show ?thesis
    by (cases "ck_proves c = ''''"; cases "parse_proof_level (to_upper (ck_proves c))")
      (auto simp: proven_level_def recorded_def)
qed

text \<open>Writing a check that was read from a plan and reading it back keeps its
  type-specific parameters, whatever keys the raw mapping had and whatever head is decoded
  beside it; no parameter comes back under a key the code reserves.\<close>

theorem check_params_round_trip:
  "ck_params (unmarshal_check h' (marshal_check ff ft (unmarshal_check h raw))) =
     ck_params (unmarshal_check h raw) \<and>
   free_params (ck_params (unmarshal_check h raw)) \<and>
   map_of (marshal_check ff ft (unmarshal_check h raw)) ''type'' = Some (AnyString (hd_type h))"
proof -
  have free: "free_params (ck_params (unmarshal_check h raw))"
    by (auto simp: free_params_def unmarshal_check_def)
  have params: "ck_params (unmarshal_check h' ps) = filter (\<lambda>(k, v). k \<notin> set reserved_check_keys) ps" for ps
    by (simp add: unmarshal_check_def)
  have "map_of (marshal_check ff ft (unmarshal_check h raw)) ''type'' = Some (AnyString (hd_type h))"
    by (simp add: marshal_check_def marshal_typed_def Let_def unmarshal_check_def)
  with free show ?thesis by (simp only: params marshal_check_params simp_thms)
qed

end
