(* ===== verification/Naming.thy ===== *)
theory Naming
  imports Plan
begin

text \<open>
  internal/recovery/naming.go: the name and the ownership metadata of a temporary workload,
  the lookup of critical checks, the RTO measurement and the short messages of check events.
\<close>

section \<open>The temporary workload's identity\<close>

definition max_temp_name_len :: nat where "max_temp_name_len = 63"

definition is_slug_char :: "char \<Rightarrow> bool" where
  "is_slug_char c \<longleftrightarrow> (let n = (of_char c :: nat) in 97 \<le> n \<and> n \<le> 122 \<or> is_digit c)"

definition is_dash :: "char \<Rightarrow> bool" where "is_dash c \<longleftrightarrow> c = CHR ''-''"

text \<open>
  The loop of \<open>sanitizeSlug\<close>: what the builder holds, whether its last byte is a dash. Each
  byte of a character outside ASCII takes the default branch, as its rune does.
\<close>

fun slug_loop :: "string \<Rightarrow> bool \<Rightarrow> string \<Rightarrow> string" where
  "slug_loop b prev_dash [] = b"
| "slug_loop b prev_dash (c # cs) =
     (if is_slug_char c then slug_loop (b @ [c]) False cs
      else if \<not> prev_dash \<and> length b > 0 then slug_loop (b @ [CHR ''-'']) True cs
      else slug_loop b prev_dash cs)"

definition sanitize_slug :: "string \<Rightarrow> string" where
  "sanitize_slug s = trim_by is_dash (slug_loop [] False (to_lower s))"

definition temp_workload_name :: "string \<Rightarrow> time \<Rightarrow> string" where
  "temp_workload_name source_id now =
     (let slug = sanitize_slug source_id;
          ts = format_compact now;
          name = ''restorelab-'' @ slug @ ''-'' @ ts
      in if length name \<le> max_temp_name_len then name
         else
           (let overflow = length name - max_temp_name_len;
                cut = (if overflow \<ge> length slug then '''' else take (length slug - overflow) slug);
                slug' = trim_by is_dash cut
            in if slug' = '''' then ''restorelab-'' @ ts
               else ''restorelab-'' @ slug' @ ''-'' @ ts))"

text \<open>The ownership metadata, in the order of the code's map literal.\<close>

definition workload_metadata :: "string \<Rightarrow> string \<Rightarrow> time \<Rightarrow> (string \<times> string) list" where
  "workload_metadata rid source_id now =
     [(metadata_managed, ''true''), (metadata_run_id, rid),
      (metadata_source_id, source_id), (metadata_created_at, format_rfc3339 now)]"


section \<open>Looking up what is critical\<close>

text \<open>A name that occurs twice keeps its last entry, as in the map the code fills.\<close>

fun critical_map_from :: "(string \<rightharpoonup> bool) \<Rightarrow> check_spec list \<Rightarrow> (string \<rightharpoonup> bool)" where
  "critical_map_from m [] = m"
| "critical_map_from m (c # cs) = critical_map_from (m(display_name c \<mapsto> is_critical c)) cs"

definition critical_map :: "plan \<Rightarrow> (string \<rightharpoonup> bool)" where
  "critical_map p = critical_map_from (\<lambda>_. None) (pl_checks p)"

text \<open>\<open>critical[name]\<close>: a missing key reads as false.\<close>

definition is_critical_name :: "plan \<Rightarrow> string \<Rightarrow> bool" where
  "is_critical_name p name = (case critical_map p name of None \<Rightarrow> False | Some b \<Rightarrow> b)"

definition human_bytes :: "int \<Rightarrow> string" where
  "human_bytes b = itoa (go_div b (1024 * 1024)) @ '' MiB''"


section \<open>Measuring the RTO\<close>

fun step_end_in :: "step list \<Rightarrow> string \<Rightarrow> time" where
  "step_end_in [] name = zero_time"
| "step_end_in (s # ss) name =
     (if st_name s \<noteq> name then step_end_in ss name
      else case st_status s of
             StepDone \<Rightarrow> st_completed_at s
           | StepFailed \<Rightarrow> st_completed_at s
           | StepSkipped \<Rightarrow> st_completed_at s
           | _ \<Rightarrow> step_end_in ss name)"

definition step_end :: "recovery_run \<Rightarrow> string \<Rightarrow> time" where
  "step_end run name = step_end_in (run_steps run) name"

definition step_discover_backup :: string where "step_discover_backup = ''discover_backup''"
definition step_prepare_environment :: string where "step_prepare_environment = ''prepare_environment''"
definition step_restore :: string where "step_restore = ''restore''"
definition step_start :: string where "step_start = ''start''"
definition step_wait_for_guest :: string where "step_wait_for_guest = ''wait_for_guest''"
definition step_run_checks :: string where "step_run_checks = ''run_checks''"
definition step_cleanup :: string where "step_cleanup = ''cleanup''"

lemmas step_names = step_discover_backup_def step_prepare_environment_def step_restore_def
  step_start_def step_wait_for_guest_def step_run_checks_def step_cleanup_def

definition compute_rto :: "recovery_run \<Rightarrow> time \<Rightarrow> duration" where
  "compute_rto run started_at =
     (if \<not> is_zero (step_end run step_run_checks) then
        time_sub (step_end run step_run_checks) started_at
      else if \<not> is_zero (step_end run step_wait_for_guest) then
        time_sub (step_end run step_wait_for_guest) started_at
      else 0)"


section \<open>Messages of check events\<close>

definition check_message :: "check_result \<Rightarrow> string" where
  "check_message r =
     (let name = ''check '' @ quoted (cr_name r) in
      case cr_status r of
        CheckPass \<Rightarrow> name @ '' passed''
      | CheckSkipped \<Rightarrow> name @ '' skipped''
      | CheckError \<Rightarrow>
          (if cr_message r \<noteq> '''' then name @ '' could not run: '' @ cr_message r
           else name @ '' could not run'')
      | _ \<Rightarrow>
          (if cr_message r \<noteq> '''' then name @ '' failed: '' @ cr_message r
           else name @ '' failed''))"

definition step_status_for_check :: "check_status \<Rightarrow> step_status" where
  "step_status_for_check s =
     (case s of CheckPass \<Rightarrow> StepDone | CheckSkipped \<Rightarrow> StepSkipped | _ \<Rightarrow> StepFailed)"


section \<open>Lemmas\<close>

lemma set_trim_by: "set (trim_by p s) \<subseteq> set s"
proof (rule subsetI)
  fix x assume "x \<in> set (trim_by p s)"
  then have "x \<in> set (dropWhile p (rev (dropWhile p s)))" by (simp add: trim_by_def)
  from set_dropWhileD [OF this] have "x \<in> set (dropWhile p s)" by simp
  from set_dropWhileD [OF this] show "x \<in> set s" by simp
qed

lemma length_trim_by: "length (trim_by p s) \<le> length s"
  unfolding trim_by_def using length_dropWhile_le [of p "rev (dropWhile p s)"] length_dropWhile_le [of p s]
  by simp

lemma set_slug_loop: "set (slug_loop b d s) \<subseteq> set b \<union> {c. is_slug_char c \<or> is_dash c}"
  by (induction b d s rule: slug_loop.induct) (auto simp: is_dash_def)

lemma set_sanitize_slug: "c \<in> set (sanitize_slug s) \<Longrightarrow> is_slug_char c \<or> is_dash c"
  using set_trim_by set_slug_loop [of "[]" False "to_lower s"]
  unfolding sanitize_slug_def by fastforce

text \<open>The compact timestamp of a year of four digits has fourteen characters, all digits.\<close>

definition year_of :: "time \<Rightarrow> int" where "year_of t = fst (civil (unix_secs t div 86400))"

lemma length_pad0: "0 \<le> n \<Longrightarrow> n < 10 ^ k \<Longrightarrow> 0 < k \<Longrightarrow> length (pad0 k n) = k"
  using length_int_digits [of n k] by (simp add: pad0_def itoa_def)

lemma set_pad0: "0 \<le> n \<Longrightarrow> c \<in> set (pad0 k n) \<Longrightarrow> is_digit c"
  using set_int_digits [of n c] by (auto simp: pad0_def itoa_def is_digit_def)

lemma int_div_bounds:
  fixes x k :: int
  assumes "0 < k"
  shows "k * (x div k) \<le> x" "x < k * (x div k) + k"
  using assms mult_div_mod_eq [of k x] pos_mod_sign [of k x] pos_mod_bound [of k x] by linarith+

lemma civil_bounds:
  assumes "civil z = (y, m, d)"
  shows "0 \<le> m \<and> m < 100 \<and> 0 \<le> d \<and> d < 100"
proof -
  define doe where "doe = (z + 719468) mod 146097"
  define a b c where "a = doe div 1460" and "b = doe div 36524" and "c = doe div 146096"
  define yoe where "yoe = (doe - a + b - c) div 365"
  define q h where "q = yoe div 4" and "h = yoe div 100"
  define doy where "doy = doe - (365 * yoe + q - h)"
  define mp where "mp = (5 * doy + 2) div 153"
  define dd where "dd = (153 * mp + 2) div 5"
  have doe: "0 \<le> doe" "doe \<le> 146096" by (simp_all add: doe_def)
  note bounds = int_div_bounds [of 1460 doe, folded a_def, simplified]
    int_div_bounds [of 36524 doe, folded b_def, simplified]
    int_div_bounds [of 146096 doe, folded c_def, simplified]
    int_div_bounds [of 365 "doe - a + b - c", folded yoe_def, simplified]
    int_div_bounds [of 4 yoe, folded q_def, simplified]
    int_div_bounds [of 100 yoe, folded h_def, simplified]
  have ab: "0 \<le> a" "a \<le> 100" "0 \<le> b" "b \<le> 4" "0 \<le> c" "c \<le> 1"
    using doe bounds(1-6) by linarith+
  have y: "0 \<le> yoe" "yoe \<le> 400" using doe ab bounds(1,2,5-8) by linarith+
  have "b \<le> a" using doe bounds(1-4) by linarith
  then have q: "q \<le> a" "0 \<le> h" "h \<le> 4" using y ab bounds(1,2,7-12) by linarith+
  have doy: "- 5 \<le> doy" "doy \<le> 600"
    unfolding doy_def using q ab y bounds(7-12) by linarith+
  note mp = int_div_bounds [of 153 "5 * doy + 2", folded mp_def, simplified]
  note dd = int_div_bounds [of 5 "153 * mp + 2", folded dd_def, simplified]
  have mp': "- 1 \<le> mp" "mp \<le> 20" using mp doy by linarith+
  have "(y, m, d) = civil z" by (simp only: assms)
  then have "m = (if mp < 10 then mp + 3 else mp - 9) \<and> d = doy - dd + 1"
    unfolding civil_def Let_def doe_def [symmetric] a_def [symmetric] b_def [symmetric]
      c_def [symmetric] yoe_def [symmetric] q_def [symmetric] h_def [symmetric] doy_def [symmetric]
      mp_def [symmetric] dd_def [symmetric] prod.inject by blast
  then have m: "m = (if mp < 10 then mp + 3 else mp - 9)" and d: "d = doy - dd + 1" by simp_all
  have "0 \<le> d" "d < 100" using mp dd unfolding d by linarith+
  moreover have "0 \<le> m" "m < 100" using mp' by (simp_all add: m)
  ultimately show ?thesis by simp
qed

lemma clock_bounds:
  assumes "clock t = (h, mi, s)"
  shows "0 \<le> h \<and> h < 100 \<and> 0 \<le> mi \<and> mi < 100 \<and> 0 \<le> s \<and> s < 100"
proof -
  define r where "r = unix_secs t mod 86400"
  have r: "0 \<le> r" "r < 86400" by (simp_all add: r_def)
  have "h = r div 3600" "mi = (r mod 3600) div 60" "s = r mod 60"
    using assms by (simp_all add: clock_def Let_def r_def [symmetric])
  moreover have "0 \<le> r div 3600" "r div 3600 < 100" using r int_div_bounds [of 3600 r] by linarith+
  moreover have "0 \<le> (r mod 3600) div 60" "(r mod 3600) div 60 < 100"
    using int_div_bounds [of 60 "r mod 3600"] pos_mod_bound [of 3600 r] pos_mod_sign [of 3600 r] by linarith+
  moreover have "0 \<le> r mod 60" "r mod 60 < 100"
    using pos_mod_bound [of 60 r] pos_mod_sign [of 60 r] by linarith+
  ultimately show ?thesis by simp
qed

lemma format_compact_digits:
  assumes "0 \<le> year_of t" "year_of t < 10000"
  shows "length (format_compact t) = 14" "c \<in> set (format_compact t) \<Longrightarrow> is_digit c"
proof -
  obtain y m d where ymd: "civil (unix_secs t div 86400) = (y, m, d)" by (cases "civil (unix_secs t div 86400)")
  obtain h mi s where hms: "clock t = (h, mi, s)" by (cases "clock t")
  have y: "0 \<le> y" "y < 10 ^ 4" using assms ymd by (simp_all add: year_of_def)
  note b = civil_bounds [OF ymd] clock_bounds [OF hms]
  have ts: "format_compact t = pad0 4 y @ pad0 2 m @ pad0 2 d @ pad0 2 h @ pad0 2 mi @ pad0 2 s"
    by (simp add: format_compact_def ymd hms)
  show "length (format_compact t) = 14" using y b by (simp add: ts length_pad0)
  show "is_digit c" if "c \<in> set (format_compact t)" using that b y(1) set_pad0 unfolding ts by auto
qed


section \<open>Properties\<close>

text \<open>The name of a temporary workload always fits the 63 characters a hypervisor accepts and
  holds only lower-case letters, digits and dashes, whatever the source workload is called; it
  starts with the program's prefix and ends with the whole timestamp that keeps names apart.\<close>

theorem temp_workload_name_fits:
  assumes "0 \<le> year_of t" "year_of t < 10000"
  shows "length (temp_workload_name source t) \<le> 63 \<and>
    list_all (\<lambda>c. is_slug_char c \<or> is_dash c) (temp_workload_name source t) \<and>
    has_prefix (temp_workload_name source t) ''restorelab-'' \<and>
    (\<exists>mid. temp_workload_name source t = ''restorelab-'' @ mid @ format_compact t)"
proof -
  let ?ok = "\<lambda>c. is_slug_char c \<or> is_dash c"
  let ?slug = "sanitize_slug source"
  let ?ts = "format_compact t"
  let ?over = "length ?slug + 26 - 63"
  let ?cut = "trim_by is_dash (if length ?slug \<le> ?over then '''' else take (length ?slug - ?over) ?slug)"
  note ts = format_compact_digits [OF assms]
  have slug: "list_all ?ok ?slug" using set_sanitize_slug by (auto simp: list_all_iff)
  have cut_set: "set ?cut \<subseteq> set ?slug"
    by (rule subset_trans [OF set_trim_by]) (simp add: set_take_subset)
  have cut: "list_all ?ok ?cut" using slug cut_set unfolding list_all_iff by blast
  have len: "length ?cut \<le> length ?slug - ?over"
    by (rule order.trans [OF length_trim_by]) simp
  have pre: "list_all ?ok (''restorelab-'' :: string)" by (simp add: is_slug_char_def is_dash_def is_digit_def)
  have dash: "list_all ?ok ''-''" by (simp add: is_dash_def)
  have tsok: "list_all ?ok ?ts" using ts(2) by (auto simp: list_all_iff is_slug_char_def)
  have l: "length (''restorelab-'' @ ?slug @ ''-'' @ ?ts) = length ?slug + 26" by (simp add: ts(1))
  have name: "temp_workload_name source t = ''restorelab-'' @
      (if length ?slug + 26 \<le> 63 then ?slug @ ''-'' else if ?cut = '''' then '''' else ?cut @ ''-'') @ ?ts"
    unfolding temp_workload_name_def Let_def max_temp_name_len_def l
    by (simp only: append_assoc append_Nil split: if_split) simp
  let ?mid = "if length ?slug + 26 \<le> 63 then ?slug @ ''-'' else if ?cut = '''' then '''' else ?cut @ ''-''"
  have mid: "list_all ?ok ?mid" "length ?mid \<le> 38"
    using slug cut dash len by (simp_all only: list_all_append split: if_split) auto
  show ?thesis unfolding name
    using mid pre tsok by (simp add: ts(1) list_all_append del: if_split)
qed

lemma temp_workload_name_fits_witness:
  "length (temp_workload_name ''DB_server 101'' 1700000000000000000) \<le> 63"
proof -
  have year: "year_of 1700000000000000000 = 2023"
    unfolding year_of_def civil_def unix_secs_def second_def Let_def by simp
  have "0 \<le> year_of 1700000000000000000" "year_of 1700000000000000000 < 10000"
    unfolding year by simp_all
  then show ?thesis by (rule temp_workload_name_fits [THEN conjunct1])
qed

end
