(* ===== verification/Effects.thy ===== *)
theory Effects
  imports Naming
begin

text \<open>
  What the recovery engine runs on: the state a run of internal/recovery keeps (the fields of
  \<open>Engine.Run\<close>'s closure, the run record, the stream of events), the world behind the
  providers, and the combinators of effectful Go code: sequencing, reads, updates, panics.

  Providers, the check runner and the clock are code outside the engine: a record of
  functions over a world type \<open>'w\<close>, each of which may return, panic or never return. Every call
  the engine makes is written, with what the engine learnt from it, in front of a log; the log
  is not part of the program and no definition of the engine reads it.
\<close>

section \<open>Outcomes\<close>

datatype 'a outcome = Done 'a | Panicked string | Diverged

type_synonym ('s, 'a) eng = "'s \<Rightarrow> 'a outcome \<times> 's"

definition ret :: "'a \<Rightarrow> ('s, 'a) eng" where "ret a = (\<lambda>s. (Done a, s))"

definition bindM :: "('s, 'a) eng \<Rightarrow> ('a \<Rightarrow> ('s, 'b) eng) \<Rightarrow> ('s, 'b) eng" where
  "bindM m f = (\<lambda>s. case m s of
      (Done a, s') \<Rightarrow> f a s' | (Panicked x, s') \<Rightarrow> (Panicked x, s') | (Diverged, s') \<Rightarrow> (Diverged, s'))"

definition thenM :: "('s, 'a) eng \<Rightarrow> ('s, 'b) eng \<Rightarrow> ('s, 'b) eng" where
  "thenM m n = bindM m (\<lambda>_. n)"

definition panic :: "string \<Rightarrow> ('s, 'a) eng" where "panic x = (\<lambda>s. (Panicked x, s))"
definition diverge :: "('s, 'a) eng" where "diverge = (\<lambda>s. (Diverged, s))"
definition modify :: "('s \<Rightarrow> 's) \<Rightarrow> ('s, unit) eng" where "modify g = (\<lambda>s. (Done (), g s))"
definition gets :: "('s \<Rightarrow> 'a) \<Rightarrow> ('s, 'a) eng" where "gets f = (\<lambda>s. (Done (f s), s))"

text \<open>Dereferencing a pointer: a nil one panics.\<close>

definition deref :: "'a option \<Rightarrow> ('s, 'a) eng" where
  "deref p = (case p of None \<Rightarrow> panic ''invalid memory address or nil pointer dereference''
                      | Some a \<Rightarrow> ret a)"

text \<open>
  What holds after \<open>m\<close>: \<open>Q\<close> of the result and the state when it returns, \<open>E\<close> of the state when it
  panics (\<open>Some\<close>) or never returns (\<open>None\<close>).
\<close>

definition wp :: "('s, 'a) eng \<Rightarrow> ('a \<Rightarrow> 's \<Rightarrow> bool) \<Rightarrow> (string option \<Rightarrow> 's \<Rightarrow> bool) \<Rightarrow> 's \<Rightarrow> bool" where
  "wp m Q E s = (case m s of
      (Done a, s') \<Rightarrow> Q a s' | (Panicked x, s') \<Rightarrow> E (Some x) s' | (Diverged, s') \<Rightarrow> E None s')"

lemma wp_ret [simp]: "wp (ret a) Q E s = Q a s" by (simp add: wp_def ret_def)
lemma wp_modify [simp]: "wp (modify g) Q E s = Q () (g s)" by (simp add: wp_def modify_def)
lemma wp_gets [simp]: "wp (gets f) Q E s = Q (f s) s" by (simp add: wp_def gets_def)
lemma wp_panic [simp]: "wp (panic x) Q E s = E (Some x) s" by (simp add: wp_def panic_def)
lemma wp_diverge [simp]: "wp diverge Q E s = E None s" by (simp add: wp_def diverge_def)

lemma wp_bind [simp]: "wp (bindM m f) Q E s = wp m (\<lambda>a. wp (f a) Q E) E s"
  by (cases "m s"; cases "fst (m s)") (simp_all add: wp_def bindM_def)

lemma wp_then [simp]: "wp (thenM m n) Q E s = wp m (\<lambda>_. wp n Q E) E s"
  by (simp add: thenM_def)

lemma wp_deref [simp]:
  "wp (deref p) Q E s =
     (case p of None \<Rightarrow> E (Some ''invalid memory address or nil pointer dereference'') s | Some a \<Rightarrow> Q a s)"
  by (simp add: deref_def split: option.split)

lemma wp_mono:
  "wp m Q E s \<Longrightarrow> (\<And>a s'. Q a s' \<Longrightarrow> Q' a s') \<Longrightarrow> (\<And>x s'. E x s' \<Longrightarrow> E' x s') \<Longrightarrow> wp m Q' E' s"
  by (auto simp: wp_def split: prod.splits outcome.splits)

lemma wp_conj: "wp m Q E s \<Longrightarrow> wp m Q' E' s \<Longrightarrow> wp m (\<lambda>a s. Q a s \<and> Q' a s) (\<lambda>x s. E x s \<and> E' x s) s"
  by (auto simp: wp_def split: prod.splits outcome.splits)

lemma wp_true: "wp m (\<lambda>_ _. True) (\<lambda>_ _. True) s"
  by (auto simp: wp_def split: prod.splits outcome.splits)


section \<open>The outside world\<close>

datatype ctx = RunCtx | CleanupCtx

text \<open>\<open>Event\<close>, in the order of its fields.\<close>

record event =
  ev_run_id :: string
  ev_at :: time
  ev_state :: run_state
  ev_step :: string
  ev_status :: step_status
  ev_message :: string
  ev_check :: "check_result option"
  ev_err :: string
  ev_temp_workload_id :: string
  ev_node :: string

type_synonym ('w, 'a) call = "'w \<Rightarrow> 'a outcome \<times> 'w"

text \<open>
  \<open>Deps\<close> and the interfaces behind it. An optional capability (\<open>core.NetworkValidator\<close>,
  \<open>core.CapacityReporter\<close>, the structural \<open>finalizer\<close>) is an optional function; a returned
  pointer is an \<open>option\<close>. \<open>d_ctx_err\<close> is the run context's \<open>Err\<close>.
\<close>

record 'w deps =
  d_hv_id :: string
  d_bp_id :: string
  d_new_id :: "'w \<Rightarrow> string \<times> 'w"
  d_get_workload :: "ctx \<Rightarrow> string \<Rightarrow> ('w, goerr + workload option) call"
  d_list_backups :: "ctx \<Rightarrow> string \<Rightarrow> ('w, goerr + backup list) call"
  d_get_latest :: "ctx \<Rightarrow> string \<Rightarrow> ('w, goerr + backup option) call"
  d_validate_isolation :: "(ctx \<Rightarrow> string \<Rightarrow> network_config \<Rightarrow> ('w, goerr + unit) call) option"
  d_node_capacity :: "(ctx \<Rightarrow> string \<Rightarrow> ('w, goerr + node option) call) option"
  d_allocate :: "ctx \<Rightarrow> ('w, goerr + string) call"
  d_restore :: "ctx \<Rightarrow> backup \<Rightarrow> restore_options \<Rightarrow> ('w, goerr + restore_job option) call"
  d_wait_for_job :: "ctx \<Rightarrow> restore_job option \<Rightarrow> ('w, goerr + task_state option) call"
  d_finalize :: "(ctx \<Rightarrow> restore_options \<Rightarrow> ('w, goerr + unit) call) option"
  d_start :: "ctx \<Rightarrow> string \<Rightarrow> ('w, goerr + unit) call"
  d_stop :: "ctx \<Rightarrow> string \<Rightarrow> ('w, goerr + unit) call"
  d_delete :: "ctx \<Rightarrow> string \<Rightarrow> ('w, goerr + unit) call"
  d_get_status :: "ctx \<Rightarrow> string \<Rightarrow> ('w, goerr + workload_status option) call"
  d_run_all :: "ctx \<Rightarrow> target \<Rightarrow> check_config list \<Rightarrow> ('w, check_result list) call"
  d_now :: "'w \<Rightarrow> time \<times> 'w"
  d_sleep :: "ctx \<Rightarrow> duration \<Rightarrow> 'w \<Rightarrow> goerr option \<times> 'w"
  d_emit :: "event \<Rightarrow> 'w \<Rightarrow> 'w"
  d_ctx_err :: "'w \<Rightarrow> sentinel option"
  d_has_exec :: bool
  d_has_baselines :: bool

text \<open>One entry of the log. A flag says whether the call returned without an error.\<close>

datatype entry =
    Emitted event
  | CallGetWorkload ctx string
  | CallListBackups ctx string
  | CallGetLatest ctx string
  | CallValidate ctx string network_config bool
  | CallCapacity ctx string
  | CallAllocate ctx "string option"
  | CallRestore ctx backup restore_options bool
  | CallWait ctx bool
  | CallFinalize ctx restore_options bool
  | CallStart ctx string bool
  | CallStop ctx string bool
  | CallDelete ctx string bool
  | CallGetStatus ctx string
  | CallRunAll ctx target

text \<open>An entry that leaves the cluster as it is.\<close>

fun observation :: "entry \<Rightarrow> bool" where
  "observation (CallAllocate _ _) = False"
| "observation (CallRestore _ _ _ _) = False"
| "observation (CallFinalize _ _ _) = False"
| "observation (CallStart _ _ _) = False"
| "observation (CallStop _ _ _) = False"
| "observation (CallDelete _ _ _) = False"
| "observation _ = True"

text \<open>
  The state of \<open>Run\<close>: the run record it returns, and the variables its deferred block reads
  (\<open>tempID\<close>, \<open>node\<close>, \<open>needsCleanup\<close>, \<open>workflowErr\<close>).
\<close>

record 'w est =
  es_world :: 'w
  es_run :: recovery_run
  es_log :: "entry list"
  es_temp_id :: string
  es_node :: string
  es_needs_cleanup :: bool
  es_workflow_err :: "goerr option"

definition ok_of :: "('e + 'a) option \<Rightarrow> bool" where
  "ok_of r = (case r of Some (Inr _) \<Rightarrow> True | _ \<Rightarrow> False)"

definition perform :: "('a option \<Rightarrow> entry) \<Rightarrow> ('w, 'a) call \<Rightarrow> ('w est, 'a) eng" where
  "perform mk f = (\<lambda>s. case f (es_world s) of (r, w) \<Rightarrow>
     (r, s\<lparr>es_world := w, es_log := mk (case r of Done a \<Rightarrow> Some a | _ \<Rightarrow> None) # es_log s\<rparr>))"

definition now :: "'w deps \<Rightarrow> ('w est, time) eng" where
  "now d = (\<lambda>s. case d_now d (es_world s) of (t, w) \<Rightarrow> (Done t, s\<lparr>es_world := w\<rparr>))"

definition sleep :: "'w deps \<Rightarrow> ctx \<Rightarrow> duration \<Rightarrow> ('w est, goerr option) eng" where
  "sleep d c n = (\<lambda>s. case d_sleep d c n (es_world s) of (r, w) \<Rightarrow> (Done r, s\<lparr>es_world := w\<rparr>))"

definition emit :: "'w deps \<Rightarrow> event \<Rightarrow> ('w est, unit) eng" where
  "emit d ev = modify (\<lambda>s. s\<lparr>es_world := d_emit d ev (es_world s), es_log := Emitted ev # es_log s\<rparr>)"

definition modify_run :: "(recovery_run \<Rightarrow> recovery_run) \<Rightarrow> ('w est, unit) eng" where
  "modify_run g = modify (\<lambda>s. s\<lparr>es_run := g (es_run s)\<rparr>)"

definition get_run :: "('w est, recovery_run) eng" where "get_run = gets es_run"


section \<open>Relations every step keeps\<close>

text \<open>
  \<open>grows r r'\<close>: the identity of a run, and of the workload reserved for it, stays; its proof
  level never goes down.
\<close>

definition grows :: "recovery_run \<Rightarrow> recovery_run \<Rightarrow> bool" where
  "grows r r' \<longleftrightarrow>
     run_id r' = run_id r \<and> run_plan_name r' = run_plan_name r \<and>
     run_source_workload_id r' = run_source_workload_id r \<and>
     run_temp_workload_id r' = run_temp_workload_id r \<and> run_temp_name r' = run_temp_name r \<and>
     run_started_at r' = run_started_at r \<and> run_rto_target r' = run_rto_target r \<and>
     rank (run_proof_level r) \<le> rank (run_proof_level r')"

text \<open>A change of the run that leaves its proof level alone.\<close>

definition steady :: "recovery_run \<Rightarrow> recovery_run \<Rightarrow> bool" where
  "steady r r' \<longleftrightarrow> grows r r' \<and> run_proof_level r' = run_proof_level r"

lemma steady_grows: "steady r r' \<Longrightarrow> grows r r'" by (simp add: steady_def)

lemma grows_refl [simp]: "grows r r" by (simp add: grows_def)
lemma grows_trans: "grows r r' \<Longrightarrow> grows r' r'' \<Longrightarrow> grows r r''" by (simp add: grows_def)

lemma grows_raise: "grows r (r\<lparr>run_proof_level := raise_to (run_proof_level r) l\<rparr>)"
  by (simp add: grows_def raise_to_def)

definition keeps :: "('s \<Rightarrow> 's \<Rightarrow> bool) \<Rightarrow> ('s, 'a) eng \<Rightarrow> bool" where
  "keeps R m \<longleftrightarrow> (\<forall>s. R s (snd (m s)))"

lemma keepsD: "keeps R m \<Longrightarrow> R s (snd (m s))" by (simp add: keeps_def)

lemma keeps_wp: "keeps R m \<Longrightarrow> wp m (\<lambda>_ s'. R s s') (\<lambda>_ s'. R s s') s"
  by (auto simp: keeps_def wp_def split: prod.split outcome.split) (metis snd_conv)+

text \<open>
  The interface between effectful steps and a property that relates the state before a step to the
  state after it: the relation is a preorder, so what is built of steps that keep it keeps it.
\<close>

locale kept_order =
  fixes R :: "'s \<Rightarrow> 's \<Rightarrow> bool"
  assumes R_refl: "R s s"
    and R_trans: "R s t \<Longrightarrow> R t u \<Longrightarrow> R s u"
begin

lemma keeps_ret [pres_intros]: "keeps R (ret a)" by (simp add: keeps_def ret_def R_refl)
lemma keeps_gets [pres_intros]: "keeps R (gets f)" by (simp add: keeps_def gets_def R_refl)
lemma keeps_panic [pres_intros]: "keeps R (panic x)" by (simp add: keeps_def panic_def R_refl)
lemma keeps_diverge [pres_intros]: "keeps R diverge" by (simp add: keeps_def diverge_def R_refl)

lemma keeps_bind [pres_intros]:
  assumes "keeps R m" "\<And>a. keeps R (f a)"
  shows "keeps R (bindM m f)"
  unfolding keeps_def
proof
  fix s
  have m: "R s (snd (m s))" using assms(1) by (simp add: keeps_def)
  show "R s (snd (bindM m f s))"
  proof (cases "m s")
    case (Pair r s')
    with m show ?thesis
      using assms(2) by (cases r) (auto simp: bindM_def keeps_def intro: R_trans)
  qed
qed

lemma keeps_then [pres_intros]: "keeps R m \<Longrightarrow> keeps R n \<Longrightarrow> keeps R (thenM m n)"
  by (simp add: thenM_def keeps_bind)

lemma keeps_deref [pres_intros]: "keeps R (deref p)"
  by (cases p) (simp_all add: deref_def keeps_panic keeps_ret)

lemma keeps_case_sum [pres_intros]:
  "(\<And>e. keeps R (f e)) \<Longrightarrow> (\<And>a. keeps R (g a)) \<Longrightarrow> keeps R (case x of Inl e \<Rightarrow> f e | Inr a \<Rightarrow> g a)"
  by (cases x) simp_all

lemma keeps_case_option [pres_intros]:
  "keeps R m \<Longrightarrow> (\<And>a. keeps R (g a)) \<Longrightarrow> keeps R (case x of None \<Rightarrow> m | Some a \<Rightarrow> g a)"
  by (cases x) simp_all

lemma keeps_case_prod [pres_intros]:
  "(\<And>a b. keeps R (f a b)) \<Longrightarrow> keeps R (case x of (a, b) \<Rightarrow> f a b)"
  by (cases x) simp_all

lemma keeps_if [pres_intros]: "keeps R m \<Longrightarrow> keeps R n \<Longrightarrow> keeps R (if b then m else n)"
  by simp

lemma keeps_Let [pres_intros]: "(\<And>x. keeps R (f x)) \<Longrightarrow> keeps R (Let v f)"
  by (simp add: Let_def)

end

text \<open>
  For the engine's state, the relation also tolerates what any step may do that is not a change of the
  cluster.
\<close>

locale base_order = kept_order R for R :: "'w est \<Rightarrow> 'w est \<Rightarrow> bool" +
  assumes R_world: "R s (s\<lparr>es_world := w\<rparr>)"
    and R_observe: "observation e \<Longrightarrow> R s (s\<lparr>es_log := e # es_log s\<rparr>)"
    and R_run: "steady (es_run s) r \<Longrightarrow> R s (s\<lparr>es_run := r\<rparr>)"
begin

lemma keeps_perform [pres_intros]: "(\<And>r. observation (mk r)) \<Longrightarrow> keeps R (perform mk f)"
  unfolding keeps_def perform_def
  using R_trans [OF R_world R_observe] by (auto split: prod.split)

lemma keeps_now [pres_intros]: "keeps R (now d)"
  by (simp add: keeps_def now_def R_world split: prod.split)

lemma keeps_sleep [pres_intros]: "keeps R (sleep d c n)"
  by (simp add: keeps_def sleep_def R_world split: prod.split)

lemma keeps_emit [pres_intros]: "keeps R (emit d ev)"
  unfolding keeps_def emit_def modify_def
  using R_trans [OF R_world R_observe] by simp

lemma keeps_modify_run: "(\<And>r. steady r (g r)) \<Longrightarrow> keeps R (modify_run g)"
  by (simp add: keeps_def modify_run_def modify_def R_run)

lemma keeps_get_run [pres_intros]: "keeps R get_run"
  by (simp add: get_run_def keeps_gets)

end

text \<open>The same interface, for relations that also tolerate a proof level being raised.\<close>

locale step_order = base_order R for R :: "'w est \<Rightarrow> 'w est \<Rightarrow> bool" +
  assumes R_level: "R s (s\<lparr>es_run := (es_run s)\<lparr>run_proof_level := raise_to (run_proof_level (es_run s)) l\<rparr>\<rparr>)"
begin

lemma keeps_raise_level: "keeps R (modify_run (\<lambda>r. r\<lparr>run_proof_level := raise_to (run_proof_level r) (f r)\<rparr>))"
  by (simp add: keeps_def modify_run_def modify_def R_level)

end

text \<open>
  The relation of a step that leaves the cluster alone: it adds observations to the log,
  keeps the variables of \<open>Run\<close>, and lets the run only grow.
\<close>

definition calm :: "'w est \<Rightarrow> 'w est \<Rightarrow> bool" where
  "calm s t \<longleftrightarrow> (\<exists>new. es_log t = new @ es_log s \<and> list_all observation new) \<and>
     es_temp_id t = es_temp_id s \<and> es_node t = es_node s \<and>
     es_needs_cleanup t = es_needs_cleanup s \<and> es_workflow_err t = es_workflow_err s \<and>
     grows (es_run s) (es_run t)"

interpretation calm: step_order calm
proof
  show "calm s s" for s :: "'w est" by (simp add: calm_def)
  show "calm s u" if st: "calm s t" and tu: "calm t u" for s t u :: "'w est"
  proof -
    obtain n n' where "es_log t = n @ es_log s" "list_all observation n"
      "es_log u = n' @ es_log t" "list_all observation n'"
      using st tu unfolding calm_def by blast
    then have "es_log u = (n' @ n) @ es_log s \<and> list_all observation (n' @ n)" by simp
    then show ?thesis using st tu grows_trans unfolding calm_def by metis
  qed
qed (simp_all add: calm_def steady_grows grows_raise)

lemma wp_calm:
  assumes "keeps calm m" "\<And>a t. calm s t \<Longrightarrow> Q a t" "\<And>x t. calm s t \<Longrightarrow> E x t"
  shows "wp m Q E s"
  using keeps_wp [OF assms(1), of s] by (rule wp_mono) (simp_all add: assms)


section \<open>Policies\<close>

text \<open>
  A policy judges each call by the calls made before it; a log is legal when every entry was.
\<close>

fun legal :: "(entry \<Rightarrow> entry list \<Rightarrow> bool) \<Rightarrow> entry list \<Rightarrow> bool" where
  "legal ok [] = True"
| "legal ok (e # es) = (ok e es \<and> legal ok es)"

text \<open>The interface of a policy: watching is always allowed. Then a calm step keeps a log legal.\<close>

locale call_policy =
  fixes ok :: "entry \<Rightarrow> entry list \<Rightarrow> bool"
  assumes ok_observation: "observation e \<Longrightarrow> ok e es"
begin

lemma legal_observations: "list_all observation new \<Longrightarrow> legal ok es \<Longrightarrow> legal ok (new @ es)"
  by (induction new) (simp_all add: ok_observation)

lemma legal_calm: "calm s t \<Longrightarrow> legal ok (es_log s) \<Longrightarrow> legal ok (es_log t)"
  by (auto simp: calm_def legal_observations)

lemma legal_split: "legal ok (post @ e # pre) \<Longrightarrow> ok e pre"
  by (induction post) simp_all

end

lemma calm_list_ex: "calm s t \<Longrightarrow> list_ex P (es_log s) \<Longrightarrow> list_ex P (es_log t)"
  by (auto simp: calm_def)

lemma calm_not_list_ex:
  "calm s t \<Longrightarrow> (\<And>e. observation e \<Longrightarrow> \<not> P e) \<Longrightarrow> list_ex P (es_log t) \<longleftrightarrow> list_ex P (es_log s)"
  by (auto simp: calm_def list_ex_iff list_all_iff)

lemma calm_filter:
  "calm s t \<Longrightarrow> (\<And>e. observation e \<Longrightarrow> \<not> P e) \<Longrightarrow> filter P (es_log t) = filter P (es_log s)"
  by (auto simp: calm_def list_all_iff filter_empty_conv)

lemma calm_vars:
  "calm s t \<Longrightarrow> es_temp_id t = es_temp_id s \<and> es_node t = es_node s \<and>
     es_needs_cleanup t = es_needs_cleanup s \<and> es_workflow_err t = es_workflow_err s"
  by (simp add: calm_def)

lemma calm_grows: "calm s t \<Longrightarrow> grows (es_run s) (es_run t)"
  by (simp add: calm_def)

lemma wp_perform:
  "wp (perform mk f) Q E s =
     (case f (es_world s) of (r, w) \<Rightarrow>
        let s' = s\<lparr>es_world := w, es_log := mk (case r of Done a \<Rightarrow> Some a | _ \<Rightarrow> None) # es_log s\<rparr> in
        case r of Done a \<Rightarrow> Q a s' | Panicked x \<Rightarrow> E (Some x) s' | Diverged \<Rightarrow> E None s')"
  by (simp add: wp_def perform_def Let_def split: prod.split)

text \<open>A call whose answer nothing is known about: it is logged with some answer.\<close>

lemma wp_performI:
  assumes "\<And>a w. Q a (s\<lparr>es_world := w, es_log := mk (Some a) # es_log s\<rparr>)"
    and "\<And>x w. E x (s\<lparr>es_world := w, es_log := mk None # es_log s\<rparr>)"
  shows "wp (perform mk f) Q E s"
  unfolding wp_perform using assms by (auto simp: Let_def split: prod.split outcome.split)

lemma wp_emit [simp]:
  "wp (emit d ev) Q E s = Q () (s\<lparr>es_world := d_emit d ev (es_world s), es_log := Emitted ev # es_log s\<rparr>)"
  by (simp add: emit_def)

lemma wp_modify_run [simp]: "wp (modify_run g) Q E s = Q () (s\<lparr>es_run := g (es_run s)\<rparr>)"
  by (simp add: modify_run_def)

lemma wp_get_run [simp]: "wp get_run Q E s = Q (es_run s) s"
  by (simp add: get_run_def)

lemma wp_now: "wp (now d) Q E s = Q (fst (d_now d (es_world s))) (s\<lparr>es_world := snd (d_now d (es_world s))\<rparr>)"
  by (simp add: wp_def now_def split: prod.split)

lemma wp_sleep:
  "wp (sleep d c n) Q E s =
     Q (fst (d_sleep d c n (es_world s))) (s\<lparr>es_world := snd (d_sleep d c n (es_world s))\<rparr>)"
  by (simp add: wp_def sleep_def split: prod.split)

lemma wp_if [simp]: "wp (if b then m else n) Q E s = (if b then wp m Q E s else wp n Q E s)"
  by simp

lemma wp_Let [simp]: "wp (Let v f) Q E s = wp (f v) Q E s"
  by (simp add: Let_def)

end
