(* ===== verification/Engine.thy ===== *)
theory Engine
  imports Effects
begin

text \<open>
  The recovery engine, internal/recovery: steps.go, retry.go, cleanup.go and engine.go. A Go
  function that returns an error returns \<open>goerr + 'a\<close> here, \<open>Inl\<close> the error; its early returns
  are the branches of the \<open>case\<close>. Log lines are left out. Waiting for the guest is a loop that
  runs until the clock passes the deadline: it takes fuel, one unit a poll, and \<open>Diverged\<close> is
  the value of a loop that spent it.
\<close>

section \<open>Opening and closing a step\<close>

definition event_for :: "recovery_run \<Rightarrow> event" where
  "event_for run =
     \<lparr>ev_run_id = run_id run, ev_at = zero_time, ev_state = RunNoState, ev_step = '''',
      ev_status = StepPending, ev_message = '''', ev_check = None, ev_err = '''',
      ev_temp_workload_id = run_temp_workload_id run, ev_node = run_node run\<rparr>"

definition human_step_start :: "string \<Rightarrow> string" where
  "human_step_start name =
     (if name = step_discover_backup then ''Looking for a backup to restore''
      else if name = step_prepare_environment then ''Preparing the isolated restore environment''
      else if name = step_restore then ''Restoring backup into a temporary workload''
      else if name = step_start then ''Starting the restored workload''
      else if name = step_wait_for_guest then ''Waiting for the guest to come up''
      else if name = step_run_checks then ''Running checks''
      else if name = step_cleanup then ''Cleaning up the temporary workload''
      else name)"

definition set_state :: "run_state \<Rightarrow> ('w est, unit) eng" where
  "set_state st = modify_run (\<lambda>r. r\<lparr>run_state := st\<rparr>)"

definition append_step :: "step \<Rightarrow> ('w est, unit) eng" where
  "append_step st = modify_run (\<lambda>r. r\<lparr>run_steps := run_steps r @ [st]\<rparr>)"

definition begin_step :: "'w deps \<Rightarrow> string \<Rightarrow> run_state \<Rightarrow> ('w est, nat) eng" where
  "begin_step d name state =
     thenM (set_state state) (
     bindM (now d) (\<lambda>started.
     thenM (append_step
       \<lparr>st_name = name, st_state = state, st_status = StepRunning, st_started_at = started,
        st_completed_at = zero_time, st_duration = 0, st_message = '''', st_err = '''', st_details = []\<rparr>) (
     bindM get_run (\<lambda>run.
     thenM (emit d ((event_for run)\<lparr>ev_at := started, ev_state := state, ev_step := name,
       ev_status := StepRunning, ev_message := human_step_start name\<rparr>)) (
     ret (length (run_steps run) - 1))))))"

definition err_string :: "goerr option \<Rightarrow> string" where
  "err_string e = (case e of None \<Rightarrow> '''' | Some e \<Rightarrow> err_text e)"

text \<open>Indexing \<open>run.Steps\<close> out of range would panic.\<close>

definition end_step ::
  "'w deps \<Rightarrow> nat \<Rightarrow> step_status \<Rightarrow> string \<Rightarrow> goerr option \<Rightarrow> ('w est, unit) eng" where
  "end_step d idx status message err =
     bindM get_run (\<lambda>run.
     if idx < length (run_steps run) then
       bindM (now d) (\<lambda>t.
       let st = (run_steps run ! idx)\<lparr>st_completed_at := t,
                  st_duration := time_sub t (st_started_at (run_steps run ! idx)),
                  st_status := status, st_message := message, st_err := err_string err\<rparr>
       in thenM (modify_run (\<lambda>r. r\<lparr>run_steps := (run_steps r)[idx := st]\<rparr>)) (
          emit d ((event_for run)\<lparr>ev_at := t, ev_state := st_state st, ev_step := st_name st,
            ev_status := status, ev_message := message, ev_err := err_string err\<rparr>)))
     else panic ''index out of range'')"


section \<open>Retrying\<close>

text \<open>\<open>retry_from n\<close>: the iterations left after this one are \<open>n\<close>.\<close>

primrec retry_from ::
  "nat \<Rightarrow> 'w deps \<Rightarrow> ctx \<Rightarrow> duration \<Rightarrow> ('w est, goerr + 'a) eng \<Rightarrow> ('w est, goerr + 'a) eng" where
  "retry_from 0 d c backoff fn =
     bindM fn (\<lambda>r. case r of Inr a \<Rightarrow> ret (Inr a) | Inl e \<Rightarrow> ret (Inl e))"
| "retry_from (Suc n) d c backoff fn =
     bindM fn (\<lambda>r. case r of
       Inr a \<Rightarrow> ret (Inr a)
     | Inl e \<Rightarrow>
         if \<not> is_retryable e then ret (Inl e)
         else bindM (sleep d c backoff) (\<lambda>serr. case serr of
                Some _ \<Rightarrow> ret (Inl e)
              | None \<Rightarrow> retry_from n d c backoff fn))"

definition retry ::
  "'w deps \<Rightarrow> ctx \<Rightarrow> int \<Rightarrow> duration \<Rightarrow> ('w est, goerr + 'a) eng \<Rightarrow> ('w est, goerr + 'a) eng" where
  "retry d c attempts backoff fn = retry_from (nat (attempts - 1)) d c backoff fn"


section \<open>Discovering the backup\<close>

record run_options =
  op_run_id :: string
  op_network :: network_config
  op_node :: string
  op_storage :: string
  op_pool :: string
  op_dry_run :: bool
  op_keep_workload :: bool

definition resolve_source_name :: "'w deps \<Rightarrow> ('w est, unit) eng" where
  "resolve_source_name d =
     bindM get_run (\<lambda>run.
     bindM (perform (\<lambda>_. CallGetWorkload RunCtx (run_source_workload_id run))
             (d_get_workload d RunCtx (run_source_workload_id run))) (\<lambda>r.
     case r of
       Inl e \<Rightarrow> ret ()
     | Inr w \<Rightarrow>
         bindM (deref w) (\<lambda>w.
         thenM (if wl_name w \<noteq> '''' then modify_run (\<lambda>r. r\<lparr>run_source_name := wl_name w\<rparr>) else ret ()) (
         if run_node run = '''' then modify_run (\<lambda>r. r\<lparr>run_node := wl_node w\<rparr>) else ret ()))))"

definition resolve_backup :: "'w deps \<Rightarrow> plan \<Rightarrow> ('w est, goerr + backup option) eng" where
  "resolve_backup d p =
     (case bs_strategy (pl_backup p) of
        StrategySpecific \<Rightarrow>
          bindM (perform (\<lambda>_. CallListBackups RunCtx (wr_id (pl_workload p)))
                  (d_list_backups d RunCtx (wr_id (pl_workload p)))) (\<lambda>r.
          case r of
            Inl e \<Rightarrow> ret (Inl e)
          | Inr backups \<Rightarrow>
              ret (case find (\<lambda>b. bk_id b = bs_id (pl_backup p)) backups of
                     Some b \<Rightarrow> Inr (Some b) | None \<Rightarrow> Inl (Sentinel ErrNoBackup)))
      | _ \<Rightarrow> perform (\<lambda>_. CallGetLatest RunCtx (wr_id (pl_workload p)))
               (d_get_latest d RunCtx (wr_id (pl_workload p))))"

definition stale_backup_error :: "plan \<Rightarrow> duration \<Rightarrow> goerr" where
  "stale_backup_error p age =
     Plain (''STALE BACKUP: newest backup for '' @ wr_id (pl_workload p) @ '' is '' @
       dur_string (dur_round age second) @ '' old, plan requires max_age '' @
       dur_string (bs_max_age (pl_backup p)) @ ''. Recovery aborted, your backups are stale'')"

definition accept_backup :: "'w deps \<Rightarrow> nat \<Rightarrow> backup option \<Rightarrow> ('w est, goerr + unit) eng" where
  "accept_backup d idx backup =
     thenM (modify_run (\<lambda>r. r\<lparr>run_backup := backup\<rparr>)) (
     bindM (deref backup) (\<lambda>b.
     thenM (end_step d idx StepDone
       (''using backup '' @ bk_id b @ '' from '' @ format_rfc3339 (bk_created_at b)) None) (
     ret (Inr ()))))"

definition discover_backup :: "'w deps \<Rightarrow> plan \<Rightarrow> ('w est, goerr + unit) eng" where
  "discover_backup d p =
     bindM (begin_step d step_discover_backup RunDiscoveringBackup) (\<lambda>idx.
     thenM (resolve_source_name d) (
     bindM (resolve_backup d p) (\<lambda>r.
     case r of
       Inl e \<Rightarrow> thenM (end_step d idx StepFailed ''no usable backup found'' (Some e)) (ret (Inl e))
     | Inr backup \<Rightarrow>
         if bs_max_age (pl_backup p) > 0 then
           bindM (now d) (\<lambda>t.
           bindM (deref backup) (\<lambda>b.
           let age = time_sub t (bk_created_at b) in
           if age > bs_max_age (pl_backup p) then
             (let e = stale_backup_error p age in
              thenM (end_step d idx StepFailed (err_text e) (Some e)) (ret (Inl e)))
           else accept_backup d idx backup))
         else accept_backup d idx backup)))"


section \<open>Preparing the environment\<close>

definition no_node_error :: goerr where
  "no_node_error = Plain (''no node to restore onto: set restore.node in the plan, --node, or '' @
     ''defaults.node in the config'')"

definition resolve_node :: "plan \<Rightarrow> run_options \<Rightarrow> ('w est, goerr + string) eng" where
  "resolve_node p opts =
     bindM get_run (\<lambda>run.
     let node0 = first_non_empty [op_node opts, rs_node (pl_restore p), run_node run];
         node = (case run_backup run of
                   Some b \<Rightarrow> if node0 = '''' then bk_node b else node0
                 | None \<Rightarrow> node0)
     in if node = '''' then ret (Inl no_node_error)
        else thenM (modify_run (\<lambda>r. r\<lparr>run_node := node\<rparr>)) (ret (Inr node)))"

definition not_isolated_error :: goerr where
  "not_isolated_error = wrap_prefix (Sentinel ErrNetworkNotIsolated)
     '': restore network is not marked isolated; refusing to restore production data onto it''"

definition check_network_isolation ::
  "'w deps \<Rightarrow> string \<Rightarrow> network_config \<Rightarrow> ('w est, goerr + unit) eng" where
  "check_network_isolation d node network =
     (if \<not> nw_isolated network then ret (Inl not_isolated_error)
      else case d_validate_isolation d of
        None \<Rightarrow> ret (Inr ())
      | Some check_net \<Rightarrow>
          bindM (perform (\<lambda>r. CallValidate RunCtx node network (ok_of r)) (check_net RunCtx node network)) (\<lambda>r.
          case r of
            Inr _ \<Rightarrow> ret (Inr ())
          | Inl e \<Rightarrow> if errors_is e ErrIsolationUnverified then ret (Inr ()) else ret (Inl e)))"

definition capacity_error :: "string \<Rightarrow> int \<Rightarrow> int \<Rightarrow> goerr" where
  "capacity_error node free needed = wrap_prefix (Sentinel ErrInsufficientCapacity)
     ('': node '' @ node @ '' has '' @ human_bytes free @ '' free, restore needs '' @ human_bytes needed)"

text \<open>The bytes a memory limit asks for, multiplied in 64 bits.\<close>

definition needed_bytes :: "int \<Rightarrow> int" where
  "needed_bytes mb = wrap64 (wrap64 (mb * 1024) * 1024)"

definition check_capacity :: "'w deps \<Rightarrow> string \<Rightarrow> int \<Rightarrow> ('w est, goerr + unit) eng" where
  "check_capacity d node memory_limit_mb =
     (if memory_limit_mb \<le> 0 then ret (Inr ())
      else case d_node_capacity d of
        None \<Rightarrow> ret (Inr ())
      | Some capacity \<Rightarrow>
          bindM (perform (\<lambda>_. CallCapacity RunCtx node) (capacity RunCtx node)) (\<lambda>r.
          case r of
            Inl e \<Rightarrow> ret (Inl e)
          | Inr n \<Rightarrow>
              bindM (deref n) (\<lambda>n.
              let needed = needed_bytes memory_limit_mb; free = memory_free_bytes n in
              if free < needed then ret (Inl (capacity_error node free needed)) else ret (Inr ()))))"

text \<open>What \<open>prepareEnvironment\<close> returns: the temporary id, its name, its metadata, the node.\<close>

record prepared =
  pr_temp_id :: string
  pr_temp_name :: string
  pr_metadata :: "(string \<times> string) list"
  pr_node :: string

definition fail_step :: "'w deps \<Rightarrow> nat \<Rightarrow> string \<Rightarrow> goerr \<Rightarrow> ('w est, goerr + 'a) eng" where
  "fail_step d idx message e =
     thenM (end_step d idx StepFailed message (Some e)) (ret (Inl e))"

definition reserve_identity ::
  "'w deps \<Rightarrow> plan \<Rightarrow> nat \<Rightarrow> string \<Rightarrow> string \<Rightarrow> ('w est, goerr + prepared) eng" where
  "reserve_identity d p idx node tid =
     bindM (now d) (\<lambda>t1.
     bindM (now d) (\<lambda>t2.
     bindM get_run (\<lambda>run.
     let tname = temp_workload_name (wr_id (pl_workload p)) t1;
         metadata = workload_metadata (run_id run) (wr_id (pl_workload p)) t2
     in thenM (modify_run (\<lambda>r. r\<lparr>run_temp_workload_id := tid, run_temp_name := tname, run_node := node\<rparr>)) (
        thenM (end_step d idx StepDone
          (''allocated temporary workload '' @ tid @ '' ('' @ tname @ '') on node '' @ node) None) (
        ret (Inr \<lparr>pr_temp_id = tid, pr_temp_name = tname, pr_metadata = metadata, pr_node = node\<rparr>))))))"

definition allocate :: "'w deps \<Rightarrow> ('w est, goerr + string) eng" where
  "allocate d =
     perform (\<lambda>r. CallAllocate RunCtx (case r of Some (Inr tid) \<Rightarrow> Some tid | _ \<Rightarrow> None))
       (d_allocate d RunCtx)"

definition prepare_environment ::
  "'w deps \<Rightarrow> plan \<Rightarrow> run_options \<Rightarrow> ('w est, goerr + prepared) eng" where
  "prepare_environment d p opts =
     bindM (begin_step d step_prepare_environment RunPreparing) (\<lambda>idx.
     bindM (resolve_node p opts) (\<lambda>rn. case rn of
       Inl e \<Rightarrow> fail_step d idx ''no target node'' e
     | Inr node \<Rightarrow>
     bindM (check_network_isolation d node (op_network opts)) (\<lambda>ri. case ri of
       Inl e \<Rightarrow> fail_step d idx ''network isolation check failed'' e
     | Inr _ \<Rightarrow>
     bindM (check_capacity d node (rs_memory_limit_mb (pl_restore p))) (\<lambda>rc. case rc of
       Inl e \<Rightarrow> fail_step d idx ''capacity check failed'' e
     | Inr _ \<Rightarrow>
     bindM (allocate d) (\<lambda>ra. case ra of
       Inl e \<Rightarrow> fail_step d idx ''could not allocate a temporary workload id'' e
     | Inr tid \<Rightarrow> reserve_identity d p idx node tid)))))"


section \<open>Restoring\<close>

definition restore_options_of ::
  "plan \<Rightarrow> run_options \<Rightarrow> prepared \<Rightarrow> restore_options" where
  "restore_options_of p opts pr =
     \<lparr>ro_target_workload_id = pr_temp_id pr, ro_name = pr_temp_name pr, ro_node = pr_node pr,
      ro_storage = first_non_empty [op_storage opts, rs_storage (pl_restore p)],
      ro_pool = first_non_empty [op_pool opts, rs_pool (pl_restore p)],
      ro_network = op_network opts,
      ro_cpu_limit = rs_cpu_limit (pl_restore p),
      ro_memory_limit_mb = rs_memory_limit_mb (pl_restore p),
      ro_bandwidth_kibps = rs_bandwidth_kibps (pl_restore p),
      ro_start = False, ro_metadata = pr_metadata pr\<rparr>"

definition task_ok :: "(goerr + task_state option) option \<Rightarrow> bool" where
  "task_ok r = (case r of Some (Inr (Some t)) \<Rightarrow> ts_success t | _ \<Rightarrow> False)"

definition wait_for_job :: "'w deps \<Rightarrow> restore_job option \<Rightarrow> ('w est, goerr + task_state option) eng" where
  "wait_for_job d job =
     perform (\<lambda>r. CallWait RunCtx (task_ok r)) (d_wait_for_job d RunCtx job)"

text \<open>The post-restore hardening pass, when the provider has one.\<close>

definition harden ::
  "'w deps \<Rightarrow> nat \<Rightarrow> restore_options \<Rightarrow> ('w est, goerr + unit) eng" where
  "harden d idx ro =
     (case d_finalize d of
        None \<Rightarrow> ret (Inr ())
      | Some finalize_restore \<Rightarrow>
          bindM (perform (\<lambda>r. CallFinalize RunCtx ro (ok_of r)) (finalize_restore RunCtx ro)) (\<lambda>r.
          case r of
            Inl e \<Rightarrow> fail_step d idx ''post-restore hardening failed'' e
          | Inr _ \<Rightarrow> ret (Inr ())))"

definition task_failure_message :: "task_state option \<Rightarrow> string" where
  "task_failure_message task =
     (case task of
        Some t \<Rightarrow> if ts_message t \<noteq> '''' then ts_message t else ''restore task reported failure''
      | None \<Rightarrow> ''restore task reported failure'')"

definition settle_restore ::
  "'w deps \<Rightarrow> nat \<Rightarrow> restore_options \<Rightarrow> task_state option \<Rightarrow> ('w est, goerr + unit) eng" where
  "settle_restore d idx ro task =
     (if task = None \<or> \<not> ts_success (the task) then
        fail_step d idx (task_failure_message task)
          (Plain (''restore failed: '' @ task_failure_message task))
      else
        bindM (harden d idx ro) (\<lambda>r. case r of
          Inl e \<Rightarrow> ret (Inl e)
        | Inr _ \<Rightarrow>
            thenM (end_step d idx StepDone (''restore completed onto '' @ ro_target_workload_id ro) None) (
            ret (Inr ()))))"

definition restore_workload ::
  "'w deps \<Rightarrow> plan \<Rightarrow> run_options \<Rightarrow> prepared \<Rightarrow> ('w est, goerr + unit) eng" where
  "restore_workload d p opts pr =
     bindM (begin_step d step_restore RunRestoring) (\<lambda>idx.
     let ro = restore_options_of p opts pr in
     bindM get_run (\<lambda>run.
     bindM (deref (run_backup run)) (\<lambda>b.
     bindM (perform (\<lambda>r. CallRestore RunCtx b ro (ok_of r)) (d_restore d RunCtx b ro)) (\<lambda>r.
     case r of
       Inl e \<Rightarrow> fail_step d idx ''restore submission failed'' e
     | Inr job \<Rightarrow>
         thenM (modify (\<lambda>s. s\<lparr>es_needs_cleanup := True\<rparr>)) (
         bindM (retry d RunCtx 3 (2 * second) (wait_for_job d job)) (\<lambda>r. case r of
           Inl e \<Rightarrow> fail_step d idx ''restore job wait failed'' e
         | Inr task \<Rightarrow> settle_restore d idx ro task))))))"


section \<open>Starting the workload and waiting for the guest\<close>

definition start_call :: "'w deps \<Rightarrow> string \<Rightarrow> ('w est, goerr + unit) eng" where
  "start_call d tid = perform (\<lambda>r. CallStart RunCtx tid (ok_of r)) (d_start d RunCtx tid)"

definition start_workload :: "'w deps \<Rightarrow> plan \<Rightarrow> string \<Rightarrow> ('w est, goerr + unit) eng" where
  "start_workload d p tid =
     bindM (begin_step d step_start RunStarting) (\<lambda>idx.
     if su_skip (pl_startup p) then
       thenM (end_step d idx StepSkipped ''startup skipped by plan (restore-only drill)'' None) (ret (Inr ()))
     else
       bindM (retry d RunCtx 3 (2 * second) (start_call d tid)) (\<lambda>r. case r of
         Inl e \<Rightarrow> fail_step d idx ''failed to power on the restored workload'' e
       | Inr _ \<Rightarrow> thenM (end_step d idx StepDone ''workload powered on'' None) (ret (Inr ()))))"

definition poll_status :: "'w deps \<Rightarrow> string \<Rightarrow> ('w est, goerr + workload_status option) eng" where
  "poll_status d tid =
     retry d RunCtx 3 second (perform (\<lambda>_. CallGetStatus RunCtx tid) (d_get_status d RunCtx tid))"

definition guest_ready :: "workload_status \<Rightarrow> plan \<Rightarrow> bool" where
  "guest_ready s p =
     (if ws_power_state s \<noteq> PowerRunning then False
      else if waits_for_agent (pl_startup p) \<and> \<not> ws_agent_ready s then False
      else if su_ip (pl_startup p) \<noteq> '''' then True
      else if waits_for_ip (pl_startup p) then primary_ip s \<noteq> ''''
      else True)"

definition ip_suffix :: "string \<Rightarrow> string" where
  "ip_suffix ip = (if ip = '''' then '''' else '' ('' @ ip @ '')'')"

definition describe_status :: "workload_status option \<Rightarrow> string" where
  "describe_status s =
     (case s of
        None \<Rightarrow> ''no status''
      | Some s \<Rightarrow> ''power='' @ power_string (ws_power_state s) @ '' '' @
          (if ws_agent_ready s then ''agent=yes'' else ''agent=no'') @
          '' ips=['' @ join '' '' (ws_ips s) @ '']'')"

definition guest_target :: "'w deps \<Rightarrow> recovery_run \<Rightarrow> string \<Rightarrow> string \<Rightarrow> string list \<Rightarrow> target" where
  "guest_target d run tid ip ips =
     \<lparr>tg_ip = ip, tg_ips = ips, tg_workload_id = tid, tg_node = run_node run,
      tg_name = run_source_name run, tg_vars = [], tg_exec = d_has_exec d,
      tg_baseline = d_has_baselines d\<rparr>"

text \<open>The guest answered: its agent proves the boot, and the checks get their target.\<close>

definition guest_up ::
  "'w deps \<Rightarrow> plan \<Rightarrow> string \<Rightarrow> nat \<Rightarrow> workload_status \<Rightarrow> ('w est, goerr + target) eng" where
  "guest_up d p tid idx status =
     thenM (if ws_agent_ready status
            then modify_run (\<lambda>r. r\<lparr>run_proof_level := raise_to (run_proof_level r) ProofBoot\<rparr>)
            else ret ()) (
     bindM get_run (\<lambda>run.
     let ip = (if su_ip (pl_startup p) = '''' then primary_ip status else su_ip (pl_startup p)) in
     thenM (end_step d idx StepDone (''guest is up'' @ ip_suffix ip) None) (
     ret (Inr (guest_target d run tid ip (ws_ips status))))))"

definition guest_timeout_error :: "duration \<Rightarrow> workload_status option \<Rightarrow> goerr" where
  "guest_timeout_error timeout last_seen =
     wrap_prefix (Sentinel ErrTimeout)
       ('': guest not ready after '' @ dur_string timeout @ '' (last seen: '' @ describe_status last_seen @ '')'')"

definition interrupted_error :: "goerr \<Rightarrow> goerr" where
  "interrupted_error e = Wrapped (''wait for guest interrupted: '' @ err_text e) e"

primrec poll_guest ::
  "nat \<Rightarrow> 'w deps \<Rightarrow> plan \<Rightarrow> string \<Rightarrow> nat \<Rightarrow> time \<Rightarrow> ('w est, goerr + target) eng" where
  "poll_guest 0 d p tid idx deadline = diverge"
| "poll_guest (Suc fuel) d p tid idx deadline =
     bindM (poll_status d tid) (\<lambda>r. case r of
       Inl e \<Rightarrow> fail_step d idx ''could not query guest status'' e
     | Inr status \<Rightarrow>
     bindM (deref status) (\<lambda>st.
     if guest_ready st p then guest_up d p tid idx st
     else
       bindM (now d) (\<lambda>t.
       if \<not> t < deadline then
         (let e = guest_timeout_error (su_timeout (pl_startup p)) status in
          fail_step d idx (err_text e) e)
       else
         bindM (now d) (\<lambda>t'.
         let remaining = time_sub deadline t';
             wait = (if remaining < default_guest_poll_every then remaining else default_guest_poll_every)
         in bindM (sleep d RunCtx wait) (\<lambda>serr. case serr of
              Some e \<Rightarrow> fail_step d idx ''interrupted while waiting for guest'' (interrupted_error e)
            | None \<Rightarrow> poll_guest fuel d p tid idx deadline)))))"

definition wait_for_guest :: "nat \<Rightarrow> 'w deps \<Rightarrow> plan \<Rightarrow> string \<Rightarrow> ('w est, goerr + target) eng" where
  "wait_for_guest fuel d p tid =
     bindM (begin_step d step_wait_for_guest RunWaitingForGuest) (\<lambda>idx.
     if su_skip (pl_startup p) then
       thenM (end_step d idx StepSkipped ''startup skipped, guest was not booted'' None) (
       bindM get_run (\<lambda>run. ret (Inr (guest_target d run tid '''' []))))
     else
       bindM (now d) (\<lambda>t. poll_guest fuel d p tid idx (t + su_timeout (pl_startup p))))"


section \<open>Running the checks\<close>

fun pair_results :: "check_config list \<Rightarrow> check_result list \<Rightarrow> proof_check list" where
  "pair_results (c # cs) (r # rs) = \<lparr>pc_config = c, pc_result = r\<rparr> # pair_results cs rs"
| "pair_results _ _ = []"

primrec emit_results :: "'w deps \<Rightarrow> check_result list \<Rightarrow> ('w est, unit) eng" where
  "emit_results d [] = ret ()"
| "emit_results d (r # rs) =
     bindM get_run (\<lambda>run.
     bindM (now d) (\<lambda>t.
     thenM (emit d ((event_for run)\<lparr>ev_at := t, ev_state := RunRunningChecks, ev_step := step_run_checks,
       ev_status := step_status_for_check (cr_status r), ev_message := check_message r, ev_check := Some r\<rparr>)) (
     emit_results d rs)))"

text \<open>The critical checks that did not pass: those with a bad answer, those with none.\<close>

fun classify_critical :: "plan \<Rightarrow> check_result list \<Rightarrow> string list \<times> string list" where
  "classify_critical p [] = ([], [])"
| "classify_critical p (r # rs) =
     (case classify_critical p rs of (failed, unevaluated) \<Rightarrow>
        if cr_ok r \<or> \<not> is_critical_name p (cr_name r) then (failed, unevaluated)
        else if cr_status r = CheckError then (failed, cr_name r # unevaluated)
        else (cr_name r # failed, unevaluated))"

definition string_list_v :: "string list \<Rightarrow> string" where
  "string_list_v xs = ''['' @ join '' '' xs @ '']''"

definition run_checks_step :: "'w deps \<Rightarrow> plan \<Rightarrow> target \<Rightarrow> ('w est, goerr + unit) eng" where
  "run_checks_step d p tg =
     bindM (begin_step d step_run_checks RunRunningChecks) (\<lambda>idx.
     let cfgs = map to_core (pl_checks p) in
     bindM (perform (\<lambda>_. CallRunAll RunCtx tg) (d_run_all d RunCtx tg cfgs)) (\<lambda>results.
     thenM (modify_run (\<lambda>r. r\<lparr>run_checks := results\<rparr>)) (
     thenM (modify_run (\<lambda>r. r\<lparr>run_proof_level :=
       raise_to (run_proof_level r) (proven_by (pair_results cfgs results))\<rparr>)) (
     thenM (emit_results d results) (
     case classify_critical p results of (failed, unevaluated) \<Rightarrow>
       if failed \<noteq> [] then
         (let e = Plain (''critical check(s) failed: '' @ string_list_v failed) in
          fail_step d idx (err_text e) e)
       else if unevaluated \<noteq> [] then
         (let e = wrap_prefix (Sentinel ErrChecksInconclusive) ('': '' @ string_list_v unevaluated) in
          fail_step d idx (err_text e) e)
       else
         thenM (end_step d idx StepDone (itoa (int (length results)) @ '' check(s) completed'') None) (
         ret (Inr ())))))))"


section \<open>Grading a run\<close>

definition mark_failed :: "goerr \<Rightarrow> ('w est, unit) eng" where
  "mark_failed e = modify_run (\<lambda>r. r\<lparr>run_result := ResultFailed, run_state := RunFailed, run_err := err_text e\<rparr>)"

definition mark_inconclusive :: "goerr \<Rightarrow> ('w est, unit) eng" where
  "mark_inconclusive e =
     modify_run (\<lambda>r. r\<lparr>run_state := RunInconclusive, run_result := ResultNone, run_err := err_text e\<rparr>)"

definition mark_cancelled :: "goerr \<Rightarrow> ('w est, unit) eng" where
  "mark_cancelled e =
     modify_run (\<lambda>r. r\<lparr>run_state := RunCancelled, run_result := ResultNone,
                      run_err := ''run cancelled: '' @ err_text e\<rparr>)"

text \<open>A check that ran, came back bad, and is not critical.\<close>

fun degrading_check :: "plan \<Rightarrow> check_result list \<Rightarrow> bool" where
  "degrading_check p [] = False"
| "degrading_check p (c # cs) =
     (if cr_status c = CheckFail \<and> \<not> is_critical_name p (cr_name c) then True else degrading_check p cs)"

definition grade_success :: "plan \<Rightarrow> ('w est, unit) eng" where
  "grade_success p =
     modify_run (\<lambda>r.
       let degraded = (if rto_exceeded r then True else degrading_check p (run_checks r))
       in r\<lparr>run_state := RunSuccess, run_result := (if degraded then ResultDegraded else ResultSuccess)\<rparr>)"

definition finalize_run :: "'w deps \<Rightarrow> ('w est, unit) eng" where
  "finalize_run d =
     bindM get_run (\<lambda>run.
     thenM (if is_zero (run_completed_at run)
            then bindM (now d) (\<lambda>t. modify_run (\<lambda>r. r\<lparr>run_completed_at := t\<rparr>)) else ret ()) (
     modify_run (\<lambda>r. if run_state r = RunNoState then r\<lparr>run_state := RunFailed\<rparr> else r)))"

definition combine_errors :: "goerr option \<Rightarrow> goerr option \<Rightarrow> goerr option" where
  "combine_errors workflow_err cleanup_err =
     (case (workflow_err, cleanup_err) of
        (Some a, Some b) \<Rightarrow> Some (Joined [a, b])
      | (Some a, None) \<Rightarrow> Some a
      | (None, Some b) \<Rightarrow> Some b
      | (None, None) \<Rightarrow> None)"

section \<open>Cleaning up\<close>

definition record_cleanup_skipped :: "'w deps \<Rightarrow> string \<Rightarrow> ('w est, unit) eng" where
  "record_cleanup_skipped d message =
     bindM (begin_step d step_cleanup RunCleaningUp) (\<lambda>idx.
     thenM (end_step d idx StepSkipped message None) (
     modify_run (\<lambda>r. r\<lparr>run_cleanup_done := False\<rparr>)))"

definition stop_call :: "'w deps \<Rightarrow> string \<Rightarrow> ('w est, goerr + unit) eng" where
  "stop_call d tid = perform (\<lambda>r. CallStop CleanupCtx tid (ok_of r)) (d_stop d CleanupCtx tid)"

definition delete_call :: "'w deps \<Rightarrow> string \<Rightarrow> ('w est, goerr + unit) eng" where
  "delete_call d tid = perform (\<lambda>r. CallDelete CleanupCtx tid (ok_of r)) (d_delete d CleanupCtx tid)"

definition orphan_message :: "string \<Rightarrow> string \<Rightarrow> string \<Rightarrow> goerr \<Rightarrow> string" where
  "orphan_message tid node rid e =
     ''ORPHANED WORKLOAD: failed to delete temporary workload '' @ tid @ '' on node '' @ node @
     '' (run '' @ rid @ ''). Remove it manually: '' @ err_text e"

definition orphan_error :: "string \<Rightarrow> string \<Rightarrow> goerr \<Rightarrow> goerr" where
  "orphan_error tid node e =
     Wrapped (''cleanup: orphaned workload '' @ tid @ '' on node '' @ node @ '': '' @ err_text e) e"

text \<open>Stop, best effort, then delete, once; both on a context of their own.\<close>

definition destroy_workload ::
  "'w deps \<Rightarrow> string \<Rightarrow> string \<Rightarrow> run_state \<Rightarrow> ('w est, goerr option) eng" where
  "destroy_workload d tid node graded_state =
     bindM (begin_step d step_cleanup RunCleaningUp) (\<lambda>idx.
     thenM (retry d CleanupCtx 3 (2 * second) (stop_call d tid)) (
     bindM (delete_call d tid) (\<lambda>r.
     case r of
       Inl e \<Rightarrow>
         thenM (modify_run (\<lambda>r. r\<lparr>run_cleanup_done := False, run_state := RunCleanupFailed,
           run_err := orphan_message tid node (run_id r) e\<rparr>)) (
         bindM get_run (\<lambda>run.
         thenM (end_step d idx StepFailed (orphan_message tid node (run_id run) e) (Some e)) (
         ret (Some (orphan_error tid node e)))))
     | Inr _ \<Rightarrow>
         thenM (modify_run (\<lambda>r. r\<lparr>run_cleanup_done := True\<rparr>)) (
         thenM (end_step d idx StepDone (''temporary workload '' @ tid @ '' removed'') None) (
         thenM (modify_run (\<lambda>r. r\<lparr>run_state := graded_state\<rparr>)) (
         ret None))))))"

definition incomplete :: "recovery_run \<Rightarrow> bool" where
  "incomplete r \<longleftrightarrow> run_result r = ResultFailed \<or> run_state r = RunFailed \<or>
     run_state r = RunCancelled \<or> run_state r = RunInconclusive"

definition keep_workload ::
  "'w deps \<Rightarrow> run_state \<Rightarrow> string \<Rightarrow> ('w est, goerr option) eng" where
  "keep_workload d graded_state message =
     thenM (record_cleanup_skipped d message) (
     thenM (modify_run (\<lambda>r. r\<lparr>run_state := graded_state\<rparr>)) (
     ret None))"

definition cleanup ::
  "'w deps \<Rightarrow> plan \<Rightarrow> run_options \<Rightarrow> string \<Rightarrow> string \<Rightarrow> bool \<Rightarrow> ('w est, goerr option) eng" where
  "cleanup d p opts tid node needs_cleanup =
     (if \<not> needs_cleanup then thenM (modify_run (\<lambda>r. r\<lparr>run_cleanup_done := True\<rparr>)) (ret None)
      else
        bindM get_run (\<lambda>run.
        let graded_state = run_state run; inc = incomplete run in
        if op_keep_workload opts then
          keep_workload d graded_state (''cleanup skipped: KeepWorkload requested. Workload '' @ tid @
            '' on node '' @ node @ '' left running, remove it by hand'')
        else if inc \<and> cl_keep_on_failure (pl_cleanup p) then
          keep_workload d graded_state (''cleanup skipped: keep_on_failure is set. Workload '' @ tid @
            '' on node '' @ node @ '' left running for debugging, remove it by hand'')
        else if \<not> inc \<and> \<not> cleanup_always (pl_cleanup p) then
          keep_workload d graded_state (''cleanup skipped by plan policy (cleanup.always: false). Workload '' @
            tid @ '' left on node '' @ node)
        else destroy_workload d tid node graded_state))"


section \<open>Running a plan\<close>

definition dry_run_fail :: "goerr \<Rightarrow> ('w est, goerr option) eng" where
  "dry_run_fail e = thenM (mark_failed e) (ret (Some e))"

definition fail_dry_step :: "'w deps \<Rightarrow> nat \<Rightarrow> string \<Rightarrow> goerr \<Rightarrow> ('w est, goerr option) eng" where
  "fail_dry_step d idx message e =
     thenM (end_step d idx StepFailed message (Some e)) (dry_run_fail e)"

definition run_dry_run :: "'w deps \<Rightarrow> plan \<Rightarrow> run_options \<Rightarrow> ('w est, goerr option) eng" where
  "run_dry_run d p opts =
     bindM (discover_backup d p) (\<lambda>r. case r of
       Inl e \<Rightarrow> dry_run_fail e
     | Inr _ \<Rightarrow>
     bindM (begin_step d step_prepare_environment RunPreparing) (\<lambda>idx.
     bindM (resolve_node p opts) (\<lambda>rn. case rn of
       Inl e \<Rightarrow> fail_dry_step d idx ''no target node'' e
     | Inr node \<Rightarrow>
     bindM (check_network_isolation d node (op_network opts)) (\<lambda>ri. case ri of
       Inl e \<Rightarrow> fail_dry_step d idx ''network isolation check failed'' e
     | Inr _ \<Rightarrow>
     bindM (check_capacity d node (rs_memory_limit_mb (pl_restore p))) (\<lambda>rc. case rc of
       Inl e \<Rightarrow> fail_dry_step d idx ''capacity check failed'' e
     | Inr _ \<Rightarrow>
     thenM (modify_run (\<lambda>r. r\<lparr>run_node := node\<rparr>)) (
     thenM (end_step d idx StepDone ''dry run: restore plan validated, nothing was created'' None) (
     thenM (modify_run (\<lambda>r. r\<lparr>run_state := RunSuccess, run_result := ResultSuccess, run_cleanup_done := True\<rparr>)) (
     ret None))))))))"

text \<open>\<open>workflowErr = e; return\<close>, after \<open>markFailed\<close>.\<close>

definition set_workflow_err :: "goerr option \<Rightarrow> ('w est, unit) eng" where
  "set_workflow_err e = modify (\<lambda>s. s\<lparr>es_workflow_err := e\<rparr>)"

definition fail_run :: "goerr \<Rightarrow> ('w est, unit) eng" where
  "fail_run e = thenM (mark_failed e) (set_workflow_err (Some e))"

definition measure_rto :: "('w est, unit) eng" where
  "measure_rto = modify_run (\<lambda>r. r\<lparr>run_rto := compute_rto r (run_started_at r)\<rparr>)"

text \<open>The last part of the workflow: the checks, the measurement, the grade.\<close>

definition finish_workflow :: "'w deps \<Rightarrow> plan \<Rightarrow> target \<Rightarrow> ('w est, unit) eng" where
  "finish_workflow d p tg =
     (if pl_checks p = [] then thenM measure_rto (grade_success p)
      else
        bindM (run_checks_step d p tg) (\<lambda>r.
        thenM measure_rto (
        case r of
          Inl e \<Rightarrow>
            thenM (if errors_is e ErrChecksInconclusive then mark_inconclusive e else mark_failed e)
              (set_workflow_err (Some e))
        | Inr _ \<Rightarrow> grade_success p)))"

definition run_workflow :: "nat \<Rightarrow> 'w deps \<Rightarrow> plan \<Rightarrow> run_options \<Rightarrow> ('w est, unit) eng" where
  "run_workflow fuel d p opts =
     (if op_dry_run opts then bindM (run_dry_run d p opts) set_workflow_err
      else
        bindM (discover_backup d p) (\<lambda>r. case r of Inl e \<Rightarrow> fail_run e | Inr _ \<Rightarrow>
        bindM (prepare_environment d p opts) (\<lambda>r. case r of Inl e \<Rightarrow> fail_run e | Inr pr \<Rightarrow>
        thenM (modify (\<lambda>s. s\<lparr>es_temp_id := pr_temp_id pr, es_node := pr_node pr\<rparr>)) (
        bindM (restore_workload d p opts pr) (\<lambda>r. case r of Inl e \<Rightarrow> fail_run e | Inr _ \<Rightarrow>
        bindM (start_workload d p (pr_temp_id pr)) (\<lambda>r. case r of Inl e \<Rightarrow> fail_run e | Inr _ \<Rightarrow>
        bindM (wait_for_guest fuel d p (pr_temp_id pr)) (\<lambda>r. case r of Inl e \<Rightarrow> fail_run e | Inr tg \<Rightarrow>
        finish_workflow d p tg)))))))"

definition new_run :: "'w deps \<Rightarrow> plan \<Rightarrow> run_options \<Rightarrow> 'w \<Rightarrow> recovery_run \<times> 'w" where
  "new_run d p opts w =
     (case (if op_run_id opts = '''' then d_new_id d w else (op_run_id opts, w)) of (rid, w1) \<Rightarrow>
      case d_now d w1 of (t, w2) \<Rightarrow>
        (\<lparr>run_id = rid, run_plan_name = pl_name p, run_plan_id = '''', run_plan_version = 0,
          run_provider_id = d_hv_id d, run_backup_provider_id = d_bp_id d,
          run_source_workload_id = wr_id (pl_workload p),
          run_source_name = first_non_empty [wr_name (pl_workload p), wr_id (pl_workload p)],
          run_temp_workload_id = '''', run_temp_name = '''',
          run_node = first_non_empty [op_node opts, rs_node (pl_restore p)],
          run_backup = None, run_state = RunQueued, run_result = ResultNone,
          run_proof_level = ProofNone, run_started_at = t, run_completed_at = zero_time,
          run_steps = [], run_checks = [], run_rto = 0, run_rto_target = pl_rto_target p,
          run_cleanup_done = False, run_err = ''''\<rparr>, w2))"

definition initial :: "'w deps \<Rightarrow> plan \<Rightarrow> run_options \<Rightarrow> 'w \<Rightarrow> 'w est" where
  "initial d p opts w =
     (case new_run d p opts w of (run, w') \<Rightarrow>
        \<lparr>es_world = w', es_run = run, es_log = [], es_temp_id = '''', es_node = '''',
         es_needs_cleanup = False, es_workflow_err = None\<rparr>)"

text \<open>The deferred block: what it does with a panic, then cancellation, then the clean-up.\<close>

definition panic_error :: "string \<Rightarrow> goerr" where
  "panic_error x = Plain (''internal error (recovered panic): '' @ x)"

definition settle :: "'w deps \<Rightarrow> plan \<Rightarrow> run_options \<Rightarrow> bool \<Rightarrow> ('w est, goerr option) eng" where
  "settle d p opts panicked =
     bindM (gets (\<lambda>s. s)) (\<lambda>s.
     thenM (case es_workflow_err s of
         Some e \<Rightarrow> if \<not> panicked \<and> d_ctx_err d (es_world s) = Some CtxCanceled then mark_cancelled e else ret ()
       | None \<Rightarrow> ret ()) (
     bindM (cleanup d p opts (es_temp_id s) (es_node s) (es_needs_cleanup s)) (\<lambda>cleanup_err.
     thenM (finalize_run d) (
     ret (combine_errors (es_workflow_err s) cleanup_err)))))"

definition deferred :: "'w deps \<Rightarrow> plan \<Rightarrow> run_options \<Rightarrow> unit outcome \<Rightarrow> ('w est, goerr option) eng" where
  "deferred d p opts out =
     (case out of
        Done _ \<Rightarrow> settle d p opts False
      | Panicked x \<Rightarrow> thenM (fail_run (panic_error x)) (settle d p opts True)
      | Diverged \<Rightarrow> diverge)"

text \<open>\<open>Engine.Run\<close>: the error it returns, and the state that holds the run it returns.\<close>

definition engine_run ::
  "nat \<Rightarrow> 'w deps \<Rightarrow> plan \<Rightarrow> run_options \<Rightarrow> 'w \<Rightarrow> goerr option outcome \<times> 'w est" where
  "engine_run fuel d p opts w =
     (case run_workflow fuel d p opts (initial d p opts w) of (out, s) \<Rightarrow> deferred d p opts out s)"

end
