(* ===== verification/Engine_Safety.thy ===== *)
theory Engine_Safety
  imports Engine
begin

text \<open>
  What the recovery engine may do to the cluster. A policy says which call is allowed after
  which calls; the log of every run is legal, whether the run ends well, fails, panics, is
  cancelled, or never ends. From that: nothing is deleted but the workload this run restored,
  and that at most once; nothing is restored off an isolated network or before a listener was
  told; nothing is started before it was hardened; a dry run changes nothing.
\<close>

section \<open>Steps that only observe\<close>

context base_order
begin

lemma keeps_set_state [pres_intros]: "keeps R (set_state st)"
  unfolding set_state_def by (rule keeps_modify_run) (simp add: steady_def grows_def)

lemma keeps_append_step [pres_intros]: "keeps R (append_step st)"
  unfolding append_step_def by (rule keeps_modify_run) (simp add: steady_def grows_def)

lemma keeps_begin_step [pres_intros]: "keeps R (begin_step d name state)"
  unfolding begin_step_def by (intro pres_intros)

lemma keeps_end_step [pres_intros]: "keeps R (end_step d idx status message err)"
  unfolding end_step_def Let_def by (intro pres_intros keeps_modify_run) (simp add: steady_def grows_def)

lemma keeps_fail_step [pres_intros]: "keeps R (fail_step d idx message e)"
  unfolding fail_step_def by (intro pres_intros)

lemma keeps_retry_from: "keeps R fn \<Longrightarrow> keeps R (retry_from n d c backoff fn)"
  by (induction n) (simp_all, (intro pres_intros | assumption)+)

lemma keeps_retry [pres_intros]: "keeps R fn \<Longrightarrow> keeps R (retry d c attempts backoff fn)"
  unfolding retry_def by (rule keeps_retry_from)

lemma keeps_resolve_source_name [pres_intros]: "keeps R (resolve_source_name d)"
  unfolding resolve_source_name_def
  by (intro pres_intros keeps_modify_run) (simp_all add: steady_def grows_def)

lemma keeps_resolve_backup [pres_intros]: "keeps R (resolve_backup d p)"
  unfolding resolve_backup_def
  by (cases "bs_strategy (pl_backup p)"; simp; intro pres_intros; simp)

lemma keeps_accept_backup [pres_intros]: "keeps R (accept_backup d idx b)"
  unfolding accept_backup_def by (intro pres_intros keeps_modify_run) (simp add: steady_def grows_def)

lemma keeps_discover_backup [pres_intros]: "keeps R (discover_backup d p)"
  unfolding discover_backup_def Let_def by (intro pres_intros)

lemma keeps_resolve_node [pres_intros]: "keeps R (resolve_node p opts)"
  unfolding resolve_node_def Let_def by (intro pres_intros keeps_modify_run) (simp_all add: steady_def grows_def)

lemma keeps_check_network_isolation [pres_intros]: "keeps R (check_network_isolation d node network)"
  unfolding check_network_isolation_def by (intro pres_intros) simp_all

lemma keeps_check_capacity [pres_intros]: "keeps R (check_capacity d node mb)"
  unfolding check_capacity_def Let_def by (intro pres_intros) simp_all

lemma keeps_wait_for_job [pres_intros]: "keeps R (wait_for_job d job)"
  unfolding wait_for_job_def by (intro pres_intros) simp

lemma keeps_poll_status [pres_intros]: "keeps R (poll_status d tid)"
  unfolding poll_status_def by (intro pres_intros) simp

lemma keeps_emit_results [pres_intros]: "keeps R (emit_results d rs)"
  by (induction rs) (simp_all, (intro pres_intros | assumption)+)

lemma keeps_marks [pres_intros]:
  "keeps R (mark_failed e)" "keeps R (mark_inconclusive e)" "keeps R (mark_cancelled e)"
  "keeps R (grade_success p)" "keeps R measure_rto"
  unfolding mark_failed_def mark_inconclusive_def mark_cancelled_def grade_success_def
    measure_rto_def Let_def
  by (rule keeps_modify_run; simp add: steady_def grows_def)+

lemma keeps_finalize_run [pres_intros]: "keeps R (finalize_run d)"
  unfolding finalize_run_def by (intro pres_intros keeps_modify_run) (simp_all add: steady_def grows_def)

lemma keeps_keep_workload [pres_intros]: "keeps R (keep_workload d st m)"
  unfolding keep_workload_def record_cleanup_skipped_def
  by (intro pres_intros keeps_modify_run) (simp_all add: steady_def grows_def)

lemma keeps_dry_run [pres_intros]: "keeps R (run_dry_run d p opts)"
  unfolding run_dry_run_def fail_dry_step_def dry_run_fail_def
  by (intro pres_intros keeps_modify_run) (simp_all add: steady_def grows_def)

end

context step_order
begin

lemma keeps_guest_up [pres_intros]: "keeps R (guest_up d p tid idx st)"
  unfolding guest_up_def Let_def
  by (intro pres_intros keeps_raise_level)

lemma keeps_poll_guest [pres_intros]: "keeps R (poll_guest fuel d p tid idx deadline)"
  by (induction fuel) (simp_all, (intro pres_intros | assumption)+)

lemma keeps_wait_for_guest [pres_intros]: "keeps R (wait_for_guest fuel d p tid)"
  unfolding wait_for_guest_def by (intro pres_intros)

lemma keeps_run_checks_step [pres_intros]: "keeps R (run_checks_step d p tg)"
  unfolding run_checks_step_def Let_def
  by (intro pres_intros keeps_raise_level keeps_modify_run) (simp_all add: steady_def grows_def)

end


section \<open>The protocol a run follows\<close>

text \<open>What an entry of the log shows.\<close>

fun accepts :: "string \<Rightarrow> entry \<Rightarrow> bool" where
  "accepts tid (CallRestore c b ro ok) = (ok \<and> ro_target_workload_id ro = tid)"
| "accepts tid _ = False"

fun hardens :: "string \<Rightarrow> entry \<Rightarrow> bool" where
  "hardens tid (CallFinalize c ro ok) = (ok \<and> ro_target_workload_id ro = tid)"
| "hardens tid _ = False"

fun announces :: "string \<Rightarrow> string \<Rightarrow> entry \<Rightarrow> bool" where
  "announces tid node (Emitted ev) = (ev_temp_workload_id ev = tid \<and> ev_node ev = node)"
| "announces tid node _ = False"

fun allocates :: "string \<Rightarrow> entry \<Rightarrow> bool" where
  "allocates tid (CallAllocate c t) = (t = Some tid)"
| "allocates tid _ = False"

fun settled_ok :: "entry \<Rightarrow> bool" where
  "settled_ok (CallWait c ok) = ok"
| "settled_ok _ = False"

fun asks_isolation :: "string \<Rightarrow> network_config \<Rightarrow> entry \<Rightarrow> bool" where
  "asks_isolation node net (CallValidate c n m ok) = (n = node \<and> m = net)"
| "asks_isolation node net _ = False"

fun is_allocate :: "entry \<Rightarrow> bool" where "is_allocate (CallAllocate _ _) = True" | "is_allocate _ = False"
fun is_restore :: "entry \<Rightarrow> bool" where "is_restore (CallRestore _ _ _ _) = True" | "is_restore _ = False"
fun is_finalize :: "entry \<Rightarrow> bool" where "is_finalize (CallFinalize _ _ _) = True" | "is_finalize _ = False"
fun is_start :: "entry \<Rightarrow> bool" where "is_start (CallStart _ _ _) = True" | "is_start _ = False"
fun is_stop :: "entry \<Rightarrow> bool" where "is_stop (CallStop _ _ _) = True" | "is_stop _ = False"
fun is_delete :: "entry \<Rightarrow> bool" where "is_delete (CallDelete _ _ _) = True" | "is_delete _ = False"

text \<open>
  The calls allowed after the calls \<open>es\<close>. Clauses from top to bottom: one identity is reserved
  per run; a restore is submitted once, on the run's context, for the reserved identity, onto
  a network marked isolated that the provider was asked about when it can tell, powered off,
  and only after a listener was told which workload on which node; hardening follows a restore
  that settled well; a start follows the hardening; stopping and deleting happen on the
  detached context, on the workload whose restore was accepted, the delete once.
\<close>

fun allowed :: "'w deps \<Rightarrow> run_options \<Rightarrow> entry \<Rightarrow> entry list \<Rightarrow> bool" where
  "allowed d opts (CallAllocate c t) es = (c = RunCtx \<and> \<not> op_dry_run opts \<and> \<not> list_ex is_allocate es)"
| "allowed d opts (CallRestore c b ro ok) es =
     (c = RunCtx \<and> \<not> op_dry_run opts \<and> \<not> list_ex is_restore es \<and>
      list_ex (allocates (ro_target_workload_id ro)) es \<and>
      nw_isolated (ro_network ro) \<and>
      (d_validate_isolation d \<noteq> None \<longrightarrow> list_ex (asks_isolation (ro_node ro) (ro_network ro)) es) \<and>
      \<not> ro_start ro \<and> list_ex (announces (ro_target_workload_id ro) (ro_node ro)) es)"
| "allowed d opts (CallFinalize c ro ok) es =
     (c = RunCtx \<and> list_ex (accepts (ro_target_workload_id ro)) es \<and> list_ex settled_ok es \<and>
      \<not> list_ex is_start es)"
| "allowed d opts (CallStart c tid ok) es =
     (c = RunCtx \<and> list_ex (accepts tid) es \<and> list_ex settled_ok es \<and>
      (d_finalize d \<noteq> None \<longrightarrow> list_ex (hardens tid) es) \<and> length (filter is_start es) < 3)"
| "allowed d opts (CallStop c tid ok) es =
     (c = CleanupCtx \<and> list_ex (accepts tid) es \<and> \<not> list_ex is_delete es \<and> length (filter is_stop es) < 3)"
| "allowed d opts (CallDelete c tid ok) es =
     (c = CleanupCtx \<and> list_ex (accepts tid) es \<and> \<not> list_ex is_delete es)"
| "allowed d opts _ es = True"

interpretation protocol: call_policy "allowed d opts" for d opts
proof
  show "observation e \<Longrightarrow> allowed d opts e es" for e es by (cases e) simp_all
qed

lemma observation_facts:
  "observation e \<Longrightarrow> \<not> is_allocate e" "observation e \<Longrightarrow> \<not> is_restore e" "observation e \<Longrightarrow> \<not> is_start e"
  "observation e \<Longrightarrow> \<not> is_stop e" "observation e \<Longrightarrow> \<not> is_delete e" "observation e \<Longrightarrow> \<not> is_finalize e"
  by (cases e; simp)+

lemma calm_none:
  assumes "calm s t"
  shows "list_ex is_allocate (es_log t) \<longleftrightarrow> list_ex is_allocate (es_log s)"
    "list_ex is_restore (es_log t) \<longleftrightarrow> list_ex is_restore (es_log s)"
    "list_ex is_start (es_log t) \<longleftrightarrow> list_ex is_start (es_log s)"
    "list_ex is_stop (es_log t) \<longleftrightarrow> list_ex is_stop (es_log s)"
    "list_ex is_delete (es_log t) \<longleftrightarrow> list_ex is_delete (es_log s)"
    "filter is_start (es_log t) = filter is_start (es_log s)"
    "filter is_stop (es_log t) = filter is_stop (es_log s)"
  by (rule calm_not_list_ex [OF assms] calm_filter [OF assms]; simp add: observation_facts)+

text \<open>What is known of the state between the steps of the workflow.\<close>

definition clean :: "'w est \<Rightarrow> bool" where
  "clean s \<longleftrightarrow> list_all observation (es_log s) \<and> \<not> es_needs_cleanup s"

definition untouched :: "'w deps \<Rightarrow> run_options \<Rightarrow> 'w est \<Rightarrow> bool" where
  "untouched d opts s \<longleftrightarrow> legal (allowed d opts) (es_log s) \<and> \<not> list_ex is_restore (es_log s) \<and>
     \<not> list_ex is_start (es_log s) \<and> \<not> list_ex is_stop (es_log s) \<and> \<not> list_ex is_delete (es_log s) \<and>
     \<not> es_needs_cleanup s"

definition reserved :: "'w deps \<Rightarrow> run_options \<Rightarrow> prepared \<Rightarrow> 'w est \<Rightarrow> bool" where
  "reserved d opts pr s \<longleftrightarrow> untouched d opts s \<and> \<not> op_dry_run opts \<and>
     list_ex (allocates (pr_temp_id pr)) (es_log s) \<and> nw_isolated (op_network opts) \<and>
     (d_validate_isolation d \<noteq> None \<longrightarrow> list_ex (asks_isolation (pr_node pr) (op_network opts)) (es_log s)) \<and>
     list_ex (announces (pr_temp_id pr) (pr_node pr)) (es_log s)"

definition created :: "'w deps \<Rightarrow> run_options \<Rightarrow> string \<Rightarrow> 'w est \<Rightarrow> bool" where
  "created d opts tid s \<longleftrightarrow> legal (allowed d opts) (es_log s) \<and> list_ex (accepts tid) (es_log s) \<and>
     \<not> list_ex is_stop (es_log s) \<and> \<not> list_ex is_delete (es_log s) \<and> es_temp_id s = tid"

definition hardened :: "'w deps \<Rightarrow> run_options \<Rightarrow> string \<Rightarrow> 'w est \<Rightarrow> bool" where
  "hardened d opts tid s \<longleftrightarrow> created d opts tid s \<and> list_ex settled_ok (es_log s) \<and>
     (d_finalize d \<noteq> None \<longrightarrow> list_ex (hardens tid) (es_log s))"

definition body_ok :: "'w deps \<Rightarrow> run_options \<Rightarrow> 'w est \<Rightarrow> bool" where
  "body_ok d opts s \<longleftrightarrow> legal (allowed d opts) (es_log s) \<and>
     \<not> list_ex is_stop (es_log s) \<and> \<not> list_ex is_delete (es_log s) \<and>
     (es_needs_cleanup s \<longrightarrow> list_ex (accepts (es_temp_id s)) (es_log s))"

lemmas stage_defs = clean_def untouched_def reserved_def created_def hardened_def body_ok_def

lemma stage_calm:
  assumes "calm s t"
  shows "clean s \<Longrightarrow> clean t" "untouched d opts s \<Longrightarrow> untouched d opts t"
    "reserved d opts pr s \<Longrightarrow> reserved d opts pr t" "created d opts tid s \<Longrightarrow> created d opts tid t"
    "hardened d opts tid s \<Longrightarrow> hardened d opts tid t" "body_ok d opts s \<Longrightarrow> body_ok d opts t"
proof -
  note facts = calm_none [OF assms] calm_vars [OF assms] calm_list_ex [OF assms]
    protocol.legal_calm [OF assms, of d opts]
  show "clean s \<Longrightarrow> clean t" using assms facts by (auto simp: clean_def calm_def)
  show untouched: "untouched d opts s \<Longrightarrow> untouched d opts t" using facts by (simp add: untouched_def)
  show "reserved d opts pr s \<Longrightarrow> reserved d opts pr t" using facts untouched by (simp add: reserved_def)
  show created: "created d opts tid s \<Longrightarrow> created d opts tid t" using facts by (simp add: created_def)
  show "hardened d opts tid s \<Longrightarrow> hardened d opts tid t" using facts created by (simp add: hardened_def)
  show "body_ok d opts s \<Longrightarrow> body_ok d opts t" using facts by (simp add: body_ok_def)
qed

lemma stage_weaken:
  "clean s \<Longrightarrow> untouched d opts s" "reserved d opts pr s \<Longrightarrow> untouched d opts s"
  "untouched d opts s \<Longrightarrow> body_ok d opts s" "created d opts tid s \<Longrightarrow> body_ok d opts s"
  "hardened d opts tid s \<Longrightarrow> created d opts tid s"
proof -
  show "untouched d opts s" if "clean s"
    using that protocol.legal_observations [of "es_log s" d opts "[]"] observation_facts
    by (auto simp: clean_def untouched_def list_ex_iff list_all_iff)
qed (simp_all add: stage_defs)


text \<open>
  \<open>hoare P m Q E\<close>: from a state with \<open>P\<close>, \<open>m\<close> ends with \<open>Q\<close> of its result, or with \<open>E\<close> where it
  panics or never returns.
\<close>

definition hoare :: "('s \<Rightarrow> bool) \<Rightarrow> ('s, 'a) eng \<Rightarrow> ('a \<Rightarrow> 's \<Rightarrow> bool) \<Rightarrow> ('s \<Rightarrow> bool) \<Rightarrow> bool" where
  "hoare P m Q E \<longleftrightarrow> (\<forall>s. P s \<longrightarrow> wp m Q (\<lambda>_. E) s)"

lemma hoareI: "(\<And>s. P s \<Longrightarrow> wp m Q (\<lambda>_. E) s) \<Longrightarrow> hoare P m Q E" by (simp add: hoare_def)
lemma hoareD: "hoare P m Q E \<Longrightarrow> P s \<Longrightarrow> wp m Q (\<lambda>_. E) s" by (simp add: hoare_def)

lemma hoare_bind: "hoare P m R E \<Longrightarrow> (\<And>a. hoare (R a) (f a) Q E) \<Longrightarrow> hoare P (bindM m f) Q E"
  by (auto simp: hoare_def elim!: wp_mono)

lemma hoare_then: "hoare P m (\<lambda>_. R) E \<Longrightarrow> hoare R n Q E \<Longrightarrow> hoare P (thenM m n) Q E"
  by (auto simp: hoare_def elim!: wp_mono)

lemma hoare_weaken:
  "hoare P m Q E \<Longrightarrow> (\<And>s. P' s \<Longrightarrow> P s) \<Longrightarrow> (\<And>a s. Q a s \<Longrightarrow> Q' a s) \<Longrightarrow> (\<And>s. E s \<Longrightarrow> E' s) \<Longrightarrow> hoare P' m Q' E'"
  by (rule hoareI, rule wp_mono, erule hoareD) simp_all

lemma hoare_pre: "hoare P m Q E \<Longrightarrow> (\<And>s. P' s \<Longrightarrow> P s) \<Longrightarrow> hoare P' m Q E"
  by (auto simp: hoare_def)

lemma hoare_ret: "(\<And>s. P s \<Longrightarrow> Q a s) \<Longrightarrow> hoare P (ret a) Q E"
  by (simp add: hoare_def)

lemma hoare_deref: "(\<And>a. p = Some a \<Longrightarrow> hoare P (f a) Q E) \<Longrightarrow> (\<And>s. P s \<Longrightarrow> E s) \<Longrightarrow> hoare P (bindM (deref p) f) Q E"
  by (cases p) (simp_all add: hoare_def)

lemma hoare_sum:
  "(\<And>e. r = Inl e \<Longrightarrow> hoare P (f e) Q E) \<Longrightarrow> (\<And>a. r = Inr a \<Longrightarrow> hoare P (g a) Q E) \<Longrightarrow>
   hoare P (case r of Inl e \<Rightarrow> f e | Inr a \<Rightarrow> g a) Q E"
  by (cases r) simp_all

lemma hoare_if: "(b \<Longrightarrow> hoare P m Q E) \<Longrightarrow> (\<not> b \<Longrightarrow> hoare P n Q E) \<Longrightarrow> hoare P (if b then m else n) Q E"
  by simp

lemma hoare_Let: "hoare P (f v) Q E \<Longrightarrow> hoare P (Let v f) Q E" by simp

lemma hoare_assume: "(\<And>s. P s \<Longrightarrow> c) \<Longrightarrow> (c \<Longrightarrow> hoare P m Q E) \<Longrightarrow> hoare P m Q E"
  by (auto simp: hoare_def)

lemma hoare_perform:
  assumes "\<And>s a w. P s \<Longrightarrow> Q a (s\<lparr>es_world := w, es_log := mk (Some a) # es_log s\<rparr>)"
    and "\<And>s w. P s \<Longrightarrow> E (s\<lparr>es_world := w, es_log := mk None # es_log s\<rparr>)"
  shows "hoare P (perform mk f) Q E"
  by (rule hoareI, rule wp_performI) (simp_all add: assms)

text \<open>Predicates a calm step keeps, and chaining calm steps under one.\<close>

definition stable :: "('w est \<Rightarrow> bool) \<Rightarrow> bool" where
  "stable P \<longleftrightarrow> (\<forall>s t. calm s t \<longrightarrow> P s \<longrightarrow> P t)"

lemma stable_stages:
  "stable clean" "stable (untouched d opts)" "stable (reserved d opts pr)" "stable (created d opts tid)"
  "stable (hardened d opts tid)" "stable (body_ok d opts)"
  unfolding stable_def by (intro allI impI; erule (1) stage_calm)+

lemma stable_log: "stable (\<lambda>s. list_ex P (es_log s))"
  unfolding stable_def using calm_list_ex by blast

lemma stable_conj: "stable P \<Longrightarrow> stable Q \<Longrightarrow> stable (\<lambda>s. P s \<and> Q s)"
  unfolding stable_def by blast

lemma stable_imp: "stable P \<Longrightarrow> stable (\<lambda>s. c \<longrightarrow> P s)"
  unfolding stable_def by blast

lemma stable_const: "stable (\<lambda>s. c)" unfolding stable_def by blast

lemmas stable_intros = stable_stages stable_log stable_conj stable_imp stable_const

lemma hoare_calm:
  assumes "stable P" "keeps calm m" "\<And>a s. P s \<Longrightarrow> Q a s" "\<And>s. P s \<Longrightarrow> E s"
  shows "hoare P m Q E"
  using assms by (intro hoareI wp_calm) (auto simp: stable_def)

lemma bind_calm:
  "stable P \<Longrightarrow> keeps calm m \<Longrightarrow> (\<And>a. hoare P (f a) Q E) \<Longrightarrow> (\<And>s. P s \<Longrightarrow> E s) \<Longrightarrow> hoare P (bindM m f) Q E"
  by (rule hoare_bind [OF hoare_calm])

lemma then_calm:
  "stable P \<Longrightarrow> keeps calm m \<Longrightarrow> hoare P n Q E \<Longrightarrow> (\<And>s. P s \<Longrightarrow> E s) \<Longrightarrow> hoare P (thenM m n) Q E"
  by (rule hoare_then [OF hoare_calm])

text \<open>A calm step of which one more fact is known.\<close>

lemma calm_with:
  assumes "stable P" "keeps calm m" "\<And>s. P s \<Longrightarrow> wp m Q (\<lambda>_ _. True) s"
  shows "hoare P m (\<lambda>a t. P t \<and> Q a t) P"
proof (rule hoareI)
  fix s assume P: "P s"
  have keep: "calm s t \<Longrightarrow> P t" for t using assms(1) P unfolding stable_def by blast
  have "wp m (\<lambda>_. P) (\<lambda>_. P) s" by (rule wp_calm [OF assms(2)]) (rule keep, assumption)+
  from wp_conj [OF this assms(3) [OF P]] show "wp m (\<lambda>a t. P t \<and> Q a t) (\<lambda>_. P) s"
    by (rule wp_mono) simp_all
qed

lemma stage_run [simp]:
  "untouched d opts (s\<lparr>es_run := r\<rparr>) = untouched d opts s"
  "created d opts tid (s\<lparr>es_run := r\<rparr>) = created d opts tid s"
  "hardened d opts tid (s\<lparr>es_run := r\<rparr>) = hardened d opts tid s"
  "body_ok d opts (s\<lparr>es_run := r\<rparr>) = body_ok d opts s"
  by (simp_all add: stage_defs)

text \<open>Preparing: what is known when an identity has been reserved.\<close>

definition cleared :: "'w deps \<Rightarrow> run_options \<Rightarrow> string \<Rightarrow> 'w est \<Rightarrow> bool" where
  "cleared d opts node s \<longleftrightarrow> untouched d opts s \<and> nw_isolated (op_network opts) \<and>
     (d_validate_isolation d \<noteq> None \<longrightarrow> list_ex (asks_isolation node (op_network opts)) (es_log s))"

lemma stable_cleared: "stable (cleared d opts node)"
  unfolding cleared_def by (intro stable_intros)

lemma end_step_announces:
  "wp (end_step d idx st m e)
     (\<lambda>_ t. list_ex (announces (run_temp_workload_id (es_run s)) (run_node (es_run s))) (es_log t))
     (\<lambda>_ _. True) s"
  by (simp add: end_step_def wp_now event_for_def)

definition prepared_post :: "'w deps \<Rightarrow> run_options \<Rightarrow> goerr + prepared \<Rightarrow> 'w est \<Rightarrow> bool" where
  "prepared_post d opts r t \<longleftrightarrow> untouched d opts t \<and> (\<forall>pr. r = Inr pr \<longrightarrow> reserved d opts pr t)"

lemma reserve_identity_hoare:
  assumes "\<not> op_dry_run opts"
  shows "hoare (\<lambda>s. cleared d opts node s \<and> list_ex (allocates tid) (es_log s))
     (reserve_identity d p idx node tid) (prepared_post d opts) (untouched d opts)"
proof -
  let ?P = "\<lambda>s. cleared d opts node s \<and> list_ex (allocates tid) (es_log s)"
  let ?P' = "\<lambda>s. ?P s \<and> run_temp_workload_id (es_run s) = tid \<and> run_node (es_run s) = node"
  have P: "stable ?P" by (intro stable_conj stable_cleared stable_log)
  have E: "untouched d opts s" if "?P s" for s using that by (simp add: cleared_def)
  have rename: "hoare ?P (modify_run (\<lambda>r. r\<lparr>run_temp_workload_id := tid, run_temp_name := tn, run_node := node\<rparr>))
      (\<lambda>_. ?P') (untouched d opts)" for tn
    by (simp add: hoare_def cleared_def)
  have close: "hoare ?P' (end_step d idx StepDone m None)
      (\<lambda>_ t. ?P t \<and> list_ex (announces tid node) (es_log t)) (untouched d opts)" for m
  proof (rule hoareI)
    fix s assume s: "?P' s"
    have "hoare ?P (end_step d idx StepDone m None) (\<lambda>_. ?P) ?P"
      by (rule hoare_calm [OF P calm.keeps_end_step])
    then have "wp (end_step d idx StepDone m None) (\<lambda>_. ?P) (\<lambda>_. ?P) s"
      by (rule hoareD) (use s in blast)
    from wp_conj [OF this end_step_announces]
    show "wp (end_step d idx StepDone m None) (\<lambda>_ t. ?P t \<and> list_ex (announces tid node) (es_log t))
        (\<lambda>_. untouched d opts) s"
      by (rule wp_mono) (use s E in auto)
  qed
  show ?thesis
    unfolding reserve_identity_def Let_def using assms
    by (intro bind_calm [OF P calm.keeps_now _ E] bind_calm [OF P calm.keeps_get_run _ E]
        hoare_then [OF rename] hoare_then [OF close] hoare_ret; assumption?)
      (auto simp: prepared_post_def reserved_def cleared_def)
qed

lemma check_network_isolation_hoare:
  "hoare (untouched d opts) (check_network_isolation d node (op_network opts))
     (\<lambda>r t. untouched d opts t \<and> (\<forall>u. r = Inr u \<longrightarrow> cleared d opts node t)) (untouched d opts)"
proof -
  let ?Q = "\<lambda>r t. \<forall>u. r = Inr u \<longrightarrow> nw_isolated (op_network opts) \<and>
     (d_validate_isolation d \<noteq> None \<longrightarrow> list_ex (asks_isolation node (op_network opts)) (es_log t))"
  have "wp (check_network_isolation d node (op_network opts)) ?Q (\<lambda>_ _. True) s" for s
    unfolding check_network_isolation_def
    by (cases "d_validate_isolation d")
      (auto intro!: wp_performI split: sum.split simp del: wp_if)
  from calm_with [OF stable_stages(2) calm.keeps_check_network_isolation this]
  show ?thesis by (rule hoare_weaken) (auto simp: cleared_def)
qed

text \<open>A step that fails closes its step and leaves everything else as it was.\<close>

lemma fail_step_hoare:
  assumes "stable P" "\<And>s. P s \<Longrightarrow> Q (Inl e) s" "\<And>s. P s \<Longrightarrow> E s"
  shows "hoare P (fail_step d idx m e) Q E"
  unfolding fail_step_def
  by (rule then_calm [OF assms(1) calm.keeps_end_step]) (simp_all add: hoare_ret assms)

lemma prepare_environment_hoare:
  assumes "\<not> op_dry_run opts"
  shows "hoare clean (prepare_environment d p opts) (prepared_post d opts) (untouched d opts)"
proof -
  note U = stable_stages(2) [of d opts]
  let ?N = "\<lambda>s. clean s"
  have quit: "hoare (untouched d opts) (fail_step d idx m e) (prepared_post d opts) (untouched d opts)"
    for idx m and e
    by (rule fail_step_hoare [OF U]) (simp_all add: prepared_post_def)
  have allocate: "hoare (\<lambda>s. clean s \<and> cleared d opts node s) (allocate d)
      (\<lambda>r t. case r of Inl e \<Rightarrow> untouched d opts t
                     | Inr tid \<Rightarrow> cleared d opts node t \<and> list_ex (allocates tid) (es_log t)) (untouched d opts)" for node
    unfolding allocate_def using assms
    by (intro hoare_perform)
      (auto simp: cleared_def untouched_def clean_def list_ex_iff list_all_iff observation_facts split: sum.split)
  have clear: "hoare clean (check_network_isolation d node (op_network opts))
      (\<lambda>r t. clean t \<and> (\<forall>u. r = Inr u \<longrightarrow> cleared d opts node t)) (untouched d opts)" for node
  proof (rule hoareI)
    fix s :: "'a est" assume s: "clean s"
    have "hoare clean (check_network_isolation d node (op_network opts)) (\<lambda>_. clean) clean"
      by (rule hoare_calm [OF stable_stages(1) calm.keeps_check_network_isolation])
    from wp_conj [OF hoareD [OF this s] hoareD [OF check_network_isolation_hoare stage_weaken(1) [OF s]]]
    show "wp (check_network_isolation d node (op_network opts))
        (\<lambda>r t. clean t \<and> (\<forall>u. r = Inr u \<longrightarrow> cleared d opts node t)) (\<lambda>_. untouched d opts) s"
      by (rule wp_mono) simp_all
  qed
  have both: "stable (\<lambda>s. clean s \<and> cleared d opts node s)" for node
    by (intro stable_conj stable_stages stable_cleared)
  have reserve: "hoare (\<lambda>s. clean s \<and> cleared d opts node s) (bindM (allocate d) (\<lambda>ra. case ra of
      Inl e \<Rightarrow> fail_step d idx m e | Inr tid \<Rightarrow> reserve_identity d p idx node tid))
      (prepared_post d opts) (untouched d opts)" for node idx m
    by (rule hoare_bind [OF allocate], rule hoare_sum)
      (rule hoare_pre [OF quit] hoare_pre [OF reserve_identity_hoare [OF assms]], simp)+
  have capacity: "hoare (\<lambda>s. clean s \<and> cleared d opts node s)
      (bindM (check_capacity d node mb) (\<lambda>rc. case rc of
        Inl e \<Rightarrow> fail_step d idx m e
      | Inr _ \<Rightarrow> bindM (allocate d) (\<lambda>ra. case ra of
          Inl e \<Rightarrow> fail_step d idx m' e | Inr tid \<Rightarrow> reserve_identity d p idx node tid)))
      (prepared_post d opts) (untouched d opts)" for node idx m m' mb
    by (rule bind_calm [OF both calm.keeps_check_capacity], rule hoare_sum)
      ((rule hoare_pre [OF quit] reserve)?, simp add: cleared_def)+
  show ?thesis
    unfolding prepare_environment_def
    by (intro bind_calm [OF stable_stages(1) calm.keeps_begin_step]
        bind_calm [OF stable_stages(1) calm.keeps_resolve_node] hoare_sum hoare_bind [OF clear])
      ((rule hoare_pre [OF quit] hoare_pre [OF capacity])?, simp add: stage_weaken)+
qed


text \<open>
  Retrying: an invariant that counts the calls made so far, and what is known of the result
  of a call that succeeded.
\<close>

lemma retry_from_hoare:
  assumes "\<And>k. stable (I k)"
    and "\<And>k. k < m \<Longrightarrow> hoare (I k) fn (\<lambda>r t. I (Suc k) t \<and> (\<forall>a. r = Inr a \<longrightarrow> Q a t)) E"
    and "\<And>k s. k \<le> m \<Longrightarrow> I k s \<Longrightarrow> E s"
  shows "k + n < m \<Longrightarrow>
    hoare (I k) (retry_from n d c backoff fn) (\<lambda>r t. E t \<and> (\<forall>a. r = Inr a \<longrightarrow> Q a t)) E"
proof (induction n arbitrary: k)
  case 0
  then show ?case
    using assms(3) [of "Suc k"] by (auto intro!: hoare_bind [OF assms(2)] hoare_sum hoare_ret)
next
  case (Suc n)
  have I: "I (Suc k) s \<Longrightarrow> E s" for s using assms(3) [of "Suc k"] Suc.prems by simp
  have again: "hoare (I (Suc k)) (bindM (sleep d c backoff) (\<lambda>serr. case serr of
      Some x \<Rightarrow> ret (Inl e) | None \<Rightarrow> retry_from n d c backoff fn))
      (\<lambda>r t. E t \<and> (\<forall>a. r = Inr a \<longrightarrow> Q a t)) E" for e
  proof (rule bind_calm [OF assms(1) calm.keeps_sleep _ I])
    show "hoare (I (Suc k)) (case serr of Some x \<Rightarrow> ret (Inl e) | None \<Rightarrow> retry_from n d c backoff fn)
      (\<lambda>r t. E t \<and> (\<forall>a. r = Inr a \<longrightarrow> Q a t)) E" for serr
      using Suc.IH [of "Suc k"] Suc.prems I by (cases serr) (auto intro: hoare_ret)
  qed
  show ?case
    unfolding retry_from.simps using Suc.prems I
    by (auto intro!: hoare_bind [OF assms(2)] hoare_sum hoare_ret hoare_if hoare_pre [OF again])
qed

lemma retry_hoare:
  assumes "\<And>k. stable (I k)"
    and "\<And>k. k < 3 \<Longrightarrow> hoare (I k) fn (\<lambda>r t. I (Suc k) t \<and> (\<forall>a. r = Inr a \<longrightarrow> Q a t)) E"
    and "\<And>k s. k \<le> 3 \<Longrightarrow> I k s \<Longrightarrow> E s"
  shows "hoare (I 0) (retry d c 3 backoff fn) (\<lambda>r t. E t \<and> (\<forall>a. r = Inr a \<longrightarrow> Q a t)) E"
proof -
  have "hoare (I 0) (retry_from 2 d c backoff fn) (\<lambda>r t. E t \<and> (\<forall>a. r = Inr a \<longrightarrow> Q a t)) E"
    by (rule retry_from_hoare [where I = I and E = E and Q = Q and m = 3, OF assms(1) assms(2) assms(3)]) simp_all
  then show ?thesis unfolding retry_def by simp
qed

text \<open>Restoring: from the reserved identity to a hardened workload nothing has started yet.\<close>

definition fresh :: "'w deps \<Rightarrow> run_options \<Rightarrow> string \<Rightarrow> 'w est \<Rightarrow> bool" where
  "fresh d opts tid s \<longleftrightarrow> created d opts tid s \<and> \<not> list_ex is_start (es_log s)"

lemma stable_no_start: "stable (\<lambda>s. \<not> list_ex is_start (es_log s))"
  unfolding stable_def using calm_none(3) by blast

lemma stable_fresh: "stable (fresh d opts tid)"
  unfolding fresh_def by (intro stable_conj stable_stages stable_no_start)

lemma fresh_body_ok: "fresh d opts tid s \<Longrightarrow> body_ok d opts s"
  unfolding fresh_def using stage_weaken(4) by blast

lemma hardened_body_ok: "hardened d opts tid s \<Longrightarrow> body_ok d opts s"
  using stage_weaken(4,5) by blast

definition restore_post :: "'w deps \<Rightarrow> run_options \<Rightarrow> string \<Rightarrow> goerr + 'a \<Rightarrow> 'w est \<Rightarrow> bool" where
  "restore_post d opts tid r t \<longleftrightarrow> body_ok d opts t \<and>
     (\<forall>a. r = Inr a \<longrightarrow> hardened d opts tid t \<and> \<not> list_ex is_start (es_log t))"

lemma restore_fail:
  assumes "stable P" "\<And>s. P s \<Longrightarrow> body_ok d opts s"
  shows "hoare P (fail_step d idx m e) (restore_post d opts tid) (body_ok d opts)"
  by (rule fail_step_hoare [OF assms(1)]) (simp_all add: restore_post_def assms(2))

lemma settle_restore_hoare:
  assumes "ro_target_workload_id ro = tid"
  shows "hoare (\<lambda>s. fresh d opts tid s \<and> (task \<noteq> None \<and> ts_success (the task) \<longrightarrow> list_ex settled_ok (es_log s)))
    (settle_restore d idx ro task) (restore_post d opts tid) (body_ok d opts)"
proof -
  let ?P = "\<lambda>s. fresh d opts tid s \<and> list_ex settled_ok (es_log s)"
  have P: "stable ?P" by (intro stable_conj stable_fresh stable_log)
  let ?H = "\<lambda>s. hardened d opts tid s \<and> \<not> list_ex is_start (es_log s)"
  have H: "stable ?H" by (intro stable_conj stable_stages stable_no_start)
  have body: "body_ok d opts s" if "hardened d opts tid s" for s
    using that by (rule hardened_body_ok)
  have finalize: "hoare ?P (perform (\<lambda>r. CallFinalize RunCtx ro (ok_of r)) f)
      (\<lambda>r t. fresh d opts tid t \<and> (\<forall>a. r = Inr a \<longrightarrow> ?H t)) (body_ok d opts)" for f :: "('a, goerr + unit) call"
    by (intro hoare_perform) (auto simp: stage_defs fresh_def assms ok_of_def)
  have harden: "hoare ?P (harden d idx ro) (\<lambda>r t. body_ok d opts t \<and> (\<forall>a. r = Inr a \<longrightarrow> ?H t)) (body_ok d opts)"
  proof (cases "d_finalize d")
    case None
    then show ?thesis
      unfolding harden_def by (auto intro!: hoare_ret fresh_body_ok simp: fresh_def hardened_def)
  next
    case (Some f)
    have quit: "hoare (fresh d opts tid) (fail_step d idx m e)
        (\<lambda>r t. body_ok d opts t \<and> (\<forall>a. r = Inr a \<longrightarrow> ?H t)) (body_ok d opts)" for m e
      by (rule fail_step_hoare [OF stable_fresh]) (simp_all add: fresh_body_ok)
    show ?thesis
      unfolding harden_def Some option.case
      by (intro hoare_bind [OF finalize] hoare_sum)
        ((rule hoare_pre [OF quit] hoare_ret)?, simp add: fresh_body_ok body)+
  qed
  have close: "hoare ?H (thenM (end_step d idx StepDone m None) (ret (Inr ()))) (restore_post d opts tid)
      (body_ok d opts)" for m
    by (rule then_calm [OF H calm.keeps_end_step]) (auto intro!: hoare_ret simp: restore_post_def body)
  show ?thesis
  proof (cases "task = None \<or> \<not> ts_success (the task)")
    case True
    then show ?thesis
      unfolding settle_restore_def
      by (auto intro!: hoare_pre [OF restore_fail [OF stable_fresh fresh_body_ok]])
  next
    case False
    then show ?thesis
      unfolding settle_restore_def
      by (auto intro!: hoare_bind [OF hoare_pre [OF harden]] hoare_sum hoare_pre [OF close] hoare_ret
          simp: restore_post_def)
  qed
qed


lemma wait_for_job_hoare:
  "hoare (fresh d opts tid) (retry d RunCtx 3 (2 * second) (wait_for_job d job))
     (\<lambda>r t. fresh d opts tid t \<and>
        (\<forall>task. r = Inr task \<longrightarrow> (task \<noteq> None \<and> ts_success (the task) \<longrightarrow> list_ex settled_ok (es_log t))))
     (fresh d opts tid)"
proof (rule retry_hoare [where I = "\<lambda>_. fresh d opts tid"])
  show "hoare (fresh d opts tid) (wait_for_job d job)
      (\<lambda>r t. fresh d opts tid t \<and>
        (\<forall>task. r = Inr task \<longrightarrow> (task \<noteq> None \<and> ts_success (the task) \<longrightarrow> list_ex settled_ok (es_log t))))
      (fresh d opts tid)"
    unfolding wait_for_job_def
    by (intro hoare_perform) (auto simp: fresh_def created_def task_ok_def)
qed (simp_all add: stable_fresh)

lemma restore_workload_hoare:
  "hoare (\<lambda>s. reserved d opts pr s \<and> es_temp_id s = pr_temp_id pr) (restore_workload d p opts pr)
     (restore_post d opts (pr_temp_id pr)) (body_ok d opts)"
proof -
  let ?tid = "pr_temp_id pr"
  let ?ro = "restore_options_of p opts pr"
  let ?P = "\<lambda>s. reserved d opts pr s \<and> es_temp_id s = ?tid"
  let ?A = "\<lambda>s. created d opts ?tid s \<and> \<not> list_ex is_start (es_log s)"
  have ro: "ro_target_workload_id ?ro = ?tid" "ro_network ?ro = op_network opts" "ro_node ?ro = pr_node pr"
    "\<not> ro_start ?ro"
    by (simp_all add: restore_options_of_def)
  have P: "stable ?P"
    unfolding stable_def using stage_calm(3) calm_vars by metis
  have E: "body_ok d opts s" if "?P s" for s
    using that stage_weaken(2,3) by blast
  have submit: "hoare ?P (perform (\<lambda>r. CallRestore RunCtx b ?ro (ok_of r)) f)
      (\<lambda>r t. body_ok d opts t \<and> (\<forall>a. r = Inr a \<longrightarrow> fresh d opts ?tid t)) (body_ok d opts)"
    for b and f :: "('a, goerr + restore_job option) call"
    by (intro hoare_perform) (auto simp: stage_defs fresh_def ro ok_of_def)
  have mark: "hoare (fresh d opts ?tid) (modify (\<lambda>s. s\<lparr>es_needs_cleanup := True\<rparr>))
      (\<lambda>_. fresh d opts ?tid) (body_ok d opts)"
    by (simp add: hoare_def fresh_def created_def)
  have wait: "hoare (fresh d opts ?tid) (retry d RunCtx 3 (2 * second) (wait_for_job d job))
     (\<lambda>r t. fresh d opts ?tid t \<and>
        (\<forall>task. r = Inr task \<longrightarrow> (task \<noteq> None \<and> ts_success (the task) \<longrightarrow> list_ex settled_ok (es_log t))))
     (body_ok d opts)" for job
    by (rule hoare_weaken [OF wait_for_job_hoare]) (assumption | erule fresh_body_ok)+
  have settle: "hoare (fresh d opts ?tid) (bindM (retry d RunCtx 3 (2 * second) (wait_for_job d job)) (\<lambda>r. case r of
      Inl e \<Rightarrow> fail_step d idx m e | Inr task \<Rightarrow> settle_restore d idx ?ro task))
      (restore_post d opts ?tid) (body_ok d opts)" for job idx m
    by (intro hoare_bind [OF wait] hoare_sum
        hoare_pre [OF restore_fail [OF stable_fresh fresh_body_ok]] hoare_pre [OF settle_restore_hoare [OF ro(1)]])
      auto
  have quit: "hoare (body_ok d opts) (fail_step d idx m e) (restore_post d opts ?tid) (body_ok d opts)" for idx m e
    by (rule restore_fail [OF stable_stages(6)])
  show ?thesis
    unfolding restore_workload_def Let_def
    by (intro bind_calm [OF P calm.keeps_begin_step _ E] bind_calm [OF P calm.keeps_get_run _ E] hoare_deref
        hoare_bind [OF submit] hoare_sum hoare_then [OF hoare_pre [OF mark]] settle hoare_pre [OF quit])
      (auto dest: stage_weaken(2) intro: stage_weaken(3))
qed

lemma start_workload_hoare:
  "hoare (\<lambda>s. hardened d opts tid s \<and> \<not> list_ex is_start (es_log s)) (start_workload d p tid)
     (\<lambda>_. body_ok d opts) (body_ok d opts)"
proof -
  let ?H = "\<lambda>s. hardened d opts tid s \<and> \<not> list_ex is_start (es_log s)"
  have H: "stable ?H" by (intro stable_conj stable_stages stable_no_start)
  have E: "body_ok d opts s" if "?H s" for s using that hardened_body_ok by blast
  let ?I = "\<lambda>k s. hardened d opts tid s \<and> length (filter is_start (es_log s)) \<le> k"
  have starts: "hoare (?I 0) (retry d RunCtx 3 (2 * second) (start_call d tid))
      (\<lambda>r t. body_ok d opts t \<and> (\<forall>a. r = Inr a \<longrightarrow> True)) (body_ok d opts)"
  proof (rule retry_hoare)
    show "stable (?I k)" for k
      unfolding stable_def using stage_calm(5) calm_none(6) by metis
    show "hoare (?I k) (start_call d tid) (\<lambda>r t. ?I (Suc k) t \<and> (\<forall>a. r = Inr a \<longrightarrow> True)) (body_ok d opts)"
      if "k < 3" for k
      unfolding start_call_def using that
      by (intro hoare_perform) (auto simp: stage_defs)
    show "body_ok d opts s" if "?I k s" for k s using that hardened_body_ok by blast
  qed
  have quit: "hoare (body_ok d opts) (fail_step d idx m e) (\<lambda>_. body_ok d opts) (body_ok d opts)" for idx m e
    by (rule hoare_calm [OF stable_stages(6) calm.keeps_fail_step])
  have close: "hoare (body_ok d opts) (thenM (end_step d idx st m e) (ret r)) (\<lambda>_. body_ok d opts) (body_ok d opts)"
    for idx st m e r
    by (rule hoare_calm [OF stable_stages(6)]) (auto intro: pres_intros)
  have I0: "?I 0 s" if "?H s" for s
    using that by (simp add: filter_empty_conv list_ex_iff)
  show ?thesis
    unfolding start_workload_def
    by (intro bind_calm [OF H calm.keeps_begin_step _ E] hoare_if hoare_pre [OF close E]
        hoare_bind [OF hoare_pre [OF starts I0]] hoare_sum hoare_pre [OF quit] hoare_pre [OF close])
      auto
qed



section \<open>The whole run\<close>

lemma fail_run_hoare: "hoare (body_ok d opts) (fail_run e) (\<lambda>_. body_ok d opts) (body_ok d opts)"
  by (simp add: hoare_def fail_run_def mark_failed_def set_workflow_err_def body_ok_def)

lemma finish_workflow_hoare:
  "hoare (body_ok d opts) (finish_workflow d p tg) (\<lambda>_. body_ok d opts) (body_ok d opts)"
proof -
  note B = stable_stages(6) [of d opts]
  have mark: "hoare (body_ok d opts) (thenM (if c then mark_inconclusive e else mark_failed e) (set_workflow_err x))
      (\<lambda>_. body_ok d opts) (body_ok d opts)" for c e x
    by (simp add: hoare_def mark_failed_def mark_inconclusive_def set_workflow_err_def body_ok_def)
  have grade: "hoare (body_ok d opts) (grade_success p) (\<lambda>_. body_ok d opts) (body_ok d opts)"
    by (rule hoare_calm [OF B calm.keeps_marks(4)])
  show ?thesis
    unfolding finish_workflow_def
    by (intro hoare_if then_calm [OF B calm.keeps_marks(5)] bind_calm [OF B calm.keeps_run_checks_step]
        hoare_sum grade mark) simp_all
qed

lemma run_workflow_hoare:
  "hoare clean (run_workflow fuel d p opts) (\<lambda>_. body_ok d opts) (body_ok d opts)"
proof -
  let ?B = "body_ok d opts"
  note B = stable_stages(6) [of d opts]
  have clean_B: "?B s" if "clean s" for s using that stage_weaken(1,3) by blast
  have set_err: "hoare ?B (set_workflow_err e) (\<lambda>_. ?B) ?B" for e
    by (simp add: hoare_def set_workflow_err_def body_ok_def)
  have dry: "hoare clean (bindM (run_dry_run d p opts) set_workflow_err) (\<lambda>_. ?B) ?B"
    by (rule bind_calm [OF stable_stages(1) calm.keeps_dry_run]) (auto intro: hoare_pre [OF set_err] clean_B)
  have guest: "hoare ?B (bindM (wait_for_guest fuel d p tid) (\<lambda>r. case r of
      Inl e \<Rightarrow> fail_run e | Inr tg \<Rightarrow> finish_workflow d p tg)) (\<lambda>_. ?B) ?B" for tid
    by (intro bind_calm [OF B calm.keeps_wait_for_guest] hoare_sum fail_run_hoare finish_workflow_hoare) simp
  have start: "hoare (restore_post d opts tid (Inr ())) (bindM (start_workload d p tid) (\<lambda>r. case r of
      Inl e \<Rightarrow> fail_run e | Inr _ \<Rightarrow> bindM (wait_for_guest fuel d p tid) (\<lambda>r. case r of
      Inl e \<Rightarrow> fail_run e | Inr tg \<Rightarrow> finish_workflow d p tg))) (\<lambda>_. ?B) ?B" for tid
    by (intro hoare_bind [OF hoare_pre [OF start_workload_hoare]] hoare_sum fail_run_hoare guest)
      (simp add: restore_post_def)
  have restore: "hoare (reserved d opts pr) (thenM (modify (\<lambda>s. s\<lparr>es_temp_id := pr_temp_id pr, es_node := pr_node pr\<rparr>))
      (bindM (restore_workload d p opts pr) (\<lambda>r. case r of Inl e \<Rightarrow> fail_run e | Inr _ \<Rightarrow>
       bindM (start_workload d p (pr_temp_id pr)) (\<lambda>r. case r of Inl e \<Rightarrow> fail_run e | Inr _ \<Rightarrow>
       bindM (wait_for_guest fuel d p (pr_temp_id pr)) (\<lambda>r. case r of
         Inl e \<Rightarrow> fail_run e | Inr tg \<Rightarrow> finish_workflow d p tg))))) (\<lambda>_. ?B) ?B" for pr
  proof (rule hoare_then)
    show "hoare (reserved d opts pr) (modify (\<lambda>s. s\<lparr>es_temp_id := pr_temp_id pr, es_node := pr_node pr\<rparr>))
        (\<lambda>_ s. reserved d opts pr s \<and> es_temp_id s = pr_temp_id pr) ?B"
      by (simp add: hoare_def reserved_def untouched_def)
    show "hoare (\<lambda>s. reserved d opts pr s \<and> es_temp_id s = pr_temp_id pr)
      (bindM (restore_workload d p opts pr) (\<lambda>r. case r of Inl e \<Rightarrow> fail_run e | Inr _ \<Rightarrow>
       bindM (start_workload d p (pr_temp_id pr)) (\<lambda>r. case r of Inl e \<Rightarrow> fail_run e | Inr _ \<Rightarrow>
       bindM (wait_for_guest fuel d p (pr_temp_id pr)) (\<lambda>r. case r of
         Inl e \<Rightarrow> fail_run e | Inr tg \<Rightarrow> finish_workflow d p tg)))) (\<lambda>_. ?B) ?B"
      by (intro hoare_bind [OF restore_workload_hoare] hoare_sum hoare_pre [OF fail_run_hoare] hoare_pre [OF start])
        (simp_all add: restore_post_def)
  qed
  have prepare: "hoare clean (bindM (prepare_environment d p opts) (\<lambda>r. case r of Inl e \<Rightarrow> fail_run e | Inr pr \<Rightarrow>
       thenM (modify (\<lambda>s. s\<lparr>es_temp_id := pr_temp_id pr, es_node := pr_node pr\<rparr>))
      (bindM (restore_workload d p opts pr) (\<lambda>r. case r of Inl e \<Rightarrow> fail_run e | Inr _ \<Rightarrow>
       bindM (start_workload d p (pr_temp_id pr)) (\<lambda>r. case r of Inl e \<Rightarrow> fail_run e | Inr _ \<Rightarrow>
       bindM (wait_for_guest fuel d p (pr_temp_id pr)) (\<lambda>r. case r of
         Inl e \<Rightarrow> fail_run e | Inr tg \<Rightarrow> finish_workflow d p tg)))))) (\<lambda>_. ?B) ?B" if "\<not> op_dry_run opts"
  proof (rule hoare_bind)
    show "hoare clean (prepare_environment d p opts) (prepared_post d opts) ?B"
      by (rule hoare_weaken [OF prepare_environment_hoare [OF that]]) (auto intro: stage_weaken(3))
  qed (intro hoare_sum hoare_pre [OF fail_run_hoare] hoare_pre [OF restore];
      auto simp: prepared_post_def intro: stage_weaken(3))
  show ?thesis
    unfolding run_workflow_def
    by (intro hoare_if dry bind_calm [OF stable_stages(1) calm.keeps_discover_backup _ clean_B] hoare_sum
        hoare_pre [OF fail_run_hoare] prepare; auto intro: clean_B)
qed

text \<open>The deferred block.\<close>

definition ending :: "'w deps \<Rightarrow> run_options \<Rightarrow> 'w est \<Rightarrow> bool" where
  "ending d opts s \<longleftrightarrow> legal (allowed d opts) (es_log s)"

lemma stable_ending: "stable (ending d opts)"
  unfolding stable_def ending_def using protocol.legal_calm by blast

lemma body_ok_ending: "body_ok d opts s \<Longrightarrow> ending d opts s"
  by (simp add: body_ok_def ending_def)

lemma destroy_workload_hoare:
  "hoare (\<lambda>s. body_ok d opts s \<and> list_ex (accepts tid) (es_log s)) (destroy_workload d tid node st)
     (\<lambda>_. ending d opts) (ending d opts)"
proof -
  let ?I = "\<lambda>k s. ending d opts s \<and> list_ex (accepts tid) (es_log s) \<and> \<not> list_ex is_delete (es_log s) \<and>
    length (filter is_stop (es_log s)) \<le> k"
  let ?E = "\<lambda>s. ending d opts s \<and> list_ex (accepts tid) (es_log s) \<and> \<not> list_ex is_delete (es_log s)"
  note S = stable_ending [of d opts]
  have I: "stable (?I k)" for k
    unfolding stable_def
  proof (intro allI impI)
    fix s t :: "'a est" assume c: "calm s t" and s: "?I k s"
    have "ending d opts t" using S c s unfolding stable_def by blast
    then show "?I k t" using s calm_none [OF c] calm_list_ex [OF c] by simp
  qed
  have opened: "hoare (\<lambda>s. body_ok d opts s \<and> list_ex (accepts tid) (es_log s))
      (begin_step d step_cleanup RunCleaningUp) (\<lambda>_. ?I 0) (ending d opts)"
    by (rule hoare_pre [OF hoare_calm [OF I calm.keeps_begin_step]])
      (auto simp: body_ok_def ending_def list_ex_iff filter_empty_conv)
  have stop: "hoare (?I 0) (retry d CleanupCtx 3 (2 * second) (stop_call d tid))
      (\<lambda>r t. ?E t \<and> (\<forall>a. r = Inr a \<longrightarrow> True)) ?E"
  proof (rule retry_hoare [where I = ?I])
    show "hoare (?I k) (stop_call d tid) (\<lambda>r t. ?I (Suc k) t \<and> (\<forall>a. r = Inr a \<longrightarrow> True)) ?E" if "k < 3" for k
      unfolding stop_call_def using that by (intro hoare_perform) (auto simp: ending_def)
  qed (use I in simp_all)
  have stop': "hoare (?I 0) (retry d CleanupCtx 3 (2 * second) (stop_call d tid)) (\<lambda>_. ?E) (ending d opts)"
    by (rule hoare_weaken [OF stop]) simp_all
  have delete: "hoare ?E (delete_call d tid) (\<lambda>_. ending d opts) (ending d opts)"
    unfolding delete_call_def by (intro hoare_perform) (simp_all add: ending_def)
  have run: "hoare (ending d opts) (modify_run g) (\<lambda>_. ending d opts) (ending d opts)" for g
    by (simp add: hoare_def ending_def)
  show ?thesis
    unfolding destroy_workload_def
    by (intro hoare_bind [OF opened] hoare_then [OF stop'] hoare_bind [OF delete] hoare_sum hoare_then [OF run]
        bind_calm [OF S calm.keeps_get_run] then_calm [OF S calm.keeps_end_step] hoare_ret; assumption)
qed

lemma cleanup_hoare:
  "hoare (\<lambda>s. body_ok d opts s \<and> (nc \<longrightarrow> list_ex (accepts tid) (es_log s))) (cleanup d p opts tid node nc)
     (\<lambda>_. ending d opts) (ending d opts)"
proof -
  let ?P = "\<lambda>s. body_ok d opts s \<and> (nc \<longrightarrow> list_ex (accepts tid) (es_log s))"
  have P: "stable ?P" by (intro stable_conj stable_imp stable_stages stable_log)
  have E: "ending d opts s" if "?P s" for s using that body_ok_ending by blast
  have keep: "hoare ?P (keep_workload d st m) (\<lambda>_. ending d opts) (ending d opts)" for st m
    using E by (intro hoare_calm [OF P calm.keeps_keep_workload]) simp_all
  have skip: "hoare ?P (thenM (modify_run g) (ret None)) (\<lambda>_. ending d opts) (ending d opts)" for g
    by (auto simp: hoare_def body_ok_def ending_def)
  show ?thesis
    unfolding cleanup_def Let_def
    by (intro hoare_if skip bind_calm [OF P calm.keeps_get_run _ E] keep hoare_pre [OF destroy_workload_hoare])
      simp_all
qed

lemma settle_hoare:
  "hoare (body_ok d opts) (settle d p opts panicked) (\<lambda>_. ending d opts) (ending d opts)"
proof -
  note B = stable_stages(6) [of d opts]
  have rest: "hoare (\<lambda>t. body_ok d opts t \<and> (nc \<longrightarrow> list_ex (accepts tid) (es_log t)))
      (bindM (cleanup d p opts tid node nc) (\<lambda>e. thenM (finalize_run d) (ret (combine_errors w e))))
      (\<lambda>_. ending d opts) (ending d opts)" for tid node nc w
    by (intro hoare_bind [OF cleanup_hoare] then_calm [OF stable_ending calm.keeps_finalize_run] hoare_ret)
  have mark: "hoare (\<lambda>t. body_ok d opts t \<and> (nc \<longrightarrow> list_ex (accepts tid) (es_log t)))
      (case w of Some e \<Rightarrow> if c then mark_cancelled e else ret () | None \<Rightarrow> ret ())
      (\<lambda>_ t. body_ok d opts t \<and> (nc \<longrightarrow> list_ex (accepts tid) (es_log t))) (ending d opts)" for nc tid w c
    by (rule hoare_calm [OF stable_conj [OF B stable_imp [OF stable_log]]])
      (auto intro: pres_intros body_ok_ending split: option.split)
  have "wp (settle d p opts panicked) (\<lambda>_. ending d opts) (\<lambda>_. ending d opts) s" if "body_ok d opts s" for s :: "'a est"
  proof -
    have "hoare (\<lambda>t. body_ok d opts t \<and> (es_needs_cleanup s \<longrightarrow> list_ex (accepts (es_temp_id s)) (es_log t)))
      (thenM (case es_workflow_err s of Some e \<Rightarrow>
           if \<not> panicked \<and> d_ctx_err d (es_world s) = Some CtxCanceled then mark_cancelled e else ret ()
         | None \<Rightarrow> ret ()) (
       bindM (cleanup d p opts (es_temp_id s) (es_node s) (es_needs_cleanup s)) (\<lambda>e.
       thenM (finalize_run d) (ret (combine_errors (es_workflow_err s) e)))))
      (\<lambda>_. ending d opts) (ending d opts)"
      by (rule hoare_then [OF mark rest])
    from hoareD [OF this, of s] that show ?thesis
      unfolding settle_def by (simp add: body_ok_def)
  qed
  then show ?thesis by (simp add: hoare_def)
qed

lemma deferred_hoare: "hoare (body_ok d opts) (deferred d p opts out) (\<lambda>_. ending d opts) (ending d opts)"
  unfolding deferred_def
  by (cases out) (auto intro: settle_hoare hoare_then [OF hoare_weaken [OF fail_run_hoare] settle_hoare]
      body_ok_ending simp: hoare_def [of _ diverge])

lemma clean_initial: "clean (initial d p opts w)"
  by (simp add: initial_def clean_def split: prod.split)

lemma hoare_snd: "hoare P m (\<lambda>_. E) E \<Longrightarrow> P s \<Longrightarrow> E (snd (m s))"
  by (cases "m s"; cases "fst (m s)") (auto dest!: hoareD simp: wp_def)


lemma engine_run_legal:
  "legal (allowed d opts) (es_log (snd (engine_run fuel d p opts w)))"
proof -
  let ?s = "initial d p opts w"
  obtain out s where run: "run_workflow fuel d p opts ?s = (out, s)" by (cases "run_workflow fuel d p opts ?s")
  have "body_ok d opts s"
    using hoare_snd [OF run_workflow_hoare [of fuel d p opts] clean_initial [of d p opts w]] run by simp
  then have "ending d opts (snd (deferred d p opts out s))" by (rule hoare_snd [OF deferred_hoare])
  then show ?thesis by (simp add: engine_run_def run ending_def)
qed


section \<open>Properties\<close>

text \<open>C1. Every call a run makes to the providers is allowed by the calls before it, however the
  run ends: success, failure, panic of a provider, cancellation, or a call that never returns.
  So a run reserves one identity, submits one restore (for that identity, powered off, onto a
  network marked isolated that the provider was asked about, and only after a listener was told
  the workload and its node), starts only what was restored well and hardened, and stops and
  deletes, on the detached context and at most once, only the workload whose restore the
  provider accepted in this very run.\<close>

theorem run_follows_protocol:
  "legal (allowed d opts) (es_log (snd (engine_run fuel d p opts w)))"
  by (rule engine_run_legal)

end
