(* ===== verification/Lab.thy ===== *)
theory Lab
  imports Engine
begin

text \<open>
  A small cluster to evaluate the engine on: the world is a clock that advances by one at each
  reading and by the duration of each sleep, unless negative; every call answers at once. The definitions here
  are the concrete instances the closed examples of the development run.
\<close>

definition lab_net :: network_config where
  "lab_net = \<lparr>nw_bridge = ''vmbr9'', nw_model = ''virtio'', nw_vlan_tag = 0, nw_firewall = True, nw_isolated = True\<rparr>"

definition lab_backup :: backup where
  "lab_backup = \<lparr>bk_id = ''b1'', bk_workload_id = ''101'', bk_provider_id = ''pve'', bk_datastore = ''nfs'',
     bk_node = ''n1'', bk_created_at = 0, bk_size_bytes = 1, bk_protected = False, bk_encrypted = False,
     bk_verified = VerificationOK, bk_format = ''vma'', bk_notes = ''''\<rparr>"

definition lab_workload :: workload where
  "lab_workload = \<lparr>wl_id = ''101'', wl_name = ''db'', wl_kind = KindVM, wl_node = ''n1'', wl_cluster = '''',
     wl_tags = [], wl_cpu_cores = 1, wl_memory_bytes = 1, wl_disk_bytes = 1, wl_power_state = PowerRunning,
     wl_template = False, wl_managed = False, wl_recovery_run_id = ''''\<rparr>"

definition lab_status :: workload_status where
  "lab_status = \<lparr>ws_id = ''9000'', ws_power_state = PowerRunning, ws_uptime = 1, ws_agent_ready = True,
     ws_ips = [''10.0.0.5''], ws_cpu_usage = NaN, ws_memory_bytes = 1\<rparr>"

definition lab_deps :: "int deps" where
  "lab_deps =
     \<lparr>d_hv_id = ''pve'', d_bp_id = ''pve'', d_new_id = (\<lambda>w. (''run-1'', w)),
      d_get_workload = (\<lambda>c i w. (Done (Inr (Some lab_workload)), w)),
      d_list_backups = (\<lambda>c i w. (Done (Inr [lab_backup]), w)),
      d_get_latest = (\<lambda>c i w. (Done (Inr (Some lab_backup)), w)),
      d_validate_isolation = Some (\<lambda>c n net w. (Done (Inr ()), w)),
      d_node_capacity = None,
      d_allocate = (\<lambda>c w. (Done (Inr ''9000''), w)),
      d_restore = (\<lambda>c b ro w. (Done (Inr None), w)),
      d_wait_for_job = (\<lambda>c j w. (Done (Inr (Some \<lparr>ts_id = ''t'', ts_running = False, ts_success = True,
         ts_exit_code = ''OK'', ts_message = ''''\<rparr>)), w)),
      d_finalize = Some (\<lambda>c ro w. (Done (Inr ()), w)),
      d_start = (\<lambda>c i w. (Done (Inr ()), w)),
      d_stop = (\<lambda>c i w. (Done (Inr ()), w)),
      d_delete = (\<lambda>c i w. (Done (Inr ()), w)),
      d_get_status = (\<lambda>c i w. (Done (Inr (Some lab_status)), w)),
      d_run_all = (\<lambda>c t cfgs w. (Done [], w)),
      d_now = (\<lambda>w. (w, w + 1)),
      d_sleep = (\<lambda>c n w. (None, w + max 0 n)),
      d_emit = (\<lambda>e w. w),
      d_ctx_err = (\<lambda>w. None),
      d_has_exec = False, d_has_baselines = False\<rparr>"

definition lab_plan :: plan where
  "lab_plan = \<lparr>pl_name = ''drill'', pl_description = '''', pl_tags = [],
     pl_workload = \<lparr>wr_provider = ''pve'', wr_id = ''101'', wr_name = ''''\<rparr>,
     pl_backup = \<lparr>bs_provider = '''', bs_strategy = StrategyLatest, bs_id = '''', bs_max_age = 0\<rparr>,
     pl_restore = \<lparr>rs_node = ''n1'', rs_storage = '''', rs_pool = '''', rs_network = ''isolated'', rs_bridge = '''',
       rs_cpu_limit = 0, rs_memory_limit_mb = 0, rs_bandwidth_kibps = 0, rs_timeout = 1\<rparr>,
     pl_startup = \<lparr>su_skip = False, su_timeout = 1000, su_wait_for_ip = Some True,
       su_wait_for_agent = Some False, su_ip = ''''\<rparr>,
     pl_checks = [], pl_cleanup = \<lparr>cl_always = None, cl_keep_on_failure = False\<rparr>,
     pl_rto_target = 0, pl_schedule = '''', pl_schedule_timezone = ''''\<rparr>"

definition lab_options :: run_options where
  "lab_options = \<lparr>op_run_id = '''', op_network = lab_net, op_node = '''', op_storage = '''', op_pool = '''',
     op_dry_run = False, op_keep_workload = False\<rparr>"

text \<open>The equations that evaluate a run of the engine on this cluster by simplification.\<close>

lemmas lab_defs = lab_deps_def lab_plan_def lab_options_def lab_net_def lab_status_def
  lab_backup_def lab_workload_def

lemmas effect_defs = bindM_def thenM_def ret_def perform_def now_def sleep_def emit_def modify_def
  modify_run_def get_run_def gets_def deref_def

lemmas workflow_defs = run_workflow_def discover_backup_def begin_step_def end_step_def set_state_def
  append_step_def event_for_def resolve_source_name_def resolve_backup_def accept_backup_def
  prepare_environment_def resolve_node_def check_network_isolation_def check_capacity_def
  reserve_identity_def allocate_def restore_workload_def settle_restore_def harden_def
  wait_for_job_def retry_def start_workload_def start_call_def wait_for_guest_def poll_status_def
  guest_ready_def guest_up_def finish_workflow_def measure_rto_def grade_success_def initial_def
  new_run_def waits_for_ip_def waits_for_agent_def primary_ip_def is_ipv6_def ok_of_def task_ok_def
  restore_options_of_def Let_def

lemmas lab_eval = lab_defs effect_defs workflow_defs eval_nat_numeral

end
