(* ===== verification/Engine_Contract.thy ===== *)
theory Engine_Contract
  imports Engine_Safety Lab
begin

text \<open>
  What a run of the recovery engine promises its caller: the error it returns and the state and
  verdict it records agree; cancellation carries no verdict; a temporary workload that was
  restored is deleted however the workflow ended, unless it was to be kept; a dry run changes
  nothing; waiting for the guest ends; the proof level stays within what the plan can prove.
\<close>

section \<open>Relations the whole workflow keeps\<close>

text \<open>
  The interface of \<open>base_order\<close>, extended to the steps that do touch the cluster: the relation
  also tolerates any call, the reservation of an identity, and the variables of \<open>Run\<close>.
\<close>

locale all_steps = base_order R for R :: "'w est \<Rightarrow> 'w est \<Rightarrow> bool" +
  assumes R_call: "R s (s\<lparr>es_log := e # es_log s\<rparr>)"
    and R_vars: "R s (s\<lparr>es_temp_id := a, es_node := b\<rparr>)"
    and R_needs: "R s (s\<lparr>es_needs_cleanup := True\<rparr>)"
    and R_reserve: "R s (s\<lparr>es_run := (es_run s)\<lparr>run_temp_workload_id := a, run_temp_name := b, run_node := c\<rparr>\<rparr>)"
begin

lemma keeps_any_call: "keeps R (perform mk f)"
  unfolding keeps_def perform_def
  using R_trans [OF R_world R_call] by (auto split: prod.split)

lemma keeps_modify: "(\<And>s. R s (g s)) \<Longrightarrow> keeps R (modify g)"
  by (simp add: keeps_def modify_def)

lemma keeps_reserve_identity [pres_intros]: "keeps R (reserve_identity d p idx node tid)"
  unfolding reserve_identity_def modify_run_def
  by (intro pres_intros keeps_modify) (rule R_reserve)

lemma keeps_prepare_environment [pres_intros]: "keeps R (prepare_environment d p opts)"
  unfolding prepare_environment_def allocate_def by (intro pres_intros keeps_any_call)

lemma keeps_restore_workload [pres_intros]: "keeps R (restore_workload d p opts pr)"
  unfolding restore_workload_def settle_restore_def harden_def
  by (intro pres_intros keeps_any_call keeps_modify) (rule R_needs)

lemma keeps_start_workload [pres_intros]: "keeps R (start_workload d p tid)"
  unfolding start_workload_def start_call_def by (intro pres_intros keeps_any_call)

lemma keeps_destroy_workload [pres_intros]: "keeps R (destroy_workload d tid node st)"
  unfolding destroy_workload_def stop_call_def delete_call_def
  by (intro pres_intros keeps_any_call keeps_modify_run) (simp_all add: steady_def grows_def)

lemma keeps_cleanup [pres_intros]: "keeps R (cleanup d p opts tid node nc)"
  unfolding cleanup_def by (intro pres_intros keeps_modify_run) (simp add: steady_def grows_def)

end

locale erring_steps = all_steps R for R :: "'w est \<Rightarrow> 'w est \<Rightarrow> bool" +
  assumes R_err: "R s (s\<lparr>es_workflow_err := e\<rparr>)"
begin

lemma keeps_set_workflow_err [pres_intros]: "keeps R (set_workflow_err e)"
  unfolding set_workflow_err_def by (rule keeps_modify) (rule R_err)

lemma keeps_fail_run [pres_intros]: "keeps R (fail_run e)"
  unfolding fail_run_def by (intro pres_intros)

lemma keeps_settle [pres_intros]: "keeps R (settle d p opts panicked)"
  unfolding settle_def by (intro pres_intros)

lemma keeps_deferred [pres_intros]: "keeps R (deferred d p opts out)"
  unfolding deferred_def by (cases out) (simp_all, (intro pres_intros)+)

end

locale whole_run = erring_steps R + step_order R for R :: "'w est \<Rightarrow> 'w est \<Rightarrow> bool"
begin

lemma keeps_finish_workflow [pres_intros]: "keeps R (finish_workflow d p tg)"
  unfolding finish_workflow_def by (intro pres_intros)

lemma keeps_run_workflow [pres_intros]: "keeps R (run_workflow fuel d p opts)"
  unfolding run_workflow_def by (intro pres_intros keeps_modify) (rule R_vars)

lemma engine_run_keeps: "R (initial d p opts w) (snd (engine_run fuel d p opts w))"
proof -
  obtain out s where run: "run_workflow fuel d p opts (initial d p opts w) = (out, s)"
    by (cases "run_workflow fuel d p opts (initial d p opts w)")
  have "R (initial d p opts w) s"
    using keepsD [OF keeps_run_workflow, of "initial d p opts w" fuel d p opts] run by simp
  then show ?thesis
    using keepsD [OF keeps_deferred, of s d p opts out] by (auto simp: engine_run_def run intro: R_trans)
qed

end

text \<open>The error variable is only written where the workflow ends.\<close>

definition same_err :: "'w est \<Rightarrow> 'w est \<Rightarrow> bool" where
  "same_err s t \<longleftrightarrow> es_workflow_err t = es_workflow_err s"

interpretation same_err: all_steps same_err
  by unfold_locales (simp_all add: same_err_def)

interpretation same_err: step_order same_err
  by unfold_locales (simp_all add: same_err_def)

text \<open>A run keeps its identity, its start and its target; its proof level only rises.\<close>

definition same_run :: "'w est \<Rightarrow> 'w est \<Rightarrow> bool" where
  "same_run s t \<longleftrightarrow>
     run_id (es_run t) = run_id (es_run s) \<and> run_plan_name (es_run t) = run_plan_name (es_run s) \<and>
     run_source_workload_id (es_run t) = run_source_workload_id (es_run s) \<and>
     run_started_at (es_run t) = run_started_at (es_run s) \<and>
     run_rto_target (es_run t) = run_rto_target (es_run s) \<and>
     rank (run_proof_level (es_run s)) \<le> rank (run_proof_level (es_run t))"

interpretation same_run: whole_run same_run
  by unfold_locales (auto simp: same_run_def steady_def grows_def raise_to_def)


section \<open>The error and the verdict agree\<close>

text \<open>What a workflow that returned has recorded, by the error it ended with.\<close>

definition graded :: "'w est \<Rightarrow> bool" where
  "graded s \<longleftrightarrow> (case es_workflow_err s of
      None \<Rightarrow> run_state (es_run s) = RunSuccess \<and>
             run_result (es_run s) \<in> {ResultSuccess, ResultDegraded}
    | Some e \<Rightarrow> run_state (es_run s) = RunFailed \<and> run_result (es_run s) = ResultFailed \<or>
               run_state (es_run s) = RunInconclusive \<and> run_result (es_run s) = ResultNone)"

definition no_err :: "'w est \<Rightarrow> bool" where "no_err s \<longleftrightarrow> es_workflow_err s = None"

lemma hoare_no_err: "keeps same_err m \<Longrightarrow> hoare no_err m (\<lambda>_. no_err) (\<lambda>_. True)"
  unfolding hoare_def no_err_def
  by (auto simp: wp_def keeps_def same_err_def split: prod.split outcome.split) (metis snd_conv)+

lemma bind_no_err:
  "keeps same_err m \<Longrightarrow> (\<And>a. hoare no_err (f a) Q (\<lambda>_. True)) \<Longrightarrow> hoare no_err (bindM m f) Q (\<lambda>_. True)"
  by (rule hoare_bind [OF hoare_no_err])

lemma then_no_err:
  "keeps same_err m \<Longrightarrow> hoare no_err n Q (\<lambda>_. True) \<Longrightarrow> hoare no_err (thenM m n) Q (\<lambda>_. True)"
  by (rule hoare_then [OF hoare_no_err])

lemma fail_run_graded: "hoare P (fail_run e) (\<lambda>_. graded) (\<lambda>_. True)"
  by (simp add: hoare_def fail_run_def mark_failed_def set_workflow_err_def graded_def)

lemma grade_success_graded: "hoare no_err (grade_success p) (\<lambda>_. graded) (\<lambda>_. True)"
  by (simp add: hoare_def grade_success_def graded_def no_err_def)

lemma finish_workflow_graded: "hoare no_err (finish_workflow d p tg) (\<lambda>_. graded) (\<lambda>_. True)"
proof -
  have mark: "hoare no_err (thenM (if c then mark_inconclusive e else mark_failed e) (set_workflow_err (Some e)))
      (\<lambda>_. graded) (\<lambda>_. True)" for c e
    by (simp add: hoare_def mark_failed_def mark_inconclusive_def set_workflow_err_def graded_def)
  show ?thesis
    unfolding finish_workflow_def
    by (intro hoare_if then_no_err bind_no_err same_err.keeps_marks same_err.keeps_run_checks_step
        hoare_sum grade_success_graded mark)
qed

lemma run_dry_run_graded:
  "hoare no_err (bindM (run_dry_run d p opts) set_workflow_err) (\<lambda>_. graded) (\<lambda>_. True)"
proof -
  let ?Q = "\<lambda>r s. graded (s\<lparr>es_workflow_err := r\<rparr>)"
  have quit: "hoare no_err (dry_run_fail e) ?Q (\<lambda>_. True)" for e
    by (simp add: hoare_def dry_run_fail_def mark_failed_def graded_def)
  have quit_step: "hoare no_err (fail_dry_step d idx m e) ?Q (\<lambda>_. True)" for idx m e
    unfolding fail_dry_step_def by (intro then_no_err same_err.keeps_end_step quit)
  have finish: "hoare no_err (thenM (modify_run (\<lambda>r. r\<lparr>run_state := RunSuccess, run_result := ResultSuccess,
      run_cleanup_done := True\<rparr>)) (ret None)) ?Q (\<lambda>_. True)"
    by (simp add: hoare_def graded_def)
  have "hoare no_err (run_dry_run d p opts) ?Q (\<lambda>_. True)"
    unfolding run_dry_run_def
    by (intro finish bind_no_err hoare_sum quit quit_step pres_intros then_no_err same_err.keeps_modify_run)
      (simp_all add: steady_def grows_def)
  then show ?thesis
    by (rule hoare_bind) (simp add: hoare_def set_workflow_err_def)
qed

lemma run_workflow_graded: "hoare no_err (run_workflow fuel d p opts) (\<lambda>_. graded) (\<lambda>_. True)"
  unfolding run_workflow_def
  by (intro hoare_if run_dry_run_graded bind_no_err then_no_err hoare_sum fail_run_graded
      finish_workflow_graded same_err.keeps_discover_backup same_err.keeps_prepare_environment
      same_err.keeps_restore_workload same_err.keeps_start_workload same_err.keeps_wait_for_guest
      same_err.keeps_modify) (simp add: same_err_def)


text \<open>The state and the verdict through the steps of the clean-up.\<close>

type_synonym verdict = "run_result \<times> check_result list \<times> duration \<times> duration"

definition verdict_of :: "recovery_run \<Rightarrow> verdict" where
  "verdict_of r = (run_result r, run_checks r, run_rto r, run_rto_target r)"

definition verdict_is :: "run_state \<Rightarrow> verdict \<Rightarrow> 'w est \<Rightarrow> bool" where
  "verdict_is st rs s \<longleftrightarrow> run_state (es_run s) = st \<and> verdict_of (es_run s) = rs"

definition result_is :: "verdict \<Rightarrow> 'w est \<Rightarrow> bool" where
  "result_is rs s \<longleftrightarrow> verdict_of (es_run s) = rs"

lemma end_step_verdict: "hoare (verdict_is st rs) (end_step d idx status m e) (\<lambda>_. verdict_is st rs) (\<lambda>_. True)"
  by (simp add: hoare_def end_step_def verdict_is_def verdict_of_def wp_now)

lemma end_step_result: "hoare (result_is rs) (end_step d idx status m e) (\<lambda>_. result_is rs) (\<lambda>_. True)"
  by (simp add: hoare_def end_step_def result_is_def verdict_of_def wp_now)

lemma begin_step_result: "hoare (result_is rs) (begin_step d name st) (\<lambda>_. result_is rs) (\<lambda>_. True)"
  by (simp add: hoare_def begin_step_def set_state_def append_step_def result_is_def verdict_of_def wp_now)

lemma retry_from_keeps_run:
  assumes "hoare (result_is rs) fn (\<lambda>_. result_is rs) (\<lambda>_. True)"
  shows "hoare (result_is rs) (retry_from n d c backoff fn) (\<lambda>_. result_is rs) (\<lambda>_. True)"
proof (induction n)
  case 0
  show ?case by (auto intro!: hoare_bind [OF assms] hoare_sum hoare_ret)
next
  case (Suc n)
  have sleep: "hoare (result_is rs) (sleep d c k) (\<lambda>_. result_is rs) (\<lambda>_. True)" for k
    by (simp add: hoare_def wp_sleep result_is_def verdict_of_def)
  show ?case
    by (auto intro!: hoare_bind [OF assms] hoare_bind [OF sleep] hoare_sum hoare_ret Suc split: option.split)
qed

definition cleaned :: "run_state \<Rightarrow> verdict \<Rightarrow> goerr option \<Rightarrow> 'w est \<Rightarrow> bool" where
  "cleaned st rs r t \<longleftrightarrow> verdict_is (case r of None \<Rightarrow> st | Some _ \<Rightarrow> RunCleanupFailed) rs t"

lemma keep_workload_verdict: "hoare (result_is rs) (keep_workload d st m) (cleaned st rs) (\<lambda>_. True)"
proof -
  have skip: "hoare (result_is rs) (record_cleanup_skipped d m) (\<lambda>_. result_is rs) (\<lambda>_. True)"
    unfolding record_cleanup_skipped_def
    by (intro hoare_bind [OF begin_step_result] hoare_then [OF end_step_result])
      (simp add: hoare_def result_is_def verdict_of_def)
  show ?thesis
    unfolding keep_workload_def
    by (rule hoare_then [OF skip]) (simp add: hoare_def result_is_def verdict_of_def verdict_is_def verdict_of_def cleaned_def)
qed

lemma destroy_workload_verdict:
  "hoare (result_is rs) (destroy_workload d tid node st) (cleaned st rs) (\<lambda>_. True)"
proof -
  let ?R = "result_is rs"
  have call: "hoare ?R (perform mk f) (\<lambda>_. ?R) (\<lambda>_. True)" for mk f
    by (intro hoare_perform) (simp_all add: result_is_def verdict_of_def)
  have stop: "hoare ?R (retry d CleanupCtx 3 (2 * second) (stop_call d tid)) (\<lambda>_. ?R) (\<lambda>_. True)"
    unfolding retry_def stop_call_def by (rule retry_from_keeps_run [OF call])
  have orphan: "hoare ?R (modify_run (\<lambda>r. r\<lparr>run_cleanup_done := False, run_state := RunCleanupFailed,
      run_err := f r\<rparr>)) (\<lambda>_. verdict_is RunCleanupFailed rs) (\<lambda>_. True)" for f
    by (simp add: hoare_def result_is_def verdict_of_def verdict_is_def verdict_of_def)
  have flag: "hoare ?R (modify_run (\<lambda>r. r\<lparr>run_cleanup_done := True\<rparr>)) (\<lambda>_. ?R) (\<lambda>_. True)"
    by (simp add: hoare_def result_is_def verdict_of_def)
  have restore: "hoare ?R (thenM (modify_run (\<lambda>r. r\<lparr>run_state := st\<rparr>)) (ret None)) (cleaned st rs) (\<lambda>_. True)"
    by (simp add: hoare_def result_is_def verdict_of_def verdict_is_def verdict_of_def cleaned_def)
  have read: "hoare P (bindM get_run f) Q (\<lambda>_. True)" if "\<And>a. hoare P (f a) Q (\<lambda>_. True)" for P Q and f :: "_ \<Rightarrow> ('a est, 'b) eng"
    using that by (simp add: hoare_def)
  show ?thesis
    unfolding destroy_workload_def delete_call_def
    by (intro hoare_bind [OF begin_step_result] hoare_then [OF stop] hoare_bind [OF call] hoare_sum
        hoare_then [OF orphan] read hoare_then [OF end_step_verdict] hoare_then [OF flag]
        hoare_then [OF end_step_result] restore hoare_ret) (simp add: cleaned_def)
qed

lemma cleanup_verdict:
  "hoare (verdict_is st rs) (cleanup d p opts tid node nc) (cleaned st rs) (\<lambda>_. True)"
proof (rule hoareI)
  fix s :: "'a est" assume v: "verdict_is st rs s"
  then have st: "run_state (es_run s) = st" and rs: "result_is rs s"
    by (simp_all add: verdict_is_def verdict_of_def result_is_def verdict_of_def)
  note ends = hoareD [OF keep_workload_verdict rs] hoareD [OF destroy_workload_verdict rs]
  show "wp (cleanup d p opts tid node nc) (cleaned st rs) (\<lambda>_ _. True) s"
    using v by (simp add: cleanup_def st ends cleaned_def) (simp add: verdict_is_def verdict_of_def)
qed


section \<open>The contract of \<open>Run\<close>\<close>

text \<open>
  What the caller may read off: no error is a graded recovery; an error is a failure, or one of
  the three endings that carry no verdict or override it.
\<close>

definition honest :: "goerr option \<Rightarrow> recovery_run \<Rightarrow> bool" where
  "honest err r \<longleftrightarrow>
     (case err of
        None \<Rightarrow> run_state r = RunSuccess \<and> run_result r \<in> {ResultSuccess, ResultDegraded}
      | Some _ \<Rightarrow>
          run_state r = RunFailed \<and> run_result r = ResultFailed \<or>
          run_state r \<in> {RunCancelled, RunInconclusive} \<and> run_result r = ResultNone \<or>
          run_state r = RunCleanupFailed)"

text \<open>What the deferred block makes of the verdict: it keeps it, or voids it on a cancellation.\<close>

definition settled_as :: "recovery_run \<Rightarrow> goerr option \<Rightarrow> recovery_run \<Rightarrow> bool" where
  "settled_as r err r' \<longleftrightarrow> honest err r' \<and> (verdict_of r' = verdict_of r \<or> run_result r' = ResultNone)"

lemma settle_honest:
  assumes g: "graded s"
  shows "wp (settle d p opts panicked) (\<lambda>err t. settled_as (es_run s) err (es_run t)) (\<lambda>_ _. True) s"
proof -
  let ?mark = "case es_workflow_err s of
      Some e \<Rightarrow> if \<not> panicked \<and> d_ctx_err d (es_world s) = Some CtxCanceled then mark_cancelled e else ret ()
    | None \<Rightarrow> ret ()"
  let ?V = "\<lambda>st rs. (rs = verdict_of (es_run s) \<or> fst rs = ResultNone) \<and> (case es_workflow_err s of
      None \<Rightarrow> st = RunSuccess \<and> fst rs \<in> {ResultSuccess, ResultDegraded}
    | Some _ \<Rightarrow> st = RunFailed \<and> fst rs = ResultFailed \<or> st \<in> {RunCancelled, RunInconclusive} \<and> fst rs = ResultNone)"
  have mark: "wp ?mark (\<lambda>_ t. \<exists>st rs. ?V st rs \<and> verdict_is st rs t) (\<lambda>_ _. True) s"
    using g by (cases "es_workflow_err s")
      (auto simp: graded_def verdict_is_def verdict_of_def mark_cancelled_def)
  have clean: "wp (cleanup d p opts tid node nc) (\<lambda>r u. \<exists>st rs. ?V st rs \<and> cleaned st rs r u) (\<lambda>_ _. True) t"
    if "\<exists>st rs. ?V st rs \<and> verdict_is st rs t" for t tid node nc
  proof -
    from that obtain st rs where v: "?V st rs" "verdict_is st rs t" by blast
    from hoareD [OF cleanup_verdict v(2)] show ?thesis by (rule wp_mono) (use v(1) in blast)+
  qed
  have final: "wp (thenM (finalize_run d) (ret (combine_errors (es_workflow_err s) r)))
      (\<lambda>err t. settled_as (es_run s) err (es_run t)) (\<lambda>_ _. True) u" if "\<exists>st rs. ?V st rs \<and> cleaned st rs r u" for r u
  proof -
    from that obtain st rs where v: "?V st rs" "verdict_is (case r of None \<Rightarrow> st | Some _ \<Rightarrow> RunCleanupFailed) rs u"
      unfolding cleaned_def by blast
    have "wp (finalize_run d) (\<lambda>_. verdict_is (case r of None \<Rightarrow> st | Some _ \<Rightarrow> RunCleanupFailed) rs) (\<lambda>_ _. True) u"
      using v by (cases "es_workflow_err s"; cases r)
        (auto simp: finalize_run_def wp_now verdict_is_def verdict_of_def)
    moreover have "settled_as (es_run s) (combine_errors (es_workflow_err s) r) (es_run t)"
      if "verdict_is (case r of None \<Rightarrow> st | Some _ \<Rightarrow> RunCleanupFailed) rs t" for t :: "'a est"
      using that v(1) by (cases "es_workflow_err s"; cases r; cases rs)
        (auto simp: settled_as_def honest_def verdict_is_def verdict_of_def combine_errors_def)
    ultimately show ?thesis by (auto elim: wp_mono)
  qed
  show ?thesis
    unfolding settle_def wp_bind wp_gets wp_then
    by (rule wp_mono [OF mark], rule wp_mono [OF clean], assumption, erule final [unfolded wp_then], simp_all)
qed

section \<open>A restored workload is not left behind\<close>

text \<open>From the moment a restore is accepted, the run knows that it has something to clean up.\<close>

fun is_accept :: "entry \<Rightarrow> bool" where
  "is_accept (CallRestore c b ro ok) = ok"
| "is_accept _ = False"

definition tracked :: "'w est \<Rightarrow> bool" where
  "tracked s \<longleftrightarrow> (list_ex is_accept (es_log s) \<longrightarrow> es_needs_cleanup s)"

definition tracks :: "'w est \<Rightarrow> 'w est \<Rightarrow> bool" where
  "tracks s t \<longleftrightarrow> (tracked s \<longrightarrow> tracked t)"

lemma observation_not_accept: "observation e \<Longrightarrow> \<not> is_accept e"
  by (cases e) simp_all

interpretation tracks: step_order tracks
  by unfold_locales (auto simp: tracks_def tracked_def observation_not_accept)

lemma tracks_call: "(\<And>r. \<not> is_accept (mk r)) \<Longrightarrow> keeps tracks (perform mk f)"
  by (auto simp: keeps_def perform_def tracks_def tracked_def split: prod.split)

lemma tracks_modify: "(\<And>s. tracks s (g s)) \<Longrightarrow> keeps tracks (modify g)"
  by (simp add: keeps_def modify_def)

text \<open>The restore and the flag: nothing stands between them that could lose it.\<close>

lemma tracks_restore_call:
  fixes f :: "('w, goerr + 'j) call"
  assumes "\<And>e. keeps tracks (m e)" "\<And>job. keeps tracks (n job)"
  shows "keeps tracks (bindM (perform (\<lambda>r. CallRestore RunCtx b ro (ok_of r)) f) (\<lambda>r. case r of
      Inl e \<Rightarrow> m e | Inr job \<Rightarrow> thenM (modify (\<lambda>s. s\<lparr>es_needs_cleanup := True\<rparr>)) (n job)))"
  unfolding keeps_def
proof
  fix s :: "'w est"
  obtain r w where f: "f (es_world s) = (r, w)" by (cases "f (es_world s)")
  show "tracks s (snd (bindM (perform (\<lambda>r. CallRestore RunCtx b ro (ok_of r)) f) (\<lambda>r. case r of
      Inl e \<Rightarrow> m e | Inr job \<Rightarrow> thenM (modify (\<lambda>s. s\<lparr>es_needs_cleanup := True\<rparr>)) (n job)) s))"
  proof (cases r)
    case (Done a)
    show ?thesis
    proof (cases a)
      case (Inl e)
      let ?s = "s\<lparr>es_world := w, es_log := CallRestore RunCtx b ro False # es_log s\<rparr>"
      have "tracks s ?s" by (simp add: tracks_def tracked_def)
      moreover have "tracks ?s (snd (m e ?s))" by (rule keepsD [OF assms(1)])
      ultimately show ?thesis using f Done Inl
        by (auto simp: bindM_def perform_def ok_of_def intro: tracks.R_trans)
    next
      case (Inr job)
      let ?s = "s\<lparr>es_world := w, es_log := CallRestore RunCtx b ro True # es_log s, es_needs_cleanup := True\<rparr>"
      have "tracks s ?s" by (simp add: tracks_def tracked_def)
      moreover have "tracks ?s (snd (n job ?s))" by (rule keepsD [OF assms(2)])
      ultimately show ?thesis using f Done Inr
        by (auto simp: bindM_def thenM_def modify_def perform_def ok_of_def intro: tracks.R_trans)
    qed
  qed (use f in \<open>auto simp: bindM_def perform_def ok_of_def tracks_def tracked_def\<close>)
qed

lemma tracks_restore_workload: "keeps tracks (restore_workload d p opts pr)"
  unfolding restore_workload_def settle_restore_def harden_def Let_def
  by (intro pres_intros tracks_restore_call tracks_call) simp_all

lemma tracks_prepare_environment: "keeps tracks (prepare_environment d p opts)"
  unfolding prepare_environment_def allocate_def reserve_identity_def modify_run_def
  by (intro pres_intros tracks_call tracks_modify) (simp_all add: tracks_def tracked_def)

lemma tracks_run_workflow: "keeps tracks (run_workflow fuel d p opts)"
  unfolding run_workflow_def finish_workflow_def start_workload_def start_call_def
    fail_run_def set_workflow_err_def
  by (intro pres_intros tracks_restore_workload tracks_prepare_environment tracks_call tracks_modify)
    (simp_all add: tracks_def tracked_def)

text \<open>One restore per run: the workload to clean up is the one whose restore was accepted.\<close>

lemma legal_one_restore:
  "legal (allowed d opts) es \<Longrightarrow> list_ex (accepts a) es \<Longrightarrow> list_ex (accepts b) es \<Longrightarrow> a = b"
proof (induction es)
  case (Cons e es)
  have "\<not> list_ex is_restore es \<Longrightarrow> \<not> list_ex (accepts c) es" for c
    by (auto simp: list_ex_iff elim!: accepts.elims)
  with Cons show ?case by (cases e) auto
qed simp

lemma accepts_is_accept: "list_ex (accepts tid) es \<Longrightarrow> list_ex is_accept es"
  by (induction es) (auto elim!: accepts.elims)

text \<open>
  Deleting: with a stop that comes back, the delete is called, whatever else the clean-up
  meets.
\<close>

fun deletes :: "string \<Rightarrow> entry \<Rightarrow> bool" where
  "deletes tid (CallDelete c t ok) = (c = CleanupCtx \<and> t = tid)"
| "deletes tid _ = False"

definition stop_returns :: "'w deps \<Rightarrow> bool" where
  "stop_returns d \<longleftrightarrow> (\<forall>c tid w. case d_stop d c tid w of (Done _, _) \<Rightarrow> True | _ \<Rightarrow> False)"

lemma hoare_total_bind:
  "hoare (\<lambda>_. True) m (\<lambda>_ _. True) (\<lambda>_. False) \<Longrightarrow> (\<And>a. hoare (\<lambda>_. True) (f a) Q E) \<Longrightarrow>
   hoare (\<lambda>_. True) (bindM m f) Q E"
  by (rule hoare_bind [where R = "\<lambda>_ _. True"], erule hoare_weaken) simp_all

lemma retry_total:
  assumes "hoare (\<lambda>_. True) fn (\<lambda>_ _. True) (\<lambda>_. False)"
  shows "hoare (\<lambda>_. True) (retry_from n d c backoff fn) (\<lambda>_ _. True) (\<lambda>_. False)"
proof (induction n)
  case 0
  show ?case by (auto intro!: hoare_total_bind [OF assms] hoare_sum hoare_ret)
next
  case (Suc n)
  have "hoare (\<lambda>_. True) (sleep d c k) (\<lambda>_ _. True) (\<lambda>_. False)" for k
    by (simp add: hoare_def wp_sleep)
  then show ?case
    by (auto intro!: hoare_total_bind [OF assms] hoare_total_bind hoare_sum hoare_ret Suc split: option.split)
qed

lemma destroy_workload_deletes:
  assumes "stop_returns d"
  shows "hoare (\<lambda>_. True) (destroy_workload d tid node st)
    (\<lambda>_ t. list_ex (deletes tid) (es_log t)) (\<lambda>t. list_ex (deletes tid) (es_log t))"
proof -
  let ?D = "\<lambda>s. list_ex (deletes tid) (es_log s)"
  have opened: "hoare (\<lambda>_. True) (begin_step d step_cleanup RunCleaningUp) (\<lambda>_ _. True) (\<lambda>_. False)"
    by (simp add: hoare_def begin_step_def set_state_def append_step_def wp_now)
  have "hoare (\<lambda>_. True) (stop_call d tid) (\<lambda>_ _. True) (\<lambda>_. False)"
  proof (rule hoareI)
    fix s :: "'a est"
    have "case d_stop d CleanupCtx tid (es_world s) of (Done _, _) \<Rightarrow> True | _ \<Rightarrow> False"
      using assms by (simp add: stop_returns_def)
    then show "wp (stop_call d tid) (\<lambda>_ _. True) (\<lambda>_ _. False) s"
      by (auto simp: stop_call_def wp_perform split: prod.splits outcome.splits)
  qed
  then have stop: "hoare (\<lambda>_. True) (retry d CleanupCtx 3 (2 * second) (stop_call d tid)) (\<lambda>_ _. True) (\<lambda>_. False)"
    unfolding retry_def by (rule retry_total)
  have delete: "hoare (\<lambda>_. True) (delete_call d tid) (\<lambda>_. ?D) ?D"
    unfolding delete_call_def by (intro hoare_perform) simp_all
  have rest: "hoare ?D (case r of
       Inl e \<Rightarrow> thenM (modify_run (\<lambda>r. r\<lparr>run_cleanup_done := False, run_state := RunCleanupFailed,
           run_err := orphan_message tid node (run_id r) e\<rparr>)) (
         bindM get_run (\<lambda>run.
         thenM (end_step d idx StepFailed (orphan_message tid node (run_id run) e) (Some e)) (
         ret (Some (orphan_error tid node e)))))
     | Inr _ \<Rightarrow> thenM (modify_run (\<lambda>r. r\<lparr>run_cleanup_done := True\<rparr>)) (
         thenM (end_step d idx StepDone m None) (
         thenM (modify_run (\<lambda>r. r\<lparr>run_state := st\<rparr>)) (ret None)))) (\<lambda>_. ?D) ?D" for r idx m
    by (intro hoare_calm [OF stable_log] pres_intros calm.keeps_modify_run) (simp_all add: steady_def grows_def)
  show ?thesis
    unfolding destroy_workload_def thenM_def [of "retry d CleanupCtx 3 (2 * second) (stop_call d tid)"]
    by (intro hoare_total_bind [OF opened] hoare_total_bind [OF stop] hoare_bind [OF delete] rest)
qed


lemma settle_deletes:
  assumes "stop_returns d" "es_needs_cleanup s" "\<not> op_keep_workload opts"
    "\<not> cl_keep_on_failure (pl_cleanup p)" "cleanup_always (pl_cleanup p)"
  shows "list_ex (deletes (es_temp_id s)) (es_log (snd (settle d p opts panicked s)))"
proof -
  let ?D = "\<lambda>t. list_ex (deletes (es_temp_id s)) (es_log t)"
  have mark: "wp (case es_workflow_err s of
        Some e \<Rightarrow> if \<not> panicked \<and> d_ctx_err d (es_world s) = Some CtxCanceled then mark_cancelled e else ret ()
      | None \<Rightarrow> ret ()) (\<lambda>_ _. True) (\<lambda>_ _. False) s"
    by (cases "es_workflow_err s") (simp_all add: mark_cancelled_def)
  have clean: "wp (cleanup d p opts (es_temp_id s) (es_node s) (es_needs_cleanup s)) (\<lambda>_. ?D) (\<lambda>_. ?D) t" for t
    using assms hoareD [OF destroy_workload_deletes [OF assms(1)] TrueI]
    by (simp add: cleanup_def)
  have rest: "wp (finalize_run d) (\<lambda>_ u. wp (ret r) (\<lambda>_. ?D) (\<lambda>_. ?D) u) (\<lambda>_. ?D) t" if "?D t" for t r
    using that calm_list_ex by (intro wp_calm [OF calm.keeps_finalize_run]) auto
  have "wp (settle d p opts panicked) (\<lambda>_. ?D) (\<lambda>_. ?D) s"
    unfolding settle_def wp_bind wp_gets wp_then
    by (rule wp_mono [OF mark], rule wp_mono [OF clean], erule rest, simp_all)
  then show ?thesis by (cases "settle d p opts panicked s"; cases "fst (settle d p opts panicked s)")
      (auto simp: wp_def)
qed

lemma engine_run_cases:
  assumes "run_workflow fuel d p opts (initial d p opts w) = (out, s)"
  shows "engine_run fuel d p opts w = deferred d p opts out s"
    "legal (allowed d opts) (es_log s)" "es_needs_cleanup s \<Longrightarrow> list_ex (accepts (es_temp_id s)) (es_log s)"
    "tracked s" "out = Done () \<Longrightarrow> graded s"
proof -
  have B: "body_ok d opts s"
    using hoare_snd [OF run_workflow_hoare [of fuel d p opts] clean_initial [of d p opts w]] assms by simp
  then show "legal (allowed d opts) (es_log s)"
    "es_needs_cleanup s \<Longrightarrow> list_ex (accepts (es_temp_id s)) (es_log s)" by (simp_all add: body_ok_def)
  show "engine_run fuel d p opts w = deferred d p opts out s" by (simp add: engine_run_def assms)
  have "tracks (initial d p opts w) s"
    using keepsD [OF tracks_run_workflow, of "initial d p opts w" fuel d p opts] assms by simp
  then show "tracked s" by (simp add: tracks_def tracked_def initial_def split: prod.split_asm)
  have "no_err (initial d p opts w)" by (simp add: no_err_def initial_def split: prod.split)
  from hoareD [OF run_workflow_graded this, of fuel d p opts] show "graded s" if "out = Done ()"
    using that assms by (simp add: wp_def)
qed


section \<open>Properties\<close>

text \<open>C8. A workload whose restore the provider accepted is deleted, on the detached context,
  whenever the workflow ends: on success, on any failed step, on cancellation and on a panic
  alike, as long as neither the caller nor the plan asked to keep it and stopping it comes back
  with some answer. (The delete is also attempted when the stop failed.)\<close>

theorem restored_workload_is_deleted:
  assumes "fst (run_workflow fuel d p opts (initial d p opts w)) \<noteq> Diverged"
    and "stop_returns d" "\<not> op_keep_workload opts" "\<not> cl_keep_on_failure (pl_cleanup p)"
      "cleanup_always (pl_cleanup p)"
    and "list_ex (accepts tid) (es_log (snd (run_workflow fuel d p opts (initial d p opts w))))"
  shows "list_ex (deletes tid) (es_log (snd (engine_run fuel d p opts w)))"
proof -
  obtain out s where run: "run_workflow fuel d p opts (initial d p opts w) = (out, s)"
    by (cases "run_workflow fuel d p opts (initial d p opts w)")
  note facts = engine_run_cases [OF run]
  have acc: "list_ex (accepts tid) (es_log s)" using assms(6) run by simp
  have nc: "es_needs_cleanup s"
    using facts(4) accepts_is_accept [OF acc] by (simp add: tracked_def)
  have tid: "es_temp_id s = tid" using legal_one_restore [OF facts(2) facts(3) [OF nc] acc] .
  show ?thesis
  proof (cases out)
    case (Done u)
    then show ?thesis using settle_deletes [OF assms(2) nc assms(3-5)] tid facts(1) by (simp add: deferred_def)
  next
    case (Panicked x)
    obtain s' where s': "fail_run (panic_error x) s = (Done (), s')" "es_needs_cleanup s'" "es_temp_id s' = tid"
      using nc tid
      by (simp add: fail_run_def mark_failed_def set_workflow_err_def thenM_def bindM_def modify_run_def modify_def)
    have "list_ex (deletes tid) (es_log (snd (settle d p opts True s')))"
      using settle_deletes [OF assms(2) s'(2) assms(3-5), of True] s'(3) by simp
    then show ?thesis using facts(1) Panicked s'(1) by (simp add: deferred_def thenM_def bindM_def)
  next
    case Diverged
    then show ?thesis using assms(1) run by simp
  qed
qed

lemma engine_run_honest:
  "case engine_run fuel d p opts w of
     (Done err, t) \<Rightarrow> honest err (es_run t) \<and> terminal (run_state (es_run t))
   | (_, t) \<Rightarrow> True"
proof -
  obtain out s where run: "run_workflow fuel d p opts (initial d p opts w) = (out, s)"
    by (cases "run_workflow fuel d p opts (initial d p opts w)")
  note facts = engine_run_cases [OF run]
  have "wp (deferred d p opts out) (\<lambda>err t. honest err (es_run t)) (\<lambda>_ _. True) s"
  proof (cases out)
    case (Done u)
    have "wp (settle d p opts False) (\<lambda>err t. settled_as (es_run s) err (es_run t)) (\<lambda>_ _. True) s"
      using settle_honest facts(5) Done by simp
    then show ?thesis using Done by (auto simp: deferred_def settled_as_def elim: wp_mono)
  next
    case (Panicked x)
    have settled: "hoare graded (settle d p opts True) (\<lambda>err t. honest err (es_run t)) (\<lambda>_. True)"
      by (rule hoareI, rule wp_mono, erule settle_honest) (simp_all add: settled_as_def)
    have "hoare (\<lambda>_. True) (thenM (fail_run (panic_error x)) (settle d p opts True))
        (\<lambda>err t. honest err (es_run t)) (\<lambda>_. True)"
      by (rule hoare_then [OF fail_run_graded settled])
    then show ?thesis using Panicked by (simp add: deferred_def hoare_def)
  qed (simp add: deferred_def)
  moreover have "honest err r \<Longrightarrow> terminal (run_state r)" for err r
    by (auto simp: honest_def split: option.splits)
  ultimately show ?thesis
    by (auto simp: facts(1) wp_def split: prod.splits outcome.splits)
qed

text \<open>C9. The error a run returns, its final state and its verdict always agree: no error exactly
  when the run is SUCCESS with a verdict of success or degraded; an error with FAILED and the
  failed verdict, with CANCELLED or INCONCLUSIVE and no verdict at all, or with CLEANUP_FAILED.
  The state a run ends in is terminal.\<close>

theorem run_contract:
  "case engine_run fuel d p opts w of
     (Done err, t) \<Rightarrow> honest err (es_run t) \<and> terminal (run_state (es_run t))
   | (_, t) \<Rightarrow> True"
  by (rule engine_run_honest)

text \<open>C11. A dry run makes no call that could change the cluster: it allocates, restores, hardens,
  starts, stops and deletes nothing.\<close>

theorem dry_run_only_observes:
  "list_all observation (es_log (snd (engine_run fuel d p (opts\<lparr>op_dry_run := True\<rparr>) w)))"
proof -
  let ?o = "opts\<lparr>op_dry_run := True\<rparr>"
  have err: "hoare clean (set_workflow_err e) (\<lambda>_. clean) clean" for e
    by (simp add: hoare_def set_workflow_err_def clean_def)
  have body: "hoare clean (run_workflow fuel d p ?o) (\<lambda>_. clean) clean"
    unfolding run_workflow_def
    by (simp, rule bind_calm [OF stable_stages(1) calm.keeps_dry_run err]) simp_all
  have settle: "hoare clean (settle d p ?o panicked) (\<lambda>_. clean) clean" for panicked
  proof (rule hoareI)
    fix s :: "'a est" assume s: "clean s"
    then have nc: "es_needs_cleanup s = False" by (simp add: clean_def)
    have skip: "cleanup d p ?o tid node False = thenM (modify_run (\<lambda>r. r\<lparr>run_cleanup_done := True\<rparr>)) (ret None)"
      for tid node by (simp add: cleanup_def)
    have "hoare clean (thenM (case es_workflow_err s of
        Some e \<Rightarrow> if \<not> panicked \<and> d_ctx_err d (es_world s) = Some CtxCanceled then mark_cancelled e else ret ()
      | None \<Rightarrow> ret ()) (bindM (cleanup d p ?o (es_temp_id s) (es_node s) False) (\<lambda>e.
          thenM (finalize_run d) (ret (combine_errors (es_workflow_err s) e))))) (\<lambda>_. clean) clean"
      unfolding skip
      by (intro hoare_calm [OF stable_stages(1)] pres_intros calm.keeps_modify_run) (simp_all add: steady_def grows_def)
    from hoareD [OF this s] show "wp (settle d p ?o panicked) (\<lambda>_. clean) (\<lambda>_. clean) s"
      by (simp add: settle_def nc)
  qed
  obtain out s where run: "run_workflow fuel d p ?o (initial d p ?o w) = (out, s)"
    by (cases "run_workflow fuel d p ?o (initial d p ?o w)")
  have s: "clean s" using hoare_snd [OF body clean_initial [of d p ?o w]] run by simp
  have fail: "hoare clean (fail_run e) (\<lambda>_. clean) clean" for e
    by (simp add: hoare_def fail_run_def mark_failed_def set_workflow_err_def clean_def)
  have "hoare clean (deferred d p ?o out) (\<lambda>_. clean) clean"
    by (cases out) (simp_all add: deferred_def settle hoare_then [OF fail settle] hoare_def [of _ diverge])
  from hoare_snd [OF this s] show ?thesis by (simp add: engine_run_cases(1) [OF run] clean_def)
qed

lemma restored_workload_is_deleted_witness:
  "list_ex (deletes ''9000'') (es_log (snd (engine_run (Suc 0) lab_deps lab_plan lab_options 0)))"
proof (rule restored_workload_is_deleted)
  show "fst (run_workflow (Suc 0) lab_deps lab_plan lab_options (initial lab_deps lab_plan lab_options 0)) \<noteq> Diverged"
    by (simp add: lab_eval)
  show "list_ex (accepts ''9000'') (es_log (snd (run_workflow (Suc 0) lab_deps lab_plan lab_options
      (initial lab_deps lab_plan lab_options 0))))"
    by (simp add: lab_eval)
qed (simp_all add: stop_returns_def lab_defs cleanup_always_def)



section \<open>What the verdicts mean\<close>

lemma classify_critical_none:
  "classify_critical p rs = ([], []) \<longleftrightarrow> list_all (\<lambda>r. cr_ok r \<or> \<not> is_critical_name p (cr_name r)) rs"
  by (induction rs) (auto split: prod.splits)

lemma degrading_check_none:
  "degrading_check p cs \<longleftrightarrow> \<not> list_all (\<lambda>c. cr_status c \<noteq> CheckFail \<or> is_critical_name p (cr_name c)) cs"
  by (induction cs) auto

text \<open>
  A verdict that means the recovery is proven: every critical check passed, no check came back
  bad, and the target was met.
\<close>

definition proven :: "plan \<Rightarrow> verdict \<Rightarrow> bool" where
  "proven p v \<longleftrightarrow> (case v of (res, checks, rto, target) \<Rightarrow>
     list_all (\<lambda>c. cr_status c \<noteq> CheckFail) checks \<and>
     list_all (\<lambda>c. cr_ok c \<or> \<not> is_critical_name p (cr_name c)) checks \<and>
     \<not> (target > 0 \<and> rto > target))"

definition earned :: "plan \<Rightarrow> 'w est \<Rightarrow> bool" where
  "earned p s \<longleftrightarrow> (case run_result (es_run s) of
      ResultSuccess \<Rightarrow> proven p (verdict_of (es_run s))
    | ResultDegraded \<Rightarrow> list_all (\<lambda>c. cr_ok c \<or> \<not> is_critical_name p (cr_name c)) (run_checks (es_run s))
    | _ \<Rightarrow> True)"

definition critical_ok :: "plan \<Rightarrow> 'w est \<Rightarrow> bool" where
  "critical_ok p s \<longleftrightarrow> list_all (\<lambda>c. cr_ok c \<or> \<not> is_critical_name p (cr_name c)) (run_checks (es_run s))"

lemma grade_success_earned: "hoare (critical_ok p) (grade_success p) (\<lambda>_. earned p) (\<lambda>_. True)"
  by (auto simp: hoare_def grade_success_def earned_def proven_def verdict_of_def critical_ok_def
      rto_exceeded_def degrading_check_none list_all_iff cr_ok_def)

lemma fail_run_earned: "hoare P (fail_run e) (\<lambda>_. earned p) (\<lambda>_. True)"
  by (simp add: hoare_def fail_run_def mark_failed_def set_workflow_err_def earned_def)

lemma measure_rto_critical: "hoare (critical_ok p) measure_rto (\<lambda>_. critical_ok p) (\<lambda>_. True)"
  by (simp add: hoare_def measure_rto_def critical_ok_def)

lemma end_step_critical: "hoare (critical_ok p) (end_step d idx st m e) (\<lambda>_. critical_ok p) (\<lambda>_. True)"
  by (simp add: hoare_def end_step_def wp_now critical_ok_def)

lemma hoare_free: "hoare P m (\<lambda>_ _. True) (\<lambda>_. True)"
  by (simp add: hoare_def wp_true)

definition checks_are :: "check_result list \<Rightarrow> 'w est \<Rightarrow> bool" where
  "checks_are rs s \<longleftrightarrow> run_checks (es_run s) = rs"

lemma emit_results_checks: "hoare (checks_are rs) (emit_results d xs) (\<lambda>_. checks_are rs) (\<lambda>_. True)"
proof (induction xs)
  case Nil
  show ?case by (simp add: hoare_ret)
next
  case (Cons x xs)
  have read: "hoare (checks_are rs) get_run (\<lambda>_. checks_are rs) (\<lambda>_. True)"
    "hoare (checks_are rs) (now d) (\<lambda>_. checks_are rs) (\<lambda>_. True)"
    by (simp_all add: hoare_def wp_now checks_are_def)
  have send: "hoare (checks_are rs) (emit d ev) (\<lambda>_. checks_are rs) (\<lambda>_. True)" for ev
    by (simp add: hoare_def checks_are_def)
  show ?case
    unfolding emit_results.simps
    by (rule hoare_bind [OF read(1)], rule hoare_bind [OF read(2)], rule hoare_then [OF send], rule Cons.IH)
qed

lemma run_checks_step_critical:
  "hoare (\<lambda>_. True) (run_checks_step d p tg) (\<lambda>r s. case r of Inl _ \<Rightarrow> True | Inr _ \<Rightarrow> critical_ok p s) (\<lambda>_. True)"
proof -
  let ?Q = "\<lambda>r s. case r of Inl _ \<Rightarrow> True | Inr _ \<Rightarrow> critical_ok p s"
  have set_checks: "hoare (\<lambda>_. True) (modify_run (\<lambda>r. r\<lparr>run_checks := rs\<rparr>)) (\<lambda>_. checks_are rs) (\<lambda>_. True)" for rs
    by (simp add: hoare_def checks_are_def)
  have level: "hoare (checks_are rs) (modify_run (\<lambda>r. r\<lparr>run_proof_level := f r\<rparr>)) (\<lambda>_. checks_are rs) (\<lambda>_. True)" for rs f
    by (simp add: hoare_def checks_are_def)
  have quit: "hoare P (fail_step d idx m e) ?Q (\<lambda>_. True)" for P idx m and e :: goerr
    unfolding fail_step_def by (rule hoare_then [OF hoare_free]) (simp add: hoare_ret)
  have verdict: "hoare (checks_are rs) (case classify_critical p rs of (failed, unevaluated) \<Rightarrow>
      if failed \<noteq> [] then fail_step d idx (m1 failed) (e1 failed)
      else if unevaluated \<noteq> [] then fail_step d idx (m2 unevaluated) (e2 unevaluated)
      else thenM (end_step d idx StepDone m None) (ret (Inr ()))) ?Q (\<lambda>_. True)" for rs idx m m1 e1 m2 e2
  proof (cases "classify_critical p rs = ([], [])")
    case True
    have "hoare (checks_are rs) (end_step d idx StepDone m None) (\<lambda>_. critical_ok p) (\<lambda>_. True)"
      by (rule hoare_pre [OF end_step_critical])
        (use True in \<open>simp add: checks_are_def critical_ok_def classify_critical_none\<close>)
    then show ?thesis using True by (auto intro!: hoare_then hoare_ret)
  next
    case False
    then show ?thesis
      by (cases "classify_critical p rs") (auto intro!: quit simp: hoare_then [OF hoare_free])
  qed
  show ?thesis
    unfolding run_checks_step_def Let_def
    by (intro hoare_bind [OF hoare_free] hoare_then [OF set_checks] hoare_then [OF level]
        hoare_then [OF emit_results_checks] verdict)
qed

lemma run_workflow_earned:
  assumes "\<not> op_dry_run opts"
  shows "hoare (\<lambda>_. True) (run_workflow fuel d p opts) (\<lambda>_. earned p) (\<lambda>_. True)"
proof -
  have none: "hoare (\<lambda>_. True) (thenM measure_rto (grade_success p)) (\<lambda>_. earned p) (\<lambda>_. True)" if "pl_checks p = []"
  proof -
    have "critical_ok p s" for s
      using that by (simp add: critical_ok_def is_critical_name_def critical_map_def list_all_iff)
    note critical = this
    show ?thesis
      by (rule hoare_then [OF hoare_free], rule hoare_pre [OF grade_success_earned critical])
  qed
  have mark: "hoare P (thenM (if c then mark_inconclusive e else mark_failed e) (set_workflow_err x))
      (\<lambda>_. earned p) (\<lambda>_. True)" for c e x P
    by (simp add: hoare_def mark_failed_def mark_inconclusive_def set_workflow_err_def earned_def)
  have graded: "hoare (\<lambda>s. case r of Inl _ \<Rightarrow> True | Inr _ \<Rightarrow> critical_ok p s) (thenM measure_rto (case r of
        Inl e \<Rightarrow> thenM (if errors_is e ErrChecksInconclusive then mark_inconclusive e else mark_failed e)
            (set_workflow_err (Some e))
      | Inr _ \<Rightarrow> grade_success p)) (\<lambda>_. earned p) (\<lambda>_. True)" for r :: "goerr + unit"
  proof (cases r)
    case (Inl e)
    show ?thesis unfolding Inl sum.case by (rule hoare_then [OF hoare_free mark])
  next
    case (Inr u)
    show ?thesis unfolding Inr sum.case by (rule hoare_then [OF measure_rto_critical grade_success_earned])
  qed
  have finish: "hoare (\<lambda>_. True) (finish_workflow d p tg) (\<lambda>_. earned p) (\<lambda>_. True)" for tg
    unfolding finish_workflow_def
    by (intro hoare_if none hoare_bind [OF run_checks_step_critical] graded)
  show ?thesis
    unfolding run_workflow_def using assms
    by (simp, intro hoare_bind [OF hoare_free] hoare_then [OF hoare_free] hoare_sum fail_run_earned finish)
qed

text \<open>What a workflow establishes, and a failure keeps, about the verdict survives the deferred
  block.\<close>

lemma engine_run_carries:
  fixes E Q :: "'w est \<Rightarrow> bool"
  assumes work: "hoare (\<lambda>_. True) (run_workflow fuel d p opts) (\<lambda>_. E) (\<lambda>_. True)"
    and fail: "\<And>e. hoare (\<lambda>_. True) (fail_run e) (\<lambda>_. E) (\<lambda>_. True)"
    and carry: "\<And>u t err. E u \<Longrightarrow> settled_as (es_run u) err (es_run t) \<Longrightarrow> Q t"
  shows "case engine_run fuel d p opts w of (Done err, t) \<Rightarrow> Q t | (_, t) \<Rightarrow> True"
proof -
  obtain out s where run: "run_workflow fuel d p opts (initial d p opts w) = (out, s)"
    by (cases "run_workflow fuel d p opts (initial d p opts w)")
  note facts = engine_run_cases [OF run]
  have settled: "wp (settle d p opts b) (\<lambda>_. Q) (\<lambda>_ _. True) u" if "graded u" "E u" for b u
    by (rule wp_mono [OF settle_honest [OF that(1)]]) (simp_all add: carry [OF that(2)])
  have "wp (deferred d p opts out) (\<lambda>_. Q) (\<lambda>_ _. True) s"
  proof (cases out)
    case (Done u)
    have "E s"
      using hoareD [OF work TrueI, of "initial d p opts w"] run Done by (simp add: wp_def)
    then show ?thesis using settled facts(5) Done by (simp add: deferred_def)
  next
    case (Panicked x)
    have "hoare (\<lambda>_. True) (fail_run (panic_error x)) (\<lambda>_ s. graded s \<and> E s) (\<lambda>_. True)"
      using fail_run_graded [of "\<lambda>_. True" "panic_error x"] fail [of "panic_error x"]
      by (auto simp: hoare_def intro: wp_mono [OF wp_conj])
    moreover have "hoare (\<lambda>s. graded s \<and> E s) (settle d p opts True) (\<lambda>_. Q) (\<lambda>_. True)"
      by (rule hoareI) (simp add: settled)
    ultimately have "hoare (\<lambda>_. True) (thenM (fail_run (panic_error x)) (settle d p opts True)) (\<lambda>_. Q) (\<lambda>_. True)"
      by (rule hoare_then)
    then show ?thesis using Panicked by (simp add: deferred_def hoare_def)
  qed (simp add: deferred_def)
  then show ?thesis by (auto simp: facts(1) wp_def split: prod.splits outcome.splits)
qed

text \<open>C10. A run that ends with the verdict SUCCESS has earned it: no check came back bad, every
  critical check passed, and the recovery time stayed within the plan's target. A DEGRADED run
  has still passed every critical check.\<close>

theorem success_is_earned:
  "case engine_run fuel d p (opts\<lparr>op_dry_run := False\<rparr>) w of
     (Done err, t) \<Rightarrow>
       (case run_result (es_run t) of
          ResultSuccess \<Rightarrow> proven p (verdict_of (es_run t))
        | ResultDegraded \<Rightarrow> critical_ok p t
        | _ \<Rightarrow> True)
   | (_, t) \<Rightarrow> True"
proof -
  let ?Q = "\<lambda>t. case run_result (es_run t) of ResultSuccess \<Rightarrow> proven p (verdict_of (es_run t))
        | ResultDegraded \<Rightarrow> critical_ok p t | _ \<Rightarrow> True"
  have carry: "?Q t" if "earned p u" "settled_as (es_run u) err (es_run t)" for u t :: "'a est" and err
    using that by (cases "run_result (es_run t)")
      (auto simp: settled_as_def verdict_of_def earned_def critical_ok_def)
  show ?thesis
    by (rule engine_run_carries [OF run_workflow_earned fail_run_earned carry]) simp_all
qed

end
