(* ===== verification/Engine_Limits.thy ===== *)
theory Engine_Limits
  imports Engine_Contract
begin

text \<open>
  Bounds on a run: what it may claim to have proven, that it ends, which backup and which
  capacity it accepts, and what a cancellation does.
\<close>

section \<open>The proof level stays within the plan\<close>

definition same_level :: "'w est \<Rightarrow> 'w est \<Rightarrow> bool" where
  "same_level s t \<longleftrightarrow> run_proof_level (es_run t) = run_proof_level (es_run s)"

interpretation same_level: erring_steps same_level
  by unfold_locales (simp_all add: same_level_def steady_def)

text \<open>The most a run of the plan can claim: the boot, or what its checks would prove.\<close>

definition plan_ceiling :: "plan \<Rightarrow> int" where
  "plan_ceiling p = max (rank ProofBoot) (rank (raise_all ProofNone (pl_checks p)))"

definition in_reach :: "plan \<Rightarrow> 'w est \<Rightarrow> bool" where
  "in_reach p s \<longleftrightarrow> rank (run_proof_level (es_run s)) \<le> plan_ceiling p"

lemma hoare_same_level: "keeps same_level m \<Longrightarrow> hoare (in_reach p) m (\<lambda>_. in_reach p) (in_reach p)"
  unfolding hoare_def in_reach_def
  by (auto simp: wp_def keeps_def same_level_def split: prod.split outcome.split) (metis snd_conv)+

lemma pair_results_levels:
  "set (passed_levels (pair_results cfgs rs)) \<subseteq> cc_proves ` set cfgs"
  by (induction cfgs rs rule: pair_results.induct) (auto simp: passed_levels_def)

lemma proven_by_ceiling: "rank (proven_by (pair_results (map to_core (pl_checks p)) rs)) \<le> plan_ceiling p"
proof -
  let ?c = "proven_by (pair_results (map to_core (pl_checks p)) rs)"
  have "?c \<in> insert ProofNone (set (passed_levels (pair_results (map to_core (pl_checks p)) rs)))"
    by (simp only: proven_by_foldl proof_ladder.foldl_in)
  then consider "?c = ProofNone" | "?c \<in> proven_level ` set (pl_checks p)"
    using pair_results_levels [of "map to_core (pl_checks p)" rs] by (auto simp: to_core_def)
  then show ?thesis
  proof cases
    case 2
    then obtain c where "c \<in> set (pl_checks p)" "?c = proven_level c" by blast
    then have "rank ?c \<le> rank (raise_all ProofNone (pl_checks p))"
      unfolding raise_all_foldl by (auto intro: proof_ladder.foldl_ge_member)
    then show ?thesis by (simp add: plan_ceiling_def)
  qed (simp add: plan_ceiling_def)
qed

lemma rank_raise: "rank (raise_to a b) = max (rank a) (rank b)"
  by (simp add: raise_to_def max_def)

lemma raise_in_reach:
  assumes "rank l \<le> plan_ceiling p"
  shows "hoare (in_reach p) (modify_run (\<lambda>r. r\<lparr>run_proof_level := raise_to (run_proof_level r) l\<rparr>))
    (\<lambda>_. in_reach p) (in_reach p)"
  using assms by (simp add: hoare_def in_reach_def rank_raise)

lemma guest_up_in_reach: "hoare (in_reach p) (guest_up d p tid idx st) (\<lambda>_. in_reach p) (in_reach p)"
proof -
  have boot: "hoare (in_reach p) (if b then modify_run (\<lambda>r. r\<lparr>run_proof_level := raise_to (run_proof_level r) ProofBoot\<rparr>)
      else ret ()) (\<lambda>_. in_reach p) (in_reach p)" for b
    by (cases b) (auto intro!: raise_in_reach hoare_ret simp: plan_ceiling_def)
  show ?thesis
    unfolding guest_up_def
    by (rule hoare_then [OF boot hoare_same_level], intro pres_intros)
qed

lemma poll_guest_in_reach: "hoare (in_reach p) (poll_guest fuel d p tid idx deadline) (\<lambda>_. in_reach p) (in_reach p)"
proof (induction fuel)
  case 0
  show ?case by (simp add: hoare_def)
next
  case (Suc fuel)
  have same: "hoare (in_reach p) m (\<lambda>_. in_reach p) (in_reach p)" if "keeps same_level m" for m :: "('a est, 'b) eng"
    using that by (rule hoare_same_level)
  have wait: "hoare (in_reach p) (bindM (sleep d RunCtx n) (\<lambda>serr. case serr of
      Some e \<Rightarrow> fail_step d idx m (interrupted_error e) | None \<Rightarrow> poll_guest fuel d p tid idx deadline))
      (\<lambda>_. in_reach p) (in_reach p)" for n m
  proof (rule hoare_bind [OF hoare_same_level [OF same_level.keeps_sleep]])
    show "hoare (in_reach p) (case serr of Some e \<Rightarrow> fail_step d idx m (interrupted_error e)
        | None \<Rightarrow> poll_guest fuel d p tid idx deadline) (\<lambda>_. in_reach p) (in_reach p)" for serr
      by (cases serr) (simp_all add: Suc hoare_same_level [OF same_level.keeps_fail_step])
  qed
  show ?case
    unfolding poll_guest.simps
    by (intro hoare_bind [OF hoare_same_level [OF same_level.keeps_poll_status]] hoare_sum
        hoare_same_level [OF same_level.keeps_fail_step] hoare_bind [OF hoare_same_level [OF same_level.keeps_deref]]
        hoare_if guest_up_in_reach hoare_bind [OF hoare_same_level [OF same_level.keeps_now]] hoare_Let wait)
qed

lemma run_workflow_in_reach: "hoare (in_reach p) (run_workflow fuel d p opts) (\<lambda>_. in_reach p) (in_reach p)"
proof -
  let ?W = "in_reach p"
  note same = hoare_same_level [of _ p]
  have guest: "hoare ?W (wait_for_guest fuel d p tid) (\<lambda>_. ?W) ?W" for tid
    unfolding wait_for_guest_def
    by (intro hoare_bind [OF same [OF same_level.keeps_begin_step]] hoare_if
        hoare_bind [OF same [OF same_level.keeps_now]] poll_guest_in_reach same; intro pres_intros)
  have checks: "hoare ?W (run_checks_step d p tg) (\<lambda>_. ?W) ?W" for tg
    unfolding run_checks_step_def Let_def
    by (intro hoare_bind [OF same [OF same_level.keeps_begin_step]]
        hoare_bind [OF same [OF same_level.keeps_any_call]] hoare_then [OF same [OF same_level.keeps_modify_run]]
        hoare_then [OF raise_in_reach [OF proven_by_ceiling]] same; (intro pres_intros)?)
      (simp add: steady_def grows_def)
  have finish: "hoare ?W (finish_workflow d p tg) (\<lambda>_. ?W) ?W" for tg
    unfolding finish_workflow_def
    by (intro hoare_if hoare_bind [OF checks] same; intro pres_intros)
  show ?thesis
    unfolding run_workflow_def
    by (intro hoare_if same pres_intros
        hoare_bind [OF same [OF same_level.keeps_discover_backup]]
        hoare_bind [OF same [OF same_level.keeps_prepare_environment]]
        hoare_bind [OF same [OF same_level.keeps_restore_workload]]
        hoare_bind [OF same [OF same_level.keeps_start_workload]]
        hoare_bind [OF guest] hoare_sum finish
        hoare_then [OF same [OF same_level.keeps_modify]])
      (simp_all add: same_level_def)
qed

text \<open>A run never claims more than its plan can prove: whatever the checks report, its proof
  level ends within the boot and the highest level of the plan's checks, and it is always one
  of the recorded levels.\<close>

theorem run_claims_within_plan:
  "rank (run_proof_level (es_run (snd (engine_run fuel d p opts w)))) \<le> plan_ceiling p \<and>
   recorded (run_proof_level (es_run (snd (engine_run fuel d p opts w))))"
proof -
  let ?s = "initial d p opts w"
  have init0: "rank (run_proof_level (es_run ?s)) = 0"
    by (simp add: initial_def new_run_def split: prod.split)
  moreover have "0 \<le> plan_ceiling p" by (simp add: plan_ceiling_def max_def)
  ultimately have init: "in_reach p ?s" by (simp add: in_reach_def)
  obtain out s where run: "run_workflow fuel d p opts ?s = (out, s)" by (cases "run_workflow fuel d p opts ?s")
  have "in_reach p s" using hoare_snd [OF run_workflow_in_reach init, of fuel d opts] run by simp
  then have "in_reach p (snd (deferred d p opts out s))"
    using hoare_snd [OF hoare_same_level [OF same_level.keeps_deferred]] by blast
  then have upper: "in_reach p (snd (engine_run fuel d p opts w))" by (simp add: engine_run_def run)
  have "0 \<le> rank (run_proof_level (es_run (snd (engine_run fuel d p opts w))))"
    using same_run.engine_run_keeps [of d p opts w fuel] init0 by (simp add: same_run_def)
  with upper show ?thesis by (simp add: in_reach_def recorded_def)
qed



section \<open>A run ends\<close>

text \<open>
  What the clock promises: readings do not go back, a sleep that was not interrupted lasts at
  least as long as asked, and nothing else turns the clock back. \<open>clk\<close> is the time in a world.
\<close>

definition clock_ok :: "'w deps \<Rightarrow> ('w \<Rightarrow> time) \<Rightarrow> bool" where
  "clock_ok d clk \<longleftrightarrow>
     (\<forall>w. clk w \<le> fst (d_now d w) \<and> fst (d_now d w) \<le> clk (snd (d_now d w))) \<and>
     (\<forall>n w. case d_sleep d RunCtx n w of (None, w') \<Rightarrow> clk w + n \<le> clk w' \<and> clk w \<le> clk w'
                                       | (Some _, w') \<Rightarrow> clk w \<le> clk w') \<and>
     (\<forall>i w. clk w \<le> clk (snd (d_get_status d RunCtx i w)))"

text \<open>Every call comes back, with an answer, an error or a panic.\<close>

definition returns :: "('w, 'a) call \<Rightarrow> bool" where
  "returns f \<longleftrightarrow> (\<forall>w. fst (f w) \<noteq> Diverged)"

definition providers_return :: "'w deps \<Rightarrow> bool" where
  "providers_return d \<longleftrightarrow>
     (\<forall>c i. returns (d_get_workload d c i) \<and> returns (d_list_backups d c i) \<and> returns (d_get_latest d c i) \<and>
        returns (d_start d c i) \<and> returns (d_stop d c i) \<and> returns (d_delete d c i) \<and>
        returns (d_get_status d c i)) \<and>
     (\<forall>c. returns (d_allocate d c)) \<and>
     (\<forall>f c n net. d_validate_isolation d = Some f \<longrightarrow> returns (f c n net)) \<and>
     (\<forall>f c n. d_node_capacity d = Some f \<longrightarrow> returns (f c n)) \<and>
     (\<forall>c b ro. returns (d_restore d c b ro)) \<and> (\<forall>c j. returns (d_wait_for_job d c j)) \<and>
     (\<forall>f c ro. d_finalize d = Some f \<longrightarrow> returns (f c ro)) \<and>
     (\<forall>c t cfgs. returns (d_run_all d c t cfgs))"

definition ends :: "('s, 'a) eng \<Rightarrow> bool" where
  "ends m \<longleftrightarrow> (\<forall>s. fst (m s) \<noteq> Diverged)"

named_theorems ends_intros \<open>rules that decompose a program to show that it ends\<close>

lemma ends_ret [ends_intros]: "ends (ret a)" by (simp add: ends_def ret_def)
lemma ends_panic [ends_intros]: "ends (panic x)" by (simp add: ends_def panic_def)
lemma ends_gets [ends_intros]: "ends (gets f)" by (simp add: ends_def gets_def)
lemma ends_get_run [ends_intros]: "ends get_run" by (simp add: get_run_def ends_gets)
lemma ends_modify [ends_intros]: "ends (modify g)" by (simp add: ends_def modify_def)
lemma ends_modify_run [ends_intros]: "ends (modify_run g)" by (simp add: modify_run_def ends_modify)
lemma ends_now [ends_intros]: "ends (now d)" by (simp add: ends_def now_def split: prod.split)
lemma ends_sleep [ends_intros]: "ends (sleep d c n)" by (simp add: ends_def sleep_def split: prod.split)
lemma ends_emit [ends_intros]: "ends (emit d ev)" by (simp add: emit_def ends_modify)

lemma ends_bind [ends_intros]: "ends m \<Longrightarrow> (\<And>a. ends (f a)) \<Longrightarrow> ends (bindM m f)"
  by (auto simp: ends_def bindM_def split: prod.split outcome.split) (metis fst_conv)+

lemma ends_then [ends_intros]: "ends m \<Longrightarrow> ends n \<Longrightarrow> ends (thenM m n)"
  by (simp add: thenM_def ends_bind)

lemma ends_deref [ends_intros]: "ends (deref p)"
  by (cases p) (simp_all add: deref_def ends_panic ends_ret)

lemma ends_if [ends_intros]: "(b \<Longrightarrow> ends m) \<Longrightarrow> (\<not> b \<Longrightarrow> ends n) \<Longrightarrow> ends (if b then m else n)" by simp
lemma ends_Let [ends_intros]: "(\<And>x. ends (f x)) \<Longrightarrow> ends (Let v f)" by (simp add: Let_def)

lemma ends_sum [ends_intros]:
  "(\<And>e. ends (f e)) \<Longrightarrow> (\<And>a. ends (g a)) \<Longrightarrow> ends (case x of Inl e \<Rightarrow> f e | Inr a \<Rightarrow> g a)"
  by (cases x) simp_all

lemma ends_option [ends_intros]:
  "(x = None \<Longrightarrow> ends m) \<Longrightarrow> (\<And>a. x = Some a \<Longrightarrow> ends (g a)) \<Longrightarrow> ends (case x of None \<Rightarrow> m | Some a \<Rightarrow> g a)"
  by (cases x) simp_all

lemma ends_prod [ends_intros]: "(\<And>a b. ends (f a b)) \<Longrightarrow> ends (case x of (a, b) \<Rightarrow> f a b)"
  by (cases x) simp_all

lemma ends_perform [ends_intros]: "returns f \<Longrightarrow> ends (perform mk f)"
  by (auto simp: ends_def perform_def returns_def split: prod.split) (metis fst_conv)

lemma ends_begin_step [ends_intros]: "ends (begin_step d name st)"
  unfolding begin_step_def set_state_def append_step_def by (intro ends_intros)

lemma ends_end_step [ends_intros]: "ends (end_step d idx st m e)"
  unfolding end_step_def by (intro ends_intros)

lemma ends_fail_step [ends_intros]: "ends (fail_step d idx m e)"
  unfolding fail_step_def by (intro ends_intros)

lemma ends_retry [ends_intros]: "ends fn \<Longrightarrow> ends (retry d c n backoff fn)"
  unfolding retry_def
proof (induction "nat (n - 1)" arbitrary: n)
  case 0
  then show ?case by (simp, intro ends_intros)
next
  case (Suc k)
  have "nat (n - 1) = Suc (nat ((n - 1) - 1))" using Suc.hyps(2) by simp
  moreover have "ends (retry_from (nat ((n - 1) - 1)) d c backoff fn)"
    using Suc.hyps Suc.prems by (intro Suc.hyps(1)) auto
  ultimately show ?case using Suc.prems by (simp, intro ends_intros)
qed


lemma providers_returnD:
  assumes "providers_return d"
  shows "returns (d_get_workload d c i)" "returns (d_list_backups d c i)" "returns (d_get_latest d c i)"
    "returns (d_start d c i)" "returns (d_stop d c i)" "returns (d_delete d c i)" "returns (d_get_status d c i)"
    "returns (d_allocate d c)" "d_validate_isolation d = Some f \<Longrightarrow> returns (f c n net)"
    "d_node_capacity d = Some g \<Longrightarrow> returns (g c n)" "returns (d_restore d c b ro)"
    "returns (d_wait_for_job d c j)" "d_finalize d = Some h \<Longrightarrow> returns (h c ro)"
    "returns (d_run_all d c t cfgs)"
  using assms by (simp_all add: providers_return_def)

lemma ends_steps:
  assumes d: "providers_return d"
  shows "ends (discover_backup d p)" "ends (prepare_environment d p opts)"
    "ends (restore_workload d p opts pr)" "ends (start_workload d p tid)" "ends (run_checks_step d p tg)"
    "ends (run_dry_run d p opts)" "ends (destroy_workload d tid node st)"
proof -
  note returns = providers_returnD [OF d]
  have backup: "ends (resolve_backup d p)"
    unfolding resolve_backup_def
    by (cases "bs_strategy (pl_backup p)"; simp; intro ends_intros returns)
  show discover: "ends (discover_backup d p)"
    unfolding discover_backup_def resolve_source_name_def accept_backup_def
    by (intro ends_intros returns backup)
  have network: "ends (check_network_isolation d node net)" for node net
    unfolding check_network_isolation_def by (intro ends_intros returns)
  have capacity: "ends (check_capacity d node mb)" for node mb
    unfolding check_capacity_def by (intro ends_intros returns)
  have node: "ends (resolve_node p opts)" unfolding resolve_node_def by (intro ends_intros)
  show "ends (prepare_environment d p opts)"
    unfolding prepare_environment_def allocate_def reserve_identity_def
    by (intro ends_intros returns network capacity node)
  show "ends (restore_workload d p opts pr)"
    unfolding restore_workload_def settle_restore_def harden_def wait_for_job_def
    by (intro ends_intros returns)
  show "ends (start_workload d p tid)"
    unfolding start_workload_def start_call_def by (intro ends_intros returns)
  have "ends (emit_results d rs)" for rs by (induction rs) (simp_all, (intro ends_intros | assumption)+)
  then show "ends (run_checks_step d p tg)"
    unfolding run_checks_step_def by (intro ends_intros returns)
  show "ends (run_dry_run d p opts)"
    unfolding run_dry_run_def fail_dry_step_def dry_run_fail_def mark_failed_def
    by (intro ends_intros discover network capacity node)
  show "ends (destroy_workload d tid node st)"
    unfolding destroy_workload_def stop_call_def delete_call_def by (intro ends_intros returns)
qed

text \<open>
  Polling: after a poll, either the clock has passed the deadline, or the sleep moves it on by
  a whole interval, or up to the deadline. \<open>later clk c m\<close>: \<open>m\<close> comes back, and not before \<open>c\<close>.
\<close>

definition returned :: "string option \<Rightarrow> 's \<Rightarrow> bool" where
  "returned x s \<longleftrightarrow> x \<noteq> None"

lemma returned_Some [simp]: "returned (Some x) s" by (simp add: returned_def)
lemma not_returned_None [simp]: "\<not> returned None s" by (simp add: returned_def)

definition later :: "('w \<Rightarrow> time) \<Rightarrow> time \<Rightarrow> ('w est, 'a) eng \<Rightarrow> bool" where
  "later clk c m \<longleftrightarrow> (\<forall>s. c \<le> clk (es_world s) \<longrightarrow> wp m (\<lambda>_ t. c \<le> clk (es_world t)) returned s)"

lemma laterI: "(\<And>s. c \<le> clk (es_world s) \<Longrightarrow> wp m (\<lambda>_ t. c \<le> clk (es_world t)) returned s) \<Longrightarrow> later clk c m"
  by (simp add: later_def)

lemma laterD: "later clk c m \<Longrightarrow> c \<le> clk (es_world s) \<Longrightarrow> wp m (\<lambda>_ t. c \<le> clk (es_world t)) returned s"
  by (simp add: later_def)

lemma later_bind: "later clk c m \<Longrightarrow> (\<And>a. later clk c (f a)) \<Longrightarrow> later clk c (bindM m f)"
  by (rule laterI, unfold wp_bind, rule wp_mono [OF laterD]) (auto intro: laterD)

lemma later_ret: "later clk c (ret a)" by (simp add: later_def)

lemma clock_sleep:
  assumes "clock_ok d clk"
  shows "clk w \<le> clk (snd (d_sleep d RunCtx n w))"
    and "fst (d_sleep d RunCtx n w) = None \<Longrightarrow> clk w + n \<le> clk (snd (d_sleep d RunCtx n w))"
proof -
  have "case d_sleep d RunCtx n w of (None, w') \<Rightarrow> clk w + n \<le> clk w' \<and> clk w \<le> clk w'
      | (Some _, w') \<Rightarrow> clk w \<le> clk w'"
    using assms by (simp add: clock_ok_def)
  then show "clk w \<le> clk (snd (d_sleep d RunCtx n w))"
    "fst (d_sleep d RunCtx n w) = None \<Longrightarrow> clk w + n \<le> clk (snd (d_sleep d RunCtx n w))"
    by (auto split: prod.splits option.splits)
qed

lemma later_sleep: "clock_ok d clk \<Longrightarrow> later clk c (sleep d RunCtx k)"
  by (rule laterI, unfold wp_sleep) (auto intro: order_trans [OF _ clock_sleep(1)])

lemma later_retry_from:
  assumes "later clk c fn" "clock_ok d clk"
  shows "later clk c (retry_from n d RunCtx backoff fn)"
proof (induction n)
  case 0
  show ?case
    unfolding retry_from.simps by (intro later_bind assms) (simp add: later_def split: sum.split)
next
  case (Suc n)
  have wait: "later clk c (bindM (sleep d RunCtx backoff) (\<lambda>serr. case serr of
        Some _ \<Rightarrow> ret (Inl e) | None \<Rightarrow> retry_from n d RunCtx backoff fn))" for e
  proof (rule later_bind [OF later_sleep [OF assms(2)]])
    show "later clk c (case serr of Some _ \<Rightarrow> ret (Inl e) | None \<Rightarrow> retry_from n d RunCtx backoff fn)" for serr
      by (cases serr) (simp_all add: later_ret Suc)
  qed
  show ?case
    unfolding retry_from.simps
  proof (rule later_bind [OF assms(1)])
    show "later clk c (case r of Inr a \<Rightarrow> ret (Inr a) | Inl e \<Rightarrow>
        if \<not> is_retryable e then ret (Inl e)
        else bindM (sleep d RunCtx backoff) (\<lambda>serr. case serr of
          Some _ \<Rightarrow> ret (Inl e) | None \<Rightarrow> retry_from n d RunCtx backoff fn))" for r
      by (cases r) (simp_all add: later_ret wait)
  qed
qed

lemma later_poll_status:
  assumes d: "providers_return d" and clk: "clock_ok d clk"
  shows "later clk c (poll_status d tid)"
proof -
  have "later clk c (perform (\<lambda>_. CallGetStatus RunCtx tid) (d_get_status d RunCtx tid))"
  proof (rule laterI)
    fix u :: "'a est" assume "c \<le> clk (es_world u)"
    moreover have "clk (es_world u) \<le> clk (snd (d_get_status d RunCtx tid (es_world u)))"
      using clk by (simp add: clock_ok_def)
    moreover have "fst (d_get_status d RunCtx tid (es_world u)) \<noteq> Diverged"
      using providers_returnD(7) [OF d] by (simp add: returns_def)
    ultimately show "wp (perform (\<lambda>_. CallGetStatus RunCtx tid) (d_get_status d RunCtx tid))
        (\<lambda>_ t. c \<le> clk (es_world t)) returned u"
      by (auto simp: wp_perform Let_def split: prod.split outcome.split)
  qed
  then show ?thesis
    unfolding poll_status_def retry_def by (rule later_retry_from [OF _ clk])
qed

lemma ends_wp_iff: "ends m \<longleftrightarrow> (\<forall>s. wp m (\<lambda>_ _. True) returned s)"
proof -
  have "fst (m s) \<noteq> Diverged \<longleftrightarrow> wp m (\<lambda>_ _. True) returned s" for s
    by (cases "m s"; cases "fst (m s)") (simp_all add: wp_def)
  then show ?thesis by (simp add: ends_def)
qed

text \<open>The interval the loop sleeps: three seconds, or what is left.\<close>

lemma next_poll:
  fixes deadline t' c :: int
  assumes "deadline - c0 \<le> every * int fuel" "c0 < deadline" "c0 \<le> t'" "0 < every" "every < max_int64"
    and "t' + (if time_sub deadline t' < every then time_sub deadline t' else every) \<le> c" "t' \<le> c"
  shows "deadline - c \<le> every * (int fuel - 1) \<and> 0 < fuel"
proof -
  have "0 < every * int fuel" using assms by linarith
  then have fuel: "0 < fuel" using assms(4) by (cases fuel) auto
  define k where "k = every * int fuel"
  have "every * 1 \<le> every * int fuel" using fuel assms(4) by (intro mult_left_mono) auto
  then have "every \<le> k" by (simp add: k_def)
  moreover have "every * (int fuel - 1) = k - every" by (simp add: k_def right_diff_distrib)
  moreover have "deadline - c0 \<le> k" using assms(1) by (simp add: k_def)
  ultimately show ?thesis
    using fuel assms(2-) by (auto simp: time_sub_def min_def max_def split: if_splits)
qed

lemma poll_guest_wp:
  assumes d: "providers_return d" and clk: "clock_ok d clk"
  shows "deadline - clk (es_world s) \<le> default_guest_poll_every * (int fuel - 1) \<Longrightarrow> 0 < fuel \<Longrightarrow>
    wp (poll_guest fuel d p tid idx deadline) (\<lambda>_ _. True) returned s"
proof (induction fuel arbitrary: s)
  case (Suc fuel)
  have fin: "wp m (\<lambda>_ _. True) returned u" if "ends m" for m :: "('a est, goerr + target) eng" and u
    using that by (simp add: ends_wp_iff)
  have up: "ends (guest_up d p tid idx st)" for st
    unfolding guest_up_def by (intro ends_intros)
  have now: "clk w \<le> fst (d_now d w)" "fst (d_now d w) \<le> clk (snd (d_now d w))" for w
    using clk by (simp_all add: clock_ok_def)
  have start: "deadline - clk (es_world s) \<le> default_guest_poll_every * int fuel" using Suc.prems by simp
  have rest: "wp (bindM (now d) (\<lambda>t. if \<not> t < deadline then
        (let e = guest_timeout_error (su_timeout (pl_startup p)) status in fail_step d idx (err_text e) e)
      else bindM (now d) (\<lambda>t'. let remaining = time_sub deadline t';
             wait = (if remaining < default_guest_poll_every then remaining else default_guest_poll_every)
         in bindM (sleep d RunCtx wait) (\<lambda>serr. case serr of
              Some e \<Rightarrow> fail_step d idx ''interrupted while waiting for guest'' (interrupted_error e)
            | None \<Rightarrow> poll_guest fuel d p tid idx deadline)))) (\<lambda>_ _. True) returned u"
    if u: "clk (es_world s) \<le> clk (es_world u)" for u status
  proof -
    let ?t = "fst (d_now d (es_world u))" and ?w = "snd (d_now d (es_world u))"
    let ?t' = "fst (d_now d ?w)" and ?w' = "snd (d_now d ?w)"
    let ?wait = "if time_sub deadline ?t' < default_guest_poll_every then time_sub deadline ?t'
      else default_guest_poll_every"
    define wt where "wt = ?wait"
    let ?v = "u\<lparr>es_world := snd (d_sleep d RunCtx wt ?w')\<rparr>"
    have "wp (poll_guest fuel d p tid idx deadline) (\<lambda>_ _. True) returned ?v"
      if t: "?t < deadline" and slept: "fst (d_sleep d RunCtx wt ?w') = None"
    proof -
      note times = now [of "es_world u"] now [of ?w]
      have wake: "?t' + ?wait \<le> clk (es_world ?v)" "?t' \<le> clk (es_world ?v)"
        using clock_sleep(2) [OF clk slept] clock_sleep(1) [OF clk, of ?w' wt] times
        unfolding wt_def [symmetric] by simp_all
      have before: "clk (es_world s) < deadline" "clk (es_world s) \<le> ?t'" using u t times by linarith+
      have "deadline - clk (es_world ?v) \<le> default_guest_poll_every * (int fuel - 1) \<and> 0 < fuel"
        using next_poll [OF start before _ _ wake] by (simp add: default_guest_poll_every_def second_def max_int64_def)
      then show ?thesis using Suc.IH by blast
    qed
    then show ?thesis
      unfolding wt_def
      by (cases "time_sub deadline ?t' < default_guest_poll_every")
        (simp_all add: wp_now wp_sleep Let_def fin ends_fail_step split: option.split)
  qed
  have "wp (poll_status d tid) (\<lambda>_ t. clk (es_world s) \<le> clk (es_world t)) returned s"
    by (rule laterD [OF later_poll_status [OF d clk]]) simp
  then show ?case
    unfolding poll_guest.simps wp_bind
  proof (rule wp_mono, goal_cases)
    case (1 r u)
    show ?case
    proof (cases r)
      case (Inr status)
      show ?thesis
        using rest [OF 1, of "Some _"] fin [OF up] by (cases status) (simp_all add: Inr)
    qed (simp add: fin ends_fail_step)
  qed simp
qed simp

lemma ends_wait_for_guest:
  assumes "providers_return d" "clock_ok d clk"
    and "su_timeout (pl_startup p) \<le> default_guest_poll_every * (int fuel - 1)" "0 < fuel"
  shows "ends (wait_for_guest fuel d p tid)"
proof -
  have start: "wp (bindM (now d) (\<lambda>t. poll_guest fuel d p tid idx (t + su_timeout (pl_startup p))))
      (\<lambda>_ _. True) returned s" for idx and s :: "'a est"
  proof -
    have "fst (d_now d w) \<le> clk (snd (d_now d w))" for w using assms(2) by (simp add: clock_ok_def)
    then have "fst (d_now d (es_world s)) + su_timeout (pl_startup p) - clk (snd (d_now d (es_world s)))
        \<le> default_guest_poll_every * (int fuel - 1)"
      using assms(3) by (smt (verit))
    then show ?thesis using assms by (simp add: wp_now poll_guest_wp)
  qed
  then have loop: "ends (bindM (now d) (\<lambda>t. poll_guest fuel d p tid idx (t + su_timeout (pl_startup p))))" for idx
    by (simp add: ends_wp_iff)
  show ?thesis
    unfolding wait_for_guest_def by (intro ends_bind ends_begin_step ends_if loop; intro ends_intros)
qed

lemma ends_settle: "providers_return d \<Longrightarrow> ends (settle d p opts panicked)"
  unfolding settle_def cleanup_def keep_workload_def record_cleanup_skipped_def mark_cancelled_def finalize_run_def
  by (intro ends_intros ends_steps)

lemma ends_deferred: "providers_return d \<Longrightarrow> out \<noteq> Diverged \<Longrightarrow> ends (deferred d p opts out)"
  by (cases out) (simp_all add: deferred_def fail_run_def mark_failed_def set_workflow_err_def ends_settle
      ends_then ends_modify_run ends_modify)

text \<open>C12. A run comes back. When the providers answer every call, with a value, an error or a panic,
  and the clock moves forward and honours sleeps, the workflow and its clean-up end, with a fuel
  of one poll per three seconds of the plan's startup timeout.\<close>

theorem engine_run_ends:
  assumes "providers_return d" "clock_ok d clk"
    and "su_timeout (pl_startup p) \<le> default_guest_poll_every * (int fuel - 1)" "0 < fuel"
  shows "fst (engine_run fuel d p opts w) \<noteq> Diverged"
proof -
  note steps = ends_steps [OF assms(1)] and guest = ends_wait_for_guest [OF assms]
  have "ends (run_workflow fuel d p opts)"
    unfolding run_workflow_def finish_workflow_def fail_run_def set_workflow_err_def measure_rto_def
      grade_success_def mark_failed_def mark_inconclusive_def
    by (intro ends_intros steps guest)
  then have "fst (run_workflow fuel d p opts (initial d p opts w)) \<noteq> Diverged" by (simp add: ends_def)
  then show ?thesis
    using ends_deferred [OF assms(1)] by (auto simp: engine_run_def ends_def split: prod.split)
qed

lemma engine_run_ends_witness:
  "fst (engine_run (Suc 1) lab_deps lab_plan lab_options 0) \<noteq> Diverged"
proof (rule engine_run_ends)
  show "providers_return lab_deps"
    by (simp add: providers_return_def returns_def lab_deps_def)
  show "clock_ok lab_deps (\<lambda>w. w)"
    unfolding clock_ok_def lab_deps_def by simp
  show "su_timeout (pl_startup lab_plan) \<le> default_guest_poll_every * (int (Suc 1) - 1)"
    by (simp add: lab_plan_def default_guest_poll_every_def second_def)
qed simp


section \<open>Capacity\<close>

lemma needed_bytes_exact: "0 \<le> mb \<Longrightarrow> mb < 2 ^ 43 \<Longrightarrow> needed_bytes mb = mb * 2 ^ 20"
  by (simp add: needed_bytes_def wrap64_id)

text \<open>The capacity check refuses a node exactly when its free memory is below the memory the
  plan asks for, for every limit below 2^43 MiB; at that limit the product wraps to a
  negative number, so every node with memory to spare is accepted.\<close>

theorem capacity_refuses_small_nodes:
  assumes "d_node_capacity d = Some f" "f RunCtx node (es_world s) = (Done (Inr (Some n)), w)"
    and "0 < mb" "mb < 2 ^ 43" "0 \<le> memory_free_bytes n"
  shows "fst (check_capacity d node mb s) = Done (if memory_free_bytes n < mb * 2 ^ 20
        then Inl (capacity_error node (memory_free_bytes n) (mb * 2 ^ 20)) else Inr ()) \<and>
     fst (check_capacity d node (2 ^ 43) s) = Done (Inr ())"
proof -
  have run: "fst (check_capacity d node mb s) = Done (if memory_free_bytes n < needed_bytes mb
        then Inl (capacity_error node (memory_free_bytes n) (needed_bytes mb)) else Inr ())"
    if "0 < mb" for mb
    using assms that by (simp add: check_capacity_def bindM_def perform_def deref_def ret_def Let_def)
  have "needed_bytes (2 ^ 43) = - (2 ^ 63)" by (simp add: needed_bytes_def wrap64_def)
  then show ?thesis
    using run [of mb] run [of "2 ^ 43"] assms by (simp add: needed_bytes_exact)
qed

section \<open>Cancellation\<close>

lemma settle_verdict:
  assumes after: "wp (case es_workflow_err s of
        Some e \<Rightarrow> if \<not> panicked \<and> d_ctx_err d (es_world s) = Some CtxCanceled then mark_cancelled e else ret ()
      | None \<Rightarrow> ret ()) (\<lambda>_. verdict_is st rs) (\<lambda>_ _. True) s"
    and st: "st \<noteq> RunNoState"
  shows "wp (settle d p opts panicked) (\<lambda>err t. verdict_is st rs t \<or> verdict_is RunCleanupFailed rs t) (\<lambda>_ _. True) s"
proof -
  have final: "wp (thenM (finalize_run d) (ret x)) (\<lambda>err t. verdict_is st rs t \<or> verdict_is RunCleanupFailed rs t)
      (\<lambda>_ _. True) u" if "cleaned st rs r u" for r x u
    using that st by (cases r) (auto simp: cleaned_def finalize_run_def wp_now verdict_is_def verdict_of_def)
  show ?thesis
    unfolding settle_def wp_bind wp_gets wp_then
    by (rule wp_mono [OF after], rule wp_mono, erule hoareD [OF cleanup_verdict], erule final [unfolded wp_then])
      simp_all
qed

text \<open>Cancelling a run that is failing voids its verdict: the run ends CANCELLED, or CLEANUP_FAILED
  when the workload could not be deleted, and proves nothing either way. Any other failure, an
  expired deadline included, keeps the verdict the workflow gave it. Either way an error is returned.\<close>

theorem cancellation_voids_verdict:
  assumes "fst (run_workflow fuel d p opts (initial d p opts w)) = Done ()"
    and "es_workflow_err (snd (run_workflow fuel d p opts (initial d p opts w))) = Some e"
  shows "case engine_run fuel d p opts w of
     (Done err, t) \<Rightarrow>
       (let r = es_run (snd (run_workflow fuel d p opts (initial d p opts w)));
            cancelled = (d_ctx_err d (es_world (snd (run_workflow fuel d p opts (initial d p opts w)))) = Some CtxCanceled)
        in run_result (es_run t) = (if cancelled then ResultNone else run_result r) \<and>
           run_state (es_run t) \<in> {if cancelled then RunCancelled else run_state r, RunCleanupFailed} \<and> err \<noteq> None)
   | (_, t) \<Rightarrow> True"
proof -
  obtain s where run: "run_workflow fuel d p opts (initial d p opts w) = (Done (), s)"
    using assms(1) by (cases "run_workflow fuel d p opts (initial d p opts w)") simp
  have err: "es_workflow_err s = Some e" using assms(2) run by simp
  have graded: "graded s" using engine_run_cases(5) [OF run] by simp
  let ?c = "d_ctx_err d (es_world s) = Some CtxCanceled"
  let ?st = "if ?c then RunCancelled else run_state (es_run s)"
  let ?rs = "(if ?c then ResultNone else run_result (es_run s), run_checks (es_run s), run_rto (es_run s),
    run_rto_target (es_run s))"
  have "wp (settle d p opts False) (\<lambda>err t. verdict_is ?st ?rs t \<or> verdict_is RunCleanupFailed ?rs t) (\<lambda>_ _. True) s"
  proof (rule settle_verdict)
    show "?st \<noteq> RunNoState" using graded err by (auto simp: graded_def)
  qed (simp add: err mark_cancelled_def verdict_is_def verdict_of_def)
  moreover have "run_state (es_run s) \<noteq> RunSuccess" using graded err by (auto simp: graded_def)
  moreover have "wp (settle d p opts False) (\<lambda>err t. settled_as (es_run s) err (es_run t)) (\<lambda>_ _. True) s"
    by (rule settle_honest [OF graded])
  ultimately show ?thesis
    unfolding engine_run_cases(1) [OF run] run
    by (auto simp: deferred_def wp_def verdict_is_def verdict_of_def Let_def settled_as_def honest_def
        split: prod.splits outcome.splits option.splits if_splits)
qed

definition cancelled_deps :: "int deps" where
  "cancelled_deps = lab_deps\<lparr>d_start := (\<lambda>c i w. (Done (Inl (Sentinel ErrUnauthorized)), w)),
     d_ctx_err := (\<lambda>w. Some CtxCanceled)\<rparr>"

lemma cancellation_voids_verdict_witness:
  "case engine_run (Suc 0) cancelled_deps lab_plan lab_options 0 of
     (Done err, t) \<Rightarrow> run_result (es_run t) = ResultNone \<and> run_state (es_run t) \<in> {RunCancelled, RunCleanupFailed}
   | (_, t) \<Rightarrow> True"
proof -
  let ?run = "run_workflow (Suc 0) cancelled_deps lab_plan lab_options (initial cancelled_deps lab_plan lab_options 0)"
  have "fst ?run = Done ()" "es_workflow_err (snd ?run) = Some (Sentinel ErrUnauthorized)"
    and "d_ctx_err cancelled_deps (es_world (snd ?run)) = Some CtxCanceled"
    by (simp_all add: cancelled_deps_def lab_eval fail_step_def fail_run_def mark_failed_def
        set_workflow_err_def err_string_def)
  from cancellation_voids_verdict [OF this(1,2)] this(3) show ?thesis
    by (auto simp: Let_def split: prod.splits outcome.splits)
qed

definition lab_node :: node where
  "lab_node = \<lparr>nd_id = ''n1'', nd_name = ''n1'', nd_cluster = '''', nd_online = True, nd_cpu_cores = 4,
     nd_cpu_usage = NaN, nd_memory_total = 2 ^ 30, nd_memory_used = 0, nd_disk_total = 0, nd_disk_used = 0\<rparr>"

definition small_deps :: "int deps" where
  "small_deps = lab_deps\<lparr>d_node_capacity := Some (\<lambda>c n w. (Done (Inr (Some lab_node)), w))\<rparr>"

lemma capacity_refuses_small_nodes_witness:
  "fst (check_capacity small_deps ''n1'' 2048 (initial lab_deps lab_plan lab_options 0)) \<noteq> Done (Inr ())"
proof -
  have "memory_free_bytes lab_node = 2 ^ 30" by (simp add: memory_free_bytes_def lab_node_def wrap64_def)
  then show ?thesis
    using capacity_refuses_small_nodes [of small_deps "\<lambda>c n w. (Done (Inr (Some lab_node)), w)" "''n1''"
        "initial lab_deps lab_plan lab_options 0" lab_node _ 2048] by (simp add: small_deps_def)
qed

end
