(* ===== verification/Sql.thy ===== *)
theory Sql
  imports Core
begin

text \<open>
  What internal/store builds on: the tables of a database as lists of rows, the statements the
  package writes in the SQL subset both engines share, and the encodings of its columns
  (encoding.go, dialect.go). A statement is one function on tables; a driver error leaves the
  tables as they are and is returned, so the definitions here are about statements that ran.
  An instant is kept as a number: its text column has a fixed width so that the two orders agree.
\<close>

section \<open>The two engines\<close>

datatype dialect = DialectSQLite | DialectPostgres

text \<open>\<open>rebind\<close>: the loop over the bytes, with what its variables \<open>inLiteral\<close> and \<open>n\<close> hold.\<close>

fun rebind_from :: "bool \<Rightarrow> int \<Rightarrow> string \<Rightarrow> string" where
  "rebind_from in_literal n [] = []"
| "rebind_from in_literal n (c # cs) =
     (if c = char_of (39 :: nat) then c # rebind_from (\<not> in_literal) n cs
      else if c = CHR ''?'' \<and> \<not> in_literal then CHR ''$'' # itoa (n + 1) @ rebind_from in_literal (n + 1) cs
      else c # rebind_from in_literal n cs)"

definition rebind :: "dialect \<Rightarrow> string \<Rightarrow> string" where
  "rebind d query = (if d \<noteq> DialectPostgres then query else rebind_from False 0 query)"


section \<open>Columns\<close>

text \<open>An empty string, a zero number and the zero time are written as NULL.\<close>

definition null_string :: "string \<Rightarrow> string option" where
  "null_string s = (if s = '''' then None else Some s)"

definition null_int :: "int \<Rightarrow> int option" where
  "null_int n = (if n = 0 then None else Some n)"

definition format_null_time :: "time \<Rightarrow> time option" where
  "format_null_time t = (if is_zero t then None else Some t)"

text \<open>Reading NULL back gives the zero value of the Go type.\<close>

definition string_of_null :: "string option \<Rightarrow> string" where
  "string_of_null c = (case c of None \<Rightarrow> '''' | Some s \<Rightarrow> s)"

definition int_of_null :: "int option \<Rightarrow> int" where
  "int_of_null c = (case c of None \<Rightarrow> 0 | Some n \<Rightarrow> n)"

definition parse_null_time :: "time option \<Rightarrow> time" where
  "parse_null_time c = (case c of None \<Rightarrow> zero_time | Some t \<Rightarrow> t)"

definition bool_to_int :: "bool \<Rightarrow> int" where "bool_to_int b = (if b then 1 else 0)"
definition int_to_bool :: "int \<Rightarrow> bool" where "int_to_bool i \<longleftrightarrow> i \<noteq> 0"

lemma string_null [simp]: "string_of_null (null_string s) = s"
  by (simp add: string_of_null_def null_string_def)

lemma int_null [simp]: "int_of_null (null_int n) = n"
  by (simp add: int_of_null_def null_int_def)

lemma time_null [simp]: "parse_null_time (format_null_time t) = t"
  by (simp add: parse_null_time_def format_null_time_def is_zero_def)

lemma bool_int [simp]: "int_to_bool (bool_to_int b) = b"
  by (simp add: int_to_bool_def bool_to_int_def)

text \<open>A duration is stored in milliseconds: what is below one is dropped.\<close>

definition duration_ms :: "duration \<Rightarrow> int" where "duration_ms d = go_div d millisecond"
definition ms_duration :: "int \<Rightarrow> duration" where "ms_duration n = wrap64 (n * millisecond)"

lemma ms_duration_round:
  assumes "0 \<le> d" "d \<le> max_int64"
  shows "ms_duration (duration_ms d) = d - d mod millisecond"
proof -
  have "d div millisecond * millisecond = d - d mod millisecond"
    by (simp add: minus_mod_eq_div_mult)
  moreover have "0 \<le> d mod millisecond" "d mod millisecond \<le> d"
    using assms by (simp_all add: millisecond_def zmod_le_nonneg_dividend)
  ultimately show ?thesis
    using assms
    by (simp add: ms_duration_def duration_ms_def wrap64_id max_int64_def millisecond_def)
qed


section \<open>Statements\<close>

text \<open>
  \<open>UPDATE ... SET f WHERE p\<close> and the number of rows it changed; \<open>LIMIT\<close>; \<open>ORDER BY\<close> as a stable
  insertion sort by the order of its columns.
\<close>

definition update_where :: "('r \<Rightarrow> bool) \<Rightarrow> ('r \<Rightarrow> 'r) \<Rightarrow> 'r list \<Rightarrow> 'r list" where
  "update_where p f rows = map (\<lambda>r. if p r then f r else r) rows"

definition count_where :: "('r \<Rightarrow> bool) \<Rightarrow> 'r list \<Rightarrow> nat" where
  "count_where p rows = length (filter p rows)"

definition limit_rows :: "int \<Rightarrow> 'r list \<Rightarrow> 'r list" where
  "limit_rows n rows = take (nat n) rows"

fun insert_by :: "('r \<Rightarrow> 'r \<Rightarrow> bool) \<Rightarrow> 'r \<Rightarrow> 'r list \<Rightarrow> 'r list" where
  "insert_by le x [] = [x]"
| "insert_by le x (y # ys) = (if le x y then x # y # ys else y # insert_by le x ys)"

definition order_by :: "('r \<Rightarrow> 'r \<Rightarrow> bool) \<Rightarrow> 'r list \<Rightarrow> 'r list" where
  "order_by le rows = foldr (insert_by le) rows []"

lemma order_by_simps [simp]:
  "order_by le [] = []" "order_by le (x # xs) = insert_by le x (order_by le xs)"
  by (simp_all add: order_by_def)

lemma mset_insert_by [simp]: "mset (insert_by le x xs) = add_mset x (mset xs)"
  by (induction xs) auto

lemma mset_order_by [simp]: "mset (order_by le xs) = mset xs"
  by (induction xs) auto

lemma set_order_by [simp]: "set (order_by le xs) = set xs"
  by (metis mset_order_by set_mset_mset)

lemma length_order_by [simp]: "length (order_by le xs) = length xs"
  by (metis mset_order_by size_mset)

lemma order_by_Nil_iff [simp]: "order_by le xs = [] \<longleftrightarrow> xs = []"
  by (metis mset_order_by mset_zero_iff)

lemma distinct_map_order_by [simp]: "distinct (map f (order_by le xs)) = distinct (map f xs)"
  by (metis mset_order_by mset_map mset_eq_imp_distinct_iff)

lemma count_where_0: "count_where p rows = 0 \<longleftrightarrow> list_all (\<lambda>r. \<not> p r) rows"
  by (induction rows) (simp_all add: count_where_def)

lemma update_where_none: "count_where p rows = 0 \<Longrightarrow> update_where p f rows = rows"
  by (induction rows) (auto simp: count_where_def update_where_def split: if_splits)

lemma length_update_where [simp]: "length (update_where p f rows) = length rows"
  by (simp add: update_where_def)

lemma map_update_where: "(\<And>r. p r \<Longrightarrow> k (f r) = k r) \<Longrightarrow> map k (update_where p f rows) = map k rows"
  by (simp add: update_where_def)

lemma set_update_where: "set (update_where p f rows) = (\<lambda>r. if p r then f r else r) ` set rows"
  by (simp add: update_where_def)

text \<open>The row a primary key names.\<close>

definition row_with :: "('r \<Rightarrow> 'k) \<Rightarrow> 'k \<Rightarrow> 'r list \<Rightarrow> 'r option" where
  "row_with key k rows = find (\<lambda>r. key r = k) rows"

lemma row_with_Some: "row_with key k rows = Some r \<Longrightarrow> r \<in> set rows \<and> key r = k"
  by (auto simp: row_with_def find_Some_iff)

lemma row_with_None: "row_with key k rows = None \<longleftrightarrow> k \<notin> key ` set rows"
  by (auto simp: row_with_def find_None_iff)

lemma row_with_in:
  "distinct (map key rows) \<Longrightarrow> r \<in> set rows \<Longrightarrow> row_with key (key r) rows = Some r"
  by (induction rows) (auto simp: row_with_def)

lemma row_with_update:
  assumes "\<And>r. p r \<Longrightarrow> key (f r) = key r"
  shows "row_with key k (update_where p f rows) = map_option (\<lambda>r. if p r then f r else r) (row_with key k rows)"
  using assms by (induction rows) (auto simp: row_with_def update_where_def)

lemma row_with_append:
  "row_with key k (rows @ rows') = (case row_with key k rows of None \<Rightarrow> row_with key k rows' | Some r \<Rightarrow> Some r)"
  by (induction rows) (auto simp: row_with_def)

lemma count_where_key:
  assumes "distinct (map key rows)"
  shows "count_where (\<lambda>r. key r = k \<and> q r) rows =
    (case row_with key k rows of None \<Rightarrow> 0 | Some r \<Rightarrow> if q r then 1 else 0)"
  using assms
proof (induction rows)
  case (Cons x xs)
  show ?case
  proof (cases "key x = k")
    case True
    then have "filter (\<lambda>r. key r = k \<and> q r) xs = []" using Cons.prems by (simp add: filter_empty_conv) (metis image_eqI)
    then show ?thesis using True by (simp add: count_where_def row_with_def)
  next
    case False
    then show ?thesis using Cons by (simp add: count_where_def row_with_def)
  qed
qed (simp add: count_where_def row_with_def)


section \<open>Ordering rows\<close>

text \<open>Byte order of text columns is linear.\<close>

lemma str_le_refl [simp]: "str_le_code a a"
  by (induction a) auto

lemma str_le_total: "str_le_code a b \<or> str_le_code b a"
  by (induction a b rule: str_le_code.induct) auto

lemma str_le_antisym: "str_le_code a b \<Longrightarrow> str_le_code b a \<Longrightarrow> a = b"
proof (induction a b rule: str_le_code.induct)
  case (1 bs)
  then show ?case by (cases bs) simp_all
qed (auto split: if_splits)

lemma str_le_trans: "str_le_code a b \<Longrightarrow> str_le_code b c \<Longrightarrow> str_le_code a c"
proof (induction a b arbitrary: c rule: str_le_code.induct)
  case (3 a as b bs)
  then show ?case by (cases c) (auto split: if_splits)
qed auto

text \<open>
  The interface of an ORDER BY: a total preorder on rows. A sorted table is in order, and
  selecting rows commutes with sorting.
\<close>

locale row_order =
  fixes le :: "'r \<Rightarrow> 'r \<Rightarrow> bool"
  assumes le_total: "le a b \<or> le b a"
    and le_trans: "le a b \<Longrightarrow> le b c \<Longrightarrow> le a c"
begin

lemma le_refl: "le a a" using le_total by blast

lemma sorted_insert_by: "sorted_wrt le xs \<Longrightarrow> sorted_wrt le (insert_by le x xs)"
proof (induction xs)
  case (Cons y ys)
  have "set (insert_by le x ys) = insert x (set ys)" by (metis mset_insert_by set_mset_add_mset_insert set_mset_mset)
  then show ?case using Cons le_total le_trans by auto
qed simp

lemma sorted_order_by: "sorted_wrt le (order_by le xs)"
  by (induction xs) (simp_all add: sorted_insert_by)

lemma insert_by_min: "list_all (le x) xs \<Longrightarrow> insert_by le x xs = x # xs"
  by (cases xs) simp_all

lemma filter_insert_by:
  assumes "sorted_wrt le xs"
  shows "filter P (insert_by le x xs) = (if P x then insert_by le x (filter P xs) else filter P xs)"
  using assms
proof (induction xs)
  case (Cons y ys)
  show ?case
  proof (cases "le x y")
    case True
    then have "list_all (le x) (y # ys)"
      using Cons.prems le_trans by (auto simp: list_all_iff)
    then have "list_all (le x) (filter P (y # ys))" by (auto simp: list_all_iff)
    then show ?thesis using True insert_by_min by (metis filter.simps(2) insert_by.simps(2))
  next
    case False
    then show ?thesis using Cons by auto
  qed
qed simp

lemma filter_order_by: "filter P (order_by le xs) = order_by le (filter P xs)"
  by (induction xs) (simp_all add: filter_insert_by sorted_order_by)

lemma order_by_sorted: "sorted_wrt le xs \<Longrightarrow> order_by le xs = xs"
  by (induction xs) (simp_all add: insert_by_min list_all_iff)

lemma hd_order_by: "x \<in> set xs \<Longrightarrow> le (hd (order_by le xs)) x"
proof -
  assume x: "x \<in> set xs"
  then have "order_by le xs \<noteq> []" by auto
  then obtain y ys where o: "order_by le xs = y # ys" by (cases "order_by le xs") auto
  have "x \<in> set (order_by le xs)" using x by simp
  then show ?thesis using sorted_order_by [of xs] le_refl by (auto simp: o)
qed

text \<open>Two sortings of the same rows agree when no two of them are equivalent.\<close>

lemma sorted_unique:
  assumes "sorted_wrt le xs" "sorted_wrt le ys" "mset xs = mset ys"
    and "\<And>a b. a \<in> set xs \<Longrightarrow> b \<in> set xs \<Longrightarrow> le a b \<Longrightarrow> le b a \<Longrightarrow> a = b"
  shows "xs = ys"
  using assms
proof (induction xs arbitrary: ys)
  case (Cons x xs)
  then obtain y zs where y: "ys = y # zs" by (cases ys) auto
  have sets: "set (x # xs) = set ys" using Cons.prems(3) by (metis set_mset_mset)
  have "x = y"
  proof (rule ccontr)
    assume "x \<noteq> y"
    then have "x \<in> set zs" "y \<in> set xs" using sets y by auto
    then have "le x y" "le y x" using Cons.prems(1,2) y by auto
    then show False using Cons.prems(4) [of x y] \<open>y \<in> set xs\<close> \<open>x \<noteq> y\<close> by simp
  qed
  then show ?case using Cons y by simp
qed simp

end

text \<open>\<open>ORDER BY f DESC, id DESC\<close> and \<open>ORDER BY f ASC, id ASC\<close>, over an instant and an id.\<close>

definition newest_first :: "('r \<Rightarrow> time) \<Rightarrow> ('r \<Rightarrow> string) \<Rightarrow> 'r \<Rightarrow> 'r \<Rightarrow> bool" where
  "newest_first f key a b \<longleftrightarrow> f b < f a \<or> f a = f b \<and> str_le_code (key b) (key a)"

definition oldest_first :: "('r \<Rightarrow> time) \<Rightarrow> ('r \<Rightarrow> string) \<Rightarrow> 'r \<Rightarrow> 'r \<Rightarrow> bool" where
  "oldest_first f key a b \<longleftrightarrow> f a < f b \<or> f a = f b \<and> str_le_code (key a) (key b)"

text \<open>
  NULL in an ascending order by one column: SQLite puts it first, PostgreSQL last.
\<close>

definition null_le :: "dialect \<Rightarrow> time option \<Rightarrow> time option \<Rightarrow> bool" where
  "null_le d a b = (case (a, b) of
      (Some x, Some y) \<Rightarrow> x \<le> y
    | (None, None) \<Rightarrow> True
    | (None, Some _) \<Rightarrow> d = DialectSQLite
    | (Some _, None) \<Rightarrow> d = DialectPostgres)"

definition null_less :: "dialect \<Rightarrow> time option \<Rightarrow> time option \<Rightarrow> bool" where
  "null_less d a b \<longleftrightarrow> \<not> null_le d b a"

definition nulls_then_id :: "dialect \<Rightarrow> ('r \<Rightarrow> time option) \<Rightarrow> ('r \<Rightarrow> string) \<Rightarrow> 'r \<Rightarrow> 'r \<Rightarrow> bool" where
  "nulls_then_id d f key a b \<longleftrightarrow> null_less d (f a) (f b) \<or> f a = f b \<and> str_le_code (key a) (key b)"

interpretation newest: row_order "newest_first f key"
proof
  show "newest_first f key a b \<or> newest_first f key b a" for a b
    using str_le_total [of "key a" "key b"] by (auto simp: newest_first_def)
qed (auto simp: newest_first_def intro: str_le_trans)

interpretation oldest: row_order "oldest_first f key"
proof
  show "oldest_first f key a b \<or> oldest_first f key b a" for a b
    using str_le_total [of "key a" "key b"] by (auto simp: oldest_first_def)
qed (auto simp: oldest_first_def intro: str_le_trans)

lemma null_le_total: "null_le d a b \<or> null_le d b a"
  by (cases d; cases a; cases b) (auto simp: null_le_def)

lemma null_le_trans: "null_le d a b \<Longrightarrow> null_le d b c \<Longrightarrow> null_le d a c"
  by (cases d; cases a; cases b; cases c) (auto simp: null_le_def)

lemma null_le_antisym: "null_le d a b \<Longrightarrow> null_le d b a \<Longrightarrow> a = b"
  by (cases d; cases a; cases b) (auto simp: null_le_def)

lemma null_less_trans: "null_less d a b \<Longrightarrow> null_less d b c \<Longrightarrow> null_less d a c"
  by (cases d; cases a; cases b; cases c) (auto simp: null_less_def null_le_def)

interpretation nulls: row_order "\<lambda>a b. null_le d (f a) (f b)"
  by (unfold_locales; (rule null_le_total | erule null_le_trans, assumption))

interpretation nulls_id: row_order "nulls_then_id d f key"
proof
  show "nulls_then_id d f key a b \<or> nulls_then_id d f key b a" for a b
    using null_le_antisym str_le_total by (auto simp: nulls_then_id_def null_less_def)
  show "nulls_then_id d f key a c" if "nulls_then_id d f key a b" "nulls_then_id d f key b c" for a b c
    using that null_less_trans str_le_trans unfolding nulls_then_id_def by metis
qed

text \<open>Distinct ids make the order of a listing strict.\<close>

lemma newest_antisym:
  "newest_first f key a b \<Longrightarrow> newest_first f key b a \<Longrightarrow> key a = key b"
  using str_le_antisym by (auto simp: newest_first_def)


section \<open>Prefixes\<close>

text \<open>
  \<open>text LIKE pattern\<close>: \<open>%\<close> matches any text, \<open>_\<close> any character. SQLite compares letters without
  regard to case and has no escape character; PostgreSQL compares bytes and a backslash makes
  the next character stand for itself (a pattern that ends in one is refused).
\<close>

definition same_char :: "dialect \<Rightarrow> char \<Rightarrow> char \<Rightarrow> bool" where
  "same_char d a b \<longleftrightarrow> (if d = DialectSQLite then lower_char a = lower_char b else a = b)"

fun like :: "dialect \<Rightarrow> string \<Rightarrow> string \<Rightarrow> bool" where
  "like d [] [] = True"
| "like d [] (t # ts) = False"
| "like d (p # ps) ts =
     (if p = CHR ''%'' then
        (like d ps ts \<or> (case ts of [] \<Rightarrow> False | t # ts' \<Rightarrow> like d (p # ps) ts'))
      else if d = DialectPostgres \<and> p = char_of (92 :: nat) then
        (case (ps, ts) of (q # ps', t # ts') \<Rightarrow> q = t \<and> like d ps' ts' | _ \<Rightarrow> False)
      else case ts of [] \<Rightarrow> False
        | t # ts' \<Rightarrow> (p = CHR ''_'' \<or> same_char d p t) \<and> like d ps ts')"

text \<open>A name with no pattern character, matched as a prefix.\<close>

definition plain_ref :: "string \<Rightarrow> bool" where
  "plain_ref s \<longleftrightarrow> list_all (\<lambda>c. c \<noteq> CHR ''%'' \<and> c \<noteq> CHR ''_'' \<and> c \<noteq> char_of (92 :: nat)) s"

lemma like_any: "like d ''%'' t"
  by (induction t) simp_all

lemma like_prefix_postgres:
  "plain_ref s \<Longrightarrow> like DialectPostgres (s @ ''%'') t \<longleftrightarrow> has_prefix t s"
proof (induction s arbitrary: t)
  case Nil
  then show ?case by (simp only: append_Nil like_any) simp
next
  case (Cons c s)
  then show ?case by (cases t) (auto simp: plain_ref_def same_char_def)
qed

lemma like_prefix_sqlite:
  "plain_ref s \<Longrightarrow> like DialectSQLite (s @ ''%'') t \<longleftrightarrow> has_prefix (to_lower t) (to_lower s)"
proof (induction s arbitrary: t)
  case Nil
  then show ?case by (simp only: append_Nil like_any) (simp add: to_lower_def)
next
  case (Cons c s)
  then show ?case by (cases t) (auto simp: plain_ref_def same_char_def to_lower_def)
qed

text \<open>
  \<open>resolveRunID\<close> and the last step of \<open>resolvePlanRef\<close>: an exact id wins; otherwise the ids
  matching the pattern, of which two are enough to refuse.
\<close>

definition prefix_matches :: "dialect \<Rightarrow> ('r \<Rightarrow> string) \<Rightarrow> string \<Rightarrow> 'r list \<Rightarrow> string list" where
  "prefix_matches d key ref rows =
     limit_rows 2 (order_by str_le_code (filter (like d (ref @ ''%'')) (map key rows)))"

interpretation text_order: row_order str_le_code
  by (unfold_locales; (rule str_le_total | erule str_le_trans, assumption))

end
