(* ===== verification/Json.thy ===== *)
theory Json
  imports Sql
begin

text \<open>
  What a trip through encoding/json makes of a value of Go's \<open>any\<close>: encodeJSON and decodeJSON of
  internal/store/encoding.go, as the details of steps and checks and the check of an event meet them.
  A number comes back as a float64, a list of strings as a list of any, a map of numbers as a map of
  any; the bytes of a string that are not UTF-8 come back as U+FFFD; a number that is not finite is
  refused. The keys of a map are constants of the code or names of a plan, which are UTF-8 already.
\<close>

section \<open>Text\<close>

text \<open>The lead byte of a rune: how many bytes follow, and the range of the first of them.\<close>

definition rune_lead :: "nat \<Rightarrow> (nat \<times> nat \<times> nat) option" where
  "rune_lead b =
     (if b < 194 then None else if b \<le> 223 then Some (1, 128, 191)
      else if b = 224 then Some (2, 160, 191) else if b = 237 then Some (2, 128, 159)
      else if b \<le> 239 then Some (2, 128, 191)
      else if b = 240 then Some (3, 144, 191) else if b \<le> 243 then Some (3, 128, 191)
      else if b = 244 then Some (3, 128, 143) else None)"

text \<open>The size of the rune a text starts with; 0 when it starts with none.\<close>

definition rune_size :: "string \<Rightarrow> nat" where
  "rune_size bs =
     (case bs of [] \<Rightarrow> 0
      | a # rest \<Rightarrow>
          if (of_char a :: nat) < 128 then 1
          else (case rune_lead (of_char a) of None \<Rightarrow> 0
            | Some (n, lo, hi) \<Rightarrow>
                if n \<le> length rest \<and> lo \<le> of_char (hd rest) \<and> of_char (hd rest) \<le> hi \<and>
                   list_all (\<lambda>c. 128 \<le> (of_char c :: nat) \<and> of_char c \<le> (191 :: nat)) (take (n - 1) (tl rest))
                then n + 1 else 0))"

definition replacement_rune :: string where
  "replacement_rune = [char_of (239 :: nat), char_of (191 :: nat), char_of (189 :: nat)]"

lemma rune_size_le: "rune_size bs \<le> length bs"
  by (auto simp: rune_size_def split: list.split option.split)

function json_text :: "string \<Rightarrow> string" where
  "json_text bs =
     (if bs = [] then []
      else if rune_size bs = 0 then replacement_rune @ json_text (tl bs)
      else take (rune_size bs) bs @ json_text (drop (rune_size bs) bs))"
  by pat_completeness auto
termination by (relation "measure length") auto

declare json_text.simps [simp del]

lemma json_text_Nil [simp]: "json_text [] = []"
  by (simp add: json_text.simps)

text \<open>The size looks at the bytes of the rune and no further.\<close>

lemma rune_lead_pos: "rune_lead b = Some (n, lo, hi) \<Longrightarrow> 0 < n"
  by (auto simp: rune_lead_def split: if_splits)

lemma rune_size_prefix:
  assumes "rune_size bs \<noteq> 0"
  shows "rune_size (take (rune_size bs) bs @ ys) = rune_size bs"
proof (cases bs)
  case (Cons a rest)
  show ?thesis
  proof (cases "(of_char a :: nat) < 128")
    case True
    then show ?thesis by (simp add: Cons rune_size_def)
  next
    case False
    then obtain n lo hi where n: "rune_lead (of_char a) = Some (n, lo, hi)" "n \<le> length rest"
      "lo \<le> of_char (hd rest)" "of_char (hd rest) \<le> hi"
      "list_all (\<lambda>c. 128 \<le> (of_char c :: nat) \<and> of_char c \<le> (191 :: nat)) (take (n - 1) (tl rest))"
      and size: "rune_size bs = Suc n"
      using assms by (auto simp: Cons rune_size_def split: option.splits if_splits)
    obtain m b tail where m: "n = Suc m" "rest = b # tail"
      using rune_lead_pos [OF n(1)] n(2) by (cases n; cases rest) auto
    show ?thesis using False n unfolding size by (simp add: Cons rune_size_def m)
  qed
qed (use assms in \<open>simp add: rune_size_def\<close>)

lemma replacement_size: "rune_size (replacement_rune @ ys) = 3"
  by (simp add: rune_size_def replacement_rune_def rune_lead_def)

lemma json_text_rune: "rune_size bs \<noteq> 0 \<Longrightarrow> json_text (take (rune_size bs) bs @ ys) = take (rune_size bs) bs @ json_text ys"
proof -
  assume some: "rune_size bs \<noteq> 0"
  have len: "length (take (rune_size bs) bs) = rune_size bs" using rune_size_le [of bs] by simp
  have ne: "take (rune_size bs) bs @ ys \<noteq> []" using some len by (metis append_is_Nil_conv length_0_conv)
  show ?thesis
    using some ne len by (subst json_text.simps) (simp only: rune_size_prefix [OF some] if_False take_append drop_append; simp)
qed

text \<open>Read back and written again, a text does not change any more.\<close>

lemma json_text_twice [simp]: "json_text (json_text bs) = json_text bs"
proof (induction bs rule: json_text.induct)
  case (1 bs)
  consider "bs = []" | "bs \<noteq> []" "rune_size bs = 0" | "bs \<noteq> []" "rune_size bs \<noteq> 0" by blast
  then show ?case
  proof cases
    case 2
    have "json_text bs = replacement_rune @ json_text (tl bs)" using 2 by (subst json_text.simps) simp
    moreover have "json_text (replacement_rune @ ys) = replacement_rune @ json_text ys" for ys
      using json_text_rune [of "replacement_rune @ ys" ys] replacement_size [of ys] by (simp add: replacement_rune_def)
    ultimately show ?thesis using 1(1) [OF 2] by simp
  next
    case 3
    have "json_text bs = take (rune_size bs) bs @ json_text (drop (rune_size bs) bs)"
      using 3 by (subst json_text.simps) simp
    then show ?thesis using 1(2) [OF 3] json_text_rune [OF 3(2)] by simp
  qed simp
qed

lemma json_text_ascii: "list_all (\<lambda>c. (of_char c :: nat) < 128) bs \<Longrightarrow> json_text bs = bs"
proof (induction bs)
  case (Cons c bs)
  then show ?case by (subst json_text.simps) (simp add: rune_size_def)
qed simp


section \<open>Values\<close>

text \<open>The number \<open>Marshal\<close> stops at, in the order it writes: the keys of a map are sorted.\<close>

fun unsupported :: "detail \<Rightarrow> f64 list" where
  "unsupported (DetailFloat x) = (if finite64 x then [] else [x])"
| "unsupported (DetailFloats kvs) =
     filter (\<lambda>x. \<not> finite64 x) (map snd (order_by (\<lambda>a b. str_le_code (fst a) (fst b)) kvs))"
| "unsupported (DetailList ds) = concat (map unsupported ds)"
| "unsupported (DetailMap kvs) =
     concat (map snd (order_by (\<lambda>a b. str_le_code (fst a) (fst b)) (map (\<lambda>(k, d). (k, unsupported d)) kvs)))"
| "unsupported _ = []"

definition details_unsupported :: "(string \<times> detail) list \<Rightarrow> f64 list" where
  "details_unsupported ds = unsupported (DetailMap ds)"

definition encodable :: "(string \<times> detail) list \<Rightarrow> bool" where
  "encodable ds \<longleftrightarrow> details_unsupported ds = []"

definition unsupported_value :: "f64 list \<Rightarrow> goerr" where
  "unsupported_value xs = Plain (''json: unsupported value: '' @
     (case xs of PInf # _ \<Rightarrow> ''+Inf'' | NInf # _ \<Rightarrow> ''-Inf'' | _ \<Rightarrow> ''NaN''))"

text \<open>Written and read back as an \<open>any\<close>.\<close>

fun json_detail :: "detail \<Rightarrow> detail" where
  "json_detail (DetailInt n) = DetailFloat (of_int64 n)"
| "json_detail (DetailBool b) = DetailBool b"
| "json_detail (DetailString s) = DetailString (json_text s)"
| "json_detail (DetailStrings ss) = DetailList (map (\<lambda>s. DetailString (json_text s)) ss)"
| "json_detail (DetailFloats kvs) = DetailMap (map (\<lambda>(k, x). (k, DetailFloat x)) kvs)"
| "json_detail (DetailFloat x) = DetailFloat x"
| "json_detail (DetailList ds) = DetailList (map json_detail ds)"
| "json_detail (DetailMap kvs) = DetailMap (map (\<lambda>(k, d). (k, json_detail d)) kvs)"

definition json_details :: "(string \<times> detail) list \<Rightarrow> (string \<times> detail) list" where
  "json_details = map (\<lambda>(k, d). (k, json_detail d))"

text \<open>A whole \<^verbatim>\<open>core.CheckResult\<close>: its times and its duration are written exactly.\<close>

definition json_status :: "check_status \<Rightarrow> check_status" where
  "json_status st = (case st of CheckOther s \<Rightarrow> CheckOther (json_text s) | _ \<Rightarrow> st)"

definition json_check :: "check_result \<Rightarrow> check_result" where
  "json_check c = c\<lparr>cr_name := json_text (cr_name c), cr_type := json_text (cr_type c),
     cr_status := json_status (cr_status c), cr_message := json_text (cr_message c),
     cr_details := json_details (cr_details c)\<rparr>"

lemma json_detail_twice [simp]: "json_detail (json_detail d) = json_detail d"
  by (induction d rule: json_detail.induct) auto

lemma json_details_twice [simp]: "json_details (json_details ds) = json_details ds"
  by (auto simp: json_details_def)

lemma json_check_twice [simp]: "json_check (json_check c) = json_check c"
  by (simp add: json_check_def json_status_def split: check_status.split)

lemma json_details_Nil [simp]: "json_details [] = []" "encodable []"
  by (simp_all add: json_details_def encodable_def details_unsupported_def)

end
