(* ===== verification/Store.thy ===== *)
theory Store
  imports Json
begin

text \<open>
  The tables of internal/store (their columns as the migrations create them), and the operations
  on runs and their timeline: runs.go, steps.go, checks.go, events.go and queue.go. A column that
  may be NULL is an option, and a JSON column holds what its text decodes to. Every operation takes the database and returns its answer with the
  database it leaves; \<open>ce\<close> is the driver's error for a row that a constraint refuses.
\<close>

section \<open>Tables\<close>

record run_row =
  rr_id :: string
  rr_plan_name :: string
  rr_plan_snapshot :: string
  rr_plan_id :: "string option"
  rr_plan_version :: "int option"
  rr_provider_id :: string
  rr_backup_provider_id :: "string option"
  rr_source_workload_id :: string
  rr_source_name :: "string option"
  rr_temp_workload_id :: "string option"
  rr_temp_name :: "string option"
  rr_node :: "string option"
  rr_backup :: "backup option"
  rr_state :: run_state
  rr_result :: "run_result option"
  rr_started_at :: time
  rr_completed_at :: "time option"
  rr_rto_ms :: "int option"
  rr_rto_target_ms :: "int option"
  rr_cleanup_done :: int
  rr_err :: "string option"
  rr_proof_level :: "string option"
  rr_queued_at :: "time option"
  rr_lease_owner :: "string option"
  rr_lease_expires_at :: "time option"
  rr_cancel_requested_at :: "time option"
  rr_notified_at :: "time option"

record step_row =
  sr_run_id :: string
  sr_seq :: int
  sr_name :: string
  sr_state :: run_state
  sr_status :: step_status
  sr_started_at :: "time option"
  sr_completed_at :: "time option"
  sr_duration_ms :: "int option"
  sr_message :: "string option"
  sr_err :: "string option"
  sr_details :: "(string \<times> detail) list"

record check_row =
  kr_run_id :: string
  kr_seq :: int
  kr_name :: string
  kr_type :: string
  kr_status :: check_status
  kr_started_at :: "time option"
  kr_completed_at :: "time option"
  kr_duration_ms :: "int option"
  kr_attempts :: "int option"
  kr_message :: "string option"
  kr_details :: "(string \<times> detail) list"

text \<open>\<open>store.Event\<close>, and the row it is written to.\<close>

record stored_event =
  se_seq :: int
  se_at :: time
  se_state :: run_state
  se_step :: string
  se_status :: "step_status option"
  se_message :: string
  se_check :: "check_result option"
  se_err :: string

record event_row =
  er_run_id :: string
  er_seq :: int
  er_at :: time
  er_state :: run_state
  er_step :: "string option"
  er_status :: "step_status option"
  er_message :: "string option"
  er_check :: "check_result option"
  er_err :: "string option"

record value_row =
  vr_run_id :: string
  vr_check_seq :: int
  vr_name :: string
  vr_value :: f64

record plan_row =
  pr_id :: string
  pr_name :: string
  pr_description :: "string option"
  pr_workload_id :: string
  pr_provider_id :: "string option"
  pr_yaml :: string
  pr_version :: int
  pr_created_at :: time
  pr_updated_at :: time

datatype slot_outcome = SlotQueued | SlotSkipped

record slot_row =
  sl_plan_id :: string
  sl_slot_at :: time
  sl_decided_at :: time
  sl_outcome :: slot_outcome
  sl_reason :: "string option"
  sl_run_id :: "string option"

datatype delivery_state = DeliveryPending | DeliverySent | DeliveryFailed

record delivery =
  dl_id :: string
  dl_run_id :: string
  dl_channel_id :: string
  dl_kind :: string
  dl_state :: delivery_state
  dl_attempts :: int
  dl_next_at :: time
  dl_status :: int
  dl_err :: string
  dl_payload :: string
  dl_created_at :: time
  dl_sent_at :: time

text \<open>The row of a delivery: its instants and its error may be NULL.\<close>

record delivery_row =
  dr_id :: string
  dr_run_id :: string
  dr_channel_id :: string
  dr_kind :: string
  dr_state :: delivery_state
  dr_attempts :: int
  dr_next_at :: "time option"
  dr_status :: int
  dr_error :: "string option"
  dr_payload :: string
  dr_created_at :: time
  dr_sent_at :: "time option"

record token_row =
  tk_id :: string
  tk_name :: string
  tk_hash :: string
  tk_created_at :: time
  tk_last_used_at :: "time option"
  tk_revoked_at :: "time option"
  tk_scopes :: string

record session_row =
  ss_id :: string
  ss_hash :: string
  ss_token_id :: string
  ss_created_at :: time
  ss_expires_at :: time
  ss_user_agent :: "string option"

record db =
  db_runs :: "run_row list"
  db_steps :: "step_row list"
  db_checks :: "check_row list"
  db_events :: "event_row list"
  db_values :: "value_row list"
  db_plans :: "plan_row list"
  db_slots :: "slot_row list"
  db_deliveries :: "delivery_row list"
  db_tokens :: "token_row list"
  db_sessions :: "session_row list"

definition empty_db :: db where
  "empty_db = \<lparr>db_runs = [], db_steps = [], db_checks = [], db_events = [], db_values = [],
     db_plans = [], db_slots = [], db_deliveries = [], db_tokens = [], db_sessions = []\<rparr>"

definition map_runs :: "(run_row list \<Rightarrow> run_row list) \<Rightarrow> db \<Rightarrow> db" where
  "map_runs f s = s\<lparr>db_runs := f (db_runs s)\<rparr>"

definition default_list_limit :: int where "default_list_limit = 50"

definition limit_or_default :: "int \<Rightarrow> int" where
  "limit_or_default n = (if n \<le> 0 then default_list_limit else n)"


section \<open>Runs\<close>

definition terminal_states :: "run_state list" where
  "terminal_states = [RunSuccess, RunFailed, RunCancelled, RunCleanupFailed, RunInconclusive]"

definition settled :: "run_row \<Rightarrow> bool" where
  "settled r \<longleftrightarrow> rr_state r \<in> set terminal_states"

text \<open>\<open>string(level)\<close>, and \<open>string(result)\<close> through \<open>nullString\<close>.\<close>

fun proof_text :: "proof_level \<Rightarrow> string" where
  "proof_text ProofUnknown = ''''"
| "proof_text ProofNone = ''NONE''"
| "proof_text ProofBoot = ''BOOT''"
| "proof_text ProofService = ''SERVICE''"
| "proof_text ProofData = ''DATA''"
| "proof_text (ProofOther s) = s"

definition null_result :: "run_result \<Rightarrow> run_result option" where
  "null_result r = (if r = ResultNone then None else Some r)"

definition result_of_null :: "run_result option \<Rightarrow> run_result" where
  "result_of_null c = (case c of None \<Rightarrow> ResultNone | Some r \<Rightarrow> r)"

lemma result_null [simp]: "result_of_null (null_result r) = r"
  by (simp add: result_of_null_def null_result_def)

text \<open>The constraints of the table: one row per id, and a plan that exists.\<close>

definition run_refused :: "db \<Rightarrow> string \<Rightarrow> string option \<Rightarrow> bool" where
  "run_refused s i plan \<longleftrightarrow> i \<in> rr_id ` set (db_runs s) \<or>
     (case plan of None \<Rightarrow> False | Some p \<Rightarrow> p \<notin> pr_id ` set (db_plans s))"

definition insert_run :: "goerr \<Rightarrow> run_row \<Rightarrow> db \<Rightarrow> (goerr + unit) \<times> db" where
  "insert_run ce row s =
     (if run_refused s (rr_id row) (rr_plan_id row) then (Inl ce, s)
      else (Inr (), map_runs (\<lambda>rs. rs @ [row]) s))"

definition created_row :: "recovery_run \<Rightarrow> string \<Rightarrow> run_row" where
  "created_row run yaml =
     \<lparr>rr_id = run_id run, rr_plan_name = run_plan_name run, rr_plan_snapshot = yaml,
      rr_plan_id = null_string (run_plan_id run), rr_plan_version = null_int (run_plan_version run),
      rr_provider_id = run_provider_id run,
      rr_backup_provider_id = null_string (run_backup_provider_id run),
      rr_source_workload_id = run_source_workload_id run,
      rr_source_name = null_string (run_source_name run),
      rr_temp_workload_id = null_string (run_temp_workload_id run),
      rr_temp_name = null_string (run_temp_name run), rr_node = null_string (run_node run),
      rr_backup = run_backup run, rr_state = run_state run, rr_result = null_result (run_result run),
      rr_started_at = run_started_at run, rr_completed_at = format_null_time (run_completed_at run),
      rr_rto_ms = Some (duration_ms (run_rto run)),
      rr_rto_target_ms = Some (duration_ms (run_rto_target run)),
      rr_cleanup_done = bool_to_int (run_cleanup_done run), rr_err = null_string (run_err run),
      rr_proof_level = null_string (proof_text (run_proof_level run)),
      rr_queued_at = None, rr_lease_owner = None, rr_lease_expires_at = None,
      rr_cancel_requested_at = None, rr_notified_at = None\<rparr>"

definition create_run :: "goerr \<Rightarrow> recovery_run \<Rightarrow> string \<Rightarrow> db \<Rightarrow> (goerr + unit) \<times> db" where
  "create_run ce run yaml s = insert_run ce (created_row run yaml) s"

text \<open>What \<open>UpdateRun\<close> writes: not the id, the source workload, the snapshot or the lease.\<close>

definition updated_row :: "recovery_run \<Rightarrow> run_row \<Rightarrow> run_row" where
  "updated_row run r = r\<lparr>
     rr_source_name := null_string (run_source_name run),
     rr_temp_workload_id := null_string (run_temp_workload_id run),
     rr_temp_name := null_string (run_temp_name run), rr_node := null_string (run_node run),
     rr_backup := run_backup run, rr_state := run_state run, rr_result := null_result (run_result run),
     rr_completed_at := format_null_time (run_completed_at run),
     rr_rto_ms := Some (duration_ms (run_rto run)),
     rr_rto_target_ms := Some (duration_ms (run_rto_target run)),
     rr_cleanup_done := bool_to_int (run_cleanup_done run), rr_err := null_string (run_err run),
     rr_proof_level := null_string (proof_text (run_proof_level run))\<rparr>"

definition update_run :: "recovery_run \<Rightarrow> db \<Rightarrow> db" where
  "update_run run = map_runs (update_where (\<lambda>r. rr_id r = run_id run) (updated_row run))"

definition set_temp_workload :: "string \<Rightarrow> string \<Rightarrow> string \<Rightarrow> db \<Rightarrow> db" where
  "set_temp_workload rid temp node =
     map_runs (update_where (\<lambda>r. rr_id r = rid)
       (\<lambda>r. r\<lparr>rr_temp_workload_id := null_string temp, rr_node := null_string node\<rparr>))"

text \<open>\<open>resolveRunID\<close>: an exact match wins outright.\<close>

definition resolve_run_id :: "dialect \<Rightarrow> string \<Rightarrow> db \<Rightarrow> goerr + string" where
  "resolve_run_id d ref s =
     (case row_with rr_id ref (db_runs s) of
        Some r \<Rightarrow> Inr (rr_id r)
      | None \<Rightarrow>
          (case prefix_matches d rr_id ref (db_runs s) of
             [] \<Rightarrow> Inl (wrap_prefix (Sentinel StoreNotFound) ('': '' @ ref))
           | [i] \<Rightarrow> Inr i
           | _ \<Rightarrow> Inl (wrap_prefix (Sentinel StoreAmbiguous) ('': '' @ ref))))"


section \<open>The timeline of a run\<close>

text \<open>\<open>INSERT ... ON CONFLICT DO UPDATE\<close> and \<open>DO NOTHING\<close> on a key.\<close>

definition upsert :: "('r \<Rightarrow> 'k) \<Rightarrow> 'r \<Rightarrow> 'r list \<Rightarrow> 'r list" where
  "upsert key row rows =
     (if key row \<in> key ` set rows then update_where (\<lambda>r. key r = key row) (\<lambda>_. row) rows
      else rows @ [row])"

definition insert_once :: "('r \<Rightarrow> 'k) \<Rightarrow> 'r \<Rightarrow> 'r list \<Rightarrow> 'r list" where
  "insert_once key row rows = (if key row \<in> key ` set rows then rows else rows @ [row])"

definition run_exists :: "string \<Rightarrow> db \<Rightarrow> bool" where
  "run_exists rid s \<longleftrightarrow> rid \<in> rr_id ` set (db_runs s)"

definition step_row_of :: "string \<Rightarrow> int \<Rightarrow> step \<Rightarrow> step_row" where
  "step_row_of rid seq st =
     \<lparr>sr_run_id = rid, sr_seq = seq, sr_name = st_name st, sr_state = st_state st, sr_status = st_status st,
      sr_started_at = format_null_time (st_started_at st),
      sr_completed_at = format_null_time (st_completed_at st),
      sr_duration_ms = Some (duration_ms (st_duration st)), sr_message = null_string (st_message st),
      sr_err = null_string (st_err st), sr_details = json_details (st_details st)\<rparr>"

text \<open>A JSON column that cannot be written: the statement is never sent.\<close>

definition encode_error :: "string \<Rightarrow> f64 list \<Rightarrow> goerr" where
  "encode_error what xs =
     Wrapped (''store: encode '' @ what @ '': '' @ err_text (unsupported_value xs)) (unsupported_value xs)"

definition save_step :: "goerr \<Rightarrow> string \<Rightarrow> int \<Rightarrow> step \<Rightarrow> db \<Rightarrow> (goerr + unit) \<times> db" where
  "save_step ce rid seq st s =
     (if \<not> encodable (st_details st)
      then (Inl (encode_error (''details of step '' @ quoted (st_name st)) (details_unsupported (st_details st))), s)
      else if \<not> run_exists rid s then (Inl ce, s)
      else (Inr (), s\<lparr>db_steps := upsert (\<lambda>r. (sr_run_id r, sr_seq r)) (step_row_of rid seq st) (db_steps s)\<rparr>))"

definition step_of_row :: "step_row \<Rightarrow> step" where
  "step_of_row r =
     \<lparr>st_name = sr_name r, st_state = sr_state r, st_status = sr_status r,
      st_started_at = parse_null_time (sr_started_at r),
      st_completed_at = parse_null_time (sr_completed_at r),
      st_duration = ms_duration (int_of_null (sr_duration_ms r)),
      st_message = string_of_null (sr_message r), st_err = string_of_null (sr_err r),
      st_details = sr_details r\<rparr>"

definition load_steps :: "string \<Rightarrow> db \<Rightarrow> step list" where
  "load_steps rid s =
     map step_of_row (order_by (\<lambda>a b. sr_seq a \<le> sr_seq b) (filter (\<lambda>r. sr_run_id r = rid) (db_steps s)))"

definition check_row_of :: "string \<Rightarrow> int \<Rightarrow> check_result \<Rightarrow> check_row" where
  "check_row_of rid seq c =
     \<lparr>kr_run_id = rid, kr_seq = seq, kr_name = cr_name c, kr_type = cr_type c, kr_status = cr_status c,
      kr_started_at = format_null_time (cr_started_at c),
      kr_completed_at = format_null_time (cr_completed_at c),
      kr_duration_ms = Some (duration_ms (cr_duration c)), kr_attempts = Some (cr_attempts c),
      kr_message = null_string (cr_message c), kr_details = json_details (cr_details c)\<rparr>"

definition save_check :: "goerr \<Rightarrow> string \<Rightarrow> int \<Rightarrow> check_result \<Rightarrow> db \<Rightarrow> (goerr + unit) \<times> db" where
  "save_check ce rid seq c s =
     (if \<not> encodable (cr_details c)
      then (Inl (encode_error (''details of check '' @ quoted (cr_name c)) (details_unsupported (cr_details c))), s)
      else if \<not> run_exists rid s then (Inl ce, s)
      else (Inr (), s\<lparr>db_checks := upsert (\<lambda>r. (kr_run_id r, kr_seq r)) (check_row_of rid seq c) (db_checks s)\<rparr>))"

definition check_of_row :: "check_row \<Rightarrow> check_result" where
  "check_of_row r =
     \<lparr>cr_name = kr_name r, cr_type = kr_type r, cr_status = kr_status r,
      cr_started_at = parse_null_time (kr_started_at r),
      cr_completed_at = parse_null_time (kr_completed_at r),
      cr_duration = ms_duration (int_of_null (kr_duration_ms r)),
      cr_attempts = int_of_null (kr_attempts r),
      cr_message = string_of_null (kr_message r), cr_details = kr_details r\<rparr>"

definition load_checks :: "string \<Rightarrow> db \<Rightarrow> check_result list" where
  "load_checks rid s =
     map check_of_row (order_by (\<lambda>a b. kr_seq a \<le> kr_seq b) (filter (\<lambda>r. kr_run_id r = rid) (db_checks s)))"

definition event_row_of :: "string \<Rightarrow> stored_event \<Rightarrow> event_row" where
  "event_row_of rid ev =
     \<lparr>er_run_id = rid, er_seq = se_seq ev, er_at = se_at ev, er_state = se_state ev,
      er_step = null_string (se_step ev), er_status = se_status ev, er_message = null_string (se_message ev),
      er_check = map_option json_check (se_check ev), er_err = null_string (se_err ev)\<rparr>"

text \<open>The numbers an event's check holds that JSON has no way to write.\<close>

definition event_unsupported :: "stored_event \<Rightarrow> f64 list" where
  "event_unsupported ev = (case se_check ev of None \<Rightarrow> [] | Some c \<Rightarrow> details_unsupported (cr_details c))"

definition append_event :: "goerr \<Rightarrow> string \<Rightarrow> stored_event \<Rightarrow> db \<Rightarrow> (goerr + unit) \<times> db" where
  "append_event ce rid ev s =
     (if event_unsupported ev \<noteq> []
      then (Inl (encode_error (''check of event '' @ itoa (se_seq ev)) (event_unsupported ev)), s)
      else if \<not> run_exists rid s then (Inl ce, s)
      else (Inr (), s\<lparr>db_events := insert_once (\<lambda>r. (er_run_id r, er_seq r)) (event_row_of rid ev) (db_events s)\<rparr>))"

definition event_of_row :: "event_row \<Rightarrow> stored_event" where
  "event_of_row r =
     \<lparr>se_seq = er_seq r, se_at = er_at r, se_state = er_state r, se_step = string_of_null (er_step r),
      se_status = er_status r, se_message = string_of_null (er_message r), se_check = er_check r,
      se_err = string_of_null (er_err r)\<rparr>"

definition events_after :: "string \<Rightarrow> int \<Rightarrow> db \<Rightarrow> stored_event list" where
  "events_after rid after s =
     map event_of_row (order_by (\<lambda>a b. er_seq a \<le> er_seq b)
       (filter (\<lambda>r. er_run_id r = rid \<and> after < er_seq r) (db_events s)))"

text \<open>\<open>GetRun\<close>: the row, with its steps and checks.\<close>

definition run_of_row :: "run_row \<Rightarrow> step list \<Rightarrow> check_result list \<Rightarrow> recovery_run" where
  "run_of_row r steps checks =
     \<lparr>run_id = rr_id r, run_plan_name = rr_plan_name r, run_plan_id = string_of_null (rr_plan_id r),
      run_plan_version = int_of_null (rr_plan_version r), run_provider_id = rr_provider_id r,
      run_backup_provider_id = string_of_null (rr_backup_provider_id r),
      run_source_workload_id = rr_source_workload_id r, run_source_name = string_of_null (rr_source_name r),
      run_temp_workload_id = string_of_null (rr_temp_workload_id r),
      run_temp_name = string_of_null (rr_temp_name r), run_node = string_of_null (rr_node r),
      run_backup = rr_backup r, run_state = rr_state r, run_result = result_of_null (rr_result r),
      run_proof_level = fst (parse_proof_level (string_of_null (rr_proof_level r))),
      run_started_at = rr_started_at r, run_completed_at = parse_null_time (rr_completed_at r),
      run_steps = steps, run_checks = checks,
      run_rto = ms_duration (int_of_null (rr_rto_ms r)),
      run_rto_target = ms_duration (int_of_null (rr_rto_target_ms r)),
      run_cleanup_done = int_to_bool (rr_cleanup_done r), run_err = string_of_null (rr_err r)\<rparr>"

definition get_stored_run :: "dialect \<Rightarrow> string \<Rightarrow> db \<Rightarrow> goerr + recovery_run" where
  "get_stored_run d ref s =
     (case resolve_run_id d ref s of
        Inl e \<Rightarrow> Inl e
      | Inr i \<Rightarrow>
          (case row_with rr_id i (db_runs s) of
             None \<Rightarrow> Inl (wrap_prefix (Sentinel StoreNotFound) ('': '' @ ref))
           | Some r \<Rightarrow> Inr (run_of_row r (load_steps i s) (load_checks i s))))"

end
