(* ===== verification/Queue.thy ===== *)
theory Queue
  imports Store
begin

text \<open>
  internal/store/queue.go: the queue of drills. A run enters it QUEUED, is claimed by one worker
  under a lease, is asked to stop, is settled, and is found stale when its lease runs out.
\<close>

section \<open>Operations\<close>

definition queued_row :: "recovery_run \<Rightarrow> string \<Rightarrow> time \<Rightarrow> run_row" where
  "queued_row run yaml at_time =
     \<lparr>rr_id = run_id run, rr_plan_name = run_plan_name run, rr_plan_snapshot = yaml,
      rr_plan_id = null_string (run_plan_id run), rr_plan_version = null_int (run_plan_version run),
      rr_provider_id = run_provider_id run,
      rr_backup_provider_id = null_string (run_backup_provider_id run),
      rr_source_workload_id = run_source_workload_id run,
      rr_source_name = null_string (run_source_name run),
      rr_temp_workload_id = None, rr_temp_name = None, rr_node = None, rr_backup = None,
      rr_state = RunQueued, rr_result = None, rr_started_at = at_time, rr_completed_at = None,
      rr_rto_ms = Some 0, rr_rto_target_ms = Some (duration_ms (run_rto_target run)),
      rr_cleanup_done = 0, rr_err = None, rr_proof_level = Some (proof_text ProofNone),
      rr_queued_at = Some at_time, rr_lease_owner = None, rr_lease_expires_at = None,
      rr_cancel_requested_at = None, rr_notified_at = None\<rparr>"

definition enqueue :: "goerr \<Rightarrow> recovery_run \<Rightarrow> string \<Rightarrow> time \<Rightarrow> db \<Rightarrow> (goerr + unit) \<times> db" where
  "enqueue ce run yaml at_time s = insert_run ce (queued_row run yaml at_time) s"

definition write_state :: "string \<Rightarrow> run_state \<Rightarrow> db \<Rightarrow> db" where
  "write_state rid st =
     map_runs (update_where (\<lambda>r. rr_id r = rid \<and> \<not> settled r) (\<lambda>r. r\<lparr>rr_state := st\<rparr>))"

definition set_run_error :: "string \<Rightarrow> string \<Rightarrow> db \<Rightarrow> db" where
  "set_run_error rid message =
     map_runs (update_where (\<lambda>r. rr_id r = rid) (\<lambda>r. r\<lparr>rr_err := null_string message\<rparr>))"

text \<open>
  \<open>RequestCancel\<close>: settle a queued run nobody claimed; else ask a run that is not settled; else
  say why not.
\<close>

definition cancellable :: "string \<Rightarrow> run_row \<Rightarrow> bool" where
  "cancellable rid r \<longleftrightarrow> rr_id r = rid \<and> rr_state r = RunQueued \<and> rr_lease_owner r = None"

definition cancel_row :: "time \<Rightarrow> run_row \<Rightarrow> run_row" where
  "cancel_row at_time r =
     r\<lparr>rr_state := RunCancelled, rr_completed_at := Some at_time, rr_cancel_requested_at := Some at_time\<rparr>"

definition state_text :: "run_state \<Rightarrow> string" where
  "state_text st = (case st of
      RunNoState \<Rightarrow> '''' | RunQueued \<Rightarrow> ''QUEUED'' | RunDiscoveringBackup \<Rightarrow> ''DISCOVERING_BACKUP''
    | RunPreparing \<Rightarrow> ''PREPARING_ENVIRONMENT'' | RunRestoring \<Rightarrow> ''RESTORING'' | RunStarting \<Rightarrow> ''STARTING''
    | RunWaitingForGuest \<Rightarrow> ''WAITING_FOR_GUEST'' | RunRunningChecks \<Rightarrow> ''RUNNING_CHECKS''
    | RunGeneratingReport \<Rightarrow> ''GENERATING_REPORT'' | RunCleaningUp \<Rightarrow> ''CLEANING_UP''
    | RunSuccess \<Rightarrow> ''SUCCESS'' | RunFailed \<Rightarrow> ''FAILED'' | RunCancelled \<Rightarrow> ''CANCELLED''
    | RunCleanupFailed \<Rightarrow> ''CLEANUP_FAILED'' | RunInconclusive \<Rightarrow> ''INCONCLUSIVE'')"

definition request_cancel :: "string \<Rightarrow> time \<Rightarrow> db \<Rightarrow> (goerr + bool) \<times> db" where
  "request_cancel rid at_time s =
     (if count_where (cancellable rid) (db_runs s) = 1 then
        (Inr True, map_runs (update_where (cancellable rid) (cancel_row at_time)) s)
      else
        (let s = map_runs (update_where (cancellable rid) (cancel_row at_time)) s;
             open_row = (\<lambda>r. rr_id r = rid \<and> \<not> settled r);
             s' = map_runs (update_where open_row (\<lambda>r. r\<lparr>rr_cancel_requested_at := Some at_time\<rparr>)) s
         in if count_where open_row (db_runs s) = 1 then (Inr False, s')
            else
              (case row_with rr_id rid (db_runs s') of
                 None \<Rightarrow> (Inl (wrap_prefix (Sentinel StoreNotFound) ('': '' @ rid)), s')
               | Some r \<Rightarrow> (Inl (wrap_prefix (Sentinel StoreAlreadySettled)
                   ('': run '' @ rid @ '' is '' @ state_text (rr_state r))), s'))))"

definition cancel_requested :: "string \<Rightarrow> db \<Rightarrow> goerr + bool" where
  "cancel_requested rid s =
     (case row_with rr_id rid (db_runs s) of
        None \<Rightarrow> Inl (wrap_prefix (Sentinel StoreNotFound) ('': '' @ rid))
      | Some r \<Rightarrow> Inr (rr_cancel_requested_at r \<noteq> None))"

text \<open>An empty id: the workload has no drill queued or running.\<close>

definition active_run_for_workload :: "string \<Rightarrow> db \<Rightarrow> string" where
  "active_run_for_workload wid s =
     (case order_by (\<lambda>a b. rr_started_at a \<le> rr_started_at b)
             (filter (\<lambda>r. rr_source_workload_id r = wid \<and> \<not> settled r) (db_runs s)) of
        [] \<Rightarrow> '''' | r # _ \<Rightarrow> rr_id r)"

record queued_run =
  qr_id :: string
  qr_plan_name :: string
  qr_provider_id :: string
  qr_backup_provider_id :: string
  qr_source_workload_id :: string
  qr_plan_snapshot :: string
  qr_queued_at :: time

definition scan_queued_run :: "run_row \<Rightarrow> queued_run" where
  "scan_queued_run r =
     \<lparr>qr_id = rr_id r, qr_plan_name = rr_plan_name r, qr_provider_id = rr_provider_id r,
      qr_backup_provider_id = string_of_null (rr_backup_provider_id r),
      qr_source_workload_id = rr_source_workload_id r, qr_plan_snapshot = rr_plan_snapshot r,
      qr_queued_at = parse_null_time (rr_queued_at r)\<rparr>"

text \<open>The claim: the oldest queued run with no owner, taken in the transaction that read it.\<close>

definition claimable :: "run_row \<Rightarrow> bool" where
  "claimable r \<longleftrightarrow> rr_state r = RunQueued \<and> rr_lease_owner r = None"

definition select_claimable :: "dialect \<Rightarrow> db \<Rightarrow> run_row option" where
  "select_claimable d s =
     (case limit_rows 1 (order_by (\<lambda>a b. null_le d (rr_queued_at a) (rr_queued_at b))
             (filter claimable (db_runs s))) of
        [] \<Rightarrow> None | r # _ \<Rightarrow> Some r)"

definition take_lease :: "string \<Rightarrow> string \<Rightarrow> time \<Rightarrow> db \<Rightarrow> nat \<times> db" where
  "take_lease rid owner until s =
     (let p = (\<lambda>r. rr_id r = rid \<and> rr_lease_owner r = None)
      in (count_where p (db_runs s),
          map_runs (update_where p (\<lambda>r. r\<lparr>rr_lease_owner := Some owner, rr_lease_expires_at := Some until\<rparr>)) s))"

definition claim_run :: "dialect \<Rightarrow> string \<Rightarrow> duration \<Rightarrow> time \<Rightarrow> db \<Rightarrow> (goerr + queued_run) \<times> db" where
  "claim_run d owner lease now_time s =
     (case select_claimable d s of
        None \<Rightarrow> (Inl (Sentinel StoreNoWork), s)
      | Some r \<Rightarrow>
          (let q = scan_queued_run r in
           case take_lease (qr_id q) owner (now_time + lease) s of
             (n, s') \<Rightarrow> if n \<noteq> 1 then (Inl (Sentinel StoreNoWork), s) else (Inr q, s')))"

definition renew_lease :: "string \<Rightarrow> string \<Rightarrow> time \<Rightarrow> db \<Rightarrow> (goerr + unit) \<times> db" where
  "renew_lease rid owner until s =
     (let p = (\<lambda>r. rr_id r = rid \<and> rr_lease_owner r = Some owner);
          s' = map_runs (update_where p (\<lambda>r. r\<lparr>rr_lease_expires_at := Some until\<rparr>)) s
      in if count_where p (db_runs s) \<noteq> 1
         then (Inl (Plain (''store: run '' @ rid @ '' is not leased by '' @ owner)), s')
         else (Inr (), s'))"

definition finish_lease :: "string \<Rightarrow> db \<Rightarrow> db" where
  "finish_lease rid =
     map_runs (update_where (\<lambda>r. rr_id r = rid) (\<lambda>r. r\<lparr>rr_lease_expires_at := None\<rparr>))"

definition run_lease :: "string \<Rightarrow> db \<Rightarrow> goerr + string \<times> time" where
  "run_lease rid s =
     (case row_with rr_id rid (db_runs s) of
        None \<Rightarrow> Inl (wrap_prefix (Sentinel StoreNotFound) ('': '' @ rid))
      | Some r \<Rightarrow> Inr (string_of_null (rr_lease_owner r), parse_null_time (rr_lease_expires_at r)))"

text \<open>Claimed, not settled, and past its expiry. A comparison with NULL is never true.\<close>

definition is_stale :: "time \<Rightarrow> run_row \<Rightarrow> bool" where
  "is_stale now_time r \<longleftrightarrow> rr_lease_owner r \<noteq> None \<and> \<not> settled r \<and>
     (case rr_lease_expires_at r of None \<Rightarrow> False | Some t \<Rightarrow> t < now_time)"

definition stale_runs :: "dialect \<Rightarrow> time \<Rightarrow> db \<Rightarrow> queued_run list" where
  "stale_runs d now_time s =
     map scan_queued_run (order_by (\<lambda>a b. null_le d (rr_queued_at a) (rr_queued_at b))
       (filter (is_stale now_time) (db_runs s)))"

text \<open>\<open>ClaimRunForNotify\<close>: one statement, one winner.\<close>

definition claim_run_for_notify :: "string \<Rightarrow> time \<Rightarrow> db \<Rightarrow> bool \<times> db" where
  "claim_run_for_notify rid at_time s =
     (let p = (\<lambda>r. rr_id r = rid \<and> rr_notified_at r = None)
      in (count_where p (db_runs s) = 1,
          map_runs (update_where p (\<lambda>r. r\<lparr>rr_notified_at := Some at_time\<rparr>)) s))"

end
