(* ===== verification/History.thy ===== *)
theory History
  imports Queue
begin

text \<open>
  The rest of internal/store: listings (list.go), the decided schedule slots (schedule.go), the
  notification queue (notify.go) and the measured values (values.go).
\<close>

section \<open>Listing runs\<close>

record run_summary =
  rs_id :: string
  rs_plan_name :: string
  rs_plan_id :: string
  rs_source_workload_id :: string
  rs_source_name :: string
  rs_state :: run_state
  rs_result :: run_result
  rs_started_at :: time
  rs_completed_at :: time
  rs_rto :: duration
  rs_rto_target :: duration
  rs_cleanup_done :: bool
  rs_proof_level :: proof_level

definition scan_run_summary :: "run_row \<Rightarrow> run_summary" where
  "scan_run_summary r =
     \<lparr>rs_id = rr_id r, rs_plan_name = rr_plan_name r, rs_plan_id = string_of_null (rr_plan_id r),
      rs_source_workload_id = rr_source_workload_id r, rs_source_name = string_of_null (rr_source_name r),
      rs_state = rr_state r, rs_result = result_of_null (rr_result r), rs_started_at = rr_started_at r,
      rs_completed_at = parse_null_time (rr_completed_at r),
      rs_rto = ms_duration (int_of_null (rr_rto_ms r)),
      rs_rto_target = ms_duration (int_of_null (rr_rto_target_ms r)),
      rs_cleanup_done = int_to_bool (rr_cleanup_done r),
      rs_proof_level = fst (parse_proof_level (string_of_null (rr_proof_level r)))\<rparr>"

text \<open>\<open>Position\<close>: when a run started, then its id.\<close>

record position =
  po_started_at :: time
  po_id :: string

record run_filter =
  fi_workload_id :: string
  fi_state :: run_state
  fi_result :: run_result
  fi_since :: time
  fi_limit :: int
  fi_after :: "position option"
  fi_not_terminal :: bool

text \<open>\<open>text < text\<close> in byte order, and the clause that continues a listing.\<close>

definition str_less :: "string \<Rightarrow> string \<Rightarrow> bool" where
  "str_less a b \<longleftrightarrow> str_le_code a b \<and> a \<noteq> b"

definition before_position :: "position \<Rightarrow> run_row \<Rightarrow> bool" where
  "before_position p r \<longleftrightarrow>
     rr_started_at r < po_started_at p \<or> rr_started_at r = po_started_at p \<and> str_less (rr_id r) (po_id p)"

definition matches_filter :: "run_filter \<Rightarrow> run_row \<Rightarrow> bool" where
  "matches_filter f r \<longleftrightarrow>
     (fi_workload_id f = '''' \<or> rr_source_workload_id r = fi_workload_id f) \<and>
     (fi_state f = RunNoState \<or> rr_state r = fi_state f) \<and>
     (fi_result f = ResultNone \<or> rr_result r = Some (fi_result f)) \<and>
     (is_zero (fi_since f) \<or> fi_since f \<le> rr_started_at r) \<and>
     (\<not> fi_not_terminal f \<or> \<not> settled r) \<and>
     (case fi_after f of None \<Rightarrow> True | Some p \<Rightarrow> before_position p r)"

definition newest_run :: "run_row \<Rightarrow> run_row \<Rightarrow> bool" where
  "newest_run = newest_first rr_started_at rr_id"

definition list_runs :: "run_filter \<Rightarrow> db \<Rightarrow> run_summary list" where
  "list_runs f s =
     map scan_run_summary (limit_rows (limit_or_default (fi_limit f))
       (order_by newest_run (filter (matches_filter f) (db_runs s))))"

text \<open>
  \<open>LastRuns\<close>: the first row of each workload's partition, in the same order. The answer is a map
  from the ids that were asked for and have a run.
\<close>

definition last_run :: "string \<Rightarrow> db \<Rightarrow> run_row option" where
  "last_run wid s =
     (case order_by newest_run (filter (\<lambda>r. rr_source_workload_id r = wid) (db_runs s)) of
        [] \<Rightarrow> None | r # _ \<Rightarrow> Some r)"

definition last_runs :: "string list \<Rightarrow> db \<Rightarrow> (string \<rightharpoonup> run_summary)" where
  "last_runs ids s = (\<lambda>wid. if wid \<in> set ids then map_option scan_run_summary (last_run wid s) else None)"


section \<open>Schedule slots\<close>

record slot =
  so_plan_id :: string
  so_slot_at :: time
  so_decided_at :: time
  so_outcome :: slot_outcome
  so_reason :: string
  so_run_id :: string

definition slot_row_of :: "slot \<Rightarrow> slot_row" where
  "slot_row_of sl =
     \<lparr>sl_plan_id = so_plan_id sl, sl_slot_at = so_slot_at sl, sl_decided_at = so_decided_at sl,
      sl_outcome = so_outcome sl, sl_reason = null_string (so_reason sl), sl_run_id = null_string (so_run_id sl)\<rparr>"

definition scan_slot :: "slot_row \<Rightarrow> slot" where
  "scan_slot r =
     \<lparr>so_plan_id = sl_plan_id r, so_slot_at = sl_slot_at r, so_decided_at = sl_decided_at r,
      so_outcome = sl_outcome r, so_reason = string_of_null (sl_reason r), so_run_id = string_of_null (sl_run_id r)\<rparr>"

definition slot_key :: "slot_row \<Rightarrow> string \<times> time" where
  "slot_key r = (sl_plan_id r, sl_slot_at r)"

text \<open>
  The insert of a slot: no row when the slot is decided already; the foreign keys refuse a plan or
  a run that is not there.
\<close>

definition insert_slot :: "goerr \<Rightarrow> slot_row \<Rightarrow> db \<Rightarrow> (goerr + nat) \<times> db" where
  "insert_slot ce row s =
     (if slot_key row \<in> slot_key ` set (db_slots s) then (Inr 0, s)
      else if sl_plan_id row \<notin> pr_id ` set (db_plans s) \<or>
        (case sl_run_id row of None \<Rightarrow> False | Some i \<Rightarrow> i \<notin> rr_id ` set (db_runs s)) then (Inl ce, s)
      else (Inr 1, s\<lparr>db_slots := db_slots s @ [row]\<rparr>))"

text \<open>
  \<open>ClaimSlot\<close>: the run and the slot in one transaction. An error rolls the tables back.
  The run is queued by the statement of \<open>Enqueue\<close>, at the instant of the decision.
\<close>

definition queue_slot_run ::
  "goerr \<Rightarrow> slot \<Rightarrow> recovery_run option \<Rightarrow> string \<Rightarrow> db \<Rightarrow> (goerr + unit) \<times> db" where
  "queue_slot_run ce sl run yaml s =
     (case (so_outcome sl, run) of
        (SlotQueued, Some r) \<Rightarrow> enqueue ce r yaml (so_decided_at sl) s
      | _ \<Rightarrow> (Inr (), s))"

definition claim_slot :: "goerr \<Rightarrow> slot \<Rightarrow> recovery_run option \<Rightarrow> string \<Rightarrow> db \<Rightarrow> (goerr + unit) \<times> db" where
  "claim_slot ce sl run yaml s =
     (if so_outcome sl = SlotQueued \<and> run = None
      then (Inl (Plain ''store: a queued slot needs the run it queued''), s)
      else
        (case queue_slot_run ce sl run yaml s of
           (Inl e, _) \<Rightarrow> (Inl e, s)
         | (Inr _, s1) \<Rightarrow>
             (case insert_slot ce (slot_row_of sl) s1 of
                (Inl e, _) \<Rightarrow> (Inl e, s)
              | (Inr n, s2) \<Rightarrow> if n = 0 then (Inl (Sentinel StoreDuplicate), s) else (Inr (), s2))))"

definition last_slot :: "string \<Rightarrow> db \<Rightarrow> goerr + slot" where
  "last_slot plan s =
     (case order_by (\<lambda>a b. sl_slot_at b \<le> sl_slot_at a) (filter (\<lambda>r. sl_plan_id r = plan) (db_slots s)) of
        [] \<Rightarrow> Inl (Sentinel StoreNotFound) | r # _ \<Rightarrow> Inr (scan_slot r))"

text \<open>The listing joins the plans in when it filters by workload.\<close>

definition list_slots :: "string \<Rightarrow> string \<Rightarrow> int \<Rightarrow> db \<Rightarrow> slot list" where
  "list_slots plan wid limit s =
     map scan_slot (limit_rows (limit_or_default limit)
       (order_by (\<lambda>a b. sl_slot_at b \<le> sl_slot_at a)
         (filter (\<lambda>r. (wid = '''' \<or> list_ex (\<lambda>p. pr_id p = sl_plan_id r \<and> pr_workload_id p = wid) (db_plans s)) \<and>
                      (plan = '''' \<or> sl_plan_id r = plan)) (db_slots s))))"


section \<open>Notifications\<close>

text \<open>\<open>COALESCE(completed_at, started_at)\<close>.\<close>

definition ended_at :: "run_row \<Rightarrow> time" where
  "ended_at r = (case rr_completed_at r of None \<Rightarrow> rr_started_at r | Some t \<Rightarrow> t)"

definition unnotified_runs :: "int \<Rightarrow> db \<Rightarrow> run_summary list" where
  "unnotified_runs limit s =
     map scan_run_summary (limit_rows (limit_or_default limit)
       (order_by (oldest_first ended_at rr_id)
         (filter (\<lambda>r. rr_notified_at r = None \<and> settled r) (db_runs s))))"

definition reached_verdict :: "run_row \<Rightarrow> bool" where
  "reached_verdict r \<longleftrightarrow> (case rr_result r of None \<Rightarrow> False | Some v \<Rightarrow> v \<noteq> ResultNone)"

definition previous_graded_run :: "string \<Rightarrow> position \<Rightarrow> db \<Rightarrow> run_row option" where
  "previous_graded_run wid p s =
     (case limit_rows 1 (order_by newest_run
             (filter (\<lambda>r. rr_source_workload_id r = wid \<and> before_position p r \<and> reached_verdict r) (db_runs s))) of
        [] \<Rightarrow> None | r # _ \<Rightarrow> Some r)"

definition preceding_run :: "string \<Rightarrow> position \<Rightarrow> db \<Rightarrow> run_row option" where
  "preceding_run wid p s =
     (case limit_rows 1 (order_by newest_run
             (filter (\<lambda>r. rr_source_workload_id r = wid \<and> before_position p r) (db_runs s))) of
        [] \<Rightarrow> None | r # _ \<Rightarrow> Some r)"

definition previous_story :: "string \<Rightarrow> position \<Rightarrow> db \<Rightarrow> run_summary option \<times> bool" where
  "previous_story wid p s =
     (map_option scan_run_summary (previous_graded_run wid p s),
      case preceding_run wid p s of None \<Rightarrow> False | Some r \<Rightarrow> rr_state r = RunInconclusive)"

definition delivery_row_of :: "delivery \<Rightarrow> delivery_row" where
  "delivery_row_of d =
     \<lparr>dr_id = dl_id d, dr_run_id = dl_run_id d, dr_channel_id = dl_channel_id d, dr_kind = dl_kind d,
      dr_state = dl_state d, dr_attempts = dl_attempts d, dr_next_at = format_null_time (dl_next_at d),
      dr_status = dl_status d, dr_error = null_string (dl_err d), dr_payload = dl_payload d,
      dr_created_at = dl_created_at d, dr_sent_at = format_null_time (dl_sent_at d)\<rparr>"

definition scan_delivery :: "delivery_row \<Rightarrow> delivery" where
  "scan_delivery r =
     \<lparr>dl_id = dr_id r, dl_run_id = dr_run_id r, dl_channel_id = dr_channel_id r, dl_kind = dr_kind r,
      dl_state = dr_state r, dl_attempts = dr_attempts r, dl_next_at = parse_null_time (dr_next_at r),
      dl_status = dr_status r, dl_err = string_of_null (dr_error r), dl_payload = dr_payload r,
      dl_created_at = dr_created_at r, dl_sent_at = parse_null_time (dr_sent_at r)\<rparr>"

definition delivery_key :: "delivery_row \<Rightarrow> string \<times> string" where
  "delivery_key r = (dr_run_id r, dr_channel_id r)"

definition store_error :: "string \<Rightarrow> goerr \<Rightarrow> goerr" where
  "store_error context_text e = Wrapped (context_text @ '': '' @ err_text e) e"

definition create_delivery :: "goerr \<Rightarrow> delivery \<Rightarrow> db \<Rightarrow> (goerr + unit) \<times> db" where
  "create_delivery ce d s =
     (if delivery_key (delivery_row_of d) \<in> delivery_key ` set (db_deliveries s)
      then (Inl (Sentinel StoreDuplicate), s)
      else if dl_id d \<in> dr_id ` set (db_deliveries s) \<or> \<not> run_exists (dl_run_id d) s
      then (Inl (store_error (''store: record delivery '' @ dl_id d @ '' for run '' @ dl_run_id d) ce), s)
      else (Inr (), s\<lparr>db_deliveries := db_deliveries s @ [delivery_row_of d]\<rparr>))"

definition is_due :: "time \<Rightarrow> delivery_row \<Rightarrow> bool" where
  "is_due now_time r \<longleftrightarrow> dr_state r = DeliveryPending \<and>
     (case dr_next_at r of None \<Rightarrow> True | Some t \<Rightarrow> t \<le> now_time)"

definition due_deliveries :: "dialect \<Rightarrow> time \<Rightarrow> int \<Rightarrow> db \<Rightarrow> delivery list" where
  "due_deliveries d now_time limit s =
     map scan_delivery (limit_rows (limit_or_default limit)
       (order_by (nulls_then_id d dr_next_at dr_id) (filter (is_due now_time) (db_deliveries s))))"

definition settle_row :: "delivery \<Rightarrow> delivery_row \<Rightarrow> delivery_row" where
  "settle_row d r = r\<lparr>dr_state := dl_state d, dr_attempts := dl_attempts d,
     dr_next_at := format_null_time (dl_next_at d), dr_status := dl_status d,
     dr_error := null_string (dl_err d), dr_sent_at := format_null_time (dl_sent_at d)\<rparr>"

definition settle_delivery :: "delivery \<Rightarrow> db \<Rightarrow> (goerr + unit) \<times> db" where
  "settle_delivery d s =
     (let p = (\<lambda>r. dr_id r = dl_id d)
      in if count_where p (db_deliveries s) = 0
         then (Inl (wrap_prefix (Sentinel StoreNotFound) ('': delivery '' @ dl_id d)), s)
         else (Inr (), s\<lparr>db_deliveries := update_where p (settle_row d) (db_deliveries s)\<rparr>))"

definition last_deliveries :: "string list \<Rightarrow> db \<Rightarrow> (string \<rightharpoonup> delivery)" where
  "last_deliveries ids s =
     (\<lambda>ch. if ch \<in> set ids then
        (case order_by (newest_first dr_created_at dr_id)
                (filter (\<lambda>r. dr_channel_id r = ch) (db_deliveries s)) of
           [] \<Rightarrow> None | r # _ \<Rightarrow> Some (scan_delivery r))
      else None)"


section \<open>Measured values\<close>

definition value_key :: "value_row \<Rightarrow> string \<times> int \<times> string" where
  "value_key r = (vr_run_id r, vr_check_seq r, vr_name r)"

definition save_check_value :: "goerr \<Rightarrow> string \<Rightarrow> int \<Rightarrow> string \<Rightarrow> f64 \<Rightarrow> db \<Rightarrow> (goerr + unit) \<times> db" where
  "save_check_value ce rid seq name v s =
     (if \<not> run_exists rid s
      then (Inl (store_error (''store: record value '' @ quoted name @ '' of check '' @ itoa seq @
              '' of run '' @ rid) ce), s)
      else (Inr (), s\<lparr>db_values := upsert value_key
              \<lparr>vr_run_id = rid, vr_check_seq = seq, vr_name = name, vr_value = v\<rparr> (db_values s)\<rparr>))"

text \<open>The join of values, runs and checks, then the filter, the order and the limit.\<close>

definition value_joins :: "db \<Rightarrow> (value_row \<times> run_row \<times> check_row) list" where
  "value_joins s =
     concat (map (\<lambda>v. concat (map (\<lambda>r. concat (map (\<lambda>k.
       if rr_id r = vr_run_id v \<and> kr_run_id k = vr_run_id v \<and> kr_seq k = vr_check_seq v then [(v, r, k)] else [])
       (db_checks s))) (db_runs s))) (db_values s))"

definition captured_values :: "string \<Rightarrow> string \<Rightarrow> string \<Rightarrow> int \<Rightarrow> db \<Rightarrow> f64 list" where
  "captured_values wid check_name value_name limit s =
     map (\<lambda>(v, r, k). vr_value v) (limit_rows (limit_or_default limit)
       (order_by (newest_first (\<lambda>(v, r, k). rr_started_at r) (\<lambda>(v, r, k). rr_id r))
         (filter (\<lambda>(v, r, k). rr_source_workload_id r = wid \<and> kr_name k = check_name \<and>
            vr_name v = value_name \<and> reached_verdict r) (value_joins s))))"

text \<open>\<open>RunCheckValues\<close>: by check position, then by name.\<close>

definition run_check_values :: "string \<Rightarrow> db \<Rightarrow> (int \<rightharpoonup> (string \<rightharpoonup> f64))" where
  "run_check_values rid s =
     (let rows = filter (\<lambda>r. vr_run_id r = rid) (db_values s)
      in (\<lambda>seq. if list_ex (\<lambda>r. vr_check_seq r = seq) rows
           then Some (\<lambda>name. map_option vr_value (find (\<lambda>r. vr_check_seq r = seq \<and> vr_name r = name) rows))
           else None))"

end
