(* ===== verification/Plans.thy ===== *)
theory Plans
  imports Store
begin

text \<open>
  internal/store/plans.go: the catalogue of plans. A plan is written once under a name of its own,
  rewritten under a growing version, read by name, id or unique prefix of an id, and deleted
  without touching the runs it queued. Names are listed in byte order.
\<close>

section \<open>Operations\<close>

record stored_plan =
  sp_id :: string
  sp_name :: string
  sp_description :: string
  sp_workload_id :: string
  sp_provider_id :: string
  sp_yaml :: string
  sp_version :: int
  sp_created_at :: time
  sp_updated_at :: time

definition new_plan_row :: "stored_plan \<Rightarrow> plan_row" where
  "new_plan_row p =
     \<lparr>pr_id = sp_id p, pr_name = sp_name p, pr_description = null_string (sp_description p),
      pr_workload_id = sp_workload_id p, pr_provider_id = null_string (sp_provider_id p),
      pr_yaml = sp_yaml p, pr_version = 1, pr_created_at = sp_created_at p, pr_updated_at = sp_updated_at p\<rparr>"

definition scan_plan :: "plan_row \<Rightarrow> stored_plan" where
  "scan_plan r =
     \<lparr>sp_id = pr_id r, sp_name = pr_name r, sp_description = string_of_null (pr_description r),
      sp_workload_id = pr_workload_id r, sp_provider_id = string_of_null (pr_provider_id r),
      sp_yaml = pr_yaml r, sp_version = pr_version r, sp_created_at = pr_created_at r,
      sp_updated_at = pr_updated_at r\<rparr>"

definition create_plan :: "goerr \<Rightarrow> stored_plan \<Rightarrow> db \<Rightarrow> (goerr + unit) \<times> db" where
  "create_plan ce p s =
     (if sp_name p \<in> pr_name ` set (db_plans s) then (Inl (Sentinel StoreDuplicate), s)
      else if sp_id p \<in> pr_id ` set (db_plans s) then (Inl ce, s)
      else (Inr (), s\<lparr>db_plans := db_plans s @ [new_plan_row p]\<rparr>))"

text \<open>\<open>resolvePlanRef\<close>: the name first, then the id, then a prefix of an id that only one plan has.\<close>

definition resolve_plan_ref :: "dialect \<Rightarrow> string \<Rightarrow> db \<Rightarrow> goerr + string" where
  "resolve_plan_ref d ref s =
     (if ref = '''' then Inl (Sentinel StoreNotFound)
      else case row_with pr_name ref (db_plans s) of
        Some r \<Rightarrow> Inr (pr_id r)
      | None \<Rightarrow>
          (case row_with pr_id ref (db_plans s) of
             Some r \<Rightarrow> Inr (pr_id r)
           | None \<Rightarrow>
               (case prefix_matches d pr_id ref (db_plans s) of
                  [] \<Rightarrow> Inl (Sentinel StoreNotFound)
                | [i] \<Rightarrow> Inr i
                | _ \<Rightarrow> Inl (Sentinel StoreAmbiguous))))"

definition get_plan :: "dialect \<Rightarrow> string \<Rightarrow> db \<Rightarrow> goerr + stored_plan" where
  "get_plan d ref s =
     (case resolve_plan_ref d ref s of
        Inl e \<Rightarrow> Inl e
      | Inr i \<Rightarrow>
          (case row_with pr_id i (db_plans s) of
             None \<Rightarrow> Inl (Sentinel StoreNotFound)
           | Some r \<Rightarrow> Inr (scan_plan r)))"

text \<open>
  \<open>UpdatePlan\<close>: the row of the id, and of the expected version when one is given. The unique index
  on names refuses a name another plan has.
\<close>

definition rewritten_plan :: "stored_plan \<Rightarrow> plan_row \<Rightarrow> plan_row" where
  "rewritten_plan p r = r\<lparr>pr_name := sp_name p, pr_description := null_string (sp_description p),
     pr_workload_id := sp_workload_id p, pr_provider_id := null_string (sp_provider_id p),
     pr_yaml := sp_yaml p, pr_version := pr_version r + 1, pr_updated_at := sp_updated_at p\<rparr>"

definition update_plan :: "dialect \<Rightarrow> goerr \<Rightarrow> stored_plan \<Rightarrow> int \<Rightarrow> db \<Rightarrow> (goerr + unit) \<times> db" where
  "update_plan d ce p expected s =
     (case resolve_plan_ref d (sp_id p) s of
        Inl e \<Rightarrow> (Inl e, s)
      | Inr i \<Rightarrow>
          (let target = (\<lambda>r. pr_id r = i \<and> (expected > 0 \<longrightarrow> pr_version r = expected)) in
           if count_where target (db_plans s) = 0 then (Inl (Sentinel StoreVersionConflict), s)
           else if list_ex (\<lambda>r. pr_id r \<noteq> i \<and> pr_name r = sp_name p) (db_plans s) then (Inl ce, s)
           else (Inr (), s\<lparr>db_plans := update_where target (rewritten_plan p) (db_plans s)\<rparr>)))"

definition list_plans :: "string \<Rightarrow> int \<Rightarrow> db \<Rightarrow> stored_plan list" where
  "list_plans wid limit s =
     map scan_plan (limit_rows (limit_or_default limit)
       (order_by (\<lambda>a b. str_le_code (pr_name a) (pr_name b))
         (filter (\<lambda>r. wid = '''' \<or> pr_workload_id r = wid) (db_plans s))))"

text \<open>
  \<open>DeletePlan\<close>: the foreign keys clear the plan of its runs and take its slots with it.
\<close>

definition forget_plan :: "string \<Rightarrow> db \<Rightarrow> db" where
  "forget_plan i s =
     s\<lparr>db_plans := filter (\<lambda>r. pr_id r \<noteq> i) (db_plans s),
       db_runs := update_where (\<lambda>r. rr_plan_id r = Some i) (\<lambda>r. r\<lparr>rr_plan_id := None\<rparr>) (db_runs s),
       db_slots := filter (\<lambda>r. sl_plan_id r \<noteq> i) (db_slots s)\<rparr>"

definition delete_plan :: "dialect \<Rightarrow> string \<Rightarrow> db \<Rightarrow> (goerr + unit) \<times> db" where
  "delete_plan d ref s =
     (case resolve_plan_ref d ref s of
        Inl e \<Rightarrow> (Inl e, s)
      | Inr i \<Rightarrow>
          if count_where (\<lambda>r. pr_id r = i) (db_plans s) = 0 then (Inl (Sentinel StoreNotFound), s)
          else (Inr (), forget_plan i s))"


section \<open>The catalogue\<close>

definition unique_plans :: "db \<Rightarrow> bool" where
  "unique_plans s \<longleftrightarrow> distinct (map pr_id (db_plans s)) \<and> distinct (map pr_name (db_plans s))"

interpretation by_name: row_order "\<lambda>a b. str_le_code (pr_name a) (pr_name b)"
  by (unfold_locales; (rule str_le_total | erule str_le_trans, assumption))

lemma unique_create: "unique_plans s \<Longrightarrow> unique_plans (snd (create_plan ce p s))"
  by (auto simp: unique_plans_def create_plan_def new_plan_row_def)

lemma map_update_one:
  assumes "distinct (map key rows)" "k' \<notin> key ` set (filter (\<lambda>r. key' r \<noteq> i) rows)"
    and "\<And>r. p r \<Longrightarrow> key' r = i" "\<And>r. p r \<Longrightarrow> key (f r) = k'" "distinct (map key' rows)"
  shows "distinct (map key (update_where p f rows))"
  using assms
proof (induction rows)
  case (Cons x xs)
  have tl: "distinct (map key (update_where p f xs))" using Cons by (auto split: if_splits)
  have new: "key r = k' \<Longrightarrow> r \<in> set (x # xs) \<Longrightarrow> key' r = i" for r using Cons.prems(2) by (auto split: if_splits)
  have apart: "key (if p x then f x else x) \<noteq> key (if p r then f r else r)" if r: "r \<in> set xs" for r
  proof -
    have keys: "key x \<noteq> key r" "key' x \<noteq> key' r" using Cons.prems(1,5) r by auto
    show ?thesis
      using keys Cons.prems(3) [of x] Cons.prems(3) [of r] Cons.prems(4) [of x] Cons.prems(4) [of r]
        new [of x] new [of r] r by (cases "p x"; cases "p r") auto
  qed
  then have "key (if p x then f x else x) \<notin> set (map key (update_where p f xs))"
    by (fastforce simp: update_where_def simp del: if_image_distrib)
  then show ?case using tl by (simp only: update_where_def list.map distinct.simps simp_thms)
qed (simp add: update_where_def)

lemma unique_update:
  assumes "unique_plans s"
  shows "unique_plans (snd (update_plan d ce p expected s))"
proof (cases "resolve_plan_ref d (sp_id p) s")
  case (Inr i)
  let ?t = "\<lambda>r. pr_id r = i \<and> (expected > 0 \<longrightarrow> pr_version r = expected)"
  show ?thesis
  proof (cases "count_where ?t (db_plans s) = 0 \<or> list_ex (\<lambda>r. pr_id r \<noteq> i \<and> pr_name r = sp_name p) (db_plans s)")
    case False
    then have free: "sp_name p \<notin> pr_name ` set (filter (\<lambda>r. pr_id r \<noteq> i) (db_plans s))"
      by (auto simp: list_ex_iff)
    have "distinct (map pr_name (update_where ?t (rewritten_plan p) (db_plans s)))"
      by (rule map_update_one [where i = i and key' = pr_id and k' = "sp_name p", OF _ free])
        (use assms in \<open>simp_all add: unique_plans_def rewritten_plan_def\<close>)
    moreover have "map pr_id (update_where ?t (rewritten_plan p) (db_plans s)) = map pr_id (db_plans s)"
      by (rule map_update_where) (simp add: rewritten_plan_def)
    ultimately show ?thesis using False Inr assms by (simp add: update_plan_def unique_plans_def Let_def)
  qed (use Inr assms in \<open>auto simp: update_plan_def Let_def\<close>)
qed (use assms in \<open>simp add: update_plan_def\<close>)

lemma unique_delete: "unique_plans s \<Longrightarrow> unique_plans (snd (delete_plan d ref s))"
  by (auto simp: delete_plan_def forget_plan_def unique_plans_def distinct_map_filter split: sum.split)

end
