(* ===== verification/Access.thy ===== *)
theory Access
  imports Store
begin

text \<open>
  Who may use the API: tokens and sessions in the store (internal/store/tokens.go, sessions.go), and
  the authentication of a request (internal/api/auth.go, session.go). SHA-256, the random bytes of a
  secret, \<open>url.Parse\<close> and the address parser are parameters; a request is the fields these
  functions read.
\<close>

section \<open>Tokens\<close>

record api_token =
  to_id :: string
  to_name :: string
  to_hash :: string
  to_created_at :: time
  to_last_used_at :: time
  to_revoked_at :: time
  to_scopes :: "string list"

definition scope_read :: string where "scope_read = ''read''"
definition scope_operate :: string where "scope_operate = ''operate''"
definition scope_manage :: string where "scope_manage = ''manage''"

definition token_live :: "api_token \<Rightarrow> bool" where "token_live t = is_zero (to_revoked_at t)"

definition token_can :: "api_token \<Rightarrow> string \<Rightarrow> bool" where
  "token_can t scope \<longleftrightarrow> scope = scope_read \<or> scope \<in> set (to_scopes t)"

definition encode_scopes :: "string list \<Rightarrow> string" where
  "encode_scopes scopes = (if scopes = [] then scope_read else join '','' scopes)"

definition decode_scopes :: "string \<Rightarrow> string list" where
  "decode_scopes raw = (if raw = '''' then [scope_read] else split_on (CHR '','') raw)"

definition scan_token :: "token_row \<Rightarrow> api_token" where
  "scan_token r =
     \<lparr>to_id = tk_id r, to_name = tk_name r, to_hash = tk_hash r, to_created_at = tk_created_at r,
      to_last_used_at = parse_null_time (tk_last_used_at r), to_revoked_at = parse_null_time (tk_revoked_at r),
      to_scopes = decode_scopes (tk_scopes r)\<rparr>"

definition new_token_row :: "api_token \<Rightarrow> token_row" where
  "new_token_row t =
     \<lparr>tk_id = to_id t, tk_name = to_name t, tk_hash = to_hash t, tk_created_at = to_created_at t,
      tk_last_used_at = None, tk_revoked_at = None, tk_scopes = encode_scopes (to_scopes t)\<rparr>"

definition token_refused :: "api_token \<Rightarrow> db \<Rightarrow> bool" where
  "token_refused t s \<longleftrightarrow> list_ex (\<lambda>r. tk_id r = to_id t \<or> tk_name r = to_name t \<or> tk_hash r = to_hash t) (db_tokens s)"

definition create_token :: "goerr \<Rightarrow> api_token \<Rightarrow> db \<Rightarrow> (goerr + unit) \<times> db" where
  "create_token ce t s =
     (if to_hash t = '''' then (Inl (Plain ''store: refusing to record a token with no hash''), s)
      else if token_refused t s then (Inl ce, s)
      else (Inr (), s\<lparr>db_tokens := db_tokens s @ [new_token_row t]\<rparr>))"

definition token_by_hash :: "string \<Rightarrow> db \<Rightarrow> goerr + api_token" where
  "token_by_hash h s =
     (case find (\<lambda>r. tk_hash r = h \<and> tk_revoked_at r = None) (db_tokens s) of
        None \<Rightarrow> Inl (Sentinel StoreNotFound) | Some r \<Rightarrow> Inr (scan_token r))"

definition list_tokens :: "db \<Rightarrow> api_token list" where
  "list_tokens s = map scan_token (order_by (oldest_first tk_created_at tk_id) (db_tokens s))"

definition revoke_token :: "string \<Rightarrow> time \<Rightarrow> db \<Rightarrow> (goerr + unit) \<times> db" where
  "revoke_token name at_time s =
     (let p = (\<lambda>r. tk_name r = name \<and> tk_revoked_at r = None)
      in if count_where p (db_tokens s) = 0
         then (Inl (wrap_prefix (Sentinel StoreNotFound) ('': token '' @ name)), s)
         else (Inr (), s\<lparr>db_tokens := update_where p (\<lambda>r. r\<lparr>tk_revoked_at := Some at_time\<rparr>) (db_tokens s)\<rparr>))"

definition touch_token :: "string \<Rightarrow> time \<Rightarrow> db \<Rightarrow> db" where
  "touch_token i at_time s =
     s\<lparr>db_tokens := update_where (\<lambda>r. tk_id r = i) (\<lambda>r. r\<lparr>tk_last_used_at := Some at_time\<rparr>) (db_tokens s)\<rparr>"


section \<open>Sessions\<close>

record session =
  se_id :: string
  se_hash :: string
  se_token_id :: string
  se_created_at :: time
  se_expires_at :: time
  se_user_agent :: string

definition max_user_agent :: nat where "max_user_agent = 256"

text \<open>\<open>encodeUserAgent\<close>; \<open>repair\<close> is \<open>strings.ToValidUTF8\<close>.\<close>

definition encode_user_agent :: "(string \<Rightarrow> string) \<Rightarrow> string \<Rightarrow> string option" where
  "encode_user_agent repair ua =
     (if ua = '''' then None
      else Some (if length ua > max_user_agent then repair (take max_user_agent ua) else ua))"

definition new_session_row :: "(string \<Rightarrow> string) \<Rightarrow> session \<Rightarrow> session_row" where
  "new_session_row repair ss =
     \<lparr>ss_id = se_id ss, ss_hash = se_hash ss, ss_token_id = se_token_id ss, ss_created_at = se_created_at ss,
      ss_expires_at = se_expires_at ss, ss_user_agent = encode_user_agent repair (se_user_agent ss)\<rparr>"

definition scan_session :: "session_row \<Rightarrow> session" where
  "scan_session r =
     \<lparr>se_id = ss_id r, se_hash = ss_hash r, se_token_id = ss_token_id r, se_created_at = ss_created_at r,
      se_expires_at = ss_expires_at r, se_user_agent = string_of_null (ss_user_agent r)\<rparr>"

definition live_sessions :: "time \<Rightarrow> session_row list \<Rightarrow> session_row list" where
  "live_sessions now_time rs = filter (\<lambda>r. \<not> ss_expires_at r \<le> now_time) rs"

text \<open>The sweep and the insert are one transaction.\<close>

definition create_session :: "(string \<Rightarrow> string) \<Rightarrow> goerr \<Rightarrow> session \<Rightarrow> time \<Rightarrow> db \<Rightarrow> (goerr + unit) \<times> db" where
  "create_session repair ce ss now_time s =
     (if se_hash ss = '''' then (Inl (Plain ''store: refusing to record a session with no hash''), s)
      else
        (let rows = live_sessions now_time (db_sessions s) in
         if list_ex (\<lambda>r. ss_id r = se_id ss \<or> ss_hash r = se_hash ss) rows \<or>
            se_token_id ss \<notin> tk_id ` set (db_tokens s) then (Inl ce, s)
         else (Inr (), s\<lparr>db_sessions := rows @ [new_session_row repair ss]\<rparr>)))"

definition session_by_hash :: "string \<Rightarrow> time \<Rightarrow> db \<Rightarrow> goerr + session \<times> api_token" where
  "session_by_hash h now_time s =
     (case [(r, t). r \<leftarrow> db_sessions s, t \<leftarrow> db_tokens s, ss_hash r = h \<and> ss_expires_at r > now_time \<and>
              tk_id t = ss_token_id r \<and> tk_revoked_at t = None] of
        [] \<Rightarrow> Inl (Sentinel StoreNotFound)
      | (r, t) # _ \<Rightarrow> Inr (scan_session r, scan_token t))"

definition delete_session :: "string \<Rightarrow> db \<Rightarrow> db" where
  "delete_session h s = s\<lparr>db_sessions := filter (\<lambda>r. ss_hash r \<noteq> h) (db_sessions s)\<rparr>"

definition delete_expired_sessions :: "time \<Rightarrow> db \<Rightarrow> nat \<times> db" where
  "delete_expired_sessions now_time s =
     (count_where (\<lambda>r. ss_expires_at r \<le> now_time) (db_sessions s),
      s\<lparr>db_sessions := live_sessions now_time (db_sessions s)\<rparr>)"


section \<open>Requests\<close>

record request =
  hq_method :: string
  hq_authorization :: string
  hq_cookie :: "string option"
  hq_origin :: string
  hq_host :: string
  hq_tls :: bool
  hq_forwarded_proto :: string
  hq_user_agent :: string
  hq_body_token :: "string option"

record api_env =
  ae_hash :: "string \<Rightarrow> string"
  ae_origin_host :: "string \<Rightarrow> string option"
  ae_split_host :: "string \<Rightarrow> string option"
  ae_loopback :: "string \<Rightarrow> bool"
  ae_fault :: "goerr option"

definition equal_fold :: "string \<Rightarrow> string \<Rightarrow> bool" where "equal_fold a b \<longleftrightarrow> to_lower a = to_lower b"

definition bearer_token :: "string \<Rightarrow> string option" where
  "bearer_token header =
     (let scheme = takeWhile (\<lambda>c. c \<noteq> CHR '' '') header;
          rest = dropWhile (\<lambda>c. c \<noteq> CHR '' '') header
      in if rest = '''' \<or> \<not> equal_fold scheme ''Bearer'' then None
         else (let secret = trim_space (tl rest) in if secret = '''' then None else Some secret))"

definition safe_method :: "string \<Rightarrow> bool" where
  "safe_method m \<longleftrightarrow> m = ''GET'' \<or> m = ''HEAD'' \<or> m = ''OPTIONS''"

definition same_origin_request :: "api_env \<Rightarrow> request \<Rightarrow> bool" where
  "same_origin_request ae r \<longleftrightarrow> hq_origin r \<noteq> '''' \<and>
     (case ae_origin_host ae (hq_origin r) of
        None \<Rightarrow> False | Some h \<Rightarrow> h \<noteq> '''' \<and> equal_fold h (hq_host r))"

definition is_bracket :: "char \<Rightarrow> bool" where "is_bracket c \<longleftrightarrow> c = CHR ''['' \<or> c = CHR '']''"

definition is_loopback_host :: "api_env \<Rightarrow> string \<Rightarrow> bool" where
  "is_loopback_host ae hostport =
     (let host = (case ae_split_host ae hostport of Some h \<Rightarrow> h | None \<Rightarrow> hostport)
      in equal_fold host ''localhost'' \<or> ae_loopback ae (trim_by is_bracket host))"

definition secure_transport :: "api_env \<Rightarrow> request \<Rightarrow> bool" where
  "secure_transport ae r \<longleftrightarrow> hq_tls r \<or> equal_fold (hq_forwarded_proto r) ''https'' \<or> is_loopback_host ae (hq_host r)"


section \<open>Authentication\<close>

text \<open>The server's state here: the database, and when each token was last noted as used.\<close>

record api_state =
  ap_db :: db
  ap_last :: "string \<rightharpoonup> time"

definition default_touch_interval :: duration where "default_touch_interval = minute"

definition record_touch :: "string \<Rightarrow> time \<Rightarrow> api_state \<Rightarrow> api_state" where
  "record_touch i now_time s =
     (case ap_last s i of
        Some seen \<Rightarrow> if time_sub now_time seen < default_touch_interval then s
          else s\<lparr>ap_last := (ap_last s)(i \<mapsto> now_time), ap_db := touch_token i now_time (ap_db s)\<rparr>
      | None \<Rightarrow> s\<lparr>ap_last := (ap_last s)(i \<mapsto> now_time), ap_db := touch_token i now_time (ap_db s)\<rparr>)"

datatype refusal = NotConfigured | Unauthorized | StoreProblem goerr | CrossOrigin | InsufficientScope string

definition authenticate_token ::
  "api_env \<Rightarrow> time \<Rightarrow> string \<Rightarrow> api_state \<Rightarrow> (refusal + api_token) \<times> api_state" where
  "authenticate_token ae now_time secret s =
     (case ae_fault ae of
        Some e \<Rightarrow> (Inl (if errors_is e StoreNotFound then Unauthorized else StoreProblem e), s)
      | None \<Rightarrow>
          (case token_by_hash (ae_hash ae secret) (ap_db s) of
             Inl e \<Rightarrow> (Inl (if errors_is e StoreNotFound then Unauthorized else StoreProblem e), s)
           | Inr t \<Rightarrow>
               if to_hash t \<noteq> ae_hash ae secret then (Inl Unauthorized, s)
               else (Inr t, record_touch (to_id t) now_time s)))"

definition authenticate_session ::
  "api_env \<Rightarrow> time \<Rightarrow> request \<Rightarrow> string \<Rightarrow> api_state \<Rightarrow> (refusal + api_token \<times> session) \<times> api_state" where
  "authenticate_session ae now_time r secret s =
     (case ae_fault ae of
        Some e \<Rightarrow> (Inl (if errors_is e StoreNotFound then Unauthorized else StoreProblem e), s)
      | None \<Rightarrow>
          (case session_by_hash (ae_hash ae secret) now_time (ap_db s) of
             Inl e \<Rightarrow> (Inl (if errors_is e StoreNotFound then Unauthorized else StoreProblem e), s)
           | Inr (ss, t) \<Rightarrow>
               if \<not> safe_method (hq_method r) \<and> \<not> same_origin_request ae r then (Inl CrossOrigin, s)
               else (Inr (t, ss), record_touch (to_id t) now_time s)))"

definition authenticate ::
  "api_env \<Rightarrow> time \<Rightarrow> request \<Rightarrow> api_state \<Rightarrow> (refusal + api_token \<times> session option) \<times> api_state" where
  "authenticate ae now_time r s =
     (case bearer_token (hq_authorization r) of
        Some secret \<Rightarrow>
          (case authenticate_token ae now_time secret s of
             (Inl e, s) \<Rightarrow> (Inl e, s) | (Inr t, s) \<Rightarrow> (Inr (t, None), s))
      | None \<Rightarrow>
          (case hq_cookie r of
             None \<Rightarrow> (Inl Unauthorized, s)
           | Some c \<Rightarrow>
               if c = '''' then (Inl Unauthorized, s)
               else (case authenticate_session ae now_time r c s of
                       (Inl e, s) \<Rightarrow> (Inl e, s) | (Inr (t, ss), s) \<Rightarrow> (Inr (t, Some ss), s))))"

text \<open>\<open>requireScope\<close>: the handler runs for the token and session on the right.\<close>

definition require_scope ::
  "bool \<Rightarrow> string \<Rightarrow> api_env \<Rightarrow> time \<Rightarrow> request \<Rightarrow> api_state \<Rightarrow> (refusal + api_token \<times> session option) \<times> api_state" where
  "require_scope unconfigured scope ae now_time r s =
     (if unconfigured then (Inl NotConfigured, s)
      else
        (case authenticate ae now_time r s of
           (Inl e, s) \<Rightarrow> (Inl e, s)
         | (Inr (t, ss), s) \<Rightarrow>
             if \<not> token_can t scope then (Inl (InsufficientScope scope), s) else (Inr (t, ss), s)))"


section \<open>Logging in and out\<close>

definition session_lifetime :: duration where "session_lifetime = 12 * hour"
definition session_prefix :: string where "session_prefix = ''rls_''"
definition token_prefix :: string where "token_prefix = ''rl_''"

text \<open>The random part of a secret, base64 encoded, is an argument.\<close>

definition new_token :: "(string \<Rightarrow> string) \<Rightarrow> string \<Rightarrow> string \<Rightarrow> string \<Rightarrow> time \<Rightarrow> string \<times> api_token" where
  "new_token h i random name now_time =
     (let secret = token_prefix @ random
      in (secret, \<lparr>to_id = i, to_name = name, to_hash = h secret, to_created_at = now_time,
            to_last_used_at = zero_time, to_revoked_at = zero_time, to_scopes = []\<rparr>))"

definition new_session :: "(string \<Rightarrow> string) \<Rightarrow> string \<Rightarrow> string \<Rightarrow> string \<Rightarrow> string \<Rightarrow> time \<Rightarrow> string \<times> session" where
  "new_session h i random token_id user_agent now_time =
     (let secret = session_prefix @ random
      in (secret, \<lparr>se_id = i, se_hash = h secret, se_token_id = token_id, se_created_at = now_time,
            se_expires_at = now_time + session_lifetime, se_user_agent = user_agent\<rparr>))"

definition effective_scopes :: "api_token \<Rightarrow> string list" where
  "effective_scopes t = scope_read # filter (\<lambda>s. s \<noteq> scope_read) (to_scopes t)"

datatype login = LoginInsecure | LoginBadBody | LoginRefused refusal | LoggedIn string session api_token

definition handle_create_session ::
  "api_env \<Rightarrow> (string \<Rightarrow> string) \<Rightarrow> goerr \<Rightarrow> string \<Rightarrow> string \<Rightarrow> time \<Rightarrow> request \<Rightarrow> db \<Rightarrow> login \<times> db" where
  "handle_create_session ae repair ce i random now_time r s =
     (if \<not> secure_transport ae r then (LoginInsecure, s)
      else
        (case hq_body_token r of
           None \<Rightarrow> (LoginBadBody, s)
         | Some secret \<Rightarrow>
             if secret = '''' then (LoginBadBody, s)
             else
               (case (case ae_fault ae of Some e \<Rightarrow> Inl e | None \<Rightarrow> token_by_hash (ae_hash ae secret) s) of
                  Inl e \<Rightarrow> (LoginRefused (if errors_is e StoreNotFound then Unauthorized else StoreProblem e), s)
                | Inr t \<Rightarrow>
                    (case new_session (ae_hash ae) i random (to_id t) (hq_user_agent r) now_time of
                       (cookie, ss) \<Rightarrow>
                         (case create_session repair ce ss now_time s of
                            (Inl e, s) \<Rightarrow> (LoginRefused (StoreProblem e), s)
                          | (Inr _, s) \<Rightarrow> (LoggedIn cookie ss t, s))))))"

definition handle_delete_session :: "api_env \<Rightarrow> request \<Rightarrow> db \<Rightarrow> db" where
  "handle_delete_session ae r s =
     (case hq_cookie r of None \<Rightarrow> s
      | Some c \<Rightarrow> if c = '''' then s else (case ae_fault ae of Some e \<Rightarrow> s | None \<Rightarrow> delete_session (ae_hash ae c) s))"


section \<open>What it takes to be let in\<close>

definition token_behind :: "db \<Rightarrow> api_token \<Rightarrow> token_row \<Rightarrow> bool" where
  "token_behind s t row \<longleftrightarrow> row \<in> set (db_tokens s) \<and> t = scan_token row \<and> tk_revoked_at row = None"

lemma token_by_hash_Inr:
  assumes "token_by_hash h s = Inr t"
  shows "\<exists>row. token_behind s t row \<and> tk_hash row = h"
proof -
  obtain row where row: "find (\<lambda>r. tk_hash r = h \<and> tk_revoked_at r = None) (db_tokens s) = Some row" "t = scan_token row"
    using assms by (auto simp: token_by_hash_def split: option.splits)
  then have "row \<in> set (db_tokens s)" "tk_hash row = h" "tk_revoked_at row = None"
    by (auto simp: find_Some_iff)
  then show ?thesis unfolding token_behind_def using row(2) by blast
qed

lemma session_by_hash_Inr:
  assumes "session_by_hash h now_time s = Inr (ss, t)"
  shows "\<exists>row srow. token_behind s t row \<and> srow \<in> set (db_sessions s) \<and> ss = scan_session srow \<and>
    ss_hash srow = h \<and> ss_token_id srow = tk_id row \<and> now_time < ss_expires_at srow"
proof -
  obtain r tr rest where l: "[(r, t). r \<leftarrow> db_sessions s, t \<leftarrow> db_tokens s, ss_hash r = h \<and> ss_expires_at r > now_time \<and>
      tk_id t = ss_token_id r \<and> tk_revoked_at t = None] = (r, tr) # rest" "ss = scan_session r" "t = scan_token tr"
    using assms by (auto simp: session_by_hash_def split: list.splits)
  have "(r, tr) \<in> set [(r, t). r \<leftarrow> db_sessions s, t \<leftarrow> db_tokens s, ss_hash r = h \<and> ss_expires_at r > now_time \<and>
      tk_id t = ss_token_id r \<and> tk_revoked_at t = None]"
    unfolding l(1) by simp
  then have "r \<in> set (db_sessions s)" "tr \<in> set (db_tokens s)" "ss_hash r = h" "ss_expires_at r > now_time"
    "tk_id tr = ss_token_id r" "tk_revoked_at tr = None"
    by (auto split: if_splits)
  then show ?thesis unfolding token_behind_def using l(2,3) by metis
qed

text \<open>The credential behind an accepted request.\<close>

definition earned_by_token :: "api_env \<Rightarrow> request \<Rightarrow> token_row \<Rightarrow> bool" where
  "earned_by_token ae r row \<longleftrightarrow>
     (\<exists>secret. bearer_token (hq_authorization r) = Some secret \<and> tk_hash row = ae_hash ae secret)"

definition earned_by_session :: "api_env \<Rightarrow> time \<Rightarrow> request \<Rightarrow> db \<Rightarrow> token_row \<Rightarrow> session \<Rightarrow> bool" where
  "earned_by_session ae now_time r s row sess \<longleftrightarrow> bearer_token (hq_authorization r) = None \<and>
     (safe_method (hq_method r) \<or> same_origin_request ae r) \<and>
     (\<exists>c srow. hq_cookie r = Some c \<and> srow \<in> set (db_sessions s) \<and> sess = scan_session srow \<and>
        ss_hash srow = ae_hash ae c \<and> ss_token_id srow = tk_id row \<and> now_time < ss_expires_at srow)"

lemma authenticate_token_Inr:
  assumes "authenticate_token ae now_time secret s = (Inr t, s')"
  shows "\<exists>row. token_behind (ap_db s) t row \<and> tk_hash row = ae_hash ae secret"
proof (rule token_by_hash_Inr)
  show "token_by_hash (ae_hash ae secret) (ap_db s) = Inr t"
    using assms by (auto simp: authenticate_token_def split: option.splits sum.splits if_splits)
qed

lemma authenticate_session_Inr:
  assumes "authenticate_session ae now_time r c s = (Inr (t, sess), s')"
  shows "session_by_hash (ae_hash ae c) now_time (ap_db s) = Inr (sess, t)"
    and "safe_method (hq_method r) \<or> same_origin_request ae r"
  using assms by (auto simp: authenticate_session_def split: option.splits sum.splits if_splits)

lemma authenticate_Inr:
  assumes "authenticate ae now_time r s = (Inr (t, ss), s')"
  shows "\<exists>row. token_behind (ap_db s) t row \<and>
    (case ss of None \<Rightarrow> earned_by_token ae r row | Some sess \<Rightarrow> earned_by_session ae now_time r (ap_db s) row sess)"
proof (cases "bearer_token (hq_authorization r)")
  case (Some secret)
  then have got: "authenticate_token ae now_time secret s = (Inr t, s')" and "ss = None"
    using assms by (auto simp: authenticate_def split: prod.splits sum.splits)
  obtain row where "token_behind (ap_db s) t row" "tk_hash row = ae_hash ae secret"
    using authenticate_token_Inr [OF got] by blast
  then show ?thesis using Some \<open>ss = None\<close> unfolding earned_by_token_def by (intro exI [of _ row]) simp
next
  case None
  then obtain c sess where c: "hq_cookie r = Some c" "authenticate_session ae now_time r c s = (Inr (t, sess), s')"
    and ss: "ss = Some sess"
    using assms by (auto simp: authenticate_def split: option.splits prod.splits sum.splits if_splits)
  obtain row srow where rows: "token_behind (ap_db s) t row" "srow \<in> set (db_sessions (ap_db s))" "sess = scan_session srow"
    "ss_hash srow = ae_hash ae c" "ss_token_id srow = tk_id row" "now_time < ss_expires_at srow"
    using session_by_hash_Inr [OF authenticate_session_Inr(1) [OF c(2)]] by blast
  have "earned_by_session ae now_time r (ap_db s) row sess"
    unfolding earned_by_session_def using None authenticate_session_Inr(2) [OF c(2)] c(1) rows(2-6) by blast
  then show ?thesis using rows(1) ss by (intro exI [of _ row]) simp
qed

lemma require_scope_earned:
  assumes "require_scope unconfigured scope ae now_time r s = (Inr (t, ss), s')"
  shows "\<not> unconfigured \<and> token_can t scope \<and> (\<exists>row. token_behind (ap_db s) t row \<and>
    (case ss of None \<Rightarrow> earned_by_token ae r row | Some sess \<Rightarrow> earned_by_session ae now_time r (ap_db s) row sess))"
proof -
  have "authenticate ae now_time r s = (Inr (t, ss), s')" "\<not> unconfigured" "token_can t scope"
    using assms by (auto simp: require_scope_def split: if_splits prod.splits sum.splits)
  then show ?thesis using authenticate_Inr by blast
qed

text \<open>C25. A handler runs only for a credential that entitles to it. When a request is let through to a
  route, the server is configured, the token is a stored one that is not revoked and holds the
  route's scope, and either the request carries that token's secret in its Authorization header,
  or it has no such header, carries the cookie of a session of that token that has not expired, and
  is a read or comes from the server's own origin.\<close>

theorem access_is_earned:
  assumes "require_scope unconfigured scope ae now_time r s = (Inr (t, ss), s')"
  shows "\<not> unconfigured \<and> token_can t scope \<and> (\<exists>row. token_behind (ap_db s) t row \<and>
    (case ss of None \<Rightarrow> earned_by_token ae r row | Some sess \<Rightarrow> earned_by_session ae now_time r (ap_db s) row sess))"
  using assms by (rule require_scope_earned)

text \<open>A server that hashes by prefixing, with an operator's token, one session of it, and an older token.\<close>

definition sample_env :: api_env where
  "sample_env = \<lparr>ae_hash = (\<lambda>s. CHR ''h'' # s), ae_origin_host = (\<lambda>s. Some s), ae_split_host = (\<lambda>s. None),
     ae_loopback = (\<lambda>s. False), ae_fault = None\<rparr>"

definition sample_row :: token_row where
  "sample_row = \<lparr>tk_id = ''t1'', tk_name = ''ci'', tk_hash = ''hrl_1'', tk_created_at = 1, tk_last_used_at = None,
     tk_revoked_at = None, tk_scopes = ''read,operate''\<rparr>"

definition older_row :: token_row where "older_row = sample_row\<lparr>tk_id := ''t0'', tk_name := ''old'', tk_hash := ''h0''\<rparr>"

definition sample_session :: session_row where
  "sample_session = \<lparr>ss_id = ''s1'', ss_hash = ''hrls_1'', ss_token_id = ''t1'', ss_created_at = 1,
     ss_expires_at = 100, ss_user_agent = None\<rparr>"

definition sample_state :: api_state where
  "sample_state = \<lparr>ap_db = empty_db\<lparr>db_tokens := [sample_row, older_row], db_sessions := [sample_session]\<rparr>,
     ap_last = Map.empty\<rparr>"

definition sample_request :: request where
  "sample_request = \<lparr>hq_method = ''POST'', hq_authorization = [], hq_cookie = Some ''rls_1'', hq_origin = ''lab'',
     hq_host = ''lab'', hq_tls = True, hq_forwarded_proto = [], hq_user_agent = [], hq_body_token = None\<rparr>"

lemma sample_can: "token_can (scan_token sample_row) scope_operate"
  by (simp add: token_can_def scan_token_def sample_row_def decode_scopes_def scope_operate_def)

lemma sample_origin: "same_origin_request sample_env sample_request" by code_simp

lemma sample_lookup:
  assumes "db_tokens (ap_db st) = sample_row # rest" "db_sessions (ap_db st) = [sample_session]"
  shows "session_by_hash ''hrls_1'' 5 (ap_db st) = Inr (scan_session sample_session, scan_token sample_row)"
  using assms by (simp add: session_by_hash_def sample_session_def sample_row_def)

lemma sample_admitted:
  assumes "db_tokens (ap_db st) = sample_row # rest" "db_sessions (ap_db st) = [sample_session]"
  shows "\<exists>s'. require_scope False scope_operate sample_env 5 sample_request st =
    (Inr (scan_token sample_row, Some (scan_session sample_session)), s')"
proof -
  have f: "bearer_token (hq_authorization sample_request) = None" "hq_cookie sample_request = Some ''rls_1''"
    "ae_fault sample_env = None" "ae_hash sample_env ''rls_1'' = ''hrls_1''"
    by (simp_all add: sample_request_def sample_env_def bearer_token_def)
  show ?thesis
    by (simp add: require_scope_def authenticate_def authenticate_session_def f sample_lookup [OF assms]
        sample_origin sample_can)
qed

lemma access_is_earned_witness:
  "\<exists>row. token_behind (ap_db sample_state) (scan_token sample_row) row \<and>
     earned_by_session sample_env 5 sample_request (ap_db sample_state) row (scan_session sample_session)"
proof -
  obtain s' where "require_scope False scope_operate sample_env 5 sample_request sample_state =
    (Inr (scan_token sample_row, Some (scan_session sample_session)), s')"
    using sample_admitted [of sample_state] by (auto simp: sample_state_def)
  from access_is_earned [OF this] show ?thesis by simp
qed

lemma revoke_tokens:
  assumes "revoke_token name at_time s = (Inr u, s')" "row \<in> set (db_tokens s')" "tk_name row = name"
  shows "tk_revoked_at row \<noteq> None"
proof -
  let ?p = "\<lambda>r. tk_name r = name \<and> tk_revoked_at r = None"
  have "db_tokens s' = update_where ?p (\<lambda>r. r\<lparr>tk_revoked_at := Some at_time\<rparr>) (db_tokens s)"
    using assms(1) by (simp add: revoke_token_def Let_def split: if_splits) (auto)
  then obtain r where r: "row = (if ?p r then r\<lparr>tk_revoked_at := Some at_time\<rparr> else r)"
    using assms(2) by (auto simp only: update_where_def set_map)
  show ?thesis using assms(3) r by (cases "?p r") simp_all
qed

text \<open>Revoking a token takes effect at once, on the token and on every session opened with it: no
  request made afterwards, with whatever header, cookie or origin, is let in as a token of that name.\<close>

theorem revocation_is_immediate:
  assumes "revoke_token name at_time (ap_db s) = (Inr u, db')"
    "require_scope unconfigured scope ae now_time r (s\<lparr>ap_db := db'\<rparr>) = (Inr (t, ss), s')"
  shows "to_name t \<noteq> name"
proof -
  obtain row where "token_behind db' t row" using require_scope_earned [OF assms(2)] by auto
  then show ?thesis using revoke_tokens [OF assms(1), of row] by (auto simp: token_behind_def scan_token_def)
qed

lemma revocation_is_immediate_witness:
  "fst (revoke_token ''old'' 3 (ap_db sample_state)) = Inr () \<and> to_name (scan_token sample_row) \<noteq> ''old''"
proof -
  define db' where "db' = snd (revoke_token ''old'' 3 (ap_db sample_state))"
  have tokens: "db_tokens (ap_db sample_state) = [sample_row, older_row]"
    "db_sessions (ap_db sample_state) = [sample_session]" by (simp_all add: sample_state_def)
  have names: "tk_name sample_row = ''ci''" "tk_name older_row = ''old''" "tk_revoked_at older_row = None"
    by (simp_all add: sample_row_def older_row_def)
  have revoked: "revoke_token ''old'' 3 (ap_db sample_state) = (Inr (), db')"
    "db_tokens db' = [sample_row, older_row\<lparr>tk_revoked_at := Some 3\<rparr>]" "db_sessions db' = [sample_session]"
    unfolding db'_def revoke_token_def by (simp_all add: tokens names count_where_def update_where_def)
  obtain s' where "require_scope False scope_operate sample_env 5 sample_request (sample_state\<lparr>ap_db := db'\<rparr>) =
    (Inr (scan_token sample_row, Some (scan_session sample_session)), s')"
    using sample_admitted [of "sample_state\<lparr>ap_db := db'\<rparr>"] revoked(2,3) by auto
  from revocation_is_immediate [OF revoked(1) this] show ?thesis using revoked(1) by simp
qed

end
