(* ===== verification/Queue_Safety.thy ===== *)
theory Queue_Safety
  imports History Plans Access
begin

text \<open>
  What the queue promises whatever the workers, the scheduler, the dispatcher and the API do to the
  store, in any order: one transaction at a time, a run is claimed once, keeps its owner and its
  plan's document, and a settled run stays settled unless its own outcome is written.
\<close>

section \<open>Any transaction of the store\<close>

text \<open>
  One constructor per operation of the Store interface that writes, on whatever table: runs and their
  timeline, the queue, the decided slots, the messages, the measured values, the plans, the tokens and
  the sessions. \<open>UpdateRun\<close> writes the state without looking at it, so the relation is indexed by
  the outcomes it may write. A run recorded as it starts is never QUEUED (Recorder.Emit).
\<close>

inductive store_step :: "(recovery_run \<Rightarrow> bool) \<Rightarrow> db \<Rightarrow> db \<Rightarrow> bool" for may where
  created: "run_state run \<noteq> RunQueued \<Longrightarrow> store_step may s (snd (create_run ce run yaml s))"
| updated: "may run \<Longrightarrow> store_step may s (update_run run s)"
| temp_written: "store_step may s (set_temp_workload rid temp node s)"
| step_saved: "store_step may s (snd (save_step ce rid seq st s))"
| check_saved: "store_step may s (snd (save_check ce rid seq c s))"
| event_saved: "store_step may s (snd (append_event ce rid ev s))"
| value_saved: "store_step may s (snd (save_check_value ce rid seq name v s))"
| enqueued: "store_step may s (snd (enqueue ce run yaml at_time s))"
| state_written: "store_step may s (write_state rid st s)"
| error_written: "store_step may s (set_run_error rid message s)"
| cancel_requested: "store_step may s (snd (request_cancel rid at_time s))"
| claimed: "store_step may s (snd (claim_run d owner lease now_time s))"
| renewed: "store_step may s (snd (renew_lease rid owner until s))"
| finished: "store_step may s (finish_lease rid s)"
| slot_claimed: "store_step may s (snd (claim_slot ce sl queued yaml s))"
| announced: "store_step may s (snd (claim_run_for_notify rid at_time s))"
| delivery_created: "store_step may s (snd (create_delivery ce dl s))"
| delivery_settled: "store_step may s (snd (settle_delivery dl s))"
| plan_created: "store_step may s (snd (create_plan ce plan s))"
| plan_updated: "store_step may s (snd (update_plan d ce plan expected s))"
| plan_deleted: "store_step may s (snd (delete_plan d ref s))"
| token_created: "store_step may s (snd (create_token ce tok s))"
| token_revoked: "store_step may s (snd (revoke_token name at_time s))"
| token_touched: "store_step may s (touch_token i at_time s)"
| session_created: "store_step may s (snd (create_session repair ce sess now_time s))"
| session_deleted: "store_step may s (delete_session h s)"
| sessions_expired: "store_step may s (snd (delete_expired_sessions now_time s))"

text \<open>Every outcome may be written, and every outcome but those of one run.\<close>

abbreviation any_outcome :: "recovery_run \<Rightarrow> bool" where
  "any_outcome \<equiv> (\<lambda>_. True)"

definition outcome_of_others :: "string \<Rightarrow> recovery_run \<Rightarrow> bool" where
  "outcome_of_others i run \<longleftrightarrow> run_id run \<noteq> i"

definition reaches :: "(recovery_run \<Rightarrow> bool) \<Rightarrow> db \<Rightarrow> db \<Rightarrow> bool" where
  "reaches may = (store_step may)\<^sup>*\<^sup>*"

lemma reaches_refl: "reaches may s s"
  by (simp add: reaches_def)

lemma reaches_step: "reaches may s t \<Longrightarrow> store_step may t v \<Longrightarrow> reaches may s v"
  unfolding reaches_def by (rule rtranclp.rtrancl_into_rtrancl)

definition unique_runs :: "db \<Rightarrow> bool" where
  "unique_runs s \<longleftrightarrow> distinct (map rr_id (db_runs s))"


section \<open>What becomes of a row\<close>

text \<open>
  \<open>history R s t\<close>: the rows of \<open>s\<close> are still there, each related to what it was by \<open>R\<close>; new rows
  have new ids.
\<close>

definition history :: "(run_row \<Rightarrow> run_row \<Rightarrow> bool) \<Rightarrow> db \<Rightarrow> db \<Rightarrow> bool" where
  "history R s t \<longleftrightarrow> (\<exists>old new. db_runs t = old @ new \<and>
     list_all2 (\<lambda>r r'. rr_id r' = rr_id r \<and> R r r') (db_runs s) old \<and> (unique_runs s \<longrightarrow> unique_runs t))"

lemma map_runs_runs [simp]: "db_runs (map_runs f s) = f (db_runs s)"
  by (simp add: map_runs_def)

lemma list_all2_ids: "list_all2 (\<lambda>r r'. rr_id r' = rr_id r \<and> R r r') rs rs' \<Longrightarrow> map rr_id rs' = map rr_id rs"
  by (induction rule: list_all2_induct) auto

text \<open>
  The interface of a property of rows: a preorder that every guarded write respects. Then every
  transaction, and every sequence of them, respects it.
\<close>

locale row_history =
  fixes R :: "run_row \<Rightarrow> run_row \<Rightarrow> bool"
  assumes R_refl: "R r r"
    and R_trans: "R a b \<Longrightarrow> R b c \<Longrightarrow> R a c"
    and R_state: "\<not> settled r \<Longrightarrow> R r (r\<lparr>rr_state := st\<rparr>)"
    and R_err: "R r (r\<lparr>rr_err := e\<rparr>)"
    and R_temp: "R r (r\<lparr>rr_temp_workload_id := tid, rr_node := n\<rparr>)"
    and R_cancel: "cancellable i r \<Longrightarrow> R r (cancel_row at_time r)"
    and R_ask: "\<not> settled r \<Longrightarrow> R r (r\<lparr>rr_cancel_requested_at := Some at_time\<rparr>)"
    and R_take: "rr_lease_owner r = None \<Longrightarrow> R r (r\<lparr>rr_lease_owner := Some owner, rr_lease_expires_at := Some until\<rparr>)"
    and R_expiry: "R r (r\<lparr>rr_lease_expires_at := x\<rparr>)"
    and R_notify: "rr_notified_at r = None \<Longrightarrow> R r (r\<lparr>rr_notified_at := Some at_time\<rparr>)"
    and R_forget: "R r (r\<lparr>rr_plan_id := None\<rparr>)"
begin

lemma history_refl: "history R s s"
  unfolding history_def by (rule exI [of _ "db_runs s"], rule exI [of _ "[]"]) (simp add: list_all2_refl R_refl)

lemma history_same_runs: "db_runs t = db_runs s \<Longrightarrow> history R s t"
  using history_refl [of s] by (simp add: history_def unique_runs_def)

lemma history_trans:
  assumes "history R s t" "history R t u"
  shows "history R s u"
proof -
  obtain o1 n1 where 1: "db_runs t = o1 @ n1" "list_all2 (\<lambda>r r'. rr_id r' = rr_id r \<and> R r r') (db_runs s) o1"
    "unique_runs s \<longrightarrow> unique_runs t" using assms(1) by (auto simp: history_def)
  obtain o2 n2 where 2: "db_runs u = o2 @ n2" "list_all2 (\<lambda>r r'. rr_id r' = rr_id r \<and> R r r') (db_runs t) o2"
    "unique_runs t \<longrightarrow> unique_runs u" using assms(2) by (auto simp: history_def)
  obtain a b where ab: "o2 = a @ b" "list_all2 (\<lambda>r r'. rr_id r' = rr_id r \<and> R r r') o1 a"
    using 2(2) unfolding 1(1) by (auto simp: list_all2_append1)
  have "list_all2 (\<lambda>r r'. rr_id r' = rr_id r \<and> R r r') (db_runs s) a"
    by (rule list_all2_trans [OF _ 1(2) ab(2)]) (use R_trans in auto)
  then show ?thesis
    unfolding history_def using 1(3) 2(1,3) ab(1) by (intro exI [of _ a] exI [of _ "b @ n2"]) auto
qed

lemma history_update:
  assumes "\<And>r. p r \<Longrightarrow> R r (f r) \<and> rr_id (f r) = rr_id r"
  shows "history R s (map_runs (update_where p f) s)"
proof -
  have rows: "list_all2 (\<lambda>r r'. rr_id r' = rr_id r \<and> R r r') rs (update_where p f rs)" for rs
    using assms by (induction rs) (auto simp: update_where_def R_refl)
  have "map rr_id (update_where p f (db_runs s)) = map rr_id (db_runs s)"
    by (rule map_update_where) (simp add: assms)
  then show ?thesis
    unfolding history_def using rows [of "db_runs s"]
    by (intro exI [of _ "update_where p f (db_runs s)"] exI [of _ "[]"]) (simp add: unique_runs_def)
qed

lemma history_insert: "history R s (snd (insert_run ce row s))"
proof (cases "run_refused s (rr_id row) (rr_plan_id row)")
  case False
  then have "unique_runs s \<longrightarrow> distinct (map rr_id (db_runs s @ [row]))"
    by (auto simp: unique_runs_def run_refused_def)
  then show ?thesis
    using False history_refl [of s] unfolding history_def
    by (intro exI [of _ "db_runs s"] exI [of _ "[row]"])
      (simp add: insert_run_def unique_runs_def list_all2_refl R_refl)
qed (simp add: insert_run_def history_refl)

lemma history_request_cancel: "history R s (snd (request_cancel rid at_time s))"
proof -
  have settle: "history R s (map_runs (update_where (cancellable rid) (cancel_row at_time)) s)" for s
    by (rule history_update) (simp add: R_cancel, simp add: cancel_row_def)
  have ask: "history R s (map_runs (update_where (\<lambda>r. rr_id r = rid \<and> \<not> settled r)
      (\<lambda>r. r\<lparr>rr_cancel_requested_at := Some at_time\<rparr>)) s)" for s
    by (rule history_update) (auto intro: R_ask)
  show ?thesis
    using settle ask history_trans [OF settle ask]
    by (auto simp: request_cancel_def Let_def split: option.split)
qed

lemma history_claim_run: "history R s (snd (claim_run d owner lease now_time s))"
proof -
  have "history R s (map_runs (update_where (\<lambda>r. rr_id r = i \<and> rr_lease_owner r = None)
      (\<lambda>r. r\<lparr>rr_lease_owner := Some owner, rr_lease_expires_at := Some t\<rparr>)) s)" for i t
    by (rule history_update) (auto intro: R_take)
  then show ?thesis
    by (auto simp: claim_run_def take_lease_def Let_def history_refl split: option.split prod.split)
qed

lemma history_insert_slot: "history R s (snd (insert_slot ce row s))"
  by (auto simp: insert_slot_def intro: history_same_runs)

lemma history_claim_slot: "history R s (snd (claim_slot ce sl queued yaml s))"
proof -
  have queue: "history R s (snd (queue_slot_run ce sl queued yaml s))"
    by (auto simp: queue_slot_run_def enqueue_def history_insert history_refl split: slot_outcome.split option.split)
  show ?thesis
  proof (cases "queue_slot_run ce sl queued yaml s")
    case (Pair x s1)
    have "history R s (snd (insert_slot ce (slot_row_of sl) s1))"
      using history_trans [OF queue history_insert_slot] by (simp add: Pair)
    then show ?thesis
      by (cases x; cases "insert_slot ce (slot_row_of sl) s1")
        (auto simp: claim_slot_def Pair history_refl split: sum.split)
  qed
qed

lemma history_delete_plan: "history R s (snd (delete_plan d ref s))"
proof -
  have "history R s (forget_plan i s)" for i
  proof -
    have "history R s (map_runs (update_where (\<lambda>r. rr_plan_id r = Some i) (\<lambda>r. r\<lparr>rr_plan_id := None\<rparr>)) s)"
      by (rule history_update) (simp add: R_forget)
    then show ?thesis by (simp add: history_def unique_runs_def forget_plan_def)
  qed
  then show ?thesis by (auto simp: delete_plan_def history_refl split: sum.split)
qed

text \<open>The operations that leave the table of runs alone.\<close>

lemma history_other_tables:
  "history R s (snd (save_step ce rid seq st s))"
  "history R s (snd (save_check ce rid seq c s))"
  "history R s (snd (append_event ce rid ev s))"
  "history R s (snd (save_check_value ce rid seq name v s))"
  "history R s (snd (create_delivery ce dl s))"
  "history R s (snd (settle_delivery dl s))"
  "history R s (snd (create_plan ce plan s))"
  "history R s (snd (update_plan d ce plan expected s))"
  "history R s (snd (create_token ce tok s))"
  "history R s (snd (revoke_token tname at_time s))"
  "history R s (touch_token i at_time s)"
  "history R s (snd (create_session repair ce sess now_time s))"
  "history R s (delete_session h s)"
  "history R s (snd (delete_expired_sessions now_time s))"
  by (rule history_same_runs; simp add: save_step_def save_check_def append_event_def save_check_value_def
      create_delivery_def settle_delivery_def create_plan_def update_plan_def create_token_def revoke_token_def
      touch_token_def create_session_def delete_session_def delete_expired_sessions_def Let_def split: sum.split)+

lemma history_guarded:
  assumes "store_step (\<lambda>_. False) s t"
  shows "history R s t"
  using assms
proof cases
  case (renewed rid owner until)
  then show ?thesis by (auto simp: renew_lease_def Let_def intro!: history_update R_expiry)
next
  case (announced rid at_time)
  then show ?thesis by (auto simp: claim_run_for_notify_def Let_def intro!: history_update R_notify)
qed (auto simp: create_run_def enqueue_def write_state_def set_run_error_def set_temp_workload_def finish_lease_def
    history_insert history_request_cancel history_claim_run history_claim_slot history_delete_plan history_other_tables
    intro!: history_update R_state R_err R_temp R_expiry)

end

text \<open>The same, for a property that the outcomes \<open>UpdateRun\<close> may write respect as well.\<close>

locale full_history = row_history +
  fixes may :: "recovery_run \<Rightarrow> bool"
  assumes R_update: "may run \<Longrightarrow> rr_id r = run_id run \<Longrightarrow> R r (updated_row run r)"
begin

lemma history_step:
  assumes "store_step may s t"
  shows "history R s t"
proof (cases "\<exists>run. may run \<and> t = update_run run s")
  case True
  then show ?thesis
    by (auto simp: update_run_def updated_row_def intro!: history_update R_update [unfolded updated_row_def])
next
  case False
  have "store_step (\<lambda>_. False) s t" using assms False by cases (blast intro: store_step.intros)+
  then show ?thesis by (rule history_guarded)
qed

lemma history_steps:
  assumes "reaches may s t"
  shows "history R s t"
  using assms unfolding reaches_def
  by (induction rule: rtranclp_induct) (auto intro: history_refl history_trans history_step)

end

text \<open>What a history says of the row behind an id.\<close>

lemma history_unique: "history R s t \<Longrightarrow> unique_runs s \<Longrightarrow> unique_runs t"
  by (auto simp: history_def)

lemma history_row:
  assumes "history R s t" "row_with rr_id i (db_runs s) = Some r"
  shows "\<exists>r'. row_with rr_id i (db_runs t) = Some r' \<and> R r r'"
proof -
  obtain old new where t: "db_runs t = old @ new"
    and l: "list_all2 (\<lambda>r r'. rr_id r' = rr_id r \<and> R r r') (db_runs s) old"
    using assms(1) by (auto simp: history_def)
  have "\<exists>r'. row_with rr_id i old = Some r' \<and> R r r'"
    using l assms(2) by (induction rule: list_all2_induct) (auto simp: row_with_def split: if_splits)
  then show ?thesis by (auto simp: t row_with_append)
qed


section \<open>Two histories of the model\<close>

text \<open>
  What no transaction ever changes: the owner, the plan's document, who considered the run for a
  message. The reference to the plan is cleared when the plan is deleted, and never moved.
\<close>

definition same_drill :: "run_row \<Rightarrow> run_row \<Rightarrow> bool" where
  "same_drill r r' \<longleftrightarrow>
     (rr_lease_owner r \<noteq> None \<longrightarrow> rr_lease_owner r' = rr_lease_owner r) \<and>
     (rr_notified_at r \<noteq> None \<longrightarrow> rr_notified_at r' = rr_notified_at r) \<and>
     (rr_cancel_requested_at r \<noteq> None \<longrightarrow> rr_cancel_requested_at r' \<noteq> None) \<and>
     rr_plan_snapshot r' = rr_plan_snapshot r \<and> (rr_plan_id r' = rr_plan_id r \<or> rr_plan_id r' = None) \<and>
     rr_plan_version r' = rr_plan_version r \<and> rr_provider_id r' = rr_provider_id r \<and>
     rr_source_workload_id r' = rr_source_workload_id r \<and>
     rr_started_at r' = rr_started_at r \<and> rr_queued_at r' = rr_queued_at r"

text \<open>A settled run keeps its state and its verdict; said of one run, whose own outcome may not be written.\<close>

definition same_ending :: "string \<Rightarrow> run_row \<Rightarrow> run_row \<Rightarrow> bool" where
  "same_ending i r r' \<longleftrightarrow> rr_id r' = rr_id r \<and> (rr_id r = i \<and> settled r \<longrightarrow>
     rr_state r' = rr_state r \<and> rr_result r' = rr_result r \<and> rr_completed_at r' = rr_completed_at r)"

interpretation drill: full_history same_drill any_outcome
  by unfold_locales (auto simp: same_drill_def cancel_row_def updated_row_def)

interpretation ending: full_history "same_ending i" "outcome_of_others i" for i
  by unfold_locales (auto simp: same_ending_def cancel_row_def cancellable_def settled_def terminal_states_def
      updated_row_def outcome_of_others_def)


section \<open>The operations, row by row\<close>

lemma update_where_cong: "(\<And>r. r \<in> set rs \<Longrightarrow> p r = q r) \<Longrightarrow> update_where p f rs = update_where q f rs"
  by (simp add: update_where_def)

lemma key_row:
  assumes "unique_runs s" "row_with rr_id rid (db_runs s) = Some r" "r' \<in> set (db_runs s)" "rr_id r' = rid"
  shows "r' = r"
  using row_with_in [of rr_id "db_runs s" r'] assms by (simp add: unique_runs_def)

lemma count_row:
  assumes "unique_runs s"
  shows "count_where (\<lambda>r. rr_id r = rid \<and> q r) (db_runs s) =
    (case row_with rr_id rid (db_runs s) of None \<Rightarrow> 0 | Some r \<Rightarrow> if q r then 1 else 0)"
  using count_where_key [of rr_id "db_runs s"] assms by (simp add: unique_runs_def)

lemma update_where_row:
  assumes "unique_runs s" "row_with rr_id rid (db_runs s) = Some r" "q r"
  shows "update_where (\<lambda>r. rr_id r = rid \<and> q r) f (db_runs s) = update_where (\<lambda>r. rr_id r = rid) f (db_runs s)"
proof (rule update_where_cong)
  fix x assume x: "x \<in> set (db_runs s)"
  show "(rr_id x = rid \<and> q x) = (rr_id x = rid)"
    using key_row [OF assms(1,2) x] assms(3) by auto
qed

lemma cancellable_eq: "cancellable rid = (\<lambda>r. rr_id r = rid \<and> claimable r)"
  by (auto simp: cancellable_def claimable_def)

lemma claimable_not_settled: "claimable r \<Longrightarrow> \<not> settled r"
  by (auto simp: claimable_def settled_def terminal_states_def)

lemma select_claimable_None: "select_claimable d s = None \<longleftrightarrow> list_all (\<lambda>r. \<not> claimable r) (db_runs s)"
  by (auto simp: select_claimable_def limit_rows_def list_all_iff filter_empty_conv split: list.split)
    (metis filter_empty_conv order_by_Nil_iff list.distinct(1) take_eq_Nil one_neq_zero nat_1 One_nat_def)+

lemma select_claimable_Some:
  assumes "select_claimable d s = Some r"
  shows "r \<in> set (db_runs s)" "claimable r"
    "list_all (\<lambda>r'. \<not> (claimable r' \<and> \<not> null_le d (rr_queued_at r) (rr_queued_at r'))) (db_runs s)"
proof -
  let ?le = "\<lambda>a b. null_le d (rr_queued_at a) (rr_queued_at b)"
  let ?q = "order_by ?le (filter claimable (db_runs s))"
  obtain qs where q: "?q = r # qs"
    using assms by (auto simp: select_claimable_def limit_rows_def split: list.splits) (cases ?q; simp)
  have "r \<in> set ?q" by (simp add: q)
  then show "r \<in> set (db_runs s)" "claimable r" by simp_all
  have "?le r r'" if "r' \<in> set (filter claimable (db_runs s))" for r'
    using nulls.hd_order_by [OF that, of d rr_queued_at] by (simp add: q)
  then show "list_all (\<lambda>r'. \<not> (claimable r' \<and> \<not> null_le d (rr_queued_at r) (rr_queued_at r'))) (db_runs s)"
    by (auto simp: list_all_iff)
qed

text \<open>In a table with unique ids, a claim is the selection followed by one write.\<close>

lemma claim_run_eq:
  assumes "unique_runs s"
  shows "claim_run d owner lease now_time s =
    (case select_claimable d s of
       None \<Rightarrow> (Inl (Sentinel StoreNoWork), s)
     | Some r \<Rightarrow> (Inr (scan_queued_run r), map_runs (update_where (\<lambda>r'. rr_id r' = rr_id r)
         (\<lambda>r. r\<lparr>rr_lease_owner := Some owner, rr_lease_expires_at := Some (now_time + lease)\<rparr>)) s))"
proof (cases "select_claimable d s")
  case (Some r)
  note r = select_claimable_Some(1,2) [OF Some]
  have row: "row_with rr_id (rr_id r) (db_runs s) = Some r"
    using row_with_in r(1) assms by (simp add: unique_runs_def)
  have free: "rr_lease_owner r = None" using r(2) by (simp add: claimable_def)
  show ?thesis
    using count_row [OF assms, of "rr_id r" "\<lambda>r. rr_lease_owner r = None"] row free
      update_where_row [OF assms row, of "\<lambda>r. rr_lease_owner r = None"]
    by (simp add: claim_run_def Some take_lease_def scan_queued_run_def map_runs_def)
qed (simp add: claim_run_def)

lemma claim_run_row:
  assumes "unique_runs s" "claim_run d owner lease now_time s = (Inr q, t)"
  shows "\<exists>r. row_with rr_id (qr_id q) (db_runs s) = Some r \<and> claimable r \<and>
    row_with rr_id (qr_id q) (db_runs t) =
      Some (r\<lparr>rr_lease_owner := Some owner, rr_lease_expires_at := Some (now_time + lease)\<rparr>)"
proof -
  from assms obtain r where r: "select_claimable d s = Some r" "q = scan_queued_run r"
    and t: "t = map_runs (update_where (\<lambda>r'. rr_id r' = rr_id r)
         (\<lambda>r. r\<lparr>rr_lease_owner := Some owner, rr_lease_expires_at := Some (now_time + lease)\<rparr>)) s"
    by (auto simp: claim_run_eq split: option.splits)
  have "row_with rr_id (rr_id r) (db_runs s) = Some r"
    using row_with_in select_claimable_Some(1) [OF r(1)] assms(1) by (simp add: unique_runs_def)
  moreover have "rr_id r = qr_id q" by (simp add: r(2) scan_queued_run_def)
  ultimately show ?thesis
    using select_claimable_Some(2) [OF r(1)] t by (simp add: row_with_update)
qed


section \<open>Properties\<close>

text \<open>C13. A run is claimed once. After a worker took it, and whatever transactions of the store follow
  (those of the scheduler, of the dispatcher, of the catalogue and the updates of its outcome included),
  no claim by anyone returns that run again, and the lease still names the worker that took it.\<close>

theorem claimed_once:
  assumes "unique_runs s" "claim_run d owner lease now_time s = (Inr q, s1)" "reaches any_outcome s1 t"
  shows "(case claim_run d' owner' lease' now' t of (Inr q', _) \<Rightarrow> qr_id q' \<noteq> qr_id q | _ \<Rightarrow> True) \<and>
    (case run_lease (qr_id q) t of Inr (who, _) \<Rightarrow> who = owner | Inl _ \<Rightarrow> False)"
proof -
  obtain r1 where r1: "row_with rr_id (qr_id q) (db_runs s1) = Some r1" "rr_lease_owner r1 = Some owner"
    using claim_run_row [OF assms(1,2)] by auto
  have "store_step any_outcome s s1" using store_step.claimed [of any_outcome s d owner lease now_time] assms(2) by simp
  then have u: "unique_runs t"
    using drill.history_step drill.history_steps [OF assms(3)] history_unique assms(1) by blast
  obtain r where r: "row_with rr_id (qr_id q) (db_runs t) = Some r" "rr_lease_owner r = Some owner"
    using history_row [OF drill.history_steps [OF assms(3)] r1(1)] r1(2) by (auto simp: same_drill_def)
  have "qr_id q' \<noteq> qr_id q" if "claim_run d' owner' lease' now' t = (Inr q', t')" for q' t'
    using claim_run_row [OF u that] r by (auto simp: claimable_def)
  then show ?thesis
    using r by (auto simp: run_lease_def string_of_null_def split: prod.split sum.split)
qed

text \<open>C14. The first writer decides: once a run is settled, no operation of the store changes its state,
  its verdict or its completion time, be it a queue operation, a sweep, a late progress event, a
  decided slot, a deleted plan or the outcome of another run. (UpdateRun of that very run, by which
  its own worker records its outcome, is the only write that could.)\<close>

theorem settled_stays_settled:
  assumes "reaches (outcome_of_others i) s t" "row_with rr_id i (db_runs s) = Some r" "settled r"
  shows "case row_with rr_id i (db_runs t) of
      None \<Rightarrow> False
    | Some r' \<Rightarrow> rr_state r' = rr_state r \<and> rr_result r' = rr_result r \<and> rr_completed_at r' = rr_completed_at r"
  using history_row [OF ending.history_steps [OF assms(1)] assms(2)] assms(3) row_with_Some [OF assms(2)]
  by (auto simp: same_ending_def)

text \<open>A claim returns the oldest queued run nobody owns and marks it, and nothing else; it finds
  no work exactly when there is none.\<close>

theorem claim_takes_oldest:
  assumes "unique_runs s"
  shows "case claim_run d owner lease now_time s of
      (Inl e, t) \<Rightarrow> e = Sentinel StoreNoWork \<and> t = s \<and> list_all (\<lambda>r. \<not> claimable r) (db_runs s)
    | (Inr q, t) \<Rightarrow>
        (case row_with rr_id (qr_id q) (db_runs s) of
           None \<Rightarrow> False
         | Some r \<Rightarrow> claimable r \<and> q = scan_queued_run r \<and>
             list_all (\<lambda>r'. \<not> (claimable r' \<and> \<not> null_le d (rr_queued_at r) (rr_queued_at r'))) (db_runs s) \<and>
             db_runs t = update_where (\<lambda>r'. rr_id r' = qr_id q)
               (\<lambda>r. r\<lparr>rr_lease_owner := Some owner, rr_lease_expires_at := Some (now_time + lease)\<rparr>) (db_runs s))"
proof (cases "select_claimable d s")
  case None
  have "list_all (\<lambda>r. \<not> claimable r) (db_runs s)" using None select_claimable_None by blast
  then show ?thesis by (simp add: claim_run_eq [OF assms] None)
next
  case (Some r)
  have "row_with rr_id (rr_id r) (db_runs s) = Some r"
    using row_with_in select_claimable_Some(1) [OF Some] assms by (simp add: unique_runs_def)
  then show ?thesis
    using select_claimable_Some(2,3) [OF Some] by (simp add: claim_run_eq [OF assms] Some scan_queued_run_def)
qed

lemma request_cancel_eq:
  assumes "unique_runs s"
  shows "request_cancel rid at_time s =
    (case row_with rr_id rid (db_runs s) of
       None \<Rightarrow> (Inl (wrap_prefix (Sentinel StoreNotFound) ('': '' @ rid)), s)
     | Some r \<Rightarrow>
         if settled r then (Inl (wrap_prefix (Sentinel StoreAlreadySettled)
             ('': run '' @ rid @ '' is '' @ state_text (rr_state r))), s)
         else if claimable r then
           (Inr True, map_runs (update_where (\<lambda>r. rr_id r = rid) (cancel_row at_time)) s)
         else (Inr False, map_runs (update_where (\<lambda>r. rr_id r = rid)
             (\<lambda>r. r\<lparr>rr_cancel_requested_at := Some at_time\<rparr>)) s))"
proof -
  note count = count_row [OF assms, of rid]
  have none: "map_runs (update_where p f) s = s" if "count_where p (db_runs s) = 0" for p f
    using update_where_none [OF that] by (simp add: map_runs_def)
  show ?thesis
  proof (cases "row_with rr_id rid (db_runs s)")
    case None
    then show ?thesis
      by (simp add: request_cancel_def Let_def cancellable_eq count none)
  next
    case (Some r)
    show ?thesis
    proof (cases "claimable r")
      case True
      then show ?thesis
        using claimable_not_settled [OF True] update_where_row [OF assms Some, of claimable]
        by (simp add: request_cancel_def Let_def cancellable_eq count Some map_runs_def)
    next
      case False
      then have skip: "update_where (\<lambda>r. rr_id r = rid \<and> claimable r) (cancel_row at_time) (db_runs s) = db_runs s"
        by (intro update_where_none) (simp add: count Some)
      show ?thesis
      proof (cases "settled r")
        case True
        then show ?thesis
          using False none [of "\<lambda>r. rr_id r = rid \<and> \<not> settled r"]
          by (simp add: request_cancel_def Let_def cancellable_eq count Some skip map_runs_def)
      next
        case open_run: False
        then show ?thesis
          using False update_where_row [OF assms Some, of "\<lambda>r. \<not> settled r"]
          by (simp add: request_cancel_def Let_def cancellable_eq count Some skip map_runs_def)
      qed
    qed
  qed
qed

text \<open>C15. Asking a run to stop does one of four things, by the state of the run alone: an unknown
  run is not found, a settled one is refused by name, a queued one nobody claimed is settled
  CANCELLED on the spot, and any other is only asked. No other run is touched.\<close>

theorem request_cancel_decides:
  assumes "unique_runs s"
  shows "request_cancel rid at_time s =
    (case row_with rr_id rid (db_runs s) of
       None \<Rightarrow> (Inl (wrap_prefix (Sentinel StoreNotFound) ('': '' @ rid)), s)
     | Some r \<Rightarrow>
         if settled r then (Inl (wrap_prefix (Sentinel StoreAlreadySettled)
             ('': run '' @ rid @ '' is '' @ state_text (rr_state r))), s)
         else if claimable r then
           (Inr True, map_runs (update_where (\<lambda>r. rr_id r = rid) (cancel_row at_time)) s)
         else (Inr False, map_runs (update_where (\<lambda>r. rr_id r = rid)
             (\<lambda>r. r\<lparr>rr_cancel_requested_at := Some at_time\<rparr>)) s))"
  by (rule request_cancel_eq [OF assms])

text \<open>A drill cancelled before anyone claimed it never runs: whatever follows in the queue, no
  claim returns it.\<close>

theorem cancelled_never_runs:
  assumes "unique_runs s" "request_cancel rid at_time s = (Inr True, s1)" "reaches (outcome_of_others rid) s1 t"
  shows "case claim_run d owner lease now_time t of (Inr q, _) \<Rightarrow> qr_id q \<noteq> rid | _ \<Rightarrow> True"
proof -
  obtain r where r: "row_with rr_id rid (db_runs s) = Some r" "claimable r"
    and s1: "s1 = map_runs (update_where (\<lambda>r. rr_id r = rid) (cancel_row at_time)) s"
    using assms(2) by (auto simp: request_cancel_eq [OF assms(1)] split: option.splits if_splits)
  have r1: "row_with rr_id rid (db_runs s1) = Some (cancel_row at_time r)"
    using r row_with_Some [OF r(1)] by (simp add: s1 row_with_update cancel_row_def)
  have ended: "settled (cancel_row at_time r)"
    by (simp add: settled_def cancel_row_def terminal_states_def)
  have "unique_runs s1"
    using ending.history_request_cancel [of rid s rid at_time] history_unique assms(1,2) by force
  then have u: "unique_runs t"
    using ending.history_steps [OF assms(3)] history_unique by blast
  obtain r' where r': "row_with rr_id rid (db_runs t) = Some r'" "settled r'"
    using history_row [OF ending.history_steps [OF assms(3)] r1] ended row_with_Some [OF r1]
    by (auto simp: same_ending_def settled_def)
  have "qr_id q \<noteq> rid" if "claim_run d owner lease now_time t = (Inr q, t')" for q t'
    using claim_run_row [OF u that] r' claimable_not_settled by auto
  then show ?thesis by (auto split: prod.split sum.split)
qed


section \<open>A queue with one drill\<close>

definition lab_run :: recovery_run where
  "lab_run = \<lparr>run_id = ''r1'', run_plan_name = ''p'', run_plan_id = '''', run_plan_version = 0,
     run_provider_id = ''pve'', run_backup_provider_id = '''', run_source_workload_id = ''101'',
     run_source_name = '''', run_temp_workload_id = '''', run_temp_name = '''', run_node = '''',
     run_backup = None, run_state = RunQueued, run_result = ResultNone, run_proof_level = ProofNone,
     run_started_at = 0, run_completed_at = 0, run_steps = [], run_checks = [], run_rto = 0,
     run_rto_target = 0, run_cleanup_done = False, run_err = ''''\<rparr>"

definition lab_db :: db where
  "lab_db = empty_db\<lparr>db_runs := [queued_row lab_run ''yaml'' 5]\<rparr>"

lemmas lab_db_defs = lab_db_def empty_db_def lab_run_def queued_row_def unique_runs_def

definition lab_claimed :: db where
  "lab_claimed = map_runs (\<lambda>_. [(queued_row lab_run ''yaml'' 5)\<lparr>rr_lease_owner := Some ''w1'',
     rr_lease_expires_at := Some 17\<rparr>]) lab_db"

lemma lab_claim:
  "claim_run DialectSQLite ''w1'' 10 7 lab_db = (Inr (scan_queued_run (queued_row lab_run ''yaml'' 5)), lab_claimed)"
  by (simp add: lab_claimed_def claim_run_def select_claimable_def lab_db_defs limit_rows_def claimable_def take_lease_def
      scan_queued_run_def count_where_def update_where_def map_runs_def Let_def)

lemma unique_lab_db: "unique_runs lab_db" by (simp add: lab_db_defs)

lemma lab_id: "qr_id (scan_queued_run (queued_row lab_run ''yaml'' 5)) = ''r1''"
  by (simp add: lab_db_defs scan_queued_run_def)

text \<open>After the claim the scheduler looks for a slot of a plan that is gone, and a plan is deleted.\<close>

definition lab_gone_slot :: slot where
  "lab_gone_slot = \<lparr>so_plan_id = ''p9'', so_slot_at = 0, so_decided_at = 1, so_outcome = SlotQueued,
     so_reason = [], so_run_id = ''r2''\<rparr>"

lemma claimed_once_witness:
  "case claim_run DialectSQLite ''w2'' 10 8
      (snd (delete_plan DialectSQLite ''p9'' (snd (claim_slot (Plain ''c'') lab_gone_slot (Some lab_run) ''yaml'' lab_claimed)))) of
     (Inr q, _) \<Rightarrow> qr_id q \<noteq> ''r1'' | _ \<Rightarrow> True"
proof -
  let ?t = "snd (delete_plan DialectSQLite ''p9'' (snd (claim_slot (Plain ''c'') lab_gone_slot (Some lab_run) ''yaml'' lab_claimed)))"
  have "reaches any_outcome lab_claimed ?t"
    by (rule reaches_step [OF reaches_step [OF reaches_refl store_step.slot_claimed] store_step.plan_deleted])
  from claimed_once [OF unique_lab_db lab_claim this, of DialectSQLite "''w2''" 10 8]
  show ?thesis by (auto simp: lab_id split: prod.splits sum.splits)
qed

text \<open>A failed run, and what follows it: a late progress event, and another run's outcome.\<close>

lemma settled_stays_settled_witness:
  "case row_with rr_id ''r1'' (db_runs (update_run (lab_run\<lparr>run_id := ''r2''\<rparr>)
      (write_state ''r1'' RunCleanupFailed (write_state ''r1'' RunFailed lab_db)))) of
     None \<Rightarrow> False | Some r \<Rightarrow> rr_state r = RunFailed"
proof -
  let ?s = "write_state ''r1'' RunFailed lab_db"
  have row: "row_with rr_id ''r1'' (db_runs ?s) = Some ((queued_row lab_run ''yaml'' 5)\<lparr>rr_state := RunFailed\<rparr>)"
    by (simp add: lab_db_defs write_state_def map_runs_def update_where_def row_with_def settled_def terminal_states_def)
  have "outcome_of_others ''r1'' (lab_run\<lparr>run_id := ''r2''\<rparr>)" by (simp add: outcome_of_others_def)
  then have "reaches (outcome_of_others ''r1'') ?s
      (update_run (lab_run\<lparr>run_id := ''r2''\<rparr>) (write_state ''r1'' RunCleanupFailed ?s))"
    by (rule reaches_step [OF reaches_step [OF reaches_refl store_step.state_written] store_step.updated])
  from settled_stays_settled [OF this row] show ?thesis
    by (auto simp: settled_def terminal_states_def split: option.splits)
qed

lemma claim_takes_oldest_witness:
  "qr_id (case claim_run DialectSQLite ''w1'' 10 7 lab_db of (Inr q, _) \<Rightarrow> q) = ''r1''"
  using claim_takes_oldest [OF unique_lab_db, where d = DialectSQLite and owner = "''w1''" and lease = 10 and now_time = 7]
  by (simp add: lab_claim lab_id)

lemma request_cancel_decides_witness:
  "fst (request_cancel ''r1'' 6 lab_db) = Inr True"
  using request_cancel_decides [OF unique_lab_db, of "''r1''" 6]
  by (simp add: lab_db_defs row_with_def settled_def terminal_states_def claimable_def)

lemma cancelled_never_runs_witness:
  "case claim_run DialectSQLite ''w1'' 10 7 (snd (request_cancel ''r1'' 6 lab_db)) of
     (Inr q, _) \<Rightarrow> qr_id q \<noteq> ''r1'' | _ \<Rightarrow> True"
proof -
  have "request_cancel ''r1'' 6 lab_db = (Inr True, snd (request_cancel ''r1'' 6 lab_db))"
    by (simp add: lab_db_defs request_cancel_def count_where_def cancellable_def)
  from cancelled_never_runs [OF unique_lab_db this, of "snd (request_cancel ''r1'' 6 lab_db)" DialectSQLite "''w1''" 10 7]
  show ?thesis by (simp add: reaches_def)
qed

end
