(* ===== verification/History_Safety.thy ===== *)
theory History_Safety
  imports Queue_Safety
begin

text \<open>
  What the listings, the decided slots and the notification queue promise: following the cursors
  of a listing visits every run once, a slot and a message are decided once, the story of a
  workload skips the runs without a verdict.
\<close>

section \<open>Following the cursors\<close>

definition position_of :: "run_summary \<Rightarrow> position" where
  "position_of r = \<lparr>po_started_at = rs_started_at r, po_id = rs_id r\<rparr>"

text \<open>A client that asks for page after page, each from the last row of the one before.\<close>

fun all_pages :: "nat \<Rightarrow> run_filter \<Rightarrow> db \<Rightarrow> run_summary list" where
  "all_pages 0 f s = []"
| "all_pages (Suc n) f s =
     (let page = list_runs f s
      in if page = [] then [] else page @ all_pages n (f\<lparr>fi_after := Some (position_of (last page))\<rparr>) s)"

definition listing :: "run_filter \<Rightarrow> db \<Rightarrow> run_row list" where
  "listing f s = order_by newest_run (filter (matches_filter f) (db_runs s))"

definition row_position :: "run_row \<Rightarrow> position" where
  "row_position r = \<lparr>po_started_at = rr_started_at r, po_id = rr_id r\<rparr>"

lemma position_of_scan [simp]: "position_of (scan_run_summary r) = row_position r"
  by (simp add: position_of_def row_position_def scan_run_summary_def)

lemma before_newest:
  "before_position (row_position r) y \<longleftrightarrow> newest_run r y \<and> rr_id y \<noteq> rr_id r"
  if "rr_id y = rr_id r \<longrightarrow> y = r"
  using that by (auto simp: before_position_def row_position_def newest_run_def newest_first_def str_less_def)

lemma distinct_listing: "unique_runs s \<Longrightarrow> distinct (map rr_id (listing f s))"
  unfolding listing_def distinct_map_order_by by (simp add: unique_runs_def distinct_map_filter)

lemma sorted_listing: "sorted_wrt newest_run (listing f s)"
  unfolding listing_def newest_run_def by (rule newest.sorted_order_by)

lemma matches_after:
  "matches_filter (f\<lparr>fi_after := Some p\<rparr>) r \<longleftrightarrow> matches_filter (f\<lparr>fi_after := None\<rparr>) r \<and> before_position p r"
  by (auto simp: matches_filter_def)

text \<open>Continuing from a row of a listing gives what comes after it.\<close>

lemma listing_after:
  assumes u: "unique_runs s" and l: "listing (f\<lparr>fi_after := None\<rparr>) s = xs @ r # ys"
  shows "listing (f\<lparr>fi_after := Some (row_position r)\<rparr>) s = ys"
proof -
  let ?l = "listing (f\<lparr>fi_after := None\<rparr>) s"
  have d: "distinct (map rr_id (xs @ r # ys))" using distinct_listing [OF u] l by metis
  have srt: "sorted_wrt newest_run (xs @ r # ys)" using sorted_listing l by metis
  have "listing (f\<lparr>fi_after := Some (row_position r)\<rparr>) s = filter (before_position (row_position r)) ?l"
    unfolding listing_def newest_run_def newest.filter_order_by filter_filter matches_after by (simp add: conj_commute)
  also have "\<dots> = ys"
  proof -
    have "\<not> before_position (row_position r) x" if "x \<in> set xs" for x
    proof
      assume b: "before_position (row_position r) x"
      have neq: "rr_id x \<noteq> rr_id r" using that d by auto (metis image_eqI)
      have "newest_run x r" "newest_run r x"
        using b neq srt that before_newest [of x r] by (auto simp: sorted_wrt_append)
      then show False using neq newest_antisym unfolding newest_run_def by metis
    qed
    moreover have "\<not> before_position (row_position r) r"
      by (simp add: before_position_def row_position_def str_less_def)
    moreover have "before_position (row_position r) y" if "y \<in> set ys" for y
    proof -
      have "rr_id y \<noteq> rr_id r" using that d by auto (metis image_eqI)
      moreover have "newest_run r y" using srt that by (auto simp: sorted_wrt_append)
      ultimately show ?thesis using before_newest [of y r] by simp
    qed
    ultimately show ?thesis by (simp add: l filter_False filter_id_conv filter_empty_conv)
  qed
  finally show ?thesis .
qed

lemma list_runs_listing:
  "list_runs f s = map scan_run_summary (take (nat (limit_or_default (fi_limit f))) (listing f s))"
  by (simp add: list_runs_def listing_def limit_rows_def)

lemma all_pages_from:
  assumes "unique_runs s" "listing (f\<lparr>fi_after := None\<rparr>) s = xs @ listing f s" "length (listing f s) \<le> n"
  shows "all_pages n f s = map scan_run_summary (listing f s)"
  using assms(2,3)
proof (induction n arbitrary: f xs)
  case (Suc n)
  let ?k = "nat (limit_or_default (fi_limit f))"
  have k: "0 < ?k" by (simp add: limit_or_default_def default_list_limit_def)
  show ?case
  proof (cases "listing f s")
    case Nil
    then show ?thesis by (simp add: list_runs_listing Let_def)
  next
    case (Cons a as)
    let ?page = "take ?k (listing f s)" and ?rest = "drop ?k (listing f s)"
    have page: "?page \<noteq> []" using k Cons by simp
    let ?r = "last ?page"
    have split: "listing f s = butlast ?page @ ?r # ?rest"
      using append_butlast_last_id [OF page] append_take_drop_id [of ?k "listing f s"]
      by (metis append.assoc append_Cons append_Nil)
    let ?f = "f\<lparr>fi_after := Some (row_position ?r)\<rparr>"
    have whole: "listing (f\<lparr>fi_after := None\<rparr>) s = (xs @ butlast ?page) @ ?r # ?rest"
      using Suc.prems(1) split by simp
    have next_page: "listing ?f s = ?rest" by (rule listing_after [OF assms(1) whole])
    have "all_pages n ?f s = map scan_run_summary ?rest"
    proof -
      have "listing (?f\<lparr>fi_after := None\<rparr>) s = (xs @ ?page) @ listing ?f s"
        using Suc.prems(1) next_page by simp
      moreover have "length (listing ?f s) \<le> n" using next_page Suc.prems(2) Cons k by simp
      ultimately show ?thesis using Suc.IH [of ?f "xs @ ?page"] unfolding next_page by blast
    qed
    moreover have "position_of (last (list_runs f s)) = row_position ?r"
      using page by (simp add: list_runs_listing last_map)
    ultimately show ?thesis
      using page by (simp add: Let_def list_runs_listing flip: map_append)
  qed
qed simp

text \<open>Paging loses nothing: a client that follows the cursors of a listing, with any page size and
  filter, reads every matching run exactly once, newest first, ties broken by id; it needs no
  more pages than there are runs.\<close>

theorem pages_cover_listing:
  assumes "unique_runs s" "fi_after f = None" "length (db_runs s) \<le> n"
  shows "all_pages n f s = map scan_run_summary (order_by newest_run (filter (matches_filter f) (db_runs s))) \<and>
    distinct (map rs_id (all_pages n f s))"
proof -
  have f: "f\<lparr>fi_after := None\<rparr> = f" using assms(2) by simp
  have "length (listing f s) = length (filter (matches_filter f) (db_runs s))" by (simp add: listing_def)
  also have "\<dots> \<le> n" using length_filter_le assms(3) by (rule le_trans)
  finally have "length (listing f s) \<le> n" .
  with all_pages_from [OF assms(1), of f "[]" n] f
  have eq: "all_pages n f s = map scan_run_summary (listing f s)" by simp
  moreover have "rs_id \<circ> scan_run_summary = rr_id"
    by (rule ext) (simp add: scan_run_summary_def)
  ultimately show ?thesis using distinct_listing [OF assms(1), of f] by (simp add: listing_def)
qed



section \<open>A slot is decided once\<close>

definition slots_sound :: "db \<Rightarrow> bool" where
  "slots_sound s \<longleftrightarrow> distinct (map slot_key (db_slots s)) \<and>
     list_all (\<lambda>r. case sl_run_id r of None \<Rightarrow> True | Some i \<Rightarrow> i \<in> rr_id ` set (db_runs s)) (db_slots s)"

lemma claim_slot_Inr:
  assumes "claim_slot ce sl run yaml s = (Inr u, t)"
  shows "\<exists>s1. insert_slot ce (slot_row_of sl) s1 = (Inr 1, t) \<and> db_slots s1 = db_slots s \<and>
    (case (so_outcome sl, run) of
       (SlotQueued, Some r) \<Rightarrow> db_runs s1 = db_runs s @ [queued_row r yaml (so_decided_at sl)]
     | (SlotQueued, None) \<Rightarrow> False
     | _ \<Rightarrow> db_runs s1 = db_runs s)"
proof -
  obtain s1 where s1: "queue_slot_run ce sl run yaml s = (Inr (), s1)" and ok: "\<not> (so_outcome sl = SlotQueued \<and> run = None)"
    and n: "\<exists>n. insert_slot ce (slot_row_of sl) s1 = (Inr n, t) \<and> n \<noteq> 0"
    using assms by (auto simp: claim_slot_def split: if_splits prod.splits sum.splits)
  have "insert_slot ce (slot_row_of sl) s1 = (Inr 1, t)"
    using n by (auto simp: insert_slot_def split: if_splits)
  moreover have "db_slots s1 = db_slots s \<and> (case (so_outcome sl, run) of
       (SlotQueued, Some r) \<Rightarrow> db_runs s1 = db_runs s @ [queued_row r yaml (so_decided_at sl)]
     | (SlotQueued, None) \<Rightarrow> False
     | _ \<Rightarrow> db_runs s1 = db_runs s)"
    using s1 ok by (cases "so_outcome sl"; cases run)
      (auto simp: queue_slot_run_def enqueue_def insert_run_def map_runs_def split: if_splits)
  ultimately show ?thesis by blast
qed

text \<open>Deciding a slot is all or nothing. An error leaves the database exactly as it was, the queued
  run included; success adds one slot for an undecided instant and, for a drill, the one run that
  the slot names. Deciding the same slot again is an error.\<close>

theorem claim_slot_atomic:
  assumes "slots_sound s"
  shows "case claim_slot ce sl run yaml s of
      (Inl e, t) \<Rightarrow> t = s
    | (Inr _, t) \<Rightarrow> slots_sound t \<and> db_slots t = db_slots s @ [slot_row_of sl] \<and>
        (case (so_outcome sl, run) of
           (SlotQueued, Some r) \<Rightarrow> db_runs t = db_runs s @ [queued_row r yaml (so_decided_at sl)]
         | (SlotQueued, None) \<Rightarrow> False
         | _ \<Rightarrow> db_runs t = db_runs s) \<and>
        fst (claim_slot ce' (sl\<lparr>so_outcome := o', so_decided_at := a', so_reason := m', so_run_id := i'\<rparr>) run' yaml' t)
          \<noteq> Inr ()"
proof (cases "claim_slot ce sl run yaml s")
  case (Pair res t)
  show ?thesis
  proof (cases res)
    case (Inl e)
    then have "t = s"
      using Pair by (auto simp: claim_slot_def split: if_splits prod.splits sum.splits)
    then show ?thesis using Inl Pair by simp
  next
    case (Inr u)
    obtain s1 where s1: "insert_slot ce (slot_row_of sl) s1 = (Inr 1, t)" "db_slots s1 = db_slots s"
      and runs: "case (so_outcome sl, run) of
           (SlotQueued, Some r) \<Rightarrow> db_runs s1 = db_runs s @ [queued_row r yaml (so_decided_at sl)]
         | (SlotQueued, None) \<Rightarrow> False
         | _ \<Rightarrow> db_runs s1 = db_runs s"
      using claim_slot_Inr [of ce sl run yaml s] Pair Inr by auto
    have t: "db_slots t = db_slots s @ [slot_row_of sl]" "db_runs t = db_runs s1"
      and fresh: "slot_key (slot_row_of sl) \<notin> slot_key ` set (db_slots s)"
      and fk: "case sl_run_id (slot_row_of sl) of None \<Rightarrow> True | Some i \<Rightarrow> i \<in> rr_id ` set (db_runs s1)"
      using s1 by (cases "sl_run_id (slot_row_of sl)"; auto simp: insert_slot_def split: if_splits)+
    have more: "rr_id ` set (db_runs s) \<subseteq> rr_id ` set (db_runs s1)"
      using runs by (auto split: slot_outcome.splits option.splits)
    have sound: "slots_sound t"
      using assms fresh fk more unfolding slots_sound_def t
      by (auto simp: list_all_iff split: option.splits)
    have again: "fst (claim_slot ce' sl' run' yaml' t) \<noteq> Inr ()"
      if "slot_key (slot_row_of sl') = slot_key (slot_row_of sl)" for sl'
    proof -
      have "slot_key (slot_row_of sl') \<in> slot_key ` set (db_slots t)" using that t by simp
      then show ?thesis
        using claim_slot_Inr [of ce' sl' run' yaml' t] unfolding insert_slot_def
        by (cases "claim_slot ce' sl' run' yaml' t") (auto simp: t(1) fresh)
    qed
    show ?thesis
      using Inr Pair runs sound t again
      by (auto simp: slot_key_def slot_row_of_def split: slot_outcome.splits option.splits)
  qed
qed



section \<open>Announcing a run\<close>

text \<open>C16. One dispatcher decides about a run: once a claim for its announcement was won, every later
  claim loses, whatever transactions of the store are committed in between: the deliveries the winner
  records and settles, drills queued by the scheduler, deleted plans, outcomes.\<close>

theorem announced_once:
  assumes "unique_runs s" "claim_run_for_notify rid at_time s = (True, s1)" "reaches any_outcome s1 t"
  shows "\<not> fst (claim_run_for_notify rid again t)"
proof -
  have won: "fst (claim_run_for_notify rid b x) \<longleftrightarrow>
      (case row_with rr_id rid (db_runs x) of None \<Rightarrow> False | Some r \<Rightarrow> rr_notified_at r = None)"
    if "unique_runs x" for x b
    using count_row [OF that, of rid "\<lambda>r. rr_notified_at r = None"]
    by (simp add: claim_run_for_notify_def Let_def split: option.split)
  obtain r where r: "row_with rr_id rid (db_runs s) = Some r" "rr_notified_at r = None"
    using won [OF assms(1), of at_time] assms(2) by (auto split: option.splits)
  have s1: "s1 = map_runs (update_where (\<lambda>r. rr_id r = rid \<and> rr_notified_at r = None)
      (\<lambda>r. r\<lparr>rr_notified_at := Some at_time\<rparr>)) s"
    using assms(2) by (simp add: claim_run_for_notify_def Let_def)
  have row: "row_with rr_id rid (db_runs s1) = Some (r\<lparr>rr_notified_at := Some at_time\<rparr>)"
    using r row_with_Some [OF r(1)] by (simp add: s1 row_with_update)
  obtain r' where r': "row_with rr_id rid (db_runs t) = Some r'" "rr_notified_at r' = Some at_time"
    using history_row [OF drill.history_steps [OF assms(3)] row] by (auto simp: same_drill_def)
  have "store_step any_outcome s s1" using store_step.announced [of any_outcome s rid at_time] assms(2) by simp
  then have "unique_runs t"
    using drill.history_step drill.history_steps [OF assms(3)] history_unique assms(1) by blast
  then show ?thesis using won r' by simp
qed

definition lab_delivery :: delivery where
  "lab_delivery = \<lparr>dl_id = ''d1'', dl_run_id = ''r1'', dl_channel_id = ''ops'', dl_kind = ''failed'',
     dl_state = DeliveryPending, dl_attempts = 0, dl_next_at = 3, dl_status = 0, dl_err = [], dl_payload = ''{}'',
     dl_created_at = 3, dl_sent_at = zero_time\<rparr>"

text \<open>The pass that won records a delivery and settles it.\<close>

lemma announced_once_witness:
  "\<not> fst (claim_run_for_notify ''r1'' 9 (snd (settle_delivery lab_delivery (snd (create_delivery (Plain ''c'') lab_delivery
      (snd (claim_run_for_notify ''r1'' 8 lab_db)))))))"
proof -
  let ?s1 = "snd (claim_run_for_notify ''r1'' 8 lab_db)"
  have "claim_run_for_notify ''r1'' 8 lab_db = (True, ?s1)"
    by (simp add: claim_run_for_notify_def Let_def lab_db_defs count_where_def)
  moreover have "reaches any_outcome ?s1 (snd (settle_delivery lab_delivery (snd (create_delivery (Plain ''c'') lab_delivery ?s1))))"
    by (rule reaches_step [OF reaches_step [OF reaches_refl store_step.delivery_created] store_step.delivery_settled])
  ultimately show ?thesis using announced_once [OF unique_lab_db] by blast
qed

text \<open>What settling leaves alone: what the message is, and to whom.\<close>

lemma settle_keeps_keys: "delivery_key ` set (db_deliveries (snd (settle_delivery d s))) = delivery_key ` set (db_deliveries s)"
proof -
  have "map delivery_key (update_where p (settle_row d) rows) = map delivery_key rows" for p rows
    by (rule map_update_where) (simp add: delivery_key_def settle_row_def)
  then have "delivery_key ` set (update_where p (settle_row d) rows) = delivery_key ` set rows" for p rows
    by (metis list.set_map)
  then show ?thesis by (simp add: settle_delivery_def Let_def)
qed

text \<open>A channel hears about a run at most once: after a message was recorded, recording another
  one for the same run and channel is refused as a duplicate and changes nothing, also after
  attempts to deliver have been written to it.\<close>

theorem delivery_once:
  assumes "create_delivery ce d s = (Inr (), s1)" "t = s1 \<or> t = snd (settle_delivery d' s1)"
  shows "create_delivery ce' (e\<lparr>dl_run_id := dl_run_id d, dl_channel_id := dl_channel_id d\<rparr>) t =
    (Inl (Sentinel StoreDuplicate), t)"
proof -
  have "(dl_run_id d, dl_channel_id d) \<in> delivery_key ` set (db_deliveries s1)"
    using assms(1) by (auto simp: create_delivery_def delivery_row_of_def delivery_key_def split: if_splits)
  then have "(dl_run_id d, dl_channel_id d) \<in> delivery_key ` set (db_deliveries t)"
    using assms(2) settle_keeps_keys by auto
  then show ?thesis by (simp add: create_delivery_def delivery_row_of_def delivery_key_def)
qed


section \<open>The story of a workload\<close>

text \<open>The newest row that satisfies a condition.\<close>

definition is_newest_where :: "(run_row \<Rightarrow> bool) \<Rightarrow> run_row list \<Rightarrow> run_row option \<Rightarrow> bool" where
  "is_newest_where p rows r \<longleftrightarrow>
     (case r of
        None \<Rightarrow> list_all (\<lambda>x. \<not> p x) rows
      | Some r \<Rightarrow> r \<in> set rows \<and> p r \<and> list_all (\<lambda>x. \<not> (p x \<and> \<not> newest_run r x)) rows)"

lemma first_newest:
  "is_newest_where p rows (case limit_rows 1 (order_by newest_run (filter p rows)) of [] \<Rightarrow> None | r # _ \<Rightarrow> Some r)"
proof (cases "order_by newest_run (filter p rows)")
  case Nil
  then show ?thesis by (simp add: is_newest_where_def limit_rows_def filter_empty_conv list_all_iff)
next
  case (Cons a as)
  then have "a \<in> set (order_by newest_run (filter p rows))" by simp
  then have a: "a \<in> set rows" "p a" by simp_all
  have "newest_run a x" if "x \<in> set (filter p rows)" for x
    using newest.hd_order_by [OF that, of rr_started_at rr_id] Cons by (simp add: newest_run_def)
  then show ?thesis using a Cons by (auto simp: is_newest_where_def limit_rows_def list_all_iff)
qed

text \<open>The story told about a run compares it with the newest earlier run of the same workload that
  reached a verdict: runs cancelled or not evaluated are looked past. The flag that the workload
  could not be seen is about the newest earlier run of any kind.\<close>

theorem story_baseline:
  "fst (previous_story wid p s) = map_option scan_run_summary (previous_graded_run wid p s) \<and>
   is_newest_where (\<lambda>r. rr_source_workload_id r = wid \<and> before_position p r \<and> reached_verdict r)
     (db_runs s) (previous_graded_run wid p s) \<and>
   is_newest_where (\<lambda>r. rr_source_workload_id r = wid \<and> before_position p r) (db_runs s) (preceding_run wid p s) \<and>
   (snd (previous_story wid p s) \<longleftrightarrow> map_option rr_state (preceding_run wid p s) = Some RunInconclusive)"
  using first_newest by (auto simp: previous_story_def previous_graded_run_def preceding_run_def split: option.split)

lemma pages_cover_listing_witness:
  "map rs_id (all_pages 1 \<lparr>fi_workload_id = '''', fi_state = RunNoState, fi_result = ResultNone,
     fi_since = zero_time, fi_limit = 1, fi_after = None, fi_not_terminal = True\<rparr> lab_db) = [''r1'']"
  using pages_cover_listing [OF unique_lab_db, of "\<lparr>fi_workload_id = '''', fi_state = RunNoState, fi_result = ResultNone,
     fi_since = zero_time, fi_limit = 1, fi_after = None, fi_not_terminal = True\<rparr>" 1]
  by (simp add: lab_db_defs matches_filter_def is_zero_def settled_def terminal_states_def scan_run_summary_def)

definition lab_slot :: slot where
  "lab_slot = \<lparr>so_plan_id = ''p1'', so_slot_at = 0, so_decided_at = 1, so_outcome = SlotSkipped,
     so_reason = ''busy'', so_run_id = ''''\<rparr>"

definition slot_db :: db where
  "slot_db = lab_db\<lparr>db_plans := [\<lparr>pr_id = ''p1'', pr_name = ''p'', pr_description = None, pr_workload_id = ''101'',
     pr_provider_id = None, pr_yaml = '''', pr_version = 1, pr_created_at = 0, pr_updated_at = 0\<rparr>]\<rparr>"

lemma claim_slot_atomic_witness:
  "fst (claim_slot (Plain ''constraint'') (lab_slot\<lparr>so_outcome := SlotQueued, so_run_id := ''r2''\<rparr>) (Some (lab_run\<lparr>run_id := ''r2''\<rparr>)) ''yaml''
     (snd (claim_slot (Plain ''constraint'') lab_slot None '''' slot_db))) \<noteq> Inr ()"
proof -
  have "slots_sound slot_db" by (simp add: slots_sound_def slot_db_def lab_db_defs)
  moreover have "fst (claim_slot (Plain ''constraint'') lab_slot None '''' slot_db) = Inr ()"
    by (simp add: claim_slot_def queue_slot_run_def insert_slot_def slot_row_of_def slot_key_def lab_slot_def
        slot_db_def lab_db_defs null_string_def)
  ultimately show ?thesis
    using claim_slot_atomic [where s = slot_db and ce = "Plain ''constraint''" and sl = lab_slot and run = None
        and yaml = "''''" and ce' = "Plain ''constraint''" and o' = SlotQueued and a' = 1 and m' = "''busy''"
        and i' = "''r2''" and run' = "Some (lab_run\<lparr>run_id := ''r2''\<rparr>)" and yaml' = "''yaml''"]
    by (cases "claim_slot (Plain ''constraint'') lab_slot None '''' slot_db") (auto simp: lab_slot_def)
qed

lemma delivery_once_witness:
  "create_delivery (Plain ''constraint'') (lab_delivery\<lparr>dl_id := ''d2''\<rparr>)
     (snd (create_delivery (Plain ''constraint'') lab_delivery lab_db)) =
   (Inl (Sentinel StoreDuplicate), snd (create_delivery (Plain ''constraint'') lab_delivery lab_db))"
proof -
  let ?s1 = "snd (create_delivery (Plain ''constraint'') lab_delivery lab_db)"
  have "create_delivery (Plain ''constraint'') lab_delivery lab_db = (Inr (), ?s1)"
    by (simp add: create_delivery_def lab_delivery_def lab_db_defs run_exists_def)
  from delivery_once [OF this, of ?s1 _ "Plain ''constraint''" "lab_delivery\<lparr>dl_id := ''d2''\<rparr>"]
  show ?thesis by (simp add: lab_delivery_def)
qed

text \<open>
  Two messages, one of them due with no schedule: which one is read first depends on the engine.
\<close>

definition due_db :: db where
  "due_db = empty_db\<lparr>db_deliveries :=
     [delivery_row_of lab_delivery, (delivery_row_of (lab_delivery\<lparr>dl_id := ''d0''\<rparr>))\<lparr>dr_next_at := None\<rparr>]\<rparr>"

lemma due_order_depends_on_engine:
  "map dl_id (due_deliveries DialectSQLite 5 1 due_db) = [''d0'']"
  "map dl_id (due_deliveries DialectPostgres 5 1 due_db) = [''d1'']"
  by (simp_all add: due_deliveries_def due_db_def empty_db_def delivery_row_of_def lab_delivery_def is_due_def
      nulls_then_id_def null_less_def null_le_def limit_rows_def limit_or_default_def scan_delivery_def
      format_null_time_def is_zero_def zero_time_def)

end
