(* ===== verification/Check_Values.thy ===== *)
theory Check_Values
  imports Core
begin

text \<open>
  internal/checks/values.go: reading the number a check printed, the baseline of a short history,
  and the two verdicts on a value. \<open>pf\<close> is strconv.ParseFloat (None is its error), \<open>ff\<close> and \<open>fp\<close> are
  strconv.FormatFloat as formatNumber and formatPercent call it; they appear in messages only.
\<close>

section \<open>Reading a value\<close>

definition truncate_to :: "string \<Rightarrow> nat \<Rightarrow> string" where
  "truncate_to s n = (if length s \<le> n then s else take n s)"

definition newline :: char where "newline = char_of (10 :: nat)"

definition printed_lines :: "string \<Rightarrow> string list" where
  "printed_lines stdout = filter (\<lambda>l. l \<noteq> []) (map trim_space (split_on newline stdout))"

definition parse_captured :: "(string \<Rightarrow> f64 option) \<Rightarrow> string \<Rightarrow> goerr + f64" where
  "parse_captured pf stdout =
     (case printed_lines stdout of
        [] \<Rightarrow> Inl (Plain ''the command printed nothing to capture'')
      | [text_line] \<Rightarrow>
          (case pf text_line of
             None \<Rightarrow> Inl (Plain (quoted text_line @ '' is not a number''))
           | Some v \<Rightarrow>
               if \<not> finite64 v then
                 Inl (Plain (quoted text_line @ '' is not a finite number, and a value that compares false '' @
                   ''against every bound would pass every check forever''))
               else Inr v)
      | many \<Rightarrow> Inl (Plain (''the command printed '' @ itoa (int (length many)) @
          '' values and a capture is one measurement: '' @ truncate_to (join '' / '' many) 120)))"


section \<open>The baseline\<close>

text \<open>\<open>slices.Sort\<close> on finite numbers.\<close>

fun insert64 :: "f64 \<Rightarrow> f64 list \<Rightarrow> f64 list" where
  "insert64 x [] = [x]"
| "insert64 x (y # ys) = (if less64 y x then y # insert64 x ys else x # y # ys)"

definition sort64 :: "f64 list \<Rightarrow> f64 list" where "sort64 xs = foldr insert64 xs []"

definition baseline :: "f64 list \<Rightarrow> f64 option" where
  "baseline values =
     (let sorted = sort64 (filter finite64 values)
      in if sorted = [] then None
         else
           (let mid = length sorted div 2
            in if length sorted mod 2 = 1 then Some (sorted ! mid)
               else Some (add64 (div64 (sorted ! (mid - 1)) (Fin 2)) (div64 (sorted ! mid) (Fin 2)))))"


section \<open>Verdicts\<close>

text \<open>The empty message is the verdict that nothing is wrong.\<close>

definition check_assert :: "(f64 \<Rightarrow> string) \<Rightarrow> f64 \<Rightarrow> assert_spec \<Rightarrow> string" where
  "check_assert ff v a =
     (if \<not> finite64 v then
        ''captured value '' @ ff v @ '' is not a finite number, so no bound can be judged against it''
      else first_non_empty
        [case as_min a of
           Some m \<Rightarrow> if less64 v m
             then ''captured value '' @ ff v @ '' is below the declared minimum of '' @ ff m else ''''
         | None \<Rightarrow> '''',
         case as_max a of
           Some m \<Rightarrow> if less64 m v
             then ''captured value '' @ ff v @ '' is above the declared maximum of '' @ ff m else ''''
         | None \<Rightarrow> '''',
         case as_equals a of
           Some m \<Rightarrow> if \<not> eq64 v m
             then ''captured value '' @ ff v @ '' is not the declared '' @ ff m else ''''
         | None \<Rightarrow> ''''])"

definition drop_message :: "(f64 \<Rightarrow> string) \<Rightarrow> f64 \<Rightarrow> string \<Rightarrow> f64 \<Rightarrow> string \<Rightarrow> string" where
  "drop_message ff v drop_text b limit_text =
     ''captured value '' @ ff v @ '' is '' @ drop_text @ '' below the baseline '' @ ff b @
     '', more than the declared max_drop of '' @ limit_text"

definition check_drift :: "(f64 \<Rightarrow> string) \<Rightarrow> (f64 \<Rightarrow> string) \<Rightarrow> f64 \<Rightarrow> f64 \<Rightarrow> drift_spec \<Rightarrow> string" where
  "check_drift ff fp v b d =
     (if \<not> finite64 v \<or> \<not> finite64 b then
        ''drift cannot be judged: captured value '' @ ff v @ '' against baseline '' @ ff b @
        '' is not a finite comparison''
      else if le64 b v then ''''
      else
        (let drop = sub64 b v in
         if \<not> max_drop_is_percent d then
           (if le64 drop (max_drop d) then '''' else drop_message ff v (ff drop) b (ff (max_drop d)))
         else if eq64 b (Fin 0) then
           ''captured value '' @ ff v @
           '' fell below a baseline of 0, and no percentage of a zero baseline permits any fall''
         else
           (let pct = mul64 (div64 drop (abs64 b)) (Fin 100) in
            if le64 pct (max_drop d) then ''''
            else drop_message ff v (fp pct @ ''%'') b (ff (max_drop d) @ ''%''))))"


section \<open>The median\<close>

lemma mset_insert64 [simp]: "mset (insert64 x xs) = add_mset x (mset xs)"
  by (induction xs) auto

lemma mset_sort64 [simp]: "mset (sort64 xs) = mset xs"
  by (induction xs) (auto simp: sort64_def)

lemma set_sort64 [simp]: "set (sort64 xs) = set xs"
  by (metis mset_sort64 set_mset_mset)

lemma length_sort64 [simp]: "length (sort64 xs) = length xs"
  by (metis mset_sort64 size_mset)

lemma le64_finite: "finite64 x \<Longrightarrow> finite64 y \<Longrightarrow> le64 x y \<longleftrightarrow> \<not> less64 y x"
  by (cases x; cases y) auto

lemma sorted_sort64: "list_all finite64 xs \<Longrightarrow> sorted_wrt le64 (sort64 xs)"
proof (induction xs)
  case (Cons x xs)
  have insert: "sorted_wrt le64 (insert64 x ys)"
    if "sorted_wrt le64 ys" "list_all finite64 ys" "finite64 x" for ys
    using that
  proof (induction ys)
    case (Cons y ys)
    have "set (insert64 x ys) = insert x (set ys)"
      by (metis mset_insert64 set_mset_add_mset_insert set_mset_mset)
    moreover have "le64 x z" if "le64 x y" "z \<in> set ys" for z
      using Cons.prems that by (cases x; cases y; cases z) (auto simp: list_all_iff)
    moreover have "\<not> less64 x y" if "less64 y x" using that by (cases x; cases y) auto
    ultimately show ?case
      using Cons by (auto simp: le64_finite list_all_iff)
  qed simp
  have "list_all finite64 (sort64 xs)" using Cons.prems by (simp add: list_all_iff)
  then show ?case using Cons insert by (simp add: sort64_def)
qed (simp add: sort64_def)

lemma sort64_sorted:
  assumes "list_all finite64 xs" "i \<le> j" "j < length xs"
  shows "le64 (sort64 xs ! i) (sort64 xs ! j)"
proof (cases "i = j")
  case True
  have "sort64 xs ! i \<in> set (sort64 xs)" using assms by (intro nth_mem) simp
  then have "finite64 (sort64 xs ! i)" using assms(1) by (auto simp: list_all_iff)
  then show ?thesis using True by (cases "sort64 xs ! i") auto
next
  case False
  then show ?thesis using sorted_sort64 [OF assms(1)] assms(2,3) by (auto simp: sorted_wrt_iff_nth_less)
qed

text \<open>How many values of a sorted list lie before its middle.\<close>

definition count_less :: "f64 \<Rightarrow> f64 list \<Rightarrow> nat" where
  "count_less b xs = length (filter (\<lambda>x. less64 x b) xs)"

definition count_more :: "f64 \<Rightarrow> f64 list \<Rightarrow> nat" where
  "count_more b xs = length (filter (less64 b) xs)"

lemma count_mset: "mset xs = mset ys \<Longrightarrow> count_less b xs = count_less b ys \<and> count_more b xs = count_more b ys"
  unfolding count_less_def count_more_def by (metis mset_filter size_mset)

lemma count_take:
  assumes "\<And>i. i < length xs \<Longrightarrow> k \<le> i \<Longrightarrow> \<not> P (xs ! i)" "k \<le> length xs"
  shows "length (filter P xs) \<le> k"
proof -
  have "filter P (drop k xs) = []"
    using assms by (auto simp: filter_empty_conv in_set_conv_nth)
  then have "filter P xs = filter P (take k xs)"
    by (metis append_take_drop_id append_Nil2 filter_append)
  also have "length \<dots> \<le> length (take k xs)" by (rule length_filter_le)
  also have "\<dots> = k" using assms(2) by simp
  finally show ?thesis .
qed

lemma count_drop:
  assumes "\<And>i. i < length xs \<Longrightarrow> i < k \<Longrightarrow> \<not> P (xs ! i)" "k \<le> length xs"
  shows "length (filter P xs) \<le> length xs - k"
proof -
  have "filter P (take k xs) = []"
    using assms by (auto simp: filter_empty_conv in_set_conv_nth)
  then have "filter P xs = filter P (drop k xs)"
    by (metis append_take_drop_id append_Nil filter_append)
  also have "length \<dots> \<le> length (drop k xs)" by (rule length_filter_le)
  finally show ?thesis by simp
qed


text \<open>A value the machine holds: a finite one is representable, hence at most the largest.\<close>

definition is_float :: "f64 \<Rightarrow> bool" where
  "is_float v \<longleftrightarrow> (case v of Fin r \<Rightarrow> representable r | _ \<Rightarrow> True)"

lemma top_multiple:
  fixes k :: int
  assumes x: "x = of_int k * p2 971" and lt: "\<bar>x\<bar> < p2 1024"
  shows "\<bar>x\<bar> \<le> max_f64"
proof -
  have pos: "0 < p2 971" by (rule p2_pos)
  have ax: "\<bar>x\<bar> = of_int \<bar>k\<bar> * p2 971" using pos by (simp add: x abs_mult)
  have "p2 1024 = of_int (2 ^ 53) * p2 971" using p2_add [of 53 971] by (simp add: p2_nat [of 53])
  then have "of_int \<bar>k\<bar> * p2 971 < of_int (2 ^ 53) * p2 971" using lt ax by simp
  then have "(of_int \<bar>k\<bar> :: real) < of_int (2 ^ 53)" using pos by (rule mult_right_less_imp_less [OF _ less_imp_le])
  then have "\<bar>k\<bar> \<le> 2 ^ 53 - 1" unfolding of_int_less_iff by linarith
  then have "(of_int \<bar>k\<bar> :: real) \<le> of_int (2 ^ 53 - 1)" unfolding of_int_le_iff .
  then have "of_int \<bar>k\<bar> * p2 971 \<le> of_int (2 ^ 53 - 1) * p2 971"
    using pos by (intro mult_right_mono) simp_all
  then show ?thesis by (simp add: ax max_f64_def)
qed

lemma representable_bound:
  assumes "representable x"
  shows "\<bar>x\<bar> \<le> max_f64"
proof (cases "x = 0")
  case True
  then show ?thesis by (simp add: max_f64_def)
next
  case False
  have r: "rnd_real x = x" and lt: "\<bar>x\<bar> < p2 1024"
    using assms by (auto simp: representable_def rnd_def Let_def split: if_splits)
  have top: "p2 1023 \<le> max_f64"
    using p2_add [of 52 971] by (simp add: max_f64_def p2_nat [of 52])
  show ?thesis
  proof (cases "exponent x < 1023")
    case True
    then have "p2 (exponent x + 1) \<le> p2 1023" by (intro p2_mono) simp
    then show ?thesis using exponent_bounds [OF False] top by linarith
  next
    case big: False
    then have "p2 1023 \<le> p2 (exponent x)" by (intro p2_mono) simp
    moreover have "p2 (exponent x) \<le> \<bar>x\<bar>" using exponent_bounds [OF False] by simp
    moreover have "p2 1024 = 2 * p2 1023" using p2_add [of 1 1023] by (simp add: p2_nat [of 1])
    ultimately have e: "exponent x = 1023"
      using exponent_eq [of 1023 x] lt by simp
    then have u: "ulp x = p2 971" by (simp add: ulp_def ulp_exp_def)
    let ?k = "rhe (x / ulp x)"
    have x: "x = of_int ?k * p2 971" using r False u by (simp add: rnd_real_def)
    show ?thesis using top_multiple [OF x lt] .
  qed
qed

lemma half_finite:
  assumes "is_float v" "finite64 v"
  shows "\<exists>r. div64 v (Fin 2) = Fin r \<and> - (max_f64 / 2) \<le> r \<and> r \<le> max_f64 / 2"
proof -
  obtain x where x: "v = Fin x" using assms(2) by (cases v) auto
  then have "\<bar>x\<bar> \<le> max_f64" using assms(1) representable_bound by (simp add: is_float_def)
  then show ?thesis
    using rnd_fin_between [OF representable_half_max(2) representable_half_max(1), of "x / 2"] by (auto simp: x)
qed

lemma midpoint_finite:
  assumes "is_float lo" "finite64 lo" "is_float hi" "finite64 hi"
  shows "finite64 (add64 (div64 lo (Fin 2)) (div64 hi (Fin 2)))"
proof -
  obtain a b where ab: "div64 lo (Fin 2) = Fin a" "- (max_f64 / 2) \<le> a" "a \<le> max_f64 / 2"
    "div64 hi (Fin 2) = Fin b" "- (max_f64 / 2) \<le> b" "b \<le> max_f64 / 2"
    using half_finite assms by meson
  then have "\<exists>r. rnd (a + b) = Fin r \<and> - max_f64 \<le> r \<and> r \<le> max_f64"
    by (intro rnd_fin_between representable_max) linarith+
  then show ?thesis using ab by auto
qed

lemma median_counts:
  assumes f: "list_all finite64 xs" and i: "i < length xs"
  shows "count_less (sort64 xs ! i) xs \<le> i" "count_more (sort64 xs ! i) xs \<le> length xs - i - 1"
proof -
  let ?s = "sort64 xs"
  have le: "le64 (?s ! j) (?s ! k)" if "j \<le> k" "k < length xs" for j k
    using sort64_sorted [OF f that] .
  have nl: "\<not> less64 b a" if "le64 a b" for a b using that by (cases a; cases b) (auto simp: le64_def)
  have "count_less (?s ! i) ?s \<le> i"
    unfolding count_less_def by (rule count_take) (use i le nl in auto)
  moreover have "count_more (?s ! i) ?s \<le> length ?s - Suc i"
    unfolding count_more_def by (rule count_drop) (use i le nl in auto)
  ultimately show "count_less (?s ! i) xs \<le> i" "count_more (?s ! i) xs \<le> length xs - i - 1"
    using count_mset [OF mset_sort64, of "?s ! i" xs] by simp_all
qed

definition finite_values :: "f64 list \<Rightarrow> f64 list" where "finite_values xs = filter finite64 xs"

lemma baseline_cases:
  "baseline xs = (let fs = finite_values xs; n = length fs in
     if n = 0 then None
     else if odd n then Some (sort64 fs ! (n div 2))
     else Some (add64 (div64 (sort64 fs ! (n div 2 - 1)) (Fin 2)) (div64 (sort64 fs ! (n div 2)) (Fin 2))))"
proof -
  have "sort64 fs = [] \<longleftrightarrow> fs = []" for fs by (metis length_sort64 length_0_conv)
  then show ?thesis by (simp add: baseline_def finite_values_def Let_def odd_iff_mod_2_eq_one)
qed


section \<open>Properties\<close>

text \<open>The baseline is a median of the finite readings: it exists exactly when there is one, is
  always a finite number, and as many readings may lie below it as above it. With an even number
  of readings it is the midpoint of the two middle ones, computed without overflow.\<close>

theorem baseline_is_median:
  assumes "list_all is_float xs"
  shows "case baseline xs of
      None \<Rightarrow> finite_values xs = []
    | Some b \<Rightarrow> finite64 b \<and> finite_values xs \<noteq> [] \<and>
        (let fs = finite_values xs; n = length fs in
         if odd n then b \<in> set xs \<and> 2 * count_less b fs < n \<and> 2 * count_more b fs < n
         else list_ex (\<lambda>lo. list_ex (\<lambda>hi. b = add64 (div64 lo (Fin 2)) (div64 hi (Fin 2)) \<and> le64 lo hi \<and>
                2 * count_less lo fs < n \<and> 2 * count_more hi fs < n) fs) fs)"
proof -
  let ?fs = "finite_values xs"
  let ?n = "length ?fs" and ?s = "sort64 ?fs"
  have fin: "list_all finite64 ?fs" by (simp add: finite_values_def list_all_iff)
  have flt: "list_all is_float ?fs" using assms by (simp add: finite_values_def list_all_iff)
  have mem: "?s ! i \<in> set ?fs" if "i < ?n" for i using that by (metis length_sort64 nth_mem set_sort64)
  consider "?n = 0" | "odd ?n" | "even ?n" "0 < ?n" by auto
  then show ?thesis
  proof cases
    case 1
    then show ?thesis by (simp add: baseline_cases Let_def)
  next
    case 2
    then have i: "?n div 2 < ?n" by (cases "?n") auto
    let ?b = "?s ! (?n div 2)"
    have half: "2 * (?n div 2) < ?n" "2 * (?n - ?n div 2 - 1) < ?n" using 2 by presburger+
    have cl: "2 * count_less ?b ?fs < ?n" using median_counts(1) [OF fin i] half(1) by linarith
    have cm: "2 * count_more ?b ?fs < ?n" using median_counts(2) [OF fin i] half(2) by linarith
    have "finite64 ?b" "?b \<in> set xs"
      using mem [OF i] by (simp_all add: finite_values_def)
    moreover have ne: "?fs \<noteq> []" using 2 by (metis even_zero list.size(3))
    moreover have "baseline xs = Some ?b" using 2 ne by (simp add: baseline_cases Let_def)
    ultimately show ?thesis using cl cm 2 by (simp add: Let_def)
  next
    case 3
    have i: "?n div 2 < ?n" "?n div 2 - 1 < ?n" using 3(2) by linarith+
    let ?lo = "?s ! (?n div 2 - 1)" and ?hi = "?s ! (?n div 2)"
    have "finite64 (add64 (div64 ?lo (Fin 2)) (div64 ?hi (Fin 2)))"
      using mem [OF i(1)] mem [OF i(2)] fin flt by (intro midpoint_finite) (auto simp: list_all_iff)
    moreover have "2 * count_less ?lo ?fs < ?n" using median_counts(1) [OF fin i(2)] 3 by presburger
    moreover have "2 * count_more ?hi ?fs < ?n" using median_counts(2) [OF fin i(1)] 3 by presburger
    moreover have "le64 ?lo ?hi" by (rule sort64_sorted [OF fin _ i(1)]) simp
    ultimately show ?thesis
      using 3 mem [OF i(1)] mem [OF i(2)]
      by (auto simp: baseline_cases Let_def list_ex_iff)
  qed
qed

lemma some_below:
  assumes "list_all finite64 ys" "finite64 b" "count_more b ys < length ys"
  shows "list_ex (\<lambda>lo. le64 lo b) ys"
proof (rule ccontr)
  assume "\<not> ?thesis"
  then have "list_all (less64 b) ys"
    using assms(1,2) by (auto simp: list_ex_iff list_all_iff le64_finite)
  then have "filter (less64 b) ys = ys" by (simp add: list_all_iff)
  then show False using assms(3) by (simp add: count_more_def)
qed

lemma some_above:
  assumes "list_all finite64 ys" "finite64 b" "count_less b ys < length ys"
  shows "list_ex (le64 b) ys"
proof (rule ccontr)
  assume "\<not> ?thesis"
  then have "list_all (\<lambda>x. less64 x b) ys"
    using assms(1,2) by (auto simp: list_ex_iff list_all_iff le64_finite)
  then have "filter (\<lambda>x. less64 x b) ys = ys" by (simp add: list_all_iff)
  then show False using assms(3) by (simp add: count_less_def)
qed

lemma count_around: "count_more b (xs @ ys) \<le> count_more b (xs @ x # ys)"
  "count_less b (xs @ ys) \<le> count_less b (xs @ x # ys)"
  by (simp_all add: count_more_def count_less_def)

lemma odd_baseline:
  assumes "list_all finite64 xs" "odd (length xs)"
  shows "\<exists>b. baseline xs = Some b \<and> finite64 b \<and> 2 * count_less b xs < length xs \<and> 2 * count_more b xs < length xs"
proof -
  have fv: "finite_values xs = xs" using assms(1) by (simp add: finite_values_def list_all_iff)
  let ?b = "sort64 xs ! (length xs div 2)"
  have i: "length xs div 2 < length xs" using assms(2) by (cases xs) auto
  have "?b \<in> set xs" using i by (metis length_sort64 nth_mem set_sort64)
  then have "finite64 ?b" using assms(1) by (simp add: list_all_iff)
  moreover have "xs \<noteq> []" using i by auto
  then have "baseline xs = Some ?b" using assms(2) by (simp add: baseline_cases fv Let_def)
  moreover have "2 * (length xs div 2) < length xs" "2 * (length xs - length xs div 2 - 1) < length xs"
    using assms(2) by presburger+
  ultimately show ?thesis
    using median_counts [OF assms(1) i] by (meson le_less_trans mult_le_mono2)
qed

text \<open>One reading cannot become the new normal: whatever a single night measured, the median of
  three or more (an odd number of) readings stays between two of the others.\<close>

theorem one_reading_is_outvoted:
  assumes "list_all finite64 (xs @ x # ys)" "odd (length (xs @ x # ys))" "xs @ ys \<noteq> []"
  shows "case baseline (xs @ x # ys) of
      None \<Rightarrow> False
    | Some b \<Rightarrow> list_ex (\<lambda>lo. le64 lo b) (xs @ ys) \<and> list_ex (le64 b) (xs @ ys)"
proof -
  let ?all = "xs @ x # ys" and ?rest = "xs @ ys"
  obtain b where b: "baseline ?all = Some b" "finite64 b"
    "2 * count_less b ?all < length ?all" "2 * count_more b ?all < length ?all"
    using odd_baseline [OF assms(1,2)] by blast
  have len: "length ?all = Suc (length ?rest)" by simp
  have "even (length ?rest)" using assms(2) len by simp
  moreover have "0 < length ?rest" using assms(3) by simp
  ultimately have two: "2 \<le> length ?rest" by presburger
  have few: "count_more b ?rest < length ?rest" "count_less b ?rest < length ?rest"
    using count_around [of b xs ys x] b(3,4) len two by linarith+
  have fin: "list_all finite64 ?rest" using assms(1) by simp
  show ?thesis using some_below [OF fin b(2) few(1)] some_above [OF fin b(2) few(2)] by (simp add: b(1))
qed

theorem one_reading_is_outvoted_witness:
  "case baseline ([Fin 1204331, Fin 1204100] @ Fin 0 # []) of
      None \<Rightarrow> False
    | Some b \<Rightarrow> list_ex (\<lambda>lo. le64 lo b) ([Fin 1204331, Fin 1204100] @ []) \<and>
               list_ex (le64 b) ([Fin 1204331, Fin 1204100] @ [])"
  by (rule one_reading_is_outvoted) simp_all

theorem baseline_is_median_witness:
  "case baseline [Fin 0, NaN] of
      None \<Rightarrow> finite_values [Fin 0, NaN] = []
    | Some b \<Rightarrow> finite64 b \<and> finite_values [Fin 0, NaN] \<noteq> [] \<and>
        (let fs = finite_values [Fin 0, NaN]; n = length fs in
         if odd n then b \<in> set [Fin 0, NaN] \<and> 2 * count_less b fs < n \<and> 2 * count_more b fs < n
         else list_ex (\<lambda>lo. list_ex (\<lambda>hi. b = add64 (div64 lo (Fin 2)) (div64 hi (Fin 2)) \<and> le64 lo hi \<and>
                2 * count_less lo fs < n \<and> 2 * count_more hi fs < n) fs) fs)"
  by (rule baseline_is_median) (simp add: is_float_def representable_def)


section \<open>The verdicts\<close>

definition within_bounds :: "f64 \<Rightarrow> assert_spec \<Rightarrow> bool" where
  "within_bounds v a \<longleftrightarrow> finite64 v \<and>
     (case as_min a of Some m \<Rightarrow> \<not> less64 v m | None \<Rightarrow> True) \<and>
     (case as_max a of Some m \<Rightarrow> \<not> less64 m v | None \<Rightarrow> True) \<and>
     (case as_equals a of Some m \<Rightarrow> eq64 v m | None \<Rightarrow> True)"

lemma assert_silent: "check_assert ff v a = '''' \<longleftrightarrow> within_bounds v a"
  by (auto simp: check_assert_def within_bounds_def split: option.splits)

text \<open>An assertion is judged silently exactly when the value is finite and inside every declared
  bound, the bounds included; and a silent verdict of two bounds on finite numbers means the value
  lies between them.\<close>

theorem assert_is_its_bounds:
  "(check_assert ff v a = '''' \<longleftrightarrow> within_bounds v a) \<and>
   (check_assert ff (Fin x) (a\<lparr>as_min := Some (Fin lo), as_max := Some (Fin hi), as_equals := None\<rparr>) = '''' \<longleftrightarrow>
      lo \<le> x \<and> x \<le> hi)"
  by (auto simp: assert_silent within_bounds_def)

text \<open>Drift is a floor and never a band: a value at or above the baseline is never a violation,
  a value that is not a number never passes, any fall below a zero baseline is reported whatever
  percentage is tolerated, and the total collapse of a positive baseline to zero is reported under
  every percentage below 100.\<close>

theorem drift_is_a_floor:
  "(finite64 v \<and> finite64 b \<and> le64 b v \<longrightarrow> check_drift ff fp v b d = '''') \<and>
   (\<not> (finite64 v \<and> finite64 b) \<longrightarrow> check_drift ff fp v b d \<noteq> '''') \<and>
   (max_drop_is_percent d \<and> x < 0 \<longrightarrow> check_drift ff fp (Fin x) (Fin 0) d \<noteq> '''') \<and>
   (max_drop_is_percent d \<and> 0 < y \<and> representable y \<and> max_drop d = Fin t \<and> t < 100 \<longrightarrow>
      check_drift ff fp (Fin 0) (Fin y) d \<noteq> '''')"
proof -
  have r1: "rnd 1 = Fin 1" using representable_int [of 1] by (simp add: representable_def)
  have r100: "rnd 100 = Fin 100" using representable_int [of 100] by (simp add: representable_def)
  have "rnd y = Fin y" if "representable y" using that by (simp add: representable_def)
  then show ?thesis
    by (auto simp: check_drift_def drop_message_def Let_def sub64_def r1 r100 finite64_iff)
qed

theorem drift_is_a_floor_witness:
  "check_drift (\<lambda>_. '''') (\<lambda>_. '''') (Fin 3) (Fin 2) \<lparr>max_drop = Fin 10, max_drop_is_percent = True\<rparr> = '''' \<and>
   check_drift (\<lambda>_. '''') (\<lambda>_. '''') NaN (Fin 2) \<lparr>max_drop = Fin 10, max_drop_is_percent = True\<rparr> \<noteq> '''' \<and>
   check_drift (\<lambda>_. '''') (\<lambda>_. '''') (Fin (- 1)) (Fin 0) \<lparr>max_drop = Fin 10, max_drop_is_percent = True\<rparr> \<noteq> '''' \<and>
   check_drift (\<lambda>_. '''') (\<lambda>_. '''') (Fin 0) (Fin 1) \<lparr>max_drop = Fin 10, max_drop_is_percent = True\<rparr> \<noteq> ''''"
  using drift_is_a_floor [of "Fin 3" "Fin 2" "\<lambda>_. ''''" "\<lambda>_. ''''"
      "\<lparr>max_drop = Fin 10, max_drop_is_percent = True\<rparr>" "- 1" 1 10]
    drift_is_a_floor [of NaN "Fin 2" "\<lambda>_. ''''" "\<lambda>_. ''''"
      "\<lparr>max_drop = Fin 10, max_drop_is_percent = True\<rparr>" "- 1" 1 10]
    representable_int [of 1] by simp

end
