(* ===== verification/Checks.thy ===== *)
theory Checks
  imports Effects Check_Values
begin

text \<open>
  internal/checks: the typed view of a check's parameters (params.go), the command check
  (command.go) and the registry that runs a check with retries, a time limit and a net under
  panics (registry.go).

  text/template, regexp and ParseDuration are parameters: \<open>tx\<close> parses and executes a template
  against the target's variables, \<open>rx\<close> compiles an expression to its match, \<open>pd\<close> reads a
  duration. A call to the guest, to the history or to a check is an effect on a world \<open>'w\<close> that
  returns, panics or never returns. The deadline of an attempt is an argument of the calls made
  under it.
\<close>

section \<open>Parameters\<close>

datatype template_result = TemplateInvalid goerr | TemplateUnknown goerr | TemplateText string

type_synonym template_engine = "string \<Rightarrow> string \<Rightarrow> (string \<rightharpoonup> string) \<Rightarrow> template_result"

record param_view =
  pv_raw :: params
  pv_vars :: "string \<rightharpoonup> string"
  pv_errs :: "goerr list"

definition new_params :: "params \<Rightarrow> target \<Rightarrow> param_view" where
  "new_params ps tg = \<lparr>pv_raw = ps, pv_vars = template_vars tg, pv_errs = []\<rparr>"

definition params_err :: "param_view \<Rightarrow> goerr option" where
  "params_err p = (if pv_errs p = [] then None else Some (Joined (pv_errs p)))"

definition add_err :: "goerr \<Rightarrow> param_view \<Rightarrow> param_view" where
  "add_err e p = p\<lparr>pv_errs := pv_errs p @ [e]\<rparr>"

definition param_text :: "string \<Rightarrow> string" where
  "param_text key = ''param '' @ quoted key"

definition lookup_param :: "param_view \<Rightarrow> string \<Rightarrow> anyval option" where
  "lookup_param p key = map_of (pv_raw p) key"

definition expand_param :: "template_engine \<Rightarrow> string \<Rightarrow> string \<Rightarrow> param_view \<Rightarrow> string \<times> param_view" where
  "expand_param tx key s p =
     (if \<not> contains s ''{{'' then (s, p)
      else case tx key s (pv_vars p) of
             TemplateInvalid e \<Rightarrow>
               (s, add_err (Wrapped (param_text key @ '': invalid template: '' @ err_text e) e) p)
           | TemplateUnknown e \<Rightarrow>
               (s, add_err (Wrapped (param_text key @ '': template references an unknown variable: '' @ err_text e) e) p)
           | TemplateText t \<Rightarrow> (t, p))"

definition any_string :: "anyval \<Rightarrow> string" where
  "any_string v = (case v of AnyString s \<Rightarrow> s | _ \<Rightarrow> fmt_v v)"

definition string_param :: "template_engine \<Rightarrow> string \<Rightarrow> string \<Rightarrow> param_view \<Rightarrow> string \<times> param_view" where
  "string_param tx key dflt p =
     (case lookup_param p key of
        None \<Rightarrow> (dflt, p)
      | Some v \<Rightarrow> expand_param tx key (any_string v) p)"

definition require_string :: "template_engine \<Rightarrow> string \<Rightarrow> param_view \<Rightarrow> string \<times> param_view" where
  "require_string tx key p =
     (case lookup_param p key of
        None \<Rightarrow> ('''', add_err (Plain (param_text key @ '' is required'')) p)
      | Some _ \<Rightarrow>
          (case string_param tx key '''' p of (s, p) \<Rightarrow>
             (s, if trim_space s = '''' then add_err (Plain (param_text key @ '' must not be empty'')) p else p)))"

definition any_param :: "template_engine \<Rightarrow> string \<Rightarrow> param_view \<Rightarrow> anyval option \<times> param_view" where
  "any_param tx key p =
     (case lookup_param p key of
        None \<Rightarrow> (None, p)
      | Some (AnyString s) \<Rightarrow> (case expand_param tx key s p of (s, p) \<Rightarrow> (Some (AnyString s), p))
      | Some v \<Rightarrow> (Some v, p))"

text \<open>The conversion of a float64 to a 64-bit integer: towards zero, and the least integer for a
  value out of range, as amd64 converts it.\<close>

definition float_to_int :: "f64 \<Rightarrow> int" where
  "float_to_int v =
     (case v of
        Fin r \<Rightarrow> (let n = (if r < 0 then \<lceil>r\<rceil> else \<lfloor>r\<rfloor>) in if min_int64 \<le> n \<and> n \<le> max_int64 then n else min_int64)
      | _ \<Rightarrow> min_int64)"

definition to_int :: "anyval \<Rightarrow> goerr + int" where
  "to_int v =
     (case v of
        AnyInt n \<Rightarrow> Inr n
      | AnyFloat x _ \<Rightarrow> Inr (float_to_int x)
      | AnyString t \<Rightarrow>
          (case atoi (trim_space t) of
             None \<Rightarrow> Inl (Plain (''expected an integer, got '' @ quoted t))
           | Some n \<Rightarrow> Inr n)
      | _ \<Rightarrow> Inl (Plain (''expected an integer, got '' @ go_type v)))"

definition int_param :: "string \<Rightarrow> int \<Rightarrow> param_view \<Rightarrow> int \<times> param_view" where
  "int_param key dflt p =
     (case lookup_param p key of
        None \<Rightarrow> (dflt, p)
      | Some v \<Rightarrow>
          (case to_int v of
             Inl e \<Rightarrow> (dflt, add_err (Wrapped (param_text key @ '': '' @ err_text e) e) p)
           | Inr n \<Rightarrow> (n, p)))"

definition require_int :: "string \<Rightarrow> param_view \<Rightarrow> int \<times> param_view" where
  "require_int key p =
     (case lookup_param p key of
        None \<Rightarrow> (0, add_err (Plain (param_text key @ '' is required'')) p)
      | Some v \<Rightarrow>
          (case to_int v of
             Inl e \<Rightarrow> (0, add_err (Wrapped (param_text key @ '': '' @ err_text e) e) p)
           | Inr n \<Rightarrow> (n, p)))"

definition parse_bool :: "string \<Rightarrow> bool option" where
  "parse_bool s =
     (if s \<in> {''1'', ''t'', ''T'', ''true'', ''TRUE'', ''True''} then Some True
      else if s \<in> {''0'', ''f'', ''F'', ''false'', ''FALSE'', ''False''} then Some False
      else None)"

definition bool_param :: "string \<Rightarrow> bool \<Rightarrow> param_view \<Rightarrow> bool \<times> param_view" where
  "bool_param key dflt p =
     (case lookup_param p key of
        None \<Rightarrow> (dflt, p)
      | Some (AnyBool b) \<Rightarrow> (b, p)
      | Some (AnyString t) \<Rightarrow>
          (case parse_bool (trim_space t) of
             Some b \<Rightarrow> (b, p)
           | None \<Rightarrow> (dflt, add_err (Plain (param_text key @ '': expected a boolean, got '' @ quoted t)) p))
      | Some v \<Rightarrow> (dflt, add_err (Plain (param_text key @ '': expected a boolean, got '' @ go_type v)) p))"

definition duration_param ::
  "template_engine \<Rightarrow> (string \<Rightarrow> duration option) \<Rightarrow> string \<Rightarrow> duration \<Rightarrow> param_view \<Rightarrow> duration \<times> param_view" where
  "duration_param tx pd key dflt p =
     (case lookup_param p key of
        None \<Rightarrow> (dflt, p)
      | Some (AnyString t) \<Rightarrow>
          (case expand_param tx key t p of (s, p) \<Rightarrow>
             (case pd (trim_space s) of
                Some d \<Rightarrow> (d, p)
              | None \<Rightarrow> (dflt, add_err (Plain (param_text key @ '': expected a duration (e.g. '' @
                  quoted ''500ms'' @ ''), got '' @ quoted s)) p)))
      | Some (AnyInt n) \<Rightarrow> (wrap64 (n * second), p)
      | Some (AnyFloat x _) \<Rightarrow> (float_to_int (mul64 x (Fin (of_int second))), p)
      | Some v \<Rightarrow> (dflt, add_err (Plain (param_text key @ '': expected a duration, got '' @ go_type v)) p))"

fun expand_all :: "template_engine \<Rightarrow> string \<Rightarrow> string list \<Rightarrow> param_view \<Rightarrow> string list \<times> param_view" where
  "expand_all tx key [] p = ([], p)"
| "expand_all tx key (s # ss) p =
     (case expand_param tx key s p of (t, p) \<Rightarrow>
      case expand_all tx key ss p of (ts, p) \<Rightarrow> (t # ts, p))"

definition string_slice :: "template_engine \<Rightarrow> string \<Rightarrow> param_view \<Rightarrow> string list \<times> param_view" where
  "string_slice tx key p =
     (case lookup_param p key of
        None \<Rightarrow> ([], p)
      | Some (AnyList vs) \<Rightarrow> expand_all tx key (map any_string vs) p
      | Some (AnyString s) \<Rightarrow> expand_all tx key [s] p
      | Some v \<Rightarrow> ([], add_err (Plain (param_text key @ '': expected a list of strings, got '' @ go_type v)) p))"

fun int_items :: "string \<Rightarrow> anyval list \<Rightarrow> param_view \<Rightarrow> int list \<times> param_view" where
  "int_items key [] p = ([], p)"
| "int_items key (v # vs) p =
     (case to_int v of
        Inl e \<Rightarrow> int_items key vs (add_err (Wrapped (param_text key @ '': '' @ err_text e) e) p)
      | Inr n \<Rightarrow> (case int_items key vs p of (ns, p) \<Rightarrow> (n # ns, p)))"

definition int_slice :: "string \<Rightarrow> param_view \<Rightarrow> int list \<times> param_view" where
  "int_slice key p =
     (case lookup_param p key of
        None \<Rightarrow> ([], p)
      | Some (AnyList vs) \<Rightarrow> int_items key vs p
      | Some v \<Rightarrow> ([], add_err (Plain (param_text key @ '': expected a list of integers, got '' @ go_type v)) p))"

definition map_param :: "string \<Rightarrow> param_view \<Rightarrow> params option \<times> param_view" where
  "map_param key p =
     (case lookup_param p key of
        None \<Rightarrow> (None, p)
      | Some (AnyMap kvs) \<Rightarrow> (Some kvs, p)
      | Some v \<Rightarrow> (None, add_err (Plain (param_text key @ '': expected a mapping, got '' @ go_type v)) p))"

text \<open>Go visits a map in any order; this is the order the pairs were written in.\<close>

fun expand_pairs :: "template_engine \<Rightarrow> string \<Rightarrow> params \<Rightarrow> param_view \<Rightarrow> (string \<times> string) list \<times> param_view" where
  "expand_pairs tx key [] p = ([], p)"
| "expand_pairs tx key ((k, v) # kvs) p =
     (case expand_param tx (key @ ''.'' @ k) (any_string v) p of (t, p) \<Rightarrow>
      case expand_pairs tx key kvs p of (ts, p) \<Rightarrow> ((k, t) # ts, p))"

definition string_map :: "template_engine \<Rightarrow> string \<Rightarrow> param_view \<Rightarrow> (string \<times> string) list option \<times> param_view" where
  "string_map tx key p =
     (case map_param key p of
        (None, p) \<Rightarrow> (None, p)
      | (Some kvs, p) \<Rightarrow> (case expand_pairs tx key kvs p of (ts, p) \<Rightarrow> (Some ts, p)))"



section \<open>What a check is and what it runs on\<close>

record exec_request =
  eq_argv :: "string list"
  eq_input :: string
  eq_max_output_bytes :: int

record exec_result =
  er_exit_code :: int
  er_stdout :: string
  er_stderr :: string
  er_truncated :: bool
  er_signal :: string

text \<open>A check's \<open>Run\<close>; its first argument is the time the attempt has, 0 for no limit.\<close>

type_synonym 'w check_impl = "duration \<Rightarrow> target \<Rightarrow> check_config \<Rightarrow> ('w, check_result) call"

text \<open>The guest behind \<open>target.Exec\<close>, with its optional detector, and the history behind
  \<open>target.Baseline\<close>.\<close>

record 'w guest =
  gu_exec :: "duration \<Rightarrow> string \<Rightarrow> exec_request \<Rightarrow> ('w, goerr + exec_result option) call"
  gu_os :: "(duration \<Rightarrow> string \<Rightarrow> ('w, goerr + guest_os) call) option"
  gu_values :: "duration \<Rightarrow> string \<Rightarrow> string \<Rightarrow> int \<Rightarrow> ('w, goerr + f64 list) call"

definition verdict :: "check_status \<Rightarrow> string \<Rightarrow> (string \<times> detail) list \<Rightarrow> check_result" where
  "verdict st message details =
     \<lparr>cr_name = '''', cr_type = '''', cr_status = st, cr_started_at = zero_time,
      cr_completed_at = zero_time, cr_duration = 0, cr_attempts = 0, cr_message = message,
      cr_details = details\<rparr>"

text \<open>Assignment to a key of the details.\<close>

definition put_detail :: "string \<Rightarrow> detail \<Rightarrow> (string \<times> detail) list \<Rightarrow> (string \<times> detail) list" where
  "put_detail k v ds = (k, v) # filter (\<lambda>e. fst e \<noteq> k) ds"

definition config_name :: "check_config \<Rightarrow> string" where
  "config_name cfg = (if cc_name cfg \<noteq> '''' then cc_name cfg else cc_type cfg)"

definition detail_captured :: string where "detail_captured = ''captured''"
definition detail_baseline :: string where "detail_baseline = ''baseline''"
definition detail_drift_skipped :: string where "detail_drift_skipped = ''drift_skipped''"
definition drift_window :: int where "drift_window = 5"
definition default_max_output_bytes :: int where "default_max_output_bytes = 65536"
definition default_shell :: string where "default_shell = ''/bin/sh''"


section \<open>The command check\<close>

definition resolve_shell_argv :: "string \<Rightarrow> string \<Rightarrow> goerr + string list" where
  "resolve_shell_argv shell run =
     (if shell = ''sh'' \<or> shell = ''/bin/sh'' then Inr [''/bin/sh'', ''-c'', run]
      else if shell = ''bash'' then Inr [''bash'', ''-c'', run]
      else if shell = ''cmd'' then Inr [''cmd'', ''/c'', run]
      else if shell = ''powershell'' then Inr [''powershell'', ''-NoProfile'', ''-NonInteractive'', ''-Command'', run]
      else if list_ex is_path_sep shell then Inr [shell, ''-c'', run]
      else Inl (Plain (''command: unrecognized shell '' @ quoted shell @
        '' (use an interpreter path, or one of: sh, bash, cmd, powershell)'')))"

definition auto_shell :: "'w guest \<Rightarrow> duration \<Rightarrow> target \<Rightarrow> ('w, string \<times> goerr option) call" where
  "auto_shell g limit tg =
     (case gu_os g of
        None \<Rightarrow> ret (default_shell, None)
      | Some detect \<Rightarrow>
          bindM (detect limit (tg_workload_id tg)) (\<lambda>r. ret
            (case r of
               Inl e \<Rightarrow> (default_shell, Some e)
             | Inr os \<Rightarrow>
                 if go_family os = ''windows'' then (''cmd'', None)
                 else if go_family os = ''linux'' then (default_shell, None)
                 else (default_shell, Some (Plain
                   (''the guest agent reported an OS this check does not recognise ('' @ guest_os_string os @ '')''))))))"

definition shell_fallback_note :: "goerr option \<Rightarrow> string \<Rightarrow> string" where
  "shell_fallback_note detect_err shell =
     (case detect_err of
        None \<Rightarrow> ''''
      | Some e \<Rightarrow> '' (the guest OS could not be detected, so '' @ quoted shell @
          '' was used by default: '' @ err_text e @ ''; set '' @ quoted ''shell'' @
          '' on the check to name the interpreter yourself)'')"

definition command_evidence :: "string \<Rightarrow> string \<Rightarrow> string" where
  "command_evidence out err =
     (if err \<noteq> '''' \<and> out \<noteq> '''' then
        '': stdout '' @ quoted (truncate_to out 200) @ '', stderr '' @ quoted (truncate_to err 200)
      else if err \<noteq> '''' then '': stderr '' @ quoted (truncate_to err 200)
      else if out \<noteq> '''' then '': stdout '' @ quoted (truncate_to out 200)
      else '' (no output)'')"

text \<open>The figure a reading is judged against, or the reason there is none.\<close>

definition read_baseline :: "'w guest \<Rightarrow> duration \<Rightarrow> target \<Rightarrow> check_config \<Rightarrow> ('w, string + f64) call" where
  "read_baseline g limit tg cfg =
     (if \<not> tg_baseline tg then
        ret (Inl (''drift not judged: no history is available for this workload, so there is nothing to compare '' @
          quoted (cc_capture cfg) @ '' against''))
      else
        bindM (gu_values g limit (config_name cfg) (cc_capture cfg) drift_window) (\<lambda>r. ret
          (case r of
             Inl e \<Rightarrow> Inl (''drift not judged: the history could not be read: '' @ err_text e)
           | Inr values \<Rightarrow>
               (case baseline values of
                  None \<Rightarrow> Inl (''drift not judged: no previous drill of this workload measured '' @
                    quoted (cc_capture cfg))
                | Some b \<Rightarrow> Inr b))))"

text \<open>strconv as the command check uses it: ParseFloat, and FormatFloat for a number and for a
  percentage.\<close>

record float_text =
  ft_parse :: "string \<Rightarrow> f64 option"
  ft_number :: "f64 \<Rightarrow> string"
  ft_percent :: "f64 \<Rightarrow> string"

definition judge_drift ::
  "float_text \<Rightarrow> 'w guest \<Rightarrow> duration \<Rightarrow> target \<Rightarrow> check_config \<Rightarrow> f64 \<Rightarrow> drift_spec \<Rightarrow> string \<Rightarrow>
   (string \<times> detail) list \<Rightarrow> ('w, check_result) call" where
  "judge_drift ft g limit tg cfg v d msg details =
     bindM (read_baseline g limit tg cfg) (\<lambda>r. ret
       (case r of
          Inl skipped \<Rightarrow>
            verdict CheckPass (msg @ '' ('' @ skipped @ '')'')
              (put_detail detail_drift_skipped (DetailString skipped) details)
        | Inr b \<Rightarrow>
            (let details = put_detail detail_baseline (DetailFloats [(cc_capture cfg, b)]) details;
                 violation = check_drift (ft_number ft) (ft_percent ft) v b d
             in if violation \<noteq> '''' then verdict CheckFail (cc_capture cfg @ '': '' @ violation) details
                else verdict CheckPass msg details)))"

definition evaluate_capture ::
  "float_text \<Rightarrow> 'w guest \<Rightarrow> duration \<Rightarrow> target \<Rightarrow> check_config \<Rightarrow> string \<Rightarrow> string \<Rightarrow>
   (string \<times> detail) list \<Rightarrow> ('w, check_result) call" where
  "evaluate_capture ft g limit tg cfg out msg details =
     (case parse_captured (ft_parse ft) out of
        Inl e \<Rightarrow> ret (verdict CheckFail (''could not capture '' @ quoted (cc_capture cfg) @ '': '' @ err_text e) details)
      | Inr v \<Rightarrow>
          (let details = put_detail detail_captured (DetailFloats [(cc_capture cfg, v)]) details;
               violation = (case cc_assert cfg of None \<Rightarrow> '''' | Some a \<Rightarrow> check_assert (ft_number ft) v a)
           in if violation \<noteq> '''' then ret (verdict CheckFail (cc_capture cfg @ '': '' @ violation) details)
              else case cc_drift cfg of
                     None \<Rightarrow> ret (verdict CheckPass msg details)
                   | Some d \<Rightarrow> judge_drift ft g limit tg cfg v d msg details))"

text \<open>The parameters of a command check, read in the order the code reads them.\<close>

record command_params =
  cp_has_run :: bool
  cp_run :: string
  cp_argv :: "string list option"
  cp_shell :: string
  cp_expect :: "string option"
  cp_stdout_contains :: "string option"
  cp_stdout_matches :: "string option"
  cp_expect_exit_code :: int
  cp_input :: string
  cp_max_output_bytes :: int

definition given :: "check_config \<Rightarrow> string \<Rightarrow> bool" where
  "given cfg key \<longleftrightarrow> map_of (cc_params cfg) key \<noteq> None"

definition decode_command :: "template_engine \<Rightarrow> target \<Rightarrow> check_config \<Rightarrow> command_params \<times> param_view" where
  "decode_command tx tg cfg =
     (let p = new_params (cc_params cfg) tg;
          (run, p) = (if given cfg ''run'' then require_string tx ''run'' p else ('''', p));
          (argv, p) = (if given cfg ''argv'' then string_slice tx ''argv'' p else ([], p));
          (shell, p) = string_param tx ''shell'' '''' p;
          (expect, p) = string_param tx ''expect'' '''' p;
          (has, p) = string_param tx ''stdout_contains'' '''' p;
          (matches, p) = string_param tx ''stdout_matches'' '''' p;
          (code, p) = int_param ''expect_exit_code'' 0 p;
          (input, p) = string_param tx ''input'' '''' p;
          (bytes, p) = int_param ''max_output_bytes'' default_max_output_bytes p
      in (\<lparr>cp_has_run = given cfg ''run'', cp_run = run,
           cp_argv = (if given cfg ''argv'' then Some argv else None), cp_shell = shell,
           cp_expect = (if given cfg ''expect'' then Some expect else None),
           cp_stdout_contains = (if given cfg ''stdout_contains'' then Some has else None),
           cp_stdout_matches = (if given cfg ''stdout_matches'' then Some matches else None),
           cp_expect_exit_code = code, cp_input = input, cp_max_output_bytes = bytes\<rparr>, p))"

text \<open>The argument vector, with the shell that was used and why it was a guess.\<close>

definition choose_argv ::
  "'w guest \<Rightarrow> duration \<Rightarrow> target \<Rightarrow> command_params \<Rightarrow> ('w, goerr + (string list \<times> string \<times> goerr option)) call" where
  "choose_argv g limit tg c =
     (if cp_has_run c then
        bindM (if trim_space (cp_shell c) = '''' then auto_shell g limit tg else ret (cp_shell c, None))
          (\<lambda>(shell, detect_err). ret
            (case resolve_shell_argv shell (cp_run c) of
               Inl e \<Rightarrow> Inl e | Inr argv \<Rightarrow> Inr (argv, shell, detect_err)))
      else ret (Inr (case cp_argv c of None \<Rightarrow> [] | Some a \<Rightarrow> a, cp_shell c, None)))"

definition exec_failure :: "string list \<Rightarrow> string \<Rightarrow> goerr option \<Rightarrow> goerr \<Rightarrow> string" where
  "exec_failure argv shell detect_err e =
     (if errors_is e ErrGuestAgentUnavailable then
        ''command: guest agent unavailable: '' @ err_text e @ '' (install and start qemu-guest-agent in the guest, '' @
        ''then enable the QEMU guest agent on the VM)'' @ shell_fallback_note detect_err shell
      else ''command: could not run '' @ quoted (join '' '' argv) @ '' in the guest: '' @ err_text e @
        shell_fallback_note detect_err shell)"

text \<open>What the command declared about its own output: None when all of it held.\<close>

definition judge_output ::
  "(string \<Rightarrow> goerr + (string \<Rightarrow> bool)) \<Rightarrow> command_params \<Rightarrow> exec_result \<Rightarrow> (check_status \<times> string) option" where
  "judge_output rx c res =
     (let out = er_stdout res; trimmed = trim_space out in
      if er_exit_code res \<noteq> cp_expect_exit_code c then
        Some (CheckFail, ''exit code '' @ itoa (er_exit_code res) @ '', want '' @ itoa (cp_expect_exit_code c) @
          command_evidence trimmed (trim_space (er_stderr res)))
      else if (case cp_expect c of None \<Rightarrow> False | Some e \<Rightarrow> trimmed \<noteq> e) then
        Some (CheckFail, ''stdout '' @ quoted (truncate_to trimmed 200) @ '', want '' @
          quoted (truncate_to (the (cp_expect c)) 200))
      else if (case cp_stdout_contains c of None \<Rightarrow> False | Some sub \<Rightarrow> \<not> contains out sub) then
        Some (CheckFail, ''stdout does not contain '' @ quoted (the (cp_stdout_contains c)) @ '' (stdout: '' @
          quoted (truncate_to out 200) @ '')'')
      else
        (case cp_stdout_matches c of
           None \<Rightarrow> None
         | Some re \<Rightarrow>
             (case rx re of
                Inl e \<Rightarrow> Some (CheckError, ''command: invalid stdout_matches regex '' @ quoted re @ '': '' @ err_text e)
              | Inr is_match \<Rightarrow>
                  if is_match out then None
                  else Some (CheckFail, ''stdout does not match /'' @ re @ ''/ (stdout: '' @
                    quoted (truncate_to out 200) @ '')''))))"

definition output_details :: "string list \<Rightarrow> exec_result \<Rightarrow> (string \<times> detail) list" where
  "output_details argv res =
     [(''exit_code'', DetailInt (er_exit_code res)), (''stdout'', DetailString (truncate_to (er_stdout res) 512)),
      (''stderr'', DetailString (truncate_to (er_stderr res) 512)), (''truncated'', DetailBool (er_truncated res)),
      (''argv'', DetailStrings argv)]"

definition pass_message :: "exec_result \<Rightarrow> string" where
  "pass_message res =
     (let trimmed = trim_space (er_stdout res)
      in ''exit '' @ itoa (er_exit_code res) @
         (if trimmed \<noteq> '''' then '', stdout '' @ quoted (truncate_to trimmed 200) else ''''))"

definition judge_command ::
  "float_text \<Rightarrow> (string \<Rightarrow> goerr + (string \<Rightarrow> bool)) \<Rightarrow> 'w guest \<Rightarrow> duration \<Rightarrow> target \<Rightarrow> check_config \<Rightarrow>
   command_params \<Rightarrow> string list \<Rightarrow> exec_result \<Rightarrow> ('w, check_result) call" where
  "judge_command ft rx g limit tg cfg c argv res =
     (case judge_output rx c res of
        Some (st, message) \<Rightarrow> ret (verdict st message (output_details argv res))
      | None \<Rightarrow>
          if cc_capture cfg = '''' then ret (verdict CheckPass (pass_message res) (output_details argv res))
          else evaluate_capture ft g limit tg cfg (er_stdout res) (pass_message res) (output_details argv res))"

definition no_executor_message :: string where
  "no_executor_message =
     ''command: this check needs a provider that can run commands in the guest '' @
     ''(no guest executor configured for this target); the workload needs the QEMU guest agent '' @
     ''installed and enabled''"

definition exec_command ::
  "float_text \<Rightarrow> (string \<Rightarrow> goerr + (string \<Rightarrow> bool)) \<Rightarrow> 'w guest \<Rightarrow> duration \<Rightarrow> target \<Rightarrow> check_config \<Rightarrow>
   command_params \<Rightarrow> string list \<times> string \<times> goerr option \<Rightarrow> ('w, check_result) call" where
  "exec_command ft rx g limit tg cfg c chosen =
     (case chosen of (argv, shell, detect_err) \<Rightarrow>
        bindM (gu_exec g limit (tg_workload_id tg)
                 \<lparr>eq_argv = argv, eq_input = cp_input c, eq_max_output_bytes = cp_max_output_bytes c\<rparr>) (\<lambda>r.
        case r of
          Inl e \<Rightarrow> ret (verdict CheckError (exec_failure argv shell detect_err e) [])
        | Inr res \<Rightarrow> bindM (deref res) (judge_command ft rx g limit tg cfg c argv)))"

definition command_check ::
  "template_engine \<Rightarrow> float_text \<Rightarrow> (string \<Rightarrow> goerr + (string \<Rightarrow> bool)) \<Rightarrow> 'w guest \<Rightarrow> 'w check_impl" where
  "command_check tx ft rx g limit tg cfg =
     (case decode_command tx tg cfg of (c, p) \<Rightarrow>
        case params_err p of
          Some e \<Rightarrow> ret (verdict CheckError (err_text e) [])
        | None \<Rightarrow>
            if given cfg ''run'' = given cfg ''argv'' then
              ret (verdict CheckError (''command: exactly one of '' @ quoted ''run'' @ '' or '' @ quoted ''argv'' @
                '' is required'') [])
            else if cp_argv c = Some [] then
              ret (verdict CheckError (''command: param '' @ quoted ''argv'' @ '' must not be empty'') [])
            else if \<not> tg_exec tg then ret (verdict CheckError no_executor_message [])
            else
              bindM (choose_argv g limit tg c) (\<lambda>chosen.
              case chosen of
                Inl e \<Rightarrow> ret (verdict CheckError (err_text e) [])
              | Inr chosen \<Rightarrow> exec_command ft rx g limit tg cfg c chosen))"


section \<open>The registry\<close>

type_synonym 'w registry = "(string \<times> 'w check_impl) list"

definition register :: "string \<Rightarrow> 'w check_impl \<Rightarrow> 'w registry \<Rightarrow> 'w registry" where
  "register typ impl r = (typ, impl) # filter (\<lambda>e. fst e \<noteq> typ) r"

definition get_check :: "'w registry \<Rightarrow> string \<Rightarrow> 'w check_impl option" where
  "get_check r typ = map_of r typ"

definition check_types :: "'w registry \<Rightarrow> string list" where
  "check_types r = sort_strings (map fst r)"

text \<open>The clock, the run's context and the timer of a retry: None when the timer fired first.\<close>

record 'w runtime =
  rt_now :: "'w \<Rightarrow> time \<times> 'w"
  rt_ctx_err :: "'w \<Rightarrow> sentinel option"
  rt_wait :: "duration \<Rightarrow> 'w \<Rightarrow> sentinel option \<times> 'w"

definition rt_time :: "'w runtime \<Rightarrow> ('w, time) call" where
  "rt_time rt = (\<lambda>w. case rt_now rt w of (t, w') \<Rightarrow> (Done t, w'))"

definition rt_sleep :: "'w runtime \<Rightarrow> duration \<Rightarrow> ('w, sentinel option) call" where
  "rt_sleep rt d = (\<lambda>w. case rt_wait rt d w of (r, w') \<Rightarrow> (Done r, w'))"

definition run_attempt :: "'w check_impl \<Rightarrow> target \<Rightarrow> check_config \<Rightarrow> ('w, check_result) call" where
  "run_attempt impl tg cfg = (\<lambda>w.
     case impl (max 0 (cc_timeout cfg)) tg cfg w of
       (Panicked x, w') \<Rightarrow>
         (Done (verdict CheckError (''check '' @ quoted (cc_type cfg) @ '' panicked: '' @ x) []), w')
     | other \<Rightarrow> other)"

definition cancelled_before :: "int \<Rightarrow> sentinel \<Rightarrow> check_result" where
  "cancelled_before k e =
     verdict CheckError (''run cancelled before attempt '' @ itoa k @ '': '' @ sentinel_text e) []"

definition cancelled_waiting :: "sentinel \<Rightarrow> check_result" where
  "cancelled_waiting e = verdict CheckError (''run cancelled while waiting to retry: '' @ sentinel_text e) []"

text \<open>The loop over attempts: \<open>n\<close> more are allowed after this one, which is number \<open>k\<close>.\<close>

primrec attempt_from ::
  "nat \<Rightarrow> int \<Rightarrow> 'w runtime \<Rightarrow> 'w check_impl \<Rightarrow> target \<Rightarrow> check_config \<Rightarrow> ('w, check_result \<times> int) call" where
  "attempt_from 0 k rt impl tg cfg =
     bindM (gets (rt_ctx_err rt)) (\<lambda>e. case e of
       Some e \<Rightarrow> ret (cancelled_before k e, k)
     | None \<Rightarrow> bindM (run_attempt impl tg cfg) (\<lambda>r. ret (r, k)))"
| "attempt_from (Suc n) k rt impl tg cfg =
     bindM (gets (rt_ctx_err rt)) (\<lambda>e. case e of
       Some e \<Rightarrow> ret (cancelled_before k e, k)
     | None \<Rightarrow>
         bindM (run_attempt impl tg cfg) (\<lambda>r.
         if cr_ok r then ret (r, k)
         else
           bindM (if cc_retry_interval cfg > 0 then rt_sleep rt (cc_retry_interval cfg) else ret None) (\<lambda>e.
           case e of
             Some e \<Rightarrow> ret (cancelled_waiting e, k)
           | None \<Rightarrow> attempt_from n (k + 1) rt impl tg cfg)))"

definition max_attempts :: "check_config \<Rightarrow> int" where
  "max_attempts cfg = max 1 (wrap64 (cc_retries cfg + 1))"

definition has_captured :: "check_result \<Rightarrow> string \<Rightarrow> bool" where
  "has_captured r name =
     (case map_of (cr_details r) detail_captured of
        Some (DetailFloats vs) \<Rightarrow> map_of vs name \<noteq> None
      | _ \<Rightarrow> False)"

definition unread_capture :: "check_result \<Rightarrow> check_config \<Rightarrow> string" where
  "unread_capture r cfg =
     (if cc_capture cfg = '''' \<or> \<not> cr_ok r \<or> has_captured r (cc_capture cfg) then ''''
      else ''a '' @ cc_type cfg @ '' check does not read the value '' @ quoted (cc_capture cfg) @
        '' that this plan captures, so the bounds on it were never judged'')"

definition seal_result :: "check_config \<Rightarrow> time \<Rightarrow> time \<Rightarrow> int \<Rightarrow> check_result \<Rightarrow> check_result" where
  "seal_result cfg started ended attempts r =
     (let r = r\<lparr>cr_name := config_name cfg, cr_type := cc_type cfg, cr_started_at := started,
                cr_completed_at := ended, cr_duration := time_sub ended started, cr_attempts := attempts\<rparr>;
          msg = unread_capture r cfg
      in if msg \<noteq> '''' then r\<lparr>cr_status := CheckFail, cr_message := msg\<rparr> else r)"

definition unknown_type :: "'w registry \<Rightarrow> check_config \<Rightarrow> time \<Rightarrow> time \<Rightarrow> check_result" where
  "unknown_type reg cfg started ended =
     (verdict CheckError (''unknown check type '' @ quoted (cc_type cfg) @ '' (known types: '' @
        join '', '' (check_types reg) @ '')'') [])
     \<lparr>cr_name := config_name cfg, cr_type := cc_type cfg, cr_started_at := started,
      cr_completed_at := ended, cr_duration := time_sub ended started\<rparr>"

definition run_one :: "'w runtime \<Rightarrow> 'w registry \<Rightarrow> target \<Rightarrow> check_config \<Rightarrow> ('w, check_result) call" where
  "run_one rt reg tg cfg =
     bindM (rt_time rt) (\<lambda>started.
     case get_check reg (cc_type cfg) of
       None \<Rightarrow> bindM (rt_time rt) (\<lambda>ended. ret (unknown_type reg cfg started ended))
     | Some impl \<Rightarrow>
         bindM (attempt_from (nat (max_attempts cfg - 1)) 1 rt impl tg cfg) (\<lambda>(r, attempts).
         bindM (rt_time rt) (\<lambda>ended. ret (seal_result cfg started ended attempts r))))"

definition skipped_result :: "check_config \<Rightarrow> time \<Rightarrow> sentinel \<Rightarrow> check_result" where
  "skipped_result cfg t e =
     (verdict CheckSkipped (''run cancelled: '' @ sentinel_text e) [])
     \<lparr>cr_name := config_name cfg, cr_type := cc_type cfg, cr_started_at := t, cr_completed_at := t\<rparr>"

primrec run_all ::
  "'w runtime \<Rightarrow> 'w registry \<Rightarrow> target \<Rightarrow> check_config list \<Rightarrow> ('w, check_result list) call" where
  "run_all rt reg tg [] = ret []"
| "run_all rt reg tg (cfg # cfgs) =
     bindM (gets (rt_ctx_err rt)) (\<lambda>e.
     bindM (case e of
              Some e \<Rightarrow> bindM (rt_time rt) (\<lambda>t. ret (skipped_result cfg t e))
            | None \<Rightarrow> run_one rt reg tg cfg) (\<lambda>r.
     bindM (run_all rt reg tg cfgs) (\<lambda>rs. ret (r # rs))))"

end
