(* ===== verification/Journal.thy ===== *)
theory Journal
  imports Queue_Safety Checks
begin

text \<open>
  internal/journal: the Recorder that mirrors a drill into the store as it happens, and what it
  writes when the drill ends. None of its methods return an error; the error a write gives is
  dropped. \<open>ce\<close> is the error the database reports for a constraint.
\<close>

section \<open>The recorder\<close>

record recorder =
  jr_plan_name :: string
  jr_provider_id :: string
  jr_source_id :: string
  jr_source_name :: string
  jr_plan_yaml :: string
  jr_plan_id :: string
  jr_plan_version :: int
  jr_run_id :: string
  jr_temp_workload_id :: string
  jr_event_seq :: int
  jr_check_seq :: int

definition new_recorder :: recorder where
  "new_recorder =
     \<lparr>jr_plan_name = '''', jr_provider_id = '''', jr_source_id = '''', jr_source_name = '''',
      jr_plan_yaml = '''', jr_plan_id = '''', jr_plan_version = 0, jr_run_id = '''',
      jr_temp_workload_id = '''', jr_event_seq = 0, jr_check_seq = 0\<rparr>"

definition attach_to :: "string \<Rightarrow> recorder \<Rightarrow> recorder" where
  "attach_to rid r = r\<lparr>jr_run_id := rid\<rparr>"

definition prepare :: "string \<Rightarrow> string \<Rightarrow> string \<Rightarrow> string \<Rightarrow> string \<Rightarrow> recorder \<Rightarrow> recorder" where
  "prepare plan_name provider source source_name yaml r =
     r\<lparr>jr_plan_name := plan_name, jr_provider_id := provider, jr_source_id := source,
       jr_source_name := source_name, jr_plan_yaml := yaml\<rparr>"

definition from_plan :: "string \<Rightarrow> int \<Rightarrow> recorder \<Rightarrow> recorder" where
  "from_plan plan version r = r\<lparr>jr_plan_id := plan, jr_plan_version := version\<rparr>"

text \<open>The run row the first event creates.\<close>

definition started_run :: "recorder \<Rightarrow> event \<Rightarrow> recovery_run" where
  "started_run r e =
     \<lparr>run_id = ev_run_id e, run_plan_name = jr_plan_name r, run_plan_id = jr_plan_id r,
      run_plan_version = jr_plan_version r, run_provider_id = jr_provider_id r,
      run_backup_provider_id = '''', run_source_workload_id = jr_source_id r,
      run_source_name = jr_source_name r, run_temp_workload_id = '''', run_temp_name = '''',
      run_node = '''', run_backup = None, run_state = ev_state e, run_result = ResultNone,
      run_proof_level = ProofUnknown, run_started_at = ev_at e, run_completed_at = zero_time,
      run_steps = [], run_checks = [], run_rto = 0, run_rto_target = 0,
      run_cleanup_done = False, run_err = ''''\<rparr>"

definition event_of :: "int \<Rightarrow> event \<Rightarrow> stored_event" where
  "event_of seq e =
     \<lparr>se_seq = seq, se_at = ev_at e, se_state = ev_state e, se_step = ev_step e, se_status = Some (ev_status e),
      se_message = ev_message e, se_check = ev_check e, se_err = ev_err e\<rparr>"

text \<open>\<open>Emit\<close>, stage by stage: the row, the temporary workload, the event, the check.\<close>

definition open_run :: "goerr \<Rightarrow> event \<Rightarrow> recorder \<times> db \<Rightarrow> recorder \<times> db" where
  "open_run ce e = (\<lambda>(r, s).
     if jr_run_id r = '''' then
       (r\<lparr>jr_run_id := ev_run_id e\<rparr>, snd (create_run ce (started_run r e) (jr_plan_yaml r) s))
     else (r, s))"

definition name_temp :: "event \<Rightarrow> recorder \<times> db \<Rightarrow> recorder \<times> db" where
  "name_temp e = (\<lambda>(r, s).
     if ev_temp_workload_id e \<noteq> '''' \<and> jr_temp_workload_id r = '''' then
       (r\<lparr>jr_temp_workload_id := ev_temp_workload_id e\<rparr>,
        set_temp_workload (jr_run_id r) (ev_temp_workload_id e) (ev_node e) s)
     else (r, s))"

definition write_event :: "goerr \<Rightarrow> event \<Rightarrow> recorder \<times> db \<Rightarrow> recorder \<times> db" where
  "write_event ce e = (\<lambda>(r, s).
     let seq = wrap64 (jr_event_seq r + 1);
         s = snd (append_event ce (jr_run_id r) (event_of seq e) s)
     in (case ev_check e of
           None \<Rightarrow> (r\<lparr>jr_event_seq := seq\<rparr>, s)
         | Some c \<Rightarrow> (r\<lparr>jr_event_seq := seq, jr_check_seq := wrap64 (jr_check_seq r + 1)\<rparr>,
                     snd (save_check ce (jr_run_id r) (jr_check_seq r) c s))))"

definition recorder_emit :: "goerr \<Rightarrow> event \<Rightarrow> recorder \<times> db \<Rightarrow> recorder \<times> db" where
  "recorder_emit ce e rs =
     (if jr_run_id (fst rs) = '''' \<and> ev_run_id e = '''' then rs
      else write_event ce e (name_temp e (open_run ce e rs)))"


section \<open>The end of a run\<close>

text \<open>A failed write of a step or of a check ends its loop.\<close>

fun save_steps :: "goerr \<Rightarrow> string \<Rightarrow> int \<Rightarrow> step list \<Rightarrow> db \<Rightarrow> db" where
  "save_steps ce rid i [] s = s"
| "save_steps ce rid i (st # sts) s =
     (case save_step ce rid i st s of
        (Inl _, s) \<Rightarrow> s
      | (Inr _, s) \<Rightarrow> save_steps ce rid (i + 1) sts s)"

text \<open>The measurements of a check, sorted by name.\<close>

definition result_values :: "check_result \<Rightarrow> (string \<times> f64) list" where
  "result_values c =
     (case map_of (cr_details c) detail_captured of
        Some (DetailFloats vs) \<Rightarrow> map (\<lambda>n. (n, the (map_of vs n))) (sort_strings (remdups (map fst vs)))
      | _ \<Rightarrow> [])"

text \<open>False: a value was refused, and the rest of the values are left alone.\<close>

fun save_values :: "goerr \<Rightarrow> string \<Rightarrow> int \<Rightarrow> (string \<times> f64) list \<Rightarrow> db \<Rightarrow> bool \<times> db" where
  "save_values ce rid i [] s = (True, s)"
| "save_values ce rid i ((n, v) # vs) s =
     (case save_check_value ce rid i n v s of
        (Inl _, s) \<Rightarrow> (False, s)
      | (Inr _, s) \<Rightarrow> save_values ce rid i vs s)"

fun save_checks :: "goerr \<Rightarrow> string \<Rightarrow> bool \<Rightarrow> int \<Rightarrow> check_result list \<Rightarrow> db \<Rightarrow> db" where
  "save_checks ce rid ok i [] s = s"
| "save_checks ce rid ok i (c # cs) s =
     (case save_check ce rid i c s of
        (Inl _, s) \<Rightarrow> s
      | (Inr _, s) \<Rightarrow>
          (case (if ok then save_values ce rid i (result_values c) s else (False, s)) of
             (ok, s) \<Rightarrow> save_checks ce rid ok (i + 1) cs s))"

text \<open>The steps and the checks of a finished run, before its outcome.\<close>

definition save_timeline :: "goerr \<Rightarrow> recovery_run \<Rightarrow> db \<Rightarrow> db" where
  "save_timeline ce run s =
     save_checks ce (run_id run) True 0 (run_checks run) (save_steps ce (run_id run) 0 (run_steps run) s)"

definition ensure_run :: "goerr \<Rightarrow> recovery_run \<Rightarrow> recorder \<times> db \<Rightarrow> (goerr + recovery_run) \<times> recorder \<times> db" where
  "ensure_run ce run = (\<lambda>(r, s).
     if jr_run_id r \<noteq> '''' then (Inr run, r, s)
     else
       (let run = (if jr_plan_id r \<noteq> ''''
                   then run\<lparr>run_plan_id := jr_plan_id r, run_plan_version := jr_plan_version r\<rparr> else run)
        in case create_run ce run (jr_plan_yaml r) s of
             (Inl e, s) \<Rightarrow> (Inl e, r, s)
           | (Inr _, s) \<Rightarrow> (Inr run, r\<lparr>jr_run_id := run_id run\<rparr>, s)))"

definition recorder_finish :: "goerr \<Rightarrow> recovery_run option \<Rightarrow> recorder \<times> db \<Rightarrow> recorder \<times> db" where
  "recorder_finish ce run rs =
     (case run of
        None \<Rightarrow> rs
      | Some run \<Rightarrow>
          (case ensure_run ce run rs of
             (Inl _, r, s) \<Rightarrow> (r, s)
           | (Inr run, r, s) \<Rightarrow> (r, update_run run (save_timeline ce run s))))"

text \<open>The history a drill reads its baselines from, pinned to one workload; None when there is none.\<close>

definition journal_baselines ::
  "string \<Rightarrow> (string \<Rightarrow> string \<Rightarrow> int \<Rightarrow> db \<Rightarrow> f64 list) option" where
  "journal_baselines wid =
     (if wid = '''' then None else Some (\<lambda>check name limit s. captured_values wid check name limit s))"


section \<open>What the journal writes\<close>

lemma save_steps_frame [simp]:
  "db_runs (save_steps ce rid i sts s) = db_runs s" "db_checks (save_steps ce rid i sts s) = db_checks s"
  "db_events (save_steps ce rid i sts s) = db_events s"
  by (induction ce rid i sts s rule: save_steps.induct) (auto simp: save_step_def split: prod.splits sum.splits if_splits)

lemma save_values_frame [simp]:
  "db_runs (snd (save_values ce rid i vs s)) = db_runs s" "db_checks (snd (save_values ce rid i vs s)) = db_checks s"
  "db_steps (snd (save_values ce rid i vs s)) = db_steps s" "db_events (snd (save_values ce rid i vs s)) = db_events s"
  by (induction ce rid i vs s rule: save_values.induct)
    (auto simp: save_check_value_def split: prod.splits sum.splits if_splits)

lemma save_check_frame [simp]:
  "db_runs (snd (save_check ce rid i c s)) = db_runs s" "db_steps (snd (save_check ce rid i c s)) = db_steps s"
  "db_events (snd (save_check ce rid i c s)) = db_events s"
  by (simp_all add: save_check_def)

end
