(* ===== verification/Journal_Safety.thy ===== *)
theory Journal_Safety
  imports Journal
begin

text \<open>
  What the journal promises: the events of a drill read back as they were emitted and in order, and
  a run's outcome is written only after its whole timeline.
\<close>

section \<open>Numbered rows\<close>

fun numbered :: "(int \<Rightarrow> 'a \<Rightarrow> 'b) \<Rightarrow> int \<Rightarrow> 'a list \<Rightarrow> 'b list" where
  "numbered f i [] = []"
| "numbered f i (x # xs) = f i x # numbered f (i + 1) xs"

fun counted :: "('r \<Rightarrow> string) \<Rightarrow> ('r \<Rightarrow> int) \<Rightarrow> string \<Rightarrow> int \<Rightarrow> 'r list \<Rightarrow> bool" where
  "counted run seq rid i [] = True"
| "counted run seq rid i (r # rs) = (run r = rid \<and> seq r = i \<and> counted run seq rid (i + 1) rs)"


lemma length_numbered [simp]: "length (numbered f i xs) = length xs"
  by (induction xs arbitrary: i) simp_all

lemma map_numbered: "map g (numbered f i xs) = numbered (\<lambda>i x. g (f i x)) i xs"
  by (induction xs arbitrary: i) simp_all

lemma numbered_const [simp]: "numbered (\<lambda>_. g) i xs = map g xs"
  by (induction xs arbitrary: i) simp_all

lemma counted_numbered: "(\<And>i x. run (f i x) = rid \<and> seq (f i x) = i) \<Longrightarrow> counted run seq rid i (numbered f i xs)"
  by (induction xs arbitrary: i) simp_all

lemma counted_append:
  "counted run seq rid i (xs @ ys) \<longleftrightarrow> counted run seq rid i xs \<and> counted run seq rid (i + int (length xs)) ys"
  by (induction xs arbitrary: i) (auto simp: algebra_simps)

lemma counted_keys: "counted run seq rid i rows \<Longrightarrow> (\<lambda>r. (run r, seq r)) ` set rows \<subseteq> {rid} \<times> {i..<i + int (length rows)}"
proof (induction rows arbitrary: i)
  case (Cons r rows)
  from Cons.IH [of "i + 1"] Cons.prems show ?case by fastforce
qed simp

lemma order_by_counted: "counted run seq rid i rows \<Longrightarrow> order_by (\<lambda>a b. seq a \<le> seq b) rows = rows"
proof (induction rows arbitrary: i)
  case (Cons r rows)
  then show ?case by (cases rows) auto
qed simp

lemma filter_upsert:
  assumes "p row" "\<And>r. key r = key row \<Longrightarrow> p r"
  shows "filter p (upsert key row rows) = upsert key row (filter p rows)"
proof -
  have "filter p (update_where (\<lambda>r. key r = key row) (\<lambda>_. row) rows) =
      update_where (\<lambda>r. key r = key row) (\<lambda>_. row) (filter p rows)"
    using assms by (induction rows) (auto simp: update_where_def)
  moreover have "key row \<in> key ` set rows \<longleftrightarrow> key row \<in> key ` set (filter p rows)"
    using assms(2) by (auto simp: image_iff)
  ultimately show ?thesis using assms(1) by (simp add: upsert_def)
qed

lemma filter_upsert_other:
  assumes "\<not> p row" "\<And>r. key r = key row \<Longrightarrow> \<not> p r"
  shows "filter p (upsert key row rows) = filter p rows"
proof -
  have "filter p (update_where (\<lambda>r. key r = key row) (\<lambda>_. row) rows) = filter p rows"
    using assms by (induction rows) (auto simp: update_where_def)
  then show ?thesis using assms(1) by (simp add: upsert_def)
qed

text \<open>Writing the next row of a numbered list replaces the one in its place, or extends the list.\<close>

lemma upsert_next:
  fixes run :: "'r \<Rightarrow> string" and seq :: "'r \<Rightarrow> int"
  assumes "counted run seq rid 0 (new @ old)" "run row = rid" "seq row = int (length new)"
  shows "upsert (\<lambda>r. (run r, seq r)) row (new @ old) = new @ row # tl old"
proof -
  let ?key = "\<lambda>r. (run r, seq r)"
  have keep: "update_where (\<lambda>r. ?key r = ?key row) (\<lambda>_. row) rows = rows"
    if "?key row \<notin> ?key ` set rows" for rows
    using that by (induction rows) (auto simp: update_where_def)
  have outside: "?key row \<notin> ?key ` set rows" if "counted run seq rid i rows" "seq row < i \<or> i + int (length rows) \<le> seq row" for i rows
  proof (rule contra_subsetD [OF counted_keys [OF that(1)]])
    show "?key row \<notin> {rid} \<times> {i..<i + int (length rows)}" using that(2) by auto
  qed
  have counts: "counted run seq rid 0 new" "counted run seq rid (int (length new)) old"
    using assms(1) by (simp_all add: counted_append)
  have before: "?key row \<notin> ?key ` set new"
    by (rule outside [OF counts(1)]) (simp add: assms(3))
  show ?thesis
  proof (cases old)
    case Nil
    then show ?thesis using before by (simp add: upsert_def)
  next
    case (Cons r rest)
    have after: "?key row \<notin> ?key ` set rest"
      by (rule outside [where i = "int (length new) + 1"]) (use counts(2) Cons assms(3) in simp_all)
    have same: "?key r = ?key row" using assms(2,3) counts(2) Cons by simp
    have "?key r \<in> ?key ` set (new @ old)" unfolding Cons by (rule imageI) simp
    then have "?key row \<in> ?key ` set (new @ old)" unfolding same .
    moreover have "update_where (\<lambda>r. ?key r = ?key row) (\<lambda>_. row) (new @ old) =
        update_where (\<lambda>r. ?key r = ?key row) (\<lambda>_. row) new @ row # update_where (\<lambda>r. ?key r = ?key row) (\<lambda>_. row) rest"
      unfolding Cons update_where_def using same by simp
    ultimately show ?thesis unfolding upsert_def keep [OF before] keep [OF after] using Cons by simp
  qed
qed


section \<open>Tables numbered within a run\<close>

text \<open>
  The interface of a table the journal numbers: a save of something that can be written writes one row
  under the run and the number it is given, and only there. Then saving the next number extends or replaces in place.
\<close>

locale numbered_table =
  fixes table :: "db \<Rightarrow> 'r list" and save :: "int \<Rightarrow> 'a \<Rightarrow> db \<Rightarrow> (goerr + unit) \<times> db"
    and row :: "int \<Rightarrow> 'a \<Rightarrow> 'r" and run :: "'r \<Rightarrow> string" and seq :: "'r \<Rightarrow> int" and rid :: string
    and writable :: "'a \<Rightarrow> bool"
  assumes row_run: "run (row i x) = rid"
    and row_seq: "seq (row i x) = i"
    and saved: "run_exists rid s \<Longrightarrow> writable x \<Longrightarrow> fst (save i x s) = Inr () \<and> run_exists rid (snd (save i x s)) \<and>
      table (snd (save i x s)) = upsert (\<lambda>r. (run r, seq r)) (row i x) (table s)"
begin

definition own :: "db \<Rightarrow> 'r list" where
  "own s = filter (\<lambda>r. run r = rid) (table s)"

lemma save_next:
  assumes "run_exists rid s" "own s = new @ old" "counted run seq rid 0 (new @ old)" "i = int (length new)" "writable x"
  shows "own (snd (save i x s)) = new @ row i x # tl old"
    "counted run seq rid 0 ((new @ [row i x]) @ tl old)"
proof -
  have "own (snd (save i x s)) = upsert (\<lambda>r. (run r, seq r)) (row i x) (own s)"
    unfolding own_def saved [OF assms(1,5), THEN conjunct2, THEN conjunct2]
    by (rule filter_upsert) (auto simp: row_run)
  then show "own (snd (save i x s)) = new @ row i x # tl old"
    using upsert_next [OF assms(3) row_run trans [OF row_seq assms(4)]] by (simp add: assms(2))
  show "counted run seq rid 0 ((new @ [row i x]) @ tl old)"
    using assms(3,4) by (cases old) (auto simp: counted_append row_run row_seq)
qed

lemma save_ok: "run_exists rid s \<Longrightarrow> writable x \<Longrightarrow> save i x s = (Inr (), snd (save i x s)) \<and> run_exists rid (snd (save i x s))"
  using saved [of s x i] by (simp add: prod_eq_iff)

end



text \<open>What JSON can write of a step and of a check.\<close>

definition step_writable :: "step \<Rightarrow> bool" where "step_writable st \<longleftrightarrow> encodable (st_details st)"
definition check_writable :: "check_result \<Rightarrow> bool" where "check_writable c \<longleftrightarrow> encodable (cr_details c)"

interpretation step_table: numbered_table db_steps "save_step ce rid" "step_row_of rid" sr_run_id sr_seq rid step_writable
  for ce rid
  by unfold_locales (simp_all add: step_row_of_def save_step_def run_exists_def step_writable_def)

interpretation check_table: numbered_table db_checks "save_check ce rid" "check_row_of rid" kr_run_id kr_seq rid check_writable
  for ce rid
  by unfold_locales (simp_all add: check_row_of_def save_check_def run_exists_def check_writable_def)


section \<open>The timeline of a finished run\<close>

definition steps_of :: "string \<Rightarrow> db \<Rightarrow> step_row list" where
  "steps_of rid s = filter (\<lambda>r. sr_run_id r = rid) (db_steps s)"

definition checks_of :: "string \<Rightarrow> db \<Rightarrow> check_row list" where
  "checks_of rid s = filter (\<lambda>r. kr_run_id r = rid) (db_checks s)"

lemma own_rows [simp]: "step_table.own rid s = steps_of rid s" "check_table.own rid s = checks_of rid s"
  by (simp_all add: step_table.own_def check_table.own_def steps_of_def checks_of_def)

lemma save_steps_rows:
  assumes "run_exists rid s" "steps_of rid s = new @ old" "counted sr_run_id sr_seq rid 0 (new @ old)"
    "i = int (length new)" "list_all step_writable sts"
  shows "steps_of rid (save_steps ce rid i sts s) =
    new @ numbered (step_row_of rid) i sts @ drop (length sts) old"
  using assms
proof (induction sts arbitrary: s new old i)
  case (Cons st sts)
  let ?row = "step_row_of rid i st" and ?s = "snd (save_step ce rid i st s)"
  have own: "step_table.own rid s = new @ old" using Cons.prems(2) by simp
  have w: "step_writable st" "list_all step_writable sts" using Cons.prems(5) by simp_all
  note nxt = step_table.save_next(1) [OF Cons.prems(1) own Cons.prems(3,4) w(1), where ce = ce]
    step_table.save_next(2) [OF Cons.prems(1) own Cons.prems(3,4) w(1)]
  note ok = step_table.save_ok [OF Cons.prems(1) w(1), where ce = ce and i = i]
  have "steps_of rid (save_steps ce rid (i + 1) sts ?s) =
      (new @ [?row]) @ numbered (step_row_of rid) (i + 1) sts @ drop (length sts) (tl old)"
    using nxt ok w(2) Cons.prems(4) by (intro Cons.IH) simp_all
  moreover have "save_steps ce rid i (st # sts) s = save_steps ce rid (i + 1) sts ?s"
    using ok by (cases "save_step ce rid i st s") simp
  ultimately show ?case by (simp add: drop_Suc)
qed simp

lemma save_values_checks [simp]: "checks_of rid (snd (save_values ce rid' i vs s)) = checks_of rid s"
  by (simp add: checks_of_def)

lemma save_values_exists [simp]: "run_exists rid (snd (save_values ce rid' i vs s)) = run_exists rid s"
  by (simp add: run_exists_def)

lemma save_checks_rows:
  assumes "run_exists rid s" "checks_of rid s = new @ old" "counted kr_run_id kr_seq rid 0 (new @ old)"
    "i = int (length new)" "list_all check_writable cs"
  shows "checks_of rid (save_checks ce rid ok i cs s) =
    new @ numbered (check_row_of rid) i cs @ drop (length cs) old"
  using assms
proof (induction cs arbitrary: s new old i ok)
  case (Cons c cs)
  let ?row = "check_row_of rid i c" and ?s = "snd (save_check ce rid i c s)"
  let ?v = "if ok then save_values ce rid i (result_values c) ?s else (False, ?s)"
  have own: "check_table.own rid s = new @ old" using Cons.prems(2) by simp
  have w: "check_writable c" "list_all check_writable cs" using Cons.prems(5) by simp_all
  note nxt = check_table.save_next(1) [OF Cons.prems(1) own Cons.prems(3,4) w(1), where ce = ce]
    check_table.save_next(2) [OF Cons.prems(1) own Cons.prems(3,4) w(1)]
  note saved = check_table.save_ok [OF Cons.prems(1) w(1), where ce = ce and i = i]
  have v: "checks_of rid (snd ?v) = checks_of rid ?s" "run_exists rid (snd ?v) = run_exists rid ?s" by simp_all
  have "checks_of rid (save_checks ce rid (fst ?v) (i + 1) cs (snd ?v)) =
      (new @ [?row]) @ numbered (check_row_of rid) (i + 1) cs @ drop (length cs) (tl old)"
    using nxt saved v w(2) Cons.prems(4) by (intro Cons.IH) simp_all
  moreover have "save_checks ce rid ok i (c # cs) s = save_checks ce rid (fst ?v) (i + 1) cs (snd ?v)"
    using saved by (cases "save_check ce rid i c s") (simp add: split_def)
  ultimately show ?case by (simp add: drop_Suc)
qed simp



text \<open>What a step and a check are after a trip through the store: durations lose what is below a
  millisecond, details take their JSON form.\<close>

definition stored_step :: "step \<Rightarrow> step" where
  "stored_step st = st\<lparr>st_duration := ms_duration (duration_ms (st_duration st)),
     st_details := json_details (st_details st)\<rparr>"

definition stored_check :: "check_result \<Rightarrow> check_result" where
  "stored_check c = c\<lparr>cr_duration := ms_duration (duration_ms (cr_duration c)),
     cr_details := json_details (cr_details c)\<rparr>"

lemma step_row_round_trip [simp]: "step_of_row (step_row_of rid i st) = stored_step st"
  by (simp add: step_of_row_def step_row_of_def stored_step_def int_of_null_def)

lemma check_row_round_trip [simp]: "check_of_row (check_row_of rid i c) = stored_check c"
  by (simp add: check_of_row_def check_row_of_def stored_check_def int_of_null_def)

lemma counted_steps: "counted sr_run_id sr_seq rid i (numbered (step_row_of rid) i sts)"
  by (rule counted_numbered) (simp add: step_row_of_def)

lemma counted_checks: "counted kr_run_id kr_seq rid i (numbered (check_row_of rid) i cs)"
  by (rule counted_numbered) (simp add: check_row_of_def)

lemma load_numbered_steps: "steps_of rid s = numbered (step_row_of rid) 0 sts \<Longrightarrow> load_steps rid s = map stored_step sts"
  by (simp add: load_steps_def order_by_counted [OF counted_steps] map_numbered flip: steps_of_def)

lemma load_numbered_checks: "checks_of rid s = numbered (check_row_of rid) 0 cs \<Longrightarrow> load_checks rid s = map stored_check cs"
  by (simp add: load_checks_def order_by_counted [OF counted_checks] map_numbered flip: checks_of_def)

lemma save_checks_frame [simp]:
  "db_runs (save_checks ce rid ok i cs s) = db_runs s" "db_steps (save_checks ce rid ok i cs s) = db_steps s"
proof (induction cs arbitrary: ok i s)
  case (Cons c cs)
  case 1
  then show ?case using Cons by (auto split: prod.splits sum.splits) (metis save_check_frame(1) save_values_frame(1) snd_conv)+
next
  case (Cons c cs)
  case 2
  then show ?case using Cons by (auto split: prod.splits sum.splits) (metis save_check_frame(2) save_values_frame(3) snd_conv)+
qed simp_all

text \<open>The checks already on record for a run are those of its events so far: numbered from 0, no
  more than the run ends with; and no detail of the run is a number JSON cannot write.\<close>

definition ready :: "recovery_run \<Rightarrow> db \<Rightarrow> bool" where
  "ready run s \<longleftrightarrow> run_exists (run_id run) s \<and> steps_of (run_id run) s = [] \<and>
     counted kr_run_id kr_seq (run_id run) 0 (checks_of (run_id run) s) \<and>
     length (checks_of (run_id run) s) \<le> length (run_checks run) \<and>
     list_all step_writable (run_steps run) \<and> list_all check_writable (run_checks run)"

lemma save_timeline_loads:
  assumes "ready run s"
  shows "load_steps (run_id run) (save_timeline ce run s) = map stored_step (run_steps run)"
    "load_checks (run_id run) (save_timeline ce run s) = map stored_check (run_checks run)"
proof -
  let ?rid = "run_id run"
  let ?s = "save_steps ce ?rid 0 (run_steps run) s"
  have r: "run_exists ?rid s" "steps_of ?rid s = [] @ []" "checks_of ?rid s = [] @ checks_of ?rid s"
    "counted kr_run_id kr_seq ?rid 0 ([] @ checks_of ?rid s)"
    "list_all step_writable (run_steps run)" "list_all check_writable (run_checks run)"
    using assms by (simp_all add: ready_def)
  have steps: "steps_of ?rid ?s = numbered (step_row_of ?rid) 0 (run_steps run)"
    using save_steps_rows [OF r(1,2) _ _ r(5), of 0 ce] by simp
  have same: "run_exists ?rid ?s" "checks_of ?rid ?s = [] @ checks_of ?rid s"
    using r(1) by (simp_all add: run_exists_def checks_of_def)
  have "checks_of ?rid (save_timeline ce run s) = numbered (check_row_of ?rid) 0 (run_checks run)"
    using save_checks_rows [OF same r(4) _ r(6), of 0 ce True] assms
    by (simp add: save_timeline_def ready_def)
  then show "load_checks ?rid (save_timeline ce run s) = map stored_check (run_checks run)"
    by (rule load_numbered_checks)
  have "steps_of ?rid (save_timeline ce run s) = numbered (step_row_of ?rid) 0 (run_steps run)"
    using steps by (simp add: save_timeline_def steps_of_def)
  then show "load_steps ?rid (save_timeline ce run s) = map stored_step (run_steps run)"
    by (rule load_numbered_steps)
qed

text \<open>The outcome of a run is written last, over a complete timeline: when the recorder finishes
  a run on record, everything before its final write leaves the run's row as it was, and by then
  the steps and the checks read back are exactly the run's own. So no reader ever sees a terminal
  state without the timeline that explains it.\<close>

theorem outcome_after_timeline:
  assumes "ready run s" "jr_run_id r \<noteq> ''''"
  shows "recorder_finish ce (Some run) (r, s) = (r, update_run run (save_timeline ce run s)) \<and>
    db_runs (save_timeline ce run s) = db_runs s \<and>
    load_steps (run_id run) (save_timeline ce run s) = map stored_step (run_steps run) \<and>
    load_checks (run_id run) (save_timeline ce run s) = map stored_check (run_checks run)"
  using assms(2) save_timeline_loads [OF assms(1)]
  by (simp add: recorder_finish_def ensure_run_def) (simp add: save_timeline_def)


section \<open>The events of a running drill\<close>

definition events_of :: "string \<Rightarrow> db \<Rightarrow> event_row list" where
  "events_of rid s = filter (\<lambda>r. er_run_id r = rid) (db_events s)"

text \<open>An event after its trip: its check takes its JSON form.\<close>

definition json_event :: "stored_event \<Rightarrow> stored_event" where
  "json_event ev = ev\<lparr>se_check := map_option json_check (se_check ev)\<rparr>"

lemma event_row_round_trip [simp]: "event_of_row (event_row_of rid ev) = json_event ev"
  by (simp add: event_of_row_def event_row_of_def json_event_def)

lemma json_event_twice [simp]: "json_event (json_event ev) = json_event ev"
  by (cases "se_check ev") (simp_all add: json_event_def)






lemma set_temp_frame [simp]:
  "run_exists rid (set_temp_workload i t n s) = run_exists rid s"
  "events_of rid (set_temp_workload i t n s) = events_of rid s"
proof -
  have "map rr_id (db_runs (set_temp_workload i t n s)) = map rr_id (db_runs s)"
    unfolding set_temp_workload_def map_runs_runs by (rule map_update_where) simp
  from arg_cong [OF this, of set] show "run_exists rid (set_temp_workload i t n s) = run_exists rid s"
    by (simp add: run_exists_def)
  show "events_of rid (set_temp_workload i t n s) = events_of rid s"
    by (simp add: events_of_def set_temp_workload_def map_runs_def)
qed



lemma save_check_events [simp]:
  "events_of rid (snd (save_check ce rid' i c s)) = events_of rid s"
  "run_exists rid (snd (save_check ce rid' i c s)) = run_exists rid s"
  by (simp_all add: events_of_def run_exists_def)






section \<open>Witnesses\<close>


definition lab_step :: step where
  "lab_step = \<lparr>st_name = ''restore'', st_state = RunRestoring, st_status = StepDone, st_started_at = 1,
     st_completed_at = 2, st_duration = 1, st_message = '''', st_err = '''', st_details = []\<rparr>"



theorem outcome_after_timeline_witness:
  "load_steps ''r1'' (save_timeline (Plain ''c'') (lab_run\<lparr>run_steps := [lab_step]\<rparr>) lab_db) = [stored_step lab_step]"
proof -
  let ?run = "lab_run\<lparr>run_steps := [lab_step]\<rparr>"
  have r: "ready ?run lab_db"
    by (simp add: ready_def lab_db_defs run_exists_def steps_of_def checks_of_def step_writable_def lab_step_def)
  have j: "jr_run_id (attach_to ''r1'' new_recorder) \<noteq> ''''" by (simp add: attach_to_def)
  show ?thesis
    using outcome_after_timeline [OF r j, of "Plain ''c''"] by (simp add: lab_run_def)
qed

end
