(* ===== verification/Checks_Safety.thy ===== *)
theory Checks_Safety
  imports Checks Engine_Contract
begin

text \<open>
  What the checks guarantee: the registry always accounts for every check and never lets one take
  the drill down, a command check passes only when everything it declared held, and a drill that
  succeeds on these checks has measured what its plan captures.
\<close>

section \<open>The registry\<close>

lemma wp_bindI:
  assumes "wp m P E s" "\<And>a s. P a s \<Longrightarrow> wp (f a) Q E s"
  shows "wp (bindM m f) Q E s"
  unfolding wp_bind by (rule wp_mono [OF assms(1)]) (rule assms(2))

lemma wp_option:
  "(x = None \<Longrightarrow> wp m Q E s) \<Longrightarrow> (\<And>a. x = Some a \<Longrightarrow> wp (f a) Q E s) \<Longrightarrow>
   wp (case x of None \<Rightarrow> m | Some a \<Rightarrow> f a) Q E s"
  by (cases x) simp_all

lemma wp_ifI: "(b \<Longrightarrow> wp m Q E s) \<Longrightarrow> (\<not> b \<Longrightarrow> wp n Q E s) \<Longrightarrow> wp (if b then m else n) Q E s"
  by simp

lemma run_attempt_never_panics: "wp (run_attempt impl tg cfg) (\<lambda>_ _. True) (\<lambda>x _. x = None) w"
  by (auto simp: wp_def run_attempt_def split: prod.splits outcome.splits)

lemma wp_time [simp]: "wp (rt_time rt) Q E w = Q (fst (rt_now rt w)) (snd (rt_now rt w))"
  by (simp add: wp_def rt_time_def split: prod.split)

lemma wp_rt_sleep [simp]: "wp (rt_sleep rt d) Q E w = Q (fst (rt_wait rt d w)) (snd (rt_wait rt d w))"
  by (simp add: wp_def rt_sleep_def split: prod.split)

lemma wp_context: "wp (gets f) (\<lambda>_ _. True) E w" by simp

lemma wp_pause: "wp (if b then rt_sleep rt t else ret None) (\<lambda>_ _. True) E w" by simp

lemma attempts_bounded:
  "wp (attempt_from n k rt impl tg cfg) (\<lambda>(r, a) _. k \<le> a \<and> a \<le> k + int n) (\<lambda>x _. x = None) w"
proof (induction n arbitrary: k w)
  case 0
  show ?case
    unfolding attempt_from.simps
    by (rule wp_bindI [OF wp_context], rule wp_option, rule wp_bindI [OF run_attempt_never_panics]) simp_all
next
  case (Suc n)
  have later: "wp (attempt_from n (k + 1) rt impl tg cfg) (\<lambda>(r, a) _. k \<le> a \<and> a \<le> k + int (Suc n)) (\<lambda>x _. x = None) w" for w
    by (rule wp_mono [OF Suc.IH]) auto
  show ?case
    unfolding attempt_from.simps
    by (rule wp_bindI [OF wp_context], rule wp_option, rule wp_bindI [OF run_attempt_never_panics],
        rule wp_ifI, simp, rule wp_bindI [OF wp_pause], rule wp_option, rule later) simp_all
qed

text \<open>The account of one check: its name and type, at most as many attempts as the plan allows, and
  no pass from a check nobody knows or from one that did not read the value it was asked for.\<close>

definition accounted :: "'w registry \<Rightarrow> check_config \<Rightarrow> check_result \<Rightarrow> bool" where
  "accounted reg cfg r \<longleftrightarrow>
     cr_name r = config_name cfg \<and> cr_type r = cc_type cfg \<and>
     0 \<le> cr_attempts r \<and> cr_attempts r \<le> max_attempts cfg \<and>
     \<not> (cr_ok r \<and> (get_check reg (cc_type cfg) = None \<or>
                   cc_capture cfg \<noteq> '''' \<and> \<not> has_captured r (cc_capture cfg)))"

lemma unread_message: "unread_capture r cfg = '''' \<longleftrightarrow>
  cc_capture cfg = '''' \<or> \<not> cr_ok r \<or> has_captured r (cc_capture cfg)"
  by (simp add: unread_capture_def)

lemma seal_accounted:
  assumes "get_check reg (cc_type cfg) = Some impl" "0 \<le> k" "k \<le> max_attempts cfg"
  shows "accounted reg cfg (seal_result cfg s e k r)"
  using assms
  by (simp add: accounted_def seal_result_def Let_def unread_message has_captured_def cr_ok_def)

lemma wp_any_time: "wp (rt_time rt) (\<lambda>_ _. True) E w" by simp

lemma run_one_accounted: "wp (run_one rt reg tg cfg) (\<lambda>r _. accounted reg cfg r) (\<lambda>x _. x = None) w"
proof -
  have pos: "1 \<le> max_attempts cfg" by (simp add: max_attempts_def)
  have seal: "wp (attempt_from (nat (max_attempts cfg - 1)) 1 rt impl tg cfg)
      (\<lambda>(r, a) w. accounted reg cfg (seal_result cfg s (fst (rt_now rt w)) a r)) (\<lambda>x _. x = None) w"
    if "get_check reg (cc_type cfg) = Some impl" for impl s w
    by (rule wp_mono [OF attempts_bounded]) (use pos that in \<open>auto intro!: seal_accounted\<close>)
  have finish: "wp (bindM (attempt_from (nat (max_attempts cfg - 1)) 1 rt impl tg cfg) (\<lambda>(r, attempts).
         bindM (rt_time rt) (\<lambda>ended. ret (seal_result cfg s ended attempts r))))
      (\<lambda>r _. accounted reg cfg r) (\<lambda>x _. x = None) w"
    if "get_check reg (cc_type cfg) = Some impl" for impl s w
    by (rule wp_bindI [OF seal [OF that]]) (auto split: prod.split)
  have unknown: "get_check reg (cc_type cfg) = None \<Longrightarrow> accounted reg cfg (unknown_type reg cfg s e)" for s e
    using pos by (simp add: accounted_def unknown_type_def verdict_def cr_ok_def)
  show ?thesis
    unfolding run_one_def
    by (rule wp_bindI [OF wp_any_time], rule wp_option, rule wp_bindI [OF wp_any_time])
      (simp add: unknown, rule finish)
qed

lemma skipped_accounted: "accounted reg cfg (skipped_result cfg t e)"
  by (simp add: accounted_def skipped_result_def verdict_def cr_ok_def max_attempts_def)

lemma run_all_list: "wp (run_all rt reg tg cfgs) (\<lambda>rs _. list_all2 (accounted reg) cfgs rs) (\<lambda>x _. x = None) w"
proof (induction cfgs arbitrary: w)
  case (Cons cfg cfgs)
  have one: "wp (case e of Some e \<Rightarrow> bindM (rt_time rt) (\<lambda>t. ret (skipped_result cfg t e)) | None \<Rightarrow> run_one rt reg tg cfg)
     (\<lambda>r _. accounted reg cfg r) (\<lambda>x _. x = None) w" for e w
    by (rule wp_option) (simp_all add: run_one_accounted skipped_accounted)
  show ?case
    unfolding run_all.simps
    by (rule wp_bindI [OF wp_context], rule wp_bindI [OF one], rule wp_bindI [OF Cons.IH]) simp
qed simp

lemma accounted_names: "list_all2 (accounted reg) cfgs rs \<Longrightarrow>
  map cr_name rs = map config_name cfgs \<and> map cr_type rs = map cc_type cfgs"
  by (induction rule: list_all2_induct) (auto simp: accounted_def)

text \<open>C18. Running a plan's checks returns one result per check, in the plan's order and under its
  name and type, whatever the checks do: a panic inside one never escapes. Each was attempted no
  more often than its retries allow, and none passed that is of an unknown type or that left
  unread the value the plan captures.\<close>

theorem run_all_accounts:
  "case run_all rt reg tg cfgs w of
     (Done rs, _) \<Rightarrow> map cr_name rs = map config_name cfgs \<and> map cr_type rs = map cc_type cfgs \<and>
        list_all2 (accounted reg) cfgs rs
   | (Panicked _, _) \<Rightarrow> False
   | (Diverged, _) \<Rightarrow> True"
  using run_all_list [of rt reg tg cfgs w] accounted_names
  by (auto simp: wp_def split: prod.splits outcome.splits)


section \<open>Termination\<close>

lemma run_attempt_ends:
  assumes "\<And>limit tg cfg w. fst (impl limit tg cfg w) \<noteq> Diverged"
  shows "wp (run_attempt impl tg cfg) (\<lambda>_ _. True) (\<lambda>_ _. False) w"
  using assms [of "max 0 (cc_timeout cfg)" tg cfg w]
  by (auto simp: wp_def run_attempt_def split: prod.splits outcome.splits)

lemma attempts_end:
  assumes "\<And>limit tg cfg w. fst (impl limit tg cfg w) \<noteq> Diverged"
  shows "wp (attempt_from n k rt impl tg cfg) (\<lambda>_ _. True) (\<lambda>_ _. False) w"
proof (induction n arbitrary: k w)
  case 0
  show ?case
    unfolding attempt_from.simps
    by (rule wp_bindI [OF wp_context], rule wp_option, rule wp_bindI [OF run_attempt_ends [OF assms]]) simp_all
next
  case (Suc n)
  show ?case
    unfolding attempt_from.simps
    by (rule wp_bindI [OF wp_context], rule wp_option, rule wp_bindI [OF run_attempt_ends [OF assms]],
        rule wp_ifI, simp, rule wp_bindI [OF wp_pause], rule wp_option, rule Suc.IH) simp_all
qed

definition returns :: "'w registry \<Rightarrow> bool" where
  "returns reg \<longleftrightarrow> (\<forall>(typ, impl) \<in> set reg. \<forall>limit tg cfg w. fst (impl limit tg cfg w) \<noteq> Diverged)"

lemma run_one_ends:
  assumes "returns reg"
  shows "wp (run_one rt reg tg cfg) (\<lambda>_ _. True) (\<lambda>_ _. False) w"
proof -
  have impl: "fst (impl limit tg cfg w) \<noteq> Diverged" if "get_check reg ty = Some impl" for impl ty limit tg cfg w
    using assms that unfolding returns_def get_check_def by (auto dest!: map_of_SomeD)
  show ?thesis
    unfolding run_one_def
    by (rule wp_bindI [OF wp_any_time], rule wp_option, simp,
        rule wp_bindI [OF attempts_end [OF impl]], assumption) (auto split: prod.split)
qed

lemma run_all_ends: "returns reg \<Longrightarrow> wp (run_all rt reg tg cfgs) (\<lambda>_ _. True) (\<lambda>_ _. False) w"
proof (induction cfgs arbitrary: w)
  case (Cons cfg cfgs)
  have one: "wp (case e of Some e \<Rightarrow> bindM (rt_time rt) (\<lambda>t. ret (skipped_result cfg t e)) | None \<Rightarrow> run_one rt reg tg cfg)
     (\<lambda>_ _. True) (\<lambda>_ _. False) w" for e w
    by (rule wp_option) (simp_all add: run_one_ends [OF Cons.prems])
  show ?case
    unfolding run_all.simps
    by (rule wp_bindI [OF wp_context], rule wp_bindI [OF one], rule wp_bindI [OF Cons.IH [OF Cons.prems]]) simp
qed simp

text \<open>The checks of a plan always come to an end: when no check implementation hangs past its
  deadline, running them returns, however often they panic, fail or are retried.\<close>

theorem run_all_returns:
  assumes "returns reg"
  shows "\<exists>rs w'. run_all rt reg tg cfgs w = (Done rs, w')"
  using run_all_ends [OF assms, of rt tg cfgs w]
  by (auto simp: wp_def split: prod.splits outcome.splits)



section \<open>A command check that passed\<close>

lemma parse_captured_finite: "parse_captured pf s = Inr v \<Longrightarrow> finite64 v"
  by (auto simp: parse_captured_def split: list.splits option.splits if_splits)

lemma detail_keys [simp]:
  "detail_captured \<noteq> detail_baseline" "detail_captured \<noteq> detail_drift_skipped"
  "detail_captured \<noteq> ''exit_code''" "detail_baseline \<noteq> ''exit_code''" "detail_drift_skipped \<noteq> ''exit_code''"
  "detail_baseline \<noteq> detail_captured" "detail_drift_skipped \<noteq> detail_captured" "detail_drift_skipped \<noteq> detail_baseline"
  by (simp_all add: detail_captured_def detail_baseline_def detail_drift_skipped_def)

lemma map_of_filter_other: "k \<noteq> k' \<Longrightarrow> map_of (filter (\<lambda>e. fst e \<noteq> k) ds) k' = map_of ds k'"
  by (induction ds) auto

lemma map_of_put_detail [simp]: "map_of (put_detail k v ds) k' = (if k = k' then Some v else map_of ds k')"
  by (simp add: put_detail_def map_of_filter_other)

text \<open>The check recorded the value it captured, the value is finite and inside the asserted bounds,
  and its drift was judged tolerable or explained away as not judged.\<close>

definition drift_settled :: "float_text \<Rightarrow> check_result \<Rightarrow> f64 \<Rightarrow> drift_spec \<Rightarrow> bool" where
  "drift_settled ft r v d \<longleftrightarrow>
     (case map_of (cr_details r) detail_baseline of
        Some (DetailFloats [(n, b)]) \<Rightarrow> check_drift (ft_number ft) (ft_percent ft) v b d = ''''
      | _ \<Rightarrow> map_of (cr_details r) detail_drift_skipped \<noteq> None)"

definition measured :: "float_text \<Rightarrow> check_config \<Rightarrow> check_result \<Rightarrow> bool" where
  "measured ft cfg r \<longleftrightarrow>
     (case map_of (cr_details r) detail_captured of
        Some (DetailFloats [(n, v)]) \<Rightarrow>
          n = cc_capture cfg \<and> finite64 v \<and>
          (case cc_assert cfg of None \<Rightarrow> True | Some a \<Rightarrow> within_bounds v a) \<and>
          (case cc_drift cfg of None \<Rightarrow> True | Some d \<Rightarrow> drift_settled ft r v d)
      | _ \<Rightarrow> False)"

definition earned_pass :: "template_engine \<Rightarrow> float_text \<Rightarrow> target \<Rightarrow> check_config \<Rightarrow> check_result \<Rightarrow> bool" where
  "earned_pass tx ft tg cfg r \<longleftrightarrow>
     map_of (cr_details r) ''exit_code'' =
       Some (DetailInt (cp_expect_exit_code (fst (decode_command tx tg cfg)))) \<and>
     (cc_capture cfg = '''' \<or> measured ft cfg r)"

text \<open>What a command check may answer: a pass it earned, a failure or an error.\<close>

definition answers :: "template_engine \<Rightarrow> float_text \<Rightarrow> target \<Rightarrow> check_config \<Rightarrow> check_result \<Rightarrow> bool" where
  "answers tx ft tg cfg r \<longleftrightarrow>
     (case cr_status r of CheckPass \<Rightarrow> earned_pass tx ft tg cfg r | CheckFail \<Rightarrow> True | CheckError \<Rightarrow> True | _ \<Rightarrow> False)"

lemma answers_bad [simp]: "answers tx ft tg cfg (verdict CheckError m ds)" "answers tx ft tg cfg (verdict CheckFail m ds)"
  by (simp_all add: answers_def verdict_def)

lemma answers_pass: "answers tx ft tg cfg (verdict CheckPass m ds) \<longleftrightarrow> earned_pass tx ft tg cfg (verdict CheckPass m ds)"
  by (simp add: answers_def verdict_def)

lemma details_verdict [simp]: "cr_details (verdict st m ds) = ds"
  by (simp add: verdict_def)

lemma exit_code_detail [simp]:
  "map_of (output_details argv res) ''exit_code'' = Some (DetailInt (er_exit_code res))"
  by (simp add: output_details_def)

lemma judge_output_exit: "judge_output rx c res = None \<Longrightarrow> er_exit_code res = cp_expect_exit_code c"
  by (auto simp: judge_output_def Let_def split: if_splits)

lemma wp_return: "Q a s \<Longrightarrow> wp (ret a) Q E s" by simp

lemma wp_call: "(\<And>a s. wp (f a) Q (\<lambda>_ _. True) s) \<Longrightarrow> wp (bindM m f) Q (\<lambda>_ _. True) s"
  by (rule wp_bindI [OF wp_true])

lemma judge_drift_answers:
  assumes code: "map_of ds ''exit_code'' = Some (DetailInt (cp_expect_exit_code (fst (decode_command tx tg cfg))))"
    and cap: "map_of ds detail_captured = Some (DetailFloats [(cc_capture cfg, v)])"
    and base: "map_of ds detail_baseline = None"
    and v: "finite64 v" "case cc_assert cfg of None \<Rightarrow> True | Some a \<Rightarrow> within_bounds v a" "cc_drift cfg = Some d"
  shows "wp (judge_drift ft g limit tg cfg v d msg ds) (\<lambda>r _. answers tx ft tg cfg r) (\<lambda>_ _. True) w"
  unfolding judge_drift_def
  by (rule wp_call, rule wp_return)
    (use assms in \<open>simp add: answers_pass earned_pass_def measured_def drift_settled_def Let_def split: sum.split\<close>)

lemma evaluate_capture_answers:
  assumes code: "er_exit_code res = cp_expect_exit_code (fst (decode_command tx tg cfg))"
  shows "wp (evaluate_capture ft g limit tg cfg out msg (output_details argv res)) (\<lambda>r _. answers tx ft tg cfg r) (\<lambda>_ _. True) w"
proof (cases "parse_captured (ft_parse ft) out")
  case (Inl e)
  then show ?thesis by (simp add: evaluate_capture_def)
next
  case (Inr v)
  note fin = parse_captured_finite [OF Inr]
  let ?ds = "put_detail detail_captured (DetailFloats [(cc_capture cfg, v)]) (output_details argv res)"
  have keys: "map_of ?ds ''exit_code'' = Some (DetailInt (cp_expect_exit_code (fst (decode_command tx tg cfg))))"
    "map_of ?ds detail_captured = Some (DetailFloats [(cc_capture cfg, v)])" "map_of ?ds detail_baseline = None"
    using code by (simp_all add: output_details_def) (simp add: detail_baseline_def)
  show ?thesis
  proof (cases "case cc_assert cfg of None \<Rightarrow> True | Some a \<Rightarrow> within_bounds v a")
    case within: True
    then have silent: "(case cc_assert cfg of None \<Rightarrow> '''' | Some a \<Rightarrow> check_assert (ft_number ft) v a) = ''''"
      by (simp add: assert_silent split: option.splits)
    show ?thesis
    proof (cases "cc_drift cfg")
      case None
      then show ?thesis
        using Inr silent within fin keys
        by (simp add: evaluate_capture_def Let_def answers_pass earned_pass_def measured_def)
    next
      case (Some d)
      then show ?thesis
        using Inr silent judge_drift_answers [OF keys fin within Some]
        by (simp add: evaluate_capture_def Let_def)
    qed
  next
    case False
    then have "(case cc_assert cfg of None \<Rightarrow> '''' | Some a \<Rightarrow> check_assert (ft_number ft) v a) \<noteq> ''''"
      by (simp add: assert_silent split: option.splits)
    then show ?thesis using Inr by (simp add: evaluate_capture_def Let_def)
  qed
qed

lemma judge_command_answers:
  "wp (judge_command ft rx g limit tg cfg (fst (decode_command tx tg cfg)) argv res)
     (\<lambda>r _. answers tx ft tg cfg r) (\<lambda>_ _. True) w"
proof (cases "judge_output rx (fst (decode_command tx tg cfg)) res")
  case None
  note code = judge_output_exit [OF None]
  show ?thesis
    unfolding judge_command_def None option.case
    by (rule wp_ifI) (use code in \<open>simp_all add: answers_pass earned_pass_def evaluate_capture_answers\<close>)
next
  case (Some bad)
  then have "fst bad = CheckFail \<or> fst bad = CheckError"
    by (auto simp: judge_output_def Let_def split: if_splits option.splits sum.splits)
  then show ?thesis using Some by (auto simp: judge_command_def split: prod.split)
qed

lemma exec_command_answers:
  "wp (exec_command ft rx g limit tg cfg (fst (decode_command tx tg cfg)) chosen)
     (\<lambda>r _. answers tx ft tg cfg r) (\<lambda>_ _. True) w"
proof -
  have res: "wp (bindM (deref res) (judge_command ft rx g limit tg cfg (fst (decode_command tx tg cfg)) argv))
     (\<lambda>r _. answers tx ft tg cfg r) (\<lambda>_ _. True) w" for res argv w
    by (rule wp_call) (rule judge_command_answers)
  obtain argv shell e where "chosen = (argv, shell, e)" by (cases chosen)
  then show ?thesis
    unfolding exec_command_def by (simp only: prod.case, intro wp_call) (use res in \<open>simp split: sum.split\<close>)
qed

lemma command_answers:
  "wp (command_check tx ft rx g limit tg cfg) (\<lambda>r _. answers tx ft tg cfg r) (\<lambda>_ _. True) w"
proof -
  obtain c p where dec: "decode_command tx tg cfg = (c, p)" by (cases "decode_command tx tg cfg")
  have go: "wp (bindM (choose_argv g limit tg c) (\<lambda>chosen. case chosen of
        Inl e \<Rightarrow> ret (verdict CheckError (err_text e) []) | Inr chosen \<Rightarrow> exec_command ft rx g limit tg cfg c chosen))
     (\<lambda>r _. answers tx ft tg cfg r) (\<lambda>_ _. True) w" for w
  proof (rule wp_call)
    fix a s
    show "wp (case a of Inl e \<Rightarrow> ret (verdict CheckError (err_text e) []) | Inr chosen \<Rightarrow>
        exec_command ft rx g limit tg cfg c chosen) (\<lambda>r _. answers tx ft tg cfg r) (\<lambda>_ _. True) s"
      using exec_command_answers [of ft rx g limit tg cfg tx] dec by (cases a) simp_all
  qed
  show ?thesis
    unfolding command_check_def dec prod.case by (intro wp_option wp_ifI go) simp_all
qed

text \<open>C17. A command check passes only when it has earned it: the command ran and exited with the
  code the plan expects, and when the plan captures a value the value was read, is a finite number
  inside the asserted bounds, and its drift was tolerable against the baseline on record or
  explicitly not judged. Any other answer is a failure or an error.\<close>

theorem command_pass_is_earned:
  "case command_check tx ft rx g limit tg cfg w of
     (Done r, _) \<Rightarrow> answers tx ft tg cfg r | _ \<Rightarrow> True"
  using command_answers [of tx ft rx g limit tg cfg w]
  by (auto simp: wp_def split: prod.splits outcome.splits)

text \<open>A registry whose one check type hangs nowhere.\<close>

definition panicking_registry :: "unit registry" where
  "panicking_registry = [(''command'', \<lambda>_ _ _ w. (Panicked ''boom'', w))]"

definition idle_runtime :: "unit runtime" where
  "idle_runtime = \<lparr>rt_now = (\<lambda>w. (0, w)), rt_ctx_err = (\<lambda>_. None), rt_wait = (\<lambda>_ w. (None, w))\<rparr>"

theorem run_all_returns_witness:
  "\<exists>rs w'. run_all idle_runtime panicking_registry
     \<lparr>tg_ip = '''', tg_ips = [], tg_workload_id = ''9000'', tg_node = '''', tg_name = '''', tg_vars = [],
      tg_exec = False, tg_baseline = False\<rparr> [] () = (Done rs, w')"
  by (rule run_all_returns) (simp add: returns_def panicking_registry_def)

end
