(* ===== verification/Drill.thy ===== *)
theory Drill
  imports Checks_Safety
begin

text \<open>
  The recovery engine with the registry of checks as its runner: what a successful drill says about
  the values its plan captures.
\<close>

section \<open>The results of a run come from its runner\<close>

definition reported :: "(check_result list \<Rightarrow> bool) \<Rightarrow> 'w est \<Rightarrow> bool" where
  "reported R s \<longleftrightarrow> R (run_checks (es_run s))"

lemma hoare_reported:
  fixes m :: "('w est, 'b) eng"
  assumes "\<And>rs. hoare (checks_are rs) m (\<lambda>_. checks_are rs) (\<lambda>_. True)"
  shows "hoare (reported R) m (\<lambda>_. reported R) (\<lambda>_. True)"
proof (rule hoareI)
  fix s :: "'w est" assume "reported R s"
  moreover have "checks_are (run_checks (es_run s)) s" by (simp add: checks_are_def)
  ultimately show "wp m (\<lambda>_. reported R) (\<lambda>_ _. True) s"
    using hoareD [OF assms [of "run_checks (es_run s)"], of s]
    by (auto simp: checks_are_def reported_def elim: wp_mono)
qed

lemma end_step_reported: "hoare (reported R) (end_step d idx st m e) (\<lambda>_. reported R) (\<lambda>_. True)"
  by (simp add: hoare_def end_step_def wp_now reported_def)

definition runs_within :: "'w deps \<Rightarrow> check_config list \<Rightarrow> (check_result list \<Rightarrow> bool) \<Rightarrow> bool" where
  "runs_within d cfgs R \<longleftrightarrow>
     (\<forall>tg w. wp (d_run_all d RunCtx tg cfgs) (\<lambda>rs _. R rs) (\<lambda>_ _. True) w)"

lemma run_checks_step_reported:
  assumes "runs_within d (map to_core (pl_checks p)) R"
  shows "hoare (\<lambda>_. True) (run_checks_step d p tg)
    (\<lambda>r s. case r of Inl _ \<Rightarrow> True | Inr _ \<Rightarrow> reported R s) (\<lambda>_. True)"
proof -
  let ?Q = "\<lambda>r s. case r of Inl _ \<Rightarrow> True | Inr _ \<Rightarrow> reported R s"
  have call: "hoare (\<lambda>_. True) (perform (\<lambda>_. CallRunAll RunCtx tg) (d_run_all d RunCtx tg (map to_core (pl_checks p))))
      (\<lambda>rs _. R rs) (\<lambda>_. True)"
    using assms by (auto simp: runs_within_def hoare_def perform_def wp_def split: prod.splits outcome.splits)
  have set_checks: "hoare (\<lambda>_. R rs) (modify_run (\<lambda>r. r\<lparr>run_checks := rs\<rparr>)) (\<lambda>_. reported R) (\<lambda>_. True)" for rs
    by (simp add: hoare_def reported_def)
  have level: "hoare (reported R) (modify_run (\<lambda>r. r\<lparr>run_proof_level := f r\<rparr>)) (\<lambda>_. reported R) (\<lambda>_. True)" for f
    by (simp add: hoare_def reported_def)
  have quit: "hoare P (fail_step d idx m e) ?Q (\<lambda>_. True)" for P idx m and e :: goerr
    unfolding fail_step_def by (rule hoare_then [OF hoare_free]) (simp add: hoare_ret)
  have fin: "hoare (reported R) (thenM (end_step d idx StepDone m None) (ret (Inr ()))) ?Q (\<lambda>_. True)" for idx m
    by (rule hoare_then [OF end_step_reported]) (simp add: hoare_ret)
  have verdict: "hoare (reported R) (case c of (failed, unevaluated) \<Rightarrow>
      if failed \<noteq> [] then fail_step d idx (m1 failed) (e1 failed)
      else if unevaluated \<noteq> [] then fail_step d idx (m2 unevaluated) (e2 unevaluated)
      else thenM (end_step d idx StepDone m None) (ret (Inr ()))) ?Q (\<lambda>_. True)" for c idx m m1 e1 m2 e2
    by (cases c) (simp only: prod.case, intro hoare_if quit fin)
  show ?thesis
    unfolding run_checks_step_def Let_def
    by (intro hoare_bind [OF hoare_free] hoare_bind [OF call] hoare_then [OF set_checks] hoare_then [OF level]
        hoare_then [OF hoare_reported [OF emit_results_checks]] verdict)
qed

text \<open>A run that was graded well reports what its runner answered, when the plan has checks at all.\<close>

definition well_graded :: "recovery_run \<Rightarrow> bool" where
  "well_graded r \<longleftrightarrow> run_result r = ResultSuccess \<or> run_result r = ResultDegraded"

definition substantiated :: "plan \<Rightarrow> (check_result list \<Rightarrow> bool) \<Rightarrow> 'w est \<Rightarrow> bool" where
  "substantiated p R s \<longleftrightarrow> \<not> (well_graded (es_run s) \<and> pl_checks p \<noteq> [] \<and> \<not> reported R s)"

lemma run_workflow_substantiated:
  assumes "\<not> op_dry_run opts" "runs_within d (map to_core (pl_checks p)) R"
  shows "hoare (\<lambda>_. True) (run_workflow fuel d p opts) (\<lambda>_. substantiated p R) (\<lambda>_. True)"
proof -
  have fail: "hoare P (fail_run e) (\<lambda>_. substantiated p R) (\<lambda>_. True)" for P e
    by (simp add: hoare_def fail_run_def mark_failed_def set_workflow_err_def substantiated_def well_graded_def)
  have mark: "hoare P (thenM (if c then mark_inconclusive e else mark_failed e) (set_workflow_err x))
      (\<lambda>_. substantiated p R) (\<lambda>_. True)" for c e x P
    by (simp add: hoare_def mark_failed_def mark_inconclusive_def set_workflow_err_def substantiated_def well_graded_def)
  have rto: "hoare (reported R) measure_rto (\<lambda>_. reported R) (\<lambda>_. True)"
    by (simp add: hoare_def measure_rto_def reported_def)
  have grade: "hoare (reported R) (grade_success p) (\<lambda>_. substantiated p R) (\<lambda>_. True)"
    by (simp add: hoare_def grade_success_def substantiated_def reported_def)
  have none: "hoare (\<lambda>_. True) (thenM measure_rto (grade_success p)) (\<lambda>_. substantiated p R) (\<lambda>_. True)"
    if "pl_checks p = []"
    by (rule hoare_weaken [OF hoare_free]) (simp_all add: that substantiated_def)
  have graded: "hoare (\<lambda>s. case r of Inl _ \<Rightarrow> True | Inr _ \<Rightarrow> reported R s) (thenM measure_rto (case r of
        Inl e \<Rightarrow> thenM (if errors_is e ErrChecksInconclusive then mark_inconclusive e else mark_failed e)
            (set_workflow_err (Some e))
      | Inr _ \<Rightarrow> grade_success p)) (\<lambda>_. substantiated p R) (\<lambda>_. True)" for r :: "goerr + unit"
  proof (cases r)
    case (Inl e)
    show ?thesis unfolding Inl sum.case by (rule hoare_then [OF hoare_free mark])
  next
    case (Inr u)
    show ?thesis unfolding Inr sum.case by (rule hoare_then [OF rto grade])
  qed
  have finish: "hoare (\<lambda>_. True) (finish_workflow d p tg) (\<lambda>_. substantiated p R) (\<lambda>_. True)" for tg
    unfolding finish_workflow_def
    by (intro hoare_if none hoare_bind [OF run_checks_step_reported [OF assms(2)]] graded)
  show ?thesis
    unfolding run_workflow_def using assms(1)
    by (simp, intro hoare_bind [OF hoare_free] hoare_then [OF hoare_free] hoare_sum fail finish)
qed

lemma engine_substantiated:
  assumes "runs_within d (map to_core (pl_checks p)) R"
  shows "case engine_run fuel d p (opts\<lparr>op_dry_run := False\<rparr>) w of
     (Done err, t) \<Rightarrow> substantiated p R t | (_, t) \<Rightarrow> True"
proof (rule engine_run_carries)
  show "hoare (\<lambda>_. True) (run_workflow fuel d p (opts\<lparr>op_dry_run := False\<rparr>)) (\<lambda>_. substantiated p R) (\<lambda>_. True)"
    by (rule run_workflow_substantiated) (simp_all add: assms)
  show "hoare (\<lambda>_. True) (fail_run e) (\<lambda>_. substantiated p R) (\<lambda>_. True)" for e
    by (simp add: hoare_def fail_run_def mark_failed_def set_workflow_err_def substantiated_def well_graded_def)
  show "substantiated p R t" if "substantiated p R u" "settled_as (es_run u) err (es_run t)" for u t :: "'a est" and err
    using that by (auto simp: substantiated_def well_graded_def settled_as_def verdict_of_def reported_def)
qed



section \<open>Running a drill on the registry\<close>

definition with_registry :: "'w runtime \<Rightarrow> 'w registry \<Rightarrow> 'w deps \<Rightarrow> 'w deps" where
  "with_registry rt reg d = d\<lparr>d_run_all := (\<lambda>_. run_all rt reg)\<rparr>"

definition with_command ::
  "template_engine \<Rightarrow> float_text \<Rightarrow> (string \<Rightarrow> goerr + (string \<Rightarrow> bool)) \<Rightarrow> 'w guest \<Rightarrow> 'w registry \<Rightarrow> 'w registry" where
  "with_command tx ft rx g reg = register ''command'' (command_check tx ft rx g) reg"

lemma get_command: "get_check (with_command tx ft rx g reg) ''command'' = Some (command_check tx ft rx g)"
  by (simp add: with_command_def register_def get_check_def)

text \<open>No command check that was to capture a value passed without having measured it.\<close>

definition backed :: "float_text \<Rightarrow> check_config \<Rightarrow> check_result \<Rightarrow> bool" where
  "backed ft cfg r \<longleftrightarrow>
     \<not> (cr_ok r \<and> cc_type cfg = ''command'' \<and> cc_capture cfg \<noteq> '''' \<and> \<not> measured ft cfg r)"

lemma answers_backed: "answers tx ft tg cfg r \<Longrightarrow> backed ft cfg r"
  by (auto simp: answers_def backed_def earned_pass_def cr_ok_def)

lemma verdict_backed [simp]: "backed ft cfg (verdict CheckError m ds)"
  by (simp add: backed_def verdict_def cr_ok_def)

lemma run_attempt_backed:
  assumes "\<And>w. wp (impl (max 0 (cc_timeout cfg)) tg cfg) (\<lambda>r _. backed ft cfg r) (\<lambda>_ _. True) w"
  shows "wp (run_attempt impl tg cfg) (\<lambda>r _. backed ft cfg r) (\<lambda>_ _. True) w"
  using assms [of w] by (auto simp: wp_def run_attempt_def split: prod.splits outcome.splits)

lemma attempts_backed:
  assumes "\<And>w. wp (impl (max 0 (cc_timeout cfg)) tg cfg) (\<lambda>r _. backed ft cfg r) (\<lambda>_ _. True) w"
  shows "wp (attempt_from n k rt impl tg cfg) (\<lambda>(r, _) _. backed ft cfg r) (\<lambda>_ _. True) w"
proof (induction n arbitrary: k w)
  have attempt: "wp (run_attempt impl tg cfg) (\<lambda>r _. backed ft cfg r) (\<lambda>_ _. True) w" for w
    by (rule run_attempt_backed) (rule assms)
  case 0
  show ?case
    unfolding attempt_from.simps
    by (rule wp_bindI [OF wp_context], rule wp_option, rule wp_bindI [OF attempt])
      (simp_all add: cancelled_before_def)
next
  have attempt: "wp (run_attempt impl tg cfg) (\<lambda>r _. backed ft cfg r) (\<lambda>_ _. True) w" for w
    by (rule run_attempt_backed) (rule assms)
  case (Suc n)
  show ?case
    unfolding attempt_from.simps
    by (rule wp_bindI [OF wp_context], rule wp_option, rule wp_bindI [OF attempt],
        rule wp_ifI, simp, rule wp_bindI [OF wp_pause], rule wp_option, rule Suc.IH)
      (simp_all add: cancelled_before_def cancelled_waiting_def)
qed

lemma measured_details:
  assumes "cr_details r = cr_details r'"
  shows "measured ft cfg r = measured ft cfg r'"
proof -
  have "drift_settled ft r = drift_settled ft r'" by (intro ext) (simp only: drift_settled_def assms)
  then show ?thesis by (simp only: measured_def assms)
qed

lemma seal_details [simp]: "cr_details (seal_result cfg s e k r) = cr_details r"
  by (simp add: seal_result_def Let_def)

lemma seal_ok: "cr_ok (seal_result cfg s e k r) \<Longrightarrow> cr_ok r"
  by (auto simp: seal_result_def Let_def cr_ok_def split: if_splits)

lemma seal_backed: "backed ft cfg r \<Longrightarrow> backed ft cfg (seal_result cfg s e k r)"
  using seal_ok measured_details [of "seal_result cfg s e k r" r] by (auto simp: backed_def)

lemma run_one_backed:
  "wp (run_one rt (with_command tx ft rx g reg) tg cfg) (\<lambda>r _. backed ft cfg r) (\<lambda>_ _. True) w"
proof (cases "cc_type cfg = ''command''")
  case True
  have impl: "wp (command_check tx ft rx g l tg cfg) (\<lambda>r _. backed ft cfg r) (\<lambda>_ _. True) w" for l w
    by (rule wp_mono [OF command_answers]) (simp_all add: answers_backed)
  have "wp (attempt_from n k rt (command_check tx ft rx g) tg cfg) (\<lambda>(r, _) _. backed ft cfg r) (\<lambda>_ _. True) w" for n k w
    by (rule attempts_backed) (rule impl)
  note attempts = this
  have "wp (case ra of (r, a) \<Rightarrow> bindM (rt_time rt) (\<lambda>ended. ret (seal_result cfg s ended a r)))
      (\<lambda>r _. backed ft cfg r) (\<lambda>_ _. True) w" if "case ra of (r, _) \<Rightarrow> backed ft cfg r" for ra s w
    using that by (cases ra) (simp add: seal_backed)
  note sealed = this
  show ?thesis
    unfolding run_one_def True get_command option.case
    by (rule wp_bindI [OF wp_any_time], rule wp_bindI [OF attempts]) (rule sealed, auto split: prod.splits)
next
  case False
  then show ?thesis by (intro wp_mono [OF wp_true]) (simp_all add: backed_def)
qed

lemma run_all_backed:
  "wp (run_all rt (with_command tx ft rx g reg) tg cfgs) (\<lambda>rs _. list_all2 (backed ft) cfgs rs) (\<lambda>_ _. True) w"
proof (induction cfgs arbitrary: w)
  case (Cons cfg cfgs)
  have one: "wp (case e of Some e \<Rightarrow> bindM (rt_time rt) (\<lambda>t. ret (skipped_result cfg t e))
       | None \<Rightarrow> run_one rt (with_command tx ft rx g reg) tg cfg) (\<lambda>r _. backed ft cfg r) (\<lambda>_ _. True) w" for e w
    by (rule wp_option, rule run_one_backed) (simp add: backed_def skipped_result_def verdict_def cr_ok_def)
  show ?case
    unfolding run_all.simps
    by (rule wp_bindI [OF wp_context], rule wp_bindI [OF one], rule wp_bindI [OF Cons.IH]) simp
qed simp

lemma registry_reports:
  "runs_within (with_registry rt (with_command tx ft rx g reg) d) cfgs
     (\<lambda>rs. list_all2 (accounted (with_command tx ft rx g reg)) cfgs rs \<and> list_all2 (backed ft) cfgs rs)"
  unfolding runs_within_def with_registry_def
  by (auto intro!: wp_mono [OF wp_conj [OF run_all_list run_all_backed]])

text \<open>A successful drill has looked at the data. When the engine runs its checks through the
  registry and the run ends SUCCESS or DEGRADED, every check of the plan is accounted for in order,
  and every command check that passed and was to capture a value did measure it: the value is on
  record, finite, inside its asserted bounds and within its drift tolerance.\<close>

theorem success_is_measured:
  "case engine_run fuel (with_registry rt (with_command tx ft rx g reg) d) p (opts\<lparr>op_dry_run := False\<rparr>) w of
     (Done err, t) \<Rightarrow>
       substantiated p (\<lambda>rs.
         list_all2 (accounted (with_command tx ft rx g reg)) (map to_core (pl_checks p)) rs \<and>
         list_all2 (backed ft) (map to_core (pl_checks p)) rs) t
   | (_, t) \<Rightarrow> True"
  by (rule engine_substantiated [OF registry_reports])

end
