(* ===== verification/Worker.thy ===== *)
theory Worker
  imports Journal_Safety Drill
begin

text \<open>
  internal/worker: executing one claimed drill (run.go) and settling the drills whose worker died
  (reconcile.go). The state is the history database, the recorder of the drill and the world behind
  the providers. Log lines are left out. The writes of the store that the code warns about and goes
  on after are the total ones here; the renewal goroutine is part of the world: what it does to the
  database between two calls of the engine is whatever the calls do to their state.
\<close>

section \<open>The state of a worker\<close>

record 'w shop =
  sh_world :: 'w
  sh_db :: db
  sh_recorder :: recorder

definition on_db :: "(db \<Rightarrow> db) \<Rightarrow> ('w shop, unit) eng" where
  "on_db f = modify (\<lambda>s. s\<lparr>sh_db := f (sh_db s)\<rparr>)"

definition in_world :: "('w, 'a) call \<Rightarrow> ('w shop, 'a) eng" where
  "in_world c = (\<lambda>s. case c (sh_world s) of (r, w) \<Rightarrow> (r, s\<lparr>sh_world := w\<rparr>))"

text \<open>The deployment's answers to what a plan leaves open (config.Config, None when none is loaded).\<close>

record deployment =
  dp_node :: string
  dp_storage :: string
  dp_network :: string
  dp_pools :: "(string \<times> string) list"
  dp_networks :: "(string \<times> network_config) list"

datatype deployment_setting = DeploymentNode | DeploymentStorage | DeploymentPool

definition placement :: "deployment option \<Rightarrow> string \<Rightarrow> string \<Rightarrow> deployment_setting \<Rightarrow> string" where
  "placement cfg provider asked which =
     (case cfg of
        None \<Rightarrow> asked
      | Some c \<Rightarrow>
          if asked \<noteq> '''' then asked
          else (case which of
                  DeploymentNode \<Rightarrow> dp_node c
                | DeploymentStorage \<Rightarrow> dp_storage c
                | DeploymentPool \<Rightarrow> (case map_of (dp_pools c) provider of None \<Rightarrow> '''' | Some p \<Rightarrow> p)))"

definition no_config_error :: goerr where
  "no_config_error = Plain ''worker: no configuration is loaded, so no network profile can be resolved''"

definition resolve_network :: "deployment option \<Rightarrow> plan \<Rightarrow> goerr + network_config" where
  "resolve_network cfg p =
     (case cfg of
        None \<Rightarrow> Inl no_config_error
      | Some c \<Rightarrow>
          (let name = first_non_empty [rs_network (pl_restore p), dp_network c, ''isolated''] in
           case map_of (dp_networks c) name of
             None \<Rightarrow> Inl (Plain (''no network profile '' @ quoted name @ '' in config''))
           | Some n \<Rightarrow> Inr (if rs_bridge (pl_restore p) \<noteq> '''' then n\<lparr>nw_bridge := rs_bridge (pl_restore p)\<rparr> else n)))"


section \<open>Settling what a dead worker left\<close>

text \<open>Cleanup, and the provider it is asked of, are effects on the world.\<close>

record 'w cluster =
  cl_hypervisor :: "string \<Rightarrow> ('w, goerr + (string \<Rightarrow> ('w, goerr + unit) call)) call"

definition settle_run :: "string \<Rightarrow> run_state \<Rightarrow> string \<Rightarrow> ('w shop, unit) eng" where
  "settle_run rid st reason =
     thenM (on_db (write_state rid st)) (
     thenM (on_db (set_run_error rid reason)) (
     on_db (finish_lease rid)))"

definition interrupted_reason :: string where
  "interrupted_reason = ''interrupted: the worker running this drill did not survive''"

definition unreachable_reason :: "recovery_run \<Rightarrow> goerr \<Rightarrow> string" where
  "unreachable_reason run e =
     interrupted_reason @ ''; the temporary workload '' @ run_temp_workload_id run @ '' on node '' @ run_node run @
     '' could not be reached to be removed: '' @ err_text e"

definition orphan_reason :: "recovery_run \<Rightarrow> goerr \<Rightarrow> string" where
  "orphan_reason run e =
     interrupted_reason @ ''; ORPHANED WORKLOAD: '' @ run_temp_workload_id run @ '' on node '' @ run_node run @
     '' could not be removed: '' @ err_text e"

definition settle_interrupted :: "'w cluster \<Rightarrow> dialect \<Rightarrow> queued_run \<Rightarrow> ('w shop, unit) eng" where
  "settle_interrupted cl d q =
     bindM (gets (\<lambda>s. get_stored_run d (qr_id q) (sh_db s))) (\<lambda>r.
     case r of
       Inl _ \<Rightarrow> ret ()
     | Inr run \<Rightarrow>
         if run_temp_workload_id run = '''' then settle_run (qr_id q) RunFailed interrupted_reason
         else
           bindM (in_world (cl_hypervisor cl (qr_provider_id q))) (\<lambda>hv.
           case hv of
             Inl e \<Rightarrow> settle_run (qr_id q) RunFailed (unreachable_reason run e)
           | Inr del \<Rightarrow>
               bindM (in_world (del (run_temp_workload_id run))) (\<lambda>r.
               case r of
                 Inl e \<Rightarrow> settle_run (qr_id q) RunCleanupFailed (orphan_reason run e)
               | Inr _ \<Rightarrow> settle_run (qr_id q) RunFailed interrupted_reason)))"

primrec reconcile_all :: "'w cluster \<Rightarrow> dialect \<Rightarrow> string list \<Rightarrow> queued_run list \<Rightarrow> ('w shop, unit) eng" where
  "reconcile_all cl d in_flight [] = ret ()"
| "reconcile_all cl d in_flight (q # qs) =
     thenM (if qr_id q \<in> set in_flight then ret () else settle_interrupted cl d q)
       (reconcile_all cl d in_flight qs)"

definition reconcile :: "'w cluster \<Rightarrow> dialect \<Rightarrow> string list \<Rightarrow> time \<Rightarrow> ('w shop, unit) eng" where
  "reconcile cl d in_flight now_time =
     bindM (gets (\<lambda>s. stale_runs d now_time (sh_db s))) (reconcile_all cl d in_flight)"


section \<open>Executing a claimed drill\<close>

definition fail_claimed :: "string \<Rightarrow> ('w shop, unit) eng" where
  "fail_claimed rid = thenM (on_db (write_state rid RunFailed)) (on_db (finish_lease rid))"

text \<open>Every event goes to the recorder, then its state is mirrored into the run's row.\<close>

definition mirror_state :: "string \<Rightarrow> event \<Rightarrow> db \<Rightarrow> db" where
  "mirror_state rid e s = (if ev_state e = RunNoState then s else write_state rid (ev_state e) s)"

definition record_event :: "goerr \<Rightarrow> string \<Rightarrow> event \<Rightarrow> 'w shop \<Rightarrow> 'w shop" where
  "record_event ce rid e s =
     (case recorder_emit ce e (sh_recorder s, sh_db s) of
        (r, b) \<Rightarrow> s\<lparr>sh_recorder := r, sh_db := mirror_state rid e b\<rparr>)"

definition drill_deps :: "goerr \<Rightarrow> string \<Rightarrow> 'w shop deps \<Rightarrow> 'w shop deps" where
  "drill_deps ce rid d = d\<lparr>d_emit := record_event ce rid\<rparr>"

definition drill_options :: "deployment option \<Rightarrow> queued_run \<Rightarrow> plan \<Rightarrow> network_config \<Rightarrow> run_options" where
  "drill_options cfg q p n =
     \<lparr>op_run_id = qr_id q, op_network = n,
      op_node = placement cfg (qr_provider_id q) (rs_node (pl_restore p)) DeploymentNode,
      op_storage = placement cfg (qr_provider_id q) (rs_storage (pl_restore p)) DeploymentStorage,
      op_pool = placement cfg (qr_provider_id q) (rs_pool (pl_restore p)) DeploymentPool,
      op_dry_run = False, op_keep_workload = False\<rparr>"

text \<open>
  What the drill needs before the engine runs: the plan of the snapshot, the providers as the
  engine's dependencies, the network. \<open>parse\<close> is plan.Parse on the YAML text and \<open>provide\<close> the
  providers and the engine's construction.
\<close>

definition drill_inputs ::
  "(string \<Rightarrow> goerr + plan) \<Rightarrow> (string \<Rightarrow> string \<Rightarrow> goerr + 'w shop deps) \<Rightarrow> deployment option \<Rightarrow> queued_run \<Rightarrow>
   (plan \<times> 'w shop deps \<times> network_config) option" where
  "drill_inputs parse provide cfg q =
     (case parse (qr_plan_snapshot q) of
        Inl _ \<Rightarrow> None
      | Inr p \<Rightarrow>
          (case provide (qr_provider_id q) (first_non_empty [qr_backup_provider_id q, qr_provider_id q]) of
             Inl _ \<Rightarrow> None
           | Inr d \<Rightarrow>
               (case resolve_network cfg p of
                  Inl _ \<Rightarrow> None
                | Inr n \<Rightarrow> Some (p, d, n))))"

text \<open>
  The recorder is attached once, and nothing the providers do reaches it: attaching it again where
  the run ends only says so (see attached_emit).
\<close>

definition run_drill ::
  "nat \<Rightarrow> goerr \<Rightarrow> deployment option \<Rightarrow> queued_run \<Rightarrow> plan \<Rightarrow> 'w shop deps \<Rightarrow> network_config \<Rightarrow> ('w shop, unit) eng" where
  "run_drill fuel ce cfg q p d n = (\<lambda>s.
     let s = s\<lparr>sh_recorder := attach_to (qr_id q) new_recorder\<rparr> in
     case engine_run fuel (drill_deps ce (qr_id q) d) p (drill_options cfg q p n) s of
       (Done _, t) \<Rightarrow>
         (let s = es_world t in
          case recorder_finish ce (Some (es_run t)) (attach_to (qr_id q) (sh_recorder s), sh_db s) of
            (r, b) \<Rightarrow> (Done (), s\<lparr>sh_recorder := r, sh_db := finish_lease (qr_id q) b\<rparr>))
     | (Panicked x, t) \<Rightarrow> (Panicked x, es_world t)
     | (Diverged, t) \<Rightarrow> (Diverged, es_world t))"

definition execute ::
  "nat \<Rightarrow> goerr \<Rightarrow> (string \<Rightarrow> goerr + plan) \<Rightarrow> (string \<Rightarrow> string \<Rightarrow> goerr + 'w shop deps) \<Rightarrow> deployment option \<Rightarrow>
   queued_run \<Rightarrow> ('w shop, unit) eng" where
  "execute fuel ce parse provide cfg q =
     (case drill_inputs parse provide cfg q of
        None \<Rightarrow> fail_claimed (qr_id q)
      | Some (p, d, n) \<Rightarrow> run_drill fuel ce cfg q p d n)"



section \<open>The loop that drains the queue\<close>

text \<open>How many drills a worker runs at once: what it is told, else the configured limit, else one.\<close>

definition worker_concurrency :: "int \<Rightarrow> int option \<Rightarrow> int" where
  "worker_concurrency asked limit =
     (if asked > 0 then asked
      else case limit of None \<Rightarrow> 1 | Some l \<Rightarrow> if l > 0 then l else 1)"

text \<open>
  \<open>Run\<close> as a machine. A slot of the channel \<open>running\<close> is taken before a claim and given back when there
  is no work or when the drill is done; \<open>inFlight\<close> names what is being executed. Between any two
  steps the database moves by whatever transactions the drills, the other workers, the API and the
  scheduler commit. \<open>lo_started\<close> is every run this worker ever started, which the code does not keep.
\<close>

record loop =
  lo_db :: db
  lo_slots :: nat
  lo_claiming :: bool
  lo_in_flight :: "string list"
  lo_started :: "string list"

definition loop_start :: "db \<Rightarrow> loop" where
  "loop_start s = \<lparr>lo_db = s, lo_slots = 0, lo_claiming = False, lo_in_flight = [], lo_started = []\<rparr>"

inductive loop_step :: "nat \<Rightarrow> string \<Rightarrow> duration \<Rightarrow> dialect \<Rightarrow> loop \<Rightarrow> loop \<Rightarrow> bool"
  for concurrency owner lease d where
  slot: "\<not> lo_claiming l \<Longrightarrow> lo_slots l < concurrency \<Longrightarrow>
    loop_step concurrency owner lease d l (l\<lparr>lo_slots := lo_slots l + 1, lo_claiming := True\<rparr>)"
| idle: "lo_claiming l \<Longrightarrow> claim_run d owner lease now_time (lo_db l) = (Inl e, s) \<Longrightarrow>
    loop_step concurrency owner lease d l (l\<lparr>lo_slots := lo_slots l - 1, lo_claiming := False, lo_db := s\<rparr>)"
| start: "lo_claiming l \<Longrightarrow> claim_run d owner lease now_time (lo_db l) = (Inr q, s) \<Longrightarrow>
    loop_step concurrency owner lease d l
      (l\<lparr>lo_claiming := False, lo_db := s, lo_in_flight := List.insert (qr_id q) (lo_in_flight l),
         lo_started := qr_id q # lo_started l\<rparr>)"
| finish: "rid \<in> set (lo_in_flight l) \<Longrightarrow>
    loop_step concurrency owner lease d l
      (l\<lparr>lo_slots := lo_slots l - 1, lo_in_flight := removeAll rid (lo_in_flight l)\<rparr>)"
| others: "reaches any_outcome (lo_db l) s \<Longrightarrow> loop_step concurrency owner lease d l (l\<lparr>lo_db := s\<rparr>)"

end
