(* ===== verification/Worker_Safety.thy ===== *)
theory Worker_Safety
  imports Worker
begin

text \<open>
  What a worker guarantees: a claimed drill that comes back is settled and its lease given up, and a
  sweep settles every drill whose worker died, touches nothing else and runs nothing again.
\<close>

section \<open>One settlement\<close>

definition give_up_row :: "run_state \<Rightarrow> string \<Rightarrow> run_row \<Rightarrow> run_row" where
  "give_up_row st reason r =
     (if settled r then r else r\<lparr>rr_state := st\<rparr>)\<lparr>rr_err := null_string reason, rr_lease_expires_at := None\<rparr>"

definition gives_up :: "run_state \<Rightarrow> bool" where
  "gives_up st \<longleftrightarrow> st = RunFailed \<or> st = RunCleanupFailed"

definition settled_by :: "run_row \<Rightarrow> run_row \<Rightarrow> bool" where
  "settled_by r r' \<longleftrightarrow> (\<exists>st reason. gives_up st \<and> r' = give_up_row st reason r)"

lemma give_up_row_id [simp]: "rr_id (give_up_row st reason r) = rr_id r"
  by (simp add: give_up_row_def)

lemma settled_give_up_row: "gives_up st \<Longrightarrow> settled (give_up_row st reason r)"
  by (auto simp: give_up_row_def settled_def terminal_states_def gives_up_def)

lemma give_up_row_twice:
  "gives_up st \<Longrightarrow> give_up_row st' reason' (give_up_row st reason r) = give_up_row st reason' r"
  using settled_give_up_row [of st reason r] by (auto simp: give_up_row_def settled_def)

lemma settled_by_trans: "settled_by a b \<Longrightarrow> settled_by b c \<Longrightarrow> settled_by a c"
  unfolding settled_by_def using give_up_row_twice by metis

lemma wp_on_db [simp]: "wp (on_db f) Q E s = Q () (s\<lparr>sh_db := f (sh_db s)\<rparr>)"
  by (simp add: on_db_def)

lemma wp_in_world: "(\<And>r w. Q r (s\<lparr>sh_world := w\<rparr>)) \<Longrightarrow> wp (in_world c) Q (\<lambda>_ _. True) s"
  by (auto simp: wp_def in_world_def split: prod.splits outcome.splits)

definition rows_settled :: "string \<Rightarrow> 'w shop \<Rightarrow> 'w shop \<Rightarrow> bool" where
  "rows_settled rid s t \<longleftrightarrow> (\<exists>st reason. gives_up st \<and>
     db_runs (sh_db t) = update_where (\<lambda>r. rr_id r = rid) (give_up_row st reason) (db_runs (sh_db s)))"

lemma settlement_writes:
  "db_runs (finish_lease rid (set_run_error rid reason (write_state rid st s))) =
   update_where (\<lambda>r. rr_id r = rid) (give_up_row st reason) (db_runs s)"
  by (simp add: write_state_def set_run_error_def finish_lease_def map_runs_def update_where_def give_up_row_def)

lemma settle_run_rows: "gives_up st \<Longrightarrow> wp (settle_run rid st reason) (\<lambda>_ t. rows_settled rid s t) E s"
  unfolding rows_settled_def settle_run_def
  by (simp add: settlement_writes) (intro exI conjI, assumption, rule refl)

lemma rows_settled_world: "rows_settled rid (s\<lparr>sh_world := w\<rparr>) t = rows_settled rid s t"
  by (simp add: rows_settled_def)

lemma get_stored_run_exact:
  assumes "run_exists rid s"
  shows "\<exists>run. get_stored_run d rid s = Inr run"
proof -
  have "row_with rr_id rid (db_runs s) \<noteq> None" using assms by (simp add: row_with_None run_exists_def)
  then obtain r where r: "row_with rr_id rid (db_runs s) = Some r" by auto
  then have "rr_id r = rid" using row_with_Some [OF r] by simp
  then show ?thesis using r by (simp add: get_stored_run_def resolve_run_id_def)
qed

lemma settle_interrupted_rows:
  assumes "run_exists (qr_id q) (sh_db s)"
  shows "wp (settle_interrupted cl d q) (\<lambda>_ t. rows_settled (qr_id q) s t) (\<lambda>_ _. True) s"
proof -
  obtain run where run: "get_stored_run d (qr_id q) (sh_db s) = Inr run"
    using get_stored_run_exact [OF assms] by auto
  have fin: "wp (settle_run (qr_id q) st m) (\<lambda>_ t. rows_settled (qr_id q) s t) (\<lambda>_ _. True) (s\<lparr>sh_world := w\<rparr>)"
    if "gives_up st" for st m w
    using settle_run_rows [OF that, of "qr_id q" m "s\<lparr>sh_world := w\<rparr>"] by (simp add: rows_settled_world)
  have failed: "gives_up RunFailed" "gives_up RunCleanupFailed" by (simp_all add: gives_up_def)
  have ask: "wp (bindM (in_world c) f) (\<lambda>_ t. rows_settled (qr_id q) s t) (\<lambda>_ _. True) s'"
    if "\<And>r w. wp (f r) (\<lambda>_ t. rows_settled (qr_id q) s t) (\<lambda>_ _. True) (s'\<lparr>sh_world := w\<rparr>)"
    for c s' and f :: "_ \<Rightarrow> ('a shop, unit) eng"
    using that by (simp add: wp_in_world)

  have "wp (if run_temp_workload_id run = '''' then settle_run (qr_id q) RunFailed interrupted_reason
      else bindM (in_world (cl_hypervisor cl (qr_provider_id q))) (\<lambda>hv. case hv of
        Inl e \<Rightarrow> settle_run (qr_id q) RunFailed (unreachable_reason run e)
      | Inr del \<Rightarrow> bindM (in_world (del (run_temp_workload_id run))) (\<lambda>r. case r of
            Inl e \<Rightarrow> settle_run (qr_id q) RunCleanupFailed (orphan_reason run e)
          | Inr _ \<Rightarrow> settle_run (qr_id q) RunFailed interrupted_reason)))
      (\<lambda>_ t. rows_settled (qr_id q) s t) (\<lambda>_ _. True) s"
  proof (rule wp_ifI)
    show "wp (settle_run (qr_id q) RunFailed interrupted_reason) (\<lambda>_ t. rows_settled (qr_id q) s t) (\<lambda>_ _. True) s"
      by (rule settle_run_rows [OF failed(1)])
    show "wp (bindM (in_world (cl_hypervisor cl (qr_provider_id q))) (\<lambda>hv. case hv of
        Inl e \<Rightarrow> settle_run (qr_id q) RunFailed (unreachable_reason run e)
      | Inr del \<Rightarrow> bindM (in_world (del (run_temp_workload_id run))) (\<lambda>r. case r of
            Inl e \<Rightarrow> settle_run (qr_id q) RunCleanupFailed (orphan_reason run e)
          | Inr _ \<Rightarrow> settle_run (qr_id q) RunFailed interrupted_reason)))
      (\<lambda>_ t. rows_settled (qr_id q) s t) (\<lambda>_ _. True) s"
    proof (rule ask)
      fix hv w
      show "wp (case hv of Inl e \<Rightarrow> settle_run (qr_id q) RunFailed (unreachable_reason run e)
          | Inr del \<Rightarrow> bindM (in_world (del (run_temp_workload_id run))) (\<lambda>r. case r of
                Inl e \<Rightarrow> settle_run (qr_id q) RunCleanupFailed (orphan_reason run e)
              | Inr _ \<Rightarrow> settle_run (qr_id q) RunFailed interrupted_reason))
        (\<lambda>_ t. rows_settled (qr_id q) s t) (\<lambda>_ _. True) (s\<lparr>sh_world := w\<rparr>)"
      proof (cases hv)
        case (Inl e)
        show ?thesis unfolding Inl sum.case by (rule fin [OF failed(1)])
      next
        case (Inr del)
        show ?thesis
          unfolding Inr sum.case by (rule ask) (simp add: fin failed split: sum.split)
      qed
    qed
  qed
  then show ?thesis by (simp add: settle_interrupted_def run)
qed


section \<open>A sweep\<close>

text \<open>What becomes of a row when the interrupted runs \<open>ids\<close> are swept.\<close>

definition swept :: "string set \<Rightarrow> run_row \<Rightarrow> run_row \<Rightarrow> bool" where
  "swept ids r r' \<longleftrightarrow> (if rr_id r \<in> ids then settled_by r r' else r' = r)"

lemma swept_trans: "swept A a b \<Longrightarrow> swept B b c \<Longrightarrow> rr_id b = rr_id a \<Longrightarrow> swept (A \<union> B) a c"
  unfolding swept_def using settled_by_trans by (auto split: if_splits)

lemma swept_id: "swept ids r r' \<Longrightarrow> rr_id r' = rr_id r"
  by (auto simp: swept_def settled_by_def split: if_splits)

definition sweep :: "string set \<Rightarrow> 'w shop \<Rightarrow> 'w shop \<Rightarrow> bool" where
  "sweep ids s t \<longleftrightarrow> list_all2 (swept ids) (db_runs (sh_db s)) (db_runs (sh_db t))"

lemma sweep_refl: "sweep {} s s"
  by (simp add: sweep_def swept_def list_all2_refl)

lemma sweep_trans:
  assumes "sweep A s t" "sweep B t u"
  shows "sweep (A \<union> B) s u"
  using assms unfolding sweep_def
  by (rule list_all2_trans [rotated]) (use swept_trans swept_id in blast)

lemma sweep_ids: "sweep ids s t \<Longrightarrow> map rr_id (db_runs (sh_db t)) = map rr_id (db_runs (sh_db s))"
  unfolding sweep_def by (induction rule: list_all2_induct) (auto simp: swept_id)

lemma rows_settled_sweep: "rows_settled rid s t \<Longrightarrow> sweep {rid} s t"
proof -
  assume "rows_settled rid s t"
  then obtain st reason where t: "gives_up st"
    "db_runs (sh_db t) = update_where (\<lambda>r. rr_id r = rid) (give_up_row st reason) (db_runs (sh_db s))"
    by (auto simp: rows_settled_def)
  then have "swept {rid} r (if rr_id r = rid then give_up_row st reason r else r)" for r
    by (auto simp: swept_def settled_by_def)
  then show ?thesis by (simp add: sweep_def t(2) update_where_def list_all2_map2 list_all2_refl)
qed


lemma sweep_exists: "sweep ids s t \<Longrightarrow> run_exists rid (sh_db t) = run_exists rid (sh_db s)"
  using arg_cong [OF sweep_ids, of ids s t set] by (simp add: run_exists_def)

lemma reconcile_all_sweep:
  assumes "list_all (\<lambda>q. run_exists (qr_id q) (sh_db s)) qs"
  shows "wp (reconcile_all cl d fl qs) (\<lambda>_ t. sweep (qr_id ` set qs - set fl) s t) (\<lambda>_ _. True) s"
  using assms
proof (induction qs arbitrary: s)
  case Nil
  show ?case by (simp add: sweep_refl)
next
  case (Cons q qs)
  let ?first = "if qr_id q \<in> set fl then ret () else settle_interrupted cl d q"
  let ?ids = "if qr_id q \<in> set fl then {} else {qr_id q}"
  have first: "wp ?first (\<lambda>_ t. sweep ?ids s t) (\<lambda>_ _. True) s"
  proof (cases "qr_id q \<in> set fl")
    case False
    have "run_exists (qr_id q) (sh_db s)" using Cons.prems by simp
    then have "wp (settle_interrupted cl d q) (\<lambda>_ t. sweep {qr_id q} s t) (\<lambda>_ _. True) s"
      by (rule wp_mono [OF settle_interrupted_rows]) (simp_all add: rows_settled_sweep)
    then show ?thesis using False by simp
  qed (simp add: sweep_refl)
  have ids: "?ids \<union> (qr_id ` set qs - set fl) = qr_id ` set (q # qs) - set fl" by auto
  have rest: "wp (reconcile_all cl d fl qs) (\<lambda>_ u. sweep (qr_id ` set (q # qs) - set fl) s u) (\<lambda>_ _. True) t"
    if t: "sweep ?ids s t" for t
  proof (rule wp_mono)
    show "wp (reconcile_all cl d fl qs) (\<lambda>_ u. sweep (qr_id ` set qs - set fl) t u) (\<lambda>_ _. True) t"
      by (rule Cons.IH) (use Cons.prems sweep_exists [OF t] in \<open>simp add: list_all_iff\<close>)
    show "sweep (qr_id ` set (q # qs) - set fl) s u" if "sweep (qr_id ` set qs - set fl) t u" for u
      using sweep_trans [OF t that] unfolding ids .
  qed simp
  show ?case
    unfolding reconcile_all.simps thenM_def by (rule wp_bindI [OF first]) (rule rest)
qed

text \<open>A sweep's effect, row by row: interrupted and not running here means settled, else untouched.\<close>

definition reconciled :: "string list \<Rightarrow> time \<Rightarrow> run_row \<Rightarrow> run_row \<Rightarrow> bool" where
  "reconciled fl now_time r r' \<longleftrightarrow>
     (if is_stale now_time r \<and> rr_id r \<notin> set fl then settled_by r r' \<and> settled r' \<and> rr_lease_expires_at r' = None
      else r' = r)"

lemma settled_by_facts: "settled_by r r' \<Longrightarrow> settled r' \<and> rr_lease_expires_at r' = None \<and> rr_id r' = rr_id r"
  using settled_give_up_row by (auto simp: settled_by_def) (simp add: give_up_row_def)

lemma stale_ids: "qr_id ` set (stale_runs d t s) = rr_id ` {r \<in> set (db_runs s). is_stale t r}"
  by (auto simp: stale_runs_def scan_queued_run_def image_iff)

lemma reconcile_rows:
  assumes "unique_runs (sh_db s)"
  shows "wp (reconcile cl d fl now_time)
    (\<lambda>_ t. list_all2 (reconciled fl now_time) (db_runs (sh_db s)) (db_runs (sh_db t))) (\<lambda>_ _. True) s"
proof -
  let ?stale = "stale_runs d now_time (sh_db s)"
  have exist: "list_all (\<lambda>q. run_exists (qr_id q) (sh_db s)) ?stale"
    by (auto simp: list_all_iff stale_runs_def scan_queued_run_def run_exists_def)
  have row: "reconciled fl now_time r r'"
    if "r \<in> set (db_runs (sh_db s))" "swept (qr_id ` set ?stale - set fl) r r'" for r r'
  proof -
    have "rr_id r \<in> qr_id ` set ?stale \<longleftrightarrow> is_stale now_time r"
      using assms that(1) unfolding stale_ids unique_runs_def by (auto simp: distinct_map dest: inj_onD)
    then show ?thesis
      using that(2) settled_by_facts by (auto simp: swept_def reconciled_def split: if_splits)
  qed
  have "list_all2 (reconciled fl now_time) (db_runs (sh_db s)) (db_runs (sh_db t))"
    if "sweep (qr_id ` set ?stale - set fl) s t" for t
    using that unfolding sweep_def by (rule list.rel_mono_strong) (rule row)
  then show ?thesis
    unfolding reconcile_def
    by (simp, intro wp_mono [OF reconcile_all_sweep [OF exist]]) simp_all
qed

lemma reconciled_stale:
  assumes "list_all2 (reconciled fl now_time) rs rs'"
  shows "list_all (\<lambda>r. \<not> (is_stale now_time r \<and> rr_id r \<notin> set fl)) rs'"
  using assms
proof (induction rule: list_all2_induct)
  case (Cons r rs r' rs')
  then show ?case by (auto simp: reconciled_def is_stale_def split: if_splits)
qed simp


text \<open>C19. A sweep settles exactly the drills whose worker died. Whatever the provider answers, when it
  comes back every run that was claimed, unsettled and past its lease, and is not being executed
  by this very process, is FAILED or CLEANUP_FAILED with its lease given up; every other run is
  untouched, and the only runs still stale are those this process is executing. Nothing is queued
  or claimed again.\<close>

theorem reconcile_settles_the_interrupted:
  assumes "unique_runs (sh_db s)"
  shows "case reconcile cl d in_flight now_time s of
      (Done _, t) \<Rightarrow>
        list_all2 (reconciled in_flight now_time) (db_runs (sh_db s)) (db_runs (sh_db t)) \<and>
        list_all (\<lambda>r. \<not> (is_stale now_time r \<and> rr_id r \<notin> set in_flight)) (db_runs (sh_db t))
    | _ \<Rightarrow> True"
  using reconcile_rows [OF assms, of cl d in_flight now_time] reconciled_stale
  by (auto simp: wp_def split: prod.splits outcome.splits)

text \<open>
  Two workers sweeping the same interrupted run: the first removes the workload and records FAILED;
  the second is refused by the provider. Its state is refused too, but its message is not: the run
  ends FAILED with the message of an orphaned workload that does not exist.
\<close>

lemma lost_race_keeps_state_but_rewrites_reason:
  "gives_up st \<Longrightarrow> give_up_row st' reason' (give_up_row st reason r) =
     (give_up_row st reason r)\<lparr>rr_err := null_string reason'\<rparr>"
  using settled_give_up_row [of st reason r] by (simp add: give_up_row_def)


section \<open>A claimed drill\<close>

text \<open>The rows of a run are settled and their lease is given up: none is stale, none can be claimed.\<close>

definition over :: "string \<Rightarrow> db \<Rightarrow> bool" where
  "over rid s \<longleftrightarrow> list_all (\<lambda>r. \<not> (rr_id r = rid \<and> \<not> (settled r \<and> rr_lease_expires_at r = None))) (db_runs s)"

lemma terminal_settled: "terminal (run_state run) \<Longrightarrow> settled (updated_row run r)"
  by (cases "run_state run") (simp_all add: settled_def terminal_states_def updated_row_def)

lemma failed_over: "over rid (finish_lease rid (write_state rid RunFailed s))"
proof -
  let ?f = "\<lambda>r. if rr_id r = rid then (if settled r then r else r\<lparr>rr_state := RunFailed\<rparr>)\<lparr>rr_lease_expires_at := None\<rparr> else r"
  have rows: "db_runs (finish_lease rid (write_state rid RunFailed s)) = map ?f (db_runs s)"
    by (simp add: finish_lease_def write_state_def update_where_def)
  have "\<not> (rr_id (?f r) = rid \<and> \<not> (settled (?f r) \<and> rr_lease_expires_at (?f r) = None))" for r
    by (simp add: settled_def terminal_states_def)
  then show ?thesis unfolding over_def rows by (simp only: list.pred_map comp_def list.pred_True not_False_eq_True)
qed

lemma fail_claimed_over: "wp (fail_claimed rid) (\<lambda>_ t. over rid (sh_db t)) (\<lambda>_ _. True) s"
  by (simp add: fail_claimed_def failed_over)

lemma outcome_over:
  assumes "terminal (run_state run)"
  shows "over (run_id run) (finish_lease (run_id run) (update_run run s))"
proof -
  have lease: "settled (r\<lparr>rr_lease_expires_at := x\<rparr>) = settled r" for r x by (simp add: settled_def)
  have key: "rr_id (updated_row run r) = rr_id r" for r by (simp add: updated_row_def)
  let ?f = "\<lambda>r. if rr_id r = run_id run then (updated_row run r)\<lparr>rr_lease_expires_at := None\<rparr> else r"
  have rows: "db_runs (finish_lease (run_id run) (update_run run s)) = map ?f (db_runs s)"
    by (simp add: finish_lease_def update_run_def update_where_def key)
  have "\<not> (rr_id (?f r) = run_id run \<and> \<not> (settled (?f r) \<and> rr_lease_expires_at (?f r) = None))" for r
    by (simp add: lease key terminal_settled [OF assms])
  then show ?thesis unfolding over_def rows by (simp only: list.pred_map comp_def list.pred_True not_False_eq_True)
qed

text \<open>An attached recorder stays attached to its run.\<close>

lemma attached_emit:
  assumes "jr_run_id (fst rs) \<noteq> ''''"
  shows "jr_run_id (fst (recorder_emit ce e rs)) = jr_run_id (fst rs)"
proof -
  have "open_run ce e rs = rs" using assms by (cases rs) (simp add: open_run_def)
  moreover have "jr_run_id (fst (name_temp e rs)) = jr_run_id (fst rs)" for rs
    by (simp add: name_temp_def split: prod.split)
  moreover have "jr_run_id (fst (write_event ce e rs)) = jr_run_id (fst rs)" for rs
    by (simp add: write_event_def Let_def split: prod.split option.split)
  ultimately show ?thesis by (simp add: recorder_emit_def)
qed

lemma run_drill_over:
  assumes "qr_id q \<noteq> ''''"
  shows "wp (run_drill fuel ce cfg q p d n) (\<lambda>_ t. over (qr_id q) (sh_db t)) (\<lambda>_ _. True) s"
proof -
  let ?s = "s\<lparr>sh_recorder := attach_to (qr_id q) new_recorder\<rparr>"
  let ?e = "engine_run fuel (drill_deps ce (qr_id q) d) p (drill_options cfg q p n) ?s"
  have "run_id (es_run (initial (drill_deps ce (qr_id q) d) p (drill_options cfg q p n) ?s)) = qr_id q"
    using assms by (simp add: initial_def new_run_def drill_options_def split: prod.split)
  then have rid: "run_id (es_run (snd ?e)) = qr_id q"
    using same_run.engine_run_keeps [of "drill_deps ce (qr_id q) d" p "drill_options cfg q p n" ?s fuel]
    by (simp add: same_run_def)
  have honest: "terminal (run_state (es_run t))" if "?e = (Done err, t)" for err t
    using engine_run_honest [of fuel "drill_deps ce (qr_id q) d" p "drill_options cfg q p n" ?s] that by simp
  have "over (qr_id q) (finish_lease (qr_id q) b)"
    if "?e = (Done err, t)" "recorder_finish ce (Some (es_run t)) (attach_to (qr_id q) r, u) = (r', b)" for err t r u r' b
    using that(2) assms outcome_over [OF honest [OF that(1)]] rid that(1)
    by (auto simp: recorder_finish_def ensure_run_def attach_to_def)
  then show ?thesis
    by (auto simp: wp_def run_drill_def Let_def split: prod.splits outcome.splits)
qed

text \<open>A drill that was claimed and comes back is over, however it went: its plan could not be
  read, its provider is unavailable, its network unknown, or the engine ran it to any end. Its run
  is in a final state and its lease is given up, so it is never found stale and never claimed again.\<close>

theorem executed_drill_is_over:
  assumes "qr_id q \<noteq> ''''"
  shows "case execute fuel ce parse provide cfg q s of
      (Done _, t) \<Rightarrow> over (qr_id q) (sh_db t) | _ \<Rightarrow> True"
proof -
  have "wp (execute fuel ce parse provide cfg q) (\<lambda>_ t. over (qr_id q) (sh_db t)) (\<lambda>_ _. True) s"
    using fail_claimed_over run_drill_over [OF assms]
    by (auto simp: execute_def split: option.split)
  then show ?thesis by (auto simp: wp_def split: prod.splits outcome.splits)
qed


section \<open>The loop\<close>

definition owned :: "db \<Rightarrow> string \<Rightarrow> bool" where
  "owned s rid \<longleftrightarrow> (case row_with rr_id rid (db_runs s) of None \<Rightarrow> False | Some r \<Rightarrow> rr_lease_owner r \<noteq> None)"

lemma owned_reaches:
  assumes "owned s rid" "reaches any_outcome s t"
  shows "owned t rid"
proof -
  obtain r where r: "row_with rr_id rid (db_runs s) = Some r" "rr_lease_owner r \<noteq> None"
    using assms(1) by (auto simp: owned_def split: option.splits)
  show ?thesis
    using history_row [OF drill.history_steps [OF assms(2)] r(1)] r(2) by (auto simp: owned_def same_drill_def)
qed

lemma claim_reaches: "claim_run d owner lease now_time s = (r, t) \<Longrightarrow> reaches any_outcome s t"
  unfolding reaches_def using store_step.claimed [of any_outcome s d owner lease now_time] by (simp add: r_into_rtranclp)

lemma claim_new:
  assumes "unique_runs s" "claim_run d owner lease now_time s = (Inr q, t)"
  shows "\<not> owned s (qr_id q)" "owned t (qr_id q)"
  using claim_run_row [OF assms] by (auto simp: owned_def claimable_def)

definition loop_ok :: "nat \<Rightarrow> loop \<Rightarrow> bool" where
  "loop_ok concurrency l \<longleftrightarrow>
     unique_runs (lo_db l) \<and> distinct (lo_started l) \<and> distinct (lo_in_flight l) \<and>
     set (lo_in_flight l) \<subseteq> set (lo_started l) \<and> list_all (owned (lo_db l)) (lo_started l) \<and>
     length (lo_in_flight l) + (if lo_claiming l then 1 else 0) = lo_slots l \<and> lo_slots l \<le> concurrency"

lemma loop_db_moves:
  assumes "list_all (owned s) ids" "unique_runs s" "reaches any_outcome s t"
  shows "list_all (owned t) ids \<and> unique_runs t"
  using assms owned_reaches history_unique [OF drill.history_steps [OF assms(3)]] by (auto simp: list_all_iff)

lemma loop_step_ok:
  assumes "loop_step concurrency owner lease d l l'" "loop_ok concurrency l"
  shows "loop_ok concurrency l'"
  using assms(1)
proof cases
  case (idle now_time e s)
  have "list_all (owned s) (lo_started l) \<and> unique_runs s"
    by (rule loop_db_moves [OF _ _ claim_reaches [OF idle(3)]]) (use assms(2) in \<open>simp_all add: loop_ok_def\<close>)
  then show ?thesis using assms(2) idle(1,2) by (auto simp: loop_ok_def)
next
  case (start now_time q s)
  have u: "unique_runs (lo_db l)" using assms(2) by (simp add: loop_ok_def)
  have moved: "list_all (owned s) (lo_started l) \<and> unique_runs s"
    by (rule loop_db_moves [OF _ _ claim_reaches [OF start(3)]]) (use assms(2) in \<open>simp_all add: loop_ok_def\<close>)
  have "qr_id q \<notin> set (lo_started l)"
    using claim_new(1) [OF u start(3)] assms(2) by (auto simp: loop_ok_def list_all_iff)
  moreover from this have "qr_id q \<notin> set (lo_in_flight l)" using assms(2) by (auto simp: loop_ok_def)
  ultimately show ?thesis
    using assms(2) start(1,2) moved claim_new(2) [OF u start(3)] by (auto simp: loop_ok_def)
next
  case (finish rid)
  have "length (lo_in_flight l) = Suc (length (removeAll rid (lo_in_flight l)))"
    using finish(2) assms(2) distinct_remove1_removeAll [of "lo_in_flight l" rid]
    by (simp add: loop_ok_def length_remove1 flip: distinct_remove1_removeAll) (metis Suc_pred length_pos_if_in_set)
  then show ?thesis using assms(2) finish(1) by (auto simp: loop_ok_def distinct_removeAll)
next
  case (others s)
  have "list_all (owned s) (lo_started l) \<and> unique_runs s"
    by (rule loop_db_moves [OF _ _ others(2)]) (use assms(2) in \<open>simp_all add: loop_ok_def\<close>)
  then show ?thesis using assms(2) others(1) by (simp add: loop_ok_def)
qed (use assms(2) in \<open>auto simp: loop_ok_def\<close>)

text \<open>However its steps interleave with every other transaction on the store, a worker never
  executes more drills at once than its concurrency allows, and never starts the same run twice in
  its life.\<close>

theorem worker_starts_a_run_once:
  assumes "unique_runs s" "(loop_step concurrency owner lease d)\<^sup>*\<^sup>* (loop_start s) l"
  shows "distinct (lo_started l) \<and> set (lo_in_flight l) \<subseteq> set (lo_started l) \<and>
    length (lo_in_flight l) \<le> lo_slots l \<and> lo_slots l \<le> concurrency"
proof -
  have "loop_ok concurrency l"
    using assms(2)
  proof (induction rule: rtranclp_induct)
    case base
    show ?case using assms(1) by (simp add: loop_ok_def loop_start_def)
  next
    case (step l l')
    show ?case by (rule loop_step_ok [OF step(2,3)])
  qed
  then show ?thesis by (auto simp: loop_ok_def)
qed


section \<open>Witnesses\<close>

theorem worker_starts_a_run_once_witness:
  "distinct [''r1''] \<and> set [''r1''] \<subseteq> set [''r1''] \<and> length [''r1''] \<le> 1 \<and> 1 \<le> (1 :: nat)"
proof -
  let ?l = "\<lparr>lo_db = lab_claimed, lo_slots = 1, lo_claiming = False, lo_in_flight = [''r1''], lo_started = [''r1'']\<rparr>"
  have "loop_step 1 ''w1'' 10 DialectSQLite (loop_start lab_db) ((loop_start lab_db)\<lparr>lo_slots := 1, lo_claiming := True\<rparr>)"
    using loop_step.slot [of "loop_start lab_db" 1] by (simp add: loop_start_def)
  moreover have "loop_step 1 ''w1'' 10 DialectSQLite ((loop_start lab_db)\<lparr>lo_slots := 1, lo_claiming := True\<rparr>) ?l"
    using loop_step.start [where l = "(loop_start lab_db)\<lparr>lo_slots := 1, lo_claiming := True\<rparr>" and d = DialectSQLite
        and owner = "''w1''" and lease = 10 and now_time = 7 and s = lab_claimed and concurrency = 1
        and q = "scan_queued_run (queued_row lab_run ''yaml'' 5)"] lab_claim
    by (simp add: loop_start_def lab_id)
  ultimately have "(loop_step 1 ''w1'' 10 DialectSQLite)\<^sup>*\<^sup>* (loop_start lab_db) ?l" by simp
  from worker_starts_a_run_once [OF unique_lab_db this] show ?thesis by simp
qed

definition lab_shop :: "unit shop" where
  "lab_shop = \<lparr>sh_world = (), sh_db = lab_claimed, sh_recorder = new_recorder\<rparr>"

definition lab_cluster :: "unit cluster" where
  "lab_cluster = \<lparr>cl_hypervisor = (\<lambda>_ w. (Done (Inl (Plain ''sealed'')), w))\<rparr>"

theorem reconcile_settles_the_interrupted_witness:
  "case reconcile lab_cluster DialectSQLite [] 20 lab_shop of
      (Done _, t) \<Rightarrow>
        list_all2 (reconciled [] 20) (db_runs (sh_db lab_shop)) (db_runs (sh_db t)) \<and>
        list_all (\<lambda>r. \<not> (is_stale 20 r \<and> rr_id r \<notin> set [])) (db_runs (sh_db t))
    | _ \<Rightarrow> True"
  by (rule reconcile_settles_the_interrupted) (simp add: lab_shop_def lab_claimed_def lab_db_defs map_runs_def)

theorem executed_drill_is_over_witness:
  "over ''r1'' (sh_db (snd (execute 0 (Plain ''c'') (\<lambda>_. Inl (Plain ''yaml'')) (\<lambda>_ _. Inl (Plain ''x'')) None
     (scan_queued_run (queued_row lab_run ''yaml'' 5)) lab_shop)))"
proof -
  let ?q = "scan_queued_run (queued_row lab_run ''yaml'' 5)"
  have "qr_id ?q \<noteq> ''''" by (simp add: lab_id)
  from executed_drill_is_over [OF this, of 0 "Plain ''c''" "\<lambda>_. Inl (Plain ''yaml'')" "\<lambda>_ _. Inl (Plain ''x'')" None lab_shop]
  show ?thesis
    by (simp add: execute_def drill_inputs_def fail_claimed_def on_db_def thenM_def bindM_def modify_def lab_id
        split: prod.splits)
qed

end
