(* ===== verification/Queue_Refinement.thy ===== *)
theory Queue_Refinement
  imports Queue_Safety
begin

text \<open>
  What the queue is, seen from outside: every run is waiting, running without a lease, taken by one
  worker, or over. The transactions of the store refine that machine.
\<close>

section \<open>The life of a run\<close>

datatype life = Waiting | Unleased | Taken string | Over

definition life_of :: "run_row \<Rightarrow> life" where
  "life_of r =
     (if settled r then Over
      else case rr_lease_owner r of
             Some owner \<Rightarrow> Taken owner
           | None \<Rightarrow> if rr_state r = RunQueued then Waiting else Unleased)"

text \<open>What may come after what, in any number of steps. The end is the end, a taken run stays with
  its worker until then.\<close>

fun may_become :: "life \<Rightarrow> life \<Rightarrow> bool" where
  "may_become Over y = (y = Over)"
| "may_become (Taken owner) y = (y = Taken owner \<or> y = Over)"
| "may_become _ y = True"

type_synonym lives = "string \<rightharpoonup> life"

definition abs_queue :: "db \<Rightarrow> lives" where
  "abs_queue s = (\<lambda>i. map_option life_of (row_with rr_id i (db_runs s)))"

text \<open>The specification's steps.\<close>

definition lives_on :: "lives \<Rightarrow> lives \<Rightarrow> bool" where
  "lives_on m m' \<longleftrightarrow> (\<forall>i. case m i of None \<Rightarrow> True | Some x \<Rightarrow>
     (case m' i of None \<Rightarrow> False | Some y \<Rightarrow> may_become x y))"

definition spec_enqueue :: "string \<Rightarrow> lives \<Rightarrow> lives option" where
  "spec_enqueue i m = (if m i = None then Some (m(i \<mapsto> Waiting)) else None)"

definition spec_take :: "string \<Rightarrow> string \<Rightarrow> lives \<Rightarrow> lives option" where
  "spec_take i owner m = (if m i = Some Waiting then Some (m(i \<mapsto> Taken owner)) else None)"

definition spec_end :: "string \<Rightarrow> lives \<Rightarrow> lives" where
  "spec_end i m = (case m i of None \<Rightarrow> m | Some _ \<Rightarrow> m(i \<mapsto> Over))"


section \<open>The transactions refine it\<close>

definition row_lives :: "run_row \<Rightarrow> run_row \<Rightarrow> bool" where
  "row_lives r r' \<longleftrightarrow> may_become (life_of r) (life_of r')"

lemma may_become_refl [simp]: "may_become x x" by (cases x) simp_all

lemma may_become_trans: "may_become x y \<Longrightarrow> may_become y z \<Longrightarrow> may_become x z"
  by (cases x; cases y) auto

lemma may_become_Over [simp]: "may_become x Over" by (cases x) simp_all

lemma life_of_same:
  "rr_state r' = rr_state r \<Longrightarrow> rr_lease_owner r' = rr_lease_owner r \<Longrightarrow> life_of r' = life_of r"
  by (simp add: life_of_def settled_def)

lemma life_of_open: "\<not> settled r \<Longrightarrow> may_become (life_of r) (life_of (r\<lparr>rr_state := st\<rparr>))"
  by (auto simp: life_of_def settled_def split: option.split)

text \<open>The outcomes \<open>UpdateRun\<close> may write here: final ones.\<close>

definition final_outcome :: "recovery_run \<Rightarrow> bool" where
  "final_outcome run \<longleftrightarrow> terminal (run_state run)"

lemma updated_over: "final_outcome run \<Longrightarrow> life_of (updated_row run r) = Over"
  by (cases "run_state run") (simp_all add: final_outcome_def life_of_def settled_def terminal_states_def updated_row_def)

interpretation lives: full_history row_lives final_outcome
proof
  show "row_lives r r" for r by (simp add: row_lives_def)
  show "row_lives a b \<Longrightarrow> row_lives b c \<Longrightarrow> row_lives a c" for a b c
    unfolding row_lives_def by (rule may_become_trans)
  show "\<not> settled r \<Longrightarrow> row_lives r (r\<lparr>rr_state := st\<rparr>)" for r st
    unfolding row_lives_def by (rule life_of_open)
  show "row_lives r (cancel_row at_time r)" if "cancellable i r" for i r at_time
    by (simp add: row_lives_def life_of_def cancel_row_def settled_def terminal_states_def)
  show "row_lives r (r\<lparr>rr_lease_owner := Some owner, rr_lease_expires_at := Some until\<rparr>)"
    if "rr_lease_owner r = None" for r owner until
    using that by (simp add: row_lives_def life_of_def settled_def)
  show "row_lives r (updated_row run r)" if "final_outcome run" for run r
    using updated_over [OF that] by (simp add: row_lives_def)
qed (simp_all add: row_lives_def life_of_def settled_def)

lemma history_lives: "history row_lives s t \<Longrightarrow> lives_on (abs_queue s) (abs_queue t)"
  unfolding lives_on_def abs_queue_def
  using history_row by (fastforce simp: row_lives_def split: option.split)

lemma abs_update:
  assumes "\<And>r. rr_id (f r) = rr_id r"
  shows "abs_queue (map_runs (update_where (\<lambda>r. rr_id r = i) f) s) =
    (case row_with rr_id i (db_runs s) of None \<Rightarrow> abs_queue s | Some r \<Rightarrow> (abs_queue s)(i \<mapsto> life_of (f r)))"
proof
  fix j
  have "row_with rr_id j (update_where (\<lambda>r. rr_id r = i) f (db_runs s)) =
      map_option (\<lambda>r. if rr_id r = i then f r else r) (row_with rr_id j (db_runs s))"
    by (rule row_with_update) (rule assms)
  then show "abs_queue (map_runs (update_where (\<lambda>r. rr_id r = i) f) s) j =
      (case row_with rr_id i (db_runs s) of None \<Rightarrow> abs_queue s | Some r \<Rightarrow> (abs_queue s)(i \<mapsto> life_of (f r))) j"
    using row_with_Some [of rr_id j "db_runs s"]
    by (cases "row_with rr_id j (db_runs s)") (auto simp: abs_queue_def split: option.splits)
qed

lemma claim_refines:
  assumes "unique_runs s" "claim_run d owner lease now_time s = (Inr q, t)"
  shows "spec_take (qr_id q) owner (abs_queue s) = Some (abs_queue t)"
proof -
  obtain r where r: "row_with rr_id (qr_id q) (db_runs s) = Some r" "claimable r"
    using claim_run_row [OF assms] by auto
  have t: "t = map_runs (update_where (\<lambda>r'. rr_id r' = qr_id q)
         (\<lambda>r. r\<lparr>rr_lease_owner := Some owner, rr_lease_expires_at := Some (now_time + lease)\<rparr>)) s"
    using assms(2) by (auto simp: claim_run_eq [OF assms(1)] scan_queued_run_def split: option.splits)
  have "life_of r = Waiting"
    using r(2) claimable_not_settled [OF r(2)] by (simp add: life_of_def claimable_def)
  moreover have "life_of (r\<lparr>rr_lease_owner := Some owner, rr_lease_expires_at := x\<rparr>) = Taken owner" for x
    using claimable_not_settled [OF r(2)] by (simp add: life_of_def settled_def)
  ultimately show ?thesis
    by (simp add: spec_take_def t abs_update r(1)) (simp add: abs_queue_def r(1))
qed

lemma enqueue_refines:
  assumes "enqueue ce run yaml at_time s = (Inr (), t)"
  shows "spec_enqueue (run_id run) (abs_queue s) = Some (abs_queue t)"
proof -
  let ?row = "queued_row run yaml at_time"
  have row: "rr_id ?row = run_id run" "life_of ?row = Waiting"
    by (simp_all add: queued_row_def life_of_def settled_def terminal_states_def)
  have t: "\<not> run_refused s (run_id run) (rr_plan_id ?row)" "t = map_runs (\<lambda>rs. rs @ [?row]) s"
    using assms row(1) by (auto simp: enqueue_def insert_run_def split: if_splits)
  have "row_with rr_id (run_id run) (db_runs s) = None"
    using t(1) by (simp add: row_with_None run_refused_def)
  moreover have "row_with rr_id j [?row] = (if j = run_id run then Some ?row else None)" for j
    by (simp add: row_with_def row(1))
  ultimately show ?thesis
    by (auto simp: spec_enqueue_def abs_queue_def t(2) row_with_append row(2) split: option.split)
qed

lemma update_refines:
  assumes "terminal (run_state run)"
  shows "abs_queue (update_run run s) = spec_end (run_id run) (abs_queue s)"
proof -
  have ended: "life_of (updated_row run r) = Over" for r
    using assms by (intro updated_over) (simp add: final_outcome_def)
  have key: "rr_id (updated_row run r) = rr_id r" for r by (simp add: updated_row_def)
  show ?thesis
    unfolding update_run_def abs_update [OF key] by (simp add: spec_end_def abs_queue_def ended split: option.split)
qed

text \<open>A decided slot queues at most its run; a deleted plan changes no run's life.\<close>

lemma abs_insert_slot: "abs_queue (snd (insert_slot ce row s)) = abs_queue s"
  by (simp add: abs_queue_def insert_slot_def split: option.split)

lemma claim_slot_refines:
  "case claim_slot ce sl queued yaml s of
     (Inl _, s') \<Rightarrow> s' = s
   | (Inr _, s') \<Rightarrow> (case (so_outcome sl, queued) of
        (SlotQueued, Some run) \<Rightarrow> spec_enqueue (run_id run) (abs_queue s) = Some (abs_queue s')
      | (SlotQueued, None) \<Rightarrow> False
      | (SlotSkipped, _) \<Rightarrow> abs_queue s' = abs_queue s)"
proof (cases "claim_slot ce sl queued yaml s")
  case (Pair x s')
  show ?thesis
  proof (cases x)
    case (Inl e)
    then show ?thesis using Pair by (auto simp: claim_slot_def split: if_splits prod.splits sum.splits)
  next
    case (Inr u)
    obtain s1 where s1: "queue_slot_run ce sl queued yaml s = (Inr (), s1)" "\<not> (so_outcome sl = SlotQueued \<and> queued = None)"
      and s': "s' = snd (insert_slot ce (slot_row_of sl) s1)"
      using Pair Inr by (auto simp: claim_slot_def split: if_splits prod.splits sum.splits)
    have same: "abs_queue s' = abs_queue s1" by (simp add: s' abs_insert_slot)
    show ?thesis
      using s1 enqueue_refines [of ce _ yaml "so_decided_at sl" s s1]
      by (auto simp: Pair Inr same queue_slot_run_def split: slot_outcome.splits option.splits)
  qed
qed

lemma delete_plan_refines: "abs_queue (snd (delete_plan d ref s)) = abs_queue s"
proof -
  have "life_of (r\<lparr>rr_plan_id := None\<rparr>) = life_of r" for r by (simp add: life_of_def settled_def)
  then have "abs_queue (forget_plan i s) = abs_queue s" for i
    by (auto simp: abs_queue_def forget_plan_def row_with_update option.map_comp comp_def if_distrib cong: if_cong)
  then show ?thesis by (simp add: delete_plan_def split: sum.split)
qed

text \<open>C20. The store's queue refines the life cycle of a run. Through any transactions of the store whose
  recorded outcomes are final, no run vanishes, a run that is over stays over, and a run a worker took
  stays that worker's until it is over. Queueing adds a waiting run under a fresh id, whether the API
  enqueues it or the scheduler queues it with the slot it decided; a claim is exactly one waiting run
  becoming its worker's; recording a final outcome is exactly that run ending; deleting a plan
  changes the life of none.\<close>

theorem queue_refines_life_cycle:
  assumes "unique_runs s" "reaches final_outcome s t" "terminal (run_state ended)"
  shows "lives_on (abs_queue s) (abs_queue t) \<and>
    (case enqueue ce run yaml at_time s of (Inl _, s') \<Rightarrow> s' = s
      | (Inr _, s') \<Rightarrow> spec_enqueue (run_id run) (abs_queue s) = Some (abs_queue s')) \<and>
    (case claim_slot ce sl queued yaml s of
       (Inl _, s') \<Rightarrow> s' = s
     | (Inr _, s') \<Rightarrow> (case (so_outcome sl, queued) of
          (SlotQueued, Some run) \<Rightarrow> spec_enqueue (run_id run) (abs_queue s) = Some (abs_queue s')
        | (SlotQueued, None) \<Rightarrow> False
        | (SlotSkipped, _) \<Rightarrow> abs_queue s' = abs_queue s)) \<and>
    (case claim_run d owner lease now_time s of (Inl _, s') \<Rightarrow> s' = s
      | (Inr q, s') \<Rightarrow> spec_take (qr_id q) owner (abs_queue s) = Some (abs_queue s')) \<and>
    abs_queue (update_run ended s) = spec_end (run_id ended) (abs_queue s) \<and>
    abs_queue (snd (delete_plan d ref s)) = abs_queue s"
proof (intro conjI)
  show "lives_on (abs_queue s) (abs_queue t)" by (rule history_lives [OF lives.history_steps [OF assms(2)]])
  show "case enqueue ce run yaml at_time s of (Inl _, s') \<Rightarrow> s' = s
      | (Inr _, s') \<Rightarrow> spec_enqueue (run_id run) (abs_queue s) = Some (abs_queue s')"
    using enqueue_refines [of ce run yaml at_time s]
    by (auto simp: enqueue_def insert_run_def split: prod.splits sum.splits if_splits)
  show "case claim_run d owner lease now_time s of (Inl _, s') \<Rightarrow> s' = s
      | (Inr q, s') \<Rightarrow> spec_take (qr_id q) owner (abs_queue s) = Some (abs_queue s')"
    using claim_refines [OF assms(1), of d owner lease now_time]
    by (auto simp: claim_run_eq [OF assms(1)] split: option.split)
  show "abs_queue (update_run ended s) = spec_end (run_id ended) (abs_queue s)"
    by (rule update_refines [OF assms(3)])
qed (rule claim_slot_refines, rule delete_plan_refines)

text \<open>The one drill of the lab is claimed and its failure recorded.\<close>

theorem queue_refines_life_cycle_witness:
  "lives_on (abs_queue lab_db) (abs_queue (update_run (lab_run\<lparr>run_state := RunFailed\<rparr>) lab_claimed)) \<and>
   abs_queue (update_run (lab_run\<lparr>run_state := RunSuccess\<rparr>) lab_db) = spec_end ''r1'' (abs_queue lab_db)"
proof -
  have "store_step final_outcome lab_db lab_claimed"
    using store_step.claimed [of final_outcome lab_db DialectSQLite "''w1''" 10 7] by (simp add: lab_claim)
  moreover have "store_step final_outcome lab_claimed (update_run (lab_run\<lparr>run_state := RunFailed\<rparr>) lab_claimed)"
    by (rule store_step.updated) (simp add: final_outcome_def)
  ultimately have step: "reaches final_outcome lab_db (update_run (lab_run\<lparr>run_state := RunFailed\<rparr>) lab_claimed)"
    using reaches_refl reaches_step by blast
  have ended: "terminal (run_state (lab_run\<lparr>run_state := RunSuccess\<rparr>))" by simp
  show ?thesis using queue_refines_life_cycle [OF unique_lab_db step ended] by (simp add: lab_run_def)
qed

end
