(* ===== verification/Scheduler.thy ===== *)
theory Scheduler
  imports History Plans Plan
begin

text \<open>
  internal/trigger, which turns a plan into a drill ready to be queued, and internal/scheduler, which
  decides what is due and queues it: deciding one plan's next slot (slots.go), and a pass over the
  catalogue (scheduler.go). The clock, the ids, the YAML codec, the cron parser and the zone database
  are parameters; so is what the driver of the database answers when it fails.
\<close>

section \<open>Preparing a drill\<close>

datatype trigger_error = AlreadyRunning string string | TriggerFailed goerr

definition trigger_error_text :: "trigger_error \<Rightarrow> string" where
  "trigger_error_text e = (case e of
      AlreadyRunning wid rid \<Rightarrow> ''run '' @ rid @ '' is queued or running for workload '' @ wid
    | TriggerFailed e \<Rightarrow> err_text e)"

record trigger_request =
  tq_plan :: "plan option"
  tq_stored :: "stored_plan option"
  tq_default_provider :: string
  tq_id :: string
  tq_at :: time

definition drill_row :: "trigger_request \<Rightarrow> plan \<Rightarrow> recovery_run" where
  "drill_row req p =
     \<lparr>run_id = tq_id req, run_plan_name = pl_name p,
      run_plan_id = (case tq_stored req of None \<Rightarrow> '''' | Some sp \<Rightarrow> sp_id sp),
      run_plan_version = (case tq_stored req of None \<Rightarrow> 0 | Some sp \<Rightarrow> sp_version sp),
      run_provider_id = (if wr_provider (pl_workload p) = '''' then tq_default_provider req
                         else wr_provider (pl_workload p)),
      run_backup_provider_id = '''', run_source_workload_id = wr_id (pl_workload p),
      run_source_name = '''', run_temp_workload_id = '''', run_temp_name = '''', run_node = '''',
      run_backup = None, run_state = RunQueued, run_result = ResultNone, run_proof_level = ProofUnknown,
      run_started_at = zero_time, run_completed_at = zero_time, run_steps = [], run_checks = [],
      run_rto = 0, run_rto_target = pl_rto_target p, run_cleanup_done = False, run_err = ''''\<rparr>"

text \<open>
  \<open>Prepare\<close>: \<open>active\<close> is what the store answered for the workload, \<open>marshal\<close> the YAML encoder.
\<close>

definition prepare_drill ::
  "(plan \<Rightarrow> goerr + string) \<Rightarrow> (string \<Rightarrow> goerr + string) \<Rightarrow> trigger_request \<Rightarrow> trigger_error + recovery_run \<times> string" where
  "prepare_drill marshal active req =
     (case tq_plan req of
        None \<Rightarrow> Inl (TriggerFailed (Plain ''trigger: a request needs a plan''))
      | Some p \<Rightarrow>
          (case active (wr_id (pl_workload p)) of
             Inl e \<Rightarrow> Inl (TriggerFailed e)
           | Inr rid \<Rightarrow>
               if rid \<noteq> '''' then Inl (AlreadyRunning (wr_id (pl_workload p)) rid)
               else (case marshal p of
                       Inl e \<Rightarrow> Inl (TriggerFailed e)
                     | Inr yaml \<Rightarrow> Inr (drill_row req p, yaml))))"

text \<open>\<open>Enqueue\<close>: what an HTTP request does.\<close>

definition enqueue_drill ::
  "(plan \<Rightarrow> goerr + string) \<Rightarrow> goerr \<Rightarrow> trigger_request \<Rightarrow> db \<Rightarrow> (trigger_error + recovery_run) \<times> db" where
  "enqueue_drill marshal ce req s =
     (case prepare_drill marshal (\<lambda>wid. Inr (active_run_for_workload wid s)) req of
        Inl e \<Rightarrow> (Inl e, s)
      | Inr (run, yaml) \<Rightarrow>
          (case enqueue ce run yaml (tq_at req) s of
             (Inl e, s') \<Rightarrow> (Inl (TriggerFailed e), s')
           | (Inr _, s') \<Rightarrow> (Inr run, s')))"


section \<open>Deciding a slot\<close>

text \<open>
  The schedule is its \<open>Next\<close> and what reads the date and the time of an instant, to the
  minute, in its zone (which \<open>ParseSchedule\<close> never leaves empty).
\<close>

record decision =
  de_slot_at :: time
  de_skip :: bool
  de_reason :: string

definition max_collapse :: nat where "max_collapse = 10000"

text \<open>The loop: step to the next slot while it is due, at most \<open>max_collapse\<close> times.\<close>

primrec collapse :: "(time \<Rightarrow> time) \<Rightarrow> time \<Rightarrow> nat \<Rightarrow> time \<Rightarrow> nat \<Rightarrow> time \<times> nat" where
  "collapse nxt now_time 0 s missed = (s, missed)"
| "collapse nxt now_time (Suc k) s missed =
     (if now_time < nxt s then (s, missed) else collapse nxt now_time k (nxt s) (Suc missed))"

definition same_wall_clock :: "(time \<Rightarrow> 'm) \<Rightarrow> time \<Rightarrow> time \<Rightarrow> bool" where
  "same_wall_clock wall a b \<longleftrightarrow> wall a = wall b"

definition late_reason :: "duration \<Rightarrow> duration \<Rightarrow> nat \<Rightarrow> string" where
  "late_reason late grace missed =
     ''the slot was '' @ dur_string (dur_round late minute) @ '' late, past the '' @ dur_string grace @
     '' grace period: a drill that starts outside its window is an incident, not a test'' @
     (if missed > 0 then '' ('' @ itoa (int missed) @ '' earlier slot(s) went by with it)'' else '''')"

definition resume_after :: "slot option \<Rightarrow> time \<Rightarrow> time" where
  "resume_after prev started = (case prev of None \<Rightarrow> started | Some l \<Rightarrow> so_slot_at l)"

text \<open>The first slot to consider: a wall clock that the autumn change repeats counts once.\<close>

definition first_slot :: "(time \<Rightarrow> time) \<Rightarrow> (time \<Rightarrow> 'm) \<Rightarrow> slot option \<Rightarrow> time \<Rightarrow> time" where
  "first_slot nxt wall prev started =
     (let s = nxt (resume_after prev started)
      in case prev of
           None \<Rightarrow> s
         | Some l \<Rightarrow> if same_wall_clock wall s (so_slot_at l) then nxt s else s)"

definition decide ::
  "((time \<Rightarrow> time) \<times> (time \<Rightarrow> 'm)) option \<Rightarrow> slot option \<Rightarrow> time \<Rightarrow> time \<Rightarrow> duration \<Rightarrow> decision option" where
  "decide sched prev started now_time grace =
     (case sched of
        None \<Rightarrow> None
      | Some (nxt, wall) \<Rightarrow>
          (let s = first_slot nxt wall prev started in
           if now_time < s then None
           else
             (case collapse nxt now_time max_collapse s 0 of
                (s, missed) \<Rightarrow>
                  (let late = time_sub now_time s in
                   if grace < late
                   then Some \<lparr>de_slot_at = s, de_skip = True, de_reason = late_reason late grace missed\<rparr>
                   else Some \<lparr>de_slot_at = s, de_skip = False, de_reason = ''''\<rparr>))))"


section \<open>A pass over the catalogue\<close>

text \<open>
  What a pass finds outside: the parsers and codecs, the time it is when a plan is considered and
  when its decision is written, the id of its run, and the errors of the driver, if any, for each
  operation of the store and plan.
\<close>

record ('c, 'l, 'm) tick_env =
  te_sched :: "('c, 'l) sched_env"
  te_wall :: "'l \<Rightarrow> time \<Rightarrow> 'm"
  te_decode :: "string \<Rightarrow> goerr + plan"
  te_show :: "f64 \<Rightarrow> string"
  te_marshal :: "plan \<Rightarrow> goerr + string"
  te_constraint :: goerr
  te_now :: "string \<Rightarrow> time"
  te_decided :: "string \<Rightarrow> time"
  te_id :: "string \<Rightarrow> string"
  te_stopped :: "string \<Rightarrow> bool"
  te_plans_fault :: "goerr option"
  te_runs_fault :: "goerr option"
  te_slot_fault :: "string \<Rightarrow> goerr option"
  te_active_fault :: "string \<Rightarrow> goerr option"
  te_claim_fault :: "string \<Rightarrow> goerr option"

record scheduler_options =
  sx_grace :: duration
  sx_max_queue_depth :: int
  sx_started_at :: time

definition default_grace_period :: duration where "default_grace_period = 2 * hour"
definition default_max_queue_depth :: int where "default_max_queue_depth = 5"

text \<open>\<open>New\<close>: an option that is not positive is the configured one, then the default.\<close>

definition new_scheduler :: "duration \<Rightarrow> int \<Rightarrow> (duration \<times> int) option \<Rightarrow> time \<Rightarrow> scheduler_options" where
  "new_scheduler grace depth cfg now_time =
     \<lparr>sx_grace = (if grace > 0 then grace else
        (case cfg of Some (g, m) \<Rightarrow> if g > 0 then g else default_grace_period | None \<Rightarrow> default_grace_period)),
      sx_max_queue_depth = (if depth > 0 then depth else
        (case cfg of Some (g, m) \<Rightarrow> if m > 0 then m else default_max_queue_depth | None \<Rightarrow> default_max_queue_depth)),
      sx_started_at = now_time\<rparr>"

record scheduler_state =
  sd_db :: db
  sd_complained :: "string \<Rightarrow> int"

text \<open>\<open>plan.Parse\<close> on the stored text.\<close>

definition parse_stored :: "('c, 'l, 'm) tick_env \<Rightarrow> string \<Rightarrow> goerr + plan" where
  "parse_stored env yaml =
     (case te_decode env yaml of
        Inl e \<Rightarrow> Inl (Wrapped (''parse plan: '' @ err_text e) e)
      | Inr p \<Rightarrow>
          (case parse_plan (te_sched env) p of
             Inl ps \<Rightarrow> Inl (invalid_plan (te_show env) ps)
           | Inr p \<Rightarrow> Inr p))"

definition claim_decision ::
  "('c, 'l, 'm) tick_env \<Rightarrow> stored_plan \<Rightarrow> time \<Rightarrow> bool \<Rightarrow> string \<Rightarrow> recovery_run option \<Rightarrow> string \<Rightarrow> db \<Rightarrow> bool \<times> db" where
  "claim_decision env row slot_at skip reason run yaml s =
     (case te_claim_fault env (sp_id row) of
        Some e \<Rightarrow> (False, s)
      | None \<Rightarrow>
          (case claim_slot (te_constraint env)
                  \<lparr>so_plan_id = sp_id row, so_slot_at = slot_at, so_decided_at = te_decided env (sp_id row),
                   so_outcome = (if skip then SlotSkipped else SlotQueued), so_reason = reason,
                   so_run_id = (if skip then '''' else case run of None \<Rightarrow> '''' | Some r \<Rightarrow> run_id r)\<rparr>
                  run yaml s of
             (Inl e, s') \<Rightarrow> (False, s')
           | (Inr _, s') \<Rightarrow> (\<not> skip, s')))"

definition invalid_plan_reason :: "goerr \<Rightarrow> string" where
  "invalid_plan_reason e = ''the stored plan is no longer valid and could not be drilled: '' @ err_text e"

definition busy_reason :: "trigger_error \<Rightarrow> string" where
  "busy_reason e = ''a drill was already in flight for this workload: '' @ trigger_error_text e"

definition due_schedule ::
  "('c, 'l, 'm) tick_env \<Rightarrow> ('c, 'l) schedule option \<Rightarrow> ((time \<Rightarrow> time) \<times> (time \<Rightarrow> 'm)) option" where
  "due_schedule env sched =
     map_option (\<lambda>sc. (schedule_next (te_sched env) sc, te_wall env (sc_location sc))) sched"

definition drill_request :: "('c, 'l, 'm) tick_env \<Rightarrow> stored_plan \<Rightarrow> plan \<Rightarrow> trigger_request" where
  "drill_request env row p =
     \<lparr>tq_plan = Some p, tq_stored = Some row, tq_default_provider = sp_provider_id row,
      tq_id = te_id env (sp_id row), tq_at = te_now env (sp_id row)\<rparr>"

text \<open>What becomes of a decision: a slot skipped, or a drill prepared and queued with its slot.\<close>

definition carry_out ::
  "('c, 'l, 'm) tick_env \<Rightarrow> stored_plan \<Rightarrow> plan \<Rightarrow> decision \<Rightarrow> db \<Rightarrow> bool \<times> db" where
  "carry_out env row p d s =
     (if de_skip d then claim_decision env row (de_slot_at d) True (de_reason d) None '''' s
      else
        (case prepare_drill (te_marshal env)
                (\<lambda>wid. case te_active_fault env (sp_id row) of
                         Some e \<Rightarrow> Inl e | None \<Rightarrow> Inr (active_run_for_workload wid s))
                (drill_request env row p) of
           Inl (AlreadyRunning wid rid) \<Rightarrow>
             claim_decision env row (de_slot_at d) True (busy_reason (AlreadyRunning wid rid)) None '''' s
         | Inl (TriggerFailed e) \<Rightarrow> (False, s)
         | Inr (run, yaml) \<Rightarrow> claim_decision env row (de_slot_at d) False '''' (Some run) yaml s))"

definition consider_plan ::
  "('c, 'l, 'm) tick_env \<Rightarrow> scheduler_options \<Rightarrow> stored_plan \<Rightarrow> scheduler_state \<Rightarrow> bool \<times> scheduler_state" where
  "consider_plan env opts row st =
     (case parse_stored env (sp_yaml row) of
        Inl e \<Rightarrow>
          (False, st\<lparr>sd_db := snd (claim_decision env row (te_now env (sp_id row)) True
             (invalid_plan_reason e) None '''' (sd_db st))\<rparr>)
      | Inr p \<Rightarrow>
          (case parse_schedule (te_sched env) (pl_schedule p) (pl_schedule_timezone p) of
             Inl e \<Rightarrow>
               (False, if sd_complained st (sp_id row) \<noteq> sp_version row
                       then st\<lparr>sd_complained := (sd_complained st)(sp_id row := sp_version row)\<rparr> else st)
           | Inr sched \<Rightarrow>
               (case te_slot_fault env (sp_id row) of
                  Some e \<Rightarrow> (False, st)
                | None \<Rightarrow>
                    (case decide (due_schedule env sched)
                            (case last_slot (sp_id row) (sd_db st) of Inl _ \<Rightarrow> None | Inr l \<Rightarrow> Some l)
                            (sx_started_at opts) (te_now env (sp_id row)) (sx_grace opts) of
                       None \<Rightarrow> (False, st)
                     | Some d \<Rightarrow>
                         (case carry_out env row p d (sd_db st) of (q, s) \<Rightarrow> (q, st\<lparr>sd_db := s\<rparr>))))))"

primrec tick_plans ::
  "('c, 'l, 'm) tick_env \<Rightarrow> scheduler_options \<Rightarrow> stored_plan list \<Rightarrow> int \<Rightarrow> scheduler_state \<Rightarrow> scheduler_state" where
  "tick_plans env opts [] depth st = st"
| "tick_plans env opts (row # rows) depth st =
     (if te_stopped env (sp_id row) then st
      else if depth \<ge> sx_max_queue_depth opts then st
      else (case consider_plan env opts row st of
              (queued, st') \<Rightarrow> tick_plans env opts rows (if queued then depth + 1 else depth) st'))"

definition not_terminal_filter :: run_filter where
  "not_terminal_filter =
     \<lparr>fi_workload_id = '''', fi_state = RunNoState, fi_result = ResultNone, fi_since = zero_time,
      fi_limit = 0, fi_after = None, fi_not_terminal = True\<rparr>"

definition queue_depth :: "db \<Rightarrow> int" where
  "queue_depth s = int (length (list_runs not_terminal_filter s))"

definition tick :: "('c, 'l, 'm) tick_env \<Rightarrow> scheduler_options \<Rightarrow> scheduler_state \<Rightarrow> scheduler_state" where
  "tick env opts st =
     (case te_plans_fault env of
        Some e \<Rightarrow> st
      | None \<Rightarrow>
          (case te_runs_fault env of
             Some e \<Rightarrow> st
           | None \<Rightarrow> tick_plans env opts (list_plans '''' 0 (sd_db st)) (queue_depth (sd_db st)) st))"

end
