(* ===== verification/Scheduler_Safety.thy ===== *)
theory Scheduler_Safety
  imports Scheduler History_Safety Lab
begin

text \<open>
  What the scheduler promises: the slot it decides is the most recent one that is due and never one
  decided before; a pass accounts for every drill it queues with a slot of its own, queues none for a
  workload that has one, and stops at the depth it was given.
\<close>

section \<open>Deciding\<close>

lemma collapse_facts:
  assumes "\<And>t. t < nxt t" "collapse nxt now_time k s m = (s', m')" "s \<le> now_time"
  shows "\<exists>j \<le> k. s' = (nxt ^^ j) s \<and> m' = m + j \<and> s \<le> s' \<and> s' \<le> now_time \<and> (j < k \<longrightarrow> now_time < nxt s')"
  using assms(2,3)
proof (induction k arbitrary: s m)
  case (Suc k)
  show ?case
  proof (cases "now_time < nxt s")
    case True
    then show ?thesis using Suc.prems by (intro exI [of _ 0]) simp
  next
    case False
    then obtain j where "j \<le> k" "s' = (nxt ^^ j) (nxt s)" "m' = Suc m + j" "nxt s \<le> s'" "s' \<le> now_time"
      "j < k \<longrightarrow> now_time < nxt s'"
      using Suc.IH [of "nxt s" "Suc m"] Suc.prems by auto
    then show ?thesis
      using assms(1) [of s] by (intro exI [of _ "Suc j"]) (simp add: funpow_swap1)
  qed
qed simp

lemma first_slot_later:
  assumes "\<And>t. t < nxt t"
  shows "resume_after prev started < first_slot nxt wall prev started"
  using assms less_trans [OF assms assms] by (auto simp: first_slot_def Let_def split: option.split)

lemma decide_Some:
  assumes "\<And>t. t < nxt t" "decide (Some (nxt, wall)) prev started now_time grace = Some d"
    "0 < grace" "grace < max_int64"
  shows "\<exists>j \<le> max_collapse. de_slot_at d = (nxt ^^ j) (first_slot nxt wall prev started) \<and>
    resume_after prev started < de_slot_at d \<and> de_slot_at d \<le> now_time \<and>
    (j < max_collapse \<longrightarrow> now_time < nxt (de_slot_at d)) \<and>
    (de_skip d \<longleftrightarrow> grace < now_time - de_slot_at d)"
proof -
  let ?s = "first_slot nxt wall prev started"
  obtain s m where c: "collapse nxt now_time max_collapse ?s 0 = (s, m)" by fastforce
  have due: "?s \<le> now_time" and d: "de_slot_at d = s" "de_skip d \<longleftrightarrow> grace < time_sub now_time s"
    using assms(2) c by (auto simp: decide_def Let_def split: if_splits)
  obtain j where "j \<le> max_collapse" "s = (nxt ^^ j) ?s" "?s \<le> s" "s \<le> now_time" "j < max_collapse \<longrightarrow> now_time < nxt s"
    using collapse_facts [OF assms(1) c due] by blast
  moreover have "grace < time_sub now_time s \<longleftrightarrow> grace < now_time - s"
    using assms(3,4) by (intro time_sub_gt) (simp_all add: min_int64_def)
  ultimately show ?thesis
    using d first_slot_later [OF assms(1), of prev started wall] by (intro exI [of _ j]) simp
qed

lemma decide_None:
  "decide (Some (nxt, wall)) prev started now_time grace = None \<longleftrightarrow> now_time < first_slot nxt wall prev started"
  by (simp add: decide_def Let_def split: prod.split)

text \<open>C22. What is decided for a plan, when every slot of its cron comes after the instant it is asked
  for. Nothing is decided exactly while the first slot after the last one decided (or after the start
  of the scheduler, for a plan with no history) is still to come; the hour that the autumn change
  repeats is passed over. Otherwise the slot decided is one of the cron's, later than the last one
  decided, due, and the most recent such slot unless ten thousand were stepped over; it is skipped
  exactly when it is later than the grace period allows.
\<close>

theorem decide_is_latest_due:
  assumes "\<And>t. t < nxt t" "0 < grace" "grace < max_int64"
  shows "case decide (Some (nxt, wall)) prev started now_time grace of
      None \<Rightarrow> now_time < first_slot nxt wall prev started
    | Some d \<Rightarrow> (\<exists>j \<le> max_collapse. de_slot_at d = (nxt ^^ j) (first_slot nxt wall prev started) \<and>
        resume_after prev started < de_slot_at d \<and> de_slot_at d \<le> now_time \<and>
        (j < max_collapse \<longrightarrow> now_time < nxt (de_slot_at d)) \<and>
        (de_skip d \<longleftrightarrow> grace < now_time - de_slot_at d))"
  using decide_Some [OF assms(1) _ assms(2,3), of wall prev started now_time] decide_None [of nxt wall prev started now_time grace]
  by (cases "decide (Some (nxt, wall)) prev started now_time grace") simp_all


section \<open>One plan\<close>

definition idle :: "string \<Rightarrow> db \<Rightarrow> bool" where
  "idle wid s \<longleftrightarrow> list_all (\<lambda>r. rr_source_workload_id r = wid \<longrightarrow> settled r) (db_runs s)"

definition named_runs :: "db \<Rightarrow> bool" where
  "named_runs s \<longleftrightarrow> '''' \<notin> rr_id ` set (db_runs s)"

lemma active_idle:
  assumes "named_runs s" "active_run_for_workload wid s = ''''"
  shows "idle wid s"
proof (cases "order_by (\<lambda>a b. rr_started_at a \<le> rr_started_at b)
    (filter (\<lambda>r. rr_source_workload_id r = wid \<and> \<not> settled r) (db_runs s))")
  case Nil
  then show ?thesis by (auto simp: idle_def list_all_iff filter_empty_conv)
next
  case (Cons r rs)
  then have "r \<in> set (order_by (\<lambda>a b. rr_started_at a \<le> rr_started_at b)
    (filter (\<lambda>r. rr_source_workload_id r = wid \<and> \<not> settled r) (db_runs s)))" by simp
  then have "r \<in> set (db_runs s)" by simp
  moreover have "rr_id r = ''''" using Cons assms(2) by (simp add: active_run_for_workload_def)
  ultimately show ?thesis using assms(1) by (force simp: named_runs_def)
qed

text \<open>
  What considering a plan may do to the database: nothing; record one slot as skipped; or record one
  slot and the drill it queued, for a workload that had none.
\<close>

definition records_slot :: "string \<Rightarrow> slot_row \<Rightarrow> db \<Rightarrow> db \<Rightarrow> bool" where
  "records_slot pid n s s' \<longleftrightarrow> sl_plan_id n = pid \<and> slot_key n \<notin> slot_key ` set (db_slots s) \<and>
     db_slots s' = db_slots s @ [n] \<and> db_plans s' = db_plans s"

definition skips :: "slot_row \<Rightarrow> db \<Rightarrow> db \<Rightarrow> bool" where
  "skips n s s' \<longleftrightarrow> sl_outcome n = SlotSkipped \<and> db_runs s' = db_runs s"

definition queues :: "string \<Rightarrow> slot_row \<Rightarrow> run_row \<Rightarrow> db \<Rightarrow> db \<Rightarrow> bool" where
  "queues pid n r s s' \<longleftrightarrow> sl_outcome n = SlotQueued \<and> sl_run_id n = Some (rr_id r) \<and>
     db_runs s' = db_runs s @ [r] \<and> claimable r \<and> rr_plan_id r = null_string pid \<and> rr_id r \<noteq> '''' \<and>
     rr_id r \<notin> rr_id ` set (db_runs s) \<and> idle (rr_source_workload_id r) s"

definition decided :: "string \<Rightarrow> (time \<Rightarrow> bool) \<Rightarrow> bool \<Rightarrow> db \<Rightarrow> db \<Rightarrow> bool" where
  "decided pid P q s s' \<longleftrightarrow> s' = s \<and> \<not> q \<or>
     (\<exists>n. records_slot pid n s s' \<and> P (sl_slot_at n) \<and>
       (if q then \<exists>r. queues pid n r s s' else skips n s s'))"

lemma decided_same [simp]: "decided pid P False s s" by (simp add: decided_def)

lemma claim_slot_plans: "claim_slot ce sl run yaml s = (x, t) \<Longrightarrow> db_plans t = db_plans s"
  by (auto simp: claim_slot_def queue_slot_run_def enqueue_def insert_run_def insert_slot_def map_runs_def
      split: if_splits prod.splits sum.splits slot_outcome.splits option.splits)

lemma claim_slot_err: "claim_slot ce sl run yaml s = (Inl e, t) \<Longrightarrow> t = s"
  by (auto simp: claim_slot_def split: if_splits prod.splits sum.splits)

lemma claim_slot_new_run:
  "claim_slot ce sl (Some run) yaml s = (Inr u, t) \<Longrightarrow> so_outcome sl = SlotQueued \<Longrightarrow> run_id run \<notin> rr_id ` set (db_runs s)"
  by (auto simp: claim_slot_def queue_slot_run_def enqueue_def insert_run_def run_refused_def queued_row_def
      split: if_splits prod.splits sum.splits)

lemma insert_slot_new:
  "insert_slot ce row s = (Inr 1, t) \<Longrightarrow>
   slot_key row \<notin> slot_key ` set (db_slots s) \<and> db_slots t = db_slots s @ [row] \<and> db_runs t = db_runs s"
  by (auto simp: insert_slot_def split: if_splits)

lemma claim_skip:
  assumes "P at_time"
  shows "decided (sp_id row) P (fst (claim_decision env row at_time True reason None yaml s)) s
    (snd (claim_decision env row at_time True reason None yaml s))"
proof -
  let ?sl = "\<lparr>so_plan_id = sp_id row, so_slot_at = at_time, so_decided_at = te_decided env (sp_id row),
    so_outcome = SlotSkipped, so_reason = reason, so_run_id = ''''\<rparr>"
  obtain x t where c: "claim_slot (te_constraint env) ?sl None yaml s = (x, t)" by fastforce
  show ?thesis
  proof (cases x)
    case (Inl e)
    then show ?thesis
      using c claim_slot_err [of "te_constraint env" ?sl None yaml s e t]
      by (simp add: claim_decision_def split: option.split)
  next
    case (Inr u)
    obtain s1 where s1: "insert_slot (te_constraint env) (slot_row_of ?sl) s1 = (Inr 1, t)" "db_slots s1 = db_slots s"
      "db_runs s1 = db_runs s"
      using claim_slot_Inr [OF c [unfolded Inr]] by auto
    have "records_slot (sp_id row) (slot_row_of ?sl) s t" "skips (slot_row_of ?sl) s t"
      using insert_slot_new [OF s1(1)] s1(2,3) claim_slot_plans [OF c]
      by (simp_all add: records_slot_def skips_def slot_row_of_def)
    moreover have "P (sl_slot_at (slot_row_of ?sl))" using assms by (simp add: slot_row_of_def)
    ultimately have "decided (sp_id row) P False s t" unfolding decided_def if_False by blast
    then show ?thesis using c Inr by (simp add: claim_decision_def split: option.split)
  qed
qed

lemma claim_drill:
  assumes "P at_time" "run_id run \<noteq> ''''" "run_plan_id run = sp_id row" "idle (run_source_workload_id run) s"
  shows "decided (sp_id row) P (fst (claim_decision env row at_time False reason (Some run) yaml s)) s
    (snd (claim_decision env row at_time False reason (Some run) yaml s))"
proof -
  let ?sl = "\<lparr>so_plan_id = sp_id row, so_slot_at = at_time, so_decided_at = te_decided env (sp_id row),
    so_outcome = SlotQueued, so_reason = reason, so_run_id = run_id run\<rparr>"
  let ?r = "queued_row run yaml (te_decided env (sp_id row))"
  obtain x t where c: "claim_slot (te_constraint env) ?sl (Some run) yaml s = (x, t)" by fastforce
  show ?thesis
  proof (cases x)
    case (Inl e)
    then show ?thesis
      using c claim_slot_err [of "te_constraint env" ?sl "Some run" yaml s e t]
      by (simp add: claim_decision_def split: option.split)
  next
    case (Inr u)
    obtain s1 where s1: "insert_slot (te_constraint env) (slot_row_of ?sl) s1 = (Inr 1, t)" "db_slots s1 = db_slots s"
      "db_runs s1 = db_runs s @ [?r]"
      using claim_slot_Inr [OF c [unfolded Inr]] by auto
    have "records_slot (sp_id row) (slot_row_of ?sl) s t"
      using insert_slot_new [OF s1(1)] s1(2) claim_slot_plans [OF c] by (simp add: records_slot_def slot_row_of_def)
    moreover have "queues (sp_id row) (slot_row_of ?sl) ?r s t"
      using insert_slot_new [OF s1(1)] s1(3) claim_slot_new_run [OF c [unfolded Inr]] assms
      by (simp add: queues_def slot_row_of_def queued_row_def null_string_def claimable_def)
    moreover have "P (sl_slot_at (slot_row_of ?sl))" using assms by (simp add: slot_row_of_def)
    ultimately have "decided (sp_id row) P True s t" unfolding decided_def if_True by blast
    then show ?thesis using c Inr by (simp add: claim_decision_def split: option.split)
  qed
qed

lemma prepared_facts:
  assumes "prepare_drill marshal (\<lambda>wid. case fault of Some e \<Rightarrow> Inl e | None \<Rightarrow> Inr (active_run_for_workload wid s))
      (drill_request env row p) = Inr (run, yaml)" "named_runs s"
  shows "idle (run_source_workload_id run) s \<and> run_id run = te_id env (sp_id row) \<and> run_plan_id run = sp_id row"
  using assms active_idle [of s]
  by (auto simp: prepare_drill_def drill_request_def drill_row_def split: option.splits sum.splits if_splits)

lemma carry_out_decides:
  assumes "P (de_slot_at d)" "named_runs s" "te_id env (sp_id row) \<noteq> ''''"
  shows "decided (sp_id row) P (fst (carry_out env row p d s)) s (snd (carry_out env row p d s))"
proof (cases "de_skip d")
  case True
  then show ?thesis using assms claim_skip [of P] by (simp add: carry_out_def)
next
  case False
  let ?prep = "prepare_drill (te_marshal env) (\<lambda>wid. case te_active_fault env (sp_id row) of
      Some e \<Rightarrow> Inl e | None \<Rightarrow> Inr (active_run_for_workload wid s)) (drill_request env row p)"
  show ?thesis
  proof (cases ?prep)
    case (Inl e)
    then show ?thesis
      using False assms claim_skip [of P] by (cases e) (simp_all add: carry_out_def)
  next
    case (Inr ry)
    obtain run yaml where ry: "ry = (run, yaml)" by fastforce
    note facts = prepared_facts [OF Inr [unfolded ry] assms(2)]
    have "decided (sp_id row) P (fst (claim_decision env row (de_slot_at d) False '''' (Some run) yaml s)) s
      (snd (claim_decision env row (de_slot_at d) False '''' (Some run) yaml s))"
      by (rule claim_drill) (use facts assms in simp_all)
    then show ?thesis using False Inr ry by (simp add: carry_out_def)
  qed
qed

definition slots_of :: "string \<Rightarrow> db \<Rightarrow> slot_row list" where
  "slots_of pid s = filter (\<lambda>r. sl_plan_id r = pid) (db_slots s)"

definition after_slots :: "string \<Rightarrow> db \<Rightarrow> time \<Rightarrow> bool" where
  "after_slots pid s t \<longleftrightarrow> list_all (\<lambda>r. sl_slot_at r < t) (slots_of pid s)"

interpretation latest_slot: row_order "\<lambda>a b. sl_slot_at b \<le> sl_slot_at a"
  by unfold_locales auto

lemma last_slot_after:
  assumes "case last_slot pid s of Inl _ \<Rightarrow> True | Inr l \<Rightarrow> so_slot_at l < t"
  shows "after_slots pid s t"
proof (cases "order_by (\<lambda>a b. sl_slot_at b \<le> sl_slot_at a) (slots_of pid s)")
  case Nil
  then show ?thesis by (simp add: after_slots_def)
next
  case (Cons r rs)
  then have "last_slot pid s = Inr (scan_slot r)" by (simp add: last_slot_def slots_of_def)
  then have "sl_slot_at r < t" using assms by (simp add: scan_slot_def)
  moreover have "sl_slot_at x \<le> sl_slot_at r" if "x \<in> set (slots_of pid s)" for x
    using latest_slot.hd_order_by [OF that] by (simp add: Cons)
  ultimately show ?thesis by (force simp: after_slots_def list_all_iff)
qed

text \<open>What the proofs about a pass assume of the world outside it.\<close>

definition sound_world :: "('c, 'l, 'm) tick_env \<Rightarrow> scheduler_options \<Rightarrow> bool" where
  "sound_world env opts \<longleftrightarrow> (\<forall>sc t. t < schedule_next (te_sched env) sc t) \<and> (\<forall>pid. te_id env pid \<noteq> '''') \<and>
     0 < sx_grace opts \<and> sx_grace opts < max_int64"

definition timely :: "('c, 'l, 'm) tick_env \<Rightarrow> string \<Rightarrow> db \<Rightarrow> time \<Rightarrow> bool" where
  "timely env pid s t \<longleftrightarrow> after_slots pid s t \<and> t \<le> te_now env pid"

lemma consider_decides:
  assumes "sound_world env opts" "named_runs (sd_db st)" "after_slots (sp_id row) (sd_db st) (te_now env (sp_id row))"
  shows "decided (sp_id row) (timely env (sp_id row) (sd_db st)) (fst (consider_plan env opts row st))
    (sd_db st) (sd_db (snd (consider_plan env opts row st)))"
proof (cases "parse_stored env (sp_yaml row)")
  case (Inl e)
  have now: "timely env (sp_id row) (sd_db st) (te_now env (sp_id row))" using assms(3) by (simp add: timely_def)
  have "fst (claim_decision env row (te_now env (sp_id row)) True (invalid_plan_reason e) None '''' (sd_db st)) = False"
    by (simp add: claim_decision_def split: option.split prod.split sum.split)
  then show ?thesis
    using Inl claim_skip [where P = "timely env (sp_id row) (sd_db st)" and at_time = "te_now env (sp_id row)"
        and env = env and reason = "invalid_plan_reason e" and yaml = "''''" and s = "sd_db st" and row = row] now
    by (simp add: consider_plan_def)
next
  case (Inr p)
  show ?thesis
  proof (cases "parse_schedule (te_sched env) (pl_schedule p) (pl_schedule_timezone p)")
    case (Inl e)
    then show ?thesis using Inr by (simp add: consider_plan_def)
  next
    case (Inr sched)
    let ?prev = "case last_slot (sp_id row) (sd_db st) of Inl _ \<Rightarrow> None | Inr l \<Rightarrow> Some l"
    let ?dec = "decide (due_schedule env sched) ?prev (sx_started_at opts) (te_now env (sp_id row)) (sx_grace opts)"
    note eqs = \<open>parse_stored env (sp_yaml row) = Inr p\<close> Inr
    show ?thesis
    proof (cases "te_slot_fault env (sp_id row) \<noteq> None \<or> ?dec = None")
      case True
      then show ?thesis using eqs by (auto simp: consider_plan_def split: option.split)
    next
      case False
      then obtain d where d: "?dec = Some d" by auto
      then obtain sc where sc: "sched = Some sc" by (cases sched) (simp_all add: due_schedule_def decide_def)
      have "resume_after ?prev (sx_started_at opts) < de_slot_at d \<and> de_slot_at d \<le> te_now env (sp_id row)"
        using decide_Some [of "schedule_next (te_sched env) sc", OF _ d [unfolded sc due_schedule_def option.map]] assms(1)
        by (auto simp: sound_world_def)
      then have "timely env (sp_id row) (sd_db st) (de_slot_at d)"
        unfolding timely_def
        by (intro conjI last_slot_after) (auto simp: resume_after_def split: sum.split)
      then have "decided (sp_id row) (timely env (sp_id row) (sd_db st)) (fst (carry_out env row p d (sd_db st)))
          (sd_db st) (snd (carry_out env row p d (sd_db st)))"
        by (rule carry_out_decides) (use assms in \<open>simp_all add: sound_world_def\<close>)
      moreover have "te_slot_fault env (sp_id row) = None" using False by simp
      ultimately show ?thesis using eqs d by (simp add: consider_plan_def split_beta)
    qed
  qed
qed


section \<open>A pass\<close>

lemma decided_cases:
  assumes "decided pid P q s s'"
  obtains (nothing) "s' = s" "\<not> q"
    | (skipped) n where "records_slot pid n s s'" "P (sl_slot_at n)" "skips n s s'" "\<not> q"
    | (queued) n r where "records_slot pid n s s'" "P (sl_slot_at n)" "queues pid n r s s'" "q"
  using assms by (auto simp: decided_def split: if_splits)

lemma decided_slots_of_other:
  "decided pid P q s s' \<Longrightarrow> pid' \<noteq> pid \<Longrightarrow> slots_of pid' s' = slots_of pid' s"
  by (erule decided_cases) (simp_all add: slots_of_def records_slot_def)

lemma decided_named: "decided pid P q s s' \<Longrightarrow> named_runs s \<Longrightarrow> named_runs s'"
  by (erule decided_cases) (auto simp: named_runs_def skips_def queues_def)

text \<open>
  The new slots of a pass and the drills it queued: one slot a plan at most, each timely, and the
  drills are those of the slots that say so.
\<close>

definition accounts :: "('c, 'l, 'm) tick_env \<Rightarrow> string list \<Rightarrow> db \<Rightarrow> db \<Rightarrow> slot_row list \<Rightarrow> run_row list \<Rightarrow> bool" where
  "accounts env pids s s' ns rs \<longleftrightarrow>
     db_slots s' = db_slots s @ ns \<and> db_runs s' = db_runs s @ rs \<and>
     distinct (map sl_plan_id ns) \<and> set (map sl_plan_id ns) \<subseteq> set pids \<and>
     list_all (\<lambda>n. timely env (sl_plan_id n) s (sl_slot_at n)) ns \<and>
     map sl_run_id (filter (\<lambda>n. sl_outcome n = SlotQueued) ns) = map (\<lambda>r. Some (rr_id r)) rs \<and>
     list_all claimable rs"

lemma decided_accounts:
  assumes "decided pid (timely env pid s) q s s'"
  shows "\<exists>ns rs. accounts env [pid] s s' ns rs"
  using assms
proof (cases rule: decided_cases)
  case nothing
  then show ?thesis by (intro exI [of _ "[]"]) (simp add: accounts_def)
next
  case (skipped n)
  then show ?thesis
    by (intro exI [of _ "[n]"] exI [of _ "[]"]) (simp add: accounts_def records_slot_def skips_def)
next
  case (queued n r)
  then show ?thesis
    by (intro exI [of _ "[n]"] exI [of _ "[r]"]) (simp add: accounts_def records_slot_def queues_def)
qed

lemma accounts_then:
  assumes "accounts env [pid] s s1 ns rs" "accounts env pids s1 s2 ns' rs'" "pid \<notin> set pids"
    "\<And>p. p \<in> set pids \<Longrightarrow> slots_of p s1 = slots_of p s"
  shows "accounts env (pid # pids) s s2 (ns @ ns') (rs @ rs')"
proof -
  have "list_all (\<lambda>n. timely env (sl_plan_id n) s (sl_slot_at n)) ns'"
    using assms(2,4) by (auto simp: accounts_def list_all_iff timely_def after_slots_def)
  then show ?thesis using assms(1-3) by (auto simp: accounts_def)
qed

lemma tick_plans_accounts:
  assumes "sound_world env opts"
  shows "named_runs (sd_db st) \<Longrightarrow> distinct (map sp_id rows) \<Longrightarrow>
    (\<And>row. row \<in> set rows \<Longrightarrow> after_slots (sp_id row) (sd_db st) (te_now env (sp_id row))) \<Longrightarrow>
    \<exists>ns rs. accounts env (map sp_id rows) (sd_db st) (sd_db (tick_plans env opts rows depth st)) ns rs"
proof (induction rows arbitrary: depth st)
  case Nil
  show ?case by (intro exI [of _ "[]"]) (simp add: accounts_def)
next
  case (Cons row rows)
  show ?case
  proof (cases "te_stopped env (sp_id row) \<or> sx_max_queue_depth opts \<le> depth")
    case True
    then have "tick_plans env opts (row # rows) depth st = st" by auto
    then show ?thesis by (intro exI [of _ "[]"]) (simp add: accounts_def)
  next
    case False
    obtain q st1 where c: "consider_plan env opts row st = (q, st1)" by fastforce
    have d: "decided (sp_id row) (timely env (sp_id row) (sd_db st)) q (sd_db st) (sd_db st1)"
      using consider_decides [OF assms Cons.prems(1), of row] Cons.prems(3) c by simp
    have other: "slots_of p (sd_db st1) = slots_of p (sd_db st)" if "p \<in> set (map sp_id rows)" for p
      by (rule decided_slots_of_other [OF d]) (use that Cons.prems(2) in \<open>metis distinct.simps(2) list.map(2)\<close>)
    obtain ns rs where 1: "accounts env [sp_id row] (sd_db st) (sd_db st1) ns rs" using decided_accounts [OF d] by blast
    have "\<exists>ns rs. accounts env (map sp_id rows) (sd_db st1)
        (sd_db (tick_plans env opts rows (if q then depth + 1 else depth) st1)) ns rs"
      by (rule Cons.IH) (use Cons.prems other decided_named [OF d] in \<open>auto simp: after_slots_def\<close>)
    then obtain ns' rs' where 2: "accounts env (map sp_id rows) (sd_db st1)
        (sd_db (tick_plans env opts rows (if q then depth + 1 else depth) st1)) ns' rs'" by blast
    have "accounts env (sp_id row # map sp_id rows) (sd_db st)
        (sd_db (tick_plans env opts rows (if q then depth + 1 else depth) st1)) (ns @ ns') (rs @ rs')"
      by (rule accounts_then [OF 1 2]) (use Cons.prems(2) other in auto)
    then show ?thesis using False c by (intro exI [of _ "ns @ ns'"] exI [of _ "rs @ rs'"]) simp
  qed
qed

lemma tick_cases: "tick env opts st = st \<or>
    tick env opts st = tick_plans env opts (list_plans '''' 0 (sd_db st)) (queue_depth (sd_db st)) st"
  by (simp add: tick_def split: option.split)

lemma listed_plan_ids:
  assumes "unique_plans s"
  shows "distinct (map sp_id (list_plans wid limit s))"
proof -
  have "map sp_id (map scan_plan rs) = map pr_id rs" for rs by (simp add: scan_plan_def)
  moreover have "distinct (map pr_id (take n (order_by le (filter P (db_plans s)))))" for n le P
  proof -
    have "distinct (map pr_id (order_by le (filter P (db_plans s))))"
      using assms by (simp add: unique_plans_def distinct_map_filter)
    then show ?thesis by (metis distinct_take take_map)
  qed
  ultimately show ?thesis by (simp only: list_plans_def limit_rows_def)
qed

text \<open>A pass over the catalogue accounts for what it does. Whatever the store fails at and whenever
  the pass is stopped, it only adds slots and drills: at most one slot for each plan, later than
  every slot decided before for that plan and not after the time it is, so that nothing is ever
  reconsidered; and the drills it queued, which any worker can claim, are those of the slots
  recorded as queued, one each and in the same order.
\<close>

theorem tick_accounts_for_drills:
  assumes "sound_world env opts" "unique_plans (sd_db st)" "named_runs (sd_db st)"
    "\<And>pid. after_slots pid (sd_db st) (te_now env pid)"
  shows "\<exists>ns rs. db_slots (sd_db (tick env opts st)) = db_slots (sd_db st) @ ns \<and>
    db_runs (sd_db (tick env opts st)) = db_runs (sd_db st) @ rs \<and>
    distinct (map sl_plan_id ns) \<and>
    list_all (\<lambda>n. after_slots (sl_plan_id n) (sd_db st) (sl_slot_at n) \<and>
      sl_slot_at n \<le> te_now env (sl_plan_id n)) ns \<and>
    map sl_run_id (filter (\<lambda>n. sl_outcome n = SlotQueued) ns) = map (\<lambda>r. Some (rr_id r)) rs \<and>
    list_all claimable rs"
  using tick_cases [of env opts st]
proof
  assume "tick env opts st = tick_plans env opts (list_plans '''' 0 (sd_db st)) (queue_depth (sd_db st)) st"
  then show ?thesis
    using tick_plans_accounts [OF assms(1,3) listed_plan_ids [OF assms(2)], of "''''" 0 "queue_depth (sd_db st)"] assms(4)
    by (auto simp: accounts_def timely_def)
next
  assume "tick env opts st = st"
  then show ?thesis by (intro exI [of _ "[]"]) simp
qed



section \<open>Limits\<close>

definition open_runs :: "db \<Rightarrow> run_row list" where
  "open_runs s = filter (\<lambda>r. \<not> settled r) (db_runs s)"

lemma claimable_open: "claimable r \<Longrightarrow> \<not> settled r"
  by (simp add: claimable_def settled_def terminal_states_def)

lemma decided_open:
  assumes "decided pid P q s s'"
  shows "length (open_runs s') = (if q then Suc (length (open_runs s)) else length (open_runs s))"
  using assms by (cases rule: decided_cases) (auto simp: open_runs_def skips_def queues_def claimable_open)

lemma queue_depth_open: "queue_depth s = min default_list_limit (int (length (open_runs s)))"
proof -
  have "matches_filter not_terminal_filter = (\<lambda>r. \<not> settled r)"
    by (rule ext) (simp add: matches_filter_def not_terminal_filter_def is_zero_def)
  moreover have "fi_limit not_terminal_filter = 0" by (simp add: not_terminal_filter_def)
  ultimately show ?thesis
    by (simp add: queue_depth_def list_runs_def open_runs_def limit_rows_def limit_or_default_def
        default_list_limit_def min.commute)
qed

text \<open>
  What a step keeps, a pass keeps: \<open>P\<close> is over the database and the depth the pass believes.
\<close>

lemma tick_plans_keeps:
  assumes step: "\<And>row st depth q st'. row \<in> set rows \<Longrightarrow> P (sd_db st) depth \<Longrightarrow> depth < sx_max_queue_depth opts \<Longrightarrow>
      consider_plan env opts row st = (q, st') \<Longrightarrow> P (sd_db st') (if q then depth + 1 else depth)"
    and "P (sd_db st) depth"
  shows "\<exists>depth'. P (sd_db (tick_plans env opts rows depth st)) depth'"
  using assms
proof (induction rows arbitrary: st depth)
  case (Cons row rows)
  show ?case
  proof (cases "te_stopped env (sp_id row) \<or> sx_max_queue_depth opts \<le> depth")
    case True
    then have "tick_plans env opts (row # rows) depth st = st" by auto
    then show ?thesis using Cons.prems(2) by auto
  next
    case False
    obtain q st1 where c: "consider_plan env opts row st = (q, st1)" by fastforce
    have "P (sd_db st1) (if q then depth + 1 else depth)"
      using Cons.prems(1) [OF _ Cons.prems(2) _ c] False by simp
    then have "\<exists>depth'. P (sd_db (tick_plans env opts rows (if q then depth + 1 else depth) st1)) depth'"
      by (rule Cons.IH [rotated]) (rule Cons.prems(1), simp_all)
    then show ?thesis using False c by simp
  qed
qed auto

text \<open>A step whose slot has no promise on its instant: what is left of it whatever the cron does.\<close>

lemma consider_decides_any:
  assumes "named_runs (sd_db st)" "te_id env (sp_id row) \<noteq> ''''" "consider_plan env opts row st = (q, st')"
  shows "decided (sp_id row) (\<lambda>_. True) q (sd_db st) (sd_db st')"
proof (cases "parse_stored env (sp_yaml row)")
  case (Inl e)
  have "fst (claim_decision env row t True r None y s) = False" for t r y s
    by (simp add: claim_decision_def split: option.split prod.split sum.split)
  then show ?thesis
    using Inl assms(3) claim_skip [where P = "\<lambda>_. True" and at_time = "te_now env (sp_id row)"
        and env = env and reason = "invalid_plan_reason e" and yaml = "''''" and s = "sd_db st" and row = row]
    by (auto simp: consider_plan_def)
next
  case (Inr p)
  have "decided (sp_id row) (\<lambda>_. True) b (sd_db st) s" if "carry_out env row p d (sd_db st) = (b, s)" for d b s
    using carry_out_decides [where P = "\<lambda>_. True" and d = d and s = "sd_db st" and env = env and row = row and p = p]
      assms that by simp
  then show ?thesis
    using Inr assms(3)
    by (auto simp: consider_plan_def split: sum.splits option.splits if_splits prod.splits)
qed

text \<open>C23. A pass stops at the depth it was given. When the limit on the queue is no more than the fifty
  runs a listing answers with, a pass never leaves more runs queued or running than the limit, or
  than there were when it began.
\<close>

theorem tick_respects_depth:
  assumes "named_runs (sd_db st)" "\<And>pid. te_id env pid \<noteq> ''''" "sx_max_queue_depth opts \<le> default_list_limit"
  shows "int (length (open_runs (sd_db (tick env opts st)))) \<le>
    max (sx_max_queue_depth opts) (int (length (open_runs (sd_db st))))"
proof (cases "sx_max_queue_depth opts \<le> queue_depth (sd_db st)")
  case True
  then have "tick_plans env opts rows (queue_depth (sd_db st)) st = st" for rows by (cases rows) simp_all
  then have "tick env opts st = st" using tick_cases [of env opts st] by simp
  then show ?thesis by simp
next
  case False
  let ?P = "\<lambda>s depth. named_runs s \<and> int (length (open_runs s)) \<le> depth \<and> depth \<le> sx_max_queue_depth opts"
  have begin_depth: "?P (sd_db st) (queue_depth (sd_db st))"
    using False assms(1,3) by (simp add: queue_depth_open)
  have "\<exists>depth. ?P (sd_db (tick_plans env opts rows (queue_depth (sd_db st)) st)) depth" for rows
  proof (rule tick_plans_keeps [where P = ?P, OF _ begin_depth])
    fix row st depth q st'
    assume P: "?P (sd_db st) depth" "depth < sx_max_queue_depth opts"
      and c: "consider_plan env opts row st = (q, st')"
    have d: "decided (sp_id row) (\<lambda>_. True) q (sd_db st) (sd_db st')"
      by (rule consider_decides_any [OF _ assms(2) c]) (use P in simp)
    show "?P (sd_db st') (if q then depth + 1 else depth)"
      using P decided_open [OF d] decided_named [OF d] by simp
  qed
  then obtain depth where "?P (sd_db (tick_plans env opts (list_plans '''' 0 (sd_db st)) (queue_depth (sd_db st)) st)) depth"
    by blast
  then have "int (length (open_runs (sd_db (tick_plans env opts (list_plans '''' 0 (sd_db st)) (queue_depth (sd_db st)) st))))
      \<le> sx_max_queue_depth opts" by linarith
  then show ?thesis using tick_cases [of env opts st] by (elim disjE) (simp_all add: max.coboundedI1)
qed

definition one_drill_each :: "db \<Rightarrow> bool" where
  "one_drill_each s \<longleftrightarrow> distinct (map rr_source_workload_id (open_runs s))"

lemma decided_one_drill:
  assumes "decided pid P q s s'" "one_drill_each s"
  shows "one_drill_each s'"
  using assms(1)
proof (cases rule: decided_cases)
  case (queued n r)
  then have "open_runs s' = open_runs s @ [r]" by (simp add: open_runs_def queues_def claimable_open)
  moreover have "rr_source_workload_id r \<notin> rr_source_workload_id ` set (open_runs s)"
    using queued by (auto simp: queues_def idle_def open_runs_def list_all_iff)
  ultimately show ?thesis using assms(2) by (simp add: one_drill_each_def)
qed (use assms(2) in \<open>simp_all add: one_drill_each_def open_runs_def skips_def\<close>)

text \<open>C24. A pass never queues a second drill of a workload: when each workload has one drill queued or
  running at most before it, so has each one after it, whichever plans are due and however many
  of them name the same workload.
\<close>

theorem tick_keeps_one_drill_each:
  assumes "named_runs (sd_db st)" "\<And>pid. te_id env pid \<noteq> ''''" "one_drill_each (sd_db st)"
  shows "one_drill_each (sd_db (tick env opts st))"
proof -
  have "\<exists>depth :: int. named_runs (sd_db (tick_plans env opts rows k st)) \<and>
      one_drill_each (sd_db (tick_plans env opts rows k st))" for rows and k :: int
  proof (rule tick_plans_keeps [where P = "\<lambda>s _. named_runs s \<and> one_drill_each s"])
    fix row st and depth :: int and q st'
    assume P: "named_runs (sd_db st) \<and> one_drill_each (sd_db st)"
      and c: "consider_plan env opts row st = (q, st')"
    have d: "decided (sp_id row) (\<lambda>_. True) q (sd_db st) (sd_db st')"
      by (rule consider_decides_any [OF _ assms(2) c]) (use P in simp)
    show "named_runs (sd_db st') \<and> one_drill_each (sd_db st')"
      using P decided_one_drill [OF d] decided_named [OF d] by simp
  qed (use assms in simp)
  then show ?thesis using tick_cases [of env opts st] assms(3) by auto
qed


section \<open>A plan that is no longer valid\<close>

text \<open>A stored plan that no longer parses - a schedule that is refused included - is recorded as a
  skipped slot at the instant it is considered: unless the driver fails or that instant is taken,
  every pass that reaches it adds a slot, and the branch that would mention a bad schedule once per
  version is never taken.
\<close>

theorem invalid_plan_skips_each_time:
  assumes "parse_stored env (sp_yaml row) = Inl e" "te_claim_fault env (sp_id row) = None"
    "sp_id row \<in> pr_id ` set (db_plans (sd_db st))"
    "(sp_id row, te_now env (sp_id row)) \<notin> slot_key ` set (db_slots (sd_db st))"
  shows "consider_plan env opts row st = (False, st\<lparr>sd_db := (sd_db st)\<lparr>db_slots := db_slots (sd_db st) @
      [\<lparr>sl_plan_id = sp_id row, sl_slot_at = te_now env (sp_id row), sl_decided_at = te_decided env (sp_id row),
        sl_outcome = SlotSkipped, sl_reason = Some (invalid_plan_reason e), sl_run_id = None\<rparr>]\<rparr>\<rparr>)"
  using assms
  by (simp add: consider_plan_def claim_decision_def claim_slot_def queue_slot_run_def insert_slot_def
      slot_row_of_def slot_key_def null_string_def invalid_plan_reason_def)

lemma parsed_plan_has_schedule:
  "parse_stored env yaml = Inr p \<Longrightarrow> \<exists>sched. parse_schedule (te_sched env) (pl_schedule p) (pl_schedule_timezone p) = Inr sched"
  by (auto simp: parse_stored_def parse_plan_def Let_def validate_def split: sum.splits list.splits if_splits backup_strategy.splits)



section \<open>A plan that is due\<close>

text \<open>A due slot becomes a drill. A plan that parses, whose schedule decides on a slot within its
  grace period, for a workload with no drill in flight, gets that slot recorded as queued and its
  run in the queue with the plan's own version and workload, in one step.
\<close>

theorem due_plan_is_queued:
  assumes "parse_stored env (sp_yaml row) = Inr p"
    "parse_schedule (te_sched env) (pl_schedule p) (pl_schedule_timezone p) = Inr (Some sc)"
    "te_slot_fault env (sp_id row) = None" "te_active_fault env (sp_id row) = None" "te_claim_fault env (sp_id row) = None"
    "decide (Some (schedule_next (te_sched env) sc, te_wall env (sc_location sc)))
       (case last_slot (sp_id row) s of Inl _ \<Rightarrow> None | Inr l \<Rightarrow> Some l) (sx_started_at opts)
       (te_now env (sp_id row)) (sx_grace opts) = Some d" "\<not> de_skip d"
    "active_run_for_workload (wr_id (pl_workload p)) s = ''''" "te_marshal env p = Inr yaml"
    "(sp_id row, de_slot_at d) \<notin> slot_key ` set (db_slots s)" "sp_id row \<in> pr_id ` set (db_plans s)"
    "sp_id row \<noteq> ''''" "te_id env (sp_id row) \<noteq> ''''" "te_id env (sp_id row) \<notin> rr_id ` set (db_runs s)" "sd_db st = s"
  shows "consider_plan env opts row st = (True, st\<lparr>sd_db :=
     s\<lparr>db_runs := db_runs s @ [queued_row (drill_row (drill_request env row p) p) yaml (te_decided env (sp_id row))],
       db_slots := db_slots s @ [\<lparr>sl_plan_id = sp_id row, sl_slot_at = de_slot_at d,
         sl_decided_at = te_decided env (sp_id row), sl_outcome = SlotQueued, sl_reason = None,
         sl_run_id = Some (te_id env (sp_id row))\<rparr>]\<rparr>\<rparr>)"
proof -
  let ?run = "drill_row (drill_request env row p) p"
  have run: "run_id ?run = te_id env (sp_id row)" "run_plan_id ?run = sp_id row"
    by (simp_all add: drill_row_def drill_request_def)
  have prep: "prepare_drill (te_marshal env) (\<lambda>wid. case te_active_fault env (sp_id row) of
      Some e \<Rightarrow> Inl e | None \<Rightarrow> Inr (active_run_for_workload wid s)) (drill_request env row p) = Inr (?run, yaml)"
    using assms(4,8,9) by (simp add: prepare_drill_def drill_request_def)
  have refused: "\<not> run_refused s (te_id env (sp_id row)) (Some (sp_id row))"
    using assms(11,14) by (simp add: run_refused_def)
  have "carry_out env row p d s = (True,
     s\<lparr>db_runs := db_runs s @ [queued_row ?run yaml (te_decided env (sp_id row))],
       db_slots := db_slots s @ [\<lparr>sl_plan_id = sp_id row, sl_slot_at = de_slot_at d,
         sl_decided_at = te_decided env (sp_id row), sl_outcome = SlotQueued, sl_reason = None,
         sl_run_id = Some (te_id env (sp_id row))\<rparr>]\<rparr>)"
    using assms(5,7,10-13) refused
    by (simp add: carry_out_def prep claim_decision_def claim_slot_def queue_slot_run_def enqueue_def insert_run_def
        insert_slot_def slot_row_of_def slot_key_def null_string_def map_runs_def queued_row_def run)
  then show ?thesis
    using assms(1-3,6,15) by (simp add: consider_plan_def due_schedule_def)
qed


section \<open>Examples\<close>

text \<open>
  An hourly cron, read in a zone with no change of clock, over a catalogue of one plan; the pass
  takes place at one minute past five and the scheduler started at three.
\<close>

definition lab_catalogue :: db where
  "lab_catalogue = empty_db\<lparr>db_plans := [\<lparr>pr_id = ''p1'', pr_name = ''nightly'', pr_description = None,
     pr_workload_id = ''101'', pr_provider_id = Some ''pve'', pr_yaml = ''yaml'', pr_version = 3,
     pr_created_at = 0, pr_updated_at = 0\<rparr>]\<rparr>"

definition lab_scheduled :: plan where
  "lab_scheduled = lab_plan\<lparr>pl_schedule := ''@hourly''\<rparr>"

definition lab_tick :: "(unit, unit, int) tick_env" where
  "lab_tick = \<lparr>te_sched = \<lparr>parse_cron = (\<lambda>_. Inr ()), load_location = (\<lambda>_. Inr ()), local_zone = (),
       cron_next = (\<lambda>_ _ t. (t div hour + 1) * hour)\<rparr>,
     te_wall = (\<lambda>_ t. t div minute), te_decode = (\<lambda>_. Inr lab_scheduled), te_show = (\<lambda>_. ''''),
     te_marshal = (\<lambda>_. Inr ''snapshot''), te_constraint = Plain ''constraint'', te_now = (\<lambda>_. 5 * hour + minute),
     te_decided = (\<lambda>_. 5 * hour + minute), te_id = (\<lambda>pid. ''run-of-'' @ pid), te_stopped = (\<lambda>_. False),
     te_plans_fault = None, te_runs_fault = None, te_slot_fault = (\<lambda>_. None), te_active_fault = (\<lambda>_. None),
     te_claim_fault = (\<lambda>_. None)\<rparr>"

definition lab_scheduler :: scheduler_options where
  "lab_scheduler = new_scheduler 0 0 None (3 * hour)"

definition lab_ticking :: scheduler_state where
  "lab_ticking = \<lparr>sd_db = lab_catalogue, sd_complained = (\<lambda>_. 0)\<rparr>"

lemmas lab_tick_defs = lab_tick_def lab_scheduler_def lab_ticking_def lab_catalogue_def empty_db_def
  new_scheduler_def schedule_next_def

lemma hourly_later: "t < (t div hour + 1) * hour"
proof -
  have "t div hour * hour + t mod hour = t" by (rule div_mult_mod_eq)
  moreover have "t mod hour < hour" by (simp add: hour_def)
  ultimately show ?thesis unfolding distrib_right mult_1_left by linarith
qed

lemma lab_sound: "sound_world lab_tick lab_scheduler"
  using hourly_later
  by (simp add: sound_world_def lab_tick_defs default_grace_period_def max_int64_def hour_def)

lemma lab_unique: "unique_plans lab_catalogue" "named_runs lab_catalogue" "after_slots pid lab_catalogue t"
  "one_drill_each lab_catalogue"
  by (simp_all add: lab_catalogue_def empty_db_def unique_plans_def named_runs_def after_slots_def slots_of_def
      one_drill_each_def open_runs_def)

lemma collapse_numeral:
  "collapse nxt now_time (numeral k) s m =
     (if now_time < nxt s then (s, m) else collapse nxt now_time (pred_numeral k) (nxt s) (Suc m))"
  by (simp add: numeral_eq_Suc)

lemma lab_decides:
  "decide (Some (\<lambda>t. (t div hour + 1) * hour, \<lambda>t. t div minute)) None (3 * hour) (5 * hour + minute) (2 * hour) =
     Some \<lparr>de_slot_at = 5 * hour, de_skip = False, de_reason = ''''\<rparr>"
  by (simp add: decide_def first_slot_def resume_after_def hour_def minute_def time_sub_def min_int64_def max_int64_def
      max_collapse_def collapse_numeral)

theorem decide_is_latest_due_witness:
  "3 * hour < 5 * hour \<and> 5 * hour \<le> 5 * hour + minute"
  using decide_is_latest_due [OF hourly_later, where grace = "2 * hour" and wall = "\<lambda>t. t div minute" and prev = None
    and started = "3 * hour" and now_time = "5 * hour + minute"]
  by (simp only: lab_decides option.case resume_after_def) (simp add: hour_def max_int64_def, blast)

theorem tick_accounts_for_drills_witness:
  "list_all claimable (db_runs (sd_db (tick lab_tick lab_scheduler lab_ticking)))"
  using tick_accounts_for_drills [OF lab_sound, of lab_ticking] lab_unique
  by (auto simp: lab_ticking_def lab_catalogue_def empty_db_def)

theorem tick_respects_depth_witness:
  "length (open_runs (sd_db (tick lab_tick lab_scheduler lab_ticking))) \<le> 5"
  using tick_respects_depth [of lab_ticking lab_tick lab_scheduler] lab_unique
  by (simp add: lab_tick_defs open_runs_def default_max_queue_depth_def default_list_limit_def)

theorem tick_keeps_one_drill_each_witness:
  "one_drill_each (sd_db (tick lab_tick lab_scheduler lab_ticking))"
  using tick_keeps_one_drill_each [of lab_ticking lab_tick lab_scheduler] lab_unique
  by (simp add: lab_ticking_def lab_tick_def)

lemma lab_schedule:
  "parse_schedule (te_sched lab_tick) (pl_schedule (apply_defaults lab_scheduled))
     (pl_schedule_timezone (apply_defaults lab_scheduled)) =
   Inr (Some \<lparr>sc_expr = ''@hourly'', sc_location = (), sc_spec = ()\<rparr>)"
  by (simp add: parse_schedule_def lab_tick_def apply_defaults_def lab_scheduled_def lab_plan_def Let_def)

lemma lab_parse: "parse_stored lab_tick y = Inr (apply_defaults lab_scheduled)"
  by (simp add: parse_stored_def parse_plan_def lab_tick_def validate_def apply_defaults_def lab_scheduled_def
      lab_plan_def parse_schedule_def trim_space_def trim_by_def is_space_def Let_def)


theorem due_plan_is_queued_witness:
  "fst (consider_plan lab_tick lab_scheduler (scan_plan (hd (db_plans lab_catalogue))) lab_ticking)"
proof -
  let ?row = "scan_plan (hd (db_plans lab_catalogue))"
  have row: "sp_id ?row = ''p1''" by (simp add: lab_catalogue_def scan_plan_def)
  have slots: "last_slot ''p1'' lab_catalogue = Inl (Sentinel StoreNotFound)" "db_slots lab_catalogue = []"
    "db_runs lab_catalogue = []" "pr_id ` set (db_plans lab_catalogue) = {''p1''}"
    by (simp_all add: last_slot_def lab_catalogue_def empty_db_def)
  have dec: "decide (Some (schedule_next (te_sched lab_tick) \<lparr>sc_expr = ''@hourly'', sc_location = (), sc_spec = ()\<rparr>,
      te_wall lab_tick (sc_location \<lparr>sc_expr = ''@hourly'', sc_location = (), sc_spec = ()\<rparr>)))
      (case last_slot (sp_id ?row) lab_catalogue of Inl _ \<Rightarrow> None | Inr l \<Rightarrow> Some l) (sx_started_at lab_scheduler)
      (te_now lab_tick (sp_id ?row)) (sx_grace lab_scheduler) =
      Some \<lparr>de_slot_at = 5 * hour, de_skip = False, de_reason = ''''\<rparr>"
    using lab_decides
    by (simp add: row slots(1) lab_tick_def lab_scheduler_def new_scheduler_def schedule_next_def [abs_def]
        default_grace_period_def)
  show ?thesis
    by (subst due_plan_is_queued [OF lab_parse lab_schedule _ _ _ dec, where yaml = "''snapshot''" and st = lab_ticking])
      (simp_all add: row slots lab_tick_def lab_ticking_def active_run_for_workload_def)
qed

theorem invalid_plan_skips_each_time_witness:
  "\<not> fst (consider_plan (lab_tick\<lparr>te_decode := (\<lambda>_. Inl (Plain ''yaml: line 1''))\<rparr>) lab_scheduler
     (scan_plan (hd (db_plans lab_catalogue))) lab_ticking)"
  by (subst invalid_plan_skips_each_time [where e = "Wrapped ''parse plan: yaml: line 1'' (Plain ''yaml: line 1'')"])
    (simp_all add: parse_stored_def lab_tick_def lab_ticking_def lab_catalogue_def empty_db_def scan_plan_def)



section \<open>Two limits of a pass\<close>

text \<open>
  \<open>Next\<close> answers with the zero time when a cron never comes; that slot counts as due and hopelessly
  late, after all the steps a pass may take.
\<close>

lemma collapse_stuck: "z \<le> now_time \<Longrightarrow> collapse (\<lambda>_. z) now_time k z m = (z, m + k)"
  by (induction k arbitrary: m) simp_all

lemma never_firing_cron_is_late:
  assumes "zero_time \<le> now_time" "grace < time_sub now_time zero_time"
  shows "decide (Some (\<lambda>_. zero_time, wall)) prev started now_time grace =
    Some \<lparr>de_slot_at = zero_time, de_skip = True,
      de_reason = late_reason (time_sub now_time zero_time) grace max_collapse\<rparr>"
  using assms by (simp add: decide_def first_slot_def collapse_stuck split: option.split)

text \<open>The catalogue a pass reads is the first fifty plans by name, however many there are.\<close>

lemma pass_reads_fifty_plans: "length (list_plans '''' 0 s) = min 50 (length (db_plans s))"
  by (simp add: list_plans_def limit_rows_def limit_or_default_def default_list_limit_def min.commute)

end
