(* ===== verification/Secrets.thy ===== *)
theory Secrets
  imports Core
begin

text \<open>
  internal/crypto: how a secret is sealed on disk (seal.go), how a master key is written and read
  (key.go), and where it is looked for (store.go). A secret, a key and a nonce are byte strings.
  The cipher, AES-256-GCM, is a pair of functions; base64 and hex are written out.
\<close>

section \<open>Base64 and hexadecimal\<close>

text \<open>\<open>base64.StdEncoding\<close>: 64 characters, padded with \<open>=\<close>; line breaks are skipped when decoding.\<close>

definition b64_char :: "nat \<Rightarrow> char" where
  "b64_char n =
     (if n < 26 then char_of (65 + n) else if n < 52 then char_of (71 + n)
      else if n < 62 then char_of (n - 4) else if n = 62 then CHR ''+'' else CHR ''/'')"

definition b64_value :: "char \<Rightarrow> nat option" where
  "b64_value c =
     (let n = of_char c :: nat in
      if 65 \<le> n \<and> n \<le> 90 then Some (n - 65) else if 97 \<le> n \<and> n \<le> 122 then Some (n - 71)
      else if 48 \<le> n \<and> n \<le> 57 then Some (n + 4) else if c = CHR ''+'' then Some 62
      else if c = CHR ''/'' then Some 63 else None)"

abbreviation byte_of :: "char \<Rightarrow> nat" where "byte_of c \<equiv> of_char c"

fun b64_encode :: "string \<Rightarrow> string" where
  "b64_encode [] = []"
| "b64_encode [a] = [b64_char (byte_of a div 4), b64_char (byte_of a mod 4 * 16), CHR ''='', CHR ''='']"
| "b64_encode [a, b] =
     [b64_char (byte_of a div 4), b64_char (byte_of a mod 4 * 16 + byte_of b div 16),
      b64_char (byte_of b mod 16 * 4), CHR ''='']"
| "b64_encode (a # b # c # rest) =
     b64_char (byte_of a div 4) # b64_char (byte_of a mod 4 * 16 + byte_of b div 16) #
     b64_char (byte_of b mod 16 * 4 + byte_of c div 64) # b64_char (byte_of c mod 64) # b64_encode rest"

text \<open>Four characters at a time; padding may only close the text.\<close>

definition b64_first :: "nat \<Rightarrow> nat \<Rightarrow> char" where "b64_first x y = char_of (x * 4 + y div 16)"
definition b64_second :: "nat \<Rightarrow> nat \<Rightarrow> char" where "b64_second y z = char_of (y mod 16 * 16 + z div 4)"
definition b64_third :: "nat \<Rightarrow> nat \<Rightarrow> char" where "b64_third z w = char_of (z mod 4 * 64 + w)"

fun b64_groups :: "string \<Rightarrow> string option" where
  "b64_groups [] = Some []"
| "b64_groups (p # q # r # s # rest) =
     (case (b64_value p, b64_value q) of
        (Some x, Some y) \<Rightarrow>
          if r = CHR ''='' \<and> s = CHR ''='' \<and> rest = [] then Some [b64_first x y]
          else
            (case b64_value r of
               None \<Rightarrow> None
             | Some z \<Rightarrow>
                 if s = CHR ''='' \<and> rest = [] then Some [b64_first x y, b64_second y z]
                 else
                   (case (b64_value s, b64_groups rest) of
                      (Some w, Some out) \<Rightarrow> Some (b64_first x y # b64_second y z # b64_third z w # out)
                    | _ \<Rightarrow> None))
      | _ \<Rightarrow> None)"
| "b64_groups _ = None"

definition is_line_break :: "char \<Rightarrow> bool" where
  "is_line_break c \<longleftrightarrow> (let n = (of_char c :: nat) in n = 10 \<or> n = 13)"

definition b64_decode :: "string \<Rightarrow> string option" where
  "b64_decode s = b64_groups (filter (\<lambda>c. \<not> is_line_break c) s)"

definition hex_value :: "char \<Rightarrow> nat option" where
  "hex_value c =
     (let n = of_char c :: nat in
      if 48 \<le> n \<and> n \<le> 57 then Some (n - 48) else if 97 \<le> n \<and> n \<le> 102 then Some (n - 87)
      else if 65 \<le> n \<and> n \<le> 70 then Some (n - 55) else None)"

fun hex_decode :: "string \<Rightarrow> string option" where
  "hex_decode [] = Some []"
| "hex_decode (a # b # rest) =
     (case (hex_value a, hex_value b, hex_decode rest) of
        (Some x, Some y, Some out) \<Rightarrow> Some (char_of (x * 16 + y) # out)
      | _ \<Rightarrow> None)"
| "hex_decode [a] = None"


section \<open>Keys\<close>

definition key_size :: nat where "key_size = 32"

definition encode_key :: "string \<Rightarrow> string" where "encode_key k = b64_encode k"

definition invalid_key :: goerr where
  "invalid_key = Plain ''invalid master key: expected 32 bytes as base64 or hex, got a value that does not decode to that length''"

definition of_length :: "nat \<Rightarrow> string option \<Rightarrow> string option" where
  "of_length n s = (case s of None \<Rightarrow> None | Some s \<Rightarrow> if length s = n then Some s else None)"

definition parse_key :: "string \<Rightarrow> goerr + string" where
  "parse_key s =
     (case of_length key_size (b64_decode s) of
        Some k \<Rightarrow> Inr k
      | None \<Rightarrow> (case of_length key_size (hex_decode s) of Some k \<Rightarrow> Inr k | None \<Rightarrow> Inl invalid_key))"

text \<open>
  \<open>LoadKey\<close>: the environment, then a file that was named, then the one in the home directory. A file
  is its text, or why it could not be read; \<open>Inl None\<close> says it does not exist.
\<close>

definition trim_trailing_newline :: "string \<Rightarrow> string" where
  "trim_trailing_newline s = rev (dropWhile is_line_break (rev s))"

definition read_key_file :: "(string \<Rightarrow> goerr option + string) \<Rightarrow> string \<Rightarrow> goerr option + string" where
  "read_key_file files path =
     (case files path of
        Inl e \<Rightarrow> Inl e
      | Inr s \<Rightarrow> (case parse_key (trim_trailing_newline s) of Inl e \<Rightarrow> Inl (Some e) | Inr k \<Rightarrow> Inr k))"

definition no_key :: goerr where "no_key = Plain ''no master key found''"

definition key_from :: "(string \<Rightarrow> goerr option + string) \<Rightarrow> string \<Rightarrow> goerr + string \<times> string" where
  "key_from files path =
     (case read_key_file files path of
        Inl None \<Rightarrow> Inl no_key
      | Inl (Some e) \<Rightarrow> Inl (Wrapped (''read master key from '' @ path @ '': '' @ err_text e) e)
      | Inr k \<Rightarrow> Inr (k, ''key file '' @ path))"

definition load_key ::
  "string option \<Rightarrow> (string \<Rightarrow> goerr option + string) \<Rightarrow> (goerr + string) \<Rightarrow> string \<Rightarrow> goerr + string \<times> string" where
  "load_key env files default_path explicit_path =
     (if env \<noteq> None \<and> the env \<noteq> '''' then
        (case parse_key (the env) of
           Inl e \<Rightarrow> Inl (Wrapped (''RESTORELAB_MASTER_KEY: '' @ err_text e) e)
         | Inr k \<Rightarrow> Inr (k, ''environment variable RESTORELAB_MASTER_KEY''))
      else if explicit_path \<noteq> '''' then key_from files explicit_path
      else (case default_path of Inl e \<Rightarrow> Inl e | Inr path \<Rightarrow> key_from files path))"


section \<open>Sealing\<close>

record aead =
  ae_seal :: "string \<Rightarrow> string \<Rightarrow> string \<Rightarrow> string"
  ae_open :: "string \<Rightarrow> string \<Rightarrow> string \<Rightarrow> string option"

definition seal_prefix :: string where "seal_prefix = ''rlsec:v1:''"
definition nonce_size :: nat where "nonce_size = 12"

definition is_sealed :: "string \<Rightarrow> bool" where "is_sealed s = has_prefix s seal_prefix"

text \<open>The nonce that \<open>rand.Read\<close> drew is an argument.\<close>

definition seal_secret :: "aead \<Rightarrow> string \<Rightarrow> string \<Rightarrow> string \<Rightarrow> string" where
  "seal_secret c nonce k plaintext = seal_prefix @ b64_encode (nonce @ ae_seal c k nonce plaintext)"

definition err_auth :: goerr where
  "err_auth = Plain ''cannot decrypt secret: wrong master key or corrupted value''"

definition open_secret :: "aead \<Rightarrow> string \<Rightarrow> string \<Rightarrow> goerr + string" where
  "open_secret c k sealed =
     (if \<not> has_prefix sealed ''rlsec:'' then Inl (Plain ''not a sealed value: missing rlsec: prefix'')
      else if \<not> has_prefix sealed seal_prefix then
        Inl (Plain (''unsupported sealed value version '' @ quoted (takeWhile (\<lambda>x. x \<noteq> CHR '':'') (drop 6 sealed)) @
          '': this build only understands v1''))
      else
        (case b64_decode (drop (length seal_prefix) sealed) of
           None \<Rightarrow> Inl err_auth
         | Some raw \<Rightarrow>
             if length raw < nonce_size then Inl err_auth
             else (case ae_open c k (take nonce_size raw) (drop nonce_size raw) of
                     None \<Rightarrow> Inl err_auth | Some p \<Rightarrow> Inr p)))"


section \<open>What is sealed is what is opened\<close>

lemma b64_value_char [simp]: "n < 64 \<Longrightarrow> b64_value (b64_char n) = Some n"
proof -
  assume "n < 64"
  then consider "n < 26" | "26 \<le> n" "n < 52" | "52 \<le> n" "n < 62" | "n = 62" | "n = 63" by linarith
  then show ?thesis by cases (simp_all add: b64_char_def b64_value_def Let_def, presburger)
qed

lemma no_value [simp]: "b64_value (CHR ''='') = None" "is_line_break c \<Longrightarrow> b64_value c = None"
  by (auto simp: b64_value_def is_line_break_def Let_def)

lemma b64_char_plain [simp]: "n < 64 \<Longrightarrow> b64_char n \<noteq> CHR ''=''" "n < 64 \<Longrightarrow> \<not> is_line_break (b64_char n)"
  using b64_value_char [of n] no_value by (metis option.distinct(1))+

lemma byte_bound: "byte_of c < 256"
  by (rule nat_of_char_less_256)

lemma byte_quotients: "byte_of c div 4 < 64" "byte_of c div 16 < 16" "byte_of c div 64 < 4"
  using byte_bound [of c] by (simp_all add: less_mult_imp_div_less)

lemma byte_parts [simp]:
  "byte_of a div 4 < 64" "byte_of a mod 4 * 16 < 64" "byte_of a mod 4 * 16 + byte_of b div 16 < 64"
  "byte_of b mod 16 * 4 < 64" "byte_of b mod 16 * 4 + byte_of c div 64 < 64" "byte_of c mod 64 < 64"
proof -
  have "byte_of a mod 4 < 4" "byte_of b mod 16 < 16" "byte_of c mod 64 < 64" by simp_all
  then show "byte_of a div 4 < 64" "byte_of a mod 4 * 16 < 64" "byte_of a mod 4 * 16 + byte_of b div 16 < 64"
    "byte_of b mod 16 * 4 < 64" "byte_of b mod 16 * 4 + byte_of c div 64 < 64" "byte_of c mod 64 < 64"
    using byte_quotients [of a] byte_quotients [of b] byte_quotients [of c] by linarith+
qed

lemma pad_plain [simp]: "\<not> is_line_break (CHR ''='')"
  by (simp add: is_line_break_def Let_def)

lemma split_sum: "(y :: nat) < n \<Longrightarrow> (x * n + y) div n = x" "(y :: nat) < n \<Longrightarrow> (x * n + y) mod n = y"
  by simp_all

lemma b64_encode_lines: "filter (\<lambda>c. \<not> is_line_break c) (b64_encode s) = b64_encode s"
  by (induction s rule: b64_encode.induct) simp_all

lemma b64_parts [simp]:
  "b64_first (byte_of a div 4) (byte_of a mod 4 * 16 + byte_of b div 16) = a"
  "b64_second (byte_of a mod 4 * 16 + byte_of b div 16) (byte_of b mod 16 * 4 + byte_of c div 64) = b"
  "b64_third (byte_of b mod 16 * 4 + byte_of c div 64) (byte_of c mod 64) = c"
proof -
  have a: "byte_of a div 4 * 4 + (byte_of a mod 4 * 16 + byte_of b div 16) div 16 = byte_of a"
    unfolding split_sum(1) [OF byte_quotients(2)] by (rule div_mult_mod_eq)
  have b: "(byte_of a mod 4 * 16 + byte_of b div 16) mod 16 * 16 + (byte_of b mod 16 * 4 + byte_of c div 64) div 4 = byte_of b"
    unfolding split_sum [OF byte_quotients(2)] split_sum [OF byte_quotients(3)] by (rule div_mult_mod_eq)
  have c: "(byte_of b mod 16 * 4 + byte_of c div 64) mod 4 * 64 + byte_of c mod 64 = byte_of c"
    unfolding split_sum(2) [OF byte_quotients(3)] by (rule div_mult_mod_eq)
  show "b64_first (byte_of a div 4) (byte_of a mod 4 * 16 + byte_of b div 16) = a"
    unfolding b64_first_def a by simp
  show "b64_second (byte_of a mod 4 * 16 + byte_of b div 16) (byte_of b mod 16 * 4 + byte_of c div 64) = b"
    unfolding b64_second_def b by simp
  show "b64_third (byte_of b mod 16 * 4 + byte_of c div 64) (byte_of c mod 64) = c"
    unfolding b64_third_def c by simp
qed

lemma b64_last_parts [simp]:
  "b64_first (byte_of a div 4) (byte_of a mod 4 * 16) = a"
  "b64_second (byte_of a mod 4 * 16 + byte_of b div 16) (byte_of b mod 16 * 4) = b"
proof -
  have a: "byte_of a div 4 * 4 + byte_of a mod 4 * 16 div 16 = byte_of a" by simp
  have b: "(byte_of a mod 4 * 16 + byte_of b div 16) mod 16 * 16 + byte_of b mod 16 * 4 div 4 = byte_of b"
    unfolding split_sum(2) [OF byte_quotients(2)] using div_mult_mod_eq [of "byte_of b" 16] by simp
  show "b64_first (byte_of a div 4) (byte_of a mod 4 * 16) = a" unfolding b64_first_def a by simp
  show "b64_second (byte_of a mod 4 * 16 + byte_of b div 16) (byte_of b mod 16 * 4) = b"
    unfolding b64_second_def b by simp
qed

lemma b64_groups_encode: "b64_groups (b64_encode s) = Some s"
  by (induction s rule: b64_encode.induct) simp_all

lemma b64_decode_encode [simp]: "b64_decode (b64_encode s) = Some s"
  by (simp add: b64_decode_def b64_encode_lines b64_groups_encode)

lemma key_round_trip: "length k = key_size \<Longrightarrow> parse_key (encode_key k) = Inr k"
  by (simp add: parse_key_def encode_key_def of_length_def)


lemma seal_prefix_drop [simp]: "drop (length seal_prefix) (seal_prefix @ x) = x"
  by simp

lemma sealed_form: "is_sealed (seal_secret c nonce k p)" by (simp add: is_sealed_def seal_secret_def)

lemma open_sealed:
  "length nonce = nonce_size \<Longrightarrow> open_secret c k' (seal_secret c nonce k p) =
     (case ae_open c k' nonce (ae_seal c k nonce p) of None \<Rightarrow> Inl err_auth | Some p \<Rightarrow> Inr p)"
proof -
  assume "length nonce = nonce_size"
  moreover have "has_prefix (seal_secret c nonce k p) ''rlsec:''" by (simp add: seal_secret_def seal_prefix_def)
  moreover have "has_prefix (seal_secret c nonce k p) seal_prefix" by (simp add: seal_secret_def)
  moreover have "b64_decode (drop (length seal_prefix) (seal_secret c nonce k p)) = Some (nonce @ ae_seal c k nonce p)"
    by (simp add: seal_secret_def)
  ultimately show ?thesis by (simp add: open_secret_def)
qed

text \<open>C27. What is sealed is what is opened, and nothing else is. For a nonce of twelve bytes and a cipher
  that opens what it sealed under that key and nonce, the secret reads as sealed and opens to the same
  bytes, whatever bytes it holds. Under another key the answer is the cipher's, its refusal
  being the one error that says neither wrong key nor damaged value. And any text that bears the mark of
  a sealed value opens only to what the cipher vouches for, over the nonce and the body its base64 holds:
  whatever else is wrong with it gives that same error.\<close>

theorem sealed_secret_opens:
  assumes "ae_open c k nonce (ae_seal c k nonce p) = Some p" "length nonce = nonce_size"
  shows "is_sealed (seal_secret c nonce k p) \<and>
    open_secret c k (seal_secret c nonce k p) = Inr p \<and>
    open_secret c k' (seal_secret c nonce k p) =
      (case ae_open c k' nonce (ae_seal c k nonce p) of None \<Rightarrow> Inl err_auth | Some q \<Rightarrow> Inr q) \<and>
    (case open_secret c k' (''rlsec:v1:'' @ t) of
       Inr q \<Rightarrow> (\<exists>n body. b64_decode t = Some (n @ body) \<and> length n = 12 \<and> ae_open c k' n body = Some q)
     | Inl e \<Rightarrow> e = err_auth)"
proof -
  have "open_secret c k' (''rlsec:v1:'' @ t) = (case b64_decode t of
      None \<Rightarrow> Inl err_auth
    | Some raw \<Rightarrow> if length raw < nonce_size then Inl err_auth
        else (case ae_open c k' (take nonce_size raw) (drop nonce_size raw) of None \<Rightarrow> Inl err_auth | Some p \<Rightarrow> Inr p))"
    by (simp add: open_secret_def seal_prefix_def)
  moreover have "\<exists>n body. raw = n @ body \<and> length n = 12 \<and> ae_open c k' n body = Some q"
    if "\<not> length raw < nonce_size" "ae_open c k' (take nonce_size raw) (drop nonce_size raw) = Some q" for raw q
    using that by (intro exI [of _ "take nonce_size raw"] exI [of _ "drop nonce_size raw"]) (simp add: nonce_size_def)
  ultimately have "case open_secret c k' (''rlsec:v1:'' @ t) of
       Inr q \<Rightarrow> (\<exists>n body. b64_decode t = Some (n @ body) \<and> length n = 12 \<and> ae_open c k' n body = Some q)
     | Inl e \<Rightarrow> e = err_auth"
    by (auto split: option.split)
  then show ?thesis by (simp add: open_sealed assms sealed_form)
qed

text \<open>A cipher of the closed example: it writes the key before the text.\<close>

fun mark_key :: "string \<Rightarrow> string" where
  "mark_key [] = ''.''"
| "mark_key (a # k) = CHR ''x'' # a # mark_key k"

definition lab_cipher :: aead where
  "lab_cipher = \<lparr>ae_seal = (\<lambda>k n p. mark_key k @ p),
     ae_open = (\<lambda>k n x. if has_prefix x (mark_key k) then Some (drop (length (mark_key k)) x) else None)\<rparr>"

lemma marked_key: "has_prefix (mark_key k @ p) (mark_key k') \<longleftrightarrow> k' = k"
proof (induction k arbitrary: k')
  case Nil
  show ?case by (cases k') simp_all
next
  case (Cons a k)
  then show ?case by (cases k') auto
qed

theorem sealed_secret_opens_witness:
  "open_secret lab_cipher ''key'' (seal_secret lab_cipher ''twelve bytes'' ''key'' ''hook'') = Inr ''hook'' \<and>
   open_secret lab_cipher ''other'' (seal_secret lab_cipher ''twelve bytes'' ''key'' ''hook'') = Inl err_auth"
  using sealed_secret_opens [of lab_cipher "''key''" "''twelve bytes''" "''hook''" "''other''"]
  by (simp add: lab_cipher_def marked_key nonce_size_def)

end
