(* ===== verification/Config.thy ===== *)
theory Config
  imports Secrets
begin

text \<open>
  internal/config: the configuration (config.go), its lookups and its secrets (accessors.go), its
  validation (validate.go) and the refusal to write a secret in clear (io.go). \<open>url.Parse\<close> and
  \<open>net.ParseIP\<close> are parameters; reading and writing the file are left out.
\<close>

section \<open>The configuration\<close>

record provider_config =
  pv_id :: string
  pv_kind :: string
  pv_roles :: "string list"
  pv_endpoint :: string
  pv_token_id :: string
  pv_token_secret :: string
  pv_insecure :: bool
  pv_fingerprint :: string
  pv_ca_cert_path :: string
  pv_node :: string
  pv_backup_storage :: string
  pv_pool :: string
  pv_temp_id_min :: int
  pv_temp_id_max :: int
  pv_datastore :: string
  pv_pve_storage :: string

record notification =
  nt_id :: string
  nt_kind :: string
  nt_url :: string
  nt_enabled :: "bool option"

record network_profile =
  np_bridge :: string
  np_vlan_tag :: int
  np_firewall :: bool
  np_isolated :: bool

record limits =
  lm_max_concurrent_restores :: int
  lm_max_recovery_memory_mb :: int
  lm_max_recovery_disk_gb :: int

record defaults =
  df_provider :: string
  df_backup_provider :: string
  df_network :: string
  df_node :: string
  df_storage :: string

record scheduler_config =
  sf_enabled :: "bool option"
  sf_grace_period :: duration
  sf_max_queue_depth :: int

record config =
  cf_version :: int
  cf_providers :: "provider_config list"
  cf_networks :: "(string \<times> network_profile) list"
  cf_limits :: limits
  cf_defaults :: defaults
  cf_database_url :: string
  cf_scheduler :: scheduler_config
  cf_base_url :: string
  cf_notifications :: "notification list"

definition scheduler_enabled :: "config \<Rightarrow> bool" where
  "scheduler_enabled c = (case sf_enabled (cf_scheduler c) of None \<Rightarrow> True | Some b \<Rightarrow> b)"

definition new_config :: config where
  "new_config =
     \<lparr>cf_version = 1, cf_providers = [],
      cf_networks = [(''isolated'', \<lparr>np_bridge = ''vmbr99'', np_vlan_tag = 0, np_firewall = False, np_isolated = True\<rparr>)],
      cf_limits = \<lparr>lm_max_concurrent_restores = 1, lm_max_recovery_memory_mb = 16384, lm_max_recovery_disk_gb = 500\<rparr>,
      cf_defaults = \<lparr>df_provider = '''', df_backup_provider = '''', df_network = '''', df_node = '''', df_storage = ''''\<rparr>,
      cf_database_url = '''',
      cf_scheduler = \<lparr>sf_enabled = None, sf_grace_period = 0, sf_max_queue_depth = 0\<rparr>,
      cf_base_url = '''', cf_notifications = []\<rparr>"

definition network_to_core :: "network_profile \<Rightarrow> network_config" where
  "network_to_core n = \<lparr>nw_bridge = np_bridge n, nw_model = '''', nw_vlan_tag = np_vlan_tag n,
     nw_firewall = np_firewall n, nw_isolated = np_isolated n\<rparr>"


section \<open>Lookups\<close>

definition find_provider :: "config \<Rightarrow> string \<Rightarrow> goerr + provider_config" where
  "find_provider c i =
     (case find (\<lambda>p. pv_id p = i) (cf_providers c) of
        None \<Rightarrow> Inl (Plain (''no provider '' @ quoted i @ '' in config'')) | Some p \<Rightarrow> Inr p)"

definition providers_by_role :: "config \<Rightarrow> string \<Rightarrow> provider_config list" where
  "providers_by_role c role = filter (\<lambda>p. role \<in> set (pv_roles p)) (cf_providers c)"

definition find_network :: "config \<Rightarrow> string \<Rightarrow> goerr + network_profile" where
  "find_network c name =
     (case map_of (cf_networks c) name of
        None \<Rightarrow> Inl (Plain (''no network profile '' @ quoted name @ '' in config'')) | Some n \<Rightarrow> Inr n)"

definition resolve_profile :: "config \<Rightarrow> string \<Rightarrow> goerr + network_config" where
  "resolve_profile c name =
     (case find_network c name of Inl e \<Rightarrow> Inl e | Inr n \<Rightarrow> Inr (network_to_core n))"

text \<open>
  The loops that replace the first element with an id, or append: \<open>Upsert\<close>, \<open>UpsertNotification\<close>, and
  the assignments through the pointer a lookup returned.
\<close>

fun replace_first :: "('a \<Rightarrow> bool) \<Rightarrow> ('a \<Rightarrow> 'a) \<Rightarrow> 'a list \<Rightarrow> 'a list" where
  "replace_first p f [] = []"
| "replace_first p f (x # xs) = (if p x then f x # xs else x # replace_first p f xs)"

definition put_by :: "('a \<Rightarrow> string) \<Rightarrow> 'a \<Rightarrow> 'a list \<Rightarrow> 'a list" where
  "put_by key x xs = (if key x \<in> key ` set xs then replace_first (\<lambda>y. key y = key x) (\<lambda>_. x) xs else xs @ [x])"

definition upsert_provider :: "provider_config \<Rightarrow> config \<Rightarrow> config" where
  "upsert_provider p c = c\<lparr>cf_providers := put_by pv_id p (cf_providers c)\<rparr>"

definition find_notification :: "config \<Rightarrow> string \<Rightarrow> goerr + notification" where
  "find_notification c i =
     (case find (\<lambda>n. nt_id n = i) (cf_notifications c) of
        None \<Rightarrow> Inl (Plain (''no notification channel '' @ quoted i @ '' in config'')) | Some n \<Rightarrow> Inr n)"

definition upsert_notification :: "notification \<Rightarrow> config \<Rightarrow> config" where
  "upsert_notification n c = c\<lparr>cf_notifications := put_by nt_id n (cf_notifications c)\<rparr>"

fun drop_first :: "('a \<Rightarrow> bool) \<Rightarrow> 'a list \<Rightarrow> 'a list" where
  "drop_first p [] = []"
| "drop_first p (x # xs) = (if p x then xs else x # drop_first p xs)"

definition remove_notification :: "string \<Rightarrow> config \<Rightarrow> goerr + config" where
  "remove_notification i c =
     (if i \<in> nt_id ` set (cf_notifications c)
      then Inr (c\<lparr>cf_notifications := drop_first (\<lambda>n. nt_id n = i) (cf_notifications c)\<rparr>)
      else Inl (Plain (''no notification channel '' @ quoted i @ '' in config'')))"


section \<open>Secrets of the configuration\<close>

definition provider_secret :: "aead \<Rightarrow> string \<Rightarrow> provider_config \<Rightarrow> goerr + string" where
  "provider_secret ci k p =
     (if \<not> is_sealed (pv_token_secret p) then
        Inl (Plain (''provider '' @ quoted (pv_id p) @
          '' has an unsealed token_secret; re-add it (e.g. `restorelab provider add`) so it is sealed with the current master key''))
      else
        (case open_secret ci k (pv_token_secret p) of
           Inl e \<Rightarrow> Inl (Wrapped (''provider '' @ quoted (pv_id p) @ '': '' @ err_text e) e)
         | Inr s \<Rightarrow> Inr s))"

definition set_provider_secret :: "aead \<Rightarrow> string \<Rightarrow> string \<Rightarrow> string \<Rightarrow> string \<Rightarrow> config \<Rightarrow> goerr + config" where
  "set_provider_secret ci nonce k i plaintext c =
     (case find_provider c i of
        Inl e \<Rightarrow> Inl e
      | Inr _ \<Rightarrow> Inr (c\<lparr>cf_providers := replace_first (\<lambda>p. pv_id p = i)
          (\<lambda>p. p\<lparr>pv_token_secret := seal_secret ci nonce k plaintext\<rparr>) (cf_providers c)\<rparr>))"

definition redacted_provider :: "provider_config \<Rightarrow> provider_config" where
  "redacted_provider p = (if pv_token_secret p \<noteq> '''' then p\<lparr>pv_token_secret := ''***''\<rparr> else p)"

definition channel_target :: "aead \<Rightarrow> string \<Rightarrow> notification \<Rightarrow> goerr + string" where
  "channel_target ci k n =
     (if \<not> is_sealed (nt_url n) then
        Inl (Plain (''notification channel '' @ quoted (nt_id n) @
          '' has an unsealed url; re-add it (e.g. `restorelab notify add`) so it is sealed with the current master key''))
      else
        (case open_secret ci k (nt_url n) of
           Inl e \<Rightarrow> Inl (Wrapped (''notification channel '' @ quoted (nt_id n) @ '': '' @ err_text e) e)
         | Inr s \<Rightarrow> Inr s))"

definition channel_on :: "notification \<Rightarrow> bool" where
  "channel_on n = (case nt_enabled n of None \<Rightarrow> True | Some b \<Rightarrow> b)"

definition redacted_channel :: "notification \<Rightarrow> notification" where
  "redacted_channel n = (if nt_url n \<noteq> '''' then n\<lparr>nt_url := ''***''\<rparr> else n)"

text \<open>What \<open>url.Parse\<close> says of a text, and whether a host is a loopback address.\<close>

record url_parts =
  up_scheme :: string
  up_host :: string
  up_hostname :: string

record net_env =
  ne_parse :: "string \<Rightarrow> goerr + url_parts"
  ne_loopback_ip :: "string \<Rightarrow> bool"

definition is_loopback :: "net_env \<Rightarrow> string \<Rightarrow> bool" where
  "is_loopback ne host \<longleftrightarrow> host = ''localhost'' \<or> ne_loopback_ip ne host"

definition whole_url :: "net_env \<Rightarrow> string \<Rightarrow> url_parts option" where
  "whole_url ne s =
     (case ne_parse ne s of
        Inl e \<Rightarrow> None | Inr u \<Rightarrow> if up_scheme u = '''' \<or> up_host u = '''' then None else Some u)"

definition validate_notification_url :: "net_env \<Rightarrow> string \<Rightarrow> goerr option" where
  "validate_notification_url ne raw =
     (if raw = '''' then Some (Plain ''url is required'')
      else if is_sealed raw then None
      else
        (case whole_url ne raw of
           None \<Rightarrow> Some (Plain ''url is not a valid URL'')
         | Some u \<Rightarrow>
             if up_scheme u \<noteq> ''https'' \<and> \<not> is_loopback ne (up_hostname u)
             then Some (Plain (''url scheme '' @ quoted (up_scheme u) @
               '' must be https (http is only allowed to a loopback address, because a webhook url is a bearer credential)''))
             else None))"

definition set_notification_url ::
  "net_env \<Rightarrow> aead \<Rightarrow> string \<Rightarrow> string \<Rightarrow> string \<Rightarrow> string \<Rightarrow> config \<Rightarrow> goerr + config" where
  "set_notification_url ne ci nonce k i plaintext c =
     (case find_notification c i of
        Inl e \<Rightarrow> Inl e
      | Inr _ \<Rightarrow>
          (case validate_notification_url ne plaintext of
             Some e \<Rightarrow> Inl (Wrapped (''notification channel '' @ quoted i @ '': '' @ err_text e) e)
           | None \<Rightarrow> Inr (c\<lparr>cf_notifications := replace_first (\<lambda>n. nt_id n = i)
               (\<lambda>n. n\<lparr>nt_url := seal_secret ci nonce k plaintext\<rparr>) (cf_notifications c)\<rparr>)))"

text \<open>What \<open>Save\<close> checks before it writes anything.\<close>

definition save_refusal :: "config \<Rightarrow> goerr option" where
  "save_refusal c =
     (case find (\<lambda>p. pv_token_secret p \<noteq> '''' \<and> \<not> is_sealed (pv_token_secret p)) (cf_providers c) of
        Some p \<Rightarrow> Some (Plain (''refusing to save config: provider '' @ quoted (pv_id p) @
          '' has an unsealed token_secret (use Config.SetProviderSecret to seal it before saving)''))
      | None \<Rightarrow>
          (case find (\<lambda>n. nt_url n \<noteq> '''' \<and> \<not> is_sealed (nt_url n)) (cf_notifications c) of
             Some n \<Rightarrow> Some (Plain (''refusing to save config: notification '' @ quoted (nt_id n) @
               '' has an unsealed url (use Config.SetNotificationURL to seal it before saving)''))
           | None \<Rightarrow> None))"


section \<open>Validation\<close>

definition valid_kinds :: "string list" where "valid_kinds = [''proxmox'', ''pbs'']"
definition valid_roles :: "string list" where "valid_roles = [''hypervisor'', ''backup'']"
definition notification_kinds :: "string list" where "notification_kinds = [''discord'', ''slack'', ''webhook'']"

definition is_notification_kind :: "string \<Rightarrow> bool" where
  "is_notification_kind k \<longleftrightarrow> k \<in> set notification_kinds"

definition at_item :: "string \<Rightarrow> nat \<Rightarrow> string \<Rightarrow> string" where
  "at_item what i rest = what @ ''['' @ itoa (int i) @ '']'' @ rest"

definition id_problems :: "string \<Rightarrow> string \<Rightarrow> nat \<Rightarrow> string list \<Rightarrow> string \<Rightarrow> string list" where
  "id_problems what noun i seen k =
     (if k = '''' then [at_item what i '': id is required'']
      else if k \<in> set seen then [at_item what i ('': duplicate '' @ noun @ '' id '' @ quoted k)] else [])"

definition provider_problems :: "net_env \<Rightarrow> nat \<Rightarrow> provider_config \<Rightarrow> string list" where
  "provider_problems ne i p =
     (let tell = (\<lambda>rest. at_item ''providers'' i ('' ('' @ pv_id p @ ''): '' @ rest)) in
      (if pv_kind p \<notin> set valid_kinds
       then [tell (''kind '' @ quoted (pv_kind p) @ '' is not supported (proxmox, pbs)'')] else []) @
      map (\<lambda>r. tell (''role '' @ quoted r @ '' is not supported (hypervisor, backup)''))
        (filter (\<lambda>r. r \<notin> set valid_roles) (pv_roles p)) @
      (if pv_endpoint p = '''' then [tell ''endpoint is required'']
       else (case whole_url ne (pv_endpoint p) of
               None \<Rightarrow> [tell (''endpoint '' @ quoted (pv_endpoint p) @ '' is not a valid URL'')]
             | Some u \<Rightarrow> if up_scheme u \<noteq> ''https'' \<and> up_scheme u \<noteq> ''http''
                 then [tell (''endpoint scheme '' @ quoted (up_scheme u) @ '' must be http or https'')] else [])) @
      (if pv_kind p = ''proxmox'' \<and> pv_temp_id_min p \<noteq> 0 \<and> pv_temp_id_max p \<noteq> 0 \<and> pv_temp_id_min p \<ge> pv_temp_id_max p
       then [tell ''temp_id_min must be less than temp_id_max''] else []))"

definition channel_problems :: "net_env \<Rightarrow> nat \<Rightarrow> notification \<Rightarrow> string list" where
  "channel_problems ne i n =
     (let tell = (\<lambda>rest. at_item ''notifications'' i ('' ('' @ nt_id n @ ''): '' @ rest)) in
      (if \<not> is_notification_kind (nt_kind n)
       then [tell (''kind '' @ quoted (nt_kind n) @ '' is not supported ('' @ join '', '' notification_kinds @ '')'')] else []) @
      (if nt_url n = '''' then [tell ''url is required'']
       else if has_prefix (nt_url n) ''rlsec:'' then []
       else (case validate_notification_url ne (nt_url n) of None \<Rightarrow> [] | Some e \<Rightarrow> [tell (err_text e)])))"

text \<open>The loops over the providers and the channels: an id that is not empty is remembered.\<close>

fun list_problems ::
  "string \<Rightarrow> string \<Rightarrow> ('a \<Rightarrow> string) \<Rightarrow> (nat \<Rightarrow> 'a \<Rightarrow> string list) \<Rightarrow> nat \<Rightarrow> string list \<Rightarrow> 'a list \<Rightarrow> string list" where
  "list_problems what noun key check i seen [] = []"
| "list_problems what noun key check i seen (x # xs) =
     id_problems what noun i seen (key x) @ check i x @
     list_problems what noun key check (Suc i) (if key x = '''' then seen else key x # seen) xs"

definition default_network_problems :: "config \<Rightarrow> string list" where
  "default_network_problems c =
     (let name = df_network (cf_defaults c) in
      if name = '''' then []
      else (case map_of (cf_networks c) name of
              None \<Rightarrow> [''defaults.network '' @ quoted name @ '' does not name a network profile in networks'']
            | Some n \<Rightarrow> if np_isolated n then []
                else [''defaults.network '' @ quoted name @
                  '' is not marked isolated: true; a non-isolated network must never be the default, only an explicit per-plan choice'']))"

definition base_url_problems :: "net_env \<Rightarrow> config \<Rightarrow> string list" where
  "base_url_problems ne c =
     (if cf_base_url c = '''' then []
      else (case whole_url ne (cf_base_url c) of
              None \<Rightarrow> [''server.base_url '' @ quoted (cf_base_url c) @
                '' is not an absolute URL (it needs a scheme and a host, e.g. https://restorelab.example.com)'']
            | Some _ \<Rightarrow> []))"

definition validate_config :: "net_env \<Rightarrow> config \<Rightarrow> string list" where
  "validate_config ne c =
     list_problems ''providers'' ''provider'' pv_id (provider_problems ne) 0 [] (cf_providers c) @
     list_problems ''notifications'' ''notification'' nt_id (channel_problems ne) 0 [] (cf_notifications c) @
     base_url_problems ne c @ default_network_problems c"

definition validate_error :: "string list \<Rightarrow> goerr" where
  "validate_error problems = Plain (''invalid config:'' @ concat (map (\<lambda>p. [char_of (10 :: nat)] @ ''  - '' @ p) problems))"


section \<open>A configuration that is accepted\<close>

definition provider_ok :: "net_env \<Rightarrow> provider_config \<Rightarrow> bool" where
  "provider_ok ne p \<longleftrightarrow> pv_kind p \<in> set valid_kinds \<and> set (pv_roles p) \<subseteq> set valid_roles \<and>
     (case whole_url ne (pv_endpoint p) of None \<Rightarrow> False | Some u \<Rightarrow> up_scheme u = ''https'' \<or> up_scheme u = ''http'') \<and>
     pv_endpoint p \<noteq> '''' \<and>
     (pv_kind p = ''proxmox'' \<longrightarrow> pv_temp_id_min p = 0 \<or> pv_temp_id_max p = 0 \<or> pv_temp_id_min p < pv_temp_id_max p)"

definition channel_ok :: "net_env \<Rightarrow> notification \<Rightarrow> bool" where
  "channel_ok ne n \<longleftrightarrow> is_notification_kind (nt_kind n) \<and> nt_url n \<noteq> '''' \<and>
     (has_prefix (nt_url n) ''rlsec:'' \<or> validate_notification_url ne (nt_url n) = None)"

lemma provider_problems_nil: "provider_problems ne i p = [] \<longleftrightarrow> provider_ok ne p"
  by (auto simp: provider_problems_def provider_ok_def Let_def filter_empty_conv split: option.split)

lemma channel_problems_nil: "channel_problems ne i n = [] \<longleftrightarrow> channel_ok ne n"
  by (auto simp: channel_problems_def channel_ok_def Let_def split: option.split)

lemma list_problems_nil:
  "list_problems what noun key check i seen xs = [] \<longleftrightarrow>
     '''' \<notin> key ` set xs \<and> distinct (map key xs) \<and> key ` set xs \<inter> set seen = {} \<and>
     (\<forall>j < length xs. check (i + j) (xs ! j) = [])"
proof (induction xs arbitrary: i seen)
  case (Cons x xs)
  have "(\<forall>j < length (x # xs). check (i + j) ((x # xs) ! j) = []) \<longleftrightarrow>
      check i x = [] \<and> (\<forall>j < length xs. check (Suc i + j) (xs ! j) = [])"
    by (subst All_less_Suc2 [symmetric] | simp add: All_less_Suc2)+
  then show ?case using Cons by (auto simp: id_problems_def)
qed simp

text \<open>A configuration is accepted exactly when its providers have ids of their own, known kinds and
  roles and an http endpoint, its channels have ids of their own, known kinds and a URL that is
  sealed, https or of this machine, its public address is a whole URL, and the network drills use by
  default is one of its profiles and is isolated.
\<close>

theorem config_accepted_iff:
  "validate_config ne c = [] \<longleftrightarrow>
     '''' \<notin> pv_id ` set (cf_providers c) \<and> distinct (map pv_id (cf_providers c)) \<and> list_all (provider_ok ne) (cf_providers c) \<and>
     '''' \<notin> nt_id ` set (cf_notifications c) \<and> distinct (map nt_id (cf_notifications c)) \<and>
     list_all (channel_ok ne) (cf_notifications c) \<and>
     (case whole_url ne (cf_base_url c) of None \<Rightarrow> cf_base_url c = '''' | Some _ \<Rightarrow> True) \<and>
     (df_network (cf_defaults c) = '''' \<or>
       (case map_of (cf_networks c) (df_network (cf_defaults c)) of None \<Rightarrow> False | Some n \<Rightarrow> np_isolated n))"
proof -
  have "base_url_problems ne c = [] \<longleftrightarrow>
      (case whole_url ne (cf_base_url c) of None \<Rightarrow> cf_base_url c = '''' | Some _ \<Rightarrow> True)"
    by (auto simp: base_url_problems_def split: option.split)
  moreover have "default_network_problems c = [] \<longleftrightarrow> df_network (cf_defaults c) = '''' \<or>
      (case map_of (cf_networks c) (df_network (cf_defaults c)) of None \<Rightarrow> False | Some n \<Rightarrow> np_isolated n)"
    by (simp add: default_network_problems_def Let_def split: option.split)
  ultimately show ?thesis
    by (simp add: validate_config_def list_problems_nil provider_problems_nil channel_problems_nil list_all_length)
qed

text \<open>What \<open>Save\<close> lets through holds no secret in clear, and what sets a secret keeps it so.\<close>

definition secrets_sealed :: "config \<Rightarrow> bool" where
  "secrets_sealed c \<longleftrightarrow> list_all (\<lambda>p. pv_token_secret p = '''' \<or> is_sealed (pv_token_secret p)) (cf_providers c) \<and>
     list_all (\<lambda>n. nt_url n = '''' \<or> is_sealed (nt_url n)) (cf_notifications c)"

lemma find_None_all: "find P xs = None \<longleftrightarrow> list_all (\<lambda>x. \<not> P x) xs"
  by (simp add: find_None_iff list_all_iff Ball_def)

lemma save_refusal_None: "save_refusal c = None \<longleftrightarrow> secrets_sealed c"
proof -
  have "save_refusal c = None \<longleftrightarrow>
      find (\<lambda>p. pv_token_secret p \<noteq> '''' \<and> \<not> is_sealed (pv_token_secret p)) (cf_providers c) = None \<and>
      find (\<lambda>n. nt_url n \<noteq> '''' \<and> \<not> is_sealed (nt_url n)) (cf_notifications c) = None"
    by (simp add: save_refusal_def split: option.split)
  then show ?thesis unfolding find_None_all secrets_sealed_def by simp
qed

lemma is_sealed_seal [simp]: "is_sealed (seal_secret ci nonce k p)"
  by (simp add: is_sealed_def seal_secret_def)

lemma list_all_replace_first: "list_all P xs \<Longrightarrow> (\<And>x. P x \<Longrightarrow> P (f x)) \<Longrightarrow> list_all P (replace_first p f xs)"
  by (induction xs) auto

lemma set_provider_secret_sealed:
  "set_provider_secret ci nonce k i plaintext c = Inr c' \<Longrightarrow> secrets_sealed c \<Longrightarrow> secrets_sealed c'"
  by (auto simp: set_provider_secret_def secrets_sealed_def split: sum.splits intro!: list_all_replace_first)

lemma set_notification_url_sealed:
  "set_notification_url ne ci nonce k i plaintext c = Inr c' \<Longrightarrow> secrets_sealed c \<Longrightarrow> secrets_sealed c'"
  by (auto simp: set_notification_url_def secrets_sealed_def split: sum.splits option.splits intro!: list_all_replace_first)


section \<open>Looking up after an edit\<close>

lemma find_replace_first:
  "(\<And>x. key (f x) = key x) \<Longrightarrow> find (\<lambda>x. key x = i) (replace_first (\<lambda>x. key x = j) f xs) =
     (if i = j then map_option f (find (\<lambda>x. key x = j) xs) else find (\<lambda>x. key x = i) xs)"
  by (induction xs) auto

lemma map_replace_first: "(\<And>x. key (f x) = key x) \<Longrightarrow> map key (replace_first p f xs) = map key xs"
  by (induction xs) auto

lemma find_replaced:
  "key y = j \<Longrightarrow> find (\<lambda>x. key x = i) (replace_first (\<lambda>x. key x = j) (\<lambda>_. y) xs) =
     (if i = j then map_option (\<lambda>_. y) (find (\<lambda>x. key x = j) xs) else find (\<lambda>x. key x = i) xs)"
  by (induction xs) auto

lemma map_replaced: "key y = j \<Longrightarrow> map key (replace_first (\<lambda>x. key x = j) (\<lambda>_. y) xs) = map key xs"
  by (induction xs) auto

lemma find_none_key: "find (\<lambda>x. key x = i) xs = None \<longleftrightarrow> i \<notin> key ` set xs"
  by (auto simp: find_None_iff)

lemma find_put_by: "find (\<lambda>x. key x = i) (put_by key y xs) = (if i = key y then Some y else find (\<lambda>x. key x = i) xs)"
proof (cases "key y \<in> key ` set xs")
  case True
  then obtain z where "find (\<lambda>x. key x = key y) xs = Some z"
    using find_none_key [of key "key y" xs] by (cases "find (\<lambda>x. key x = key y) xs") auto
  then show ?thesis by (simp add: put_by_def True find_replaced)
next
  case False
  have "find P (xs @ [y]) = (case find P xs of None \<Rightarrow> if P y then Some y else None | r \<Rightarrow> r)" for P
    by (induction xs) auto
  then show ?thesis using False find_none_key [of key "key y" xs] by (auto simp: put_by_def split: option.split)
qed

lemma distinct_put_by: "distinct (map key xs) \<Longrightarrow> distinct (map key (put_by key y xs))"
  by (auto simp: put_by_def map_replaced)

lemma find_drop_first:
  "distinct (map key xs) \<Longrightarrow> find (\<lambda>x. key x = i) (drop_first (\<lambda>x. key x = j) xs) =
     (if i = j then None else find (\<lambda>x. key x = i) xs)"
proof (induction xs)
  case (Cons x xs)
  then show ?case using find_none_key [of key j xs] by (cases "key x = j") auto
qed simp

lemma set_drop_first: "set (drop_first p xs) \<subseteq> set xs" by (induction xs) auto

lemma drop_first_keys: "distinct (map key xs) \<Longrightarrow> distinct (map key (drop_first p xs))"
proof (induction xs)
  case (Cons x xs)
  then show ?case using set_drop_first [of p xs] by auto
qed simp

end
