(* ===== verification/Notify.thy ===== *)
theory Notify
  imports Config History
begin

text \<open>
  internal/notify without its dispatcher: what is worth a message (story.go, collapse.go), the body
  each channel is sent (channel.go, discord.go, slack.go, webhook.go) and one POST with its retry
  schedule (deliver.go). The HTTP client is a parameter; \<open>encoding/json\<close> is written out for the
  texts of the ASCII range.
\<close>

section \<open>Stories\<close>

record story =
  sy_result :: run_result
  sy_proof :: proof_level

datatype news_kind =
    KindFirstVerdict | KindVerdict | KindProofDropped | KindUnevaluable | KindEvaluable | KindValueCollapsed

fun kind_text :: "news_kind \<Rightarrow> string" where
  "kind_text KindFirstVerdict = ''first_verdict''"
| "kind_text KindVerdict = ''verdict_changed''"
| "kind_text KindProofDropped = ''proof_dropped''"
| "kind_text KindUnevaluable = ''became_unevaluable''"
| "kind_text KindEvaluable = ''became_evaluable_again''"
| "kind_text KindValueCollapsed = ''value_collapsed''"

record transition =
  tn_kind :: news_kind
  tn_current :: story
  tn_previous :: "story option"
  tn_headline :: string

definition decide_story :: "run_state \<Rightarrow> story \<Rightarrow> story option \<Rightarrow> bool \<Rightarrow> transition option" where
  "decide_story st current previous previous_unevaluable =
     (let say = (\<lambda>k h. Some \<lparr>tn_kind = k, tn_current = current, tn_previous = previous, tn_headline = h\<rparr>) in
      if \<not> terminal st then None
      else if st = RunCancelled then None
      else if st = RunInconclusive then
        (if previous_unevaluable then None
         else (case previous of
                 None \<Rightarrow> say KindUnevaluable ''first drill could not be evaluated''
               | Some p \<Rightarrow> say KindUnevaluable (''no longer evaluable, was '' @ result_string (sy_result p))))
      else
        (case previous of
           None \<Rightarrow> say KindFirstVerdict (''first verdict: '' @ result_string (sy_result current))
         | Some p \<Rightarrow>
             if sy_result current \<noteq> sy_result p
             then say KindVerdict (result_string (sy_result current) @ '', was '' @ result_string (sy_result p))
             else if previous_unevaluable
             then say KindEvaluable (''evaluable again: '' @ result_string (sy_result current))
             else if recorded (sy_proof current) \<and> recorded (sy_proof p) \<and> rank (sy_proof current) < rank (sy_proof p)
             then say KindProofDropped (''proof dropped from '' @ proof_level_string (sy_proof p) @ '' to '' @
               proof_level_string (sy_proof current))
             else None))"


section \<open>Collapsed values\<close>

text \<open>
  A Go map is the list of its entries, in the order the runtime happens to visit them.
\<close>

type_synonym readings = "(string \<times> f64) list"

definition zeroed :: "readings \<Rightarrow> bool" where
  "zeroed values \<longleftrightarrow> list_ex (\<lambda>(n, v). eq64 v (Fin 0)) values"

fun first_collapsed :: "string list \<Rightarrow> readings \<Rightarrow> (string \<times> f64) option" where
  "first_collapsed [] earlier = None"
| "first_collapsed (n # ns) earlier =
     (case map_of earlier n of
        Some was \<Rightarrow> if less64 (Fin 0) was then Some (n, was) else first_collapsed ns earlier
      | None \<Rightarrow> first_collapsed ns earlier)"

definition collapsed :: "readings \<Rightarrow> readings \<Rightarrow> (string \<times> f64) option" where
  "collapsed values earlier =
     first_collapsed (sort_strings (map fst (filter (\<lambda>(n, v). eq64 v (Fin 0)) values))) earlier"

definition decide_collapse ::
  "(f64 \<Rightarrow> string) \<Rightarrow> run_state \<Rightarrow> story \<Rightarrow> story option \<Rightarrow> readings \<Rightarrow> readings \<Rightarrow> transition option" where
  "decide_collapse ff st current previous values earlier =
     (if \<not> terminal st \<or> sy_result current = ResultNone then None
      else
        (case collapsed values earlier of
           None \<Rightarrow> None
         | Some (name, was) \<Rightarrow> Some \<lparr>tn_kind = KindValueCollapsed, tn_current = current, tn_previous = previous,
             tn_headline = name @ '' fell to zero, was '' @ ff was\<rparr>))"

text \<open>\<open>valuesByName\<close>: what was gathered so far, and the names seen twice.\<close>

fun gather :: "readings \<Rightarrow> readings \<times> string list \<Rightarrow> readings \<times> string list" where
  "gather [] acc = acc"
| "gather ((n, v) # rest) (out, twice) =
     (if n \<in> fst ` set out then gather rest (out, n # twice) else gather rest (out @ [(n, v)], twice))"

definition values_by_name :: "(int \<times> readings) list \<Rightarrow> readings" where
  "values_by_name by_check =
     (case gather (concat (map snd by_check)) ([], []) of
        (out, twice) \<Rightarrow> filter (\<lambda>(n, v). n \<notin> set twice) out)"


section \<open>Messages\<close>

record message =
  ms_workload :: string
  ms_workload_id :: string
  ms_plan_name :: string
  ms_run_id :: string
  ms_link :: string
  ms_at :: time
  ms_transition :: transition
  ms_rto :: duration

definition message_title :: "message \<Rightarrow> string" where
  "message_title m = ms_workload m @ '': '' @ tn_headline (ms_transition m)"

definition message_proof_text :: "message \<Rightarrow> string" where
  "message_proof_text m = proof_level_string (sy_proof (tn_current (ms_transition m)))"

definition message_rto_text :: "message \<Rightarrow> string" where
  "message_rto_text m = (if ms_rto m \<le> 0 then ''--'' else dur_string (dur_round (ms_rto m) second))"

text \<open>
  What \<open>json.Marshal\<close> makes of the payloads: objects keep the order of the struct's fields; the three
  HTML characters are escaped.
\<close>

datatype json = JStr string | JInt int | JBool bool | JArr "json list" | JObj "(string \<times> json) list"

definition json_char :: "char \<Rightarrow> string" where
  "json_char c =
     (let n = (of_char c :: nat); esc = (\<lambda>k :: nat. [char_of (92 :: nat), char_of k]) in
      if n = 34 then esc 34 else if n = 92 then esc 92
      else if n = 8 then esc 98 else if n = 12 then esc 102 else if n = 10 then esc 110
      else if n = 13 then esc 114 else if n = 9 then esc 116
      else if n < 32 \<or> n = 60 \<or> n = 62 \<or> n = 38
      then esc 117 @ ''00'' @ [hex_char (n div 16), hex_char (n mod 16)]
      else [c])"

definition json_string :: "string \<Rightarrow> string" where
  "json_string s = [char_of (34 :: nat)] @ concat (map json_char s) @ [char_of (34 :: nat)]"

fun marshal_json :: "json \<Rightarrow> string" where
  "marshal_json (JStr s) = json_string s"
| "marshal_json (JInt n) = itoa n"
| "marshal_json (JBool b) = (if b then ''true'' else ''false'')"
| "marshal_json (JArr xs) = ''['' @ join '','' (map marshal_json xs) @ '']''"
| "marshal_json (JObj fs) = ''{'' @ join '','' (map (\<lambda>(k, v). json_string k @ '':'' @ marshal_json v) fs) @ ''}''"

definition omit_empty :: "string \<Rightarrow> string \<Rightarrow> (string \<times> json) list" where
  "omit_empty k s = (if s = '''' then [] else [(k, JStr s)])"

subsection \<open>Discord\<close>

definition colour_success :: int where "colour_success = 0x2ea043"
definition colour_degraded :: int where "colour_degraded = 0xd29922"
definition colour_failed :: int where "colour_failed = 0xda3633"
definition colour_no_verdict :: int where "colour_no_verdict = 0x8b949e"

definition verdict_colour :: "run_result \<Rightarrow> int" where
  "verdict_colour r = (case r of ResultSuccess \<Rightarrow> colour_success | ResultDegraded \<Rightarrow> colour_degraded
     | ResultFailed \<Rightarrow> colour_failed | ResultNone \<Rightarrow> colour_no_verdict)"

definition embed_colour :: "transition \<Rightarrow> int" where
  "embed_colour t = (if tn_kind t = KindValueCollapsed then colour_degraded else verdict_colour (sy_result (tn_current t)))"

definition embed_field :: "string \<Rightarrow> string \<Rightarrow> json" where
  "embed_field name v = JObj [(''name'', JStr name), (''value'', JStr v), (''inline'', JBool True)]"

definition discord_payload :: "message \<Rightarrow> json" where
  "discord_payload m =
     JObj [(''embeds'', JArr [JObj (
       [(''title'', JStr (ms_workload m))] @ omit_empty ''url'' (ms_link m) @
       [(''description'', JStr (tn_headline (ms_transition m))),
        (''color'', JInt (embed_colour (ms_transition m))),
        (''timestamp'', JStr (format_rfc3339 (ms_at m))),
        (''fields'', JArr ([embed_field ''Plan'' (ms_plan_name m), embed_field ''Proof'' (message_proof_text m),
           embed_field ''Recovery time'' (message_rto_text m)] @
           (case tn_previous (ms_transition m) of
              None \<Rightarrow> []
            | Some p \<Rightarrow> [embed_field ''Previously'' (result_string (sy_result p) @ '' at '' @ proof_level_string (sy_proof p))]))),
        (''footer'', JObj [(''text'', JStr (''run '' @ ms_run_id m))])])])]"

subsection \<open>Slack\<close>

definition slack_text :: "string \<Rightarrow> string \<Rightarrow> json" where
  "slack_text t s = JObj [(''type'', JStr t), (''text'', JStr s)]"

definition slack_field :: "string \<Rightarrow> string \<Rightarrow> json" where
  "slack_field name v = slack_text ''mrkdwn'' (''*'' @ name @ ''*'' @ [char_of (10 :: nat)] @ v)"

definition slack_payload :: "message \<Rightarrow> json" where
  "slack_payload m =
     JObj [(''text'', JStr (message_title m)), (''blocks'', JArr (
       [JObj [(''type'', JStr ''header''), (''text'', slack_text ''plain_text'' (ms_workload m))],
        JObj [(''type'', JStr ''section''), (''text'', slack_text ''plain_text'' (tn_headline (ms_transition m)))],
        JObj [(''type'', JStr ''section''), (''fields'', JArr
          [slack_field ''Plan'' (ms_plan_name m), slack_field ''Proof'' (message_proof_text m),
           slack_field ''Recovery time'' (message_rto_text m), slack_field ''Run'' (ms_run_id m)])]] @
       (if ms_link m = '''' then []
        else [JObj [(''type'', JStr ''actions''), (''elements'', JArr
          [JObj [(''type'', JStr ''button''), (''text'', slack_text ''plain_text'' ''Open in RestoreLab''),
             (''url'', JStr (ms_link m))]])]])))]"

subsection \<open>The generic webhook\<close>

definition webhook_schema :: string where "webhook_schema = ''restorelab.notification.v1''"

definition webhook_story :: "story \<Rightarrow> json" where
  "webhook_story s = JObj [(''result'', JStr (result_string (sy_result s))), (''proof_level'', JStr (proof_text (sy_proof s)))]"

definition webhook_payload :: "message \<Rightarrow> json" where
  "webhook_payload m =
     JObj ([(''schema'', JStr webhook_schema), (''kind'', JStr (kind_text (tn_kind (ms_transition m)))),
       (''headline'', JStr (tn_headline (ms_transition m))), (''at'', JStr (format_rfc3339 (ms_at m))),
       (''workload'', JObj [(''id'', JStr (ms_workload_id m)), (''name'', JStr (ms_workload m))]),
       (''plan'', JStr (ms_plan_name m)),
       (''run'', JObj ([(''id'', JStr (ms_run_id m))] @ omit_empty ''link'' (ms_link m) @
          (if duration_ms (ms_rto m) = 0 then [] else [(''rto_ms'', JInt (duration_ms (ms_rto m)))]))),
       (''current'', webhook_story (tn_current (ms_transition m)))] @
       (case tn_previous (ms_transition m) of None \<Rightarrow> [] | Some p \<Rightarrow> [(''previous'', webhook_story p)]))"

subsection \<open>The registry of channels\<close>

definition channel_kinds :: "string list" where
  "channel_kinds = sort_strings [''discord'', ''slack'', ''webhook'']"

definition channel_for_kind :: "string \<Rightarrow> goerr + (message \<Rightarrow> string)" where
  "channel_for_kind k =
     (if k = ''discord'' then Inr (\<lambda>m. marshal_json (discord_payload m))
      else if k = ''slack'' then Inr (\<lambda>m. marshal_json (slack_payload m))
      else if k = ''webhook'' then Inr (\<lambda>m. marshal_json (webhook_payload m))
      else Inl (Plain (''notify: unknown channel kind '' @ quoted k @ '' (known kinds: '' @ join '', '' channel_kinds @ '')'')))"


section \<open>One POST\<close>

text \<open>
  What the client answers: the request could not be built, the transport failed (\<open>net/url\<close> wraps the
  cause in an error whose text repeats the whole URL), or a response came: its status, its
  Retry-After header and its body.
\<close>

datatype http_failure = UrlFailure string goerr | PlainFailure goerr

datatype http_answer = BuildFailed http_failure | TransportFailed http_failure | Responded int string string

definition without_url :: "http_failure \<Rightarrow> goerr" where
  "without_url f = (case f of UrlFailure m e \<Rightarrow> e | PlainFailure e \<Rightarrow> e)"

record post_result =
  pt_status :: int
  pt_err :: "goerr option"
  pt_retry :: bool
  pt_retry_at :: duration

definition attempts_schedule :: "duration list" where
  "attempts_schedule = [0, 30 * second, 2 * minute, 8 * minute]"

definition max_retry_after :: duration where "max_retry_after = 10 * minute"
definition max_response_body :: nat where "max_response_body = 4096"
definition err_body_snippet :: nat where "err_body_snippet = 512"

definition classify :: "int \<Rightarrow> string \<Rightarrow> goerr option" where
  "classify status body =
     (if 200 \<le> status \<and> status < 300 then None
      else
        (let base = Plain (''notify: refused with status '' @ itoa status @ '': '' @ take err_body_snippet (trim_space body))
         in if status \<ge> 500 \<or> status = 429 then Some (Retry_Err base) else Some base))"

definition retry_after :: "string \<Rightarrow> duration" where
  "retry_after header =
     (case atoi header of
        None \<Rightarrow> 0
      | Some secs \<Rightarrow>
          if secs \<le> 0 then 0
          else (let d = wrap64 (secs * second) in if d > max_retry_after then max_retry_after else d))"

definition next_attempt :: "int \<Rightarrow> post_result \<Rightarrow> duration option" where
  "next_attempt attempts r =
     (if \<not> pt_retry r \<or> attempts < 0 \<or> attempts \<ge> int (length attempts_schedule) then None
      else if pt_retry_at r > 0 then Some (pt_retry_at r)
      else Some (attempts_schedule ! nat attempts))"

text \<open>\<open>Post\<close>: \<open>stopping\<close> is \<open>ctx.Err()\<close> once the request failed.\<close>

definition post_outcome :: "http_answer \<Rightarrow> goerr option \<Rightarrow> post_result" where
  "post_outcome a stopping =
     (case a of
        BuildFailed f \<Rightarrow> \<lparr>pt_status = 0, pt_err = Some (Wrapped (''notify: build request: '' @ err_text (without_url f)) (without_url f)),
          pt_retry = False, pt_retry_at = 0\<rparr>
      | TransportFailed f \<Rightarrow>
          (case stopping of
             Some e \<Rightarrow> \<lparr>pt_status = 0, pt_err = Some (Wrapped (''notify: delivery abandoned: '' @ err_text e) e),
               pt_retry = False, pt_retry_at = 0\<rparr>
           | None \<Rightarrow> \<lparr>pt_status = 0,
               pt_err = Some (Retry_Err (Wrapped (''notify: post: '' @ err_text (without_url f)) (without_url f))),
               pt_retry = True, pt_retry_at = 0\<rparr>)
      | Responded status header body \<Rightarrow>
          (let e = classify status (take max_response_body body);
               again = (case e of None \<Rightarrow> False | Some e \<Rightarrow> is_retryable e)
           in \<lparr>pt_status = status, pt_err = e, pt_retry = again,
               pt_retry_at = (if again \<and> status = 429 then retry_after header else 0)\<rparr>))"

end
