(* ===== verification/Dispatcher.thy ===== *)
theory Dispatcher
  imports Notify
begin

text \<open>
  internal/notify/dispatcher.go: one pass reads the runs nobody was told about, decides what each is
  worth saying, records one delivery per channel, then posts what is due and records what became of
  it. The clock, the ids, the context, the configuration, the HTTP client and the failures of the
  database's driver are the outside, each an effect on a world \<open>'w\<close>; log lines are left out.
\<close>

section \<open>Outside\<close>

datatype store_call =
    ReadUnnotified | ClaimNotify string | ReadStory string | ReadValues string
  | WriteDelivery string string | ReadDue | WriteOutcome string

record 'w outside =
  ov_channels :: "'w \<Rightarrow> notification list option \<times> 'w"
  ov_now :: "'w \<Rightarrow> time \<times> 'w"
  ov_new_id :: "'w \<Rightarrow> string \<times> 'w"
  ov_ctx_err :: "'w \<Rightarrow> goerr option"
  ov_post :: "string \<Rightarrow> string \<Rightarrow> 'w \<Rightarrow> http_answer \<times> 'w"
  ov_fault :: "store_call \<Rightarrow> 'w \<Rightarrow> goerr option \<times> 'w"

record dispatcher_options =
  dx_batch :: int
  dx_max_age :: duration
  dx_base_url :: string
  dx_cipher :: aead
  dx_key :: string
  dx_dialect :: dialect
  dx_constraint :: goerr
  dx_format :: "f64 \<Rightarrow> string"

record 'w desk =
  dk_world :: 'w
  dk_db :: db
  dk_complained :: "string \<rightharpoonup> string"

definition default_batch :: int where "default_batch = 50"
definition default_max_age :: duration where "default_max_age = 24 * hour"

definition new_dispatcher :: "dispatcher_options \<Rightarrow> dispatcher_options" where
  "new_dispatcher o0 = o0\<lparr>dx_base_url := trim_suffix (dx_base_url o0) ''/'',
     dx_batch := (if dx_batch o0 \<le> 0 then default_batch else dx_batch o0),
     dx_max_age := (if dx_max_age o0 = 0 then default_max_age else dx_max_age o0)\<rparr>"

definition outside :: "('w \<Rightarrow> 'a \<times> 'w) \<Rightarrow> 'w desk \<Rightarrow> 'a \<times> 'w desk" where
  "outside f s = (case f (dk_world s) of (a, w) \<Rightarrow> (a, s\<lparr>dk_world := w\<rparr>))"

definition with_db :: "(db \<Rightarrow> 'a \<times> db) \<Rightarrow> 'w desk \<Rightarrow> 'a \<times> 'w desk" where
  "with_db f s = (case f (dk_db s) of (a, b) \<Rightarrow> (a, s\<lparr>dk_db := b\<rparr>))"

definition stopped :: "'w outside \<Rightarrow> 'w desk \<Rightarrow> bool" where
  "stopped ov s \<longleftrightarrow> ov_ctx_err ov (dk_world s) \<noteq> None"


section \<open>Channels\<close>

record channel =
  ch_config :: notification
  ch_render :: "message \<Rightarrow> string"

text \<open>\<open>resolve\<close>: what is on and has a rendering; a bad kind is complained about once.\<close>

fun resolve_channels ::
  "notification list \<Rightarrow> (string \<rightharpoonup> string) \<Rightarrow> channel list \<times> (string \<rightharpoonup> string)" where
  "resolve_channels [] said = ([], said)"
| "resolve_channels (n # ns) said =
     (if \<not> channel_on n then resolve_channels ns said
      else
        (case channel_for_kind (nt_kind n) of
           Inl e \<Rightarrow> resolve_channels ns (if said (nt_id n) = Some (nt_kind n) then said else said(nt_id n \<mapsto> nt_kind n))
         | Inr render \<Rightarrow>
             (case resolve_channels ns said of
                (out, said) \<Rightarrow> (\<lparr>ch_config = n, ch_render = render\<rparr> # out, said))))"

definition dispatcher_resolve :: "'w outside \<Rightarrow> 'w desk \<Rightarrow> channel list \<times> 'w desk" where
  "dispatcher_resolve ov s =
     (case outside (ov_channels ov) s of
        (None, s) \<Rightarrow> ([], s)
      | (Some ns, s) \<Rightarrow>
          (case resolve_channels ns (dk_complained s) of (out, said) \<Rightarrow> (out, s\<lparr>dk_complained := said\<rparr>)))"

definition channel_by_id :: "channel list \<Rightarrow> string \<Rightarrow> channel option" where
  "channel_by_id chs i = find (\<lambda>c. nt_id (ch_config c) = i) chs"


section \<open>Deciding\<close>

definition ended_at_summary :: "run_summary \<Rightarrow> time" where
  "ended_at_summary r = (if is_zero (rs_completed_at r) then rs_started_at r else rs_completed_at r)"

definition too_old :: "'w outside \<Rightarrow> dispatcher_options \<Rightarrow> run_summary \<Rightarrow> 'w desk \<Rightarrow> bool \<times> 'w desk" where
  "too_old ov dx run s =
     (if dx_max_age dx < 0 then (False, s)
      else if is_zero (ended_at_summary run) then (True, s)
      else (case outside (ov_now ov) s of (t, s) \<Rightarrow> (time_sub t (ended_at_summary run) > dx_max_age dx, s)))"

text \<open>The entries of \<open>RunCheckValues\<close>, by check then by name.\<close>

definition check_value_entries :: "string \<Rightarrow> db \<Rightarrow> (int \<times> readings) list" where
  "check_value_entries rid s =
     (let rows = filter (\<lambda>r. vr_run_id r = rid) (db_values s)
      in map (\<lambda>seq. (seq, map (\<lambda>r. (vr_name r, vr_value r)) (filter (\<lambda>r. vr_check_seq r = seq) rows)))
           (remdups (map vr_check_seq rows)))"

definition measured_by :: "'w outside \<Rightarrow> string \<Rightarrow> 'w desk \<Rightarrow> readings \<times> 'w desk" where
  "measured_by ov rid s =
     (case outside (ov_fault ov (ReadValues rid)) s of
        (Some e, s) \<Rightarrow> ([], s)
      | (None, s) \<Rightarrow> (values_by_name (check_value_entries rid (dk_db s)), s))"

definition consider_values ::
  "'w outside \<Rightarrow> dispatcher_options \<Rightarrow> run_summary \<Rightarrow> story \<Rightarrow> story option \<Rightarrow> run_summary option \<Rightarrow> 'w desk \<Rightarrow>
   transition option \<times> 'w desk" where
  "consider_values ov dx run current previous before s =
     (case before of
        None \<Rightarrow> (None, s)
      | Some b \<Rightarrow>
          if rs_result run = ResultNone then (None, s)
          else
            (case measured_by ov (rs_id run) s of
               (values, s) \<Rightarrow>
                 if \<not> zeroed values then (None, s)
                 else (case measured_by ov (rs_id b) s of
                         (earlier, s) \<Rightarrow> (decide_collapse (dx_format dx) (rs_state run) current previous values earlier, s))))"

definition run_link :: "dispatcher_options \<Rightarrow> string \<Rightarrow> string" where
  "run_link dx rid = (if dx_base_url dx = '''' then '''' else dx_base_url dx @ ''/runs/'' @ rid)"

definition run_message :: "dispatcher_options \<Rightarrow> run_summary \<Rightarrow> transition \<Rightarrow> message" where
  "run_message dx run t =
     \<lparr>ms_workload = (if rs_source_name run = '''' then rs_source_workload_id run else rs_source_name run),
      ms_workload_id = rs_source_workload_id run, ms_plan_name = rs_plan_name run, ms_run_id = rs_id run,
      ms_link = run_link dx (rs_id run), ms_at = ended_at_summary run, ms_transition = t, ms_rto = rs_rto run\<rparr>"

definition queued_delivery :: "string \<Rightarrow> time \<Rightarrow> channel \<Rightarrow> run_summary \<Rightarrow> message \<Rightarrow> delivery" where
  "queued_delivery i t ch run msg =
     \<lparr>dl_id = i, dl_run_id = rs_id run, dl_channel_id = nt_id (ch_config ch),
      dl_kind = kind_text (tn_kind (ms_transition msg)), dl_state = DeliveryPending, dl_attempts = 0,
      dl_next_at = t, dl_status = 0, dl_err = '''', dl_payload = ch_render ch msg, dl_created_at = t,
      dl_sent_at = zero_time\<rparr>"

definition queue_message ::
  "'w outside \<Rightarrow> dispatcher_options \<Rightarrow> channel \<Rightarrow> run_summary \<Rightarrow> message \<Rightarrow> 'w desk \<Rightarrow> 'w desk" where
  "queue_message ov dx ch run msg s =
     (case outside (ov_now ov) s of
        (t, s) \<Rightarrow>
          (case outside (ov_new_id ov) s of
             (i, s) \<Rightarrow>
               (case outside (ov_fault ov (WriteDelivery (rs_id run) (nt_id (ch_config ch)))) s of
                  (Some e, s) \<Rightarrow> s
                | (None, s) \<Rightarrow> snd (with_db (create_delivery (dx_constraint dx) (queued_delivery i t ch run msg)) s))))"

primrec queue_all ::
  "'w outside \<Rightarrow> dispatcher_options \<Rightarrow> channel list \<Rightarrow> run_summary \<Rightarrow> message \<Rightarrow> 'w desk \<Rightarrow> 'w desk" where
  "queue_all ov dx [] run msg s = s"
| "queue_all ov dx (ch # chs) run msg s =
     (if stopped ov s then s else queue_all ov dx chs run msg (queue_message ov dx ch run msg s))"

definition tell_story ::
  "'w outside \<Rightarrow> dispatcher_options \<Rightarrow> channel list \<Rightarrow> run_summary \<Rightarrow> 'w desk \<Rightarrow> 'w desk" where
  "tell_story ov dx chs run s =
     (case outside (ov_fault ov (ReadStory (rs_id run))) s of
        (Some e, s) \<Rightarrow> s
      | (None, s) \<Rightarrow>
          (let (before, unevaluable) = previous_story (rs_source_workload_id run)
                 \<lparr>po_started_at = rs_started_at run, po_id = rs_id run\<rparr> (dk_db s);
               previous = map_option (\<lambda>b. \<lparr>sy_result = rs_result b, sy_proof = rs_proof_level b\<rparr>) before;
               current = \<lparr>sy_result = rs_result run, sy_proof = rs_proof_level run\<rparr>;
               (said, s) = (case decide_story (rs_state run) current previous unevaluable of
                  Some t \<Rightarrow> (Some t, s)
                | None \<Rightarrow> consider_values ov dx run current previous before s)
           in case said of None \<Rightarrow> s | Some t \<Rightarrow> queue_all ov dx chs run (run_message dx run t) s))"

definition consider_run ::
  "'w outside \<Rightarrow> dispatcher_options \<Rightarrow> channel list \<Rightarrow> run_summary \<Rightarrow> 'w desk \<Rightarrow> 'w desk" where
  "consider_run ov dx chs run s =
     (case outside (ov_now ov) s of
        (t, s) \<Rightarrow>
          (case outside (ov_fault ov (ClaimNotify (rs_id run))) s of
             (Some e, s) \<Rightarrow> s
           | (None, s) \<Rightarrow>
               (case with_db (claim_run_for_notify (rs_id run) t) s of
                  (won, s) \<Rightarrow>
                    if \<not> won then s
                    else (case too_old ov dx run s of
                            (old, s) \<Rightarrow> if old then s else tell_story ov dx chs run s))))"

primrec consider_runs ::
  "'w outside \<Rightarrow> dispatcher_options \<Rightarrow> channel list \<Rightarrow> run_summary list \<Rightarrow> 'w desk \<Rightarrow> 'w desk" where
  "consider_runs ov dx chs [] s = s"
| "consider_runs ov dx chs (run # runs) s =
     (if stopped ov s then s else consider_runs ov dx chs runs (consider_run ov dx chs run s))"

definition dispatcher_decide :: "'w outside \<Rightarrow> dispatcher_options \<Rightarrow> channel list \<Rightarrow> 'w desk \<Rightarrow> 'w desk" where
  "dispatcher_decide ov dx chs s =
     (case outside (ov_fault ov ReadUnnotified) s of
        (Some e, s) \<Rightarrow> s
      | (None, s) \<Rightarrow> consider_runs ov dx chs (unnotified_runs (dx_batch dx) (dk_db s)) s)"


section \<open>Delivering\<close>

definition abandoned :: "goerr option \<Rightarrow> post_result \<Rightarrow> bool" where
  "abandoned stopping r \<longleftrightarrow>
     (case pt_err r of
        None \<Rightarrow> False
      | Some e \<Rightarrow> errors_is e CtxCanceled \<or> stopping \<noteq> None \<and> errors_is e CtxDeadlineExceeded)"

text \<open>\<open>strings.ReplaceAll\<close> for a text that is not empty.\<close>

function replace_all :: "string \<Rightarrow> string \<Rightarrow> string \<Rightarrow> string" where
  "replace_all old new s =
     (if s = [] \<or> old = [] then s
      else if has_prefix s old then new @ replace_all old new (drop (length old) s)
      else hd s # replace_all old new (tl s))"
  by pat_completeness auto
termination
  by (relation "measure (\<lambda>(old, new, s). length s)") auto

declare replace_all.simps [simp del]

definition redact :: "string \<Rightarrow> string \<Rightarrow> string \<Rightarrow> string" where
  "redact msg target channel_id =
     (if target \<noteq> '''' then replace_all target (''<url of channel '' @ channel_id @ ''>'') msg else msg)"

definition settle_outcome :: "'w outside \<Rightarrow> delivery \<Rightarrow> 'w desk \<Rightarrow> 'w desk" where
  "settle_outcome ov row s =
     (case outside (ov_fault ov (WriteOutcome (dl_id row))) s of
        (Some e, s) \<Rightarrow> s
      | (None, s) \<Rightarrow> snd (with_db (settle_delivery row) s))"

definition fail_delivery :: "'w outside \<Rightarrow> delivery \<Rightarrow> string \<Rightarrow> 'w desk \<Rightarrow> 'w desk" where
  "fail_delivery ov row reason s =
     settle_outcome ov (row\<lparr>dl_attempts := wrap64 (dl_attempts row + 1), dl_state := DeliveryFailed, dl_status := 0,
       dl_err := reason, dl_next_at := zero_time\<rparr>) s"

definition record_post :: "'w outside \<Rightarrow> delivery \<Rightarrow> string \<Rightarrow> post_result \<Rightarrow> 'w desk \<Rightarrow> 'w desk" where
  "record_post ov row target r s =
     (let row = row\<lparr>dl_attempts := wrap64 (dl_attempts row + 1), dl_status := pt_status r\<rparr> in
      case pt_err r of
        None \<Rightarrow>
          (case outside (ov_now ov) s of
             (t, s) \<Rightarrow> settle_outcome ov (row\<lparr>dl_state := DeliverySent, dl_err := '''', dl_sent_at := t,
               dl_next_at := zero_time\<rparr>) s)
      | Some e \<Rightarrow>
          (let reason = redact (err_text e) target (dl_channel_id row) in
           case next_attempt (dl_attempts row) r of
             Some wait \<Rightarrow>
               (case outside (ov_now ov) s of
                  (t, s) \<Rightarrow> settle_outcome ov (row\<lparr>dl_state := DeliveryPending, dl_err := reason,
                    dl_next_at := t + wait\<rparr>) s)
           | None \<Rightarrow> settle_outcome ov (row\<lparr>dl_state := DeliveryFailed, dl_err := reason, dl_next_at := zero_time\<rparr>) s))"

definition attempt_delivery ::
  "'w outside \<Rightarrow> dispatcher_options \<Rightarrow> channel list \<Rightarrow> delivery \<Rightarrow> 'w desk \<Rightarrow> 'w desk" where
  "attempt_delivery ov dx chs row s =
     (case channel_by_id chs (dl_channel_id row) of
        None \<Rightarrow> fail_delivery ov row (''channel '' @ quoted (dl_channel_id row) @ '' is no longer configured'') s
      | Some ch \<Rightarrow>
          (case channel_target (dx_cipher dx) (dx_key dx) (ch_config ch) of
             Inl e \<Rightarrow> fail_delivery ov row (err_text e) s
           | Inr target \<Rightarrow>
               (case outside (ov_post ov target (dl_payload row)) s of
                  (a, s) \<Rightarrow>
                    (let r = post_outcome a (ov_ctx_err ov (dk_world s)) in
                     if abandoned (ov_ctx_err ov (dk_world s)) r then s else record_post ov row target r s))))"

primrec attempt_all ::
  "'w outside \<Rightarrow> dispatcher_options \<Rightarrow> channel list \<Rightarrow> delivery list \<Rightarrow> 'w desk \<Rightarrow> 'w desk" where
  "attempt_all ov dx chs [] s = s"
| "attempt_all ov dx chs (row # rows) s =
     (if stopped ov s then s else attempt_all ov dx chs rows (attempt_delivery ov dx chs row s))"

definition dispatcher_deliver :: "'w outside \<Rightarrow> dispatcher_options \<Rightarrow> channel list \<Rightarrow> 'w desk \<Rightarrow> 'w desk" where
  "dispatcher_deliver ov dx chs s =
     (case outside (ov_now ov) s of
        (t, s) \<Rightarrow>
          (case outside (ov_fault ov ReadDue) s of
             (Some e, s) \<Rightarrow> s
           | (None, s) \<Rightarrow> attempt_all ov dx chs (due_deliveries (dx_dialect dx) t (dx_batch dx) (dk_db s)) s))"

definition dispatcher_tick :: "'w outside \<Rightarrow> dispatcher_options \<Rightarrow> 'w desk \<Rightarrow> 'w desk" where
  "dispatcher_tick ov dx s =
     (case dispatcher_resolve ov s of
        (chs, s) \<Rightarrow> dispatcher_deliver ov dx chs (dispatcher_decide ov dx chs s))"

end
