(* ===== verification/Notify_Safety.thy ===== *)
theory Notify_Safety
  imports Dispatcher History_Safety
begin

text \<open>
  What the notifications promise: a message exactly when what is proven changed, about the right
  number, with no credential in what is recorded, and a queue where every delivery is tried a bounded
  number of times and never touched again once it is over.
\<close>

section \<open>When there is news\<close>

definition proof_fell :: "story \<Rightarrow> story \<Rightarrow> bool" where
  "proof_fell current p \<longleftrightarrow>
     recorded (sy_proof current) \<and> recorded (sy_proof p) \<and> rank (sy_proof current) < rank (sy_proof p)"

text \<open>When a finished drill is worth a message. A run is silent when it is not over, when a human
  cancelled it, when it could not be evaluated and neither could the one before, or when it says what
  the last graded run said: the same verdict, evaluated both times, and a proof no lower. In every
  other case something is said; in particular the same story twice in a row is said once, and a
  change of verdict is always said.\<close>

theorem news_iff:
  "decide_story st current previous unevaluable \<noteq> None \<longleftrightarrow>
     terminal st \<and> st \<noteq> RunCancelled \<and>
     (if st = RunInconclusive then \<not> unevaluable
      else (case previous of
              None \<Rightarrow> True
            | Some p \<Rightarrow> sy_result current \<noteq> sy_result p \<or> unevaluable \<or> proof_fell current p))"
  by (auto simp: decide_story_def Let_def proof_fell_def split: option.split)

lemma same_story_is_silent:
  "st \<noteq> RunInconclusive \<Longrightarrow> decide_story st s (Some s) False = None"
  by (simp add: decide_story_def)

text \<open>
  A run that a sweep settled is FAILED with no verdict: it reads as a change of verdict to nothing.
\<close>

lemma settled_by_sweep_reads_as_change:
  assumes "sy_result p = ResultSuccess"
  shows "map_option tn_headline (decide_story RunFailed \<lparr>sy_result = ResultNone, sy_proof = l\<rparr> (Some p) False) =
    Some '', was SUCCESS''"
  using assms by (simp add: decide_story_def)


section \<open>Collapsed values\<close>

lemma insert_sorted_by: "insert_sorted x xs = insert_by str_le_code x xs"
  by (induction xs) simp_all

lemma sorted_sort_strings: "sorted_wrt str_le_code (sort_strings xs)"
  using text_order.sorted_order_by [of xs]
  by (simp add: sort_strings_def order_by_def insert_sorted_by [abs_def])

definition fell :: "readings \<Rightarrow> string \<Rightarrow> f64 \<Rightarrow> bool" where
  "fell earlier n was \<longleftrightarrow> map_of earlier n = Some was \<and> less64 (Fin 0) was"

lemma first_collapsed_iff:
  "sorted_wrt str_le_code ns \<Longrightarrow> first_collapsed ns earlier = Some (n, was) \<longleftrightarrow>
     n \<in> set ns \<and> fell earlier n was \<and> (\<forall>m \<in> set ns. (\<exists>v. fell earlier m v) \<longrightarrow> str_le_code n m)"
proof (induction ns)
  case (Cons m ns)
  show ?case
  proof (cases "\<exists>v. fell earlier m v")
    case True
    then obtain v where v: "fell earlier m v" by blast
    then have "first_collapsed (m # ns) earlier = Some (m, v)" by (simp add: fell_def)
    moreover have "fell earlier m w \<longleftrightarrow> w = v" for w using v by (auto simp: fell_def)
    ultimately show ?thesis
      using Cons.prems v str_le_antisym by (auto dest: str_le_antisym)
  next
    case False
    then have "first_collapsed (m # ns) earlier = first_collapsed ns earlier"
      by (auto simp: fell_def split: option.split)
    then show ?thesis using Cons False by auto
  qed
qed simp

text \<open>A collapse names one number, always the same one: the first by name of those that read zero
  now and were positive in the last graded run. There is a message about values exactly when such
  a number exists and the run reached a verdict.\<close>

lemma collapse_names_the_first:
  "collapsed values earlier = Some (n, was) \<longleftrightarrow>
     (\<exists>v. (n, v) \<in> set values \<and> eq64 v (Fin 0)) \<and> fell earlier n was \<and>
     (\<forall>m v w. (m, v) \<in> set values \<and> eq64 v (Fin 0) \<and> fell earlier m w \<longrightarrow> str_le_code n m)"
  unfolding collapsed_def by (subst first_collapsed_iff [OF sorted_sort_strings]) force

lemma count_two: "2 \<le> Suc (length (filter (\<lambda>(m, _). m = n) vs)) \<longleftrightarrow> n \<in> fst ` set vs"
proof -
  have "length (filter (\<lambda>(m, _). m = n) vs) = 0 \<longleftrightarrow> n \<notin> fst ` set vs"
    by (force simp: filter_empty_conv)
  then show ?thesis by (cases "length (filter (\<lambda>(m, _). m = n) vs)") simp_all
qed

lemma gather_facts:
  assumes "gather vs (out, twice) = (out', twice')" "distinct (map fst out)"
  shows "distinct (map fst out') \<and>
    map_of out' n = (case map_of out n of Some v \<Rightarrow> Some v | None \<Rightarrow> map_of vs n) \<and>
    (n \<in> set twice' \<longleftrightarrow> n \<in> set twice \<or> (n \<in> fst ` set out \<and> n \<in> fst ` set vs) \<or>
      2 \<le> length (filter (\<lambda>(m, _). m = n) vs))"
  using assms
proof (induction vs arbitrary: out twice)
  case (Cons mv vs)
  obtain m v where mv: "mv = (m, v)" by fastforce
  show ?case
  proof (cases "m \<in> fst ` set out")
    case True
    then have g: "gather vs (out, m # twice) = (out', twice')" using Cons.prems(1) by (simp add: mv)
    have "map_of out n = None \<longrightarrow> m \<noteq> n" using True by (auto simp: map_of_eq_None_iff)
    then have maps: "(case map_of out n of Some w \<Rightarrow> Some w | None \<Rightarrow> map_of (mv # vs) n) =
        (case map_of out n of Some w \<Rightarrow> Some w | None \<Rightarrow> map_of vs n)"
      by (cases "map_of out n") (simp_all add: mv)
    have names: "n \<in> set (m # twice) \<or> n \<in> fst ` set out \<and> n \<in> fst ` set vs \<or> 2 \<le> length (filter (\<lambda>(m, _). m = n) vs) \<longleftrightarrow>
        n \<in> set twice \<or> n \<in> fst ` set out \<and> n \<in> fst ` set (mv # vs) \<or> 2 \<le> length (filter (\<lambda>(m, _). m = n) (mv # vs))"
      using True count_two [of n vs] by (cases "m = n") (auto simp: mv)
    show ?thesis
      unfolding maps names [symmetric] by (rule Cons.IH [OF g Cons.prems(2)])
  next
    case False
    then have g: "gather vs (out @ [(m, v)], twice) = (out', twice')" using Cons.prems(1) by (simp add: mv)
    have d: "distinct (map fst (out @ [(m, v)]))" using False Cons.prems(2) by simp
    have none: "map_of out m = None" using False by (simp add: map_of_eq_None_iff)
    have names: "n \<in> set twice \<or> n \<in> fst ` set (out @ [(m, v)]) \<and> n \<in> fst ` set vs \<or> 2 \<le> length (filter (\<lambda>(m, _). m = n) vs) \<longleftrightarrow>
        n \<in> set twice \<or> n \<in> fst ` set out \<and> n \<in> fst ` set (mv # vs) \<or> 2 \<le> length (filter (\<lambda>(m, _). m = n) (mv # vs))"
      using False count_two [of n vs] by (cases "m = n") (auto simp: mv)
    have "map_of (out @ [(m, v)]) n = (case map_of out n of Some w \<Rightarrow> Some w | None \<Rightarrow> if m = n then Some v else None)"
      using none by (cases "map_of out n") (auto simp: map_add_def)
    then show ?thesis
      using Cons.IH [OF g d] names none by (simp add: mv split: option.splits if_splits)
  qed
qed (simp split: option.split)

lemma map_of_filter_names: "map_of (filter (\<lambda>(n, v). P n) xs) n = (if P n then map_of xs n else None)"
  by (induction xs) auto

lemma map_of_single:
  "map_of vs n = Some v \<and> \<not> 2 \<le> length (filter (\<lambda>(m, _). m = n) vs) \<longleftrightarrow> filter (\<lambda>(m, _). m = n) vs = [(n, v)]"
proof (induction vs)
  case (Cons mv vs)
  obtain m w where mv: "mv = (m, w)" by fastforce
  have none: "filter (\<lambda>(m, _). m = n) vs = [] \<Longrightarrow> map_of vs n = None"
    by (force simp: filter_empty_conv map_of_eq_None_iff)
  show ?case
    using Cons none by (cases "m = n"; cases "filter (\<lambda>(m, _). m = n) vs") (auto simp: mv)
qed simp

text \<open>What a run measured under a name is the one reading that any of its checks captured under
  it; a name that two checks captured, in whatever order the map of checks is visited, has none.\<close>

lemma values_by_name_unambiguous:
  "map_of (values_by_name by_check) n = Some v \<longleftrightarrow>
     filter (\<lambda>(m, _). m = n) (concat (map snd by_check)) = [(n, v)]"
proof -
  obtain out twice where g: "gather (concat (map snd by_check)) ([], []) = (out, twice)" by fastforce
  have f: "map_of out n = map_of (concat (map snd by_check)) n"
    "n \<in> set twice \<longleftrightarrow> 2 \<le> length (filter (\<lambda>(m, _). m = n) (concat (map snd by_check)))"
    using gather_facts [OF g, of n] by simp_all
  have "map_of (values_by_name by_check) n = (if n \<notin> set twice then map_of out n else None)"
    by (simp add: values_by_name_def g map_of_filter_names [of "\<lambda>n. n \<notin> set twice"])
  then show ?thesis using map_of_single f by (metis option.distinct(1))
qed


section \<open>Nothing of a credential\<close>

lemma contains_middle:
  assumes "c \<notin> set p" "p \<noteq> []"
  shows "contains (xs @ c # ys) p \<longleftrightarrow> contains xs p \<or> contains ys p"
proof (induction xs)
  case Nil
  obtain a p' where "p = a # p'" using assms(2) by (cases p) auto
  then show ?case using assms by auto
next
  case (Cons x xs)
  have "has_prefix (zs @ c # ys) q \<longleftrightarrow> has_prefix zs q" if "c \<notin> set q" for zs q
    using that by (induction zs q rule: has_prefix.induct) auto
  from this [OF assms(1), of "x # xs"] show ?case using Cons by simp
qed

lemma replace_all_end: "s = [] \<or> old = [] \<Longrightarrow> replace_all old new s = s"
  by (subst replace_all.simps) simp

lemma replace_all_hit:
  "s \<noteq> [] \<Longrightarrow> old \<noteq> [] \<Longrightarrow> has_prefix s old \<Longrightarrow> replace_all old new s = new @ replace_all old new (drop (length old) s)"
  by (subst replace_all.simps) simp

lemma replace_all_miss:
  "old \<noteq> [] \<Longrightarrow> \<not> has_prefix (x # xs) old \<Longrightarrow> replace_all old new (x # xs) = x # replace_all old new xs"
  by (subst replace_all.simps) simp

lemma replace_all_prefix:
  assumes "c \<notin> set p" "has_prefix (replace_all old (c # new) s) p"
  shows "has_prefix s p"
  using assms
proof (induction old "c # new" s arbitrary: p rule: replace_all.induct)
  case (1 old s)
  show ?case
  proof (cases p)
    case Nil
    then show ?thesis by (cases s) simp_all
  next
    case (Cons a p')
    show ?thesis
    proof (cases "s = [] \<or> old = []")
      case True
      then show ?thesis using "1.prems" by (simp add: replace_all_end)
    next
      case False
      then obtain x xs where s: "s = x # xs" by (cases s) auto
      show ?thesis
      proof (cases "has_prefix s old")
        case True
        then have "a = c" using "1.prems"(2) False Cons by (simp add: replace_all_hit)
        then show ?thesis using "1.prems"(1) Cons by simp
      next
        case other: False
        then have "x = a" "has_prefix (replace_all old (c # new) xs) p'"
          using "1.prems"(2) False Cons by (simp_all add: replace_all_miss s)
        moreover have "has_prefix xs p'"
          using "1.hyps"(2) [OF False other, of p'] "1.prems"(1) Cons calculation(2) by (simp add: s)
        ultimately show ?thesis by (simp add: s Cons)
      qed
    qed
  qed
qed

lemma replace_all_removes:
  assumes "old \<noteq> []" "CHR ''<'' \<notin> set old" "CHR ''>'' \<notin> set old" "\<not> contains mid old"
  shows "\<not> contains (replace_all old (CHR ''<'' # mid @ ''>'') s) old"
  using assms
proof (induction old "CHR ''<'' # mid @ ''>''" s rule: replace_all.induct)
  case (1 old s)
  let ?new = "CHR ''<'' # mid @ ''>''"
  show ?case
  proof (cases "s = []")
    case True
    then show ?thesis using "1.prems" by (simp add: replace_all_end)
  next
    case False
    then have no: "\<not> (s = [] \<or> old = [])" using "1.prems" by simp
    obtain x xs where s: "s = x # xs" using False by (cases s) auto
    show ?thesis
    proof (cases "has_prefix s old")
      case True
      let ?r = "replace_all old ?new (drop (length old) s)"
      have "\<not> contains ?r old" using "1.hyps"(1) [OF no True] "1.prems" by simp
      then have "\<not> contains (mid @ CHR ''>'' # ?r) old"
        using contains_middle [OF "1.prems"(3,1), of mid ?r] "1.prems"(4) by simp
      then have "\<not> contains ([] @ CHR ''<'' # (mid @ CHR ''>'' # ?r)) old"
        using contains_middle [OF "1.prems"(2,1), of "[]" "mid @ CHR ''>'' # ?r"] "1.prems"(1) by simp
      then show ?thesis using True no by (simp add: replace_all_hit)
    next
      case other: False
      have "\<not> contains (replace_all old ?new xs) old" using "1.hyps"(2) [OF no other] "1.prems" by (simp add: s)
      moreover have "\<not> has_prefix (replace_all old ?new s) old"
        using replace_all_prefix [OF "1.prems"(2), of old "mid @ ''>''" s] other by auto
      moreover have "replace_all old ?new s = x # replace_all old ?new xs"
        using no other by (simp add: replace_all_miss s)
      ultimately show ?thesis by simp
    qed
  qed
qed

text \<open>No credential in what is recorded. The reason written on a delivery, and logged, holds no
  occurrence of the URL it was posted to, whatever the network or the far end said - for a URL that
  has no angle bracket and is not part of the name that stands for it.\<close>

theorem reason_hides_the_url:
  assumes "target \<noteq> ''''" "CHR ''<'' \<notin> set target" "CHR ''>'' \<notin> set target"
    "\<not> contains (''url of channel '' @ channel_id) target"
  shows "\<not> contains (redact msg target channel_id) target"
  using replace_all_removes [OF assms, of msg] assms(1) by (simp add: redact_def)

theorem reason_hides_the_url_witness:
  "\<not> contains (redact ''Post https://h/1/t: refused'' ''https://h/1/t'' ''ops'') ''https://h/1/t''"
  by (rule reason_hides_the_url) simp_all



lemma huge_retry_after_wraps:
  "retry_after ''9223372037'' < 0"
  by (simp add: retry_after_def atoi_def digits_value_def second_def max_retry_after_def minute_def wrap64_def
      is_digit_def min_int64_def max_int64_def)

section \<open>What becomes of a delivery\<close>

text \<open>
  A sound queue: every delivery has an id of its own, has four attempts on record at most, and one that
  is still pending fewer than that. \<open>mail_history\<close> relates what the queue was to what it is: a row
  that changed at all has one more attempt on record.
\<close>

definition sane_delivery :: "delivery_row \<Rightarrow> bool" where
  "sane_delivery r \<longleftrightarrow> 0 \<le> dr_attempts r \<and> dr_attempts r \<le> 4 \<and> (dr_state r = DeliveryPending \<longrightarrow> dr_attempts r < 4)"

definition sound_mail :: "db \<Rightarrow> bool" where
  "sound_mail b \<longleftrightarrow> distinct (map dr_id (db_deliveries b)) \<and> list_all sane_delivery (db_deliveries b)"

definition delivery_moves :: "delivery_row \<Rightarrow> delivery_row \<Rightarrow> bool" where
  "delivery_moves r r' \<longleftrightarrow> dr_id r' = dr_id r \<and> dr_run_id r' = dr_run_id r \<and> dr_channel_id r' = dr_channel_id r \<and>
     dr_kind r' = dr_kind r \<and> dr_payload r' = dr_payload r \<and> dr_created_at r' = dr_created_at r \<and>
     (r' = r \<or> dr_attempts r < dr_attempts r') \<and> (dr_state r \<noteq> DeliveryPending \<longrightarrow> r' = r)"

definition mail_history :: "db \<Rightarrow> db \<Rightarrow> bool" where
  "mail_history b b' \<longleftrightarrow> (sound_mail b \<longrightarrow> sound_mail b' \<and>
     (\<exists>old new. db_deliveries b' = old @ new \<and> list_all2 delivery_moves (db_deliveries b) old))"

lemma delivery_moves_refl: "delivery_moves r r" by (simp add: delivery_moves_def)

lemma delivery_moves_trans: "delivery_moves a b \<Longrightarrow> delivery_moves b c \<Longrightarrow> delivery_moves a c"
  by (auto simp: delivery_moves_def)

lemma mail_same: "db_deliveries b' = db_deliveries b \<Longrightarrow> mail_history b b'"
  unfolding mail_history_def sound_mail_def
  by (intro impI conjI, simp, simp, rule exI [of _ "db_deliveries b"], rule exI [of _ "[]"])
    (simp add: list_all2_refl delivery_moves_refl)

lemma mail_trans:
  assumes "mail_history a b" "mail_history b c"
  shows "mail_history a c"
  unfolding mail_history_def
proof
  assume "sound_mail a"
  then obtain o1 n1 where 1: "sound_mail b" "db_deliveries b = o1 @ n1" "list_all2 delivery_moves (db_deliveries a) o1"
    using assms(1) by (auto simp: mail_history_def)
  then obtain o2 n2 where 2: "sound_mail c" "db_deliveries c = o2 @ n2" "list_all2 delivery_moves (o1 @ n1) o2"
    using assms(2) by (auto simp: mail_history_def)
  obtain x y where xy: "o2 = x @ y" "list_all2 delivery_moves o1 x" using 2(3) by (auto simp: list_all2_append1)
  have "list_all2 delivery_moves (db_deliveries a) x"
    by (rule list_all2_trans [OF _ 1(3) xy(2)]) (rule delivery_moves_trans)
  then show "sound_mail c \<and> (\<exists>old new. db_deliveries c = old @ new \<and> list_all2 delivery_moves (db_deliveries a) old)"
    using 2(1,2) xy(1) by (intro conjI exI [of _ x] exI [of _ "y @ n2"]) simp_all
qed

lemma create_delivery_mail:
  assumes "dl_attempts d = 0"
  shows "mail_history b (snd (create_delivery ce d b))"
proof (cases "delivery_key (delivery_row_of d) \<in> delivery_key ` set (db_deliveries b) \<or>
    dl_id d \<in> dr_id ` set (db_deliveries b) \<or> \<not> run_exists (dl_run_id d) b")
  case True
  then show ?thesis by (auto simp: create_delivery_def intro: mail_same)
next
  case False
  let ?b = "snd (create_delivery ce d b)"
  have rows: "db_deliveries ?b = db_deliveries b @ [delivery_row_of d]" using False by (simp add: create_delivery_def)
  have "sane_delivery (delivery_row_of d)" using assms by (simp add: sane_delivery_def delivery_row_of_def)
  moreover have "dr_id (delivery_row_of d) = dl_id d" by (simp add: delivery_row_of_def)
  ultimately have "sound_mail ?b" if "sound_mail b" using that False by (simp add: sound_mail_def rows)
  then show ?thesis
    unfolding mail_history_def rows
    by (intro impI conjI) (simp, intro exI conjI, rule refl, simp add: list_all2_refl delivery_moves_refl)
qed

definition current_delivery :: "db \<Rightarrow> delivery \<Rightarrow> bool" where
  "current_delivery b d \<longleftrightarrow> (\<exists>r \<in> set (db_deliveries b). dr_id r = dl_id d \<and> dr_state r = DeliveryPending \<and>
     dr_attempts r = dl_attempts d)"

lemma settle_deliveries: "db_deliveries (snd (settle_delivery d b)) =
    update_where (\<lambda>r. dr_id r = dl_id d) (settle_row d) (db_deliveries b)"
  by (simp add: settle_delivery_def Let_def update_where_none)

lemma settle_delivery_mail:
  assumes "current_delivery b row" "dl_id d = dl_id row" "dl_attempts d = wrap64 (dl_attempts row + 1)"
    "dl_state d = DeliveryPending \<longrightarrow> dl_attempts d < 4"
  shows "mail_history b (snd (settle_delivery d b))"
  unfolding mail_history_def
proof
  let ?f = "\<lambda>r. if dr_id r = dl_id d then settle_row d r else r"
  assume sound: "sound_mail b"
  obtain r where r: "r \<in> set (db_deliveries b)" "dr_id r = dl_id d" "dr_state r = DeliveryPending"
    "dr_attempts r = dl_attempts row"
    using assms(1,2) by (auto simp: current_delivery_def)
  have tries: "0 \<le> dl_attempts row" "dl_attempts row < 4"
    using r sound by (auto simp: sound_mail_def list_all_iff sane_delivery_def)
  then have d: "dl_attempts d = dl_attempts row + 1" using assms(3) by (simp add: wrap64_id)
  have only: "x = r" if "x \<in> set (db_deliveries b)" "dr_id x = dl_id d" for x
    using that r(1,2) sound by (metis distinct_map inj_onD sound_mail_def)
  have moves: "delivery_moves x (?f x)" "sane_delivery (?f x)" if "x \<in> set (db_deliveries b)" for x
    using that only [OF that] r d tries assms(4) sound
    by (auto simp: delivery_moves_def settle_row_def sane_delivery_def sound_mail_def list_all_iff)
  have ids: "map dr_id (update_where (\<lambda>r. dr_id r = dl_id d) (settle_row d) (db_deliveries b)) = map dr_id (db_deliveries b)"
    by (rule map_update_where) (simp add: settle_row_def)
  have "list_all2 delivery_moves (db_deliveries b) (map ?f (db_deliveries b))"
    using moves(1) by (auto simp: list_all2_conv_all_nth)
  moreover have "sound_mail (snd (settle_delivery d b))"
    unfolding sound_mail_def settle_deliveries ids
    using moves(2) sound by (auto simp only: update_where_def list_all_iff sound_mail_def set_map)
  ultimately show "sound_mail (snd (settle_delivery d b)) \<and>
      (\<exists>old new. db_deliveries (snd (settle_delivery d b)) = old @ new \<and> list_all2 delivery_moves (db_deliveries b) old)"
    unfolding settle_deliveries update_where_def by (intro conjI exI [of _ "map ?f (db_deliveries b)"] exI [of _ "[]"]) simp_all
qed

lemma outside_db: "outside f s = (a, s') \<Longrightarrow> dk_db s' = dk_db s"
  by (auto simp: outside_def split: prod.splits)

lemma next_attempt_again: "next_attempt n r = Some w \<Longrightarrow> n < 4"
  by (auto simp: next_attempt_def attempts_schedule_def split: if_splits)

text \<open>An attempt settles its own row, once, or leaves the database as it is.\<close>

definition settles :: "delivery \<Rightarrow> db \<Rightarrow> db \<Rightarrow> bool" where
  "settles row b b' \<longleftrightarrow> b' = b \<or> (\<exists>d. b' = snd (settle_delivery d b) \<and> dl_id d = dl_id row \<and>
     dl_attempts d = wrap64 (dl_attempts row + 1) \<and> (dl_state d = DeliveryPending \<longrightarrow> dl_attempts d < 4))"

lemma settle_outcome_settles:
  assumes "dl_id d = dl_id row" "dl_attempts d = wrap64 (dl_attempts row + 1)"
    "dl_state d = DeliveryPending \<longrightarrow> dl_attempts d < 4"
  shows "settles row (dk_db s) (dk_db (settle_outcome ov d s))"
proof -
  obtain x s1 where o: "outside (ov_fault ov (WriteOutcome (dl_id d))) s = (x, s1)" by fastforce
  have "dk_db (snd (with_db (settle_delivery d) s1)) = snd (settle_delivery d (dk_db s))"
    using outside_db [OF o] by (simp add: with_db_def split: prod.split)
  then have some: "settles row (dk_db s) (dk_db (snd (with_db (settle_delivery d) s1)))"
    unfolding settles_def using assms by (intro disjI2 exI [of _ d]) simp
  show ?thesis
  proof (cases x)
    case None
    then show ?thesis using some by (simp add: settle_outcome_def o)
  next
    case (Some e)
    then show ?thesis using outside_db [OF o] by (simp add: settle_outcome_def o settles_def)
  qed
qed

lemma fail_delivery_settles: "settles row (dk_db s) (dk_db (fail_delivery ov row reason s))"
  unfolding fail_delivery_def by (rule settle_outcome_settles) simp_all

lemma record_post_settles: "settles row (dk_db s) (dk_db (record_post ov row target r s))"
proof (cases "pt_err r")
  case None
  obtain t s1 where o: "outside (ov_now ov) s = (t, s1)" by fastforce
  have "settles row (dk_db s1) (dk_db (record_post ov row target r s))"
    unfolding record_post_def Let_def None option.case o prod.case by (rule settle_outcome_settles) simp_all
  then show ?thesis using outside_db [OF o] by simp
next
  case (Some e)
  let ?n = "wrap64 (dl_attempts row + 1)"
  show ?thesis
  proof (cases "next_attempt ?n r")
    case None
    have "record_post ov row target r s = settle_outcome ov (row\<lparr>dl_attempts := ?n, dl_status := pt_status r,
        dl_state := DeliveryFailed, dl_err := redact (err_text e) target (dl_channel_id row), dl_next_at := zero_time\<rparr>) s"
      by (simp add: record_post_def Some None)
    then show ?thesis by (simp only:) (rule settle_outcome_settles, simp_all)
  next
    case wait: (Some w)
    obtain t s1 where o: "outside (ov_now ov) s = (t, s1)" by fastforce
    have "record_post ov row target r s = settle_outcome ov (row\<lparr>dl_attempts := ?n, dl_status := pt_status r,
        dl_state := DeliveryPending, dl_err := redact (err_text e) target (dl_channel_id row), dl_next_at := t + w\<rparr>) s1"
      by (simp add: record_post_def Some wait o)
    then have "settles row (dk_db s1) (dk_db (record_post ov row target r s))"
      by (simp only:) (rule settle_outcome_settles, use next_attempt_again [OF wait] in simp_all)
    then show ?thesis using outside_db [OF o] by simp
  qed
qed

lemma attempt_settles: "settles row (dk_db s) (dk_db (attempt_delivery ov dx chs row s))"
proof (cases "channel_by_id chs (dl_channel_id row)")
  case None
  then show ?thesis using fail_delivery_settles by (simp add: attempt_delivery_def)
next
  case (Some ch)
  show ?thesis
  proof (cases "channel_target (dx_cipher dx) (dx_key dx) (ch_config ch)")
    case (Inl e)
    then show ?thesis using Some fail_delivery_settles by (simp add: attempt_delivery_def)
  next
    case (Inr target)
    obtain a s1 where o: "outside (ov_post ov target (dl_payload row)) s = (a, s1)" by fastforce
    have "settles row (dk_db s1) (dk_db (record_post ov row target (post_outcome a (ov_ctx_err ov (dk_world s1))) s1))"
      by (rule record_post_settles)
    then show ?thesis
      using Some Inr outside_db [OF o] by (simp add: attempt_delivery_def o Let_def settles_def)
  qed
qed

lemma settles_mail: "settles row b b' \<Longrightarrow> current_delivery b row \<Longrightarrow> mail_history b b'"
  by (auto simp: settles_def intro: mail_same settle_delivery_mail)

lemma settles_other: "settles row b b' \<Longrightarrow> current_delivery b other \<Longrightarrow> dl_id other \<noteq> dl_id row \<Longrightarrow> current_delivery b' other"
  by (auto simp: settles_def current_delivery_def settle_deliveries set_update_where)

lemma attempt_all_mail:
  "distinct (map dl_id rows) \<Longrightarrow> list_all (current_delivery (dk_db s)) rows \<Longrightarrow>
   mail_history (dk_db s) (dk_db (attempt_all ov dx chs rows s))"
proof (induction rows arbitrary: s)
  case (Cons row rows)
  show ?case
  proof (cases "stopped ov s")
    case False
    let ?s = "attempt_delivery ov dx chs row s"
    have step: "settles row (dk_db s) (dk_db ?s)" by (rule attempt_settles)
    have "current_delivery (dk_db ?s) d" if "d \<in> set rows" for d
      by (rule settles_other [OF step]) (use Cons.prems that in \<open>auto simp: list_all_iff image_iff\<close>)
    then have "list_all (current_delivery (dk_db ?s)) rows" by (simp add: list_all_iff)
    then have "mail_history (dk_db ?s) (dk_db (attempt_all ov dx chs rows ?s))"
      using Cons.prems by (intro Cons.IH) simp_all
    then show ?thesis
      using mail_trans [OF settles_mail [OF step]] Cons.prems(2) False by simp
  qed (simp add: mail_same)
qed (simp add: mail_same)

lemma due_current: "list_all (current_delivery b) (due_deliveries d t n b)"
  by (auto simp: list_all_iff due_deliveries_def limit_rows_def scan_delivery_def is_due_def current_delivery_def
      dest!: in_set_takeD)

lemma due_distinct:
  assumes "sound_mail b"
  shows "distinct (map dl_id (due_deliveries d t n b))"
proof -
  have ids: "map dl_id (map scan_delivery rs) = map dr_id rs" for rs by (simp add: scan_delivery_def)
  have "distinct (map dr_id (order_by le (filter P (db_deliveries b))))" for le P
    using assms by (simp add: sound_mail_def distinct_map_filter)
  then show ?thesis unfolding due_deliveries_def limit_rows_def ids by (metis distinct_take take_map)
qed

lemma deliver_mail: "mail_history (dk_db s) (dk_db (dispatcher_deliver ov dx chs s))"
proof (cases "sound_mail (dk_db s)")
  case True
  obtain t s1 where 1: "outside (ov_now ov) s = (t, s1)" by fastforce
  obtain x s2 where 2: "outside (ov_fault ov ReadDue) s1 = (x, s2)" by fastforce
  have same: "dk_db s2 = dk_db s" using outside_db [OF 1] outside_db [OF 2] by simp
  have "mail_history (dk_db s2) (dk_db (attempt_all ov dx chs (due_deliveries (dx_dialect dx) t (dx_batch dx) (dk_db s2)) s2))"
    by (rule attempt_all_mail) (simp_all add: due_current due_distinct True same)
  then show ?thesis
    by (auto simp: dispatcher_deliver_def 1 2 same mail_same split: option.split)
qed (simp add: mail_history_def)

lemma queue_message_mail: "mail_history (dk_db s) (dk_db (queue_message ov dx ch run msg s))"
proof -
  obtain t s1 where 1: "outside (ov_now ov) s = (t, s1)" by fastforce
  obtain i s2 where 2: "outside (ov_new_id ov) s1 = (i, s2)" by fastforce
  obtain x s3 where 3: "outside (ov_fault ov (WriteDelivery (rs_id run) (nt_id (ch_config ch)))) s2 = (x, s3)" by fastforce
  have same: "dk_db s3 = dk_db s" using outside_db [OF 1] outside_db [OF 2] outside_db [OF 3] by simp
  have "mail_history (dk_db s3) (snd (create_delivery (dx_constraint dx) (queued_delivery i t ch run msg) (dk_db s3)))"
    by (rule create_delivery_mail) (simp add: queued_delivery_def)
  then show ?thesis
    by (auto simp: queue_message_def 1 2 3 same mail_same with_db_def split: option.split prod.split)
qed

lemma queue_all_mail: "mail_history (dk_db s) (dk_db (queue_all ov dx chs run msg s))"
proof (induction chs arbitrary: s)
  case (Cons ch chs)
  show ?case using mail_trans [OF queue_message_mail Cons.IH] by (simp add: mail_same)
qed (simp add: mail_same)

lemma measured_by_db: "measured_by ov rid s = (v, s') \<Longrightarrow> dk_db s' = dk_db s"
  by (auto simp: measured_by_def split: prod.splits option.splits dest!: outside_db)

lemma consider_values_db: "consider_values ov dx run c p b s = (x, s') \<Longrightarrow> dk_db s' = dk_db s"
  by (auto simp: consider_values_def split: prod.splits option.splits if_splits dest!: measured_by_db)

lemma tell_story_mail: "mail_history (dk_db s) (dk_db (tell_story ov dx chs run s))"
proof -
  obtain x s1 where 1: "outside (ov_fault ov (ReadStory (rs_id run))) s = (x, s1)" by fastforce
  have q: "dk_db s2 = dk_db s \<Longrightarrow> mail_history (dk_db s) (dk_db (queue_all ov dx chs run m s2))" for s2 m
    using queue_all_mail [of s2] by simp
  show ?thesis
    using outside_db [OF 1]
    by (auto simp: tell_story_def 1 Let_def mail_same split: option.splits prod.splits
        dest!: consider_values_db intro!: q)
qed

lemma consider_run_mail: "mail_history (dk_db s) (dk_db (consider_run ov dx chs run s))"
proof -
  obtain t s1 where 1: "outside (ov_now ov) s = (t, s1)" by fastforce
  obtain x s2 where 2: "outside (ov_fault ov (ClaimNotify (rs_id run))) s1 = (x, s2)" by fastforce
  obtain won s3 where 3: "with_db (claim_run_for_notify (rs_id run) t) s2 = (won, s3)" by fastforce
  obtain old s4 where 4: "too_old ov dx run s3 = (old, s4)" by fastforce
  have same: "db_deliveries (dk_db s3) = db_deliveries (dk_db s)" "dk_db s2 = dk_db s"
    using 3 outside_db [OF 1] outside_db [OF 2] by (auto simp: with_db_def claim_run_for_notify_def Let_def map_runs_def)
  have s4: "dk_db s4 = dk_db s3"
    using 4 by (auto simp: too_old_def split: if_splits prod.splits dest: outside_db)
  have "mail_history (dk_db s) (dk_db (tell_story ov dx chs run s4))"
    by (rule mail_trans [OF mail_same tell_story_mail]) (simp add: same s4)
  then show ?thesis
    by (auto simp: consider_run_def 1 2 3 4 same s4 mail_same split: option.split)
qed

lemma consider_runs_mail: "mail_history (dk_db s) (dk_db (consider_runs ov dx chs runs s))"
proof (induction runs arbitrary: s)
  case (Cons run runs)
  show ?case using mail_trans [OF consider_run_mail Cons.IH] by (simp add: mail_same)
qed (simp add: mail_same)

lemma decide_mail: "mail_history (dk_db s) (dk_db (dispatcher_decide ov dx chs s))"
proof -
  obtain x s1 where 1: "outside (ov_fault ov ReadUnnotified) s = (x, s1)" by fastforce
  show ?thesis
    using consider_runs_mail [of s1] outside_db [OF 1] by (auto simp: dispatcher_decide_def 1 mail_same split: option.split)
qed

lemma resolve_db: "dispatcher_resolve ov s = (chs, s1) \<Longrightarrow> dk_db s1 = dk_db s"
  by (auto simp: dispatcher_resolve_def split: prod.splits option.splits dest!: outside_db)

text \<open>C26. Whatever the far end, the configuration, the context and the driver do during a pass, a sound
  queue of deliveries stays sound: no delivery ever has more than four attempts on record, a row changes
  only with one more attempt recorded on it, one that was sent or given up is never touched again,
  and none changes its run, its channel or the bytes it posts. (An attempt is on record once its outcome
  was written: a POST whose outcome the driver refuses, or that the shutdown interrupts, leaves the row as
  it was.)\<close>

theorem deliveries_are_bounded:
  assumes "sound_mail (dk_db s)"
  shows "sound_mail (dk_db (dispatcher_tick ov dx s)) \<and>
    (\<exists>old new. db_deliveries (dk_db (dispatcher_tick ov dx s)) = old @ new \<and>
       list_all2 delivery_moves (db_deliveries (dk_db s)) old)"
proof -
  obtain chs s1 where 1: "dispatcher_resolve ov s = (chs, s1)" by fastforce
  have "mail_history (dk_db s1) (dk_db (dispatcher_deliver ov dx chs (dispatcher_decide ov dx chs s1)))"
    by (rule mail_trans [OF decide_mail deliver_mail])
  then show ?thesis using assms resolve_db [OF 1] by (simp add: mail_history_def dispatcher_tick_def 1)
qed


text \<open>
  The other side of it. While the driver refuses the outcomes, a delivery is posted and its row stays as it
  is, so that it is due again at the next pass, and nothing bounds how often.
\<close>

lemma unrecorded_attempt_leaves_no_trace:
  assumes "\<And>i w. fst (ov_fault ov (WriteOutcome i) w) \<noteq> None"
  shows "dk_db (attempt_delivery ov dx chs row s) = dk_db s"
proof -
  have settle: "dk_db (settle_outcome ov d s) = dk_db s" for d s
    using assms [of "dl_id d" "dk_world s"]
    by (auto simp: settle_outcome_def outside_def split: prod.splits option.splits)
  have "dk_db (record_post ov row target r s) = dk_db s" for target r s
    by (simp add: record_post_def Let_def settle split: option.split prod.split) (auto dest: outside_db)
  then show ?thesis
    by (auto simp: attempt_delivery_def fail_delivery_def settle Let_def split: option.split sum.split prod.split
        dest: outside_db)
qed

text \<open>
  The closed example: one delivery, tried three times already, to a channel the configuration no
  longer has.
\<close>

definition lab_outside :: "unit outside" where
  "lab_outside = \<lparr>ov_channels = (\<lambda>w. (Some [], w)), ov_now = (\<lambda>w. (100, w)), ov_new_id = (\<lambda>w. (''d2'', w)),
     ov_ctx_err = (\<lambda>w. None), ov_post = (\<lambda>_ _ w. (Responded 204 '''' '''', w)), ov_fault = (\<lambda>_ w. (None, w))\<rparr>"

definition lab_dispatcher :: dispatcher_options where
  "lab_dispatcher = new_dispatcher \<lparr>dx_batch = 0, dx_max_age = 0, dx_base_url = ''https://lab/'', dx_cipher = lab_cipher,
     dx_key = ''key'', dx_dialect = DialectSQLite, dx_constraint = Plain ''constraint'', dx_format = (\<lambda>_. '''')\<rparr>"

definition lab_desk :: "unit desk" where
  "lab_desk = \<lparr>dk_world = (), dk_db = empty_db\<lparr>db_deliveries := [\<lparr>dr_id = ''d1'', dr_run_id = ''r1'',
     dr_channel_id = ''gone'', dr_kind = ''verdict_changed'', dr_state = DeliveryPending, dr_attempts = 3,
     dr_next_at = Some 50, dr_status = 503, dr_error = None, dr_payload = ''{}'', dr_created_at = 10,
     dr_sent_at = None\<rparr>]\<rparr>, dk_complained = Map.empty\<rparr>"

theorem deliveries_are_bounded_witness:
  "sound_mail (dk_db (dispatcher_tick lab_outside lab_dispatcher lab_desk))"
proof -
  have "sound_mail (dk_db lab_desk)" by (simp add: lab_desk_def sound_mail_def sane_delivery_def empty_db_def)
  then show ?thesis using deliveries_are_bounded by blast
qed

end
