(* ===== verification/Proxmox.thy ===== *)
theory Proxmox
  imports Effects Checks
begin

text \<open>
  internal/providers/proxmox: the client of a Proxmox VE cluster (client.go), the reading of its
  loosely typed answers (types.go), and the hypervisor it makes of them (provider.go).

  The HTTP transport, the decoder of JSON, the parser of addresses and the clock are functions over a
  world \<open>'w\<close>. A decoded JSON value is a value of Go's \<open>any\<close>; object keys are matched exactly. Every
  request is written, with its answer, at the end of a log; the log is not part of the program and no
  operation reads it.
\<close>

section \<open>Reading loosely typed answers\<close>

text \<open>\<open>px_text\<close> is \<open>strconv.FormatFloat(x, 'f', -1, 64)\<close>, \<open>px_number\<close> what \<open>ParseFloat\<close> returns beside its
  error.\<close>

record readers =
  px_text :: "f64 \<Rightarrow> string"
  px_number :: "string \<Rightarrow> f64"

definition key :: "string \<Rightarrow> params \<Rightarrow> anyval" where
  "key k m = (case map_of m k of None \<Rightarrow> AnyNil | Some v \<Rightarrow> v)"

definition as_string :: "readers \<Rightarrow> anyval \<Rightarrow> string" where
  "as_string rd v =
     (case v of
        AnyNil \<Rightarrow> '''' | AnyString s \<Rightarrow> s | AnyFloat x _ \<Rightarrow> px_text rd x
      | AnyBool b \<Rightarrow> if b then ''1'' else ''0''
      | _ \<Rightarrow> fmt_v v)"

definition as_float :: "readers \<Rightarrow> anyval \<Rightarrow> f64" where
  "as_float rd v =
     (case v of
        AnyFloat x _ \<Rightarrow> x | AnyString s \<Rightarrow> px_number rd s | AnyBool b \<Rightarrow> if b then Fin 1 else Fin 0
      | _ \<Rightarrow> Fin 0)"

definition as_int :: "readers \<Rightarrow> anyval \<Rightarrow> int" where "as_int rd v = float_to_int (as_float rd v)"

definition as_bool :: "anyval \<Rightarrow> bool" where
  "as_bool v =
     (case v of
        AnyBool b \<Rightarrow> b | AnyFloat x _ \<Rightarrow> \<not> eq64 x (Fin 0)
      | AnyString s \<Rightarrow> s = ''1'' \<or> s = ''true'' \<or> s = ''yes''
      | _ \<Rightarrow> False)"

definition id_string :: "readers \<Rightarrow> anyval \<Rightarrow> string" where "id_string rd v = itoa (as_int rd v)"

text \<open>What \<open>json.Unmarshal\<close> accepts into a map, a list of maps and a string.\<close>

definition object_of :: "anyval \<Rightarrow> params option" where
  "object_of v = (case v of AnyMap kvs \<Rightarrow> Some kvs | AnyNil \<Rightarrow> Some [] | _ \<Rightarrow> None)"

definition objects_of :: "anyval \<Rightarrow> params list option" where
  "objects_of v = (case v of AnyList vs \<Rightarrow> those (map object_of vs) | AnyNil \<Rightarrow> Some [] | _ \<Rightarrow> None)"

definition text_of :: "anyval \<Rightarrow> string option" where
  "text_of v = (case v of AnyString s \<Rightarrow> Some s | AnyNil \<Rightarrow> Some '''' | _ \<Rightarrow> None)"


section \<open>The client\<close>

record pve_config =
  px_id :: string
  px_endpoint :: string
  px_token_id :: string
  px_token_secret :: string
  px_insecure :: bool
  px_ca :: string
  px_timeout :: duration
  px_backup_storage :: string
  px_temp_id_min :: int
  px_temp_id_max :: int
  px_name_prefix :: string

definition trim_right :: "(char \<Rightarrow> bool) \<Rightarrow> string \<Rightarrow> string" where
  "trim_right p s = rev (dropWhile p (rev s))"

definition new_pve :: "(string \<Rightarrow> bool) \<Rightarrow> pve_config \<Rightarrow> goerr + pve_config" where
  "new_pve valid_pem c =
     (if px_endpoint c = '''' then Inl (Plain ''proxmox: Endpoint is required'')
      else if px_token_id c = '''' then Inl (Plain ''proxmox: TokenID is required'')
      else if px_token_secret c = '''' then Inl (Plain ''proxmox: TokenSecret is required'')
      else
        (let c = c\<lparr>px_endpoint := trim_right (\<lambda>x. x = CHR ''/'') (px_endpoint c),
               px_timeout := (if px_timeout c \<le> 0 then 30 * second else px_timeout c),
               px_temp_id_min := (if px_temp_id_min c \<le> 0 then default_temp_id_min else px_temp_id_min c),
               px_temp_id_max := (if px_temp_id_max c \<le> 0 then default_temp_id_max else px_temp_id_max c)\<rparr>
         in if px_temp_id_min c > px_temp_id_max c then
              Inl (Plain (''proxmox: TempIDMin ('' @ itoa (px_temp_id_min c) @ '') must be <= TempIDMax ('' @
                itoa (px_temp_id_max c) @ '')''))
            else
              (let c = c\<lparr>px_name_prefix := (if px_name_prefix c = '''' then ''restorelab'' else px_name_prefix c)\<rparr>
               in if px_ca c \<noteq> '''' \<and> \<not> valid_pem (px_ca c)
                  then Inl (Plain ''proxmox: CACertPEM does not contain a valid PEM certificate'') else Inr c)))"

datatype pve_method = HttpGet | HttpPost | HttpPut | HttpDelete

fun method_text :: "pve_method \<Rightarrow> string" where
  "method_text HttpGet = ''GET''"
| "method_text HttpPost = ''POST''"
| "method_text HttpPut = ''PUT''"
| "method_text HttpDelete = ''DELETE''"

text \<open>\<open>url.Values\<close> and its \<open>Set\<close>.\<close>

type_synonym form = "(string \<times> string list) list"

definition form_set :: "string \<Rightarrow> string \<Rightarrow> form \<Rightarrow> form" where
  "form_set k v f = filter (\<lambda>e. fst e \<noteq> k) f @ [(k, [v])]"

definition form_set_if :: "bool \<Rightarrow> string \<Rightarrow> string \<Rightarrow> form \<Rightarrow> form" where
  "form_set_if b k v f = (if b then form_set k v f else f)"

text \<open>What the transport does with a request, and the body of an answer once decoded.\<close>

datatype pve_reply = NotBuilt goerr | NotSent goerr | NotRead goerr | Answered int string

record 'w pve_env =
  pe_http :: "ctx \<Rightarrow> pve_method \<Rightarrow> string \<Rightarrow> form \<Rightarrow> string \<Rightarrow> 'w \<Rightarrow> pve_reply \<times> 'w"
  pe_ctx_err :: "ctx \<Rightarrow> 'w \<Rightarrow> goerr option"
  pe_pause :: "ctx \<Rightarrow> 'w \<Rightarrow> bool \<times> 'w"
  pe_now :: "'w \<Rightarrow> time \<times> 'w"
  pe_envelope :: "string \<Rightarrow> goerr + anyval option"
  pe_mismatch :: "anyval option \<Rightarrow> goerr"
  pe_address :: "string \<Rightarrow> (bool \<times> bool) option"
  pe_readers :: readers

record exchange =
  xc_method :: pve_method
  xc_path :: string
  xc_form :: form
  xc_answer :: "goerr + anyval option"

record 'w pve =
  pv_world :: 'w
  pv_log :: "exchange list"

definition err_body_truncate_len :: nat where "err_body_truncate_len = 512"

definition map_status_error :: "int \<Rightarrow> pve_method \<Rightarrow> string \<Rightarrow> string \<Rightarrow> goerr" where
  "map_status_error status m path body =
     (let base = Plain (''proxmox: '' @ method_text m @ '' '' @ path @ '': unexpected status '' @ itoa status @ '': '' @
            take err_body_truncate_len body);
          both = (\<lambda>s. Wrapped (sentinel_text s @ '': '' @ err_text base) (Joined [Sentinel s, base]))
      in if status = 401 \<or> status = 403 then both ErrUnauthorized
         else if status = 404 then both ErrNotFound
         else if status \<ge> 500 then Retry_Err base else base)"

definition authorization :: "pve_config \<Rightarrow> string" where
  "authorization c = ''PVEAPIToken='' @ px_token_id c @ ''='' @ px_token_secret c"

definition read_reply ::
  "'w pve_env \<Rightarrow> ctx \<Rightarrow> pve_method \<Rightarrow> string \<Rightarrow> pve_reply \<Rightarrow> 'w \<Rightarrow> goerr + anyval option" where
  "read_reply e c m path r w =
     (let what = method_text m @ '' '' @ path in
      case r of
        NotBuilt x \<Rightarrow> Inl (Wrapped (''proxmox: build request '' @ what @ '': '' @ err_text x) x)
      | NotSent x \<Rightarrow>
          (case pe_ctx_err e c w of
             Some ce \<Rightarrow> Inl ce
           | None \<Rightarrow> Inl (Retry_Err (Wrapped (''proxmox: '' @ what @ '': '' @ err_text x) x)))
      | NotRead x \<Rightarrow>
          Inl (Retry_Err (Wrapped (''proxmox: reading response body for '' @ what @ '': '' @ err_text x) x))
      | Answered status body \<Rightarrow>
          if status \<ge> 400 then Inl (map_status_error status m path body)
          else if body = '''' then Inr None
          else (case pe_envelope e body of
                  Inl x \<Rightarrow> Inl (Wrapped (''proxmox: decode response for '' @ what @ '': '' @ err_text x) x)
                | Inr d \<Rightarrow> Inr d))"

definition pve_request ::
  "'w pve_env \<Rightarrow> pve_config \<Rightarrow> ctx \<Rightarrow> pve_method \<Rightarrow> string \<Rightarrow> form \<Rightarrow> ('w pve, goerr + anyval option) eng" where
  "pve_request e cfg c m path f = (\<lambda>s.
     case pe_http e c m (px_endpoint cfg @ ''/api2/json'' @ path) f (authorization cfg) (pv_world s) of
       (r, w) \<Rightarrow>
         (let a = read_reply e c m path r w
          in (Done a, s\<lparr>pv_world := w,
                pv_log := pv_log s @ [\<lparr>xc_method = m, xc_path = path, xc_form = f, xc_answer = a\<rparr>]\<rparr>)))"

text \<open>A call, and what follows when it returned no error.\<close>

definition callE :: "('s, 'e + 'a) eng \<Rightarrow> ('a \<Rightarrow> ('s, 'e + 'b) eng) \<Rightarrow> ('s, 'e + 'b) eng" where
  "callE m f = bindM m (\<lambda>r. case r of Inl e \<Rightarrow> ret (Inl e) | Inr a \<Rightarrow> f a)"

definition wrapf :: "string \<Rightarrow> goerr \<Rightarrow> goerr" where "wrapf what e = Wrapped (what @ '': '' @ err_text e) e"

text \<open>A request whose data is decoded; \<open>what\<close> prefixes the decoder's error.\<close>

definition decoded :: "'w pve_env \<Rightarrow> (anyval \<Rightarrow> 'a option) \<Rightarrow> string \<Rightarrow> anyval option \<Rightarrow> goerr + 'a" where
  "decoded e dec what d =
     (case Option.bind d dec of
        None \<Rightarrow> Inl (wrapf what (pe_mismatch e d)) | Some a \<Rightarrow> Inr a)"

definition fetch ::
  "'w pve_env \<Rightarrow> pve_config \<Rightarrow> ctx \<Rightarrow> pve_method \<Rightarrow> string \<Rightarrow> form \<Rightarrow> (anyval \<Rightarrow> 'a option) \<Rightarrow> string \<Rightarrow>
   ('w pve, goerr + 'a) eng" where
  "fetch e cfg c m path f dec what =
     callE (pve_request e cfg c m path f) (\<lambda>d. ret (decoded e dec what d))"

definition ping :: "'w pve_env \<Rightarrow> pve_config \<Rightarrow> ctx \<Rightarrow> ('w pve, goerr + unit) eng" where
  "ping e cfg c = callE (pve_request e cfg c HttpGet ''/version'' []) (\<lambda>_. ret (Inr ()))"


section \<open>Nodes and workloads\<close>

definition node_of :: "readers \<Rightarrow> params \<Rightarrow> node" where
  "node_of rd m =
     \<lparr>nd_id = as_string rd (key ''node'' m), nd_name = as_string rd (key ''node'' m), nd_cluster = '''',
      nd_online = (as_string rd (key ''status'' m) = ''online''), nd_cpu_cores = as_int rd (key ''maxcpu'' m),
      nd_cpu_usage = as_float rd (key ''cpu'' m), nd_memory_total = as_int rd (key ''maxmem'' m),
      nd_memory_used = as_int rd (key ''mem'' m), nd_disk_total = as_int rd (key ''maxdisk'' m),
      nd_disk_used = as_int rd (key ''disk'' m)\<rparr>"

definition list_nodes :: "'w pve_env \<Rightarrow> pve_config \<Rightarrow> ctx \<Rightarrow> ('w pve, goerr + node list) eng" where
  "list_nodes e cfg c =
     callE (fetch e cfg c HttpGet ''/nodes'' [] objects_of ''proxmox: decode /nodes'') (\<lambda>es.
       ret (Inr (map (node_of (pe_readers e)) es)))"

definition cluster_resources :: "'w pve_env \<Rightarrow> pve_config \<Rightarrow> ctx \<Rightarrow> ('w pve, goerr + params list) eng" where
  "cluster_resources e cfg c =
     fetch e cfg c HttpGet ''/cluster/resources'' [(''type'', [''vm''])] objects_of
       ''proxmox: decode /cluster/resources''"

definition map_power_state :: "string \<Rightarrow> power_state" where
  "map_power_state s =
     (if s = ''running'' then PowerRunning else if s = ''stopped'' then PowerStopped
      else if s = ''paused'' \<or> s = ''suspended'' then PowerPaused else PowerUnknown)"

definition split_tags :: "string \<Rightarrow> string list" where
  "split_tags raw =
     (if raw = '''' then [] else filter (\<lambda>t. t \<noteq> '''') (map trim_space (split_on (CHR '';'') raw)))"

definition managed_tag :: string where "managed_tag = ''restorelab''"

definition map_workload_entry :: "readers \<Rightarrow> params \<Rightarrow> workload option" where
  "map_workload_entry rd m =
     (let t = as_string rd (key ''type'' m); tags = split_tags (as_string rd (key ''tags'' m));
          make = (\<lambda>k. Some \<lparr>wl_id = id_string rd (key ''vmid'' m), wl_name = as_string rd (key ''name'' m), wl_kind = k,
            wl_node = as_string rd (key ''node'' m), wl_cluster = '''', wl_tags = tags,
            wl_cpu_cores = as_int rd (key ''maxcpu'' m), wl_memory_bytes = as_int rd (key ''maxmem'' m),
            wl_disk_bytes = as_int rd (key ''maxdisk'' m),
            wl_power_state = map_power_state (as_string rd (key ''status'' m)),
            wl_template = as_bool (key ''template'' m), wl_managed = (managed_tag \<in> set tags),
            wl_recovery_run_id = ''''\<rparr>)
      in if t = ''qemu'' then make KindVM else if t = ''lxc'' then make KindContainer else None)"

definition list_workloads :: "'w pve_env \<Rightarrow> pve_config \<Rightarrow> ctx \<Rightarrow> ('w pve, goerr + workload list) eng" where
  "list_workloads e cfg c =
     callE (cluster_resources e cfg c) (\<lambda>es. ret (Inr (List.map_filter (map_workload_entry (pe_readers e)) es)))"

definition no_workload :: "string \<Rightarrow> goerr" where
  "no_workload i = Wrapped (''proxmox: workload '' @ quoted i @ '': '' @ sentinel_text ErrNotFound) (Sentinel ErrNotFound)"

definition entry_with_id :: "readers \<Rightarrow> string \<Rightarrow> params list \<Rightarrow> params option" where
  "entry_with_id rd i es = find (\<lambda>m. id_string rd (key ''vmid'' m) = i) es"

definition resolve :: "'w pve_env \<Rightarrow> pve_config \<Rightarrow> ctx \<Rightarrow> string \<Rightarrow> ('w pve, goerr + string \<times> string) eng" where
  "resolve e cfg c i =
     callE (cluster_resources e cfg c) (\<lambda>es. ret
       (case entry_with_id (pe_readers e) i es of
          None \<Rightarrow> Inl (no_workload i)
        | Some m \<Rightarrow> Inr (as_string (pe_readers e) (key ''node'' m), as_string (pe_readers e) (key ''type'' m))))"

definition get_workload :: "'w pve_env \<Rightarrow> pve_config \<Rightarrow> ctx \<Rightarrow> string \<Rightarrow> ('w pve, goerr + workload option) eng" where
  "get_workload e cfg c i =
     callE (cluster_resources e cfg c) (\<lambda>es. ret
       (case Option.bind (entry_with_id (pe_readers e) i es) (map_workload_entry (pe_readers e)) of
          None \<Rightarrow> Inl (no_workload i) | Some w \<Rightarrow> Inr (Some w)))"

text \<open>The addresses the guest agent reports; an answer of another shape is no answer.\<close>

definition address_of :: "params \<Rightarrow> string option" where
  "address_of m =
     (case (text_of (key ''ip-address'' m), text_of (key ''ip-address-type'' m)) of
        (Some ip, Some _) \<Rightarrow> Some ip | _ \<Rightarrow> None)"

definition interface_addresses :: "params \<Rightarrow> string list option" where
  "interface_addresses m =
     (case (text_of (key ''name'' m), objects_of (key ''ip-addresses'' m)) of
        (Some _, Some addrs) \<Rightarrow> those (map address_of addrs) | _ \<Rightarrow> None)"

definition agent_addresses :: "anyval \<Rightarrow> string list option" where
  "agent_addresses v =
     Option.bind (object_of v) (\<lambda>m. Option.bind (objects_of (key ''result'' m)) (\<lambda>ifs.
       map_option concat (those (map interface_addresses ifs))))"

definition unusable_agent_ip :: "'w pve_env \<Rightarrow> string \<Rightarrow> bool" where
  "unusable_agent_ip e ip = (case pe_address e ip of None \<Rightarrow> True | Some (loopback, link_local) \<Rightarrow> loopback \<or> link_local)"

definition agent_ips :: "'w pve_env \<Rightarrow> pve_config \<Rightarrow> ctx \<Rightarrow> string \<Rightarrow> string \<Rightarrow> ('w pve, string list option) eng" where
  "agent_ips e cfg c node i =
     bindM (pve_request e cfg c HttpGet (''/nodes/'' @ node @ ''/qemu/'' @ i @ ''/agent/network-get-interfaces'') []) (\<lambda>r.
       ret (case r of
              Inl x \<Rightarrow> None
            | Inr d \<Rightarrow> map_option (filter (\<lambda>ip. \<not> unusable_agent_ip e ip)) (Option.bind d agent_addresses)))"

definition guest_path :: "string \<Rightarrow> string \<Rightarrow> string \<Rightarrow> string" where
  "guest_path node kind i = ''/nodes/'' @ node @ ''/'' @ kind @ ''/'' @ i"

definition get_status ::
  "'w pve_env \<Rightarrow> pve_config \<Rightarrow> ctx \<Rightarrow> string \<Rightarrow> ('w pve, goerr + workload_status option) eng" where
  "get_status e cfg c i =
     callE (resolve e cfg c i) (\<lambda>(node, kind).
     callE (fetch e cfg c HttpGet (guest_path node kind i @ ''/status/current'') [] object_of
              (''proxmox: decode status/current for '' @ i)) (\<lambda>m.
       (let rd = pe_readers e;
            status = \<lparr>ws_id = i, ws_power_state = map_power_state (as_string rd (key ''status'' m)),
              ws_uptime = wrap64 (as_int rd (key ''uptime'' m) * second), ws_agent_ready = False, ws_ips = [],
              ws_cpu_usage = as_float rd (key ''cpu'' m), ws_memory_bytes = as_int rd (key ''mem'' m)\<rparr>
        in if kind = ''qemu''
           then bindM (agent_ips e cfg c node i) (\<lambda>ips. ret (Inr (Some
             (case ips of None \<Rightarrow> status | Some l \<Rightarrow> status\<lparr>ws_agent_ready := True, ws_ips := l\<rparr>))))
           else ret (Inr (Some status)))))"


section \<open>Identifiers, tasks, restore\<close>

fun probe_ids :: "'w pve_env \<Rightarrow> pve_config \<Rightarrow> ctx \<Rightarrow> int list \<Rightarrow> ('w pve, goerr + string) eng" where
  "probe_ids e cfg c [] =
     ret (Inl (Plain (''proxmox: no free workload id in range '' @ itoa (px_temp_id_min cfg) @ ''-'' @ itoa (px_temp_id_max cfg))))"
| "probe_ids e cfg c (n # ns) =
     bindM (pve_request e cfg c HttpGet ''/cluster/nextid'' [(''vmid'', [itoa n])]) (\<lambda>r.
       case r of
         Inr _ \<Rightarrow> ret (Inr (itoa n))
       | Inl x \<Rightarrow> if is_retryable x \<or> errors_is x ErrUnauthorized then ret (Inl x) else probe_ids e cfg c ns)"

definition in_temp_range :: "pve_config \<Rightarrow> string \<Rightarrow> bool" where
  "in_temp_range cfg i =
     (case atoi i of None \<Rightarrow> False | Some n \<Rightarrow> px_temp_id_min cfg \<le> n \<and> n \<le> px_temp_id_max cfg)"

definition allocate_workload_id :: "'w pve_env \<Rightarrow> pve_config \<Rightarrow> ctx \<Rightarrow> ('w pve, goerr + string) eng" where
  "allocate_workload_id e cfg c =
     callE (fetch e cfg c HttpGet ''/cluster/nextid'' [] text_of ''proxmox: decode /cluster/nextid'') (\<lambda>i.
       if in_temp_range cfg i then ret (Inr i)
       else probe_ids e cfg c [px_temp_id_min cfg .. px_temp_id_max cfg])"

text \<open>
  Loops that ask until they are answered: \<open>look\<close> is one turn, with the pause that ends it. A loop that
  is never answered never returns.
\<close>

partial_function (option) poll_until :: "('s \<Rightarrow> 'a option \<times> 's) \<Rightarrow> 's \<Rightarrow> ('a \<times> 's) option" where
  "poll_until look s =
     (case look s of (Some a, s') \<Rightarrow> Some (a, s') | (None, s') \<Rightarrow> poll_until look s')"

definition poll :: "('s, 'a option) eng \<Rightarrow> ('s, 'a) eng" where
  "poll turn s =
     (case poll_until (\<lambda>s. case turn s of
          (Done (Some a), s) \<Rightarrow> (Some (Done a), s) | (Done None, s) \<Rightarrow> (None, s)
        | (Panicked x, s) \<Rightarrow> (Some (Panicked x), s) | (Diverged, s) \<Rightarrow> (Some Diverged, s)) s of
        None \<Rightarrow> (Diverged, s) | Some r \<Rightarrow> r)"

text \<open>The select at the end of a turn: the context, or the poll interval.\<close>

definition pause_or_end :: "'w pve_env \<Rightarrow> ctx \<Rightarrow> ('w pve, (goerr + 'a) option) eng" where
  "pause_or_end e c = (\<lambda>s.
     case pe_pause e c (pv_world s) of
       (ended, w) \<Rightarrow>
         (Done (if ended then map_option Inl (pe_ctx_err e c w) else None), s\<lparr>pv_world := w\<rparr>))"

definition task_outcome :: "readers \<Rightarrow> string \<Rightarrow> params \<Rightarrow> task_state" where
  "task_outcome rd upid m =
     (let x = as_string rd (key ''exitstatus'' m)
      in \<lparr>ts_id = upid, ts_running = False, ts_success = (x = ''OK''), ts_exit_code = x,
          ts_message = (if x = ''OK'' then ''OK'' else ''proxmox task '' @ upid @ '' failed: '' @ x)\<rparr>)"

definition wait_turn ::
  "'w pve_env \<Rightarrow> pve_config \<Rightarrow> ctx \<Rightarrow> string \<Rightarrow> string \<Rightarrow> ('w pve, (goerr + task_state) option) eng" where
  "wait_turn e cfg c node upid =
     bindM (fetch e cfg c HttpGet (''/nodes/'' @ node @ ''/tasks/'' @ upid @ ''/status'') [] object_of
              (''proxmox: decode task status for '' @ upid)) (\<lambda>r.
       case r of
         Inl x \<Rightarrow> ret (Some (Inl x))
       | Inr m \<Rightarrow>
           if as_string (pe_readers e) (key ''status'' m) = ''stopped''
           then ret (Some (Inr (task_outcome (pe_readers e) upid m)))
           else pause_or_end e c)"

definition wait_for_task :: "'w pve_env \<Rightarrow> pve_config \<Rightarrow> ctx \<Rightarrow> string \<Rightarrow> string \<Rightarrow> ('w pve, goerr + task_state) eng" where
  "wait_for_task e cfg c node upid = poll (wait_turn e cfg c node upid)"

text \<open>\<open>WaitForJob\<close>; the job is a pointer.\<close>

definition wait_for_job_task ::
  "'w pve_env \<Rightarrow> pve_config \<Rightarrow> ctx \<Rightarrow> restore_job option \<Rightarrow> ('w pve, goerr + task_state option) eng" where
  "wait_for_job_task e cfg c job =
     bindM (deref job) (\<lambda>j. callE (wait_for_task e cfg c (rj_node j) (rj_id j)) (\<lambda>t. ret (Inr (Some t))))"

definition is_net_iface :: "string \<Rightarrow> bool" where
  "is_net_iface k \<longleftrightarrow> has_prefix k ''net'' \<and> length k > 3 \<and> list_all is_digit (drop 3 k)"

definition render_net_config :: "network_config \<Rightarrow> string" where
  "render_net_config n =
     (if nw_model n = '''' then ''virtio'' else nw_model n) @ '',bridge='' @ nw_bridge n @
     (if nw_vlan_tag n > 0 then '',tag='' @ itoa (nw_vlan_tag n) else '''') @
     (if nw_firewall n then '',firewall=1'' else '''')"

definition newline :: string where "newline = [char_of (10 :: nat)]"

definition render_metadata :: "(string \<times> string) list \<Rightarrow> string" where
  "render_metadata md =
     join newline (map (\<lambda>k. k @ ''='' @ (case map_of md k of None \<Rightarrow> '''' | Some v \<Rightarrow> v))
       (sort_strings (remdups (map fst md))))"

text \<open>The text \<open>extractconfig\<close> answers with, as pairs; a later line of one key replaces the earlier.\<close>

fun config_lines :: "string list \<Rightarrow> (string \<times> string) list \<Rightarrow> (string \<times> string) list" where
  "config_lines [] out = out"
| "config_lines (l # ls) out =
     (let l = trim_space l; k = trim_space (takeWhile (\<lambda>x. x \<noteq> CHR '':'') l);
          v = trim_space (tl (dropWhile (\<lambda>x. x \<noteq> CHR '':'') l))
      in if l = '''' \<or> has_prefix l ''#'' \<or> CHR '':'' \<notin> set l \<or> k = '''' then config_lines ls out
         else config_lines ls (filter (\<lambda>e. fst e \<noteq> k) out @ [(k, v)]))"

definition parse_config_blob :: "string \<Rightarrow> (string \<times> string) list" where
  "parse_config_blob blob = config_lines (split_on (char_of (10 :: nat)) blob) []"

definition backup_config ::
  "'w pve_env \<Rightarrow> pve_config \<Rightarrow> ctx \<Rightarrow> string \<Rightarrow> string \<Rightarrow> ('w pve, goerr + (string \<times> string) list) eng" where
  "backup_config e cfg c node volid =
     callE (fetch e cfg c HttpGet (''/nodes/'' @ node @ ''/vzdump/extractconfig'') [(''volume'', [volid])] text_of
              (''proxmox: decode backup config for '' @ volid)) (\<lambda>blob. ret (Inr (parse_config_blob blob)))"

definition network_devices :: "(string \<times> string) list \<Rightarrow> string list" where
  "network_devices conf = sort_strings (filter is_net_iface (map fst conf))"

definition backup_network_devices ::
  "'w pve_env \<Rightarrow> pve_config \<Rightarrow> ctx \<Rightarrow> string \<Rightarrow> string \<Rightarrow> ('w pve, string list) eng" where
  "backup_network_devices e cfg c node volid =
     bindM (backup_config e cfg c node volid) (\<lambda>r. ret
       (case r of
          Inl x \<Rightarrow> [''net0'']
        | Inr conf \<Rightarrow> if network_devices conf = [] then [''net0''] else network_devices conf))"

text \<open>The form \<open>Restore\<close> posts, for the interfaces found in the backup.\<close>

definition restore_form :: "string list \<Rightarrow> backup \<Rightarrow> restore_options \<Rightarrow> form" where
  "restore_form nets b o0 =
     (let f = form_set ''archive'' (bk_id b) (form_set ''vmid'' (ro_target_workload_id o0) []);
          f = form_set_if (ro_storage o0 \<noteq> '''') ''storage'' (ro_storage o0) f;
          f = form_set_if (ro_pool o0 \<noteq> '''') ''pool'' (ro_pool o0) f;
          f = fold (\<lambda>i f. form_set i (render_net_config (ro_network o0)) f) nets f;
          desc = render_metadata (ro_metadata o0);
          f = form_set_if (desc \<noteq> '''') ''description'' desc f;
          f = form_set ''start'' ''0'' (form_set ''unique'' ''1'' (form_set ''tags'' managed_tag f))
      in form_set_if (ro_bandwidth_kibps o0 > 0) ''bwlimit'' (itoa (ro_bandwidth_kibps o0)) f)"

definition restore ::
  "'w pve_env \<Rightarrow> pve_config \<Rightarrow> ctx \<Rightarrow> backup \<Rightarrow> restore_options \<Rightarrow> ('w pve, goerr + restore_job option) eng" where
  "restore e cfg c b o0 =
     (let node = (if ro_node o0 = '''' then bk_node b else ro_node o0) in
      if node = '''' then
        ret (Inl (Plain (''proxmox: restore: no target node given and backup '' @ quoted (bk_id b) @ '' has none either'')))
      else if ro_target_workload_id o0 = '''' then
        ret (Inl (Plain ''proxmox: restore: opts.TargetWorkloadID is required''))
      else
        bindM (if nw_bridge (ro_network o0) \<noteq> '''' then backup_network_devices e cfg c node (bk_id b) else ret []) (\<lambda>nets.
        callE (fetch e cfg c HttpPost (''/nodes/'' @ node @ ''/qemu'') (restore_form nets b o0) text_of
                 ''proxmox: decode restore task id'') (\<lambda>upid. (\<lambda>s.
          case pe_now e (pv_world s) of
            (t, w) \<Rightarrow> (Done (Inr (Some \<lparr>rj_id = upid, rj_workload_id = ro_target_workload_id o0, rj_node = node,
              rj_started_at = t\<rparr>)), s\<lparr>pv_world := w\<rparr>)))))"

text \<open>The form \<open>FinalizeRestore\<close> posts over the configuration it read.\<close>

definition finalize_form :: "params \<Rightarrow> restore_options \<Rightarrow> form" where
  "finalize_form conf o0 =
     (let n = ro_network o0;
          net = ''virtio,bridge='' @ nw_bridge n @
            (if nw_vlan_tag n > 0 then '',tag='' @ itoa (nw_vlan_tag n) else '''') @
            (if nw_firewall n then '',firewall=1'' else '''');
          f = form_set ''net0'' net [];
          gone = sort_strings (remdups (filter (\<lambda>k. is_net_iface k \<and> k \<noteq> ''net0'') (map fst conf)));
          f = form_set_if (gone \<noteq> []) ''delete'' (join '','' gone) f;
          f = form_set ''protection'' ''0'' (form_set ''onboot'' ''0'' f);
          f = form_set_if (ro_name o0 \<noteq> '''') ''name'' (ro_name o0) f;
          f = form_set_if (ro_cpu_limit o0 > 0) ''cores'' (itoa (ro_cpu_limit o0)) f;
          f = form_set_if (ro_memory_limit_mb o0 > 0) ''memory'' (itoa (ro_memory_limit_mb o0)) f;
          desc = render_metadata (ro_metadata o0)
      in form_set ''tags'' managed_tag (form_set_if (desc \<noteq> '''') ''description'' desc f))"

definition finalize_restore :: "'w pve_env \<Rightarrow> pve_config \<Rightarrow> ctx \<Rightarrow> restore_options \<Rightarrow> ('w pve, goerr + unit) eng" where
  "finalize_restore e cfg c o0 =
     (let i = ro_target_workload_id o0 in
      callE (if ro_node o0 = '''' then resolve e cfg c i else ret (Inr (ro_node o0, ''''))) (\<lambda>(node, kind).
      callE (fetch e cfg c HttpGet (guest_path node ''qemu'' i @ ''/config'') [] object_of
               (''proxmox: decode config for '' @ i)) (\<lambda>conf.
      callE (pve_request e cfg c HttpPost (guest_path node ''qemu'' i @ ''/config'') (finalize_form conf o0)) (\<lambda>_.
        ret (Inr ())))))"


section \<open>Starting, stopping, deleting\<close>

definition run_lifecycle_task ::
  "'w pve_env \<Rightarrow> pve_config \<Rightarrow> ctx \<Rightarrow> string \<Rightarrow> string \<Rightarrow> string \<Rightarrow> string \<Rightarrow> ('w pve, goerr + unit) eng" where
  "run_lifecycle_task e cfg c node kind i action =
     callE (fetch e cfg c HttpPost (guest_path node kind i @ ''/status/'' @ action) [] text_of
              (''proxmox: decode '' @ action @ '' task id for '' @ i)) (\<lambda>upid.
     callE (wait_for_task e cfg c node upid) (\<lambda>t. ret
       (if ts_success t then Inr ()
        else Inl (Plain (''proxmox: '' @ action @ '' '' @ i @ '': '' @ ts_message t)))))"

definition start_guest :: "'w pve_env \<Rightarrow> pve_config \<Rightarrow> ctx \<Rightarrow> string \<Rightarrow> ('w pve, goerr + unit) eng" where
  "start_guest e cfg c i =
     callE (resolve e cfg c i) (\<lambda>(node, kind). run_lifecycle_task e cfg c node kind i ''start'')"

definition stop_guest :: "'w pve_env \<Rightarrow> pve_config \<Rightarrow> ctx \<Rightarrow> string \<Rightarrow> ('w pve, goerr + unit) eng" where
  "stop_guest e cfg c i =
     callE (resolve e cfg c i) (\<lambda>(node, kind). run_lifecycle_task e cfg c node kind i ''stop'')"

definition managed_config :: "readers \<Rightarrow> params \<Rightarrow> bool" where
  "managed_config rd m \<longleftrightarrow> contains (as_string rd (key ''description'' m)) (metadata_managed @ ''=true'')"

definition is_managed ::
  "'w pve_env \<Rightarrow> pve_config \<Rightarrow> ctx \<Rightarrow> string \<Rightarrow> string \<Rightarrow> string \<Rightarrow> ('w pve, goerr + bool) eng" where
  "is_managed e cfg c node kind i =
     callE (fetch e cfg c HttpGet (guest_path node kind i @ ''/config'') [] object_of
              (''proxmox: decode config for '' @ i)) (\<lambda>m. ret (Inr (managed_config (pe_readers e) m)))"

definition outside_range :: "pve_config \<Rightarrow> string \<Rightarrow> goerr" where
  "outside_range cfg i =
     Wrapped (''proxmox: refusing to delete workload '' @ quoted i @ '': outside the reserved temporary id range '' @
       itoa (px_temp_id_min cfg) @ ''-'' @ itoa (px_temp_id_max cfg) @ '': '' @ sentinel_text ErrNotManaged)
       (Sentinel ErrNotManaged)"

definition not_managed :: "string \<Rightarrow> goerr" where
  "not_managed i =
     Wrapped (''proxmox: refusing to delete workload '' @ quoted i @ '': '' @ sentinel_text ErrNotManaged)
       (Sentinel ErrNotManaged)"

text \<open>What \<open>Delete\<close> does once both gates are passed.\<close>

definition stop_if_running ::
  "'w pve_env \<Rightarrow> pve_config \<Rightarrow> ctx \<Rightarrow> string \<Rightarrow> string \<Rightarrow> string \<Rightarrow> ('w pve, goerr + unit) eng" where
  "stop_if_running e cfg c node kind i =
     callE (fetch e cfg c HttpGet (guest_path node kind i @ ''/status/current'') [] object_of
              (''proxmox: decode status/current for '' @ i)) (\<lambda>m.
       if as_string (pe_readers e) (key ''status'' m) = ''running''
       then bindM (stop_guest e cfg c i) (\<lambda>r. ret
              (case r of
                 Inl x \<Rightarrow> Inl (wrapf (''proxmox: delete '' @ i @ '': stopping before destroy'') x)
               | Inr _ \<Rightarrow> Inr ()))
       else ret (Inr ()))"

definition destroy_guest ::
  "'w pve_env \<Rightarrow> pve_config \<Rightarrow> ctx \<Rightarrow> string \<Rightarrow> string \<Rightarrow> string \<Rightarrow> ('w pve, goerr + unit) eng" where
  "destroy_guest e cfg c node kind i =
     callE (fetch e cfg c HttpDelete (guest_path node kind i)
              [(''purge'', [''1'']), (''destroy-unreferenced-disks'', [''1''])] text_of
              (''proxmox: decode delete task id for '' @ i)) (\<lambda>upid.
     callE (wait_for_task e cfg c node upid) (\<lambda>t. ret
       (if ts_success t then Inr () else Inl (Plain (''proxmox: delete '' @ i @ '': '' @ ts_message t)))))"

definition delete_guest :: "'w pve_env \<Rightarrow> pve_config \<Rightarrow> ctx \<Rightarrow> string \<Rightarrow> ('w pve, goerr + unit) eng" where
  "delete_guest e cfg c i =
     (if \<not> in_temp_range cfg i then ret (Inl (outside_range cfg i))
      else
        callE (resolve e cfg c i) (\<lambda>(node, kind).
        callE (is_managed e cfg c node kind i) (\<lambda>managed.
          if \<not> managed then ret (Inl (not_managed i))
          else callE (stop_if_running e cfg c node kind i) (\<lambda>_. destroy_guest e cfg c node kind i))))"


section \<open>Capacity and isolation\<close>

definition sub_object :: "string \<Rightarrow> params \<Rightarrow> params" where
  "sub_object k m = (case key k m of AnyMap kvs \<Rightarrow> kvs | _ \<Rightarrow> [])"

definition node_capacity :: "'w pve_env \<Rightarrow> pve_config \<Rightarrow> ctx \<Rightarrow> string \<Rightarrow> ('w pve, goerr + node option) eng" where
  "node_capacity e cfg c node =
     callE (fetch e cfg c HttpGet (''/nodes/'' @ node @ ''/status'') [] object_of
              (''proxmox: decode status for node '' @ node)) (\<lambda>m. ret
       (let rd = pe_readers e; mem = sub_object ''memory'' m; rootfs = sub_object ''rootfs'' m;
            cpu = sub_object ''cpuinfo'' m
        in Inr (Some \<lparr>nd_id = node, nd_name = node, nd_cluster = '''', nd_online = True,
             nd_cpu_cores = as_int rd (key ''cpus'' cpu), nd_cpu_usage = as_float rd (key ''cpu'' m),
             nd_memory_total = as_int rd (key ''total'' mem), nd_memory_used = as_int rd (key ''used'' mem),
             nd_disk_total = as_int rd (key ''total'' rootfs), nd_disk_used = as_int rd (key ''used'' rootfs)\<rparr>)))"

definition bridge_verdict :: "readers \<Rightarrow> string \<Rightarrow> network_config \<Rightarrow> params list \<Rightarrow> goerr + unit" where
  "bridge_verdict rd node n es =
     (let text = (\<lambda>k m. trim_space (as_string rd (key k m))) in
      case find (\<lambda>m. as_string rd (key ''iface'' m) = nw_bridge n) es of
        Some m \<Rightarrow>
          if text ''bridge_ports'' m \<noteq> '''' \<or> text ''gateway'' m \<noteq> ''''
          then Inl (Wrapped (''proxmox: bridge '' @ quoted (nw_bridge n) @ '' on node '' @ quoted node @
                 '' has an uplink (bridge_ports='' @ quoted (text ''bridge_ports'' m) @ '' gateway='' @
                 quoted (text ''gateway'' m) @ ''): '' @ sentinel_text ErrNetworkNotIsolated) (Sentinel ErrNetworkNotIsolated))
          else Inr ()
      | None \<Rightarrow>
          if list_ex (\<lambda>m. as_string rd (key ''type'' m) = ''bridge'') es
          then Inl (Wrapped (''proxmox: bridge '' @ quoted (nw_bridge n) @ '' not found on node '' @ quoted node @
                 '': '' @ sentinel_text ErrNetworkNotIsolated) (Sentinel ErrNetworkNotIsolated))
          else Inl (Wrapped (''proxmox: cannot read the bridges of node '' @ quoted node @
                 '' with these credentials ('' @ itoa (int (length es)) @ '' interface(s) visible): '' @
                 sentinel_text ErrIsolationUnverified) (Sentinel ErrIsolationUnverified)))"

definition validate_isolation ::
  "'w pve_env \<Rightarrow> pve_config \<Rightarrow> ctx \<Rightarrow> string \<Rightarrow> network_config \<Rightarrow> ('w pve, goerr + unit) eng" where
  "validate_isolation e cfg c node n =
     callE (fetch e cfg c HttpGet (''/nodes/'' @ node @ ''/network'') [] objects_of
              (''proxmox: decode network config for node '' @ node)) (\<lambda>es. ret (bridge_verdict (pe_readers e) node n es))"

end
