(* ===== verification/Proxmox_Guest.thy ===== *)
theory Proxmox_Guest
  imports Proxmox
begin

text \<open>
  The rest of internal/providers/proxmox that a drill uses: commands inside the guest (exec.go), its
  operating system (osinfo.go), the backups of a workload (backups.go), and the storages, tasks and
  snapshots the diagnostics read (storages.go).
\<close>

section \<open>Commands in the guest\<close>

definition agent_unavailable_phrases :: "string list" where
  "agent_unavailable_phrases =
     [''qemu guest agent is not running'', ''no qemu guest agent configured'', ''guest agent is not running'',
      ''qmp command '' @ [CHR 0x27] @ ''guest-exec'' @ [CHR 0x27] @ '' failed'',
      ''qmp command '' @ [CHR 0x27] @ ''guest-exec-status'' @ [CHR 0x27] @ '' failed'']"

definition agent_down :: "string \<Rightarrow> bool" where
  "agent_down msg \<longleftrightarrow> contains msg ''unexpected status 5'' \<or> list_ex (contains msg) agent_unavailable_phrases"

definition map_agent_error :: "goerr \<Rightarrow> goerr" where
  "map_agent_error err =
     (if errors_is err ErrUnauthorized then
        Wrapped (sentinel_text ErrUnauthorized @ '': guest agent exec requires the VM.Monitor privilege on this VM, '' @
          ''and some PVE versions restrict it to root@pam: '' @ err_text err) (Sentinel ErrUnauthorized)
      else if agent_down (to_lower (err_text err)) then
        Wrapped (sentinel_text ErrGuestAgentUnavailable @
          '': the guest agent did not answer - install and start qemu-guest-agent inside the guest, and enable '' @
          quoted ''QEMU Guest Agent'' @ '' under the VM'' @ [CHR 0x27] @ ''s Options in Proxmox; if it is already running, '' @
          ''the API error is the real cause: '' @ err_text err) (Sentinel ErrGuestAgentUnavailable)
      else err)"

definition map_agent_result :: "goerr + 'a \<Rightarrow> goerr + 'a" where
  "map_agent_result r = (case r of Inl x \<Rightarrow> Inl (map_agent_error x) | Inr a \<Rightarrow> Inr a)"

definition truncated_to :: "int \<Rightarrow> string \<Rightarrow> string \<times> bool" where
  "truncated_to n s = (if int (length s) \<le> n then (s, False) else (take (nat n) s, True))"

definition build_exec_result :: "readers \<Rightarrow> params \<Rightarrow> int \<Rightarrow> exec_result" where
  "build_exec_result rd m max_output =
     (let cap = (if max_output \<le> 0 then default_max_output_bytes else max_output);
          (out, out_cut) = truncated_to cap (as_string rd (key ''out-data'' m));
          (err, err_cut) = truncated_to cap (as_string rd (key ''err-data'' m))
      in \<lparr>er_exit_code = as_int rd (key ''exitcode'' m), er_stdout = out, er_stderr = err,
          er_truncated = (as_bool (key ''out-truncated'' m) \<or> as_bool (key ''err-truncated'' m) \<or> out_cut \<or> err_cut),
          er_signal = as_string rd (key ''signal'' m)\<rparr>)"

definition agent_exec_start ::
  "'w pve_env \<Rightarrow> pve_config \<Rightarrow> ctx \<Rightarrow> string \<Rightarrow> string \<Rightarrow> exec_request \<Rightarrow> ('w pve, goerr + int) eng" where
  "agent_exec_start e cfg c node i q =
     callE (fetch e cfg c HttpPost (''/nodes/'' @ node @ ''/qemu/'' @ i @ ''/agent/exec'')
              (form_set_if (eq_input q \<noteq> '''') ''input-data'' (eq_input q) [(''command'', eq_argv q)]) object_of
              (''proxmox: decode agent/exec response for '' @ i)) (\<lambda>m.
       ret (Inr (as_int (pe_readers e) (key ''pid'' m))))"

definition exec_turn ::
  "'w pve_env \<Rightarrow> pve_config \<Rightarrow> ctx \<Rightarrow> string \<Rightarrow> string \<Rightarrow> int \<Rightarrow> int \<Rightarrow> ('w pve, (goerr + exec_result) option) eng" where
  "exec_turn e cfg c node i pid max_output =
     bindM (pve_request e cfg c HttpGet (''/nodes/'' @ node @ ''/qemu/'' @ i @ ''/agent/exec-status'') [(''pid'', [itoa pid])]) (\<lambda>r.
       case map_agent_result r of
         Inl x \<Rightarrow> ret (Some (Inl x))
       | Inr d \<Rightarrow>
           (case decoded e object_of (''proxmox: decode agent/exec-status response for '' @ i) d of
              Inl x \<Rightarrow> ret (Some (Inl x))
            | Inr m \<Rightarrow>
                if as_bool (key ''exited'' m) then ret (Some (Inr (build_exec_result (pe_readers e) m max_output)))
                else pause_or_end e c))"

definition agent_exec_wait ::
  "'w pve_env \<Rightarrow> pve_config \<Rightarrow> ctx \<Rightarrow> string \<Rightarrow> string \<Rightarrow> int \<Rightarrow> int \<Rightarrow> ('w pve, goerr + exec_result) eng" where
  "agent_exec_wait e cfg c node i pid max_output = poll (exec_turn e cfg c node i pid max_output)"

definition not_qemu :: "string \<Rightarrow> string \<Rightarrow> string \<Rightarrow> goerr" where
  "not_qemu i kind what =
     Wrapped (''proxmox: workload '' @ quoted i @ '' is a '' @ kind @ '', not a qemu VM: '' @ what @
       '' is QEMU-only: '' @ sentinel_text ErrUnsupported) (Sentinel ErrUnsupported)"

definition exec_in_guest ::
  "'w pve_env \<Rightarrow> pve_config \<Rightarrow> ctx \<Rightarrow> string \<Rightarrow> exec_request \<Rightarrow> ('w pve, goerr + exec_result option) eng" where
  "exec_in_guest e cfg c i q =
     (if eq_argv q = [] then ret (Inl (Plain ''proxmox: ExecInGuest: req.Argv is empty''))
      else
        callE (resolve e cfg c i) (\<lambda>(node, kind).
          if kind \<noteq> ''qemu'' then ret (Inl (not_qemu i kind ''guest agent exec''))
          else
            bindM (agent_exec_start e cfg c node i q) (\<lambda>started.
              case map_agent_result started of
                Inl x \<Rightarrow> ret (Inl x)
              | Inr pid \<Rightarrow>
                  callE (agent_exec_wait e cfg c node i pid (eq_max_output_bytes q)) (\<lambda>r. ret (Inr (Some r))))))"


section \<open>The guest's operating system\<close>

definition os_family :: "string \<Rightarrow> string \<Rightarrow> string \<Rightarrow> string" where
  "os_family i name kname =
     (if contains (to_lower i) ''windows'' \<or> contains (to_lower name) ''windows'' then ''windows''
      else if to_lower kname = ''linux'' then ''linux'' else '''')"

definition os_version :: "string \<Rightarrow> string \<Rightarrow> string" where
  "os_version version version_id = (if version \<noteq> '''' then version else version_id)"

definition os_texts :: "anyval \<Rightarrow> string list option" where
  "os_texts v =
     Option.bind (object_of v) (\<lambda>m. Option.bind (object_of (key ''result'' m)) (\<lambda>r.
       those (map (\<lambda>k. text_of (key k r)) [''id'', ''name'', ''pretty-name'', ''version'', ''version-id'', ''kernel-name''])))"

definition guest_os_of :: "string list \<Rightarrow> guest_os" where
  "guest_os_of ts =
     (case ts of
        [i, name, pretty, version, version_id, kname] \<Rightarrow>
          \<lparr>go_family = os_family i name kname, go_id = i, go_name = name, go_pretty_name = pretty,
           go_version = os_version version version_id\<rparr>
      | _ \<Rightarrow> \<lparr>go_family = '''', go_id = '''', go_name = '''', go_pretty_name = '''', go_version = ''''\<rparr>)"

definition detect_guest_os :: "'w pve_env \<Rightarrow> pve_config \<Rightarrow> ctx \<Rightarrow> string \<Rightarrow> ('w pve, goerr + guest_os) eng" where
  "detect_guest_os e cfg c i =
     callE (resolve e cfg c i) (\<lambda>(node, kind).
       if kind \<noteq> ''qemu'' then ret (Inl (not_qemu i kind ''guest OS detection''))
       else
         bindM (pve_request e cfg c HttpGet (''/nodes/'' @ node @ ''/qemu/'' @ i @ ''/agent/get-osinfo'') []) (\<lambda>r.
           case map_agent_result r of
             Inl x \<Rightarrow> ret (Inl x)
           | Inr d \<Rightarrow>
               (case decoded e os_texts (''proxmox: decode agent/get-osinfo response for '' @ i) d of
                  Inl x \<Rightarrow> ret (Inl x) | Inr ts \<Rightarrow> ret (Inr (guest_os_of ts)))))"


section \<open>Backups\<close>

definition first_online :: "node list \<Rightarrow> string option" where
  "first_online ns = map_option nd_id (find nd_online ns)"

definition backup_node :: "'w pve_env \<Rightarrow> pve_config \<Rightarrow> ctx \<Rightarrow> string \<Rightarrow> ('w pve, goerr + string) eng" where
  "backup_node e cfg c i =
     bindM (resolve e cfg c i) (\<lambda>r.
       case r of
         Inr (node, kind) \<Rightarrow> ret (Inr node)
       | Inl _ \<Rightarrow>
           callE (list_nodes e cfg c) (\<lambda>ns. ret
             (case first_online ns of
                Some n \<Rightarrow> Inr n
              | None \<Rightarrow> Inl (Wrapped (''proxmox: no online node available to look up backups for '' @ quoted i @ '': '' @
                  sentinel_text ErrNotFound) (Sentinel ErrNotFound)))))"

definition backup_storages :: "'w pve_env \<Rightarrow> pve_config \<Rightarrow> ctx \<Rightarrow> string \<Rightarrow> ('w pve, goerr + string list) eng" where
  "backup_storages e cfg c node =
     (if px_backup_storage cfg \<noteq> '''' then ret (Inr [px_backup_storage cfg])
      else callE (fetch e cfg c HttpGet (''/nodes/'' @ node @ ''/storage'') [(''content'', [''backup''])] objects_of
                    (''proxmox: decode storage list for node '' @ node)) (\<lambda>es.
             ret (Inr (map (\<lambda>m. as_string (pe_readers e) (key ''storage'' m)) es))))"

text \<open>\<open>decode\<close> is \<open>json.Unmarshal\<close> of a text into a map.\<close>

definition verification_word :: "string \<Rightarrow> verification_state" where
  "verification_word s =
     (if s = ''ok'' then VerificationOK else if s = ''failed'' then VerificationFailed
      else if s = '''' then VerificationNone else VerificationUnknown)"

definition map_verification :: "readers \<Rightarrow> (string \<Rightarrow> params option) \<Rightarrow> anyval \<Rightarrow> verification_state" where
  "map_verification rd decode v =
     (case v of
        AnyMap m \<Rightarrow> verification_word (as_string rd (key ''state'' m))
      | AnyString t \<Rightarrow>
          if t = '''' then VerificationNone
          else (case decode t of
                  Some m \<Rightarrow> verification_word (as_string rd (key ''state'' m)) | None \<Rightarrow> VerificationUnknown)
      | _ \<Rightarrow> VerificationNone)"

definition backup_of ::
  "readers \<Rightarrow> (string \<Rightarrow> params option) \<Rightarrow> pve_config \<Rightarrow> string \<Rightarrow> string \<Rightarrow> string \<Rightarrow> params \<Rightarrow> backup" where
  "backup_of rd decode cfg i storage node m =
     \<lparr>bk_id = as_string rd (key ''volid'' m), bk_workload_id = i, bk_provider_id = px_id cfg, bk_datastore = storage,
      bk_node = node, bk_created_at = as_int rd (key ''ctime'' m) * second, bk_size_bytes = as_int rd (key ''size'' m),
      bk_protected = as_bool (key ''protected'' m), bk_encrypted = False,
      bk_verified = map_verification rd decode (key ''verification'' m),
      bk_format = as_string rd (key ''format'' m), bk_notes = as_string rd (key ''notes'' m)\<rparr>"

text \<open>The loop over one storage's entries: a volume is listed once.\<close>

definition add_backups ::
  "readers \<Rightarrow> (params \<Rightarrow> backup) \<Rightarrow> params list \<Rightarrow> backup list \<Rightarrow> backup list" where
  "add_backups rd mk es found =
     fold (\<lambda>m found. let b = mk m in
       if bk_id b = '''' \<or> bk_id b \<in> bk_id ` set found then found else found @ [b]) es found"

fun collect_backups ::
  "'w pve_env \<Rightarrow> (string \<Rightarrow> params option) \<Rightarrow> pve_config \<Rightarrow> ctx \<Rightarrow> string \<Rightarrow> string \<Rightarrow> string list \<Rightarrow> backup list \<Rightarrow>
   ('w pve, goerr + backup list) eng" where
  "collect_backups e decode cfg c i node [] found = ret (Inr found)"
| "collect_backups e decode cfg c i node (st # sts) found =
     callE (fetch e cfg c HttpGet (''/nodes/'' @ node @ ''/storage/'' @ st @ ''/content'')
              [(''content'', [''backup'']), (''vmid'', [i])] objects_of
              (''proxmox: decode content list for storage '' @ st)) (\<lambda>es.
       collect_backups e decode cfg c i node sts
         (add_backups (pe_readers e) (backup_of (pe_readers e) decode cfg i st node) es found))"

text \<open>\<open>sort.Slice\<close> with After; backups of one second may come in any order, here the order listed.\<close>

definition newest_backups :: "backup list \<Rightarrow> backup list" where
  "newest_backups bs = sort_key (\<lambda>b. - bk_created_at b) bs"

definition list_backups ::
  "'w pve_env \<Rightarrow> (string \<Rightarrow> params option) \<Rightarrow> pve_config \<Rightarrow> ctx \<Rightarrow> string \<Rightarrow> ('w pve, goerr + backup list) eng" where
  "list_backups e decode cfg c i =
     callE (backup_node e cfg c i) (\<lambda>node.
     callE (backup_storages e cfg c node) (\<lambda>sts.
     callE (collect_backups e decode cfg c i node sts []) (\<lambda>bs. ret (Inr (newest_backups bs)))))"

definition get_latest_backup ::
  "'w pve_env \<Rightarrow> (string \<Rightarrow> params option) \<Rightarrow> pve_config \<Rightarrow> ctx \<Rightarrow> string \<Rightarrow> ('w pve, goerr + backup option) eng" where
  "get_latest_backup e decode cfg c i =
     callE (list_backups e decode cfg c i) (\<lambda>bs. ret
       (case bs of
          [] \<Rightarrow> Inl (Wrapped (''proxmox: workload '' @ quoted i @ '': '' @ sentinel_text ErrNoBackup) (Sentinel ErrNoBackup))
        | b # _ \<Rightarrow> Inr (Some b)))"


section \<open>What the diagnostics read\<close>

record storage =
  sg_id :: string
  sg_type :: string
  sg_content :: string
  sg_active :: bool
  sg_enabled :: bool
  sg_shared :: bool
  sg_total :: int
  sg_used :: int

definition split_csv :: "string \<Rightarrow> string list" where
  "split_csv s = filter (\<lambda>p. p \<noteq> '''') (split_on (CHR '','') s)"

definition holds_backups :: "storage \<Rightarrow> bool" where
  "holds_backups st \<longleftrightarrow> ''backup'' \<in> set (split_csv (sg_content st))"

definition storage_of :: "readers \<Rightarrow> params \<Rightarrow> storage" where
  "storage_of rd m =
     \<lparr>sg_id = as_string rd (key ''storage'' m), sg_type = as_string rd (key ''type'' m),
      sg_content = as_string rd (key ''content'' m), sg_active = as_bool (key ''active'' m),
      sg_enabled = as_bool (key ''enabled'' m), sg_shared = as_bool (key ''shared'' m),
      sg_total = as_int rd (key ''total'' m), sg_used = as_int rd (key ''used'' m)\<rparr>"

definition list_storages :: "'w pve_env \<Rightarrow> pve_config \<Rightarrow> ctx \<Rightarrow> string \<Rightarrow> ('w pve, goerr + storage list) eng" where
  "list_storages e cfg c node =
     callE (if node \<noteq> '''' then ret (Inr node)
            else callE (list_nodes e cfg c) (\<lambda>ns. ret
              (case first_online ns of
                 None \<Rightarrow> Inl (Plain ''proxmox: no online node to list storages on'')
               | Some n \<Rightarrow> if n = '''' then Inl (Plain ''proxmox: no online node to list storages on'') else Inr n))) (\<lambda>node.
     callE (fetch e cfg c HttpGet (''/nodes/'' @ node @ ''/storage'') [] objects_of
              (''proxmox: decode storage list for node '' @ node)) (\<lambda>es.
       ret (Inr (map (storage_of (pe_readers e)) es))))"

definition storage_content ::
  "'w pve_env \<Rightarrow> pve_config \<Rightarrow> ctx \<Rightarrow> string \<Rightarrow> string \<Rightarrow> form \<Rightarrow> ('w pve, goerr + params list) eng" where
  "storage_content e cfg c node st f =
     fetch e cfg c HttpGet (''/nodes/'' @ node @ ''/storage/'' @ st @ ''/content'') f objects_of
       (''proxmox: decode content of storage '' @ st)"

definition list_content_ids ::
  "'w pve_env \<Rightarrow> pve_config \<Rightarrow> ctx \<Rightarrow> string \<Rightarrow> string \<Rightarrow> string \<Rightarrow> string \<Rightarrow> ('w pve, goerr + string list) eng" where
  "list_content_ids e cfg c node st content i =
     callE (storage_content e cfg c node st
              (form_set_if (i \<noteq> '''') ''vmid'' i (form_set_if (content \<noteq> '''') ''content'' content []))) (\<lambda>es.
       ret (Inr (map (\<lambda>m. as_string (pe_readers e) (key ''volid'' m)) es)))"

definition count_backups ::
  "'w pve_env \<Rightarrow> pve_config \<Rightarrow> ctx \<Rightarrow> string \<Rightarrow> string \<Rightarrow> string \<Rightarrow> ('w pve, goerr + nat) eng" where
  "count_backups e cfg c node st i =
     callE (storage_content e cfg c node st (form_set_if (i \<noteq> '''') ''vmid'' i [(''content'', [''backup''])])) (\<lambda>es.
       ret (Inr (length es)))"

record pve_task =
  tj_upid :: string
  tj_type :: string
  tj_subject :: string
  tj_status :: string
  tj_running :: bool
  tj_user :: string

definition task_of :: "readers \<Rightarrow> (string \<Rightarrow> bool) \<Rightarrow> params \<Rightarrow> pve_task" where
  "task_of rd running m =
     (let status = as_string rd (key ''status'' m)
      in \<lparr>tj_upid = as_string rd (key ''upid'' m), tj_type = as_string rd (key ''type'' m),
          tj_subject = as_string rd (key ''id'' m), tj_status = status, tj_running = running status,
          tj_user = as_string rd (key ''user'' m)\<rparr>)"

definition running_tasks :: "'w pve_env \<Rightarrow> pve_config \<Rightarrow> ctx \<Rightarrow> string \<Rightarrow> ('w pve, goerr + pve_task list) eng" where
  "running_tasks e cfg c node =
     callE (fetch e cfg c HttpGet (''/nodes/'' @ node @ ''/tasks'') [(''running'', [''1'']), (''limit'', [''50''])] objects_of
              (''proxmox: decode task list for node '' @ node)) (\<lambda>es.
       ret (Inr (map (task_of (pe_readers e) (\<lambda>s. s = '''' \<or> s = ''running'')) es)))"

definition recent_backup_tasks ::
  "'w pve_env \<Rightarrow> pve_config \<Rightarrow> ctx \<Rightarrow> string \<Rightarrow> int \<Rightarrow> ('w pve, goerr + pve_task list) eng" where
  "recent_backup_tasks e cfg c node limit =
     callE (fetch e cfg c HttpGet (''/nodes/'' @ node @ ''/tasks'')
              [(''typefilter'', [''vzdump'']), (''limit'', [itoa (if limit \<le> 0 then 20 else limit)])] objects_of
              (''proxmox: decode backup task list for node '' @ node)) (\<lambda>es.
       ret (Inr (map (task_of (pe_readers e) (\<lambda>s. s = '''')) es)))"

definition task_succeeded :: "pve_task \<Rightarrow> bool" where "task_succeeded t \<longleftrightarrow> tj_status t = ''OK''"

record snapshot =
  sn_name :: string
  sn_description :: string
  sn_current :: bool

definition list_snapshots :: "'w pve_env \<Rightarrow> pve_config \<Rightarrow> ctx \<Rightarrow> string \<Rightarrow> ('w pve, goerr + snapshot list) eng" where
  "list_snapshots e cfg c i =
     callE (resolve e cfg c i) (\<lambda>(node, kind).
     callE (fetch e cfg c HttpGet (guest_path node kind i @ ''/snapshot'') [] objects_of
              (''proxmox: decode snapshots of '' @ i)) (\<lambda>es.
       ret (Inr (map (\<lambda>m. let n = as_string (pe_readers e) (key ''name'' m)
         in \<lparr>sn_name = n, sn_description = as_string (pe_readers e) (key ''description'' m), sn_current = (n = ''current'')\<rparr>) es))))"

definition permission_tree :: "anyval \<Rightarrow> (string \<times> params) list option" where
  "permission_tree v =
     Option.bind (object_of v) (\<lambda>m. those (map (\<lambda>(k, v). map_option (Pair k) (object_of v)) m))"

definition effective_permissions ::
  "'w pve_env \<Rightarrow> pve_config \<Rightarrow> ctx \<Rightarrow> string \<Rightarrow> ('w pve, goerr + (string \<times> (string \<times> bool) list) list) eng" where
  "effective_permissions e cfg c path =
     callE (fetch e cfg c HttpGet ''/access/permissions'' (form_set_if (path \<noteq> '''') ''path'' path []) permission_tree
              ''proxmox: decode permissions'') (\<lambda>tree.
       ret (Inr (map (\<lambda>(p, privs). (p, map (\<lambda>(k, v). (k, as_bool v)) privs)) tree)))"

end
