(* ===== verification/Proxmox_Safety.thy ===== *)
theory Proxmox_Safety
  imports Proxmox_Guest
begin

text \<open>
  What the Proxmox provider sends. Whatever the cluster answers: a delete is sent only for an identifier of the reserved range
  whose configuration was just read and carried the ownership mark; a restore attaches every interface
  of the backup to the isolated bridge and never starts, overwrites or hides its owner; what a
  restore writes is what a delete accepts; an agent that is down is never asked again.
\<close>

section \<open>What an operation may send\<close>

definition sent :: "(exchange \<Rightarrow> bool) \<Rightarrow> 'w pve \<Rightarrow> 'w pve \<Rightarrow> bool" where
  "sent P s t \<longleftrightarrow> (\<exists>xs. pv_log t = pv_log s @ xs \<and> list_all P xs)"

abbreviation sends :: "(exchange \<Rightarrow> bool) \<Rightarrow> ('w pve, 'a) eng \<Rightarrow> bool" where
  "sends P m \<equiv> keeps (sent P) m"

interpretation sent: kept_order "sent P" for P :: "exchange \<Rightarrow> bool"
proof
  show "sent P s s" for s :: "'w pve" by (simp add: sent_def)
  show "sent P s u" if "sent P s t" "sent P t u" for s t u :: "'w pve"
  proof -
    obtain xs where "pv_log t = pv_log s @ xs" "list_all P xs" using \<open>sent P s t\<close> unfolding sent_def by blast
    moreover obtain ys where "pv_log u = pv_log t @ ys" "list_all P ys"
      using \<open>sent P t u\<close> unfolding sent_def by blast
    ultimately have "pv_log u = pv_log s @ (xs @ ys) \<and> list_all P (xs @ ys)" by simp
    then show ?thesis unfolding sent_def by blast
  qed
qed

lemma sendsD: "sends P m \<Longrightarrow> \<exists>xs. pv_log (snd (m s)) = pv_log s @ xs \<and> list_all P xs"
  by (simp add: keeps_def sent_def)

lemma sends_mono: "sends P m \<Longrightarrow> (\<And>x. P x \<Longrightarrow> Q x) \<Longrightarrow> sends Q m"
  unfolding keeps_def sent_def list_all_iff by meson

lemma sends_callE [pres_intros]: "sends P m \<Longrightarrow> (\<And>a. sends P (f a)) \<Longrightarrow> sends P (callE m f)"
  unfolding callE_def by (intro pres_intros)

lemma sends_request:
  "(\<And>a. P \<lparr>xc_method = m, xc_path = path, xc_form = f, xc_answer = a\<rparr>) \<Longrightarrow> sends P (pve_request e cfg c m path f)"
  by (simp add: keeps_def sent_def pve_request_def Let_def split: prod.split)

lemma sends_fetch:
  "(\<And>a. P \<lparr>xc_method = m, xc_path = path, xc_form = f, xc_answer = a\<rparr>) \<Longrightarrow> sends P (fetch e cfg c m path f dec what)"
  unfolding fetch_def by (intro sends_callE sends_request pres_intros)

lemma sends_pause [pres_intros]: "sends P (pause_or_end e c)"
  by (simp add: keeps_def sent_def pause_or_end_def split: prod.split)

lemma poll_until_invariant:
  assumes "poll_until look s = Some y" "I s" "\<And>s. I s \<Longrightarrow> I (snd (look s))"
  shows "I (snd y)"
proof -
  have "(\<forall>s. I s \<longrightarrow> I (snd (look s))) \<longrightarrow> I s \<longrightarrow> I (snd y)"
  proof (rule poll_until.raw_induct [OF _ assms(1), where P = "\<lambda>look s y. (\<forall>s. I s \<longrightarrow> I (snd (look s))) \<longrightarrow> I s \<longrightarrow> I (snd y)"])
    fix pu look s y
    assume ih: "\<And>look s y. pu look s = Some y \<Longrightarrow> (\<forall>s. I s \<longrightarrow> I (snd (look s))) \<longrightarrow> I s \<longrightarrow> I (snd y)"
      and step: "(case look s of (None, s') \<Rightarrow> pu look s' | (Some a, s') \<Rightarrow> Some (a, s')) = Some y"
    show "(\<forall>s. I s \<longrightarrow> I (snd (look s))) \<longrightarrow> I s \<longrightarrow> I (snd y)"
    proof (intro impI)
      assume inv: "\<forall>s. I s \<longrightarrow> I (snd (look s))" and i: "I s"
      obtain b s2 where look: "look s = (b, s2)" by fastforce
      have "I s2" using inv i look by (metis snd_conv)
      then show "I (snd y)" using step ih [of look s2 y] inv look by (cases b) auto
    qed
  qed
  then show ?thesis using assms(2,3) by blast
qed

lemma sends_poll [pres_intros]:
  fixes turn :: "('a pve, 'b option) eng"
  assumes "sends P turn"
  shows "sends P (poll turn)"
  unfolding keeps_def sent_def
proof
  fix s :: "'a pve"
  let ?look = "\<lambda>s. case turn s of
          (Done (Some a), s) \<Rightarrow> (Some (Done a), s) | (Done None, s) \<Rightarrow> (None, s)
        | (Panicked x, s) \<Rightarrow> (Some (Panicked x), s) | (Diverged, s) \<Rightarrow> (Some Diverged, s)"
  let ?I = "\<lambda>t :: 'a pve. \<exists>xs. pv_log t = pv_log s @ xs \<and> list_all P xs"
  have look: "snd (?look t) = snd (turn t)" for t by (auto split: prod.split outcome.split option.split)
  have step: "?I (snd (?look t))" if i: "?I t" for t
  proof -
    obtain xs where "pv_log t = pv_log s @ xs" "list_all P xs" using i by auto
    moreover obtain ys where "pv_log (snd (turn t)) = pv_log t @ ys" "list_all P ys" using sendsD [OF assms] by blast
    ultimately show ?thesis unfolding look by (intro exI [of _ "xs @ ys"]) simp
  qed
  show "?I (snd (poll turn s))"
  proof (cases "poll_until ?look s")
    case (Some r)
    then have "?I (snd r)" using poll_until_invariant [of ?look s r ?I] step by simp
    then show ?thesis using Some by (simp add: poll_def)
  qed (simp add: poll_def)
qed

text \<open>Reading sends only GETs.\<close>

definition reads :: "exchange \<Rightarrow> bool" where "reads x \<longleftrightarrow> xc_method x = HttpGet"

lemma reads_get [simp]: "reads \<lparr>xc_method = HttpGet, xc_path = path, xc_form = f, xc_answer = a\<rparr>"
  by (simp add: reads_def)

lemma reads_request [pres_intros]: "sends reads (pve_request e cfg c HttpGet path f)" by (rule sends_request) simp
lemma reads_fetch [pres_intros]: "sends reads (fetch e cfg c HttpGet path f dec what)" by (rule sends_fetch) simp

lemma reads_resolve [pres_intros]: "sends reads (resolve e cfg c i)"
  unfolding resolve_def cluster_resources_def by (intro pres_intros)

lemma reads_wait [pres_intros]: "sends reads (wait_for_task e cfg c node upid)"
  unfolding wait_for_task_def wait_turn_def by (intro pres_intros)

lemma reads_devices [pres_intros]: "sends reads (backup_network_devices e cfg c node volid)"
  unfolding backup_network_devices_def backup_config_def by (intro pres_intros)


section \<open>Deleting\<close>

text \<open>
  An exchange that read the mark of ownership on a workload; the stop of a workload; its destruction.
\<close>

definition mark_read :: "readers \<Rightarrow> string \<Rightarrow> string \<Rightarrow> string \<Rightarrow> exchange \<Rightarrow> bool" where
  "mark_read rd node kind i x \<longleftrightarrow> reads x \<and> xc_path x = guest_path node kind i @ ''/config'' \<and>
     (case xc_answer x of
        Inr (Some d) \<Rightarrow> (case object_of d of Some m \<Rightarrow> managed_config rd m | None \<Rightarrow> False) | _ \<Rightarrow> False)"

definition stops :: "string \<Rightarrow> exchange \<Rightarrow> bool" where
  "stops i x \<longleftrightarrow> xc_method x = HttpPost \<and> (\<exists>node kind. xc_path x = guest_path node kind i @ ''/status/stop'')"

definition destroys :: "string \<Rightarrow> string \<Rightarrow> string \<Rightarrow> exchange \<Rightarrow> bool" where
  "destroys node kind i x \<longleftrightarrow> xc_method x = HttpDelete \<and> xc_path x = guest_path node kind i"

lemma callE_run: "callE m f s = (case m s of
    (Done (Inl x), t) \<Rightarrow> (Done (Inl x), t) | (Done (Inr a), t) \<Rightarrow> f a t
  | (Panicked p, t) \<Rightarrow> (Panicked p, t) | (Diverged, t) \<Rightarrow> (Diverged, t))"
  by (simp add: callE_def bindM_def ret_def split: prod.split outcome.split sum.split)

lemma fetch_cases:
  obtains x t where "fetch e cfg c m path f dec what s = (Done (Inl x), t)"
  | a d t where "fetch e cfg c m path f dec what s = (Done (Inr a), t)" "dec d = Some a"
    "pv_log t = pv_log s @ [\<lparr>xc_method = m, xc_path = path, xc_form = f, xc_answer = Inr (Some d)\<rparr>]"
proof -
  obtain a t where r: "pve_request e cfg c m path f s = (Done a, t)"
    "pv_log t = pv_log s @ [\<lparr>xc_method = m, xc_path = path, xc_form = f, xc_answer = a\<rparr>]"
    by (cases "pe_http e c m (px_endpoint cfg @ ''/api2/json'' @ path) f (authorization cfg) (pv_world s)")
      (auto simp: pve_request_def Let_def)
  show thesis
  proof (cases a)
    case (Inl x)
    then show ?thesis using r that(1) by (simp add: fetch_def callE_run)
  next
    case (Inr d)
    show ?thesis
    proof (cases "Option.bind d dec")
      case None
      then show ?thesis using r Inr that(1) by (simp add: fetch_def callE_run ret_def decoded_def)
    next
      case (Some y)
      then obtain d' where "d = Some d'" "dec d' = Some y" by (cases d) auto
      then show ?thesis using r Inr that(2) by (simp add: fetch_def callE_run ret_def decoded_def)
    qed
  qed
qed

lemma is_managed_marked:
  assumes "is_managed e cfg c node kind i s = (Done (Inr True), t)"
  shows "\<exists>x. pv_log t = pv_log s @ [x] \<and> mark_read (pe_readers e) node kind i x"
proof (rule fetch_cases [of e cfg c HttpGet "guest_path node kind i @ ''/config''" "[]" object_of
      "''proxmox: decode config for '' @ i" s])
  fix x t' assume "fetch e cfg c HttpGet (guest_path node kind i @ ''/config'') [] object_of
      (''proxmox: decode config for '' @ i) s = (Done (Inl x), t')"
  then show ?thesis using assms by (simp add: is_managed_def callE_run)
next
  fix m d t' assume "fetch e cfg c HttpGet (guest_path node kind i @ ''/config'') [] object_of
      (''proxmox: decode config for '' @ i) s = (Done (Inr m), t')" "object_of d = Some m"
    and "pv_log t' = pv_log s @ [\<lparr>xc_method = HttpGet, xc_path = guest_path node kind i @ ''/config'', xc_form = [],
      xc_answer = Inr (Some d)\<rparr>]"
  then show ?thesis using assms by (simp add: is_managed_def callE_run ret_def mark_read_def)
qed

lemma stop_sends [pres_intros]: "sends (\<lambda>x. reads x \<or> stops i x) (stop_guest e cfg c i)"
proof -
  have "sends (\<lambda>x. reads x \<or> stops i x) (resolve e cfg c i)" by (rule sends_mono [OF reads_resolve]) simp
  moreover have "sends (\<lambda>x. reads x \<or> stops i x) (wait_for_task e cfg c node upid)" for node upid
    by (rule sends_mono [OF reads_wait]) simp
  moreover have "sends (\<lambda>x. reads x \<or> stops i x) (fetch e cfg c HttpPost (guest_path node kind i @ ''/status/'' @ ''stop'') f dec what)"
    for node kind f what and dec :: "anyval \<Rightarrow> string option" by (rule sends_fetch) (auto simp: stops_def)
  ultimately show ?thesis unfolding stop_guest_def run_lifecycle_task_def by (intro pres_intros) auto
qed

definition clears :: "string \<Rightarrow> string \<Rightarrow> string \<Rightarrow> exchange \<Rightarrow> bool" where
  "clears node kind i x \<longleftrightarrow> reads x \<or> stops i x \<or> destroys node kind i x"

lemma clear_sends:
  "sends (clears node kind i) (callE (stop_if_running e cfg c node kind i) (\<lambda>_. destroy_guest e cfg c node kind i))"
proof -
  have "sends (clears node kind i) (stop_guest e cfg c i)"
    by (rule sends_mono [OF stop_sends]) (auto simp: clears_def)
  moreover have "sends (clears node kind i) (fetch e cfg c HttpGet path f dec what)"
    for path f what and dec :: "anyval \<Rightarrow> 'a option" by (rule sends_fetch) (simp add: clears_def)
  moreover have "sends (clears node kind i) (fetch e cfg c HttpDelete (guest_path node kind i) f dec what)"
    for f what and dec :: "anyval \<Rightarrow> 'a option" by (rule sends_fetch) (simp add: clears_def destroys_def)
  moreover have "sends (clears node kind i) (wait_for_task e cfg c node' upid)" for node' upid
    by (rule sends_mono [OF reads_wait]) (simp add: clears_def)
  moreover have "sends (clears node kind i) (fetch e cfg c HttpGet path f object_of what)"
    "sends (clears node kind i) (fetch e cfg c HttpDelete (guest_path node kind i) f text_of what)" for path f what
    by (rule sends_fetch; simp add: clears_def destroys_def)+
  ultimately show ?thesis unfolding stop_if_running_def destroy_guest_def by (intro pres_intros) auto
qed

definition gated_delete :: "readers \<Rightarrow> pve_config \<Rightarrow> string \<Rightarrow> exchange list \<Rightarrow> bool" where
  "gated_delete rd cfg i xs \<longleftrightarrow> list_all reads xs \<or>
     in_temp_range cfg i \<and> (\<exists>node kind before mark after. xs = before @ mark # after \<and> list_all reads before \<and>
       mark_read rd node kind i mark \<and> list_all (clears node kind i) after)"

lemma delete_gated: "\<exists>xs. pv_log (snd (delete_guest e cfg c i s)) = pv_log s @ xs \<and> gated_delete (pe_readers e) cfg i xs"
proof (cases "in_temp_range cfg i")
  case False
  then show ?thesis by (simp add: delete_guest_def ret_def gated_delete_def)
next
  case range: True
  obtain r t where r: "resolve e cfg c i s = (r, t)" by fastforce
  obtain xs where xs: "pv_log t = pv_log s @ xs" "list_all reads xs" using sendsD [OF reads_resolve [of e cfg c i], of s] r by auto
  show ?thesis
  proof (cases "\<exists>node kind. r = Done (Inr (node, kind))")
    case False
    then have "snd (delete_guest e cfg c i s) = t"
      using range r by (auto simp: delete_guest_def callE_run split: outcome.splits sum.splits)
    then show ?thesis using xs by (auto simp: gated_delete_def)
  next
    case True
    then obtain node kind where nk: "r = Done (Inr (node, kind))" by blast
    obtain q u where q: "is_managed e cfg c node kind i t = (q, u)" by fastforce
    have "sends reads (is_managed e cfg c node kind i)" unfolding is_managed_def by (intro pres_intros)
    then obtain ys where ys: "pv_log u = pv_log t @ ys" "list_all reads ys" using sendsD [of reads] q by (metis snd_conv)
    show ?thesis
    proof (cases "q = Done (Inr True)")
      case False
      then have "snd (delete_guest e cfg c i s) = u"
        using range r nk q by (auto simp: delete_guest_def callE_run ret_def split: outcome.splits sum.splits)
      then show ?thesis using xs ys by (auto simp: gated_delete_def)
    next
      case True
      then obtain x where x: "pv_log u = pv_log t @ [x]" "mark_read (pe_readers e) node kind i x"
        using is_managed_marked q by blast
      let ?rest = "callE (stop_if_running e cfg c node kind i) (\<lambda>_. destroy_guest e cfg c node kind i)"
      obtain zs where zs: "pv_log (snd (?rest u)) = pv_log u @ zs" "list_all (clears node kind i) zs"
        using sendsD [OF clear_sends [of node kind i e cfg c], of u] by blast
      have "snd (delete_guest e cfg c i s) = snd (?rest u)"
        using range r nk q True by (simp add: delete_guest_def callE_run)
      then have "pv_log (snd (delete_guest e cfg c i s)) = pv_log s @ (xs @ x # zs)" using zs x xs by simp
      moreover have "gated_delete (pe_readers e) cfg i (xs @ x # zs)"
        unfolding gated_delete_def using range xs(2) x(2) zs(2) by blast
      ultimately show ?thesis by blast
    qed
  qed
qed


section \<open>Restoring\<close>

lemma map_of_filter_key: "map_of (filter (\<lambda>e. fst e \<noteq> k) f) k' = (if k' = k then None else map_of f k')"
  by (induction f) auto

lemma map_of_form_set [simp]: "map_of (form_set k v f) k' = (if k' = k then Some [v] else map_of f k')"
  by (simp add: form_set_def map_add_def map_of_filter_key split: option.split)

lemma map_of_form_set_if [simp]:
  "map_of (form_set_if b k v f) k' = (if b \<and> k' = k then Some [v] else map_of f k')"
  by (simp add: form_set_if_def)

lemma map_of_form_fold:
  "map_of (fold (\<lambda>i f. form_set i v f) nets f) k = (if k \<in> set nets then Some [v] else map_of f k)"
  by (induction nets arbitrary: f) auto

text \<open>
  A create call that cannot touch production: a new workload, powered off, with identifiers of its
  own, under the name of RestoreLab, every interface it defines on the given network.
\<close>

definition contained :: "restore_options \<Rightarrow> form \<Rightarrow> bool" where
  "contained o0 f \<longleftrightarrow> map_of f ''vmid'' = Some [ro_target_workload_id o0] \<and> map_of f ''start'' = Some [''0''] \<and>
     map_of f ''unique'' = Some [''1''] \<and> map_of f ''force'' = None \<and> map_of f ''tags'' = Some [managed_tag] \<and>
     list_all (\<lambda>k. is_net_iface k \<longrightarrow> map_of f k = Some [render_net_config (ro_network o0)]) (map fst f)"

text \<open>The interfaces a \<open>extractconfig\<close> call told of.\<close>

definition devices_told :: "exchange \<Rightarrow> string list" where
  "devices_told y =
     (case xc_answer y of
        Inr (Some d) \<Rightarrow>
          (case text_of d of
             Some blob \<Rightarrow>
               if network_devices (parse_config_blob blob) = [] then [''net0''] else network_devices (parse_config_blob blob)
           | None \<Rightarrow> [''net0''])
      | _ \<Rightarrow> [''net0''])"

definition detached :: "restore_options \<Rightarrow> exchange list \<Rightarrow> form \<Rightarrow> bool" where
  "detached o0 before f \<longleftrightarrow> nw_bridge (ro_network o0) = '''' \<or>
     (\<exists>y. before = [y] \<and> list_all (\<lambda>k. map_of f k = Some [render_net_config (ro_network o0)]) (devices_told y))"

lemma other_keys_not_net [simp]:
  "\<not> is_net_iface ''vmid''" "\<not> is_net_iface ''archive''" "\<not> is_net_iface ''storage''" "\<not> is_net_iface ''pool''"
  "\<not> is_net_iface ''description''" "\<not> is_net_iface ''tags''" "\<not> is_net_iface ''unique''" "\<not> is_net_iface ''start''"
  "\<not> is_net_iface ''bwlimit''" "\<not> is_net_iface ''force''" "is_net_iface ''net0''"
  by (simp_all add: is_net_iface_def is_digit_def)

lemma restore_form_nets:
  assumes "list_all is_net_iface nets" "is_net_iface k"
  shows "map_of (restore_form nets b o0) k = (if k \<in> set nets then Some [render_net_config (ro_network o0)] else None)"
proof -
  have "k \<noteq> ''vmid''" "k \<noteq> ''archive''" "k \<noteq> ''storage''" "k \<noteq> ''pool''" "k \<noteq> ''description''" "k \<noteq> ''tags''"
    "k \<noteq> ''unique''" "k \<noteq> ''start''" "k \<noteq> ''bwlimit''"
    using assms(2) by (metis other_keys_not_net)+
  then show ?thesis by (simp add: restore_form_def Let_def map_of_form_fold)
qed

lemma restore_form_contained:
  assumes "list_all is_net_iface nets"
  shows "contained o0 (restore_form nets b o0)"
proof -
  have not_in: "k \<notin> set nets" if "\<not> is_net_iface k" for k using assms that by (auto simp: list_all_iff)
  have "list_all (\<lambda>k. is_net_iface k \<longrightarrow> map_of (restore_form nets b o0) k = Some [render_net_config (ro_network o0)])
    (map fst (restore_form nets b o0))"
    unfolding list_all_iff
  proof (intro ballI impI)
    fix k assume "k \<in> set (map fst (restore_form nets b o0))" and net: "is_net_iface k"
    then have "map_of (restore_form nets b o0) k \<noteq> None" by (auto simp: map_of_eq_None_iff)
    then show "map_of (restore_form nets b o0) k = Some [render_net_config (ro_network o0)]"
      using restore_form_nets [OF assms net, of b o0] by (simp split: if_splits)
  qed
  then show ?thesis
    by (simp add: contained_def not_in map_of_form_fold restore_form_def Let_def)
qed

lemma fetch_log:
  "\<exists>a. pv_log (snd (fetch e cfg c m path f dec what s)) =
     pv_log s @ [\<lparr>xc_method = m, xc_path = path, xc_form = f, xc_answer = a\<rparr>]"
proof -
  obtain a t where r: "pve_request e cfg c m path f s = (Done a, t)"
    "pv_log t = pv_log s @ [\<lparr>xc_method = m, xc_path = path, xc_form = f, xc_answer = a\<rparr>]"
    by (cases "pe_http e c m (px_endpoint cfg @ ''/api2/json'' @ path) f (authorization cfg) (pv_world s)")
      (auto simp: pve_request_def Let_def)
  then show ?thesis by (cases a) (simp_all add: fetch_def callE_run ret_def)
qed

lemma told_net: "list_all is_net_iface (devices_told y)"
  by (auto simp: devices_told_def network_devices_def list_all_iff split: sum.split option.split)

lemma devices_one_read:
  "\<exists>y. backup_network_devices e cfg c node volid s = (Done (devices_told y), snd (backup_network_devices e cfg c node volid s)) \<and>
     reads y \<and> pv_log (snd (backup_network_devices e cfg c node volid s)) = pv_log s @ [y]"
proof -
  let ?path = "''/nodes/'' @ node @ ''/vzdump/extractconfig''"
  obtain a t where r: "pve_request e cfg c HttpGet ?path [(''volume'', [volid])] s = (Done a, t)"
    "pv_log t = pv_log s @ [\<lparr>xc_method = HttpGet, xc_path = ?path, xc_form = [(''volume'', [volid])], xc_answer = a\<rparr>]"
    by (cases "pe_http e c HttpGet (px_endpoint cfg @ ''/api2/json'' @ ?path) [(''volume'', [volid])] (authorization cfg) (pv_world s)")
      (auto simp: pve_request_def Let_def)
  let ?y = "\<lparr>xc_method = HttpGet, xc_path = ?path, xc_form = [(''volume'', [volid])], xc_answer = a\<rparr>"
  have "backup_network_devices e cfg c node volid s = (Done (devices_told ?y), t)"
    using r(1) by (simp add: backup_network_devices_def backup_config_def fetch_def callE_run bindM_def ret_def
        decoded_def devices_told_def bind_eq_None_conv split: sum.split option.split)
  then show ?thesis using r(2) by (intro exI [of _ ?y]) (simp add: reads_def)
qed

text \<open>C4. A restore cannot come up as production. Whatever the cluster answers, all that
  Restore changes on it is one create call, which makes a new workload with the identifier asked for
  and never overwrites one, leaves it powered off with fresh unique settings, tags it as
  RestoreLab's, and attaches every interface it defines to the drill's network; when that network
  names a bridge, the interfaces it redefines include every one the backup was just found to carry.\<close>

theorem restore_is_contained:
  "\<exists>before after. pv_log (snd (restore e cfg c b o0 s)) = pv_log s @ before @ after \<and> list_all reads before \<and>
     (case after of
        [] \<Rightarrow> True
      | x # rest \<Rightarrow> rest = [] \<and> xc_method x = HttpPost \<and> contained o0 (xc_form x) \<and> detached o0 before (xc_form x))"
proof -
  let ?node = "if ro_node o0 = '''' then bk_node b else ro_node o0"
  show ?thesis
  proof (cases "?node = '''' \<or> ro_target_workload_id o0 = ''''")
    case True
    then have "pv_log (snd (restore e cfg c b o0 s)) = pv_log s" by (auto simp: restore_def ret_def Let_def)
    then show ?thesis by (intro exI [of _ "[]"]) simp
  next
    case False
    let ?look = "if nw_bridge (ro_network o0) \<noteq> '''' then backup_network_devices e cfg c ?node (bk_id b) else ret []"
    obtain nets t before where look: "?look s = (Done nets, t)" and log: "pv_log t = pv_log s @ before" "list_all reads before"
      and nets: "list_all is_net_iface nets" "detached o0 before (restore_form nets b o0)"
    proof (cases "nw_bridge (ro_network o0) = ''''")
      case True
      then show thesis using that [of "[]" s "[]"] by (simp add: ret_def detached_def)
    next
      case bridge: False
      obtain y where y: "backup_network_devices e cfg c ?node (bk_id b) s =
          (Done (devices_told y), snd (backup_network_devices e cfg c ?node (bk_id b) s))" "reads y"
        "pv_log (snd (backup_network_devices e cfg c ?node (bk_id b) s)) = pv_log s @ [y]"
        using devices_one_read by blast
      have "detached o0 [y] (restore_form (devices_told y) b o0)"
        using restore_form_nets [OF told_net, of _ y b o0] told_net [of y] by (auto simp: detached_def list_all_iff)
      then show thesis using that [of "devices_told y" _ "[y]"] y bridge told_net by auto
    qed
    let ?post = "fetch e cfg c HttpPost (''/nodes/'' @ ?node @ ''/qemu'') (restore_form nets b o0) text_of
        ''proxmox: decode restore task id''"
    obtain a where a: "pv_log (snd (?post t)) = pv_log t @ [\<lparr>xc_method = HttpPost, xc_path = ''/nodes/'' @ ?node @ ''/qemu'',
        xc_form = restore_form nets b o0, xc_answer = a\<rparr>]" using fetch_log by blast
    have "pv_log (snd (restore e cfg c b o0 s)) = pv_log (snd (?post t))"
      using False look by (auto simp: restore_def Let_def bindM_def callE_run split: prod.split outcome.split sum.split)
    then show ?thesis using a log nets restore_form_contained [OF nets(1), of o0 b]
      by (intro exI [of _ before] exI [of _ "[\<lparr>xc_method = HttpPost, xc_path = ''/nodes/'' @ ?node @ ''/qemu'',
        xc_form = restore_form nets b o0, xc_answer = a\<rparr>]"]) simp
  qed
qed


lemma rendered_mark:
  assumes "map_of md metadata_managed = Some ''true''"
  shows "contains (render_metadata md) (metadata_managed @ ''=true'')"
proof -
  let ?line = "\<lambda>k. k @ ''='' @ (case map_of md k of None \<Rightarrow> '''' | Some v \<Rightarrow> v)"
  have "metadata_managed \<in> set (map fst md)" using map_of_SomeD [OF assms] by force
  then have "?line metadata_managed \<in> set (map ?line (sort_strings (remdups (map fst md))))" by simp
  then obtain a b where "render_metadata md = a @ (metadata_managed @ ''=true'') @ b"
    using join_holds [of "?line metadata_managed" _ newline] assms unfolding render_metadata_def by fastforce
  then show ?thesis by (simp only: contains_append)
qed

lemma contains_nonempty: "contains s (a # p) \<Longrightarrow> s \<noteq> []" by (cases s) auto

text \<open>C5. What RestoreLab creates, RestoreLab may delete. With the metadata a drill computes, both the
  create call of Restore and the call of FinalizeRestore write a description that the ownership
  test of Delete accepts, whatever the drill, the source and the date, so no failure between the two
  leaves a workload that only a human can remove.\<close>

theorem restored_workload_is_ours:
  "\<exists>desc. map_of (restore_form nets b (o0\<lparr>ro_metadata := workload_metadata rid source t\<rparr>)) ''description'' = Some [desc] \<and>
     map_of (finalize_form conf (o0\<lparr>ro_metadata := workload_metadata rid source t\<rparr>)) ''description'' = Some [desc] \<and>
     managed_config rd [(''description'', AnyString desc)]"
proof -
  let ?md = "workload_metadata rid source t"
  have mark: "contains (render_metadata ?md) (metadata_managed @ ''=true'')"
    by (rule rendered_mark) (simp add: workload_metadata_def)
  then have some: "render_metadata ?md \<noteq> ''''" using contains_nonempty by (auto simp: metadata_managed_def)
  show ?thesis
    by (rule exI [of _ "render_metadata ?md"])
      (simp add: restore_form_def finalize_form_def Let_def some mark managed_config_def key_def as_string_def)
qed

text \<open>\<open>FinalizeRestore\<close> leaves one interface, on the drill's bridge; the others are deleted.\<close>

lemma finalize_detaches:
  assumes "k \<in> set (map fst conf)" "is_net_iface k" "k \<noteq> ''net0''"
  shows "\<exists>gone. map_of (finalize_form conf o0) ''delete'' = Some [join '','' gone] \<and> k \<in> set gone \<and> ''net0'' \<notin> set gone"
proof -
  let ?gone = "sort_strings (remdups (filter (\<lambda>k. is_net_iface k \<and> k \<noteq> ''net0'') (map fst conf)))"
  have k: "k \<in> set ?gone" using assms by auto
  then have some: "?gone \<noteq> []" by (metis empty_iff empty_set)
  show ?thesis
    by (rule exI [of _ ?gone]) (use k some in \<open>simp add: finalize_form_def Let_def\<close>)
qed

text \<open>The network model of a plan reaches the create call and not the call that hardens it.\<close>

lemma finalize_ignores_model:
  "map_of (finalize_form conf o0) ''net0'' =
     Some [render_net_config ((ro_network o0)\<lparr>nw_model := ''virtio''\<rparr>)]"
  by (simp add: finalize_form_def Let_def render_net_config_def)


section \<open>Identifiers\<close>

lemma probe_in_range:
  assumes "\<And>n. n \<in> set ns \<Longrightarrow> 0 \<le> n \<and> n \<le> max_int64 \<and> px_temp_id_min cfg \<le> n \<and> n \<le> px_temp_id_max cfg"
    "probe_ids e cfg c ns s = (Done (Inr i), t)"
  shows "in_temp_range cfg i"
  using assms
proof (induction ns arbitrary: s)
  case (Cons n ns)
  obtain a u where r: "pve_request e cfg c HttpGet ''/cluster/nextid'' [(''vmid'', [itoa n])] s = (Done a, u)"
    by (cases "pe_http e c HttpGet (px_endpoint cfg @ ''/api2/json'' @ ''/cluster/nextid'') [(''vmid'', [itoa n])] (authorization cfg) (pv_world s)")
      (auto simp: pve_request_def Let_def)
  show ?case
  proof (cases a)
    case (Inr d)
    then have "i = itoa n" using r Cons.prems(2) by (simp add: bindM_def ret_def)
    then show ?thesis using Cons.prems(1) [of n] by (simp add: in_temp_range_def atoi_itoa)
  next
    case (Inl x)
    then have "probe_ids e cfg c ns u = (Done (Inr i), t)"
      using r Cons.prems(2) by (simp add: bindM_def ret_def split: if_splits)
    then show ?thesis using Cons by (metis list.set_intros(2))
  qed
qed (simp add: ret_def)

text \<open>C6. An allocated identifier is one that may be deleted. Whatever the cluster proposes, an
  identifier that AllocateWorkloadID returns reads as a number of the configured range, the range
  outside which Delete refuses to act.\<close>

theorem allocated_id_is_reserved:
  assumes "0 \<le> px_temp_id_min cfg" "px_temp_id_max cfg \<le> max_int64"
    "allocate_workload_id e cfg c s = (Done (Inr i), t)"
  shows "in_temp_range cfg i"
proof (rule fetch_cases [of e cfg c HttpGet "''/cluster/nextid''" "[]" text_of "''proxmox: decode /cluster/nextid''" s])
  fix x u assume "fetch e cfg c HttpGet ''/cluster/nextid'' [] text_of ''proxmox: decode /cluster/nextid'' s = (Done (Inl x), u)"
  then show ?thesis using assms(3) by (simp add: allocate_workload_id_def callE_run)
next
  fix j d u assume "fetch e cfg c HttpGet ''/cluster/nextid'' [] text_of ''proxmox: decode /cluster/nextid'' s = (Done (Inr j), u)"
  then show ?thesis using assms probe_in_range [of "[px_temp_id_min cfg .. px_temp_id_max cfg]" cfg e c u i t]
    by (auto simp: allocate_workload_id_def callE_run ret_def split: if_splits)
qed


text \<open>A cluster that answers every request with one value.\<close>

definition steady_pve :: "anyval \<Rightarrow> unit pve_env" where
  "steady_pve v = \<lparr>pe_http = (\<lambda>c m url f h w. (Answered 200 ''body'', w)), pe_ctx_err = (\<lambda>c w. None),
     pe_pause = (\<lambda>c w. (False, w)), pe_now = (\<lambda>w. (0, w)), pe_envelope = (\<lambda>b. Inr (Some v)),
     pe_mismatch = (\<lambda>v. Plain ''mismatch''), pe_address = (\<lambda>s. None),
     pe_readers = \<lparr>px_text = (\<lambda>x. ''9000''), px_number = (\<lambda>s. Fin 0)\<rparr>\<rparr>"

definition lab_pve :: pve_config where
  "lab_pve = \<lparr>px_id = ''lab'', px_endpoint = ''https://pve'', px_token_id = ''t'', px_token_secret = ''s'', px_insecure = False,
     px_ca = '''', px_timeout = 0, px_backup_storage = '''', px_temp_id_min = 9000, px_temp_id_max = 9999,
     px_name_prefix = ''''\<rparr>"

lemma allocated_id_is_reserved_witness: "in_temp_range lab_pve ''9001''"
proof -
  have "\<exists>t. allocate_workload_id (steady_pve (AnyString ''9001'')) lab_pve RunCtx \<lparr>pv_world = (), pv_log = []\<rparr> =
      (Done (Inr ''9001''), t)"
    by (simp add: allocate_workload_id_def fetch_def callE_run pve_request_def steady_pve_def read_reply_def Let_def ret_def
        decoded_def text_of_def in_temp_range_def lab_pve_def atoi_def digits_value_def is_digit_def min_int64_def max_int64_def)
  then obtain t where "allocate_workload_id (steady_pve (AnyString ''9001'')) lab_pve RunCtx \<lparr>pv_world = (), pv_log = []\<rparr> =
      (Done (Inr ''9001''), t)" by blast
  from allocated_id_is_reserved [OF _ _ this] show ?thesis by (simp add: lab_pve_def max_int64_def)
qed

text \<open>A context that ended is neither retryable nor a refusal of the token, so the search asks for
  every identifier of the range and then says that none is free.\<close>

lemma cancelled_probe_scans:
  assumes "\<And>n w. pe_http e c HttpGet (px_endpoint cfg @ ''/api2/json'' @ ''/cluster/nextid'') [(''vmid'', [itoa n])]
      (authorization cfg) w = (NotSent x, w)"
    "\<And>w. pe_ctx_err e c w = Some (Sentinel CtxCanceled)"
  shows "fst (probe_ids e cfg c ns s) = Done (Inl (Plain (''proxmox: no free workload id in range '' @
      itoa (px_temp_id_min cfg) @ ''-'' @ itoa (px_temp_id_max cfg)))) \<and>
    length (pv_log (snd (probe_ids e cfg c ns s))) = length (pv_log s) + length ns"
proof (induction ns arbitrary: s)
  case (Cons n ns)
  have "fst (pve_request e cfg c HttpGet ''/cluster/nextid'' [(''vmid'', [itoa n])] s) = Done (Inl (Sentinel CtxCanceled)) \<and>
    length (pv_log (snd (pve_request e cfg c HttpGet ''/cluster/nextid'' [(''vmid'', [itoa n])] s))) = length (pv_log s) + 1"
    using assms by (simp add: pve_request_def Let_def read_reply_def)
  then obtain u where "pve_request e cfg c HttpGet ''/cluster/nextid'' [(''vmid'', [itoa n])] s =
      (Done (Inl (Sentinel CtxCanceled)), u)" "length (pv_log u) = length (pv_log s) + 1"
    by (metis prod.collapse)
  then show ?case using Cons.IH [of u] by (simp add: bindM_def)
qed (simp add: ret_def)

section \<open>An agent that is down\<close>

lemma status_digits:
  assumes "500 \<le> n" "n < 600"
  shows "\<exists>rest. itoa n = CHR ''5'' # rest"
proof -
  have "n div 10 div 10 = 5" using assms by simp
  moreover have "digit_char 5 = CHR ''5''" by code_simp
  then have "int_digits (5 :: int) = ''5''" by (subst int_digits.simps) simp
  ultimately have "int_digits (n div 10) = ''5'' @ [digit_char (nat (n div 10 mod 10))]"
    using assms by (subst int_digits.simps) simp
  then show ?thesis using assms by (subst itoa_def, subst int_digits.simps) simp
qed

text \<open>An agent that does not answer is not asked again. Every 5xx status, which the client marks as
  worth retrying, comes out of a guest agent call as the guest agent being unavailable and as final,
  whatever the path and the body say, so the engine does not spend a drill on it.\<close>

theorem agent_down_is_final:
  assumes "500 \<le> status" "status < 600"
  shows "is_retryable (map_status_error status m path body) \<and>
    errors_is (map_agent_error (map_status_error status m path body)) ErrGuestAgentUnavailable \<and>
    \<not> is_retryable (map_agent_error (map_status_error status m path body))"
proof -
  let ?base = "''proxmox: '' @ method_text m @ '' '' @ path @ '': unexpected status '' @ itoa status @ '': '' @
      take err_body_truncate_len body"
  have err: "map_status_error status m path body = Retry_Err (Plain ?base)"
    using assms by (simp add: map_status_error_def Let_def)
  obtain rest where rest: "itoa status = CHR ''5'' # rest" using status_digits [OF assms] by blast
  have "to_lower ''unexpected status 5'' = ''unexpected status 5''" by code_simp
  then have "contains (to_lower (''unexpected status '' @ itoa status @ '': '' @ take err_body_truncate_len body)) ''unexpected status 5''"
    using contains_after [of "''unexpected status 5''" "to_lower (rest @ '': '' @ take err_body_truncate_len body)"]
      to_lower_append [of "''unexpected status 5''" "rest @ '': '' @ take err_body_truncate_len body"] by (simp add: rest)
  then have "contains (to_lower ((''proxmox: '' @ method_text m @ '' '' @ path @ '': '') @
      ''unexpected status '' @ itoa status @ '': '' @ take err_body_truncate_len body)) ''unexpected status 5''"
    unfolding to_lower_append [of "''proxmox: '' @ method_text m @ '' '' @ path @ '': ''"] by (rule contains_skip)
  then have down: "agent_down (to_lower ?base)" by (simp add: agent_down_def)
  then show ?thesis by (simp add: err map_agent_error_def)
qed

theorem agent_down_is_final_witness:
  "errors_is (map_agent_error (map_status_error 500 HttpPost ''/nodes/a/qemu/9000/agent/exec'' ''no agent'')) ErrGuestAgentUnavailable"
  using agent_down_is_final [of 500 HttpPost "''/nodes/a/qemu/9000/agent/exec''" "''no agent''"] by simp

lemma exec_output_bounded:
  assumes "build_exec_result rd m n = r"
  shows "int (length (er_stdout r)) \<le> (if n \<le> 0 then default_max_output_bytes else n) \<and>
    int (length (er_stderr r)) \<le> (if n \<le> 0 then default_max_output_bytes else n)"
  using assms by (auto simp: build_exec_result_def Let_def truncated_to_def default_max_output_bytes_def min_def)

text \<open>C3. The provider's own gate on destruction. Whatever the cluster answers, whatever identifier it is
  given, Delete sends nothing but reads, unless the identifier reads as a number of the reserved
  range and the configuration it has just read of that very workload carries RestoreLab's mark; from
  there on it sends reads, stops of that identifier, and the destruction of that workload. (A wait
  that never returns sends reads.)\<close>

theorem delete_is_gated:
  "\<exists>xs. pv_log (snd (delete_guest e cfg c i s)) = pv_log s @ xs \<and> gated_delete (pe_readers e) cfg i xs"
  by (rule delete_gated)

end
