(* ===== verification/Engine_World.thy ===== *)
theory Engine_World
  imports Engine
begin

text \<open>
  The engine reaches the outside only through the functions of its dependency record. So a relation
  between states that looks at nothing but the world and the log, and that every one of those
  calls keeps, is kept by a whole run. The locale is that interface: its fixed relation is what the
  provider's side has to establish call by call.
\<close>

locale engine_world = kept_order R for R :: "'w est \<Rightarrow> 'w est \<Rightarrow> bool" +
  fixes d :: "'w deps"
  assumes R_frame: "es_world t = es_world s \<Longrightarrow> es_log t = es_log s \<Longrightarrow> R s t"
    and on_clock [pres_intros]: "keeps R (now d)"
    and on_sleeping [pres_intros]: "keeps R (sleep d c n)"
    and on_telling [pres_intros]: "keeps R (emit d ev)"
    and on_getting [pres_intros]: "keeps R (perform (\<lambda>_. CallGetWorkload RunCtx i) (d_get_workload d RunCtx i))"
    and on_listing [pres_intros]: "keeps R (perform (\<lambda>_. CallListBackups RunCtx i) (d_list_backups d RunCtx i))"
    and on_latest [pres_intros]: "keeps R (perform (\<lambda>_. CallGetLatest RunCtx i) (d_get_latest d RunCtx i))"
    and on_validating [pres_intros]: "d_validate_isolation d = Some v \<Longrightarrow>
      keeps R (perform (\<lambda>r. CallValidate RunCtx node network (ok_of r)) (v RunCtx node network))"
    and on_measuring [pres_intros]: "d_node_capacity d = Some f \<Longrightarrow> keeps R (perform (\<lambda>_. CallCapacity RunCtx node) (f RunCtx node))"
    and on_allocating [pres_intros]: "keeps R (allocate d)"
    and on_restoring [pres_intros]: "keeps R (perform (\<lambda>r. CallRestore RunCtx b ro (ok_of r)) (d_restore d RunCtx b ro))"
    and on_waiting [pres_intros]: "keeps R (wait_for_job d job)"
    and on_hardening [pres_intros]: "d_finalize d = Some g \<Longrightarrow> keeps R (perform (\<lambda>r. CallFinalize RunCtx ro (ok_of r)) (g RunCtx ro))"
    and on_starting [pres_intros]: "keeps R (start_call d i)"
    and on_stopping [pres_intros]: "keeps R (stop_call d i)"
    and on_deleting [pres_intros]: "keeps R (delete_call d i)"
    and on_asking [pres_intros]: "keeps R (perform (\<lambda>_. CallGetStatus RunCtx i) (d_get_status d RunCtx i))"
    and on_checking [pres_intros]: "keeps R (perform (\<lambda>_. CallRunAll RunCtx tg) (d_run_all d RunCtx tg cfgs))"
begin

lemma keeps_own [pres_intros]: "keeps R (modify_run g)"
  by (simp add: keeps_def modify_run_def modify_def R_frame)

lemma keeps_own_run [pres_intros]: "keeps R get_run" by (simp add: get_run_def keeps_gets)

lemma keeps_begin [pres_intros]: "keeps R (begin_step d name st)"
  unfolding begin_step_def set_state_def append_step_def by (intro pres_intros)

lemma keeps_end [pres_intros]: "keeps R (end_step d idx st m e)"
  unfolding end_step_def by (intro pres_intros)

lemma keeps_fail_step [pres_intros]: "keeps R (fail_step d idx m e)"
  unfolding fail_step_def by (intro pres_intros)

lemma keeps_retry [pres_intros]: "keeps R fn \<Longrightarrow> keeps R (retry d c n b fn)"
proof -
  assume fn: "keeps R fn"
  have "keeps R (retry_from k d c b fn)" for k by (induction k) (auto intro!: pres_intros fn)
  then show ?thesis by (simp add: retry_def)
qed

lemma keeps_discover [pres_intros]: "keeps R (discover_backup d p)"
proof -
  have "keeps R (resolve_backup d p)" unfolding resolve_backup_def
    by (cases "bs_strategy (pl_backup p)"; simp only: backup_strategy.case; intro pres_intros)
  then show ?thesis unfolding discover_backup_def resolve_source_name_def accept_backup_def by (intro pres_intros)
qed

lemma keeps_resolve_node [pres_intros]: "keeps R (resolve_node p opts)"
  unfolding resolve_node_def by (intro pres_intros)

lemma keeps_isolation [pres_intros]: "keeps R (check_network_isolation d node network)"
  unfolding check_network_isolation_def
  by (cases "d_validate_isolation d"; simp only: option.case; intro pres_intros; assumption)

lemma keeps_capacity [pres_intros]: "keeps R (check_capacity d node mb)"
  unfolding check_capacity_def
  by (cases "d_node_capacity d"; simp only: option.case; intro pres_intros; assumption)

lemma keeps_prepare [pres_intros]: "keeps R (prepare_environment d p opts)"
  unfolding prepare_environment_def reserve_identity_def by (intro pres_intros)

lemma keeps_restoring [pres_intros]: "keeps R (restore_workload d p opts pr)"
proof -
  have "keeps R (harden d idx ro)" for idx ro unfolding harden_def
    by (cases "d_finalize d"; simp only: option.case; intro pres_intros; assumption)
  moreover have "keeps R (modify (\<lambda>s. s\<lparr>es_needs_cleanup := True\<rparr>))" by (simp add: keeps_def modify_def R_frame)
  ultimately show ?thesis unfolding restore_workload_def settle_restore_def by (intro pres_intros)
qed

lemma keeps_starting [pres_intros]: "keeps R (start_workload d p i)"
  unfolding start_workload_def by (intro pres_intros)

lemma keeps_guest [pres_intros]: "keeps R (wait_for_guest fuel d p i)"
proof -
  have "keeps R (poll_guest k d p i idx deadline)" for k idx deadline
    by (induction k) (auto simp: poll_status_def guest_up_def intro!: pres_intros)
  then show ?thesis unfolding wait_for_guest_def by (intro pres_intros)
qed

lemma keeps_checks [pres_intros]: "keeps R (run_checks_step d p tg)"
proof -
  have "keeps R (emit_results d rs)" for rs by (induction rs) (auto intro!: pres_intros)
  then show ?thesis unfolding run_checks_step_def by (intro pres_intros)
qed

lemma keeps_workflow_err [pres_intros]: "keeps R (set_workflow_err e)"
  by (simp add: keeps_def set_workflow_err_def modify_def R_frame)

lemma keeps_workflow: "keeps R (run_workflow fuel d p opts)"
proof -
  have ids: "keeps R (modify (\<lambda>s. s\<lparr>es_temp_id := i, es_node := n\<rparr>))" for i n
    by (simp add: keeps_def modify_def R_frame)
  have dry: "keeps R (run_dry_run d p opts)"
    unfolding run_dry_run_def dry_run_fail_def fail_dry_step_def mark_failed_def by (intro pres_intros)
  have finish: "keeps R (finish_workflow d p tg)" for tg
    unfolding finish_workflow_def measure_rto_def grade_success_def mark_inconclusive_def mark_failed_def by (intro pres_intros)
  show ?thesis unfolding run_workflow_def fail_run_def mark_failed_def by (intro pres_intros ids dry finish)
qed

lemma keeps_deferred: "keeps R (deferred d p opts out)"
proof -
  have clean: "keeps R (cleanup d p opts i n b)" for i n b
    unfolding cleanup_def keep_workload_def record_cleanup_skipped_def destroy_workload_def by (intro pres_intros)
  have "keeps R (settle d p opts b)" for b
    unfolding settle_def finalize_run_def mark_cancelled_def by (intro pres_intros clean)
  then show ?thesis
    unfolding deferred_def fail_run_def mark_failed_def by (cases out; simp only: outcome.case; intro pres_intros)
qed

text \<open>A whole run, from the state it starts in.\<close>

lemma keeps_run: "R (initial d p opts w) (snd (engine_run fuel d p opts w))"
proof -
  obtain out s where run: "run_workflow fuel d p opts (initial d p opts w) = (out, s)" by fastforce
  have "R (initial d p opts w) s" using keepsD [OF keeps_workflow, of "initial d p opts w"] run by (metis snd_conv)
  moreover have "R s (snd (deferred d p opts out s))" by (rule keepsD [OF keeps_deferred])
  ultimately show ?thesis by (simp add: engine_run_def run) (rule R_trans)
qed

end

end
