(* ===== verification/Proxmox_Drill.thy ===== *)
theory Proxmox_Drill
  imports Proxmox_Safety Engine_World Engine_Safety
begin

text \<open>
  A drill on a Proxmox cluster: the engine of internal/recovery over the provider of
  internal/providers/proxmox, as newHypervisor and newBackup wire them. What the engine guarantees of
  its calls and what the provider guarantees of its requests meet here.
\<close>

section \<open>The engine on the provider\<close>

text \<open>
  What a drill has beside the cluster acts on the world under the provider and has no way to send a
  request: the clock, the identifiers, the sink of events, the checks other than \<open>command\<close> and the
  history. \<open>ps_within\<close> is the environment under the time limit of one attempt of a check.
\<close>

record 'w pve_site =
  ps_env :: "'w pve_env"
  ps_within :: "duration \<Rightarrow> 'w pve_env"
  ps_config :: pve_config
  ps_dates :: "string \<Rightarrow> params option"
  ps_base :: "'w deps"
  ps_runtime :: "'w runtime"
  ps_checks :: "'w registry"
  ps_values :: "duration \<Rightarrow> string \<Rightarrow> string \<Rightarrow> int \<Rightarrow> ('w, goerr + f64 list) call"
  ps_templates :: template_engine
  ps_floats :: float_text
  ps_regexps :: "string \<Rightarrow> goerr + (string \<Rightarrow> bool)"

definition outside :: "('w \<Rightarrow> 'a \<times> 'w) \<Rightarrow> 'w pve \<Rightarrow> 'a \<times> 'w pve" where
  "outside f s = (case f (pv_world s) of (a, w) \<Rightarrow> (a, s\<lparr>pv_world := w\<rparr>))"

definition site_guest :: "'w pve_site \<Rightarrow> 'w pve guest" where
  "site_guest st = \<lparr>gu_exec = (\<lambda>limit. exec_in_guest (ps_within st limit) (ps_config st) RunCtx),
     gu_os = Some (\<lambda>limit. detect_guest_os (ps_within st limit) (ps_config st) RunCtx),
     gu_values = (\<lambda>limit name metric n. outside (ps_values st limit name metric n))\<rparr>"

definition site_registry :: "'w pve_site \<Rightarrow> 'w pve registry" where
  "site_registry st =
     register ''command'' (command_check (ps_templates st) (ps_floats st) (ps_regexps st) (site_guest st))
       (map (\<lambda>(typ, impl). (typ, \<lambda>limit tg cfg. outside (impl limit tg cfg))) (ps_checks st))"

definition site_runtime :: "'w pve_site \<Rightarrow> 'w pve runtime" where
  "site_runtime st = \<lparr>rt_now = outside (rt_now (ps_runtime st)),
     rt_ctx_err = (\<lambda>s. rt_ctx_err (ps_runtime st) (pv_world s)),
     rt_wait = (\<lambda>n. outside (rt_wait (ps_runtime st) n))\<rparr>"

definition on_pve :: "'w pve_site \<Rightarrow> 'w pve deps" where
  "on_pve st = (let e = ps_env st; cfg = ps_config st; d = ps_base st in
     \<lparr>d_hv_id = px_id cfg, d_bp_id = px_id cfg, d_new_id = outside (d_new_id d),
      d_get_workload = get_workload e cfg, d_list_backups = list_backups e (ps_dates st) cfg,
      d_get_latest = get_latest_backup e (ps_dates st) cfg,
      d_validate_isolation = Some (validate_isolation e cfg), d_node_capacity = Some (node_capacity e cfg),
      d_allocate = allocate_workload_id e cfg, d_restore = restore e cfg,
      d_wait_for_job = wait_for_job_task e cfg, d_finalize = Some (finalize_restore e cfg),
      d_start = start_guest e cfg, d_stop = stop_guest e cfg, d_delete = delete_guest e cfg,
      d_get_status = get_status e cfg, d_run_all = (\<lambda>_. run_all (site_runtime st) (site_registry st)),
      d_now = outside (d_now d), d_sleep = (\<lambda>c n. outside (d_sleep d c n)),
      d_emit = (\<lambda>ev s. s\<lparr>pv_world := d_emit d ev (pv_world s)\<rparr>),
      d_ctx_err = (\<lambda>s. d_ctx_err d (pv_world s)), d_has_exec = True, d_has_baselines = d_has_baselines d\<rparr>)"

definition harmless :: "exchange \<Rightarrow> bool" where "harmless x \<longleftrightarrow> xc_method x \<noteq> HttpDelete"

lemma log_outside [simp]: "pv_log (snd (outside f s)) = pv_log s"
  by (simp add: outside_def split: prod.split)

lemma sends_outside [pres_intros]: "sends P (outside f)" by (simp add: keeps_def sent_def)

lemma harmless_reads: "reads x \<Longrightarrow> harmless x" by (simp add: reads_def harmless_def)

lemma harmless_of_reads: "sends reads m \<Longrightarrow> sends harmless m" by (erule sends_mono) (rule harmless_reads)

lemma harmless_request [pres_intros]: "m \<noteq> HttpDelete \<Longrightarrow> sends harmless (pve_request e cfg c m path f)"
  by (rule sends_request) (simp add: harmless_def)

lemma harmless_fetch [pres_intros]: "m \<noteq> HttpDelete \<Longrightarrow> sends harmless (fetch e cfg c m path f dec what)"
  by (rule sends_fetch) (simp add: harmless_def)

lemma harmless_resolve [pres_intros]: "sends harmless (resolve e cfg c i)" by (rule harmless_of_reads) (rule reads_resolve)

lemma harmless_wait [pres_intros]: "sends harmless (wait_for_task e cfg c node upid)"
  by (rule harmless_of_reads) (rule reads_wait)

lemma harmless_workload: "sends harmless (get_workload e cfg c i)"
  unfolding get_workload_def cluster_resources_def by (intro pres_intros) simp_all

lemma harmless_backups [pres_intros]: "sends harmless (list_backups e decode cfg c i)"
proof -
  have "sends harmless (backup_node e cfg c i)" unfolding backup_node_def list_nodes_def by (intro pres_intros) simp_all
  moreover have "sends harmless (backup_storages e cfg c node)" for node
    unfolding backup_storages_def by (intro pres_intros) simp_all
  moreover have "sends harmless (collect_backups e decode cfg c i node sts found)" for node sts found
    by (induction sts arbitrary: found) (auto intro!: pres_intros)
  ultimately show ?thesis unfolding list_backups_def by (intro pres_intros)
qed

lemma harmless_latest: "sends harmless (get_latest_backup e decode cfg c i)"
  unfolding get_latest_backup_def by (intro pres_intros)

lemma harmless_isolation: "sends harmless (validate_isolation e cfg c node n)"
  unfolding validate_isolation_def by (intro pres_intros) simp_all

lemma harmless_capacity: "sends harmless (node_capacity e cfg c node)"
  unfolding node_capacity_def by (intro pres_intros) simp_all

lemma harmless_allocate: "sends harmless (allocate_workload_id e cfg c)"
proof -
  have "sends harmless (probe_ids e cfg c ns)" for ns by (induction ns) (auto intro!: pres_intros)
  then show ?thesis unfolding allocate_workload_id_def by (intro pres_intros) simp_all
qed

lemma harmless_restore: "sends harmless (restore e cfg c b o0)"
proof -
  have devices: "sends harmless (backup_network_devices e cfg c node volid)" for node volid
    by (rule harmless_of_reads) (rule reads_devices)
  have "sends harmless (\<lambda>s. case pe_now e (pv_world s) of (t, w) \<Rightarrow> (Done (g t), s\<lparr>pv_world := w\<rparr>))" for g
    by (simp add: keeps_def sent_def split: prod.split)
  then show ?thesis unfolding restore_def by (intro pres_intros devices) simp_all
qed

lemma harmless_job: "sends harmless (wait_for_job_task e cfg c job)"
  unfolding wait_for_job_task_def by (intro pres_intros)

lemma harmless_finalize: "sends harmless (finalize_restore e cfg c o0)"
  unfolding finalize_restore_def by (intro pres_intros) simp_all

lemma harmless_start: "sends harmless (start_guest e cfg c i)"
  unfolding start_guest_def run_lifecycle_task_def by (intro pres_intros) simp_all

lemma harmless_stop: "sends harmless (stop_guest e cfg c i)"
  unfolding stop_guest_def run_lifecycle_task_def by (intro pres_intros) simp_all

lemma harmless_status: "sends harmless (get_status e cfg c i)"
  unfolding get_status_def agent_ips_def by (intro pres_intros) simp_all


section \<open>Its checks destroy nothing\<close>

lemma harmless_exec: "sends harmless (exec_in_guest e cfg c i q)"
proof -
  have "sends harmless (agent_exec_start e cfg c node i q)" for node
    unfolding agent_exec_start_def by (intro pres_intros) simp_all
  moreover have "sends harmless (agent_exec_wait e cfg c node i pid n)" for node pid n
    unfolding agent_exec_wait_def exec_turn_def by (intro pres_intros) simp_all
  ultimately show ?thesis unfolding exec_in_guest_def by (intro pres_intros)
qed

lemma harmless_detect: "sends harmless (detect_guest_os e cfg c i)"
  unfolding detect_guest_os_def by (intro pres_intros) simp_all

lemma harmless_command:
  assumes "\<And>limit i q. sends harmless (gu_exec g limit i q)"
    and "\<And>detect limit i. gu_os g = Some detect \<Longrightarrow> sends harmless (detect limit i)"
    and "\<And>limit name metric n. sends harmless (gu_values g limit name metric n)"
  shows "sends harmless (command_check tx ft rx g limit tg cfg)"
proof -
  have shell: "sends harmless (auto_shell g limit tg)" unfolding auto_shell_def
    by (cases "gu_os g"; simp only: option.case; intro pres_intros assms(2); assumption)
  have drift: "sends harmless (judge_drift ft g limit tg cfg v d msg details)" for v d msg details
    unfolding judge_drift_def read_baseline_def by (intro pres_intros assms(3))
  have judged: "sends harmless (judge_command ft rx g limit tg cfg c argv res)" for c argv res
    unfolding judge_command_def evaluate_capture_def by (intro pres_intros drift)
  show ?thesis unfolding command_check_def choose_argv_def exec_command_def
    by (intro pres_intros shell judged assms(1))
qed

lemma harmless_attempts:
  assumes "\<And>limit tg cfg. sends harmless (impl limit tg cfg)" "\<And>n. sends harmless (rt_sleep rt n)"
  shows "sends harmless (attempt_from n k rt impl tg cfg)"
proof -
  have attempt: "sends harmless (run_attempt impl tg cfg)" for tg cfg unfolding keeps_def
  proof
    fix s
    show "sent harmless s (snd (run_attempt impl tg cfg s))"
      using assms(1) [of "max 0 (cc_timeout cfg)" tg cfg] unfolding keeps_def run_attempt_def
      by (auto split: prod.split outcome.split) (metis snd_conv)+
  qed
  show ?thesis
  proof (induction n arbitrary: k)
    case 0
    show ?case unfolding attempt_from.simps by (intro pres_intros attempt)
  next
    case (Suc n)
    show ?case unfolding attempt_from.simps by (intro pres_intros attempt assms(2) Suc)
  qed
qed

lemma harmless_checks: "sends harmless (run_all (site_runtime st) (site_registry st) tg cfgs)"
proof -
  have time: "sends harmless (rt_time (site_runtime st))"
    by (simp add: keeps_def sent_def rt_time_def site_runtime_def outside_def split: prod.split)
  have wait: "sends harmless (rt_sleep (site_runtime st) n)" for n
    by (simp add: keeps_def sent_def rt_sleep_def site_runtime_def outside_def split: prod.split)
  have command: "sends harmless (command_check tx ft rx (site_guest st) limit tg cfg)" for tx ft rx limit tg cfg
    by (rule harmless_command) (auto simp only: site_guest_def guest.simps option.inject
        intro!: harmless_exec harmless_detect sends_outside)
  have found: "sends harmless (impl limit tg cfg)"
    if "get_check (site_registry st) name = Some impl" for name impl limit tg cfg
  proof -
    have "(name, impl) \<in> set (site_registry st)" by (rule map_of_SomeD [OF that [unfolded get_check_def]])
    then consider "impl = command_check (ps_templates st) (ps_floats st) (ps_regexps st) (site_guest st)"
      | own where "impl = (\<lambda>limit tg cfg. outside (own limit tg cfg))"
      by (auto simp: site_registry_def register_def)
    then show ?thesis by cases (simp_all add: command sends_outside)
  qed
  have one: "sends harmless (run_one (site_runtime st) (site_registry st) tg cfg)" for cfg
    unfolding run_one_def
    by (cases "get_check (site_registry st) (cc_type cfg)"; simp only: option.case)
      (intro pres_intros time harmless_attempts wait found; assumption)+
  show ?thesis
  proof (induction cfgs)
    case Nil
    show ?case unfolding run_all.simps by (intro pres_intros)
  next
    case (Cons cfg cfgs)
    show ?case unfolding run_all.simps by (intro pres_intros time one Cons)
  qed
qed


section \<open>What a drill destroys\<close>

text \<open>
  A destruction is justified by what came before: the engine's own request for that identifier, an
  identifier of the reserved range, and the mark just read on that workload.
\<close>

definition justified :: "readers \<Rightarrow> pve_config \<Rightarrow> entry list \<Rightarrow> exchange list \<Rightarrow> exchange \<Rightarrow> bool" where
  "justified rd cfg calls before x \<longleftrightarrow>
     (\<exists>node kind i. destroys node kind i x \<and> in_temp_range cfg i \<and> (\<exists>c ok. CallDelete c i ok \<in> set calls) \<and>
        list_ex (mark_read rd node kind i) before)"

definition all_justified :: "readers \<Rightarrow> pve_config \<Rightarrow> entry list \<Rightarrow> exchange list \<Rightarrow> bool" where
  "all_justified rd cfg calls xs \<longleftrightarrow>
     (\<forall>before x after. xs = before @ x # after \<longrightarrow> \<not> harmless x \<longrightarrow> justified rd cfg calls before x)"

lemma justified_more:
  "justified rd cfg calls before x \<Longrightarrow> set calls \<subseteq> set calls' \<Longrightarrow> set before \<subseteq> set before' \<Longrightarrow> justified rd cfg calls' before' x"
  unfolding justified_def list_ex_iff by blast

lemma all_justified_append:
  assumes "all_justified rd cfg calls xs" "all_justified rd cfg calls' ys" "set calls \<subseteq> set calls''" "set calls' \<subseteq> set calls''"
  shows "all_justified rd cfg calls'' (xs @ ys)"
  unfolding all_justified_def
proof (intro allI impI)
  fix before x after assume split: "xs @ ys = before @ x # after" and bad: "\<not> harmless x"
  consider us where "xs = before @ us" "us @ ys = x # after" | us where "before = xs @ us" "ys = us @ x # after"
    using split by (auto simp: append_eq_append_conv2)
  then show "justified rd cfg calls'' before x"
  proof cases
    case 1
    show ?thesis
    proof (cases us)
      case Nil
      then have "ys = [] @ x # after" "xs = before" using 1 by simp_all
      then show ?thesis using assms(2,4) bad justified_more [of rd cfg calls' "[]" x calls'' before]
        unfolding all_justified_def by (metis empty_subsetI list.set(1))
    next
      case (Cons u us')
      then have "xs = before @ x # us'" using 1 by simp
      then show ?thesis using assms(1,3) bad justified_more [of rd cfg calls before x calls'' before]
        unfolding all_justified_def by blast
    qed
  next
    case 2
    then have "justified rd cfg calls' us x" using assms(2) bad unfolding all_justified_def by blast
    then show ?thesis using justified_more [of rd cfg calls' us x calls'' before] assms(4) 2(1) by simp
  qed
qed

definition ledger :: "readers \<Rightarrow> pve_config \<Rightarrow> 'w pve est \<Rightarrow> 'w pve est \<Rightarrow> bool" where
  "ledger rd cfg s t \<longleftrightarrow>
     (\<exists>xs es. pv_log (es_world t) = pv_log (es_world s) @ xs \<and> es_log t = es @ es_log s \<and> all_justified rd cfg es xs)"

lemma all_justified_harmless: "list_all harmless xs \<Longrightarrow> all_justified rd cfg es xs"
  by (auto simp: all_justified_def)

interpretation ledger: kept_order "ledger rd cfg" for rd cfg
proof
  show "ledger rd cfg s s" for s :: "'w pve est" by (simp add: ledger_def all_justified_def)
  show "ledger rd cfg s u" if st: "ledger rd cfg s t" and tu: "ledger rd cfg t u" for s t u :: "'w pve est"
  proof -
    obtain xs es where "pv_log (es_world t) = pv_log (es_world s) @ xs" "es_log t = es @ es_log s" "all_justified rd cfg es xs"
      using st unfolding ledger_def by blast
    moreover obtain ys fs where "pv_log (es_world u) = pv_log (es_world t) @ ys" "es_log u = fs @ es_log t" "all_justified rd cfg fs ys"
      using tu unfolding ledger_def by blast
    ultimately have "pv_log (es_world u) = pv_log (es_world s) @ (xs @ ys)" "es_log u = (fs @ es) @ es_log s"
      "all_justified rd cfg (fs @ es) (xs @ ys)" using all_justified_append [of rd cfg es xs fs ys "fs @ es"] by simp_all
    then show ?thesis unfolding ledger_def by blast
  qed
qed

lemma ledger_perform [pres_intros]:
  assumes "sends harmless f"
  shows "keeps (ledger rd cfg) (perform mk f)"
  unfolding keeps_def
proof
  fix s :: "'a pve est"
  obtain r w where f: "f (es_world s) = (r, w)" by fastforce
  then obtain xs where "pv_log w = pv_log (es_world s) @ xs" "list_all harmless xs" using sendsD [OF assms, of "es_world s"] by auto
  then show "ledger rd cfg s (snd (perform mk f s))"
    unfolding ledger_def perform_def f by (auto simp: all_justified_harmless)
qed

lemma gated_justified:
  assumes "gated_delete rd cfg i xs" "CallDelete c i ok \<in> set es"
  shows "all_justified rd cfg es xs"
  unfolding all_justified_def
proof (intro allI impI)
  fix pre x post assume split: "xs = pre @ x # post" and bad: "\<not> harmless x"
  have "x \<in> set xs" "\<not> reads x" using split bad harmless_reads by auto
  then obtain node kind before mark after where d: "in_temp_range cfg i" "xs = before @ mark # after" "list_all reads before"
    "mark_read rd node kind i mark" "list_all (clears node kind i) after"
    using assms(1) unfolding gated_delete_def list_all_iff by blast
  have early: "\<not> (\<exists>us. before @ [mark] = pre @ x # us)"
  proof
    assume "\<exists>us. before @ [mark] = pre @ x # us"
    then have "x \<in> set (before @ [mark])" by (metis in_set_conv_decomp)
    then show False using d(3,4) \<open>\<not> reads x\<close> by (auto simp: list_all_iff mark_read_def)
  qed
  have "(before @ [mark]) @ after = pre @ x # post" using d(2) split by simp
  then obtain us where "before @ [mark] = pre @ us \<and> us @ after = x # post \<or>
      pre = (before @ [mark]) @ us \<and> after = us @ x # post"
    unfolding append_eq_append_conv2 by metis
  then obtain us where us: "pre = (before @ [mark]) @ us" "after = us @ x # post"
  proof
    assume one: "before @ [mark] = pre @ us \<and> us @ after = x # post"
    then have "us = []" using early by (cases us) auto
    then show thesis using one that [of "[]"] by simp
  next
    assume "pre = (before @ [mark]) @ us \<and> after = us @ x # post"
    then show thesis using that by blast
  qed
  then have "clears node kind i x" using d(5) by simp
  then have "destroys node kind i x" using \<open>\<not> reads x\<close> bad by (auto simp: clears_def stops_def harmless_def)
  moreover have "list_ex (mark_read rd node kind i) pre" using us(1) d(4) by simp
  ultimately show "justified rd cfg es pre x" using d(1) assms(2) unfolding justified_def by blast
qed

lemma ledger_delete:
  "keeps (ledger (pe_readers e) cfg) (perform (\<lambda>r. CallDelete CleanupCtx i (ok_of r)) (delete_guest e cfg CleanupCtx i))"
  unfolding keeps_def
proof
  fix s :: "'a pve est"
  obtain r w where f: "delete_guest e cfg CleanupCtx i (es_world s) = (r, w)" by fastforce
  obtain xs where xs: "pv_log w = pv_log (es_world s) @ xs" "gated_delete (pe_readers e) cfg i xs"
    using delete_gated [of e cfg CleanupCtx i "es_world s"] f by auto
  let ?es = "[CallDelete CleanupCtx i (ok_of (case r of Done a \<Rightarrow> Some a | _ \<Rightarrow> None))]"
  have "all_justified (pe_readers e) cfg ?es xs" by (rule gated_justified [OF xs(2)]) simp
  then show "ledger (pe_readers e) cfg s (snd (perform (\<lambda>r. CallDelete CleanupCtx i (ok_of r)) (delete_guest e cfg CleanupCtx i) s))"
    unfolding ledger_def perform_def f using xs(1) by (intro exI [of _ xs] exI [of _ ?es]) simp
qed

lemma ledger_frame: "pv_log (es_world t) = pv_log (es_world s) \<Longrightarrow> es_log t = es @ es_log s \<Longrightarrow> ledger rd cfg s t"
  unfolding ledger_def all_justified_def by force

text \<open>The provider and everything beside it keep the ledger: so a whole run does.\<close>

interpretation pve_drill: engine_world "ledger (pe_readers (ps_env st)) (ps_config st)" "on_pve st" for st
proof -
  have now: "keeps (ledger rd cfg) (now (on_pve st))" for rd cfg
    by (auto simp: keeps_def now_def on_pve_def outside_def Let_def intro!: ledger_frame [of _ _ "[]"] split: prod.split)
  have sleep: "keeps (ledger rd cfg) (sleep (on_pve st) c n)" for rd cfg c n
    by (auto simp: keeps_def sleep_def on_pve_def outside_def Let_def intro!: ledger_frame [of _ _ "[]"] split: prod.split)
  have emit: "keeps (ledger rd cfg) (emit (on_pve st) ev)" for rd cfg ev
    by (auto simp: keeps_def emit_def modify_def on_pve_def Let_def intro!: ledger_frame [of _ _ "[Emitted ev]"])
  show "engine_world (ledger (pe_readers (ps_env st)) (ps_config st)) (on_pve st)"
    apply (unfold_locales)
    apply (rule ledger_frame [of _ _ "[]"]; simp)
    apply (rule now sleep emit)+
    apply (simp_all add: on_pve_def allocate_def wait_for_job_def start_call_def stop_call_def delete_call_def Let_def)
    apply (auto intro!: ledger_perform ledger_delete harmless_checks harmless_workload harmless_backups harmless_latest
        harmless_isolation harmless_capacity harmless_allocate harmless_restore harmless_job harmless_finalize
        harmless_start harmless_stop harmless_status)
    done
qed

lemma called_delete_was_restored:
  assumes "legal (allowed d opts) es" "CallDelete c i ok \<in> set es"
  shows "list_ex (accepts i) es"
proof -
  obtain post pre where es: "es = post @ CallDelete c i ok # pre" using split_list [OF assms(2)] by blast
  have "allowed d opts (CallDelete c i ok) pre" using protocol.legal_split assms(1) unfolding es by blast
  then show ?thesis unfolding es by simp
qed

text \<open>
  A whole drill: from the log of the cluster it starts with, and the log of the engine it ends with.
\<close>

definition drill_on_pve ::
  "nat \<Rightarrow> 'w pve_site \<Rightarrow> plan \<Rightarrow> run_options \<Rightarrow> 'w \<Rightarrow> goerr option outcome \<times> exchange list \<times> entry list" where
  "drill_on_pve fuel st p opts w =
     (case engine_run fuel (on_pve st) p opts \<lparr>pv_world = w, pv_log = []\<rparr> of
        (out, t) \<Rightarrow> (out, pv_log (es_world t), es_log t))"

text \<open>An exchange destroys only what the drill itself restored, inside the reserved range, after it had
  read the mark on it.\<close>

definition destroys_own :: "readers \<Rightarrow> pve_config \<Rightarrow> entry list \<Rightarrow> exchange list \<Rightarrow> exchange \<Rightarrow> bool" where
  "destroys_own rd cfg calls before x \<longleftrightarrow>
     xc_method x = HttpDelete \<and>
     (\<exists>node kind i. xc_path x = guest_path node kind i \<and> in_temp_range cfg i \<and>
        list_ex (mark_read rd node kind i) before \<and> list_ex (accepts i) calls)"

definition destroys_only_its_own :: "readers \<Rightarrow> pve_config \<Rightarrow> entry list \<Rightarrow> exchange list \<Rightarrow> bool" where
  "destroys_only_its_own rd cfg calls xs \<longleftrightarrow>
     list_all (\<lambda>k. harmless (xs ! k) \<or> destroys_own rd cfg calls (take k xs) (xs ! k)) [0..<length xs]"

text \<open>C2. What a drill can destroy. On a Proxmox cluster, whatever the cluster answers and however the
  drill ends, every destruction the whole drill sends, its checks and its cleanup included, is of a
  workload whose restore the cluster accepted in that very drill, with an identifier of the reserved
  range, and only after its configuration was read back and carried RestoreLab's mark.\<close>

theorem drill_destroys_only_its_own:
  "case drill_on_pve fuel st p opts w of (out, xs, calls) \<Rightarrow>
     destroys_only_its_own (pe_readers (ps_env st)) (ps_config st) calls xs"
proof -
  let ?rd = "pe_readers (ps_env st)" and ?cfg = "ps_config st"
  let ?fin = "snd (engine_run fuel (on_pve st) p opts \<lparr>pv_world = w, pv_log = []\<rparr>)"
  have new: "pv_log (es_world (initial (on_pve st) p opts \<lparr>pv_world = w, pv_log = []\<rparr>)) = []"
    "es_log (initial (on_pve st) p opts \<lparr>pv_world = w, pv_log = []\<rparr>) = []"
    by (auto simp: initial_def new_run_def on_pve_def outside_def Let_def split: prod.split)
  have ok: "all_justified ?rd ?cfg (es_log ?fin) (pv_log (es_world ?fin))"
    using pve_drill.keeps_run [of st p opts "\<lparr>pv_world = w, pv_log = []\<rparr>" fuel] new unfolding ledger_def by auto
  have legal: "legal (allowed (on_pve st) opts) (es_log ?fin)" by (rule engine_run_legal)
  have "harmless (xs ! k) \<or> destroys_own ?rd ?cfg (es_log ?fin) (take k xs) (xs ! k)"
    if xs: "xs = pv_log (es_world ?fin)" and k: "k < length xs" for xs k
  proof (cases "harmless (xs ! k)")
    case False
    have "xs = take k xs @ xs ! k # drop (Suc k) xs" by (rule id_take_nth_drop [OF k])
    then have "justified ?rd ?cfg (es_log ?fin) (take k xs) (xs ! k)"
      using ok False unfolding xs all_justified_def by blast
    then show ?thesis
      using called_delete_was_restored [OF legal] unfolding justified_def destroys_def destroys_own_def by blast
  qed simp
  then show ?thesis
    by (auto simp: drill_on_pve_def destroys_only_its_own_def list_all_iff split: prod.split) (metis snd_conv)
qed

end
