(* ===== verification/Report.thy ===== *)
theory Report
  imports Checks
begin

text \<open>
  internal/report: durations and sizes for a reader (format.go), the values a check measured
  (values.go), the JSON document of a run (json.go) and the Recovery Confidence score
  (confidence.go). The renderers of text.go and html.go only lay these out.

  The texts strconv and fmt give of a float are functions: \<open>nt_shortest\<close> is FormatFloat with the
  verb f and the shortest precision, \<open>nt_fixed0\<close> and \<open>nt_fixed1\<close> the verbs %.0f and %.1f. The wall clock
  is an argument. An enumeration is carried as its constant, not as the string it is written as.
\<close>

record number_text =
  nt_shortest :: "f64 \<Rightarrow> string"
  nt_fixed0 :: "f64 \<Rightarrow> string"
  nt_fixed1 :: "f64 \<Rightarrow> string"


section \<open>Durations and sizes\<close>

text \<open>\<open>Duration.Seconds\<close> and \<open>Duration.Hours\<close>: whole units and the rest, each converted, then added.\<close>

definition dur_seconds :: "duration \<Rightarrow> f64" where
  "dur_seconds d = add64 (of_int64 (go_div d second)) (div64 (of_int64 (go_mod d second)) (Fin 1000000000))"

definition dur_hours :: "duration \<Rightarrow> f64" where
  "dur_hours d = add64 (of_int64 (go_div d hour)) (div64 (of_int64 (go_mod d hour)) (Fin 3600000000000))"

definition format_duration :: "number_text \<Rightarrow> duration \<Rightarrow> string" where
  "format_duration nt d =
     (let neg = (if d < 0 then ''-'' else ''''); d = (if d < 0 then wrap64 (- d) else d) in
      if d = 0 then ''0s''
      else if d < millisecond then
        neg @ itoa (go_div d microsecond) @ [char_of (194 :: nat), char_of (181 :: nat), CHR ''s'']
      else if d < second then neg @ itoa (go_div d millisecond) @ ''ms''
      else if d < minute then neg @ nt_fixed1 nt (dur_seconds d) @ ''s''
      else if d < hour then
        neg @ itoa (go_div d minute) @ ''m'' @ pad0 2 (go_div (go_mod d minute) second) @ ''s''
      else
        neg @ itoa (go_div d hour) @ ''h'' @ pad0 2 (go_div (go_mod d hour) minute) @ ''m'' @
          pad0 2 (go_div (go_mod d minute) second) @ ''s'')"

text \<open>The divisor of a size and its unit: at most five steps.\<close>

fun unit_of :: "nat \<Rightarrow> int \<Rightarrow> int \<Rightarrow> nat \<Rightarrow> int \<times> nat" where
  "unit_of 0 n divisor e = (divisor, e)"
| "unit_of (Suc k) n divisor e =
     (if go_div n divisor \<ge> 1024 then unit_of k n (divisor * 1024) (e + 1) else (divisor, e))"

definition format_bytes :: "number_text \<Rightarrow> int \<Rightarrow> string" where
  "format_bytes nt n =
     (let neg = (if n < 0 then ''-'' else ''''); n = (if n < 0 then wrap64 (- n) else n) in
      if n < 1024 then neg @ itoa n @ '' B''
      else
        (case unit_of 5 n 1024 0 of (divisor, e) \<Rightarrow>
           neg @ nt_fixed1 nt (div64 (of_int64 n) (of_int64 divisor)) @ '' '' @
             [''KiB'', ''MiB'', ''GiB'', ''TiB'', ''PiB'', ''EiB''] ! e))"


section \<open>What a check measured\<close>

record captured_value =
  cv_name :: string
  cv_value :: f64
  cv_baseline :: "f64 option"

definition no_value :: string where "no_value = ''--''"

definition format_value :: "number_text \<Rightarrow> f64 \<Rightarrow> string" where "format_value nt v = nt_shortest nt v"

definition format_baseline :: "number_text \<Rightarrow> f64 option \<Rightarrow> string" where
  "format_baseline nt b = (case b of None \<Rightarrow> no_value | Some v \<Rightarrow> format_value nt v)"

definition value_line :: "number_text \<Rightarrow> captured_value \<Rightarrow> string" where
  "value_line nt v =
     cv_name v @ '': '' @ format_value nt (cv_value v) @ '' (baseline '' @ format_baseline nt (cv_baseline v) @ '')''"

definition value_lines :: "number_text \<Rightarrow> captured_value list \<Rightarrow> string list" where
  "value_lines nt vs = map (value_line nt) vs"

text \<open>
  \<open>asFloat\<close> and \<open>numberMap\<close>: a detail is met as the check built it, or as decoded from the JSON it was
  stored as.
\<close>

definition detail_number :: "detail \<Rightarrow> f64 option" where
  "detail_number v = (case v of DetailFloat x \<Rightarrow> Some x | DetailInt n \<Rightarrow> Some (of_int64 n) | _ \<Rightarrow> None)"

definition number_map :: "detail option \<Rightarrow> (string \<times> f64) list" where
  "number_map v =
     (case v of
        Some (DetailFloats kvs) \<Rightarrow> kvs
      | Some (DetailMap kvs) \<Rightarrow>
          (case those (map (\<lambda>(k, x). map_option (Pair k) (detail_number x)) kvs) of None \<Rightarrow> [] | Some out \<Rightarrow> out)
      | _ \<Rightarrow> [])"

definition report_values :: "(string \<times> detail) list \<Rightarrow> captured_value list" where
  "report_values ds =
     (let captured = number_map (map_of ds detail_captured);
          baselines = number_map (map_of ds detail_baseline)
      in map (\<lambda>k. \<lparr>cv_name = k, cv_value = (case map_of captured k of Some v \<Rightarrow> v | None \<Rightarrow> Fin 0),
                   cv_baseline = map_of baselines k\<rparr>)
           (sort_strings (remdups (map fst captured))))"


section \<open>The document of a run\<close>

record backup_dto =
  bd_id :: string
  bd_workload_id :: string
  bd_provider_id :: string
  bd_datastore :: string
  bd_node :: string
  bd_created_at :: time
  bd_age_seconds :: f64
  bd_age :: string
  bd_size_bytes :: int
  bd_size :: string
  bd_protected :: bool
  bd_encrypted :: bool
  bd_verified :: verification_state
  bd_format :: string
  bd_notes :: string

record step_dto =
  sd_name :: string
  sd_state :: run_state
  sd_status :: step_status
  sd_started_at :: time
  sd_completed_at :: time
  sd_duration_seconds :: f64
  sd_duration :: string
  sd_message :: string
  sd_error :: string

record check_dto =
  cd_name :: string
  cd_type :: string
  cd_status :: check_status
  cd_pass :: bool
  cd_started_at :: time
  cd_completed_at :: time
  cd_duration_seconds :: f64
  cd_duration :: string
  cd_attempts :: int
  cd_message :: string
  cd_details :: "(string \<times> detail) list"
  cd_values :: "captured_value list"

record document =
  dc_schema :: string
  dc_run_id :: string
  dc_plan_name :: string
  dc_plan_id :: string
  dc_plan_version :: int
  dc_provider_id :: string
  dc_backup_provider_id :: string
  dc_source_workload_id :: string
  dc_source_name :: string
  dc_temp_workload_id :: string
  dc_temp_name :: string
  dc_node :: string
  dc_backup :: "backup_dto option"
  dc_state :: run_state
  dc_result :: run_result
  dc_started_at :: time
  dc_completed_at :: time
  dc_steps :: "step_dto list"
  dc_checks :: "check_dto list"
  dc_rto_seconds :: f64
  dc_rto :: string
  dc_rto_target_seconds :: "f64 option"
  dc_rto_target :: "string option"
  dc_rto_exceeded :: bool
  dc_cleanup_done :: bool
  dc_error :: string
  dc_proof_level :: proof_level

definition schema_version :: string where "schema_version = ''restorelab.recovery-run/v1''"

definition new_backup_dto_at :: "number_text \<Rightarrow> time \<Rightarrow> time \<Rightarrow> backup option \<Rightarrow> backup_dto option" where
  "new_backup_dto_at nt wall t b =
     (case b of
        None \<Rightarrow> None
      | Some b \<Rightarrow>
          (let t = (if is_zero t then wall else t); age = time_sub t (bk_created_at b)
           in Some \<lparr>bd_id = bk_id b, bd_workload_id = bk_workload_id b, bd_provider_id = bk_provider_id b,
                bd_datastore = bk_datastore b, bd_node = bk_node b, bd_created_at = bk_created_at b,
                bd_age_seconds = dur_seconds age, bd_age = format_duration nt age,
                bd_size_bytes = bk_size_bytes b, bd_size = format_bytes nt (bk_size_bytes b),
                bd_protected = bk_protected b, bd_encrypted = bk_encrypted b, bd_verified = bk_verified b,
                bd_format = bk_format b, bd_notes = bk_notes b\<rparr>))"

definition new_backup_dto :: "number_text \<Rightarrow> time \<Rightarrow> backup option \<Rightarrow> backup_dto option" where
  "new_backup_dto nt wall b = new_backup_dto_at nt wall wall b"

definition to_step_dto :: "number_text \<Rightarrow> step \<Rightarrow> step_dto" where
  "to_step_dto nt s =
     \<lparr>sd_name = st_name s, sd_state = st_state s, sd_status = st_status s, sd_started_at = st_started_at s,
      sd_completed_at = st_completed_at s, sd_duration_seconds = dur_seconds (st_duration s),
      sd_duration = format_duration nt (st_duration s), sd_message = st_message s, sd_error = st_err s\<rparr>"

definition new_check_dto :: "number_text \<Rightarrow> check_result \<Rightarrow> check_dto" where
  "new_check_dto nt c =
     \<lparr>cd_name = cr_name c, cd_type = cr_type c, cd_status = cr_status c, cd_pass = cr_ok c,
      cd_started_at = cr_started_at c, cd_completed_at = cr_completed_at c,
      cd_duration_seconds = dur_seconds (cr_duration c), cd_duration = format_duration nt (cr_duration c),
      cd_attempts = cr_attempts c, cd_message = cr_message c, cd_details = cr_details c,
      cd_values = report_values (cr_details c)\<rparr>"

definition new_document :: "number_text \<Rightarrow> time \<Rightarrow> recovery_run \<Rightarrow> document" where
  "new_document nt wall r =
     \<lparr>dc_schema = schema_version, dc_run_id = run_id r, dc_plan_name = run_plan_name r,
      dc_plan_id = run_plan_id r, dc_plan_version = run_plan_version r,
      dc_provider_id = run_provider_id r, dc_backup_provider_id = run_backup_provider_id r,
      dc_source_workload_id = run_source_workload_id r, dc_source_name = run_source_name r,
      dc_temp_workload_id = run_temp_workload_id r, dc_temp_name = run_temp_name r, dc_node = run_node r,
      dc_backup = new_backup_dto_at nt wall (run_started_at r) (run_backup r),
      dc_state = run_state r, dc_result = run_result r, dc_started_at = run_started_at r,
      dc_completed_at = run_completed_at r, dc_steps = map (to_step_dto nt) (run_steps r),
      dc_checks = map (new_check_dto nt) (run_checks r), dc_rto_seconds = dur_seconds (run_rto r),
      dc_rto = format_duration nt (run_rto r),
      dc_rto_target_seconds = (if run_rto_target r > 0 then Some (dur_seconds (run_rto_target r)) else None),
      dc_rto_target = (if run_rto_target r > 0 then Some (format_duration nt (run_rto_target r)) else None),
      dc_rto_exceeded = rto_exceeded r, dc_cleanup_done = run_cleanup_done r, dc_error = run_err r,
      dc_proof_level = run_proof_level r\<rparr>"


section \<open>Recovery Confidence\<close>

record confidence_input =
  ci_last_run :: "recovery_run option"
  ci_history :: "recovery_run option list"
  ci_latest_backup_at :: time
  ci_now :: time

record confidence_weights =
  cw_age_grace_days :: f64
  cw_age_per_day_penalty :: f64
  cw_age_max_penalty :: int
  cw_no_success_penalty :: int
  cw_last_run_failed_penalty :: int
  cw_last_run_degraded_penalty :: int
  cw_rto_exceeded_penalty :: int
  cw_cleanup_failed_penalty :: int
  cw_no_backup_penalty :: int
  cw_backup_stale_after :: duration
  cw_backup_stale_penalty :: int
  cw_failure_rate_max_penalty :: int
  cw_proof_none_cap :: int
  cw_proof_boot_cap :: int
  cw_proof_service_cap :: int

definition default_weights :: confidence_weights where
  "default_weights =
     \<lparr>cw_age_grace_days = Fin 7, cw_age_per_day_penalty = Fin 2, cw_age_max_penalty = 40,
      cw_no_success_penalty = 35, cw_last_run_failed_penalty = 30, cw_last_run_degraded_penalty = 15,
      cw_rto_exceeded_penalty = 10, cw_cleanup_failed_penalty = 15, cw_no_backup_penalty = 50,
      cw_backup_stale_after = 48 * hour, cw_backup_stale_penalty = 20, cw_failure_rate_max_penalty = 30,
      cw_proof_none_cap = 40, cw_proof_boot_cap = 60, cw_proof_service_cap = 85\<rparr>"

fun proof_cap :: "confidence_weights \<Rightarrow> proof_level \<Rightarrow> int" where
  "proof_cap w ProofNone = cw_proof_none_cap w"
| "proof_cap w ProofBoot = cw_proof_boot_cap w"
| "proof_cap w ProofService = cw_proof_service_cap w"
| "proof_cap w _ = 0"

record confidence =
  cf_score :: int
  cf_reasons :: "string list"
  cf_tested :: bool
  cf_proof :: proof_level

definition candidates :: "confidence_input \<Rightarrow> recovery_run list" where
  "candidates c = List.map_filter id (ci_last_run c # ci_history c)"

definition latest_proven_level :: "confidence_input \<Rightarrow> proof_level" where
  "latest_proven_level c =
     (case find (\<lambda>r. run_result r \<noteq> ResultNone \<and> recorded (run_proof_level r)) (candidates c) of
        None \<Rightarrow> ProofUnknown | Some r \<Rightarrow> run_proof_level r)"

definition most_recent_success :: "confidence_input \<Rightarrow> recovery_run option" where
  "most_recent_success c = find (\<lambda>r. run_result r = ResultSuccess) (candidates c)"

text \<open>\<open>math.Round\<close>: exact, halves away from zero.\<close>

fun round64 :: "f64 \<Rightarrow> f64" where
  "round64 (Fin x) = Fin (of_int (round_away x))"
| "round64 x = x"

text \<open>The penalties in the order they are applied, each with its reason; one of zero or less is none.\<close>

definition age_days :: "time \<Rightarrow> recovery_run \<Rightarrow> f64" where
  "age_days t r = div64 (dur_hours (time_sub t (run_completed_at r))) (Fin 24)"

definition age_penalty :: "confidence_weights \<Rightarrow> f64 \<Rightarrow> int" where
  "age_penalty w days =
     (let over = sub64 days (cw_age_grace_days w) in
      if less64 (Fin 0) over then min (float_to_int (round64 (mul64 over (cw_age_per_day_penalty w)))) (cw_age_max_penalty w)
      else 0)"

definition age_step :: "confidence_weights \<Rightarrow> time \<Rightarrow> confidence_input \<Rightarrow> int \<times> string" where
  "age_step w t c =
     (case most_recent_success c of
        Some r \<Rightarrow>
          (age_penalty w (age_days t r),
           ''last successful test '' @ itoa (float_to_int (round64 (age_days t r))) @ '' days ago'')
      | None \<Rightarrow> (cw_no_success_penalty w, ''no successful recovery test on record''))"

definition outcome_step :: "confidence_weights \<Rightarrow> recovery_run \<Rightarrow> int \<times> string" where
  "outcome_step w r =
     (case run_result r of
        ResultFailed \<Rightarrow> (cw_last_run_failed_penalty w, ''last run failed'')
      | ResultDegraded \<Rightarrow> (cw_last_run_degraded_penalty w, ''last run degraded'')
      | _ \<Rightarrow> (0, ''''))"

definition rto_step :: "number_text \<Rightarrow> confidence_weights \<Rightarrow> recovery_run \<Rightarrow> int \<times> string" where
  "rto_step nt w r =
     (if run_result r \<noteq> ResultNone \<and> rto_exceeded r then
        (cw_rto_exceeded_penalty w, ''RTO exceeded ('' @ format_duration nt (run_rto r) @ '' actual vs '' @
          format_duration nt (run_rto_target r) @ '' target)'')
      else (0, ''''))"

definition cleanup_step :: "confidence_weights \<Rightarrow> recovery_run \<Rightarrow> int \<times> string" where
  "cleanup_step w r =
     (if run_state r = RunCleanupFailed then (cw_cleanup_failed_penalty w, ''last run failed to clean up'') else (0, ''''))"

definition backup_step :: "number_text \<Rightarrow> confidence_weights \<Rightarrow> time \<Rightarrow> confidence_input \<Rightarrow> int \<times> string" where
  "backup_step nt w t c =
     (if is_zero (ci_latest_backup_at c) then (cw_no_backup_penalty w, ''no backup available'')
      else
        (let age = time_sub t (ci_latest_backup_at c) in
         if age > cw_backup_stale_after w then
           (cw_backup_stale_penalty w, ''latest backup is stale ('' @ format_duration nt age @ '' old)'')
         else (0, '''')))"

definition judged :: "confidence_input \<Rightarrow> recovery_run list" where
  "judged c = filter (\<lambda>r. run_result r \<noteq> ResultNone) (List.map_filter id (ci_history c))"

definition failure_step :: "number_text \<Rightarrow> confidence_weights \<Rightarrow> confidence_input \<Rightarrow> int \<times> string" where
  "failure_step nt w c =
     (let counted = int (length (judged c));
          failed = int (length (filter (\<lambda>r. run_result r \<noteq> ResultSuccess) (judged c)))
      in if counted > 0 then
           (let rate = div64 (of_int64 failed) (of_int64 counted)
            in (float_to_int (round64 (mul64 rate (of_int64 (cw_failure_rate_max_penalty w)))),
                nt_fixed0 nt (mul64 rate (Fin 100)) @ ''% of the last '' @ itoa counted @ '' runs did not fully succeed''))
         else (0, ''''))"

definition penalties ::
  "number_text \<Rightarrow> confidence_weights \<Rightarrow> time \<Rightarrow> confidence_input \<Rightarrow> recovery_run \<Rightarrow> (int \<times> string) list" where
  "penalties nt w t c r =
     [age_step w t c, outcome_step w r, rto_step nt w r, cleanup_step w r, backup_step nt w t c, failure_step nt w c]"

definition apply_penalty :: "int \<times> string \<Rightarrow> int \<times> string list \<Rightarrow> int \<times> string list" where
  "apply_penalty p s =
     (case p of (penalty, reason) \<Rightarrow> case s of (score, reasons) \<Rightarrow>
        if penalty \<le> 0 then (score, reasons)
        else (wrap64 (score - penalty), reasons @ [reason @ '' (-'' @ itoa penalty @ '')'']))"

definition score :: "number_text \<Rightarrow> time \<Rightarrow> confidence_input \<Rightarrow> confidence_weights \<Rightarrow> confidence" where
  "score nt wall c w =
     (case ci_last_run c of
        None \<Rightarrow> \<lparr>cf_score = 0, cf_reasons = [''never tested''], cf_tested = False, cf_proof = ProofUnknown\<rparr>
      | Some r \<Rightarrow>
          (let t = (if is_zero (ci_now c) then wall else ci_now c);
               (s, reasons) = fold apply_penalty (penalties nt w t c r) (100, []);
               level = latest_proven_level c;
               ceiling = proof_cap w level;
               (s, reasons) =
                 (if ceiling > 0 \<and> s > ceiling
                  then (ceiling, reasons @ [proof_describe level @ '' (capped at '' @ itoa ceiling @ '')''])
                  else (s, reasons))
           in \<lparr>cf_score = max 0 (min 100 s), cf_reasons = reasons, cf_tested = True, cf_proof = level\<rparr>))"

end
