(* ===== verification/Report_Safety.thy ===== *)
theory Report_Safety
  imports Report Json
begin

text \<open>
  internal/report: what the Recovery Confidence score means. Every penalty of the default weights is
  followed through its float arithmetic, by intervals, to the integer it takes off the score.
\<close>

section \<open>Intervals of floats\<close>

definition within64 :: "real \<Rightarrow> real \<Rightarrow> f64 \<Rightarrow> bool" where
  "within64 a b x \<longleftrightarrow> (\<exists>r. x = Fin r \<and> a \<le> r \<and> r \<le> b)"

lemma within_rnd: "representable a \<Longrightarrow> representable b \<Longrightarrow> a \<le> x \<Longrightarrow> x \<le> b \<Longrightarrow> within64 a b (rnd x)"
  using rnd_fin_between by (auto simp: within64_def)

lemma within_int: "\<bar>a\<bar> \<le> 2 ^ 53 - 1 \<Longrightarrow> \<bar>b\<bar> \<le> 2 ^ 53 - 1 \<Longrightarrow> a \<le> n \<Longrightarrow> n \<le> b \<Longrightarrow> within64 (of_int a) (of_int b) (of_int64 n)"
  unfolding of_int64_def by (rule within_rnd) (simp_all add: representable_int)

lemma within_add:
  "within64 a b x \<Longrightarrow> within64 c d y \<Longrightarrow> representable (a + c) \<Longrightarrow> representable (b + d) \<Longrightarrow> within64 (a + c) (b + d) (add64 x y)"
  by (auto simp: within64_def [of a b] within64_def [of c d] intro!: within_rnd)

lemma within_div:
  "within64 a b x \<Longrightarrow> 0 < c \<Longrightarrow> representable (a / c) \<Longrightarrow> representable (b / c) \<Longrightarrow> within64 (a / c) (b / c) (div64 x (Fin c))"
  by (auto simp: within64_def [of a b] divide_right_mono intro!: within_rnd)

lemma within_mul:
  "within64 a b x \<Longrightarrow> 0 < c \<Longrightarrow> representable (a * c) \<Longrightarrow> representable (b * c) \<Longrightarrow> within64 (a * c) (b * c) (mul64 x (Fin c))"
  by (auto simp: within64_def [of a b] intro!: within_rnd)

lemma within_round:
  assumes "within64 a b x" "min_int64 \<le> round_away a" "round_away b \<le> max_int64"
  shows "round_away a \<le> float_to_int (round64 x) \<and> float_to_int (round64 x) \<le> round_away b"
proof -
  obtain r where r: "x = Fin r" "a \<le> r" "r \<le> b" using assms(1) by (auto simp: within64_def)
  have "round_away a \<le> round_away r" "round_away r \<le> round_away b" using r(2,3) by (simp_all add: round_away_mono)
  then show ?thesis using assms(2,3) by (simp add: r(1) float_to_int_def Let_def)
qed

text \<open>The numbers the bounds are stated with.\<close>

lemma p2_fractions: "p2 (- 2) = 1 / 4" "p2 (- 12) = 1 / 4096"
  by (simp_all add: p2_def powr_minus_divide)

lemma representable_quarters: "\<bar>m\<bar> \<le> 2 ^ 53 - 1 \<Longrightarrow> representable (of_int m / 4)"
  using representable_dyadic [of m "- 2"] by (simp add: p2_fractions)

lemma representable_4096ths: "\<bar>m\<bar> \<le> 2 ^ 53 - 1 \<Longrightarrow> representable (of_int m / 4096)"
  using representable_dyadic [of m "- 12"] by (simp add: p2_fractions)

lemma default_weight [simp]:
  "cw_age_grace_days default_weights = Fin 7" "cw_age_per_day_penalty default_weights = Fin 2"
  "cw_age_max_penalty default_weights = 40" "cw_no_success_penalty default_weights = 35"
  "cw_last_run_failed_penalty default_weights = 30" "cw_last_run_degraded_penalty default_weights = 15"
  "cw_rto_exceeded_penalty default_weights = 10" "cw_cleanup_failed_penalty default_weights = 15"
  "cw_no_backup_penalty default_weights = 50" "cw_backup_stale_after default_weights = 48 * hour"
  "cw_backup_stale_penalty default_weights = 20" "cw_failure_rate_max_penalty default_weights = 30"
  "cw_proof_none_cap default_weights = 40" "cw_proof_boot_cap default_weights = 60"
  "cw_proof_service_cap default_weights = 85"
  by (simp_all add: default_weights_def)


section \<open>The age of the last success\<close>

lemma dur_hours_within:
  assumes "174 * hour \<le> d" "d \<le> max_int64"
  shows "within64 174 2562048 (dur_hours d)"
proof -
  have pos: "0 < d" using assms(1) by (simp add: hour_def)
  have h: "174 \<le> d div hour" "d div hour \<le> 2562047"
    using assms by (simp_all add: hour_def max_int64_def)
  have "within64 (of_int 174) (of_int 2562047) (of_int64 (d div hour))" by (rule within_int) (use h in simp_all)
  moreover have "within64 (of_int 0) (of_int 3600000000000) (of_int64 (d mod hour))"
    by (rule within_int) (simp_all add: hour_def)
  then have "within64 (of_int 0 / 3600000000000) (of_int 3600000000000 / 3600000000000)
      (div64 (of_int64 (d mod hour)) (Fin 3600000000000))"
    by (rule within_div) (use representable_int [of 0] representable_int [of 1] in simp_all)
  ultimately show ?thesis
    using within_add [of 174 2562047 _ 0 1] pos representable_int [of 174] representable_int [of 2562048]
    by (simp add: dur_hours_def hour_def)
qed

lemma stale_success_costs:
  assumes "174 * hour \<le> time_sub t (run_completed_at r)"
  shows "0 < age_penalty default_weights (age_days t r)"
proof -
  have "within64 (174 / 24) (2562048 / 24) (age_days t r)"
    unfolding age_days_def
    by (rule within_div [OF dur_hours_within [OF assms]])
      (use representable_quarters [of 29] representable_int [of 106752] in \<open>simp_all add: time_sub_def min_int64_def max_int64_def\<close>)
  then have "within64 (174 / 24 + (- 7)) (2562048 / 24 + (- 7)) (sub64 (age_days t r) (Fin 7))"
    unfolding sub64_def
    by (rule within_add) (use representable_quarters [of 1] representable_int [of 106745] in \<open>simp_all add: within64_def\<close>)
  then have over: "within64 (1 / 4) 106745 (sub64 (age_days t r) (Fin 7))" by simp
  then have "within64 (1 / 4 * 2) (106745 * 2) (mul64 (sub64 (age_days t r) (Fin 7)) (Fin 2))"
    by (rule within_mul) (use representable_quarters [of 2] representable_int [of 213490] in simp_all)
  then have "1 \<le> float_to_int (round64 (mul64 (sub64 (age_days t r) (Fin 7)) (Fin 2)))"
    using within_round [of "1 / 2" 213490] by (simp add: round_away_def min_int64_def max_int64_def)
  moreover have "less64 (Fin 0) (sub64 (age_days t r) (Fin 7))" using over by (auto simp: within64_def)
  ultimately show ?thesis by (simp add: age_penalty_def Let_def)
qed

lemma age_penalty_bounded [simp]: "age_penalty default_weights x \<le> 40" "age_penalty default_weights x \<le> 1099511627776"
  by (simp_all add: age_penalty_def Let_def min_le_iff_disj)


section \<open>The failure rate\<close>

lemma failures_within:
  assumes "length (ci_history c) < 2 ^ 53" "judged c \<noteq> []"
    and "a \<le> real (length (filter (\<lambda>r. run_result r \<noteq> ResultSuccess) (judged c))) / real (length (judged c))"
    and "representable a" "representable (a * 30)" "0 \<le> a" "a \<le> 1"
  shows "round_away (a * 30) \<le> fst (failure_step nt default_weights c) \<and> fst (failure_step nt default_weights c) \<le> 30"
proof -
  let ?n = "length (judged c)" and ?f = "length (filter (\<lambda>r. run_result r \<noteq> ResultSuccess) (judged c))"
  have n: "0 < ?n" "?f \<le> ?n" using assms(2) by simp_all
  have "?n \<le> length (List.map_filter id (ci_history c))" by (simp add: judged_def)
  also have "\<dots> \<le> length (ci_history c)" by (simp add: List.map_filter_def)
  finally have small: "int ?n \<le> 2 ^ 53 - 1" using assms(1) by simp
  have exact: "of_int64 (int k) = Fin (real k)" if "k \<le> ?n" for k
    using representable_int [of "int k"] that small by (simp add: of_int64_def representable_def)
  have ratio: "real ?f / real ?n \<le> 1" using n by (simp add: field_simps)
  have "within64 a 1 (rnd (real ?f / real ?n))"
    by (rule within_rnd) (use assms(3,4) ratio representable_int [of 1] in simp_all)
  then have "within64 (a * 30) (1 * 30) (mul64 (rnd (real ?f / real ?n)) (Fin 30))"
    by (rule within_mul) (use assms(5) representable_int [of 30] in simp_all)
  moreover have "0 \<le> round_away (a * 30)" "round_away (30 :: real) = 30"
    using round_away_mono [of 0 "a * 30"] assms(6) round_away_int [of 0] round_away_int [of 30] by simp_all
  ultimately have "round_away (a * 30) \<le> float_to_int (round64 (mul64 (rnd (real ?f / real ?n)) (Fin 30))) \<and>
      float_to_int (round64 (mul64 (rnd (real ?f / real ?n)) (Fin 30))) \<le> 30"
    using within_round [of "a * 30" 30 "mul64 (rnd (real ?f / real ?n)) (Fin 30)"]
    by (simp add: min_int64_def max_int64_def)
  moreover have "of_int64 30 = Fin 30" using representable_int [of 30] by (simp add: of_int64_def representable_def)
  ultimately show ?thesis
    using n by (simp add: failure_step_def Let_def exact)
qed

lemma failure_bounded: "length (ci_history c) < 2 ^ 53 \<Longrightarrow> fst (failure_step nt default_weights c) \<le> 30"
  using failures_within [of c 0 nt] representable_int [of 0]
  by (cases "judged c = []") (auto simp: failure_step_def Let_def)

lemma failures_cost:
  assumes "length (ci_history c) < 2 ^ 53"
    and "59 * length (filter (\<lambda>r. run_result r \<noteq> ResultSuccess) (judged c)) \<ge> length (judged c)" "judged c \<noteq> []"
  shows "0 < fst (failure_step nt default_weights c)"
proof -
  let ?n = "length (judged c)" and ?f = "length (filter (\<lambda>r. run_result r \<noteq> ResultSuccess) (judged c))"
  have "0 < real ?n" using assms(3) by simp
  moreover have "real ?n \<le> 59 * real ?f" using assms(2) by linarith
  ultimately have "69 / 4096 \<le> real ?f / real ?n" by (simp add: field_simps)
  then show ?thesis
    using failures_within [OF assms(1,3), of "69 / 4096" nt] representable_4096ths [of 69] representable_4096ths [of 2070]
    by (simp add: round_away_def)
qed


section \<open>What a score says\<close>

lemma apply_all:
  assumes "list_all (\<lambda>p. fst p \<le> 2 ^ 40) ps" "\<bar>s\<bar> \<le> 2 ^ 50" "length ps \<le> 100"
  shows "fst (fold apply_penalty ps (s, rs)) = s - (\<Sum>p\<leftarrow>ps. max 0 (fst p))"
proof -
  have "fst (fold apply_penalty ps (s, rs)) = s - (\<Sum>p\<leftarrow>ps. max 0 (fst p))"
    if "list_all (\<lambda>p. fst p \<le> 2 ^ 40) ps" "\<bar>s\<bar> + 2 ^ 40 * int (length ps) < 2 ^ 63" for s rs
    using that
  proof (induction ps arbitrary: s rs)
    case (Cons p ps)
    show ?case
    proof (cases "fst p \<le> 0")
      case True
      then show ?thesis using Cons by (cases p) (simp add: apply_penalty_def algebra_simps)
    next
      case False
      have room: "0 < fst p" "fst p \<le> 2 ^ 40" "\<bar>s\<bar> + 2 ^ 40 * int (length ps) + 2 ^ 40 < 2 ^ 63" "0 \<le> 2 ^ 40 * int (length ps)"
        using Cons.prems False by (simp_all add: algebra_simps)
      have step: "wrap64 (s - fst p) = s - fst p" using room by (intro wrap64_id) linarith+
      have "\<bar>s - fst p\<bar> + 2 ^ 40 * int (length ps) < 2 ^ 63" using room by linarith
      then show ?thesis using Cons False step by (cases p) (simp add: apply_penalty_def)
    qed
  qed simp
  then show ?thesis using assms by simp
qed

text \<open>Nobody scores above what their drills established, and no score leaves the scale.\<close>

lemma score_in_range: "0 \<le> cf_score (score nt wall c w) \<and> cf_score (score nt wall c w) \<le> 100"
  by (simp add: score_def Let_def split: option.split prod.split)

lemma score_capped:
  "0 < proof_cap w (cf_proof (score nt wall c w)) \<Longrightarrow>
     cf_score (score nt wall c w) \<le> proof_cap w (cf_proof (score nt wall c w))"
  by (auto simp: score_def Let_def max_def min_def split: option.splits prod.splits if_splits)

lemma nothing_taken: "(\<Sum>p\<leftarrow>ps. max 0 (fst p)) = (0 :: int) \<Longrightarrow> list_all (\<lambda>p. fst p \<le> 0) ps"
proof (induction ps)
  case (Cons p ps)
  have "0 \<le> (\<Sum>p\<leftarrow>ps. max 0 (fst p))" by (rule sum_list_nonneg) auto
  then have "max 0 (fst p) = 0" "(\<Sum>p\<leftarrow>ps. max 0 (fst p)) = 0" using Cons.prems by simp_all
  then show ?case using Cons.IH by (simp add: max_def split: if_splits)
qed simp

lemma full_scale:
  "0 \<le> x \<Longrightarrow> k < 100 \<Longrightarrow> max 0 (min 100 (if 0 < k \<and> 100 - x > k then k else 100 - x)) = 100 \<Longrightarrow> k \<le> 0 \<and> x = (0 :: int)"
  by (auto simp: max_def min_def split: if_splits)

lemma full_marks_unpenalized:
  assumes full: "cf_score (score nt wall c default_weights) = 100" and small: "length (ci_history c) < 2 ^ 53"
  obtains r where "ci_last_run c = Some r" "proof_cap default_weights (latest_proven_level c) = 0"
    "list_all (\<lambda>p. fst p \<le> 0) (penalties nt default_weights (if is_zero (ci_now c) then wall else ci_now c) c r)"
proof (cases "ci_last_run c")
  case None
  then show ?thesis using full by (simp add: score_def)
next
  case (Some r)
  define now_time where "now_time = (if is_zero (ci_now c) then wall else ci_now c)"
  define ps where "ps = penalties nt default_weights now_time c r"
  define k where "k = proof_cap default_weights (latest_proven_level c)"
  define x where "x = (\<Sum>p\<leftarrow>ps. max 0 (fst p))"
  have "list_all (\<lambda>p. fst p \<le> 2 ^ 40) ps"
    using failure_bounded [OF small, of nt]
    by (auto simp: ps_def penalties_def age_step_def outcome_step_def rto_step_def cleanup_step_def backup_step_def
        Let_def split: option.splits run_result.splits intro: order_trans)
  then have sum: "fst (fold apply_penalty ps (100, [])) = 100 - x"
    unfolding x_def by (rule apply_all) (simp_all add: ps_def penalties_def)
  have nonneg: "0 \<le> x" unfolding x_def by (rule sum_list_nonneg) auto
  have cap: "k < 100" "0 \<le> k" by (cases "latest_proven_level c"; simp add: k_def)+
  obtain rs where run: "fold apply_penalty ps (100, []) = (100 - x, rs)" using sum by (metis prod.collapse)
  have "max 0 (min 100 (if 0 < k \<and> 100 - x > k then k else 100 - x)) = 100"
    using full unfolding score_def Some option.case Let_def now_time_def [symmetric] ps_def [symmetric] run k_def [symmetric]
    by (auto split: if_splits)
  then have "k \<le> 0 \<and> x = 0" by (rule full_scale [OF nonneg cap(1)])
  then have "k = 0" "list_all (\<lambda>p. fst p \<le> 0) ps" using cap nothing_taken [of ps] by (simp_all add: x_def)
  then show ?thesis by (intro that [OF Some]) (simp_all only: k_def ps_def now_time_def)
qed

text \<open>Nothing is capped when the newest recorded level is the highest, or when none is recorded.\<close>

lemma uncapped_proof:
  assumes "ci_last_run c = Some r" "proof_cap default_weights (latest_proven_level c) = 0"
  shows "case find (\<lambda>q. run_result q \<noteq> ResultNone \<and> rank (run_proof_level q) \<ge> 0) (r # List.map_filter id (ci_history c)) of
       None \<Rightarrow> latest_proven_level c = ProofUnknown | Some q \<Rightarrow> run_proof_level q = ProofData"
proof (cases "find (\<lambda>q. run_result q \<noteq> ResultNone \<and> rank (run_proof_level q) \<ge> 0) (candidates c)")
  case (Some q)
  have "rank (run_proof_level q) \<ge> 0" using Some by (auto simp: find_Some_iff)
  moreover have "latest_proven_level c = run_proof_level q" using Some by (simp add: latest_proven_level_def recorded_def)
  ultimately have "run_proof_level q = ProofData"
    using assms(2) by (cases "run_proof_level q") (simp_all add: default_weights_def)
  then show ?thesis using Some assms(1) by (simp add: candidates_def List.map_filter_def)
qed (use assms(1) in \<open>simp add: candidates_def List.map_filter_def latest_proven_level_def recorded_def\<close>)

text \<open>C32. Full marks are earned. With the default weights, a workload scores 100 only when its last run
  did not fail or degrade, kept its target and cleaned up after itself; when its newest success is less
  than seven and a quarter days old; when a backup of the last 48 hours exists; when fewer than one in
  59 of the judged runs of its history missed a full success; and when the newest judged run that
  recorded what it proved, the last run included, proved the data. Where none of them recorded a level
  there is no such run, and nothing is capped. Every float on the way is rounded as the code rounds it.\<close>

theorem full_marks_are_earned:
  assumes "cf_score (score nt wall c default_weights) = 100" "length (ci_history c) < 2 ^ 53" "\<not> is_zero (ci_now c)"
  shows "\<exists>r s. ci_last_run c = Some r \<and> most_recent_success c = Some s \<and>
    run_result r \<notin> {ResultFailed, ResultDegraded} \<and>
    (run_result r = ResultNone \<or> run_rto r \<le> run_rto_target r \<or> run_rto_target r \<le> 0) \<and>
    run_state r \<noteq> RunCleanupFailed \<and>
    time_sub (ci_now c) (run_completed_at s) < 174 * hour \<and>
    time_sub (ci_now c) (ci_latest_backup_at c) \<le> 48 * hour \<and> \<not> is_zero (ci_latest_backup_at c) \<and>
    (judged c = [] \<or> 59 * length (filter (\<lambda>r. run_result r \<noteq> ResultSuccess) (judged c)) < length (judged c)) \<and>
    (case find (\<lambda>q. run_result q \<noteq> ResultNone \<and> rank (run_proof_level q) \<ge> 0) (r # List.map_filter id (ci_history c)) of
       None \<Rightarrow> latest_proven_level c = ProofUnknown
     | Some q \<Rightarrow> run_proof_level q = ProofData)"
proof -
  obtain r where r: "ci_last_run c = Some r" and cap: "proof_cap default_weights (latest_proven_level c) = 0"
    and free: "list_all (\<lambda>p. fst p \<le> 0) (penalties nt default_weights (ci_now c) c r)"
    using full_marks_unpenalized [OF assms(1,2)] assms(3) by auto
  have steps: "fst (age_step default_weights (ci_now c) c) \<le> 0" "fst (outcome_step default_weights r) \<le> 0"
    "fst (rto_step nt default_weights r) \<le> 0" "fst (cleanup_step default_weights r) \<le> 0"
    "fst (backup_step nt default_weights (ci_now c) c) \<le> 0" "fst (failure_step nt default_weights c) \<le> 0"
    using free by (simp_all add: penalties_def)
  obtain s where s: "most_recent_success c = Some s" "age_penalty default_weights (age_days (ci_now c) s) \<le> 0"
    using steps(1) by (auto simp: age_step_def split: option.splits)
  have "time_sub (ci_now c) (run_completed_at s) < 174 * hour" using stale_success_costs s(2) by (meson linorder_not_le)
  moreover have "judged c = [] \<or> 59 * length (filter (\<lambda>r. run_result r \<noteq> ResultSuccess) (judged c)) < length (judged c)"
    using failures_cost [OF assms(2)] steps(6) by (meson linorder_not_le)
  moreover have "run_result r \<notin> {ResultFailed, ResultDegraded}"
    using steps(2) by (auto simp: outcome_step_def)
  moreover have "run_result r = ResultNone \<or> run_rto r \<le> run_rto_target r \<or> run_rto_target r \<le> 0"
    using steps(3) by (auto simp: rto_step_def rto_exceeded_def split: if_splits)
  moreover have "run_state r \<noteq> RunCleanupFailed" using steps(4) by (auto simp: cleanup_step_def)
  moreover have "time_sub (ci_now c) (ci_latest_backup_at c) \<le> 48 * hour \<and> \<not> is_zero (ci_latest_backup_at c)"
    using steps(5) by (auto simp: backup_step_def Let_def split: if_splits)
  moreover have "case find (\<lambda>q. run_result q \<noteq> ResultNone \<and> rank (run_proof_level q) \<ge> 0) (r # List.map_filter id (ci_history c)) of
       None \<Rightarrow> latest_proven_level c = ProofUnknown | Some q \<Rightarrow> run_proof_level q = ProofData"
    by (rule uncapped_proof [OF r cap])
  ultimately show ?thesis using r s(1) by blast
qed

text \<open>A run that succeeded this very instant, from a backup of this instant, having proved the data.\<close>

definition model_run :: recovery_run where
  "model_run = \<lparr>run_id = ''r'', run_plan_name = '''', run_plan_id = '''', run_plan_version = 0, run_provider_id = '''',
     run_backup_provider_id = '''', run_source_workload_id = '''', run_source_name = '''',
     run_temp_workload_id = '''', run_temp_name = '''', run_node = '''', run_backup = None, run_state = RunSuccess,
     run_result = ResultSuccess, run_proof_level = ProofData, run_started_at = 0, run_completed_at = 0,
     run_steps = [], run_checks = [], run_rto = 0, run_rto_target = 0, run_cleanup_done = True, run_err = ''''\<rparr>"

definition model_input :: confidence_input where
  "model_input = \<lparr>ci_last_run = Some model_run, ci_history = [], ci_latest_backup_at = 0, ci_now = 0\<rparr>"

definition plain_numbers :: number_text where
  "plain_numbers = \<lparr>nt_shortest = (\<lambda>_. ''1''), nt_fixed0 = (\<lambda>_. ''1''), nt_fixed1 = (\<lambda>_. ''1.0'')\<rparr>"

theorem full_marks_are_earned_witness:
  "cf_score (score plain_numbers 0 model_input default_weights) = 100 \<and>
   time_sub (ci_now model_input) (run_completed_at model_run) < 174 * hour"
proof -
  have sub: "sub64 (Fin 0) (Fin 7) = Fin (- 7)" using representable_int [of "- 7"] by (simp add: sub64_def representable_def)
  have days: "age_days 0 model_run = Fin 0"
    by (simp add: age_days_def dur_hours_def model_run_def time_sub_def min_int64_def max_int64_def of_int64_def
        go_div_def go_mod_def)
  have "cf_score (score plain_numbers 0 model_input default_weights) = 100"
    using days sub
    by (simp add: score_def Let_def model_input_def penalties_def age_step_def most_recent_success_def candidates_def
        List.map_filter_def age_penalty_def outcome_step_def rto_step_def cleanup_step_def backup_step_def
        failure_step_def judged_def apply_penalty_def is_zero_def zero_time_def time_sub_def min_int64_def
        max_int64_def hour_def latest_proven_level_def recorded_def rto_exceeded_def model_run_def)
  moreover have "length (ci_history model_input) < 2 ^ 53" "\<not> is_zero (ci_now model_input)"
    by (simp_all add: model_input_def is_zero_def zero_time_def)
  moreover have "ci_last_run model_input = Some model_run" "most_recent_success model_input = Some model_run"
    by (simp_all add: model_input_def most_recent_success_def candidates_def List.map_filter_def model_run_def)
  ultimately have "score_100 \<and> time_sub (ci_now model_input) (run_completed_at model_run) < 174 * hour"
    if "score_100 = (cf_score (score plain_numbers 0 model_input default_weights) = 100)" for score_100
    using full_marks_are_earned [of plain_numbers 0 model_input] that by (metis option.inject)
  then show ?thesis by blast
qed


section \<open>The report of a finished run\<close>

text \<open>A check's values read the same from the run that has just ended and from the run read back from
  its JSON.\<close>

lemma detail_number_json: "detail_number (json_detail d) = detail_number d"
  by (cases d) (simp_all add: detail_number_def)

lemma those_floats: "those (map (\<lambda>(k, x). map_option (Pair k) (detail_number x)) (map (\<lambda>(k, x). (k, DetailFloat x)) kvs)) = Some kvs"
  by (induction kvs) (auto simp: detail_number_def)

lemma number_map_json: "number_map (Some (json_detail d)) = number_map (Some d)"
proof (cases d)
  case (DetailFloats kvs)
  then show ?thesis by (simp add: number_map_def those_floats del: map_map)
next
  case (DetailMap kvs)
  then show ?thesis by (simp add: number_map_def comp_def split_def detail_number_json)
qed (simp_all add: number_map_def)

lemma map_of_mapped: "map_of (map (\<lambda>(k, v). (k, f v)) ds) k = map_option f (map_of ds k)"
  by (induction ds) auto

text \<open>A stored report says what the live one said. The measured values of a check, each with its
  baseline, are the same whether they are read from the result the check has just returned or from the
  details decoded out of the database.\<close>

theorem stored_values_agree:
  "report_values (json_details ds) = cd_values (new_check_dto nt (r\<lparr>cr_details := ds\<rparr>))"
proof -
  have "number_map (map_of (json_details ds) k) = number_map (map_of ds k)" for k
    by (cases "map_of ds k") (simp_all add: json_details_def map_of_mapped number_map_json)
  then show ?thesis by (simp add: new_check_dto_def report_values_def)
qed

text \<open>The document of a run that started does not move with the clock.\<close>

lemma document_is_stable: "\<not> is_zero (run_started_at r) \<Longrightarrow> new_document nt wall r = new_document nt wall' r"
  by (simp add: new_document_def new_backup_dto_at_def split: option.split)

text \<open>The least duration and the least size have no positive counterpart, and print two signs.\<close>

lemma least_duration_two_signs: "take 2 (format_duration nt min_int64) = ''--''"
proof -
  have "format_duration nt min_int64 = ''-'' @ itoa (- 9223372036854775) @ [char_of (194 :: nat), char_of (181 :: nat), CHR ''s'']"
    by (simp add: format_duration_def Let_def min_int64_def wrap64_def millisecond_def microsecond_def go_div_def)
  then show ?thesis by (simp add: itoa_def)
qed

lemma least_size_two_signs: "take 2 (format_bytes nt min_int64) = ''--''"
proof -
  have "format_bytes nt min_int64 = ''-'' @ itoa min_int64 @ '' B''"
    by (simp add: format_bytes_def Let_def min_int64_def wrap64_def)
  then show ?thesis by (simp add: itoa_def min_int64_def)
qed

section \<open>A queued drill counts as the last one\<close>

text \<open>
  The score takes the most recent run as the last one, whatever its state: once a drill is queued, the failure
  before it moves to the history, where it costs half as much here. Asking for a drill of a workload whose
  last drill failed raises its score, and a failed clean-up is forgotten.
\<close>

definition failed_run :: recovery_run where
  "failed_run = model_run\<lparr>run_result := ResultFailed, run_state := RunFailed\<rparr>"

definition waiting_run :: recovery_run where
  "waiting_run = model_run\<lparr>run_result := ResultNone, run_state := RunQueued, run_proof_level := ProofUnknown\<rparr>"

definition after_failure :: confidence_input where
  "after_failure = \<lparr>ci_last_run = Some failed_run, ci_history = [Some model_run], ci_latest_backup_at = 0, ci_now = 0\<rparr>"

definition while_waiting :: confidence_input where
  "while_waiting = \<lparr>ci_last_run = Some waiting_run, ci_history = [Some failed_run, Some model_run],
     ci_latest_backup_at = 0, ci_now = 0\<rparr>"

lemma exact: "of_int64 0 = Fin 0" "of_int64 1 = Fin 1" "of_int64 2 = Fin 2" "of_int64 30 = Fin 30" "rnd 15 = Fin 15"
    "rnd 0 = Fin 0" "rnd (1 / 2) = Fin (1 / 2)"
  using representable_int [of 0] representable_int [of 1] representable_int [of 2] representable_int [of 30] representable_int [of 15]
    representable_quarters [of 2]
  by (simp_all add: of_int64_def representable_def)

lemma both_prove:
  "most_recent_success after_failure = Some model_run" "latest_proven_level after_failure = ProofData"
  "most_recent_success while_waiting = Some model_run" "latest_proven_level while_waiting = ProofData"
  by (auto simp: most_recent_success_def latest_proven_level_def candidates_def List.map_filter_def failed_run_def waiting_run_def
     model_run_def recorded_def after_failure_def while_waiting_def)

lemma no_age: "fst (age_step default_weights 0 after_failure) = 0" "fst (age_step default_weights 0 while_waiting) = 0"
proof -
  have "sub64 (Fin 0) (Fin 7) = Fin (- 7)" using representable_int [of "- 7"] by (simp add: sub64_def representable_def)
  moreover have "age_days 0 model_run = Fin 0"
    by (simp add: age_days_def dur_hours_def model_run_def time_sub_def min_int64_def max_int64_def of_int64_def
        go_div_def go_mod_def)
  ultimately show "fst (age_step default_weights 0 after_failure) = 0" "fst (age_step default_weights 0 while_waiting) = 0"
    by (simp_all add: age_step_def both_prove age_penalty_def default_weights_def)
qed

lemma failure_costs:
  "fst (failure_step plain_numbers default_weights after_failure) = 0"
  "fst (failure_step plain_numbers default_weights while_waiting) = 15"
  by (simp_all add: failure_step_def judged_def after_failure_def while_waiting_def List.map_filter_def failed_run_def
      model_run_def default_weights_def exact Let_def round_away_def float_to_int_def min_int64_def max_int64_def)

lemma other_costs:
  "fst (outcome_step default_weights failed_run) = 30" "fst (outcome_step default_weights waiting_run) = 0"
  "fst (rto_step plain_numbers default_weights failed_run) = 0" "fst (rto_step plain_numbers default_weights waiting_run) = 0"
  "fst (cleanup_step default_weights failed_run) = 0" "fst (cleanup_step default_weights waiting_run) = 0"
  "fst (backup_step plain_numbers default_weights 0 after_failure) = 0"
  "fst (backup_step plain_numbers default_weights 0 while_waiting) = 0"
  by (simp_all add: outcome_step_def rto_step_def cleanup_step_def backup_step_def failed_run_def waiting_run_def model_run_def
      rto_exceeded_def after_failure_def while_waiting_def default_weights_def is_zero_def zero_time_def time_sub_def
      min_int64_def max_int64_def hour_def)

lemma folded_score:
  "list_all (\<lambda>p. 0 \<le> fst p \<and> fst p \<le> 100) ps \<Longrightarrow> 0 \<le> s \<Longrightarrow> s \<le> 100 \<Longrightarrow> sum_list (map fst ps) \<le> s \<Longrightarrow>
   fst (fold apply_penalty ps (s, rs)) = s - sum_list (map fst ps)"
proof (induction ps arbitrary: s rs)
  case (Cons p ps)
  obtain k r where p: "p = (k, r)" by force
  have "0 \<le> sum_list (map fst ps)" using Cons.prems(1) by (intro sum_list_nonneg) (auto simp: list_all_iff)
  then have "wrap64 (s - k) = s - k" "k \<le> s"
    using Cons.prems p by (auto intro!: wrap64_id simp: min_int64_def max_int64_def)
  then show ?case
    using Cons.IH [of s rs] Cons.IH [of "s - k" "rs @ [r @ '' (-'' @ itoa k @ '')'']"] Cons.prems p
    by (cases "k \<le> 0") (auto simp: apply_penalty_def)
qed simp

lemma queueing_raises_the_score:
  "cf_score (score plain_numbers 0 after_failure default_weights) = 70 \<and>
   cf_score (score plain_numbers 0 while_waiting default_weights) = 85"
proof -
  let ?ps = "\<lambda>c r. penalties plain_numbers default_weights 0 c r"
  have "sum_list (map fst (?ps after_failure failed_run)) = 30" "list_all (\<lambda>p. 0 \<le> fst p \<and> fst p \<le> 100) (?ps after_failure failed_run)"
    "sum_list (map fst (?ps while_waiting waiting_run)) = 15" "list_all (\<lambda>p. 0 \<le> fst p \<and> fst p \<le> 100) (?ps while_waiting waiting_run)"
    by (simp_all add: penalties_def no_age failure_costs other_costs)
  then have folds: "fst (fold apply_penalty (?ps after_failure failed_run) (100, [])) = 70"
    "fst (fold apply_penalty (?ps while_waiting waiting_run) (100, [])) = 85"
    using folded_score [of "?ps after_failure failed_run" 100 "[]"] folded_score [of "?ps while_waiting waiting_run" 100 "[]"]
    by simp_all
  have now0: "ci_now after_failure = 0" "ci_now while_waiting = 0" "\<not> is_zero 0" "ci_last_run after_failure = Some failed_run"
    "ci_last_run while_waiting = Some waiting_run"
    by (simp_all add: after_failure_def while_waiting_def is_zero_def zero_time_def)
  show ?thesis
    using folds
    by (cases "fold apply_penalty (?ps after_failure failed_run) (100, [])";
        cases "fold apply_penalty (?ps while_waiting waiting_run) (100, [])")
      (simp add: score_def Let_def now0 both_prove)
qed

end
