(* ===== verification/Catalog.thy ===== *)
theory Catalog
  imports Plans Plan
begin

text \<open>
  internal/catalog, the stored plans seen as documents, and internal/adhoc, the plan made from a few
  options. The catalogue reaches the store through the five operations of its own interface
  (catalog.Store); the YAML codec, the schedule parser, the printer of floats, the fresh identifier and
  the clock are functions or arguments.
\<close>

section \<open>The store behind the catalogue\<close>

record 's plan_ops =
  po_create :: "stored_plan \<Rightarrow> 's \<Rightarrow> (goerr + unit) \<times> 's"
  po_update :: "stored_plan \<Rightarrow> int \<Rightarrow> 's \<Rightarrow> (goerr + unit) \<times> 's"
  po_get :: "string \<Rightarrow> 's \<Rightarrow> goerr + stored_plan"
  po_list :: "string \<Rightarrow> int \<Rightarrow> 's \<Rightarrow> stored_plan list"
  po_delete :: "string \<Rightarrow> 's \<Rightarrow> (goerr + unit) \<times> 's"

definition sql_plans :: "dialect \<Rightarrow> goerr \<Rightarrow> db plan_ops" where
  "sql_plans d ce = \<lparr>po_create = create_plan ce, po_update = update_plan d ce, po_get = get_plan d,
     po_list = list_plans, po_delete = delete_plan d\<rparr>"


section \<open>Documents\<close>

record ('c, 'l) plan_reader =
  pd_decode :: "string \<Rightarrow> goerr + plan"
  pd_sched :: "('c, 'l) sched_env"
  pd_show :: "f64 \<Rightarrow> string"
  pd_render :: "plan \<Rightarrow> goerr + string"

definition parse_yaml :: "('c, 'l) plan_reader \<Rightarrow> string \<Rightarrow> goerr + plan" where
  "parse_yaml rd document =
     (case pd_decode rd document of
        Inl e \<Rightarrow> Inl (Wrapped (''parse plan: '' @ err_text e) e)
      | Inr p \<Rightarrow>
          (case parse_plan (pd_sched rd) p of
             Inl ps \<Rightarrow> Inl (invalid_plan (pd_show rd) ps)
           | Inr p \<Rightarrow> Inr p))"

text \<open>\<open>parse\<close>: the refusal of a document is marked, with the parser's own error behind the mark.\<close>

definition parse_document :: "('c, 'l) plan_reader \<Rightarrow> string \<Rightarrow> goerr + plan" where
  "parse_document rd document =
     (case parse_yaml rd document of
        Inl e \<Rightarrow> Inl (Wrapped (sentinel_text CatalogInvalid @ '': '' @ err_text e) (Joined [Sentinel CatalogInvalid, e]))
      | Inr p \<Rightarrow> Inr p)"

definition create_only :: int where "create_only = - 1"

record validated =
  vd_name :: string
  vd_description :: string
  vd_workload_id :: string
  vd_provider_id :: string
  vd_normalised :: string
  vd_proof_level :: proof_level
  vd_proof_summary :: string

definition derive :: "plan \<Rightarrow> validated" where
  "derive p = \<lparr>vd_name = pl_name p, vd_description = pl_description p, vd_workload_id = wr_id (pl_workload p),
     vd_provider_id = wr_provider (pl_workload p), vd_normalised = '''', vd_proof_level = plan_proven_level p,
     vd_proof_summary = proof_summary p\<rparr>"

definition validate_document :: "('c, 'l) plan_reader \<Rightarrow> string \<Rightarrow> goerr + validated" where
  "validate_document rd document =
     (case parse_document rd document of
        Inl e \<Rightarrow> Inl e
      | Inr p \<Rightarrow>
          (case pd_render rd p of
             Inl e \<Rightarrow> Inl (Wrapped (''catalog: render the validated plan: '' @ err_text e) e)
           | Inr y \<Rightarrow> Inr ((derive p)\<lparr>vd_normalised := y\<rparr>)))"

definition plan_row_for :: "plan \<Rightarrow> string \<Rightarrow> string \<Rightarrow> time \<Rightarrow> stored_plan" where
  "plan_row_for p document new_id t =
     (let v = derive p in
      \<lparr>sp_id = new_id, sp_name = vd_name v, sp_description = vd_description v, sp_workload_id = vd_workload_id v,
       sp_provider_id = vd_provider_id v, sp_yaml = document, sp_version = 1, sp_created_at = t, sp_updated_at = t\<rparr>)"

text \<open>The row is read back by its identifier after it was written.\<close>

definition read_back ::
  "'s plan_ops \<Rightarrow> string \<Rightarrow> bool \<Rightarrow> (goerr + unit) \<times> 's \<Rightarrow> (goerr + stored_plan \<times> bool) \<times> 's" where
  "read_back ops i created r =
     (case r of
        (Inl e, s) \<Rightarrow> (Inl e, s)
      | (Inr _, s) \<Rightarrow>
          (case po_get ops i s of Inl e \<Rightarrow> (Inl e, s) | Inr saved \<Rightarrow> (Inr (saved, created), s)))"

definition save_plan ::
  "'s plan_ops \<Rightarrow> ('c, 'l) plan_reader \<Rightarrow> string \<Rightarrow> time \<Rightarrow> string \<Rightarrow> int \<Rightarrow> 's \<Rightarrow> (goerr + stored_plan \<times> bool) \<times> 's" where
  "save_plan ops rd new_id t document expected s =
     (case parse_document rd document of
        Inl e \<Rightarrow> (Inl e, s)
      | Inr p \<Rightarrow>
          (let row = plan_row_for p document new_id t in
           case po_get ops (pl_name p) s of
             Inl e \<Rightarrow>
               if errors_is e StoreNotFound then read_back ops new_id True (po_create ops row s) else (Inl e, s)
           | Inr existing \<Rightarrow>
               if expected = create_only then (Inl (Sentinel StoreDuplicate), s)
               else
                 read_back ops (sp_id existing) False
                   (po_update ops (row\<lparr>sp_id := sp_id existing\<rparr>) (if expected < 0 then 0 else expected) s)))"

definition document_name :: "('c, 'l) plan_reader \<Rightarrow> string \<Rightarrow> goerr + string" where
  "document_name rd document =
     (case parse_document rd document of Inl e \<Rightarrow> Inl e | Inr p \<Rightarrow> Inr (pl_name p))"

definition resolve_plan :: "'s plan_ops \<Rightarrow> ('c, 'l) plan_reader \<Rightarrow> string \<Rightarrow> 's \<Rightarrow> goerr + stored_plan \<times> plan" where
  "resolve_plan ops rd ref s =
     (case po_get ops ref s of
        Inl e \<Rightarrow> Inl e
      | Inr row \<Rightarrow>
          (case parse_document rd (sp_yaml row) of
             Inl e \<Rightarrow> Inl (Wrapped (''stored plan '' @ quoted (sp_name row) @ '': '' @ err_text e) e)
           | Inr p \<Rightarrow> Inr (row, p)))"

definition remove_plan :: "'s plan_ops \<Rightarrow> string \<Rightarrow> 's \<Rightarrow> (goerr + string) \<times> 's" where
  "remove_plan ops ref s =
     (case po_get ops ref s of
        Inl e \<Rightarrow> (Inl e, s)
      | Inr row \<Rightarrow>
          (case po_delete ops (sp_id row) s of
             (Inl e, s') \<Rightarrow> (Inl e, s')
           | (Inr _, s') \<Rightarrow> (Inr (sp_name row), s')))"


section \<open>Ad-hoc drills\<close>

record adhoc_options =
  ao_workload_id :: string
  ao_provider_id :: string
  ao_backup_provider :: string
  ao_backup :: string
  ao_node :: string
  ao_storage :: string
  ao_pool :: string
  ao_network :: string
  ao_checks :: "string list"
  ao_check_retries :: int
  ao_check_interval :: duration
  ao_startup_timeout :: duration
  ao_rto_target :: duration
  ao_cpu_limit :: int
  ao_memory_limit_mb :: int
  ao_skip_startup :: bool

definition adhoc_retries :: int where "adhoc_retries = 5"
definition adhoc_interval :: duration where "adhoc_interval = 5 * second"
definition adhoc_timeout :: duration where "adhoc_timeout = 15 * second"
definition adhoc_check :: string where "adhoc_check = ''cmd:hostname''"

definition apply_option_defaults :: "adhoc_options \<Rightarrow> adhoc_options" where
  "apply_option_defaults o1 = o1\<lparr>
     ao_check_retries := (if ao_check_retries o1 = 0 then adhoc_retries else ao_check_retries o1),
     ao_check_interval := (if ao_check_interval o1 = 0 then adhoc_interval else ao_check_interval o1),
     ao_checks := (if \<not> ao_skip_startup o1 \<and> ao_checks o1 = [] then [adhoc_check] else ao_checks o1)\<rparr>"

definition spec_of :: "string \<Rightarrow> params \<Rightarrow> check_spec" where
  "spec_of kind ps = \<lparr>ck_type = kind, ck_name = '''', ck_timeout = 0, ck_retries = 0, ck_retry_interval = 0,
     ck_critical = None, ck_params = ps, ck_proves = '''', ck_capture = '''', ck_assert = None, ck_drift = None\<rparr>"

definition parse_check_spec :: "string \<Rightarrow> goerr + check_spec" where
  "parse_check_spec spec =
     (if spec = ''ping'' then Inr (spec_of ''ping'' [])
      else if has_prefix spec ''http://'' \<or> has_prefix spec ''https://'' then
        Inr (spec_of ''http'' [(''url'', AnyString spec)])
      else if has_prefix spec ''tcp:'' then
        (case atoi (drop 4 spec) of
           None \<Rightarrow> Inl (Plain (''invalid check '' @ quoted spec @ '': expected tcp:PORT with a port between 1 and 65535''))
         | Some port \<Rightarrow>
             if port < 1 \<or> port > 65535
             then Inl (Plain (''invalid check '' @ quoted spec @ '': expected tcp:PORT with a port between 1 and 65535''))
             else Inr (spec_of ''tcp'' [(''port'', AnyInt port)]))
      else if has_prefix spec ''cmd:'' then
        (if trim_space (drop 4 spec) = '''' then Inl (Plain (''invalid check '' @ quoted spec @ '': expected cmd:COMMAND''))
         else Inr (spec_of ''command'' [(''run'', AnyString (drop 4 spec))]))
      else if has_prefix spec ''dns:'' then
        (if drop 4 spec = '''' then Inl (Plain (''invalid check '' @ quoted spec @ '': expected dns:NAME''))
         else Inr (spec_of ''dns'' [(''name'', AnyString (drop 4 spec))]))
      else Inl (Plain (''unknown check '' @ quoted spec @
        '': expected ping, tcp:PORT, http(s)://..., dns:NAME, or cmd:COMMAND'')))"

fun adhoc_checks :: "adhoc_options \<Rightarrow> string list \<Rightarrow> goerr + check_spec list" where
  "adhoc_checks o1 [] = Inr []"
| "adhoc_checks o1 (s # ss) =
     (case parse_check_spec s of
        Inl e \<Rightarrow> Inl e
      | Inr c \<Rightarrow>
          (case adhoc_checks o1 ss of
             Inl e \<Rightarrow> Inl e
           | Inr cs \<Rightarrow>
               Inr (c\<lparr>ck_retries := ao_check_retries o1, ck_retry_interval := ao_check_interval o1,
                      ck_timeout := (if ck_timeout c = 0 then adhoc_timeout else ck_timeout c)\<rparr> # cs)))"

definition adhoc_draft :: "adhoc_options \<Rightarrow> check_spec list \<Rightarrow> plan" where
  "adhoc_draft o1 cs =
     \<lparr>pl_name = ''adhoc-'' @ ao_workload_id o1, pl_description = '''', pl_tags = [],
      pl_workload = \<lparr>wr_provider = ao_provider_id o1, wr_id = ao_workload_id o1, wr_name = ''''\<rparr>,
      pl_backup =
        (if ao_backup o1 \<noteq> '''' \<and> ao_backup o1 \<noteq> ''latest''
         then \<lparr>bs_provider = ao_backup_provider o1, bs_strategy = StrategySpecific, bs_id = ao_backup o1, bs_max_age = 0\<rparr>
         else \<lparr>bs_provider = ao_backup_provider o1, bs_strategy = StrategyLatest, bs_id = '''', bs_max_age = 0\<rparr>),
      pl_restore = \<lparr>rs_node = ao_node o1, rs_storage = ao_storage o1, rs_pool = ao_pool o1, rs_network = ao_network o1,
        rs_bridge = '''', rs_cpu_limit = ao_cpu_limit o1, rs_memory_limit_mb = ao_memory_limit_mb o1,
        rs_bandwidth_kibps = 0, rs_timeout = 0\<rparr>,
      pl_startup = \<lparr>su_skip = ao_skip_startup o1, su_timeout = ao_startup_timeout o1, su_wait_for_ip = None,
        su_wait_for_agent = None, su_ip = ''''\<rparr>,
      pl_checks = cs, pl_cleanup = \<lparr>cl_always = None, cl_keep_on_failure = False\<rparr>,
      pl_rto_target = ao_rto_target o1, pl_schedule = '''', pl_schedule_timezone = ''''\<rparr>"

definition adhoc_plan :: "('c, 'l) plan_reader \<Rightarrow> adhoc_options \<Rightarrow> goerr + plan" where
  "adhoc_plan rd o1 =
     (let o1 = apply_option_defaults o1 in
      case (if ao_skip_startup o1 then Inr [] else adhoc_checks o1 (ao_checks o1)) of
        Inl e \<Rightarrow> Inl e
      | Inr cs \<Rightarrow>
          (case parse_plan (pd_sched rd) (adhoc_draft o1 cs) of
             Inl ps \<Rightarrow> Inl (invalid_plan (pd_show rd) ps)
           | Inr p \<Rightarrow> Inr p))"

end
