(* ===== verification/Catalog_Safety.thy ===== *)
theory Catalog_Safety
  imports Catalog Scheduler_Safety
begin

text \<open>
  The catalogue over its store. The store is an interface: a view of its plans by identifier, and what
  the five operations promise of that view. The catalogue's own lemmas are proved from those promises
  once, and the plans table of the model keeps them. Then the ad-hoc drill.
\<close>

section \<open>The interface of a plan store\<close>

definition stored_as :: "stored_plan \<Rightarrow> string \<Rightarrow> int \<Rightarrow> time \<Rightarrow> stored_plan" where
  "stored_as p i v t = p\<lparr>sp_id := i, sp_version := v, sp_created_at := t\<rparr>"

lemma stored_as_fields [simp]:
  "sp_id (stored_as p i v t) = i" "sp_version (stored_as p i v t) = v" "sp_created_at (stored_as p i v t) = t"
  "sp_name (stored_as p i v t) = sp_name p" "sp_yaml (stored_as p i v t) = sp_yaml p"
  by (simp_all add: stored_as_def)

text \<open>
  No identifier is empty or the name of a plan, with a plan \<open>n\<close> about to be filed under \<open>i\<close>. The
  store reads every reference as a name first, so the laws below need it of an identifier.
\<close>

definition unaliased :: "(string \<rightharpoonup> stored_plan) \<Rightarrow> string \<Rightarrow> string \<Rightarrow> bool" where
  "unaliased m i n \<longleftrightarrow> (let ids = insert i (dom m) in [] \<notin> ids \<and> n \<notin> ids \<and> (\<forall>q \<in> ran m. sp_name q \<notin> ids))"

locale plan_store =
  fixes ops :: "'s plan_ops" and inv :: "'s \<Rightarrow> bool" and view :: "'s \<Rightarrow> string \<rightharpoonup> stored_plan"
  assumes filed: "inv s \<Longrightarrow> view s i = Some p \<Longrightarrow> sp_id p = i"
    and got: "inv s \<Longrightarrow> po_get ops ref s = Inr p \<Longrightarrow> view s (sp_id p) = Some p"
    and got_by_id: "inv s \<Longrightarrow> view s i = Some p \<Longrightarrow> i \<noteq> '''' \<Longrightarrow> \<forall>q \<in> ran (view s). sp_name q \<noteq> i \<Longrightarrow> po_get ops i s = Inr p"
    and got_by_name: "inv s \<Longrightarrow> view s i = Some p \<Longrightarrow> sp_name p \<noteq> '''' \<Longrightarrow> po_get ops (sp_name p) s = Inr p"
    and inserted: "inv s \<Longrightarrow> po_create ops p s = (Inr u, s') \<Longrightarrow>
      inv s' \<and> view s (sp_id p) = None \<and> view s' = (view s)(sp_id p \<mapsto> p\<lparr>sp_version := 1\<rparr>)"
    and not_inserted: "po_create ops p s = (Inl e, s') \<Longrightarrow> s' = s"
    and rewritten: "inv s \<Longrightarrow> po_update ops p k s = (Inr u, s') \<Longrightarrow>
      inv s' \<and> (\<exists>old. po_get ops (sp_id p) s = Inr old \<and> (k > 0 \<longrightarrow> sp_version old = k) \<and>
        view s' = (view s)(sp_id old \<mapsto> stored_as p (sp_id old) (sp_version old + 1) (sp_created_at old)))"
    and not_rewritten: "po_update ops p k s = (Inl e, s') \<Longrightarrow> s' = s"
    and deleted: "inv s \<Longrightarrow> po_delete ops ref s = (Inr u, s') \<Longrightarrow>
      inv s' \<and> (\<exists>old. po_get ops ref s = Inr old \<and> view s' = (view s)(sp_id old := None))"
    and not_deleted: "po_delete ops ref s = (Inl e, s') \<Longrightarrow> s' = s"
begin

lemma read_back_shows:
  assumes "inv s" "view s i = Some p" "i \<noteq> ''''" "\<forall>q \<in> ran (view s). sp_name q \<noteq> i"
  shows "read_back ops i c (Inr u, s) = (Inr (p, c), s)"
  using got_by_id [OF assms] by (simp add: read_back_def)

lemma insert_shows:
  assumes inv: "inv s" and ids: "unaliased (view s) (sp_id p) (sp_name p)" and cr: "po_create ops p s = (Inr u, s1)"
  defines "r \<equiv> p\<lparr>sp_version := 1\<rparr>"
  shows "read_back ops (sp_id p) True (Inr u, s1) = (Inr (r, True), s1)"
    and "inv s1" "view s (sp_id p) = None" "view s1 = (view s)(sp_id p \<mapsto> r)"
proof -
  show new: "inv s1" "view s (sp_id p) = None" "view s1 = (view s)(sp_id p \<mapsto> r)"
    using inserted [OF inv cr] by (simp_all add: r_def)
  have r: "sp_name r = sp_name p" "sp_id r = sp_id p" by (simp_all add: r_def)
  have "\<forall>q \<in> ran (view s1). sp_name q \<noteq> sp_id p"
    using ids r unfolding new(3) by (auto simp: unaliased_def Let_def ran_def split: if_splits)
  then show "read_back ops (sp_id p) True (Inr u, s1) = (Inr (r, True), s1)"
    using ids by (intro read_back_shows [OF new(1)]) (auto simp: new(3) unaliased_def Let_def)
qed

lemma rewrite_shows:
  assumes inv: "inv s" and ids: "unaliased (view s) i (sp_name p)" and old: "po_get ops n s = Inr old"
    and up: "po_update ops (p\<lparr>sp_id := sp_id old\<rparr>) k s = (Inr u, s1)"
  defines "r \<equiv> stored_as p (sp_id old) (sp_version old + 1) (sp_created_at old)"
  shows "read_back ops (sp_id old) False (Inr u, s1) = (Inr (r, False), s1)"
    and "inv s1" "view s (sp_id old) = Some old" "k > 0 \<longrightarrow> sp_version old = k" "view s1 = (view s)(sp_id old \<mapsto> r)"
proof -
  show here: "view s (sp_id old) = Some old" using got [OF inv old] .
  have id: "sp_id old \<noteq> ''''" "\<forall>q \<in> ran (view s). sp_name q \<noteq> sp_id old" "sp_name p \<noteq> sp_id old"
    using ids here by (auto simp: unaliased_def Let_def)
  have "po_get ops (sp_id old) s = Inr old" using got_by_id [OF inv here id(1,2)] .
  moreover have "stored_as (p\<lparr>sp_id := sp_id old\<rparr>) (sp_id old) (sp_version old + 1) (sp_created_at old) = r"
    by (simp add: r_def stored_as_def)
  ultimately show new: "inv s1" "k > 0 \<longrightarrow> sp_version old = k" "view s1 = (view s)(sp_id old \<mapsto> r)"
    using rewritten [OF inv up] by auto
  have "sp_name r = sp_name p" by (simp add: r_def)
  then have "\<forall>q \<in> ran (view s1). sp_name q \<noteq> sp_id old"
    using id unfolding new(3) by (auto simp: ran_def split: if_splits)
  then show "read_back ops (sp_id old) False (Inr u, s1) = (Inr (r, False), s1)"
    using id(1) by (intro read_back_shows [OF new(1)]) (simp_all add: new(3))
qed

lemma saved_or_refused:
  assumes inv: "inv s" and doc: "parse_document rd document = Inr p" and ids: "unaliased (view s) i (pl_name p)"
    and name: "pl_name p \<noteq> ''''"
  shows "case save_plan ops rd i t document k s of
      (Inl e, s') \<Rightarrow> s' = s
    | (Inr (row, c), s') \<Rightarrow> inv s' \<and> view s' = (view s)(sp_id row \<mapsto> row) \<and>
        sp_yaml row = document \<and> sp_name row = pl_name p \<and> resolve_plan ops rd (pl_name p) s' = Inr (row, p) \<and>
        (case view s (sp_id row) of
           None \<Rightarrow> c \<and> sp_id row = i \<and> sp_version row = 1
         | Some old \<Rightarrow> \<not> c \<and> sp_version row = sp_version old + 1 \<and> sp_created_at row = sp_created_at old \<and>
             (k > 0 \<longrightarrow> sp_version old = k))"
proof -
  let ?row = "plan_row_for p document i t"
  have row: "sp_id ?row = i" "sp_name ?row = pl_name p" "sp_yaml ?row = document"
    by (simp_all add: plan_row_for_def derive_def Let_def)
  have resolves: "resolve_plan ops rd (pl_name p) s1 = Inr (r, p)"
    if "inv s1" "view s1 (sp_id r) = Some r" "sp_name r = pl_name p" "sp_yaml r = document" for s1 r
    using got_by_name [OF that(1,2)] that(3,4) name doc by (simp add: resolve_plan_def)
  show ?thesis
  proof (cases "po_get ops (pl_name p) s")
    case (Inl e)
    show ?thesis
    proof (cases "po_create ops ?row s")
      case (Pair w s1)
      show ?thesis
      proof (cases w)
        case (Inr u)
        have saves: "errors_is e StoreNotFound \<Longrightarrow> save_plan ops rd i t document k s = read_back ops i True (Inr u, s1)"
          using Inl Pair Inr doc by (simp add: save_plan_def)
        note shows_row = insert_shows [of s ?row u s1, unfolded row, OF inv ids]
        show ?thesis
        proof (cases "errors_is e StoreNotFound")
          case True
          then show ?thesis
            using saves shows_row Pair Inr row resolves [of s1 "?row\<lparr>sp_version := 1\<rparr>"] by simp
        qed (simp add: save_plan_def doc Inl)
      qed (use Inl Pair doc not_inserted in \<open>auto simp: save_plan_def read_back_def\<close>)
    qed
  next
    case (Inr old)
    show ?thesis
    proof (cases "k = create_only")
      case False
      let ?k = "if k < 0 then 0 else k"
      show ?thesis
      proof (cases "po_update ops (?row\<lparr>sp_id := sp_id old\<rparr>) ?k s")
        case (Pair w s1)
        have saves: "save_plan ops rd i t document k s = read_back ops (sp_id old) False (w, s1)"
          using Inr Pair doc False by (simp add: save_plan_def Let_def)
        show ?thesis
        proof (cases w)
          case (Inl e)
          then show ?thesis using not_rewritten [OF Pair [unfolded Inl]] saves by (simp add: read_back_def)
        next
          case w: (Inr u)
          let ?r = "stored_as ?row (sp_id old) (sp_version old + 1) (sp_created_at old)"
          note shows_row = rewrite_shows [of s i ?row "pl_name p" old ?k u s1, unfolded row, OF inv ids Inr Pair [unfolded w]]
          have "view s1 (sp_id ?r) = Some ?r" using shows_row(5) by simp
          then show ?thesis
            using saves shows_row w row resolves [of s1 ?r] by (auto split: if_splits)
        qed
      qed
    qed (simp add: save_plan_def doc Inr Let_def)
  qed
qed

lemma removed_row:
  assumes inv: "inv s" and ids: "\<forall>q \<in> ran (view s). sp_name q \<notin> dom (view s)" "'''' \<notin> dom (view s)"
    and removed: "remove_plan ops ref s = (Inr n, s')"
  shows "\<exists>row. po_get ops ref s = Inr row \<and> n = sp_name row \<and> inv s' \<and> view s' = (view s)(sp_id row := None)"
proof -
  obtain row u where row: "po_get ops ref s = Inr row" "po_delete ops (sp_id row) s = (Inr u, s')" "n = sp_name row"
    using removed by (auto simp: remove_plan_def split: sum.splits prod.splits)
  have here: "view s (sp_id row) = Some row" using got [OF inv row(1)] .
  then have "po_get ops (sp_id row) s = Inr row"
    using got_by_id [OF inv here] ids here by (metis domI)
  then show ?thesis using deleted [OF inv row(2)] row by auto
qed

lemma not_removed: "remove_plan ops ref s = (Inl e, s') \<Longrightarrow> s' = s"
  by (auto simp: remove_plan_def split: sum.splits prod.splits dest: not_deleted)

lemma refused_before_writing:
  "parse_document rd doc = Inl e \<Longrightarrow> save_plan ops rd i t doc k s = (Inl e, s)"
  by (simp add: save_plan_def)

end


section \<open>The plans table keeps the interface\<close>

definition plan_view :: "db \<Rightarrow> string \<rightharpoonup> stored_plan" where
  "plan_view s i = map_option scan_plan (row_with pr_id i (db_plans s))"

lemma scan_plan_key [simp]: "sp_id (scan_plan r) = pr_id r" "sp_name (scan_plan r) = pr_name r"
  by (simp_all add: scan_plan_def)

lemma scan_new [simp]: "scan_plan (new_plan_row p) = p\<lparr>sp_version := 1\<rparr>"
  by (simp add: scan_plan_def new_plan_row_def)

lemma scan_rewritten:
  "scan_plan (rewritten_plan p r) = stored_as p (pr_id r) (pr_version r + 1) (pr_created_at r)"
  by (simp add: scan_plan_def rewritten_plan_def stored_as_def)

lemma plan_view_Some:
  assumes "unique_plans s"
  shows "plan_view s i = Some p \<longleftrightarrow> (\<exists>r \<in> set (db_plans s). pr_id r = i \<and> p = scan_plan r)"
proof -
  have "r \<in> set (db_plans s) \<Longrightarrow> row_with pr_id (pr_id r) (db_plans s) = Some r" for r
    using assms by (intro row_with_in) (simp_all add: unique_plans_def)
  then show ?thesis by (auto simp: plan_view_def dest: row_with_Some)
qed

lemma names_of_view:
  assumes "unique_plans s"
  shows "sp_name ` ran (plan_view s) = pr_name ` set (db_plans s)"
  by (force simp: ran_def plan_view_Some [OF assms] image_iff)

lemma ids_of_view: "dom (plan_view s) = pr_id ` set (db_plans s)"
  using row_with_None [of pr_id _ "db_plans s"] by (auto simp: plan_view_def dom_def)

lemma get_plan_view:
  assumes "get_plan d ref s = Inr p"
  shows "resolve_plan_ref d ref s = Inr (sp_id p) \<and> plan_view s (sp_id p) = Some p"
proof -
  obtain i r where "resolve_plan_ref d ref s = Inr i" "row_with pr_id i (db_plans s) = Some r" "p = scan_plan r"
    using assms by (auto simp: get_plan_def split: sum.splits option.splits)
  moreover from this have "pr_id r = i" using row_with_Some by fast
  ultimately show ?thesis by (simp add: plan_view_def)
qed

lemma update_plan_view:
  assumes inv: "unique_plans s" and up: "update_plan d ce p k s = (Inr u, s')"
  shows "\<exists>old. get_plan d (sp_id p) s = Inr old \<and> (k > 0 \<longrightarrow> sp_version old = k) \<and>
    plan_view s' = (plan_view s)(sp_id old \<mapsto> stored_as p (sp_id old) (sp_version old + 1) (sp_created_at old))"
proof -
  obtain i where i: "resolve_plan_ref d (sp_id p) s = Inr i" using up by (auto simp: update_plan_def split: sum.splits)
  let ?t = "\<lambda>r. pr_id r = i \<and> (k > 0 \<longrightarrow> pr_version r = k)"
  have some: "count_where ?t (db_plans s) \<noteq> 0" and s': "s' = s\<lparr>db_plans := update_where ?t (rewritten_plan p) (db_plans s)\<rparr>"
    using up i by (auto simp: update_plan_def Let_def split: if_splits)
  obtain r where r: "row_with pr_id i (db_plans s) = Some r" "k > 0 \<longrightarrow> pr_version r = k" "pr_id r = i"
    using some inv count_where_key [of pr_id "db_plans s" i "\<lambda>r. k > 0 \<longrightarrow> pr_version r = k"]
    by (auto simp: unique_plans_def split: option.splits if_splits dest: row_with_Some)
  have upd: "row_with pr_id j (db_plans s') =
      map_option (\<lambda>r. if ?t r then rewritten_plan p r else r) (row_with pr_id j (db_plans s))" for j
    unfolding s' by simp (rule row_with_update, simp add: rewritten_plan_def)
  have "plan_view s' j = ((plan_view s)(i \<mapsto> scan_plan (rewritten_plan p r))) j" for j
  proof (cases "j = i")
    case False
    then have "row_with pr_id j (db_plans s') = row_with pr_id j (db_plans s)"
      using row_with_Some [of pr_id j "db_plans s"] by (cases "row_with pr_id j (db_plans s)") (auto simp: upd)
    then show ?thesis using False by (simp add: plan_view_def)
  qed (use r in \<open>simp add: plan_view_def upd\<close>)
  then have "plan_view s' = (plan_view s)(i \<mapsto> stored_as p i (pr_version r + 1) (pr_created_at r))"
    using r by (simp add: scan_rewritten fun_eq_iff)
  then show ?thesis using i r by (auto simp: get_plan_def scan_plan_def)
qed

lemma row_with_filter:
  "row_with key k (filter (\<lambda>r. key r \<noteq> i) rows) = (if k = i then None else row_with key k rows)"
  by (induction rows) (auto simp: row_with_def)

lemma delete_plan_view:
  assumes up: "delete_plan d ref s = (Inr u, s')"
  shows "\<exists>old. get_plan d ref s = Inr old \<and> plan_view s' = (plan_view s)(sp_id old := None)"
proof -
  obtain i where i: "resolve_plan_ref d ref s = Inr i" "s' = forget_plan i s"
    "count_where (\<lambda>r. pr_id r = i) (db_plans s) \<noteq> 0"
    using up by (auto simp: delete_plan_def split: sum.splits if_splits)
  have "i \<in> pr_id ` set (db_plans s)" using i(3) by (auto simp: count_where_0 list_all_iff)
  then obtain r where r: "row_with pr_id i (db_plans s) = Some r" "pr_id r = i"
    using row_with_None [of pr_id i "db_plans s"] by (auto dest: row_with_Some)
  have "plan_view s' = (plan_view s)(i := None)"
    by (simp add: i(2) fun_eq_iff plan_view_def forget_plan_def row_with_filter)
  then show ?thesis using i(1) r by (auto simp: get_plan_def)
qed

lemma create_plan_view:
  assumes inv: "unique_plans s" and cr: "create_plan ce p s = (Inr u, s')"
  shows "plan_view s (sp_id p) = None \<and> plan_view s' = (plan_view s)(sp_id p \<mapsto> p\<lparr>sp_version := 1\<rparr>)"
proof -
  have s': "sp_id p \<notin> pr_id ` set (db_plans s)" "s' = s\<lparr>db_plans := db_plans s @ [new_plan_row p]\<rparr>"
    using cr by (auto simp: create_plan_def split: if_splits)
  have none: "row_with pr_id (sp_id p) (db_plans s) = None" using s'(1) by (simp add: row_with_None)
  have "row_with pr_id j [new_plan_row p] = (if j = sp_id p then Some (new_plan_row p) else None)" for j
    by (auto simp: row_with_def new_plan_row_def)
  then have "plan_view s' j = ((plan_view s)(sp_id p \<mapsto> p\<lparr>sp_version := 1\<rparr>)) j" for j
    using none by (simp add: plan_view_def s'(2) row_with_append split: option.splits)
  then show ?thesis using none by (auto simp: plan_view_def)
qed

lemma get_by_name:
  assumes "unique_plans s" "plan_view s i = Some p" "sp_name p \<noteq> ''''"
  shows "get_plan d (sp_name p) s = Inr p"
proof -
  obtain r where r: "r \<in> set (db_plans s)" "pr_id r = i" "p = scan_plan r"
    using assms by (auto simp: plan_view_Some)
  have "row_with pr_name (pr_name r) (db_plans s) = Some r" "row_with pr_id (pr_id r) (db_plans s) = Some r"
    using assms(1) r(1) by (auto simp: unique_plans_def intro: row_with_in)
  then show ?thesis using assms(3) r by (simp add: get_plan_def resolve_plan_ref_def)
qed

lemma get_by_id:
  assumes inv: "unique_plans s" and "plan_view s i = Some p" "i \<noteq> ''''" "\<forall>q \<in> ran (plan_view s). sp_name q \<noteq> i"
  shows "get_plan d i s = Inr p"
proof -
  obtain r where r: "r \<in> set (db_plans s)" "pr_id r = i" "p = scan_plan r"
    using assms by (auto simp: plan_view_Some)
  have "i \<notin> sp_name ` ran (plan_view s)" using assms(4) by auto
  then have "row_with pr_name i (db_plans s) = None" by (simp add: names_of_view [OF inv] row_with_None)
  moreover have "row_with pr_id i (db_plans s) = Some r"
    using inv r by (auto simp: unique_plans_def intro: row_with_in)
  ultimately show ?thesis using assms(3) r by (simp add: get_plan_def resolve_plan_ref_def)
qed

interpretation catalogue: plan_store "sql_plans d ce" unique_plans plan_view for d ce
proof (unfold_locales, goal_cases)
  case (1 s i p) then show ?case by (auto simp: plan_view_Some)
next
  case (2 s ref p) then show ?case using get_plan_view by (auto simp: sql_plans_def)
next
  case (3 s i p) then show ?case using get_by_id by (simp add: sql_plans_def)
next
  case (4 s i p) then show ?case using get_by_name by (simp add: sql_plans_def)
next
  case (5 s p u s') then show ?case using create_plan_view unique_create [of s ce p] by (simp add: sql_plans_def)
next
  case (6 p s e s') then show ?case by (auto simp: sql_plans_def create_plan_def split: if_splits)
next
  case (7 s p k u s') then show ?case using update_plan_view unique_update [of s d ce p k] by (simp add: sql_plans_def)
next
  case (8 p k s e s') then show ?case
    by (auto simp: sql_plans_def update_plan_def Let_def split: if_splits sum.splits)
next
  case (9 s ref u s') then show ?case using delete_plan_view unique_delete [of s d ref] by (simp add: sql_plans_def)
next
  case (10 ref s e s') then show ?case
    by (auto simp: sql_plans_def delete_plan_def split: if_splits sum.splits)
qed


section \<open>Saving and removing plans\<close>

lemma parsed_plan: "parse_plan env p = Inr q \<Longrightarrow> q = apply_defaults p \<and> validate env q = []"
  by (auto simp: parse_plan_def Let_def split: list.splits)

lemma parsed_plan_named: "parse_plan env p = Inr q \<Longrightarrow> pl_name q \<noteq> []"
  using parsed_plan [of env p q] by (auto simp: validate_def trim_space_def trim_by_def)

lemma parsed_document_named: "parse_document rd document = Inr p \<Longrightarrow> pl_name p \<noteq> []"
  by (auto simp: parse_document_def parse_yaml_def split: sum.splits dest: parsed_plan_named)

text \<open>C33. Saving a plan document keeps the catalogue: a refused save (a document that does not parse, a
  name taken on a create, a version that moved on, a constraint) leaves the plans as they were; an accepted
  one files exactly one row, under the new identifier at version one or under the identifier the name
  already had at the next version, with its date of creation kept and the guard honoured, the document
  stored word for word, and the plan's name resolves afterwards to that row and to the plan the document
  says.\<close>

theorem save_stores_the_document:
  assumes "unique_plans s" "parse_document rd document = Inr p" "unaliased (plan_view s) i (pl_name p)"
  shows "case save_plan (sql_plans d ce) rd i t document k s of
      (Inl e, s') \<Rightarrow> s' = s
    | (Inr (row, c), s') \<Rightarrow> unique_plans s' \<and> plan_view s' = (plan_view s)(sp_id row \<mapsto> row) \<and>
        sp_yaml row = document \<and> sp_name row = pl_name p \<and> resolve_plan (sql_plans d ce) rd (pl_name p) s' = Inr (row, p) \<and>
        (case plan_view s (sp_id row) of
           None \<Rightarrow> c \<and> sp_id row = i \<and> sp_version row = 1
         | Some old \<Rightarrow> \<not> c \<and> sp_version row = sp_version old + 1 \<and> sp_created_at row = sp_created_at old \<and>
             (k > 0 \<longrightarrow> sp_version old = k))"
  by (rule catalogue.saved_or_refused [OF assms parsed_document_named [OF assms(2)]])

definition lab_reader :: "(unit, unit) plan_reader" where
  "lab_reader = \<lparr>pd_decode = (\<lambda>document. Inr (lab_plan\<lparr>pl_name := document\<rparr>)), pd_sched = te_sched lab_tick,
     pd_show = (\<lambda>_. []), pd_render = (\<lambda>p. Inr (pl_name p))\<rparr>"

lemma lab_document:
  "trim_space n \<noteq> [] \<Longrightarrow> parse_document lab_reader n = Inr (apply_defaults (lab_plan\<lparr>pl_name := n\<rparr>))"
  by (simp add: parse_document_def parse_yaml_def lab_reader_def parse_plan_def validate_def Let_def
      apply_defaults_def lab_plan_def lab_tick_def parse_schedule_def)


lemma lab_plan_view: "plan_view lab_catalogue = [[CHR ''p'', CHR ''1''] \<mapsto> scan_plan (hd (db_plans lab_catalogue))]"
  by (auto simp: plan_view_def lab_catalogue_def row_with_def fun_eq_iff)

lemma lab_weekly:
  "trim_space ''weekly'' \<noteq> []" "get_plan DialectSQLite ''weekly'' lab_catalogue = Inl (Sentinel StoreNotFound)"
  by code_simp+

theorem save_stores_the_document_witness:
  "\<exists>row s'. save_plan (sql_plans DialectSQLite (Plain ''constraint'')) lab_reader ''p2'' 7 ''weekly'' 0 lab_catalogue =
       (Inr (row, True), s') \<and>
     sp_yaml row = ''weekly'' \<and> resolve_plan (sql_plans DialectSQLite (Plain ''constraint'')) lab_reader ''weekly'' s' =
       Inr (row, apply_defaults (lab_plan\<lparr>pl_name := ''weekly''\<rparr>))"
proof -
  let ?ops = "sql_plans DialectSQLite (Plain ''constraint'')" and ?p = "apply_defaults (lab_plan\<lparr>pl_name := ''weekly''\<rparr>)"
  let ?row = "plan_row_for ?p ''weekly'' ''p2'' 7"
  have p: "parse_document lab_reader ''weekly'' = Inr ?p" using lab_weekly(1) by (rule lab_document)
  have n: "pl_name ?p = ''weekly''" by (simp add: apply_defaults_def Let_def)
  have fresh: "unaliased (plan_view lab_catalogue) ''p2'' ''weekly''"
    by (simp add: unaliased_def lab_plan_view) (simp add: lab_catalogue_def)
  note claim = save_stores_the_document [OF lab_unique(1) p, unfolded n, OF fresh, of DialectSQLite "Plain ''constraint''" 0 7]
  have row: "sp_id ?row = ''p2''" "sp_name ?row = ''weekly''" by (simp_all add: plan_row_for_def derive_def Let_def n)
  have ins: "po_create ?ops ?row lab_catalogue =
      (Inr (), lab_catalogue\<lparr>db_plans := db_plans lab_catalogue @ [new_plan_row ?row]\<rparr>)" (is "_ = (_, ?s)")
    using row by (simp add: sql_plans_def create_plan_def) (simp add: lab_catalogue_def)
  have "save_plan ?ops lab_reader ''p2'' 7 ''weekly'' 0 lab_catalogue = read_back ?ops ''p2'' True (Inr (), ?s)"
    using lab_weekly(2) ins by (simp add: save_plan_def p n Let_def sql_plans_def)
  also have "\<dots> = (Inr (?row\<lparr>sp_version := 1\<rparr>, True), ?s)"
    using catalogue.insert_shows(1) [of lab_catalogue ?row DialectSQLite "Plain ''constraint''" "()" ?s, unfolded row,
      OF lab_unique(1) fresh ins] .
  finally show ?thesis using claim by simp
qed

text \<open>
  What the name of a document reaches. A reference is read as a name, then an identifier, then the prefix
  of an identifier, so saving a document that is new by its name rewrites (and renames) the plan whose
  identifier starts like it; and deleting by the identifier that was resolved takes the plan that is named
  like it, while the answer names the other.
\<close>

lemma save_replaces_by_prefix:
  "get_plan DialectSQLite ''nightly'' (snd (save_plan (sql_plans DialectSQLite (Plain ''constraint'')) lab_reader
     ''p2'' 7 ''p'' 0 lab_catalogue)) = Inl (Sentinel StoreNotFound) \<and>
   map pr_name (db_plans (snd (save_plan (sql_plans DialectSQLite (Plain ''constraint'')) lab_reader
     ''p2'' 7 ''p'' 0 lab_catalogue))) = [''p'']"
  by code_simp

definition lab_namesakes :: db where
  "lab_namesakes = lab_catalogue\<lparr>db_plans :=
     map (\<lambda>r. r\<lparr>pr_id := ''a'', pr_name := ''x''\<rparr>) (db_plans lab_catalogue) @
     map (\<lambda>r. r\<lparr>pr_id := ''b'', pr_name := ''a''\<rparr>) (db_plans lab_catalogue)\<rparr>"

lemma delete_takes_the_namesake:
  "fst (remove_plan (sql_plans DialectSQLite (Plain ''constraint'')) ''x'' lab_namesakes) = Inr ''x'' \<and>
   map pr_name (db_plans (snd (remove_plan (sql_plans DialectSQLite (Plain ''constraint'')) ''x'' lab_namesakes))) = [''x'']"
  by code_simp


section \<open>The ad-hoc drill\<close>

lemma parsed_spec:
  assumes "parse_check_spec spec = Inr c"
  shows "ck_type c \<noteq> []" "ck_name c = []" "ck_proves c = []" "ck_capture c = []" "ck_assert c = None"
    "ck_drift c = None" "ck_timeout c = 0" "ck_critical c = None"
  using assms by (auto simp: parse_check_spec_def spec_of_def split: if_splits option.splits)

lemma adhoc_checks_all:
  "adhoc_checks o1 specs = Inr cs \<longleftrightarrow>
     list_all2 (\<lambda>spec c. \<exists>c'. parse_check_spec spec = Inr c' \<and>
       c = c'\<lparr>ck_retries := ao_check_retries o1, ck_retry_interval := ao_check_interval o1,
              ck_timeout := adhoc_timeout\<rparr>) specs cs"
proof (induction specs arbitrary: cs)
  case (Cons spec specs)
  show ?case
  proof (cases "parse_check_spec spec")
    case (Inr c)
    then show ?thesis using parsed_spec(7) [OF Inr]
      by (cases "adhoc_checks o1 specs") (auto simp: list_all2_Cons1 Cons.IH [symmetric])
  qed (simp add: list_all2_Cons1)
qed auto

lemma asked_check_ok:
  assumes "parse_check_spec spec = Inr c"
  shows "check_ok (default_check (c\<lparr>ck_retries := n, ck_retry_interval := d, ck_timeout := t\<rparr>))"
  using parsed_spec [OF assms] by (simp add: check_ok_def to_upper_def parse_proof_level_def proof_level_of_def recorded_def Let_def)

lemma asked_checks_ok:
  assumes "adhoc_checks o1 specs = Inr cs"
  shows "\<forall>c \<in> set (map default_check cs). check_ok c"
proof -
  have every: "list_all2 P xs ys \<Longrightarrow> c \<in> set ys \<Longrightarrow> \<exists>x \<in> set xs. P x c" for P and xs :: "string list" and ys :: "check_spec list" and c
    by (induction rule: list_all2_induct) auto
  have "check_ok (default_check c)" if "c \<in> set cs" for c
    using every [OF assms [unfolded adhoc_checks_all] that] asked_check_ok by auto
  then show ?thesis by simp
qed

lemma adhoc_valid:
  fixes o1 cs
  defines "p \<equiv> apply_defaults (adhoc_draft o1 cs)"
  assumes "\<forall>c \<in> set (map default_check cs). check_ok c" "ao_skip_startup o1 \<longrightarrow> cs = []"
  shows "validate env p = [] \<longleftrightarrow> ao_workload_id o1 \<noteq> [] \<and> ao_provider_id o1 \<noteq> [] \<and> 0 \<le> ao_cpu_limit o1 \<and>
    0 \<le> ao_memory_limit_mb o1 \<and> distinct (map display_name cs)"
proof -
  have named: "trim_space (pl_name p) \<noteq> []"
    by (simp add: p_def adhoc_draft_def apply_defaults_def Let_def trim_space_def trim_by_def is_space_def dropWhile_append)
  have fields: "pl_workload p = \<lparr>wr_provider = ao_provider_id o1, wr_id = ao_workload_id o1, wr_name = []\<rparr>"
    "rs_cpu_limit (pl_restore p) = ao_cpu_limit o1" "rs_memory_limit_mb (pl_restore p) = ao_memory_limit_mb o1"
    "su_skip (pl_startup p) = ao_skip_startup o1" "pl_checks p = map default_check cs" "pl_schedule p = []"
    "pl_schedule_timezone p = []"
    by (simp_all add: p_def adhoc_draft_def apply_defaults_def Let_def)
  have backup: "bs_strategy (pl_backup p) = StrategyLatest \<or>
      bs_strategy (pl_backup p) = StrategySpecific \<and> bs_id (pl_backup p) \<noteq> []"
    by (simp add: p_def adhoc_draft_def apply_defaults_def Let_def)
  have checks: "validate_checks 0 [] (map default_check cs) = [] \<longleftrightarrow> distinct (map display_name cs)"
    using assms(2) by (simp add: validate_checks_nil comp_def)
  show ?thesis
    using backup assms(3) checks named by (auto simp: validate_def fields parse_schedule_def)
qed


lemma asked_settings:
  assumes "adhoc_checks o1 specs = Inr cs" "ao_check_interval o1 \<noteq> 0"
  shows "length cs = length specs \<and> list_all (\<lambda>c. ck_timeout c = 15 * second \<and>
    ck_retries c = ao_check_retries o1 \<and> ck_retry_interval c = ao_check_interval o1) (map default_check cs)"
  using assms unfolding adhoc_checks_all list_all_length
  by (auto simp: list_all2_conv_all_nth default_check_def adhoc_timeout_def second_def)

lemma drafted_fields:
  "pl_name (apply_defaults (adhoc_draft o1 cs)) = ''adhoc-'' @ ao_workload_id o1"
  "pl_workload (apply_defaults (adhoc_draft o1 cs)) = \<lparr>wr_provider = ao_provider_id o1, wr_id = ao_workload_id o1, wr_name = []\<rparr>"
  "pl_checks (apply_defaults (adhoc_draft o1 cs)) = map default_check cs"
  "pl_backup (apply_defaults (adhoc_draft o1 cs)) = pl_backup (adhoc_draft o1 cs)"
  by (simp_all add: adhoc_draft_def apply_defaults_def Let_def)

text \<open>An ad-hoc drill is refused only when something it needs is missing: no workload, no provider, a
  negative limit, or (unless it skips the start) a check that does not parse or two checks of one name. A
  drill with no check of its own runs \<open>hostname\<close> in the guest; one that builds is a valid plan, restores the
  backup that was asked for (the latest when none was), and asks each check with the retries and the
  interval given, five and five seconds when none were, and fifteen seconds for an attempt.\<close>

theorem adhoc_drill_is_as_asked:
  "(case adhoc_plan rd o1 of
      Inl e \<Rightarrow> ao_workload_id o1 = [] \<or> ao_provider_id o1 = [] \<or> ao_cpu_limit o1 < 0 \<or> ao_memory_limit_mb o1 < 0 \<or>
        (if ao_skip_startup o1 then False
         else case adhoc_checks (apply_option_defaults o1)
             (if ao_checks o1 = [] then [''cmd:hostname''] else ao_checks o1) of
             Inl e' \<Rightarrow> e = e' | Inr cs \<Rightarrow> \<not> distinct (map display_name cs))
    | Inr p \<Rightarrow> validate (pd_sched rd) p = [] \<and> pl_name p = ''adhoc-'' @ ao_workload_id o1 \<and>
        wr_id (pl_workload p) = ao_workload_id o1 \<and> wr_provider (pl_workload p) = ao_provider_id o1 \<and>
        (if ao_backup o1 \<in> {[], ''latest''} then bs_strategy (pl_backup p) = StrategyLatest
         else bs_strategy (pl_backup p) = StrategySpecific \<and> bs_id (pl_backup p) = ao_backup o1) \<and>
        length (pl_checks p) = (if ao_skip_startup o1 then 0 else max 1 (length (ao_checks o1))) \<and>
        list_all (\<lambda>c. ck_timeout c = 15 * second \<and>
          ck_retries c = (if ao_check_retries o1 = 0 then 5 else ao_check_retries o1) \<and>
          ck_retry_interval c = (if ao_check_interval o1 = 0 then 5 * second else ao_check_interval o1)) (pl_checks p))"
proof -
  let ?o = "apply_option_defaults o1"
  let ?cs = "if ao_skip_startup o1 then Inr [] else adhoc_checks ?o (ao_checks ?o)"
  have opts: "ao_skip_startup ?o = ao_skip_startup o1" "ao_workload_id ?o = ao_workload_id o1" "ao_backup ?o = ao_backup o1"
    "ao_provider_id ?o = ao_provider_id o1" "ao_cpu_limit ?o = ao_cpu_limit o1" "ao_memory_limit_mb ?o = ao_memory_limit_mb o1"
    "ao_checks ?o = (if \<not> ao_skip_startup o1 \<and> ao_checks o1 = [] then [''cmd:hostname''] else ao_checks o1)"
    by (simp_all add: apply_option_defaults_def adhoc_check_def)
  show ?thesis
  proof (cases ?cs)
    case (Inl e)
    then show ?thesis by (auto simp: adhoc_plan_def Let_def opts split: if_splits)
  next
    case (Inr cs)
    let ?p = "apply_defaults (adhoc_draft ?o cs)"
    have built: "adhoc_plan rd o1 =
        (case validate (pd_sched rd) ?p of [] \<Rightarrow> Inr ?p | ps \<Rightarrow> Inl (invalid_plan (pd_show rd) ps))"
      using Inr by (simp add: adhoc_plan_def Let_def parse_plan_def opts split: list.split)
    have ok: "\<forall>c \<in> set (map default_check cs). check_ok c"
      using Inr asked_checks_ok [of ?o "ao_checks ?o" cs] by (cases "ao_skip_startup o1") (simp_all add: opts)
    have valid: "validate (pd_sched rd) ?p = [] \<longleftrightarrow> ao_workload_id o1 \<noteq> [] \<and> ao_provider_id o1 \<noteq> [] \<and>
        0 \<le> ao_cpu_limit o1 \<and> 0 \<le> ao_memory_limit_mb o1 \<and> distinct (map display_name cs)"
      using adhoc_valid [of cs ?o, OF ok] Inr by (cases "ao_skip_startup o1") (simp_all add: opts)
    show ?thesis
    proof (cases "validate (pd_sched rd) ?p")
      case Nil
      have "ao_check_interval ?o \<noteq> 0" by (simp add: apply_option_defaults_def adhoc_interval_def second_def)
      then have counted: "length cs = (if ao_skip_startup o1 then 0 else max 1 (length (ao_checks o1)))"
        and asked: "list_all (\<lambda>c. ck_timeout c = 15 * second \<and> ck_retries c = ao_check_retries ?o \<and>
            ck_retry_interval c = ao_check_interval ?o) (map default_check cs)"
        using Inr asked_settings [of ?o "ao_checks ?o" cs]
        by (cases "ao_skip_startup o1"; cases "ao_checks o1"; simp add: opts)+
      have settings: "ao_check_retries ?o = (if ao_check_retries o1 = 0 then 5 else ao_check_retries o1)"
        "ao_check_interval ?o = (if ao_check_interval o1 = 0 then 5 * second else ao_check_interval o1)"
        by (simp_all add: apply_option_defaults_def adhoc_retries_def adhoc_interval_def)
      have chosen: "if ao_backup o1 \<in> {[], ''latest''} then bs_strategy (pl_backup ?p) = StrategyLatest
         else bs_strategy (pl_backup ?p) = StrategySpecific \<and> bs_id (pl_backup ?p) = ao_backup o1"
        by (simp only: drafted_fields) (simp add: adhoc_draft_def opts)
      show ?thesis
        using built Nil asked [unfolded settings] counted chosen
        by (simp add: drafted_fields(1-3) opts split del: if_split)
    next
      case (Cons e es)
      then show ?thesis using built valid Inr by (auto simp: opts)
    qed
  qed
qed


text \<open>
  A shorthand has no room for a name, and a check without a port is named by its type alone: two commands
  are two checks called COMMAND, which validation refuses, with the advice to set a name.
\<close>

lemma command_spec:
  "parse_check_spec (''cmd:'' @ a) = Inr c \<Longrightarrow> display_name c = to_upper ''command''"
  by (auto simp: parse_check_spec_def spec_of_def display_name_def split: if_splits)

lemma display_name_settings:
  "display_name (c\<lparr>ck_retries := n, ck_retry_interval := d, ck_timeout := t\<rparr>) = display_name c"
  by (simp add: display_name_def split: option.split)

lemma adhoc_takes_one_command:
  "isl (adhoc_plan rd (o1\<lparr>ao_skip_startup := False, ao_checks := [''cmd:'' @ a, ''cmd:'' @ b]\<rparr>))"
proof -
  define o' where "o' = o1\<lparr>ao_skip_startup := False, ao_checks := [''cmd:'' @ a, ''cmd:'' @ b]\<rparr>"
  define o2 where "o2 = apply_option_defaults o'"
  have o2: "ao_checks o2 = [''cmd:'' @ a, ''cmd:'' @ b]" "\<not> ao_skip_startup o2"
    by (simp_all add: o2_def o'_def apply_option_defaults_def)
  have built: "adhoc_plan rd o' = (case adhoc_checks o2 (ao_checks o2) of Inl e \<Rightarrow> Inl e | Inr cs \<Rightarrow>
      (case parse_plan (pd_sched rd) (adhoc_draft o2 cs) of Inl ps \<Rightarrow> Inl (invalid_plan (pd_show rd) ps) | Inr p \<Rightarrow> Inr p))"
    unfolding adhoc_plan_def Let_def o2_def [symmetric] using o2(2) by simp
  have "isl (adhoc_plan rd o')"
  proof (cases "adhoc_checks o2 (ao_checks o2)")
    case (Inr cs)
    obtain c d where cs: "parse_check_spec (''cmd:'' @ a) = Inr c" "parse_check_spec (''cmd:'' @ b) = Inr d"
      "map display_name cs = [display_name c, display_name d]"
      using Inr [unfolded o2 adhoc_checks_all] by (auto simp: list_all2_Cons1 display_name_settings)
    then have "\<not> distinct (map display_name cs)" by (simp add: command_spec)
    then have "validate (pd_sched rd) (apply_defaults (adhoc_draft o2 cs)) \<noteq> []"
      using adhoc_valid [of cs o2, OF asked_checks_ok [OF Inr]] o2(2) by simp
    then show ?thesis unfolding built Inr by (auto simp: parse_plan_def Let_def split: list.split)
  qed (simp add: built)
  then show ?thesis by (simp add: o'_def)
qed

end
