(* ===== verification/Problems.thy ===== *)
theory Problems
  imports Core
begin

text \<open>
  internal/api/problem.go: the refusals of the HTTP interface, the status each error answers with, and
  the scrubbing that keeps credentials out of what is sent. The four patterns of the scrubber are written
  as matchers: each says how many characters the leftmost match at a position takes, and its replacement.
  Letters are folded in ASCII.
\<close>

section \<open>Scrubbing\<close>

definition in_range :: "nat \<Rightarrow> nat \<Rightarrow> char \<Rightarrow> bool" where
  "in_range lo hi c \<longleftrightarrow> (let n = (of_char c :: nat) in lo \<le> n \<and> n \<le> hi)"

definition is_letter :: "char \<Rightarrow> bool" where "is_letter c \<longleftrightarrow> in_range 65 90 c \<or> in_range 97 122 c"
definition is_alnum :: "char \<Rightarrow> bool" where "is_alnum c \<longleftrightarrow> is_letter c \<or> in_range 48 57 c"

text \<open>The class \<open>\s\<close>: tab, line feed, form feed, carriage return and blank.\<close>

definition re_space :: "char \<Rightarrow> bool" where
  "re_space c \<longleftrightarrow> (of_char c :: nat) \<in> {9, 10, 12, 13, 32}"

definition token_char :: "char \<Rightarrow> bool" where "token_char c \<longleftrightarrow> is_alnum c \<or> c = CHR ''_'' \<or> c = CHR ''-''"
definition sealed_char :: "char \<Rightarrow> bool" where
  "sealed_char c \<longleftrightarrow> is_alnum c \<or> c \<in> set ''+/=_-''"
definition scheme_char :: "char \<Rightarrow> bool" where "scheme_char c \<longleftrightarrow> is_alnum c \<or> c \<in> set ''+.-''"
definition user_char :: "char \<Rightarrow> bool" where "user_char c \<longleftrightarrow> \<not> re_space c \<and> c \<notin> set '':/@''"
definition password_char :: "char \<Rightarrow> bool" where "password_char c \<longleftrightarrow> \<not> re_space c \<and> c \<noteq> CHR ''@''"
definition value_char :: "char \<Rightarrow> bool" where
  "value_char c \<longleftrightarrow> \<not> re_space c \<and> c \<notin> set '',;)'' \<and> (of_char c :: nat) \<notin> {34, 39}"

type_synonym matcher = "string \<Rightarrow> (nat \<times> string) option"

definition span :: "(char \<Rightarrow> bool) \<Rightarrow> string \<Rightarrow> nat" where "span p s = length (takeWhile p s)"

definition stars :: string where "stars = ''***''"

definition match_token :: matcher where
  "match_token s =
     (if has_prefix s ''rl_'' \<and> 20 \<le> span token_char (drop 3 s)
      then Some (3 + span token_char (drop 3 s), stars) else None)"

definition match_sealed :: matcher where
  "match_sealed s =
     (if has_prefix s ''rlsec:v1:'' \<and> 1 \<le> span sealed_char (drop 9 s)
      then Some (9 + span sealed_char (drop 9 s), stars) else None)"

definition match_url_password :: matcher where
  "match_url_password s =
     (case s of
        [] \<Rightarrow> None
      | c # cs \<Rightarrow>
          (let after_scheme = 1 + span scheme_char cs;
               user = span user_char (drop (after_scheme + 3) s);
               kept = after_scheme + 3 + user;
               password = span password_char (drop (kept + 1) s);
               taken = kept + 1 + password
           in if is_letter c \<and> has_prefix (drop after_scheme s) ''://'' \<and> 1 \<le> user \<and> has_prefix (drop kept s) '':'' \<and>
                1 \<le> password \<and> has_prefix (drop taken s) ''@''
              then Some (taken + 1, take kept s @ '':'' @ stars @ ''@'') else None))"

definition secret_keys :: "string list" where
  "secret_keys = [''password'', ''passwd'', ''secret'', ''token'', ''apitoken'', ''pveapitoken'']"

fun match_keys :: "string list \<Rightarrow> matcher" where
  "match_keys [] s = None"
| "match_keys (k # ks) s =
     (let n = length k + 1 in
      if has_prefix (to_lower s) (k @ ''='') \<and> 1 \<le> span value_char (drop n s)
      then Some (n + span value_char (drop n s), stars) else match_keys ks s)"

text \<open>\<open>ReplaceAllString\<close>: no pattern matches the empty text, so a match takes one character at least.\<close>

function replace_matches :: "matcher \<Rightarrow> string \<Rightarrow> string" where
  "replace_matches m [] = []"
| "replace_matches m (c # cs) =
     (case m (c # cs) of
        None \<Rightarrow> c # replace_matches m cs
      | Some (n, r) \<Rightarrow> r @ replace_matches m (drop (n - 1) cs))"
  by pat_completeness auto
termination by (relation "measure (\<lambda>(m, s). length s)") auto

definition scrub_secrets :: "string \<Rightarrow> string" where
  "scrub_secrets s =
     replace_matches (match_keys secret_keys) (replace_matches match_url_password
       (replace_matches match_sealed (replace_matches match_token s)))"


section \<open>Problem documents\<close>

record problem =
  pb_type :: string
  pb_title :: string
  pb_status :: int
  pb_detail :: string
  pb_instance :: string

definition problem_base :: string where "problem_base = ''https://restorelab.dev/problems/''"

definition new_problem :: "string \<Rightarrow> string \<Rightarrow> int \<Rightarrow> string \<Rightarrow> problem" where
  "new_problem kind title status detail =
     \<lparr>pb_type = problem_base @ kind, pb_title = title, pb_status = status, pb_detail = scrub_secrets detail,
      pb_instance = ''''\<rparr>"

definition written_problem :: "string \<Rightarrow> problem \<Rightarrow> problem" where
  "written_problem path p = p\<lparr>pb_instance := path, pb_detail := scrub_secrets (pb_detail p)\<rparr>"

definition problem_for :: "goerr \<Rightarrow> problem" where
  "problem_for e =
     (if errors_is e StoreNotFound then new_problem ''not-found'' ''No such recovery run'' 404 (err_text e)
      else if errors_is e StoreAmbiguous then new_problem ''ambiguous-id'' ''Ambiguous run id'' 409
        ''that prefix matches more than one drill: give a few more characters''
      else if errors_is e StoreNoHistory then new_problem ''history-unavailable'' ''The drill history is unavailable'' 503
        ''this RestoreLab has no usable history database; see `restorelab db status`''
      else if errors_is e StoreAlreadySettled then new_problem ''already-settled'' ''This drill is already over'' 409 (err_text e)
      else if errors_is e StoreDuplicate then
        new_problem ''name-taken'' ''That name is already used by another plan'' 409 (err_text e)
      else if errors_is e StoreVersionConflict then new_problem ''version-conflict'' ''The plan changed since you read it'' 409
        ''reload the plan, apply your change to the current version, and send it again''
      else if errors_is e CatalogInvalid then
        new_problem ''invalid-plan'' ''This document is not a valid recovery plan'' 400 (err_text e)
      else if errors_is e ErrNotFound then new_problem ''not-found'' ''Not found'' 404 (err_text e)
      else if errors_is e ErrNoBackup then new_problem ''no-backup'' ''No backup available'' 404 (err_text e)
      else new_problem ''internal'' ''Internal error'' 500 (err_text e))"

definition problem_for_upstream :: "goerr \<Rightarrow> problem" where
  "problem_for_upstream e =
     (if errors_is e ErrUnauthorized then new_problem ''upstream-rejected'' ''The cluster refused RestoreLab's credentials'' 502
        (''RestoreLab's own provider token was rejected; this is not a problem with your API token. '' @
         ''Run `restorelab doctor`.'')
      else if errors_is e ErrTimeout \<or> errors_is e CtxDeadlineExceeded then
        new_problem ''upstream-timeout'' ''The cluster did not answer in time'' 504 (err_text e)
      else if errors_is e StoreNotFound \<or> errors_is e StoreAmbiguous \<or> errors_is e StoreNoHistory \<or>
        errors_is e ErrNotFound \<or> errors_is e ErrNoBackup then problem_for e
      else new_problem ''upstream-failure'' ''The cluster could not be queried'' 502 (err_text e))"

definition rejection :: string where "rejection =
     ''this request needs a valid API token: send `Authorization: Bearer rl_...` '' @
     ''(create one with `restorelab token create`)''"

definition unauthorized :: problem where
  "unauthorized = new_problem ''unauthorized'' ''Authentication required'' 401 rejection"

definition bad_request :: "string \<Rightarrow> problem" where
  "bad_request detail = new_problem ''invalid-parameter'' ''Invalid parameter'' 400 detail"

section \<open>What no problem document shows\<close>

text \<open>
  A test of the start of a text that sees no further than the first star, and the texts with no place
  where it holds.
\<close>

fun somewhere :: "(string \<Rightarrow> bool) \<Rightarrow> string \<Rightarrow> bool" where
  "somewhere st [] = False"
| "somewhere st (c # cs) = (st (c # cs) \<or> somewhere st cs)"

definition local_test :: "(string \<Rightarrow> bool) \<Rightarrow> bool" where
  "local_test st \<longleftrightarrow> \<not> st [] \<and> (\<forall>x y. st x \<longrightarrow> st (x @ y)) \<and> (\<forall>x y. st (x @ CHR ''*'' # y) \<longrightarrow> st x) \<and>
     (\<forall>y. \<not> st (CHR ''@'' # y))"

lemma somewhere_star:
  "local_test st \<Longrightarrow> somewhere st (x @ CHR ''*'' # y) \<longleftrightarrow> somewhere st x \<or> somewhere st y"
proof (induction x)
  case Nil
  have "\<not> st (CHR ''*'' # y)" using Nil unfolding local_test_def by (metis append_Nil)
  then show ?case by simp
next
  case (Cons c x)
  have "st ((c # x) @ CHR ''*'' # y) \<longleftrightarrow> st (c # x)" using Cons.prems unfolding local_test_def by metis
  then show ?case using Cons by simp
qed

lemma somewhere_prefix: "local_test st \<Longrightarrow> somewhere st x \<Longrightarrow> somewhere st (x @ y)"
proof (induction x)
  case (Cons c x)
  have "st (c # x) \<Longrightarrow> st ((c # x) @ y)" using Cons.prems(1) unfolding local_test_def by metis
  then show ?case using Cons by auto
qed simp

lemma somewhere_suffix: "somewhere st (drop n x) \<Longrightarrow> somewhere st x"
proof (induction x arbitrary: n)
  case (Cons c x)
  then show ?case by (cases n) auto
qed simp

text \<open>A matcher whose replacement is a part of the text it replaces, three stars and perhaps an at sign.\<close>

definition starring :: "matcher \<Rightarrow> bool" where
  "starring m \<longleftrightarrow> (\<forall>s n r. m s = Some (n, r) \<longrightarrow> 1 \<le> n \<and>
     (\<exists>k. r = take k s @ stars \<or> r = take k s @ stars @ ''@''))"

lemma replaced_front:
  assumes "starring m"
  shows "replace_matches m s = s \<or> (\<exists>x y k. replace_matches m s = x @ CHR ''*'' # y \<and> x = take k s)"
  using assms
proof (induction m s rule: replace_matches.induct)
  case (2 m c cs)
  show ?case
  proof (cases "m (c # cs)")
    case None
    then consider "replace_matches m cs = cs" | x y k where "replace_matches m cs = x @ CHR ''*'' # y" "x = take k cs"
      using 2 by blast
    then show ?thesis
    proof cases
      case (2 x y k)
      then have "replace_matches m (c # cs) = (c # x) @ CHR ''*'' # y \<and> c # x = take (Suc k) (c # cs)" using None by simp
      then show ?thesis by blast
    qed (simp add: None)
  next
    case (Some p)
    obtain n r where p: "p = (n, r)" by force
    obtain k where "r = take k (c # cs) @ stars \<or> r = take k (c # cs) @ stars @ ''@''"
      using 2(3) Some p unfolding starring_def by metis
    then have "\<exists>y. replace_matches m (c # cs) = take k (c # cs) @ CHR ''*'' # y" using Some p by (auto simp: stars_def)
    then show ?thesis by blast
  qed
qed simp

text \<open>A test that fails on the original where a character is kept fails on what follows it too.\<close>

lemma kept_front:
  assumes "starring m" "local_test st" "\<not> st (c # cs)"
  shows "\<not> st (c # replace_matches m cs)"
proof
  assume st: "st (c # replace_matches m cs)"
  from replaced_front [OF assms(1), of cs] show False
  proof (elim disjE exE conjE)
    assume "replace_matches m cs = cs" then show False using st assms(3) by simp
  next
    fix x y k assume x: "replace_matches m cs = x @ CHR ''*'' # y" "x = take k cs"
    have "st (c # x)" using st assms(2) unfolding x(1) local_test_def by (metis append_Cons)
    then have "st ((c # x) @ drop k cs)" using assms(2) unfolding local_test_def by metis
    then show False using assms(3) x(2) by simp
  qed
qed

lemma starred_somewhere:
  assumes "local_test st" "r = u @ stars \<or> r = u @ stars @ ''@''"
  shows "somewhere st (r @ y) \<longleftrightarrow> somewhere st u \<or> somewhere st y"
proof -
  have star: "\<not> st (CHR ''*'' # z)" for z using assms(1) unfolding local_test_def by (metis append_Nil)
  have mid: "somewhere st (u @ stars @ z) \<longleftrightarrow> somewhere st u \<or> somewhere st z" for z
    using somewhere_star [OF assms(1), of u "''**'' @ z"] by (simp add: stars_def star)
  have "\<not> st (CHR ''@'' # y)" using assms(1) unfolding local_test_def by metis
  then have "somewhere st (''@'' @ y) \<longleftrightarrow> somewhere st y" by simp
  then show ?thesis using assms(2) mid [of y] mid [of "''@'' @ y"] by (elim disjE) simp_all
qed

lemma replacing_keeps:
  assumes "starring m" "local_test st" "\<not> somewhere st s"
  shows "\<not> somewhere st (replace_matches m s)"
  using assms
proof (induction m s rule: replace_matches.induct)
  case (2 m c cs)
  show ?case
  proof (cases "m (c # cs)")
    case None
    then show ?thesis using 2 kept_front [of m st c cs] by simp
  next
    case (Some p)
    obtain n r where p: "p = (n, r)" by force
    obtain k where r: "r = take k (c # cs) @ stars \<or> r = take k (c # cs) @ stars @ ''@''"
      using 2(3) Some p unfolding starring_def by metis
    have "\<not> somewhere st (take k (c # cs))"
      using somewhere_prefix [OF 2(4), of "take k (c # cs)" "drop k (c # cs)"] 2(5) by (metis append_take_drop_id)
    moreover have "\<not> somewhere st (replace_matches m (drop (n - 1) cs))"
      using 2(2) [OF Some p [symmetric]] 2(3-5) somewhere_suffix [of st "n - 1" cs] by auto
    ultimately show ?thesis using starred_somewhere [OF 2(4) r] Some p by simp
  qed
qed simp

text \<open>A pattern replaced by bare stars is gone everywhere.\<close>

lemma replacing_removes:
  assumes "starring m" "local_test st" "\<And>s. st s \<longleftrightarrow> m s \<noteq> None" "\<And>s n r. m s = Some (n, r) \<Longrightarrow> r = stars"
  shows "\<not> somewhere st (replace_matches m s)"
  using assms
proof (induction m s rule: replace_matches.induct)
  case (2 m c cs)
  show ?case
  proof (cases "m (c # cs)")
    case None
    have "\<not> st (c # cs)" using None 2(5) by blast
    then have "\<not> st (c # replace_matches m cs)" by (rule kept_front [OF 2(3,4)])
    moreover have "\<not> somewhere st (replace_matches m cs)" by (rule 2(1) [OF None 2(3-6)])
    ultimately show ?thesis using None by simp
  next
    case (Some p)
    obtain n r where p: "p = (n, r)" by force
    then have "r = [] @ stars" using 2(6) Some by simp
    then show ?thesis
      using starred_somewhere [OF 2(4), of r "[]"] 2(2) [OF Some p [symmetric] 2(3-6)] Some p by simp
  qed
qed simp


lemma span_short: "span p (x @ CHR ''*'' # y) = span p x" if "\<not> p (CHR ''*'')"
  using that by (induction x) (simp_all add: span_def)

lemma span_grows: "span p x \<le> span p (x @ y)"
  by (induction x) (simp_all add: span_def)

lemma has_prefix_iff: "has_prefix s p \<longleftrightarrow> (\<exists>r. s = p @ r)"
  by (induction s p rule: has_prefix.induct) auto

lemma prefix_local:
  assumes "has_prefix (x @ CHR ''*'' # y) p" "CHR ''*'' \<notin> set p"
  shows "has_prefix x p"
proof -
  obtain r where "x @ CHR ''*'' # y = p @ r" using assms(1) by (auto simp: has_prefix_iff)
  then show ?thesis using assms(2) by (auto simp: append_eq_append_conv2 has_prefix_iff Cons_eq_append_conv)
qed

text \<open>A keyword followed by at least so many characters of a class: what the first two patterns look for.\<close>

definition word_test :: "string \<Rightarrow> nat \<Rightarrow> (char \<Rightarrow> bool) \<Rightarrow> string \<Rightarrow> bool" where
  "word_test p n cls s \<longleftrightarrow> has_prefix s p \<and> n \<le> span cls (drop (length p) s)"

lemma word_test_local:
  assumes "p \<noteq> []" "CHR ''*'' \<notin> set p" "hd p \<noteq> CHR ''@''" "\<not> cls (CHR ''*'')"
  shows "local_test (word_test p n cls)"
  unfolding local_test_def
proof (intro conjI allI impI)
  show "\<not> word_test p n cls []" using assms(1) by (cases p) (simp_all add: word_test_def)
  show "\<not> word_test p n cls (CHR ''@'' # y)" for y using assms(1,3) by (cases p) (auto simp: word_test_def)
  show "word_test p n cls (x @ y)" if t: "word_test p n cls x" for x y
  proof -
    obtain r where "x = p @ r" using t by (auto simp: word_test_def has_prefix_iff)
    then show ?thesis using t span_grows [of cls r y] by (auto simp: word_test_def has_prefix_iff)
  qed
  show "word_test p n cls x" if t: "word_test p n cls (x @ CHR ''*'' # y)" for x y
  proof -
    have "has_prefix x p" using t assms(2) by (auto simp: word_test_def intro: prefix_local)
    then obtain r where "x = p @ r" by (auto simp: has_prefix_iff)
    then show ?thesis using t span_short [of cls r y, OF assms(4)] by (simp add: word_test_def has_prefix_iff)
  qed
qed

lemma token_test: "match_token s \<noteq> None \<longleftrightarrow> word_test ''rl_'' 20 token_char s"
proof -
  have l: "length ''rl_'' = 3" by simp
  show ?thesis unfolding match_token_def word_test_def l by simp
qed

lemma sealed_test: "match_sealed s \<noteq> None \<longleftrightarrow> word_test ''rlsec:v1:'' 1 sealed_char s"
proof -
  have l: "length ''rlsec:v1:'' = 9" by simp
  show ?thesis unfolding match_sealed_def word_test_def l by simp
qed

lemma stars_none [simp]: "\<not> token_char (CHR ''*'')" "\<not> sealed_char (CHR ''*'')"
  by (simp_all add: token_char_def sealed_char_def is_alnum_def is_letter_def in_range_def)

lemma starring_matchers: "starring match_token" "starring match_sealed" "starring (match_keys ks)"
proof -
  show "starring match_token" "starring match_sealed"
    unfolding starring_def match_token_def match_sealed_def
    by (auto split: if_splits intro!: exI [of _ 0])
  have "match_keys ks s = Some (n, r) \<Longrightarrow> 1 \<le> n \<and> r = stars" for s n r
    by (induction ks) (auto simp: Let_def split: if_splits)
  then show "starring (match_keys ks)" unfolding starring_def by (metis append_Nil take_0)
qed

lemma starring_url: "starring match_url_password"
proof -
  have "\<exists>k. r = take k s @ stars \<or> r = take k s @ stars @ ''@''" "1 \<le> n" if m: "match_url_password s = Some (n, r)" for s n r
  proof -
    obtain c cs where s: "s = c # cs" using m by (cases s) (simp_all add: match_url_password_def)
    define kept where "kept = 1 + span scheme_char cs + 3 + span user_char (drop (1 + span scheme_char cs + 3) s)"
    have k: "has_prefix (drop kept s) '':''" "r = take kept s @ '':'' @ stars @ ''@''" "1 \<le> n"
      using m by (auto simp: match_url_password_def s kept_def Let_def split: if_splits)
    obtain t where "drop kept s = CHR '':'' # t" using k(1) by (auto simp: has_prefix_iff)
    then have "take (kept + 1) s = take kept s @ '':''" unfolding take_add by simp
    then show "\<exists>k. r = take k s @ stars \<or> r = take k s @ stars @ ''@''" "1 \<le> n" using k by (metis append.assoc)+
  qed
  then show ?thesis unfolding starring_def by blast
qed


lemma token_local: "local_test (word_test ''rl_'' 20 token_char)"
  by (rule word_test_local) simp_all

lemma sealed_local: "local_test (word_test ''rlsec:v1:'' 1 sealed_char)"
  by (rule word_test_local) simp_all

lemma scrubbed:
  "\<not> somewhere (word_test ''rl_'' 20 token_char) (scrub_secrets s)"
  "\<not> somewhere (word_test ''rlsec:v1:'' 1 sealed_char) (scrub_secrets s)"
proof -
  let ?t = "replace_matches match_token s"
  have bare: "match_token s = Some (n, r) \<Longrightarrow> r = stars" "match_sealed s = Some (n, r) \<Longrightarrow> r = stars" for s n r
    by (auto simp: match_token_def match_sealed_def split: if_splits)
  have "\<not> somewhere (word_test ''rl_'' 20 token_char) ?t"
    by (rule replacing_removes [OF starring_matchers(1) token_local token_test [symmetric] bare(1)])
  then show "\<not> somewhere (word_test ''rl_'' 20 token_char) (scrub_secrets s)"
    unfolding scrub_secrets_def
    by (intro replacing_keeps [OF starring_matchers(3) token_local] replacing_keeps [OF starring_url token_local]
        replacing_keeps [OF starring_matchers(2) token_local])
  have "\<not> somewhere (word_test ''rlsec:v1:'' 1 sealed_char) (replace_matches match_sealed ?t)"
    by (rule replacing_removes [OF starring_matchers(2) sealed_local sealed_test [symmetric] bare(2)])
  then show "\<not> somewhere (word_test ''rlsec:v1:'' 1 sealed_char) (scrub_secrets s)"
    unfolding scrub_secrets_def
    by (intro replacing_keeps [OF starring_matchers(3) sealed_local] replacing_keeps [OF starring_url sealed_local])
qed

lemma somewhere_middle: "st (x @ y) \<Longrightarrow> x \<noteq> [] \<Longrightarrow> somewhere st (a @ x @ y)"
  by (induction a) (auto simp: neq_Nil_conv)

text \<open>The texts that show a credential: an API token, or a sealed secret.\<close>

definition shows_token :: "string \<Rightarrow> bool" where
  "shows_token s \<longleftrightarrow> (\<exists>a t b. s = a @ ''rl_'' @ t @ b \<and> length t = 20 \<and> list_all token_char t)"

definition shows_sealed :: "string \<Rightarrow> bool" where
  "shows_sealed s \<longleftrightarrow> (\<exists>a c b. s = a @ ''rlsec:v1:'' @ c # b \<and> sealed_char c)"

lemma shown_token: "shows_token s \<Longrightarrow> somewhere (word_test ''rl_'' 20 token_char) s"
proof -
  assume "shows_token s"
  then obtain a t b where s: "s = a @ ''rl_'' @ t @ b" "length t = 20" "list_all token_char t"
    by (auto simp: shows_token_def)
  have "takeWhile token_char (t @ b) = t @ takeWhile token_char b"
    using s(3) by (auto simp: list_all_iff takeWhile_append2)
  then have "word_test ''rl_'' 20 token_char (''rl_'' @ t @ b)"
    using s(2) by (simp add: word_test_def span_def)
  then show ?thesis unfolding s(1) by (intro somewhere_middle) simp_all
qed

lemma shown_sealed: "shows_sealed s \<Longrightarrow> somewhere (word_test ''rlsec:v1:'' 1 sealed_char) s"
proof -
  assume "shows_sealed s"
  then obtain a c b where s: "s = a @ ''rlsec:v1:'' @ c # b" "sealed_char c" by (auto simp: shows_sealed_def)
  then have "word_test ''rlsec:v1:'' 1 sealed_char (''rlsec:v1:'' @ c # b)" by (simp add: word_test_def span_def)
  then show ?thesis unfolding s(1) by (intro somewhere_middle) simp_all
qed

definition shows_credential :: "string \<Rightarrow> bool" where
  "shows_credential s \<longleftrightarrow> shows_token s \<or> shows_sealed s"

lemma scrubbed_clean: "\<not> shows_credential (scrub_secrets s)"
  using scrubbed shown_token shown_sealed by (auto simp: shows_credential_def)

text \<open>A text with neither of the two marks shows nothing; so the types and the titles of the documents.\<close>

lemma unmarked_clean: "\<not> contains s ''rl_'' \<Longrightarrow> \<not> contains s ''rlsec:'' \<Longrightarrow> \<not> shows_credential s"
proof -
  assume "\<not> contains s ''rl_''" "\<not> contains s ''rlsec:''"
  moreover have "contains (x @ ''rl_'' @ y) ''rl_''" "contains (x @ ''rlsec:'' @ y) ''rlsec:''" for x y
    by (rule contains_append)+
  ultimately show ?thesis
    unfolding shows_credential_def shows_token_def shows_sealed_def by (metis append.assoc append_Cons append_Nil)
qed

definition clean_problem :: "problem \<Rightarrow> bool" where
  "clean_problem p \<longleftrightarrow> \<not> shows_credential (pb_type p) \<and> \<not> shows_credential (pb_title p) \<and> \<not> shows_credential (pb_detail p)"

definition problem_kinds :: "(string \<times> string) list" where
  "problem_kinds = [
     (''not-found'', ''No such recovery run''),
     (''ambiguous-id'', ''Ambiguous run id''),
     (''history-unavailable'', ''The drill history is unavailable''),
     (''already-settled'', ''This drill is already over''),
     (''name-taken'', ''That name is already used by another plan''),
     (''version-conflict'', ''The plan changed since you read it''),
     (''invalid-plan'', ''This document is not a valid recovery plan''),
     (''not-found'', ''Not found''),
     (''no-backup'', ''No backup available''),
     (''internal'', ''Internal error''),
     (''upstream-rejected'', ''The cluster refused RestoreLab's credentials''),
     (''upstream-timeout'', ''The cluster did not answer in time''),
     (''upstream-failure'', ''The cluster could not be queried''),
     (''unauthorized'', ''Authentication required''),
     (''invalid-parameter'', ''Invalid parameter'')]"

lemma kinds_unmarked:
  "list_all (\<lambda>(kind, title). list_all (\<lambda>s. \<not> contains s ''rl_'' \<and> \<not> contains s ''rlsec:'') [problem_base @ kind, title]) problem_kinds"
  by code_simp

lemma new_problem_clean: "(kind, title) \<in> set problem_kinds \<Longrightarrow> clean_problem (new_problem kind title status detail)"
  using kinds_unmarked unmarked_clean [of "problem_base @ kind"] unmarked_clean [of title]
  by (auto simp: clean_problem_def new_problem_def scrubbed_clean list_all_iff)

lemma listed_problems: "\<forall>p \<in> set problem_kinds. case p of (kind, title) \<Rightarrow> clean_problem (new_problem kind title status detail)"
  using new_problem_clean by auto

lemma problem_for_clean: "clean_problem (problem_for e)"
  using listed_problems unfolding problem_for_def problem_kinds_def by simp

lemma upstream_clean: "clean_problem (problem_for_upstream e)"
  using listed_problems unfolding problem_for_upstream_def problem_kinds_def by (simp add: problem_for_clean)

text \<open>C34. Whatever an error says, no text a problem document is composed of shows a credential of RestoreLab:
  after the scrubbing there is no API token and no sealed provider secret anywhere in the detail, whatever kind of
  problem it is, nor in the type and the title of the problem of a store error, of a cluster error, of a bad request
  and of a refused caller. The four replacements run one after the other, so the later ones must not put back
  together what the first two took apart. The one other text of the document, its instance, is not composed: it is
  the path of the request as the client sent it.\<close>

theorem problems_show_no_credential:
  "\<not> shows_credential (pb_detail (written_problem path (new_problem kind title status detail))) \<and>
   list_all (\<lambda>p. \<not> shows_credential (pb_type p) \<and> \<not> shows_credential (pb_title p) \<and> \<not> shows_credential (pb_detail p) \<and>
       pb_instance p = path)
     (map (written_problem path) [problem_for e, problem_for_upstream e, bad_request detail, unauthorized])"
proof -
  have written: "clean_problem p \<Longrightarrow> \<not> shows_credential (pb_type (written_problem path p)) \<and>
      \<not> shows_credential (pb_title (written_problem path p)) \<and> \<not> shows_credential (pb_detail (written_problem path p)) \<and>
      pb_instance (written_problem path p) = path" for p
    by (simp add: clean_problem_def written_problem_def scrubbed_clean)
  have "clean_problem (bad_request detail)" "clean_problem unauthorized"
    unfolding bad_request_def unauthorized_def by (rule new_problem_clean, simp add: problem_kinds_def)+
  note all = problem_for_clean [THEN written] upstream_clean [THEN written] this [THEN written]
  have "\<not> shows_credential (pb_detail (written_problem path (new_problem kind title status detail)))"
    by (simp add: written_problem_def scrubbed_clean)
  then show ?thesis using all by (simp only: list.map list.pred_inject simp_thms)
qed

text \<open>So a token that a client writes into the path of a request it gets wrong stands in the answer, and in
  whatever keeps the answers.\<close>

lemma instance_shows_the_path:
  "shows_token (pb_instance (written_problem (''/api/v1/recovery-runs/rl_'' @ t) p))" if "length t = 20" "list_all token_char t"
proof -
  have "pb_instance (written_problem (''/api/v1/recovery-runs/rl_'' @ t) p) = ''/api/v1/recovery-runs/'' @ ''rl_'' @ t @ []"
    by (simp add: written_problem_def)
  then show ?thesis using that unfolding shows_token_def by blast
qed

text \<open>
  What it does not hide: the password of a URL without a user, and the rest of a password that holds an at
  sign; the pattern asks for a user of one character at least and ends at the first at sign.
\<close>

lemma password_without_user_shows:
  "scrub_secrets ''dial redis://:hunter2@db: refused'' = ''dial redis://:hunter2@db: refused''"
  by code_simp

lemma password_with_at_shows: "scrub_secrets ''http://u:p@ss@host/'' = ''http://u:***@ss@host/''"
  by code_simp

end
