(* ===== verification/Api.thy ===== *)
theory Api
  imports Problems Catalog Scheduler History Report Config
begin

text \<open>
  internal/api over the store: the page envelope (page.go), the runs (runs.go), the plans (plans.go), and
  what operates a drill (trigger.go). A handler is a function of the decoded request and of the database;
  it answers a problem, or a status with a body. JSON, base64, the parsers of instants and durations and
  the HTML renderer are functions of the codec.
\<close>

type_synonym 'a answer = "problem + int \<times> 'a"

section \<open>Pages\<close>

record api_codec =
  ac_cursor_text :: "time \<Rightarrow> string"
  ac_cursor_time :: "string \<Rightarrow> time option"
  ac_encode :: "string \<Rightarrow> string"
  ac_decode :: "string \<Rightarrow> string option"
  ac_add_days :: "time \<Rightarrow> int \<Rightarrow> time"
  ac_duration :: "string \<Rightarrow> duration option"
  ac_rfc3339 :: "string \<Rightarrow> time option"
  ac_date :: "string \<Rightarrow> time option"
  ac_numbers :: number_text
  ac_html :: "recovery_run \<Rightarrow> goerr + string"

definition max_page_size :: int where "max_page_size = 200"

record 'a page =
  pg_items :: "'a list"
  pg_next_cursor :: string

definition encode_cursor :: "api_codec \<Rightarrow> position \<Rightarrow> string" where
  "encode_cursor ac p = ac_encode ac (ac_cursor_text ac (po_started_at p) @ ''|'' @ po_id p)"

definition decode_cursor :: "api_codec \<Rightarrow> string \<Rightarrow> goerr + position" where
  "decode_cursor ac s =
     (case ac_decode ac s of
        None \<Rightarrow> Inl (Plain ''cursor is not valid base64url'')
      | Some raw \<Rightarrow>
          (let stamp = takeWhile (\<lambda>c. c \<noteq> CHR ''|'') raw; rest = dropWhile (\<lambda>c. c \<noteq> CHR ''|'') raw in
           if rest = [] \<or> tl rest = [] then Inl (Plain ''cursor is malformed'')
           else (case ac_cursor_time ac stamp of
                   None \<Rightarrow> Inl (Plain ''cursor carries an unreadable timestamp'')
                 | Some t \<Rightarrow> Inr \<lparr>po_started_at = t, po_id = tl rest\<rparr>)))"

definition parse_limit :: "string \<Rightarrow> goerr + int" where
  "parse_limit raw =
     (if raw = [] then Inr default_list_limit
      else case atoi raw of
             None \<Rightarrow> Inl (Plain ''limit must be a number'')
           | Some n \<Rightarrow> if n \<le> 0 then Inl (Plain ''limit must be greater than zero'')
                      else if n > max_page_size then Inr max_page_size else Inr n)"

definition parse_since :: "api_codec \<Rightarrow> string \<Rightarrow> time \<Rightarrow> goerr + time" where
  "parse_since ac s now_time =
     (case (if s \<noteq> [] \<and> last s = CHR ''d'' then (case atoi (butlast s) of Some n \<Rightarrow> if n \<ge> 0 then Some n else None | None \<Rightarrow> None)
            else None) of
        Some n \<Rightarrow> Inr (ac_add_days ac now_time (- n))
      | None \<Rightarrow>
          (case (case ac_duration ac s of Some d \<Rightarrow> if d \<ge> 0 then Some d else None | None \<Rightarrow> None) of
             Some d \<Rightarrow> Inr (now_time - d)
           | None \<Rightarrow>
               (case ac_rfc3339 ac s of
                  Some t \<Rightarrow> Inr t
                | None \<Rightarrow>
                    (case ac_date ac s of
                       Some t \<Rightarrow> Inr t
                     | None \<Rightarrow> Inl (Plain (''could not read '' @ quoted s @
                         '' as a date: use 30d, 12h, 2026-08-01, or an RFC 3339 instant''))))))"


section \<open>Runs\<close>

record run_summary_dto =
  rd_id :: string
  rd_plan_name :: string
  rd_plan_id :: string
  rd_source_workload_id :: string
  rd_source_name :: string
  rd_state :: run_state
  rd_result :: run_result
  rd_started_at :: time
  rd_completed_at :: "time option"
  rd_rto_seconds :: f64
  rd_rto :: string
  rd_rto_target_seconds :: f64
  rd_rto_exceeded :: bool
  rd_cleanup_done :: bool
  rd_proof_level :: proof_level

definition new_run_summary_dto :: "number_text \<Rightarrow> run_summary \<Rightarrow> run_summary_dto" where
  "new_run_summary_dto nt r =
     \<lparr>rd_id = rs_id r, rd_plan_name = rs_plan_name r, rd_plan_id = rs_plan_id r,
      rd_source_workload_id = rs_source_workload_id r, rd_source_name = rs_source_name r, rd_state = rs_state r,
      rd_result = rs_result r, rd_started_at = rs_started_at r,
      rd_completed_at = (if is_zero (rs_completed_at r) then None else Some (rs_completed_at r)),
      rd_rto_seconds = dur_seconds (rs_rto r), rd_rto = format_duration nt (rs_rto r),
      rd_rto_target_seconds = dur_seconds (rs_rto_target r),
      rd_rto_exceeded = (rs_rto_target r > 0 \<and> rs_rto r > rs_rto_target r), rd_cleanup_done = rs_cleanup_done r,
      rd_proof_level = rs_proof_level r\<rparr>"

record event_dto =
  ed_seq :: int
  ed_at :: time
  ed_state :: run_state
  ed_step :: string
  ed_status :: "step_status option"
  ed_message :: string
  ed_check :: "check_dto option"
  ed_err :: string

definition new_event_dto :: "number_text \<Rightarrow> stored_event \<Rightarrow> event_dto" where
  "new_event_dto nt e =
     \<lparr>ed_seq = se_seq e, ed_at = se_at e, ed_state = se_state e, ed_step = se_step e, ed_status = se_status e,
      ed_message = se_message e, ed_check = map_option (new_check_dto nt) (se_check e), ed_err = se_err e\<rparr>"

text \<open>
  A state or a result the client names is upper-cased and compared as text; a text that is no state's
  finds no run.
\<close>

definition run_states :: "run_state list" where
  "run_states = [RunNoState, RunQueued, RunDiscoveringBackup, RunPreparing, RunRestoring, RunStarting, RunWaitingForGuest,
     RunRunningChecks, RunGeneratingReport, RunCleaningUp, RunSuccess, RunFailed, RunCancelled, RunCleanupFailed,
     RunInconclusive]"

definition state_named :: "string \<Rightarrow> run_state option" where
  "state_named t = find (\<lambda>st. state_text st = t) run_states"

definition result_named :: "string \<Rightarrow> run_result option" where
  "result_named t = find (\<lambda>r. result_string r = t) [ResultNone, ResultSuccess, ResultDegraded, ResultFailed]"

record run_query =
  rq_limit :: string
  rq_workload :: string
  rq_state :: string
  rq_result :: string
  rq_since :: string
  rq_cursor :: string

definition since_of :: "api_codec \<Rightarrow> time \<Rightarrow> run_query \<Rightarrow> goerr + time" where
  "since_of ac now_time q = (if rq_since q = [] then Inr zero_time else parse_since ac (rq_since q) now_time)"

definition cursor_of :: "api_codec \<Rightarrow> run_query \<Rightarrow> goerr + position option" where
  "cursor_of ac q =
     (if rq_cursor q = [] then Inr None
      else case decode_cursor ac (rq_cursor q) of Inl e \<Rightarrow> Inl e | Inr p \<Rightarrow> Inr (Some p))"

definition listed_runs :: "run_query \<Rightarrow> int \<Rightarrow> time \<Rightarrow> position option \<Rightarrow> db \<Rightarrow> run_summary list" where
  "listed_runs q limit since after s =
     (case (state_named (to_upper (rq_state q)), result_named (to_upper (rq_result q))) of
        (Some st, Some r) \<Rightarrow>
          list_runs \<lparr>fi_workload_id = rq_workload q, fi_state = st, fi_result = r, fi_since = since,
            fi_limit = limit + 1, fi_after = after, fi_not_terminal = False\<rparr> s
      | _ \<Rightarrow> [])"

definition runs_page :: "api_codec \<Rightarrow> int \<Rightarrow> run_summary list \<Rightarrow> run_summary_dto page" where
  "runs_page ac limit runs =
     (if int (length runs) > limit then
        (let r = runs ! nat (limit - 1) in
         \<lparr>pg_items = map (new_run_summary_dto (ac_numbers ac)) (take (nat limit) runs),
          pg_next_cursor = encode_cursor ac \<lparr>po_started_at = rs_started_at r, po_id = rs_id r\<rparr>\<rparr>)
      else \<lparr>pg_items = map (new_run_summary_dto (ac_numbers ac)) runs, pg_next_cursor = []\<rparr>)"

definition handle_list_runs :: "api_codec \<Rightarrow> time \<Rightarrow> run_query \<Rightarrow> db \<Rightarrow> run_summary_dto page answer" where
  "handle_list_runs ac now_time q s =
     (case parse_limit (rq_limit q) of
        Inl e \<Rightarrow> Inl (bad_request (err_text e))
      | Inr limit \<Rightarrow>
          (case since_of ac now_time q of
             Inl e \<Rightarrow> Inl (bad_request (err_text e))
           | Inr since \<Rightarrow>
               (case cursor_of ac q of
                  Inl e \<Rightarrow> Inl (bad_request (err_text e))
                | Inr after \<Rightarrow> Inr (200, runs_page ac limit (listed_runs q limit since after s)))))"

definition resolve_run :: "dialect \<Rightarrow> string \<Rightarrow> db \<Rightarrow> problem + recovery_run" where
  "resolve_run d ref s =
     (case get_stored_run d ref s of
        Inl e \<Rightarrow>
          Inl (if errors_is e StoreNotFound
               then (problem_for e)\<lparr>pb_detail := scrub_secrets (''no recorded drill matches '' @ quoted ref)\<rparr>
               else problem_for e)
      | Inr run \<Rightarrow> Inr run)"

definition handle_get_run :: "api_codec \<Rightarrow> dialect \<Rightarrow> time \<Rightarrow> string \<Rightarrow> db \<Rightarrow> document answer" where
  "handle_get_run ac d now_time ref s =
     (case resolve_run d ref s of
        Inl p \<Rightarrow> Inl p | Inr run \<Rightarrow> Inr (200, new_document (ac_numbers ac) now_time run))"

definition handle_run_events :: "api_codec \<Rightarrow> dialect \<Rightarrow> string \<Rightarrow> string \<Rightarrow> db \<Rightarrow> event_dto page answer" where
  "handle_run_events ac d ref after s =
     (case resolve_run d ref s of
        Inl p \<Rightarrow> Inl p
      | Inr run \<Rightarrow>
          (case (if after = [] then Some 0 else case atoi after of Some n \<Rightarrow> if n < 0 then None else Some n | None \<Rightarrow> None) of
             None \<Rightarrow> Inl (bad_request ''after must be a sequence number'')
           | Some n \<Rightarrow>
               Inr (200, \<lparr>pg_items = map (new_event_dto (ac_numbers ac)) (events_after (run_id run) n s),
                 pg_next_cursor = []\<rparr>)))"

datatype report_body = JsonReport document | HtmlReport string

definition handle_run_report :: "api_codec \<Rightarrow> dialect \<Rightarrow> time \<Rightarrow> string \<Rightarrow> string \<Rightarrow> db \<Rightarrow> report_body answer" where
  "handle_run_report ac d now_time ref format s =
     (let format = (if format = [] then ''json'' else format) in
      if format \<noteq> ''json'' \<and> format \<noteq> ''html'' then Inl (bad_request ''format must be json or html'')
      else
        (case resolve_run d ref s of
           Inl p \<Rightarrow> Inl p
         | Inr run \<Rightarrow>
             if format = ''json'' then Inr (200, JsonReport (new_document (ac_numbers ac) now_time run))
             else (case ac_html ac run of Inl e \<Rightarrow> Inl (problem_for e) | Inr text \<Rightarrow> Inr (200, HtmlReport text))))"


section \<open>Plans\<close>

record plan_dto =
  qd_id :: string
  qd_name :: string
  qd_description :: string
  qd_workload_id :: string
  qd_provider_id :: string
  qd_version :: int
  qd_created_at :: time
  qd_updated_at :: time
  qd_yaml :: string

definition new_plan_dto :: "stored_plan \<Rightarrow> bool \<Rightarrow> plan_dto" where
  "new_plan_dto p with_document =
     \<lparr>qd_id = sp_id p, qd_name = sp_name p, qd_description = sp_description p, qd_workload_id = sp_workload_id p,
      qd_provider_id = sp_provider_id p, qd_version = sp_version p, qd_created_at = sp_created_at p,
      qd_updated_at = sp_updated_at p, qd_yaml = (if with_document then sp_yaml p else [])\<rparr>"

definition problem_for_plan :: "goerr \<Rightarrow> problem" where
  "problem_for_plan e =
     (if errors_is e StoreNotFound then new_problem ''not-found'' ''No such plan'' 404 (err_text e)
      else if errors_is e StoreAmbiguous then new_problem ''ambiguous-id'' ''Ambiguous plan id'' 409
        ''that prefix matches more than one plan: give a few more characters, or use the name''
      else problem_for e)"

text \<open>The body is what could be read of it, \<open>None\<close> when it could not.\<close>

definition max_request_body :: nat where "max_request_body = 65536"

definition read_document :: "string option \<Rightarrow> problem + string" where
  "read_document body =
     (case body of
        None \<Rightarrow> Inl (bad_request ''the body could not be read'')
      | Some b \<Rightarrow>
          (let document = take max_request_body b in
           if document = [] then Inl (bad_request ''the body must carry the plan document'') else Inr document))"

definition parse_expected_version :: "string \<Rightarrow> goerr + int" where
  "parse_expected_version raw =
     (if raw = [] then Inr 0
      else case atoi raw of
             None \<Rightarrow> Inl (Plain ''version must be a positive integer: it is the version you expect this plan to be at'')
           | Some n \<Rightarrow>
               if n \<le> 0
               then Inl (Plain ''version must be a positive integer: it is the version you expect this plan to be at'')
               else Inr n)"

definition handle_list_plans :: "'s plan_ops \<Rightarrow> string \<Rightarrow> string \<Rightarrow> 's \<Rightarrow> plan_dto page answer" where
  "handle_list_plans ops raw_limit workload s =
     (case parse_limit raw_limit of
        Inl e \<Rightarrow> Inl (bad_request (err_text e))
      | Inr limit \<Rightarrow>
          Inr (200, \<lparr>pg_items = map (\<lambda>p. new_plan_dto p False) (po_list ops workload limit s), pg_next_cursor = []\<rparr>))"

datatype plan_body = PlanJson plan_dto | PlanYaml string

definition handle_get_plan :: "'s plan_ops \<Rightarrow> string \<Rightarrow> string \<Rightarrow> 's \<Rightarrow> plan_body answer" where
  "handle_get_plan ops ref format s =
     (case po_get ops ref s of
        Inl e \<Rightarrow> Inl (problem_for_plan e)
      | Inr p \<Rightarrow> Inr (200, if format = ''yaml'' then PlanYaml (sp_yaml p) else PlanJson (new_plan_dto p True)))"

definition handle_create_plan ::
  "'s plan_ops \<Rightarrow> ('c, 'l) plan_reader \<Rightarrow> string \<Rightarrow> time \<Rightarrow> string option \<Rightarrow> 's \<Rightarrow> plan_dto answer \<times> 's" where
  "handle_create_plan ops rd new_id t body s =
     (case read_document body of
        Inl p \<Rightarrow> (Inl p, s)
      | Inr document \<Rightarrow>
          (case save_plan ops rd new_id t document create_only s of
             (Inl e, s') \<Rightarrow> (Inl (problem_for_plan e), s')
           | (Inr (p, _), s') \<Rightarrow> (Inr (201, new_plan_dto p True), s')))"

definition handle_update_plan ::
  "'s plan_ops \<Rightarrow> ('c, 'l) plan_reader \<Rightarrow> string \<Rightarrow> time \<Rightarrow> string \<Rightarrow> string \<Rightarrow> string option \<Rightarrow> 's \<Rightarrow> plan_dto answer \<times> 's" where
  "handle_update_plan ops rd new_id t ref version body s =
     (case parse_expected_version version of
        Inl e \<Rightarrow> (Inl (bad_request (err_text e)), s)
      | Inr expected \<Rightarrow>
          (case po_get ops ref s of
             Inl e \<Rightarrow> (Inl (problem_for_plan e), s)
           | Inr current \<Rightarrow>
               (case read_document body of
                  Inl p \<Rightarrow> (Inl p, s)
                | Inr document \<Rightarrow>
                    (case document_name rd document of
                       Inl e \<Rightarrow> (Inl (problem_for_plan e), s)
                     | Inr name \<Rightarrow>
                         if name \<noteq> sp_name current then
                           (Inl (new_problem ''rename-not-supported'' ''A plan cannot be renamed in place'' 409
                              (''the document names '' @ name @ '', but this URL is '' @ sp_name current @
                               ''; delete the old plan and create the new one'')), s)
                         else
                           (case save_plan ops rd new_id t document expected s of
                              (Inl e, s') \<Rightarrow> (Inl (problem_for_plan e), s')
                            | (Inr (p, _), s') \<Rightarrow> (Inr (200, new_plan_dto p True), s'))))))"

definition handle_delete_plan :: "'s plan_ops \<Rightarrow> string \<Rightarrow> 's \<Rightarrow> unit answer \<times> 's" where
  "handle_delete_plan ops ref s =
     (case remove_plan ops ref s of
        (Inl e, s') \<Rightarrow> (Inl (problem_for_plan e), s') | (Inr _, s') \<Rightarrow> (Inr (204, ()), s'))"

definition handle_validate_plan :: "('c, 'l) plan_reader \<Rightarrow> string option \<Rightarrow> validated answer" where
  "handle_validate_plan rd body =
     (case read_document body of
        Inl p \<Rightarrow> Inl p
      | Inr document \<Rightarrow>
          (case validate_document rd document of Inl e \<Rightarrow> Inl (problem_for_plan e) | Inr v \<Rightarrow> Inr (200, v)))"


section \<open>Operating a drill\<close>

record trigger_body =
  tb_plan :: string
  tb_workload_id :: string
  tb_provider :: string
  tb_backup :: string
  tb_checks :: "string list"
  tb_network :: string
  tb_node :: string
  tb_storage :: string
  tb_pool :: string
  tb_rto_target :: string
  tb_skip_startup :: bool

definition adhoc_fields :: "trigger_body \<Rightarrow> string list" where
  "adhoc_fields b =
     order_by str_le_code (map fst (filter snd
       [(''workload_id'', tb_workload_id b \<noteq> []), (''provider'', tb_provider b \<noteq> []), (''backup'', tb_backup b \<noteq> []),
        (''checks'', tb_checks b \<noteq> []), (''network'', tb_network b \<noteq> []), (''node'', tb_node b \<noteq> []),
        (''storage'', tb_storage b \<noteq> []), (''pool'', tb_pool b \<noteq> []), (''rto_target'', tb_rto_target b \<noteq> []),
        (''skip_startup'', tb_skip_startup b)]))"

definition default_provider :: "config option \<Rightarrow> string" where
  "default_provider cfg = (case cfg of None \<Rightarrow> [] | Some c \<Rightarrow> df_provider (cf_defaults c))"

definition body_options :: "config option \<Rightarrow> trigger_body \<Rightarrow> duration \<Rightarrow> adhoc_options" where
  "body_options cfg b rto =
     \<lparr>ao_workload_id = tb_workload_id b,
      ao_provider_id = (if tb_provider b = [] then default_provider cfg else tb_provider b),
      ao_backup_provider = [], ao_backup = tb_backup b, ao_node = tb_node b, ao_storage = tb_storage b,
      ao_pool = tb_pool b, ao_network = tb_network b, ao_checks = tb_checks b, ao_check_retries = 0,
      ao_check_interval = 0, ao_startup_timeout = 0, ao_rto_target = rto, ao_cpu_limit = 0, ao_memory_limit_mb = 0,
      ao_skip_startup = tb_skip_startup b\<rparr>"

definition adhoc_plan_for_trigger ::
  "api_codec \<Rightarrow> ('c, 'l) plan_reader \<Rightarrow> config option \<Rightarrow> trigger_body \<Rightarrow> problem + plan" where
  "adhoc_plan_for_trigger ac rd cfg b =
     (if tb_workload_id b = [] then Inl (bad_request ''workload_id is required: it names what to recovery-test'')
      else case (if tb_rto_target b = [] then Some 0 else ac_duration ac (tb_rto_target b)) of
             None \<Rightarrow> Inl (bad_request ''rto_target must be a duration such as 5m'')
           | Some rto \<Rightarrow>
               (case adhoc_plan rd (body_options cfg b rto) of
                  Inl e \<Rightarrow> Inl (bad_request (err_text e)) | Inr p \<Rightarrow> Inr p))"

definition plan_for_trigger ::
  "api_codec \<Rightarrow> 's plan_ops \<Rightarrow> ('c, 'l) plan_reader \<Rightarrow> config option \<Rightarrow> trigger_body \<Rightarrow> 's \<Rightarrow> problem + plan \<times> stored_plan option" where
  "plan_for_trigger ac ops rd cfg b s =
     (if tb_plan b = [] then
        (case adhoc_plan_for_trigger ac rd cfg b of Inl p \<Rightarrow> Inl p | Inr p \<Rightarrow> Inr (p, None))
      else if adhoc_fields b \<noteq> [] then
        Inl (bad_request (''a request either names a plan or describes a drill, not both: drop '' @
          join '', '' (adhoc_fields b) @ '', or drop '' @ quoted ''plan''))
      else case resolve_plan ops rd (tb_plan b) s of
             Inl e \<Rightarrow> Inl (problem_for_plan e) | Inr (row, p) \<Rightarrow> Inr (p, Some row))"

definition new_run_dto :: "number_text \<Rightarrow> recovery_run \<Rightarrow> run_summary_dto" where
  "new_run_dto nt r = new_run_summary_dto nt
     \<lparr>rs_id = run_id r, rs_plan_name = run_plan_name r, rs_plan_id = run_plan_id r,
      rs_source_workload_id = run_source_workload_id r, rs_source_name = run_source_name r, rs_state = run_state r,
      rs_result = run_result r, rs_started_at = run_started_at r, rs_completed_at = run_completed_at r,
      rs_rto = run_rto r, rs_rto_target = run_rto_target r, rs_cleanup_done = run_cleanup_done r,
      rs_proof_level = ProofUnknown\<rparr>"

definition new_queued_dto :: "number_text \<Rightarrow> recovery_run \<Rightarrow> time \<Rightarrow> run_summary_dto" where
  "new_queued_dto nt r t = (new_run_dto nt r)\<lparr>rd_started_at := t\<rparr>"

text \<open>The body is \<open>None\<close> when it is not the JSON that is expected.\<close>

definition handle_trigger_run ::
  "api_codec \<Rightarrow> dialect \<Rightarrow> goerr \<Rightarrow> ('c, 'l) plan_reader \<Rightarrow> (plan \<Rightarrow> goerr + string) \<Rightarrow> config option \<Rightarrow> string \<Rightarrow> time \<Rightarrow>
   trigger_body option \<Rightarrow> db \<Rightarrow> run_summary_dto answer \<times> db" where
  "handle_trigger_run ac d ce rd marshal cfg new_id t body s =
     (case body of
        None \<Rightarrow> (Inl (bad_request ''the body is not the JSON this endpoint expects''), s)
      | Some b \<Rightarrow>
          (case plan_for_trigger ac (sql_plans d ce) rd cfg b s of
             Inl p \<Rightarrow> (Inl p, s)
           | Inr (p, stored) \<Rightarrow>
               (case enqueue_drill marshal ce \<lparr>tq_plan = Some p, tq_stored = stored,
                   tq_default_provider = default_provider cfg, tq_id = new_id, tq_at = t\<rparr> s of
                  (Inl (AlreadyRunning wid rid), s') \<Rightarrow>
                    (Inl (new_problem ''already-running'' ''This workload already has a drill in flight'' 409
                       (trigger_error_text (AlreadyRunning wid rid))), s')
                | (Inl (TriggerFailed e), s') \<Rightarrow> (Inl (problem_for e), s')
                | (Inr run, s') \<Rightarrow> (Inr (201, new_queued_dto (ac_numbers ac) run t), s'))))"

definition handle_cancel_run :: "api_codec \<Rightarrow> dialect \<Rightarrow> string \<Rightarrow> time \<Rightarrow> db \<Rightarrow> run_summary_dto answer \<times> db" where
  "handle_cancel_run ac d ref t s =
     (case resolve_run d ref s of
        Inl p \<Rightarrow> (Inl p, s)
      | Inr run \<Rightarrow>
          (case request_cancel (run_id run) t s of
             (Inl e, s') \<Rightarrow> (Inl (problem_for e), s')
           | (Inr over, s') \<Rightarrow>
               (case get_stored_run d (run_id run) s' of
                  Inl e \<Rightarrow> (Inl (problem_for e), s')
                | Inr current \<Rightarrow> (Inr (if over then 200 else 202, new_run_dto (ac_numbers ac) current), s'))))"

definition api_temp_range :: "config option \<Rightarrow> string \<Rightarrow> int \<times> int" where
  "api_temp_range cfg provider =
     (case cfg of
        None \<Rightarrow> (default_temp_id_min, default_temp_id_max)
      | Some c \<Rightarrow>
          (let provider = (if provider = [] then df_provider (cf_defaults c) else provider) in
           case find (\<lambda>p. pv_id p = provider \<and> pv_temp_id_min p > 0 \<and> pv_temp_id_max p > 0) (cf_providers c) of
             None \<Rightarrow> (default_temp_id_min, default_temp_id_max)
           | Some p \<Rightarrow> (pv_temp_id_min p, pv_temp_id_max p)))"

text \<open>
  \<open>handleCleanup\<close>: the lookup of a provider and its \<open>Delete\<close>, which acts on the world, are arguments.
\<close>

definition handle_cleanup ::
  "config option \<Rightarrow> (string \<Rightarrow> goerr + (string \<Rightarrow> 'w \<Rightarrow> goerr option \<times> 'w)) \<Rightarrow> string \<Rightarrow> string \<Rightarrow> 'w \<Rightarrow>
   (string \<times> bool) answer \<times> 'w" where
  "handle_cleanup cfg hypervisor provider vmid w =
     (let (low, high) = api_temp_range cfg provider in
      if (case atoi vmid of None \<Rightarrow> True | Some n \<Rightarrow> n < low \<or> n > high) then
        (Inl (bad_request (''refusing to clean up '' @ quoted vmid @
           '': RestoreLab only ever creates workloads in its reserved range '' @ itoa low @ ''-'' @ itoa high @
           '', so anything outside it is not one of ours'')), w)
      else case hypervisor provider of
             Inl e \<Rightarrow> (Inl (problem_for_upstream e), w)
           | Inr delete \<Rightarrow>
               (case delete vmid w of
                  (Some e, w') \<Rightarrow> (Inl (problem_for_upstream e), w')
                | (None, w') \<Rightarrow> (Inr (200, (vmid, True)), w')))"

record queue_entry_dto =
  qe_run :: run_summary_dto
  qe_worker :: string
  qe_lease_expires_at :: "time option"

definition new_queue_entry_dto :: "number_text \<Rightarrow> db \<Rightarrow> run_summary \<Rightarrow> queue_entry_dto" where
  "new_queue_entry_dto nt s r =
     (case run_lease (rs_id r) s of
        Inl e \<Rightarrow> \<lparr>qe_run = new_run_summary_dto nt r, qe_worker = [], qe_lease_expires_at = None\<rparr>
      | Inr (owner, expires) \<Rightarrow>
          \<lparr>qe_run = new_run_summary_dto nt r, qe_worker = owner,
           qe_lease_expires_at = (if is_zero expires then None else Some expires)\<rparr>)"

definition handle_queue :: "api_codec \<Rightarrow> string \<Rightarrow> db \<Rightarrow> queue_entry_dto page answer" where
  "handle_queue ac raw_limit s =
     (case parse_limit raw_limit of
        Inl e \<Rightarrow> Inl (bad_request (err_text e))
      | Inr limit \<Rightarrow>
          Inr (200, \<lparr>pg_items = map (new_queue_entry_dto (ac_numbers ac) s)
            (list_runs \<lparr>fi_workload_id = [], fi_state = RunNoState, fi_result = ResultNone, fi_since = zero_time,
               fi_limit = limit, fi_after = None, fi_not_terminal = True\<rparr> s), pg_next_cursor = []\<rparr>))"

end
