(* ===== verification/Api_Views.thy ===== *)
theory Api_Views
  imports Api Access
begin

text \<open>
  internal/api over the cluster and the calendar: the workloads and their confidence (workloads.go), the
  schedule (schedule.go), and the first-run set-up (setup.go), whose console token is spent once however the
  requests interleave.
\<close>

section \<open>Workloads\<close>

record workload_status_dto =
  wsd_power_state :: power_state
  wsd_uptime_seconds :: f64
  wsd_agent_ready :: bool
  wsd_ips :: "string list"
  wsd_cpu_usage :: f64
  wsd_memory_bytes :: int

record workload_dto =
  wd_workload :: workload
  wd_last_run_id :: string
  wd_last_run_at :: "time option"
  wd_last_run_state :: run_state
  wd_last_run_result :: run_result
  wd_last_run_proof :: proof_level
  wd_status :: "workload_status_dto option"

definition new_workload_dto :: "workload \<Rightarrow> workload_dto" where
  "new_workload_dto w =
     \<lparr>wd_workload = w, wd_last_run_id = [], wd_last_run_at = None, wd_last_run_state = RunNoState,
      wd_last_run_result = ResultNone, wd_last_run_proof = ProofUnknown, wd_status = None\<rparr>"

definition apply_last_run :: "run_summary \<Rightarrow> workload_dto \<Rightarrow> workload_dto" where
  "apply_last_run r d =
     d\<lparr>wd_last_run_id := rs_id r, wd_last_run_state := rs_state r, wd_last_run_result := rs_result r,
       wd_last_run_proof := rs_proof_level r,
       wd_last_run_at := (if is_zero (rs_started_at r) then wd_last_run_at d else Some (rs_started_at r))\<rparr>"

text \<open>The history is read through \<open>LastRuns\<close>, or fails.\<close>

definition with_last_runs ::
  "(string list \<Rightarrow> goerr + (string \<rightharpoonup> run_summary)) \<Rightarrow> workload_dto list \<Rightarrow> workload_dto list" where
  "with_last_runs last_of items =
     (if items = [] then []
      else case last_of (map (\<lambda>d. wl_id (wd_workload d)) items) of
             Inl e \<Rightarrow> items
           | Inr m \<Rightarrow> map (\<lambda>d. case m (wl_id (wd_workload d)) of None \<Rightarrow> d | Some r \<Rightarrow> apply_last_run r d) items)"

definition new_workload_status_dto :: "workload_status option \<Rightarrow> workload_status_dto option" where
  "new_workload_status_dto st =
     map_option (\<lambda>s. \<lparr>wsd_power_state = ws_power_state s, wsd_uptime_seconds = dur_seconds (ws_uptime s),
       wsd_agent_ready = ws_agent_ready s, wsd_ips = ws_ips s, wsd_cpu_usage = ws_cpu_usage s,
       wsd_memory_bytes = ws_memory_bytes s\<rparr>) st"

definition provider_problem :: "string \<Rightarrow> goerr option \<Rightarrow> problem" where
  "provider_problem i e =
     (let detail = (case e of None \<Rightarrow> ''no provider is configured for this operation'' | Some e \<Rightarrow> err_text e) in
      if i \<noteq> [] then new_problem ''no-such-provider'' ''No such provider'' 404
        (''no usable provider '' @ quoted i @ '': '' @ detail)
      else new_problem ''provider-unavailable'' ''No usable provider'' 503 detail)"

text \<open>
  What the handlers ask of a cluster: the inventory, one workload and its status, and the backups. A set of
  providers answers an error, or a provider that may be missing.
\<close>

record hypervisor_api =
  hv_workloads :: "goerr + workload list"
  hv_workload :: "string \<Rightarrow> goerr + workload"
  hv_status :: "string \<Rightarrow> goerr + workload_status option"

record backup_api =
  ba_backups :: "string \<Rightarrow> goerr + backup list"
  ba_latest :: "string \<Rightarrow> goerr + backup option"

definition usable :: "string \<Rightarrow> goerr + 'p option \<Rightarrow> problem + 'p" where
  "usable i r =
     (case r of Inl e \<Rightarrow> Inl (provider_problem i (Some e)) | Inr None \<Rightarrow> Inl (provider_problem i None)
      | Inr (Some p) \<Rightarrow> Inr p)"

definition handle_list_workloads ::
  "(string \<Rightarrow> goerr + hypervisor_api option) \<Rightarrow> (string list \<Rightarrow> goerr + (string \<rightharpoonup> run_summary)) \<Rightarrow> string \<Rightarrow> string \<Rightarrow>
   workload_dto page answer" where
  "handle_list_workloads hypervisors last_of provider temporary =
     (case usable provider (hypervisors provider) of
        Inl p \<Rightarrow> Inl p
      | Inr hv \<Rightarrow>
          (case hv_workloads hv of
             Inl e \<Rightarrow> Inl (problem_for_upstream e)
           | Inr ws \<Rightarrow>
               Inr (200, \<lparr>pg_items = with_last_runs last_of (map new_workload_dto
                  (filter (\<lambda>w. \<not> wl_template w \<and> (\<not> wl_managed w \<or> temporary = ''true'')) ws)),
                  pg_next_cursor = []\<rparr>)))"

definition handle_get_workload ::
  "(string \<Rightarrow> goerr + hypervisor_api option) \<Rightarrow> (string list \<Rightarrow> goerr + (string \<rightharpoonup> run_summary)) \<Rightarrow> string \<Rightarrow> string \<Rightarrow>
   workload_dto answer" where
  "handle_get_workload hypervisors last_of provider i =
     (case usable provider (hypervisors provider) of
        Inl p \<Rightarrow> Inl p
      | Inr hv \<Rightarrow>
          (case hv_workload hv i of
             Inl e \<Rightarrow> Inl (problem_for_upstream e)
           | Inr w \<Rightarrow>
               (let d = (case hv_status hv (wl_id w) of
                    Inl _ \<Rightarrow> new_workload_dto w
                  | Inr st \<Rightarrow> (new_workload_dto w)\<lparr>wd_status := new_workload_status_dto st\<rparr>)
                in Inr (200, hd (with_last_runs last_of [d])))))"

definition handle_workload_backups ::
  "api_codec \<Rightarrow> (string \<Rightarrow> goerr + backup_api option) \<Rightarrow> time \<Rightarrow> time \<Rightarrow> string \<Rightarrow> string \<Rightarrow> backup_dto option page answer" where
  "handle_workload_backups ac providers wall now_time provider i =
     (case usable provider (providers provider) of
        Inl p \<Rightarrow> Inl p
      | Inr bp \<Rightarrow>
          (case (case ba_backups bp i of Inr bs \<Rightarrow> Inr bs | Inl e \<Rightarrow> if errors_is e ErrNoBackup then Inr [] else Inl e) of
             Inl e \<Rightarrow> Inl (problem_for_upstream e)
           | Inr bs \<Rightarrow>
               Inr (200, \<lparr>pg_items = map (\<lambda>b. new_backup_dto_at (ac_numbers ac) wall now_time (Some b)) bs,
                 pg_next_cursor = []\<rparr>)))"

record confidence_dto =
  cn_workload_id :: string
  cn_score :: "int option"
  cn_tested :: bool
  cn_reasons :: "string list"
  cn_last_run_id :: string
  cn_runs_considered :: int
  cn_proof_level :: "proof_level option"
  cn_proof_cap :: "int option"

definition confidence_history_depth :: int where "confidence_history_depth = 20"

definition run_from_summary :: "run_summary \<Rightarrow> recovery_run" where
  "run_from_summary r =
     \<lparr>run_id = rs_id r, run_plan_name = [], run_plan_id = [], run_plan_version = 0, run_provider_id = [],
      run_backup_provider_id = [], run_source_workload_id = rs_source_workload_id r, run_source_name = [],
      run_temp_workload_id = [], run_temp_name = [], run_node = [], run_backup = None, run_state = rs_state r,
      run_result = rs_result r, run_proof_level = rs_proof_level r, run_started_at = rs_started_at r,
      run_completed_at = rs_completed_at r, run_steps = [], run_checks = [], run_rto = rs_rto r,
      run_rto_target = rs_rto_target r, run_cleanup_done = rs_cleanup_done r, run_err = []\<rparr>"

definition confidence_runs :: "string \<Rightarrow> db \<Rightarrow> run_summary list" where
  "confidence_runs i s = list_runs \<lparr>fi_workload_id = i, fi_state = RunNoState, fi_result = ResultNone,
     fi_since = zero_time, fi_limit = confidence_history_depth, fi_after = None, fi_not_terminal = False\<rparr> s"

definition latest_backup_at :: "goerr + backup_api option \<Rightarrow> string \<Rightarrow> time" where
  "latest_backup_at bp i =
     (case bp of
        Inr (Some b) \<Rightarrow> (case ba_latest b i of Inr (Some bk) \<Rightarrow> bk_created_at bk | _ \<Rightarrow> zero_time)
      | _ \<Rightarrow> zero_time)"

definition confidence_input_of :: "run_summary list \<Rightarrow> time \<Rightarrow> time \<Rightarrow> confidence_input" where
  "confidence_input_of runs backup_at now_time =
     \<lparr>ci_last_run = (case runs of [] \<Rightarrow> None | r # _ \<Rightarrow> Some (run_from_summary r)),
      ci_history = map (\<lambda>r. Some (run_from_summary r)) (tl runs), ci_latest_backup_at = backup_at, ci_now = now_time\<rparr>"

definition handle_workload_confidence ::
  "api_codec \<Rightarrow> confidence_weights \<Rightarrow> goerr + backup_api option \<Rightarrow> time \<Rightarrow> time \<Rightarrow> string \<Rightarrow> db \<Rightarrow> confidence_dto answer" where
  "handle_workload_confidence ac weights bp wall now_time i s =
     (let runs = confidence_runs i s;
          c = score (ac_numbers ac) wall (confidence_input_of runs (latest_backup_at bp i) now_time) weights in
      Inr (200, \<lparr>cn_workload_id = i, cn_score = (if cf_tested c then Some (cf_score c) else None), cn_tested = cf_tested c,
        cn_reasons = cf_reasons c, cn_last_run_id = (if cf_tested c then rs_id (hd runs) else []),
        cn_runs_considered = int (length runs),
        cn_proof_level = (if recorded (cf_proof c) then Some (cf_proof c) else None),
        cn_proof_cap = (if recorded (cf_proof c) \<and> proof_cap weights (cf_proof c) > 0
                        then Some (proof_cap weights (cf_proof c)) else None)\<rparr>))"


section \<open>The schedule\<close>

record slot_dto =
  sd_plan_id :: string
  sd_plan_name :: string
  sd_slot_at :: time
  sd_decided_at :: time
  sd_outcome :: slot_outcome
  sd_reason :: string
  sd_run_id :: string

definition new_slot_dto :: "slot \<Rightarrow> string \<Rightarrow> slot_dto" where
  "new_slot_dto sl name =
     \<lparr>sd_plan_id = so_plan_id sl, sd_plan_name = name, sd_slot_at = so_slot_at sl, sd_decided_at = so_decided_at sl,
      sd_outcome = so_outcome sl, sd_reason = so_reason sl, sd_run_id = so_run_id sl\<rparr>"

record scheduled_plan_dto =
  sc_plan_id :: string
  sc_name :: string
  sc_workload_id :: string
  sc_schedule_text :: string
  sc_timezone :: string
  sc_next_slot_at :: "time option"
  sc_error :: string
  sc_last_slot :: "slot_dto option"

text \<open>\<open>scheduledPlan\<close>: the answer of \<open>LastSlot\<close> for the plan is an argument. \<open>None\<close>: not scheduled.\<close>

definition scheduled_plan ::
  "('c, 'l) plan_reader \<Rightarrow> (string \<Rightarrow> goerr + slot) \<Rightarrow> stored_plan \<Rightarrow> time \<Rightarrow> scheduled_plan_dto option" where
  "scheduled_plan rd last_of row now_time =
     (let dto = \<lparr>sc_plan_id = sp_id row, sc_name = sp_name row, sc_workload_id = sp_workload_id row,
          sc_schedule_text = [], sc_timezone = [], sc_next_slot_at = None, sc_error = [], sc_last_slot = None\<rparr> in
      case parse_yaml rd (sp_yaml row) of
        Inl e \<Rightarrow> Some (dto\<lparr>sc_error := ''the stored plan is not valid: '' @ err_text e\<rparr>)
      | Inr p \<Rightarrow>
          (let dto = dto\<lparr>sc_schedule_text := pl_schedule p, sc_timezone := pl_schedule_timezone p\<rparr> in
           case parse_schedule (pd_sched rd) (pl_schedule p) (pl_schedule_timezone p) of
             Inl e \<Rightarrow> Some (dto\<lparr>sc_error := err_text e\<rparr>)
           | Inr None \<Rightarrow> None
           | Inr (Some sched) \<Rightarrow>
               (case last_of (sp_id row) of
                  Inr l \<Rightarrow>
                    Some (dto\<lparr>sc_last_slot := Some (new_slot_dto l (sp_name row)),
                      sc_next_slot_at := Some (schedule_next (pd_sched rd) sched
                        (if so_slot_at l > now_time then so_slot_at l else now_time))\<rparr>)
                | Inl e \<Rightarrow>
                    Some (dto\<lparr>sc_error := (if errors_is e StoreNotFound then []
                                           else ''the last slot could not be read: '' @ err_text e),
                      sc_next_slot_at := Some (schedule_next (pd_sched rd) sched now_time)\<rparr>))))"

definition handle_get_schedule ::
  "'s plan_ops \<Rightarrow> ('c, 'l) plan_reader \<Rightarrow> (string \<Rightarrow> goerr + slot) \<Rightarrow> time \<Rightarrow> 's \<Rightarrow> scheduled_plan_dto page answer" where
  "handle_get_schedule ops rd last_of now_time s =
     Inr (200, \<lparr>pg_items = List.map_filter (\<lambda>row. scheduled_plan rd last_of row now_time) (po_list ops [] 0 s),
       pg_next_cursor = []\<rparr>)"

text \<open>The names are looked up once per plan; a plan that cannot be read has no name here.\<close>

fun slot_dtos :: "'s plan_ops \<Rightarrow> 's \<Rightarrow> (string \<rightharpoonup> string) \<Rightarrow> slot list \<Rightarrow> slot_dto list" where
  "slot_dtos ops s names [] = []"
| "slot_dtos ops s names (sl # sls) =
     (case names (so_plan_id sl) of
        Some name \<Rightarrow> new_slot_dto sl name # slot_dtos ops s names sls
      | None \<Rightarrow>
          (let name = (case po_get ops (so_plan_id sl) s of Inl _ \<Rightarrow> [] | Inr row \<Rightarrow> sp_name row) in
           new_slot_dto sl name # slot_dtos ops s (names(so_plan_id sl \<mapsto> name)) sls))"

definition handle_list_slots :: "dialect \<Rightarrow> goerr \<Rightarrow> string \<Rightarrow> string \<Rightarrow> string \<Rightarrow> db \<Rightarrow> slot_dto page answer" where
  "handle_list_slots d ce workload plan raw_limit s =
     (case (if plan = [] then Inr [] else case get_plan d plan s of Inl e \<Rightarrow> Inl e | Inr row \<Rightarrow> Inr (sp_id row)) of
        Inl e \<Rightarrow> Inl (problem_for_plan e)
      | Inr pid \<Rightarrow>
          (case (if raw_limit = [] then Some 0
                 else case atoi raw_limit of Some n \<Rightarrow> if n < 1 then None else Some n | None \<Rightarrow> None) of
             None \<Rightarrow> Inl (bad_request ''limit must be a positive whole number'')
           | Some n \<Rightarrow>
               Inr (200, \<lparr>pg_items = slot_dtos (sql_plans d ce) s Map.empty (list_slots pid workload n s),
                 pg_next_cursor = []\<rparr>)))"


section \<open>First-run set-up\<close>

record setup_request =
  sr_endpoint :: string
  sr_admin_user :: string
  sr_admin_password :: string
  sr_storages :: "string list"
  sr_insecure :: bool
  sr_fingerprint :: string
  sr_create_bridge :: bool
  sr_apply_bridge :: bool

record setup_note =
  sn_description :: string
  sn_status :: string
  sn_detail :: string

record setup_result =
  st_steps :: "setup_note list"
  st_provider_id :: string
  st_node :: string
  st_bridge :: string
  st_bridge_applied :: bool
  st_token :: string
  st_token_name :: string

text \<open>
  The part of the server the set-up owns: the live console token, and the channel that is closed once. The
  world is what \<open>Connect\<close> acts on.
\<close>

record setup_server =
  ss_token :: string
  ss_done :: bool

definition match_locked :: "string \<Rightarrow> setup_server \<Rightarrow> bool" where
  "match_locked offered s \<longleftrightarrow> ss_token s \<noteq> [] \<and> offered \<noteq> [] \<and> ss_token s = offered"

definition consume_setup_token :: "string \<Rightarrow> setup_server \<Rightarrow> bool \<times> setup_server" where
  "consume_setup_token offered s = (if match_locked offered s then (True, s\<lparr>ss_token := []\<rparr>) else (False, s))"

datatype setup_answer =
    SetupRefused problem
  | SetupFailed problem "setup_note list"
  | SetupDone setup_result

definition offered_token :: "request \<Rightarrow> string" where
  "offered_token r = (case bearer_token (hq_authorization r) of None \<Rightarrow> [] | Some t \<Rightarrow> t)"

text \<open>Before the token is spent: the transport, the token, the body, in this order.\<close>

definition admit_setup :: "api_env \<Rightarrow> request \<Rightarrow> setup_request option \<Rightarrow> setup_server \<Rightarrow> problem + setup_request" where
  "admit_setup ae r body s =
     (if \<not> secure_transport ae r then
        Inl (bad_request (''refusing to set up over plain HTTP from another machine: '' @
          ''put TLS in front of RestoreLab, or open this from the machine serving it''))
      else if \<not> match_locked (offered_token r) s then Inl unauthorized
      else case body of
             None \<Rightarrow> Inl (bad_request ''the body is not the JSON this endpoint expects'')
           | Some req \<Rightarrow>
               if sr_storages req = [] then
                 Inl (bad_request (''at least one storage is required: it is where a drill restores its clone, '' @
                   ''and without one no real drill can run''))
               else Inr req)"

definition settle_setup :: "(goerr \<times> setup_result option) + setup_result \<Rightarrow> setup_server \<Rightarrow> setup_answer \<times> setup_server" where
  "settle_setup outcome s =
     (case outcome of
        Inl (e, partial) \<Rightarrow>
          (SetupFailed (new_problem ''setup-failed'' ''The cluster could not be set up'' 502 (err_text e))
             (case partial of None \<Rightarrow> [] | Some r \<Rightarrow> st_steps r), s)
      | Inr r \<Rightarrow> (SetupDone r, s\<lparr>ss_done := True\<rparr>))"

definition handle_setup ::
  "api_env \<Rightarrow> (setup_request \<Rightarrow> 'w \<Rightarrow> ((goerr \<times> setup_result option) + setup_result) \<times> 'w) \<Rightarrow> request \<Rightarrow>
   setup_request option \<Rightarrow> setup_server \<times> 'w \<Rightarrow> setup_answer \<times> setup_server \<times> 'w" where
  "handle_setup ae connect r body sw =
     (case sw of (s, w) \<Rightarrow>
        (case admit_setup ae r body s of
           Inl p \<Rightarrow> (SetupRefused p, s, w)
         | Inr req \<Rightarrow>
             (case consume_setup_token (offered_token r) s of
                (False, s) \<Rightarrow> (SetupRefused unauthorized, s, w)
              | (True, s) \<Rightarrow>
                  (case connect req w of
                     (outcome, w) \<Rightarrow> (case settle_setup outcome s of (answer, s) \<Rightarrow> (answer, s, w))))))"

text \<open>
  The requests of a server run side by side; the lock makes each look at the token one step. A request that
  was admitted waits, then spends the token and connects, or is turned away.
\<close>

record setup_world =
  sw_server :: setup_server
  sw_admitted :: "(request \<times> setup_request) list"
  sw_connecting :: "(request \<times> setup_request) list"
  sw_connects :: "(request \<times> setup_request) list"

inductive setup_moves :: "api_env \<Rightarrow> setup_world \<Rightarrow> setup_world \<Rightarrow> bool" for ae where
  admit: "admit_setup ae r body (sw_server w) = Inr req \<Longrightarrow>
    setup_moves ae w (w\<lparr>sw_admitted := (r, req) # sw_admitted w\<rparr>)"
| spend: "(r, req) \<in> set (sw_admitted w) \<Longrightarrow> consume_setup_token (offered_token r) (sw_server w) = (True, s) \<Longrightarrow>
    setup_moves ae w (w\<lparr>sw_server := s, sw_admitted := remove1 (r, req) (sw_admitted w),
      sw_connecting := (r, req) # sw_connecting w, sw_connects := (r, req) # sw_connects w\<rparr>)"
| refuse: "(r, req) \<in> set (sw_admitted w) \<Longrightarrow> consume_setup_token (offered_token r) (sw_server w) = (False, s) \<Longrightarrow>
    setup_moves ae w (w\<lparr>sw_server := s, sw_admitted := remove1 (r, req) (sw_admitted w)\<rparr>)"
| settle: "(r, req) \<in> set (sw_connecting w) \<Longrightarrow> settle_setup outcome (sw_server w) = (answer, s) \<Longrightarrow>
    setup_moves ae w (w\<lparr>sw_server := s, sw_connecting := remove1 (r, req) (sw_connecting w)\<rparr>)"

definition fresh_setup :: "string \<Rightarrow> setup_world" where
  "fresh_setup token = \<lparr>sw_server = \<lparr>ss_token = token, ss_done = False\<rparr>, sw_admitted = [], sw_connecting = [],
     sw_connects = []\<rparr>"

end
