(* ===== verification/Api_Safety.thy ===== *)
theory Api_Safety
  imports Api_Views Catalog_Safety History_Safety Report_Safety
begin

text \<open>
  What the HTTP interface promises: its pages cover a listing, a trigger queues one validated drill or
  nothing, a replacement stays with the plan its address names, the cleanup stays in the reserved range, and
  the console token of the set-up buys one connection however the requests interleave.
\<close>

section \<open>Following the cursors\<close>

text \<open>A client that asks again with the cursor it was given, until there is none. Each request is answered at
  its own time.\<close>

fun follow_pages :: "nat \<Rightarrow> api_codec \<Rightarrow> (nat \<Rightarrow> time) \<Rightarrow> run_query \<Rightarrow> db \<Rightarrow> run_summary_dto list" where
  "follow_pages 0 ac asked_at q s = []"
| "follow_pages (Suc n) ac asked_at q s =
     (case handle_list_runs ac (asked_at n) q s of
        Inl p \<Rightarrow> []
      | Inr (code, pg) \<Rightarrow>
          (if pg_next_cursor pg = [] then pg_items pg
           else pg_items pg @ follow_pages n ac asked_at (q\<lparr>rq_cursor := pg_next_cursor pg\<rparr>) s))"

text \<open>
  What is assumed of the two codecs a cursor passes through. Base64 gives back the bytes it was given,
  and encodes no byte as no character. The layout of an instant has no bar in it, and the starts of the rows
  there are, which were parsed with the same layout when they were read, are parsed back from it. A run
  has an id.
\<close>

definition base64_codec :: "api_codec \<Rightarrow> bool" where
  "base64_codec ac \<longleftrightarrow> (\<forall>x. ac_decode ac (ac_encode ac x) = Some x) \<and> ac_encode ac [] = []"

definition layout_reads :: "api_codec \<Rightarrow> db \<Rightarrow> bool" where
  "layout_reads ac s \<longleftrightarrow> list_all (\<lambda>r. ac_cursor_time ac (ac_cursor_text ac (rr_started_at r)) = Some (rr_started_at r) \<and>
     CHR ''|'' \<notin> set (ac_cursor_text ac (rr_started_at r)) \<and> rr_id r \<noteq> []) (db_runs s)"

text \<open>Then the cursor of a row is read back as its position, and is not the empty text that ends a listing.\<close>

lemma cut_at_bar:
  assumes "CHR ''|'' \<notin> set x"
  shows "takeWhile (\<lambda>c. c \<noteq> CHR ''|'') (x @ CHR ''|'' # y) = x" "dropWhile (\<lambda>c. c \<noteq> CHR ''|'') (x @ CHR ''|'' # y) = CHR ''|'' # y"
  using assms by (induction x) auto

lemma cursor_round_trip:
  assumes "base64_codec ac" "layout_reads ac s" "r \<in> set (db_runs s)"
  shows "decode_cursor ac (encode_cursor ac (row_position r)) = Inr (row_position r)"
    "encode_cursor ac (row_position r) \<noteq> []"
proof -
  have row: "ac_cursor_time ac (ac_cursor_text ac (rr_started_at r)) = Some (rr_started_at r)"
    "CHR ''|'' \<notin> set (ac_cursor_text ac (rr_started_at r))" "rr_id r \<noteq> []"
    using assms(2,3) by (auto simp: layout_reads_def list_all_iff)
  show "decode_cursor ac (encode_cursor ac (row_position r)) = Inr (row_position r)"
    using assms(1) row
    by (simp add: decode_cursor_def encode_cursor_def base64_codec_def row_position_def cut_at_bar Let_def)
  have "ac_encode ac x \<noteq> []" if "x \<noteq> []" for x
    using assms(1) that unfolding base64_codec_def by (metis option.inject)
  then show "encode_cursor ac (row_position r) \<noteq> []" by (simp add: encode_cursor_def)
qed

definition query_filter :: "run_query \<Rightarrow> run_state \<Rightarrow> run_result \<Rightarrow> int \<Rightarrow> time \<Rightarrow> run_filter" where
  "query_filter q st r limit since = \<lparr>fi_workload_id = rq_workload q, fi_state = st, fi_result = r, fi_since = since,
     fi_limit = limit + 1, fi_after = None, fi_not_terminal = False\<rparr>"

lemma listed_page:
  fixes s :: db
  assumes q: "parse_limit (rq_limit q) = Inr limit" "since_of ac t q = Inr since"
      "state_named (to_upper (rq_state q)) = Some st" "result_named (to_upper (rq_result q)) = Some r"
    and after: "cursor_of ac q = Inr after" and limit: "0 < limit"
  defines "l \<equiv> listing ((query_filter q st r limit since)\<lparr>fi_after := after\<rparr>) s"
  shows "handle_list_runs ac t q s = Inr (200,
    if length l \<le> nat limit then \<lparr>pg_items = map (new_run_summary_dto (ac_numbers ac) \<circ> scan_run_summary) l, pg_next_cursor = []\<rparr>
    else \<lparr>pg_items = map (new_run_summary_dto (ac_numbers ac) \<circ> scan_run_summary) (take (nat limit) l),
      pg_next_cursor = encode_cursor ac (row_position (l ! (nat limit - 1)))\<rparr>)"
proof -
  have pos: "limit_or_default (limit + 1) = limit + 1" using limit by (simp add: limit_or_default_def)
  have "listed_runs q limit since after s = map scan_run_summary (take (nat (limit + 1)) l)"
    using q pos by (simp add: listed_runs_def list_runs_listing l_def query_filter_def)
  moreover have "nat (limit + 1) = Suc (nat limit)" using limit by simp
  ultimately have runs: "listed_runs q limit since after s = map scan_run_summary (take (Suc (nat limit)) l)" by simp
  show ?thesis
  proof (cases "length l \<le> nat limit")
    case True
    then show ?thesis using q after limit runs by (simp add: handle_list_runs_def runs_page_def comp_def)
  next
    case False
    let ?r = "scan_run_summary (l ! (nat limit - 1))"
    have i: "nat (limit - 1) = nat limit - 1" by simp
    have enough: "limit < int (length l)" "min (length l) (Suc (nat limit)) = Suc (nat limit)"
      using False limit by (simp_all add: min_def nat_less_iff not_le) linarith
    have "\<lparr>po_started_at = rs_started_at ?r, po_id = rs_id ?r\<rparr> = row_position (l ! (nat limit - 1))"
      by (simp add: row_position_def scan_run_summary_def)
    then show ?thesis
      using False q after limit runs i enough by (simp add: handle_list_runs_def runs_page_def comp_def Let_def take_map)
  qed
qed

lemma follow_from:
  assumes u: "unique_runs s" and c: "base64_codec ac" "layout_reads ac s" and limit: "0 < limit"
    and q: "parse_limit (rq_limit q) = Inr limit" "\<And>i. since_of ac (asked_at i) q = Inr since"
      "state_named (to_upper (rq_state q)) = Some st" "result_named (to_upper (rq_result q)) = Some r"
    and after: "cursor_of ac q = Inr after"
    and whole: "listing (query_filter q st r limit since) s =
      xs @ listing ((query_filter q st r limit since)\<lparr>fi_after := after\<rparr>) s"
    and n: "length (listing ((query_filter q st r limit since)\<lparr>fi_after := after\<rparr>) s) < n"
  shows "follow_pages n ac asked_at q s = map (new_run_summary_dto (ac_numbers ac) \<circ> scan_run_summary)
    (listing ((query_filter q st r limit since)\<lparr>fi_after := after\<rparr>) s)"
  using q after whole n
proof (induction n arbitrary: q after xs)
  case (Suc n)
  let ?f = "query_filter q st r limit since"
  let ?l = "listing (?f\<lparr>fi_after := after\<rparr>) s" and ?k = "nat limit"
  note page = listed_page [OF Suc.prems(1) Suc.prems(2) [of n] Suc.prems(3-5) limit, of s]
  show ?case
  proof (cases "length ?l \<le> ?k")
    case False
    let ?r = "?l ! (?k - 1)"
    have k: "0 < ?k" "?k - 1 < length ?l" using limit False by simp_all
    have split: "?l = take (?k - 1) ?l @ ?r # drop ?k ?l"
      using id_take_nth_drop [OF k(2)] k(1) by simp
    have row: "?r \<in> set (db_runs s)"
      using nth_mem [OF k(2)] by (simp add: listing_def)
    let ?q = "q\<lparr>rq_cursor := encode_cursor ac (row_position ?r)\<rparr>"
    have cur: "cursor_of ac ?q = Inr (Some (row_position ?r))"
      using cursor_round_trip [OF c row] by (simp add: cursor_of_def)
    have same: "query_filter ?q st r limit since = ?f" by (simp add: query_filter_def)
    have none: "?f\<lparr>fi_after := None\<rparr> = ?f" by (simp add: query_filter_def)
    have "listing (?f\<lparr>fi_after := None\<rparr>) s = (xs @ take (?k - 1) ?l) @ ?r # drop ?k ?l"
      using Suc.prems(6) split by (simp add: none)
    then have tail: "listing (?f\<lparr>fi_after := Some (row_position ?r)\<rparr>) s = drop ?k ?l" by (rule listing_after [OF u])
    have "follow_pages n ac asked_at ?q s = map (new_run_summary_dto (ac_numbers ac) \<circ> scan_run_summary)
        (listing ((query_filter ?q st r limit since)\<lparr>fi_after := Some (row_position ?r)\<rparr>) s)"
    proof (rule Suc.IH [OF _ _ _ _ cur])
      show "listing (query_filter ?q st r limit since) s = (xs @ take ?k ?l) @
          listing ((query_filter ?q st r limit since)\<lparr>fi_after := Some (row_position ?r)\<rparr>) s"
        unfolding same tail using Suc.prems(6) by simp
      show "length (listing ((query_filter ?q st r limit since)\<lparr>fi_after := Some (row_position ?r)\<rparr>) s) < n"
        unfolding same tail using Suc.prems(7) k by simp
      show "since_of ac (asked_at i) ?q = Inr since" for i using Suc.prems(2) [of i] by (simp add: since_of_def split: if_splits)
    qed (use Suc.prems in simp_all)
    then have rest: "follow_pages n ac asked_at ?q s = map (new_run_summary_dto (ac_numbers ac) \<circ> scan_run_summary) (drop ?k ?l)"
      unfolding same tail .
    have "encode_cursor ac (row_position ?r) \<noteq> []" by (rule cursor_round_trip(2) [OF c row])
    then show ?thesis using page False rest by (simp flip: map_append)
  qed (use page in simp)
qed simp

lemma parsed_limit: "parse_limit raw = Inr limit \<Longrightarrow> 0 < limit \<and> limit \<le> 200"
  by (auto simp: parse_limit_def default_list_limit_def max_page_size_def split: if_splits option.splits)

text \<open>C35. The pages of the API lose no run and show none twice. While the history stays as it is and the start of
  the window does not move with the clock, a client that starts without a cursor and follows the ones it is
  given, with any limit and filter the handler accepts, reads the matching runs exactly once, newest first, each
  as the listing renders it; a page never holds more than 200, and there are no more pages than runs and one. That a
  cursor is read back as the position it was made of follows from the codecs alone: base64 gives back its
  bytes, and the layout of an instant is parsed back and holds no bar.\<close>

theorem api_pages_cover_listing:
  assumes "unique_runs s" "base64_codec ac" "layout_reads ac s" "rq_cursor q = []"
    and "parse_limit (rq_limit q) = Inr limit" "\<And>i. since_of ac (asked_at i) q = Inr since"
    and "state_named (to_upper (rq_state q)) = Some st" "result_named (to_upper (rq_result q)) = Some r"
  shows "follow_pages (Suc (length (db_runs s))) ac asked_at q s = map (new_run_summary_dto (ac_numbers ac) \<circ> scan_run_summary)
      (order_by newest_run (filter (matches_filter (query_filter q st r limit since)) (db_runs s))) \<and>
    distinct (map rd_id (follow_pages (Suc (length (db_runs s))) ac asked_at q s)) \<and> 1 \<le> limit \<and> limit \<le> 200"
proof -
  let ?f = "query_filter q st r limit since"
  have none: "?f\<lparr>fi_after := None\<rparr> = ?f" by (simp add: query_filter_def)
  have limit: "0 < limit" "limit \<le> 200" using parsed_limit [OF assms(5)] by simp_all
  have len: "length (listing ?f s) < Suc (length (db_runs s))"
    using length_filter_le [of "matches_filter ?f" "db_runs s"] by (simp add: listing_def less_Suc_eq_le)
  have "follow_pages (Suc (length (db_runs s))) ac asked_at q s =
      map (new_run_summary_dto (ac_numbers ac) \<circ> scan_run_summary) (listing (?f\<lparr>fi_after := None\<rparr>) s)"
    by (rule follow_from [OF assms(1-3) limit(1) assms(5-8), of None "[]"])
      (use assms(4) len none in \<open>simp_all add: cursor_of_def\<close>)
  moreover have "rd_id \<circ> (new_run_summary_dto nt \<circ> scan_run_summary) = rr_id" for nt
    by (rule ext) (simp add: new_run_summary_dto_def scan_run_summary_def)
  ultimately show ?thesis
    using distinct_listing [OF assms(1), of ?f] limit unfolding none
    by (simp add: listing_def del: follow_pages.simps)
qed

definition lab_codec :: api_codec where
  "lab_codec = \<lparr>ac_cursor_text = (\<lambda>_. ''0''), ac_cursor_time = (\<lambda>_. Some 5), ac_encode = id, ac_decode = Some,
     ac_add_days = (\<lambda>t n. t), ac_duration = (\<lambda>_. None), ac_rfc3339 = (\<lambda>_. None), ac_date = (\<lambda>_. None),
     ac_numbers = plain_numbers, ac_html = (\<lambda>_. Inr [])\<rparr>"

definition lab_query :: run_query where
  "lab_query = \<lparr>rq_limit = ''1'', rq_workload = [], rq_state = [], rq_result = [], rq_since = [], rq_cursor = []\<rparr>"


section \<open>Queueing a drill over HTTP\<close>

lemma parsed_document: "parse_document rd document = Inr p \<Longrightarrow> validate (pd_sched rd) p = []"
  by (auto simp: parse_document_def parse_yaml_def split: sum.splits dest: parsed_plan)

lemma adhoc_valid_plan: "adhoc_plan rd o1 = Inr p \<Longrightarrow> validate (pd_sched rd) p = []"
  by (auto simp: adhoc_plan_def Let_def split: sum.splits dest: parsed_plan)

lemma trigger_plan_valid:
  assumes "plan_for_trigger ac ops rd cfg b s = Inr (p, stored)"
  shows "validate (pd_sched rd) p = []"
  using assms
  by (auto simp: plan_for_trigger_def adhoc_plan_for_trigger_def resolve_plan_def
      split: if_splits sum.splits option.splits dest: adhoc_valid_plan parsed_document)

lemma enqueued_drill:
  assumes "enqueue_drill marshal ce req s = (a, s')"
  shows "case a of
      Inl e \<Rightarrow> s' = s
    | Inr run \<Rightarrow> \<exists>p yaml. tq_plan req = Some p \<and> run = drill_row req p \<and> marshal p = Inr yaml \<and>
        active_run_for_workload (wr_id (pl_workload p)) s = [] \<and>
        s' = s\<lparr>db_runs := db_runs s @ [queued_row run yaml (tq_at req)]\<rparr>"
  using assms
  by (auto simp: enqueue_drill_def prepare_drill_def enqueue_def insert_run_def map_runs_def
      split: sum.splits prod.splits option.splits if_splits)

lemma open_runs_queued:
  "open_runs (s\<lparr>db_runs := db_runs s @ [queued_row run yaml t]\<rparr>) = open_runs s @ [queued_row run yaml t]"
  by (simp add: open_runs_def queued_row_def settled_def terminal_states_def)

text \<open>C36. A trigger queues one drill or nothing. When the handler refuses (a body that is not read, a plan
  and ad-hoc fields together, a plan that is not found or not valid, a drill already in flight, a failure of
  the store) the database is as it was; when it answers 201, one run was added, queued, under the identifier
  it answers with, with the document of a plan that validates, of a workload that had no drill in flight; so
  workloads keep one drill each.\<close>

theorem trigger_queues_one_drill:
  assumes "named_runs s"
  shows "case handle_trigger_run ac d ce rd marshal cfg i t body s of
      (Inl p, s') \<Rightarrow> s' = s
    | (Inr (code, dto), s') \<Rightarrow> code = 201 \<and> rd_id dto = i \<and> rd_started_at dto = t \<and> one_drill_each s' = one_drill_each s \<and>
        (\<exists>p run yaml. validate (pd_sched rd) p = [] \<and> marshal p = Inr yaml \<and> run_id run = i \<and>
          run_source_workload_id run = wr_id (pl_workload p) \<and> active_run_for_workload (wr_id (pl_workload p)) s = [] \<and>
          s' = s\<lparr>db_runs := db_runs s @ [queued_row run yaml t]\<rparr>)"
proof (cases body)
  case (Some b)
  show ?thesis
  proof (cases "plan_for_trigger ac (sql_plans d ce) rd cfg b s")
    case (Inr ps)
    obtain p stored where ps: "ps = (p, stored)" by force
    let ?req = "\<lparr>tq_plan = Some p, tq_stored = stored, tq_default_provider = default_provider cfg, tq_id = i, tq_at = t\<rparr>"
    obtain a s' where e: "enqueue_drill marshal ce ?req s = (a, s')" by force
    note added = enqueued_drill [OF e]
    show ?thesis
    proof (cases a)
      case (Inl f)
      then show ?thesis
        using Some Inr ps e added by (cases f) (simp_all add: handle_trigger_run_def)
    next
      case run: (Inr run)
      then obtain yaml where q: "run = drill_row ?req p" "marshal p = Inr yaml"
        "active_run_for_workload (wr_id (pl_workload p)) s = []" "s' = s\<lparr>db_runs := db_runs s @ [queued_row run yaml t]\<rparr>"
        using added by auto
      have ids: "run_id run = i" "run_source_workload_id run = wr_id (pl_workload p)" by (simp_all add: q(1) drill_row_def)
      have "idle (wr_id (pl_workload p)) s" using active_idle [OF assms] q(3) by simp
      then have "wr_id (pl_workload p) \<notin> rr_source_workload_id ` set (open_runs s)"
        by (auto simp: idle_def open_runs_def list_all_iff)
      then have one: "one_drill_each s' = one_drill_each s"
        unfolding one_drill_each_def q(4) open_runs_queued by (simp add: queued_row_def ids)
      have dto: "rd_id (new_queued_dto nt run t) = i" "rd_started_at (new_queued_dto nt run t) = t" for nt
        by (simp_all add: new_queued_dto_def new_run_dto_def new_run_summary_dto_def ids)
      have valid: "validate (pd_sched rd) p = []" using trigger_plan_valid Inr ps by metis
      have "handle_trigger_run ac d ce rd marshal cfg i t body s = (Inr (201, new_queued_dto (ac_numbers ac) run t), s')"
        using Some Inr ps e run by (simp add: handle_trigger_run_def)
      then show ?thesis using dto one valid q(2-4) ids by auto
    qed
  qed (simp add: handle_trigger_run_def Some)
qed (simp add: handle_trigger_run_def)


text \<open>
  The handler is one step here; in the code the search for a drill in flight and the insert are two statements, with
  no index that would refuse the second. Two requests that both searched before either inserted both
  queue, which the documentation says must not happen.
\<close>

lemma overlapping_triggers_queue_two:
  assumes "tq_plan q1 = Some p" "prepare_drill marshal (\<lambda>wid. Inr (active_run_for_workload wid s)) q1 = Inr (r1, y1)"
    and "tq_plan q2 = Some p" "prepare_drill marshal (\<lambda>wid. Inr (active_run_for_workload wid s)) q2 = Inr (r2, y2)"
    and "enqueue ce r1 y1 t1 s = (Inr (), s1)" "enqueue ce r2 y2 t2 s1 = (Inr (), s2)"
  shows "\<not> one_drill_each s2"
proof -
  have queued: "s' = s0\<lparr>db_runs := db_runs s0 @ [queued_row r y t]\<rparr>" if "enqueue ce r y t s0 = (Inr (), s')" for r y t s0 s'
    using that by (auto simp: enqueue_def insert_run_def map_runs_def split: if_splits)
  have same: "rr_source_workload_id (queued_row r1 y1 t1) = wr_id (pl_workload p)"
    "rr_source_workload_id (queued_row r2 y2 t2) = wr_id (pl_workload p)"
    using assms(1-4)
    by (auto simp: prepare_drill_def queued_row_def drill_row_def split: option.splits sum.splits if_splits)
  have "open_runs s2 = open_runs s @ [queued_row r1 y1 t1, queued_row r2 y2 t2]"
    unfolding queued [OF assms(6)] open_runs_queued queued [OF assms(5)] by simp
  then show ?thesis by (simp add: one_drill_each_def same)
qed


section \<open>Replacing a plan\<close>

text \<open>A document under the name of a plan, saved where it is: the row that changed is that plan's.\<close>

lemma saved_in_place:
  assumes "unique_plans s" "parse_document rd doc = Inr p" "unaliased (plan_view s) i (pl_name p)"
    "plan_view s (sp_id old) = Some old" "pl_name p = sp_name old"
    "save_plan (sql_plans d ce) rd i t doc k s = (Inr (row, c), s')"
  shows "sp_id row = sp_id old \<and> sp_name row = sp_name old \<and> sp_version row = sp_version old + 1 \<and>
    (k > 0 \<longrightarrow> sp_version old = k) \<and> plan_view s' = (plan_view s)(sp_id old \<mapsto> row)"
proof -
  note named = parsed_document_named [OF assms(2)]
  have after: "unique_plans s'" "plan_view s' = (plan_view s)(sp_id row \<mapsto> row)" "sp_name row = pl_name p"
    "case plan_view s (sp_id row) of None \<Rightarrow> c \<and> sp_id row = i \<and> sp_version row = 1
     | Some o2 \<Rightarrow> \<not> c \<and> sp_version row = sp_version o2 + 1 \<and> sp_created_at row = sp_created_at o2 \<and>
         (k > 0 \<longrightarrow> sp_version o2 = k)"
    using catalogue.saved_or_refused [OF assms(1,2,3) named, where d = d and ce = ce and t = t and k = k] assms(6) by auto
  have "sp_id row = sp_id old"
  proof (rule ccontr)
    assume "sp_id row \<noteq> sp_id old"
    then have "plan_view s' (sp_id old) = Some old" using after(2) assms(4) by simp
    then have "get_plan d (pl_name p) s' = Inr old" using get_by_name [OF after(1)] assms(5) named by metis
    moreover have "get_plan d (pl_name p) s' = Inr row"
      using get_by_name [OF after(1), of "sp_id row" row] after(2,3) named by simp
    ultimately show False using \<open>sp_id row \<noteq> sp_id old\<close> by simp
  qed
  then show ?thesis using after assms(4,5) by auto
qed

text \<open>What a PUT comes down to once its version, its plan and its document are read.\<close>

definition put_is_read ::
  "dialect \<Rightarrow> string \<Rightarrow> string \<Rightarrow> string \<Rightarrow> string \<Rightarrow> db \<Rightarrow> int \<Rightarrow> stored_plan \<Rightarrow> bool" where
  "put_is_read d ref version doc name s k old \<longleftrightarrow>
     parse_expected_version version = Inr k \<and> get_plan d ref s = Inr old \<and> doc \<noteq> [] \<and> name = sp_name old"

lemma put_saves:
  assumes "parse_document rd (take max_request_body b) = Inr p"
    "put_is_read d ref version (take max_request_body b) (pl_name p) s k old"
  shows "handle_update_plan (sql_plans d ce) rd i t ref version (Some b) s =
    (case save_plan (sql_plans d ce) rd i t (take max_request_body b) k s of
       (Inl e, s') \<Rightarrow> (Inl (problem_for_plan e), s') | (Inr (r, _), s') \<Rightarrow> (Inr (200, new_plan_dto r True), s'))"
  using assms
  by (simp add: put_is_read_def handle_update_plan_def sql_plans_def read_document_def Let_def document_name_def)

lemma put_refuses:
  assumes "parse_document rd (take max_request_body b) = Inr p"
    "\<nexists>k old. put_is_read d ref version (take max_request_body b) (pl_name p) s k old"
  shows "\<exists>pb. handle_update_plan (sql_plans d ce) rd i t ref version (Some b) s = (Inl pb, s)"
proof (cases "parse_expected_version version")
  case k: (Inr k)
  show ?thesis
  proof (cases "get_plan d ref s")
    case (Inr old)
    then have "take max_request_body b = [] \<or> pl_name p \<noteq> sp_name old" using assms(2) k by (auto simp: put_is_read_def)
    then show ?thesis using assms(1) k Inr
      by (auto simp: handle_update_plan_def sql_plans_def read_document_def Let_def document_name_def)
  qed (simp add: handle_update_plan_def k sql_plans_def)
qed (simp add: handle_update_plan_def)

text \<open>C37. A PUT replaces the plan its address names and no other: unless the answer is 200 the plans are as
  they were, and a document that names another plan is refused before anything is written; on 200 the one row
  that changed is that of the plan addressed, under its identifier and its name, one version on, and the
  version the client said it expected is the one it had.\<close>

theorem put_replaces_its_own_plan:
  assumes "unique_plans s" "parse_document rd (take max_request_body b) = Inr p" "unaliased (plan_view s) i (pl_name p)"
  shows "case handle_update_plan (sql_plans d ce) rd i t ref version (Some b) s of
      (Inl pb, s') \<Rightarrow> s' = s
    | (Inr (code, dto), s') \<Rightarrow> code = 200 \<and>
        (\<exists>old row. get_plan d ref s = Inr old \<and> plan_view s (sp_id old) = Some old \<and> sp_id row = sp_id old \<and>
          sp_name row = sp_name old \<and> sp_version row = sp_version old + 1 \<and>
          (version = [] \<or> atoi version = Some (sp_version old)) \<and>
          plan_view s' = (plan_view s)(sp_id old \<mapsto> row) \<and> dto = new_plan_dto row True)"
proof (cases "\<exists>k old. put_is_read d ref version (take max_request_body b) (pl_name p) s k old")
  case True
  then obtain k old where r: "put_is_read d ref version (take max_request_body b) (pl_name p) s k old" by blast
  then have k: "version = [] \<or> atoi version = Some k \<and> k > 0" and old: "get_plan d ref s = Inr old" "pl_name p = sp_name old"
    by (auto simp: put_is_read_def parse_expected_version_def split: if_splits option.splits)
  have here: "plan_view s (sp_id old) = Some old" using get_plan_view [OF old(1)] by simp
  note saved = catalogue.saved_or_refused [OF assms parsed_document_named [OF assms(2)], where d = d and ce = ce and t = t and k = k]
  obtain o' s' where save: "save_plan (sql_plans d ce) rd i t (take max_request_body b) k s = (o', s')" by fastforce
  show ?thesis
  proof (cases o')
    case (Inl e)
    then show ?thesis using put_saves [OF assms(2) r] save saved by simp
  next
    case (Inr rc)
    obtain row c where rc: "rc = (row, c)" by force
    show ?thesis
      using saved_in_place [OF assms here old(2) save [unfolded Inr rc]] put_saves [OF assms(2) r] save Inr rc k old here
      by auto
  qed
next
  case False
  obtain pb where "handle_update_plan (sql_plans d ce) rd i t ref version (Some b) s = (Inl pb, s)"
    using put_refuses [OF assms(2) False] by blast
  then show ?thesis by simp
qed


section \<open>Cleaning up over HTTP\<close>

text \<open>The cleanup never acts for an identifier outside the range of the provider it names.\<close>

lemma cleanup_stays_in_range:
  "snd (handle_cleanup cfg hypervisor provider vmid w) = w \<or>
   (\<exists>n. atoi vmid = Some n \<and> fst (api_temp_range cfg provider) \<le> n \<and> n \<le> snd (api_temp_range cfg provider))"
  by (auto simp: handle_cleanup_def Let_def split: prod.splits option.splits)

section \<open>The claims at work\<close>

lemma lab_cursors: "base64_codec lab_codec" "layout_reads lab_codec lab_db"
  by (simp_all add: base64_codec_def layout_reads_def lab_db_defs lab_codec_def)

theorem api_pages_cover_listing_witness:
  "map rd_id (follow_pages 2 lab_codec int lab_query lab_db) = [''r1'']"
proof -
  have asked: "parse_limit (rq_limit lab_query) = Inr 1" 
    "state_named (to_upper (rq_state lab_query)) = Some RunNoState"
    "result_named (to_upper (rq_result lab_query)) = Some ResultNone" "rq_cursor lab_query = []"
    by (code_simp, code_simp, code_simp, code_simp)
  have since: "since_of lab_codec (int i) lab_query = Inr zero_time" for i by (simp add: since_of_def lab_query_def)
  have n: "Suc (length (db_runs lab_db)) = 2" by (simp add: lab_db_defs)
  have "map rd_id (follow_pages 2 lab_codec int lab_query lab_db) = map (rd_id \<circ> (new_run_summary_dto plain_numbers \<circ> scan_run_summary))
      (order_by newest_run (filter (matches_filter (query_filter lab_query RunNoState ResultNone 1 zero_time)) (db_runs lab_db)))"
    using api_pages_cover_listing [OF unique_lab_db lab_cursors asked(4,1) since asked(2,3)]
    unfolding n by (simp add: lab_codec_def del: follow_pages.simps)
  also have "\<dots> = [''r1'']"
    by (simp add: lab_db_defs query_filter_def matches_filter_def is_zero_def settled_def terminal_states_def lab_query_def
        new_run_summary_dto_def scan_run_summary_def)
  finally show ?thesis .
qed

definition lab_body :: trigger_body where
  "lab_body = \<lparr>tb_plan = [], tb_workload_id = ''101'', tb_provider = ''pve'', tb_backup = [], tb_checks = [],
     tb_network = [], tb_node = [], tb_storage = [], tb_pool = [], tb_rto_target = [], tb_skip_startup = True\<rparr>"

lemma lab_adhoc: "\<exists>p. adhoc_plan lab_reader (body_options None lab_body 0) = Inr p \<and> wr_id (pl_workload p) = ''101''"
proof -
  let ?o = "apply_option_defaults (body_options None lab_body 0)"
  have o: "ao_skip_startup ?o" "ao_workload_id ?o = ''101''" "ao_provider_id ?o = ''pve''" "ao_cpu_limit ?o = 0"
    "ao_memory_limit_mb ?o = 0"
    by (simp_all add: apply_option_defaults_def body_options_def lab_body_def)
  have "validate (pd_sched lab_reader) (apply_defaults (adhoc_draft ?o [])) = []"
    using adhoc_valid [of "[]" ?o] o by simp
  then show ?thesis
    using o(1,2) by (simp add: adhoc_plan_def Let_def parse_plan_def drafted_fields)
qed

theorem trigger_queues_one_drill_witness:
  "\<exists>dto s'. handle_trigger_run lab_codec DialectSQLite (Plain ''constraint'') lab_reader (\<lambda>_. Inr ''snapshot'') None ''r9'' 7
      (Some lab_body) lab_catalogue = (Inr (201, dto), s') \<and> length (db_runs s') = 1 \<and> one_drill_each s'"
proof -
  let ?h = "handle_trigger_run lab_codec DialectSQLite (Plain ''constraint'') lab_reader (\<lambda>_. Inr ''snapshot'') None ''r9'' 7
      (Some lab_body) lab_catalogue"
  obtain p where p: "adhoc_plan lab_reader (body_options None lab_body 0) = Inr p" "wr_id (pl_workload p) = ''101''"
    using lab_adhoc by auto
  have "plan_for_trigger lab_codec (sql_plans DialectSQLite (Plain ''constraint'')) lab_reader None lab_body lab_catalogue = Inr (p, None)"
    using p(1) by (simp add: plan_for_trigger_def adhoc_plan_for_trigger_def lab_body_def)
  then have "\<exists>dto s'. ?h = (Inr (201, dto), s')"
    by (simp add: handle_trigger_run_def enqueue_drill_def prepare_drill_def active_run_for_workload_def enqueue_def insert_run_def
        run_refused_def lab_catalogue_def empty_db_def drill_row_def queued_row_def null_string_def)
  then obtain dto s' where h: "?h = (Inr (201, dto), s')" by blast
  show ?thesis
    using trigger_queues_one_drill [OF lab_unique(2), where ac = lab_codec and d = DialectSQLite and
      ce = "Plain ''constraint''" and rd = lab_reader and marshal = "\<lambda>_. Inr ''snapshot''" and cfg = None and
      i = "''r9''" and t = 7 and body = "Some lab_body"] lab_unique(4) h
    by (auto simp: lab_catalogue_def empty_db_def)
qed

lemma lab_nightly:
  "get_plan DialectSQLite ''nightly'' lab_catalogue = Inr (scan_plan (hd (db_plans lab_catalogue)))"
  "trim_space ''nightly'' \<noteq> []" "parse_expected_version ''3'' = Inr 3" "atoi ''3'' = Some 3"
  by code_simp+

theorem put_replaces_its_own_plan_witness:
  "\<exists>dto s'. handle_update_plan (sql_plans DialectSQLite (Plain ''constraint'')) lab_reader ''p2'' 7 ''nightly'' ''3''
      (Some ''nightly'') lab_catalogue = (Inr (200, dto), s') \<and> qd_id dto = ''p1'' \<and> qd_version dto = 4"
proof -
  let ?ops = "sql_plans DialectSQLite (Plain ''constraint'')" and ?p = "apply_defaults (lab_plan\<lparr>pl_name := ''nightly''\<rparr>)"
  let ?h = "handle_update_plan ?ops lab_reader ''p2'' 7 ''nightly'' ''3'' (Some ''nightly'') lab_catalogue"
  have cut: "take max_request_body ''nightly'' = ''nightly''" by (simp add: max_request_body_def)
  have p: "parse_document lab_reader (take max_request_body ''nightly'') = Inr ?p"
    unfolding cut using lab_nightly(2) by (rule lab_document)
  have n: "pl_name ?p = ''nightly''" by (simp add: apply_defaults_def Let_def)
  have fresh: "unaliased (plan_view lab_catalogue) ''p2'' ''nightly''"
    by (simp add: unaliased_def lab_plan_view) (simp add: lab_catalogue_def)
  have old: "sp_id (scan_plan (hd (db_plans lab_catalogue))) = ''p1''" "sp_version (scan_plan (hd (db_plans lab_catalogue))) = 3"
    "sp_name (scan_plan (hd (db_plans lab_catalogue))) = ''nightly''"
    by (simp_all add: lab_catalogue_def scan_plan_def)
  have up: "\<exists>s1. po_update ?ops ((plan_row_for ?p ''nightly'' ''p2'' 7)\<lparr>sp_id := ''p1''\<rparr>) 3 lab_catalogue = (Inr (), s1)"
    by (simp add: sql_plans_def update_plan_def resolve_plan_ref_def row_with_def lab_catalogue_def Let_def count_where_def
        plan_row_for_def derive_def n)
  then obtain s1 where s1: "po_update ?ops ((plan_row_for ?p ''nightly'' ''p2'' 7)\<lparr>sp_id := ''p1''\<rparr>) 3 lab_catalogue = (Inr (), s1)"
    by blast
  have row: "sp_name (plan_row_for ?p ''nightly'' ''p2'' 7) = ''nightly''" by (simp add: plan_row_for_def derive_def Let_def n)
  have "read_back ?ops ''p1'' False (Inr (), s1) =
      (Inr (stored_as (plan_row_for ?p ''nightly'' ''p2'' 7) ''p1'' 4 (sp_created_at (scan_plan (hd (db_plans lab_catalogue)))), False), s1)"
    using catalogue.rewrite_shows(1) [of lab_catalogue "''p2''" "plan_row_for ?p ''nightly'' ''p2'' 7" DialectSQLite
      "Plain ''constraint''" "''nightly''" "scan_plan (hd (db_plans lab_catalogue))" 3 "()" s1]
      lab_unique(1) fresh lab_nightly(1) s1 old row by (simp add: sql_plans_def)
  then have "\<exists>r. save_plan ?ops lab_reader ''p2'' 7 ''nightly'' 3 lab_catalogue = (Inr (r, False), s1)"
    using p [unfolded cut] n lab_nightly(1) old s1
    by (simp add: save_plan_def Let_def create_only_def sql_plans_def)
  then have "\<exists>dto s'. ?h = (Inr (200, dto), s')"
    using p [unfolded cut] n lab_nightly old by (auto simp: handle_update_plan_def read_document_def cut document_name_def sql_plans_def)
  then obtain dto s' where h: "?h = (Inr (200, dto), s')" by blast
  show ?thesis
    using put_replaces_its_own_plan [OF lab_unique(1) p, unfolded n, OF fresh,
      where d = DialectSQLite and ce = "Plain ''constraint''" and t = 7 and ref = "''nightly''" and version = "''3''"]
      h old lab_nightly(1) by (auto simp: new_plan_dto_def)
qed

section \<open>Setting up once\<close>

definition admitted_well :: "api_env \<Rightarrow> string \<Rightarrow> request \<times> setup_request \<Rightarrow> bool" where
  "admitted_well ae token a \<longleftrightarrow> offered_token (fst a) = token \<and> token \<noteq> [] \<and> secure_transport ae (fst a) \<and>
     sr_storages (snd a) \<noteq> []"

definition setup_inv :: "api_env \<Rightarrow> string \<Rightarrow> setup_world \<Rightarrow> bool" where
  "setup_inv ae token w \<longleftrightarrow> list_all (admitted_well ae token) (sw_admitted w) \<and>
     (ss_token (sw_server w) = token \<and> sw_connects w = [] \<and> sw_connecting w = [] \<and> \<not> ss_done (sw_server w) \<or>
      ss_token (sw_server w) = [] \<and> length (sw_connects w) = 1 \<and> list_all (admitted_well ae token) (sw_connects w))"

lemma admitted_request:
  "admit_setup ae r body s = Inr req \<Longrightarrow> admitted_well ae (ss_token s) (r, req)"
  by (auto simp: admit_setup_def admitted_well_def match_locked_def split: if_splits option.splits)

lemma list_all_remove1: "list_all P xs \<Longrightarrow> list_all P (remove1 x xs)"
  by (induction xs) auto

lemma setup_inv_moves:
  assumes "setup_moves ae w w'" "setup_inv ae token w"
  shows "setup_inv ae token w'"
  using assms
proof (cases rule: setup_moves.cases)
  case (admit r body req)
  have "ss_token (sw_server w) \<noteq> []" using admitted_request [OF admit(2)] by (simp add: admitted_well_def)
  then show ?thesis using assms(2) admitted_request [OF admit(2)] admit(1) by (auto simp: setup_inv_def)
next
  case (spend r req s)
  then have "match_locked (offered_token r) (sw_server w)" "s = (sw_server w)\<lparr>ss_token := []\<rparr>"
    by (auto simp: consume_setup_token_def split: if_splits)
  moreover have "admitted_well ae token (r, req)" using spend(2) assms(2) by (auto simp: setup_inv_def list_all_iff)
  ultimately show ?thesis
    using assms(2) spend(1) by (auto simp: setup_inv_def match_locked_def intro!: list_all_remove1)
next
  case (refuse r req s)
  then have "s = sw_server w" by (auto simp: consume_setup_token_def split: if_splits)
  then show ?thesis using assms(2) refuse(1) by (auto simp: setup_inv_def intro!: list_all_remove1)
next
  case (settle r req outcome answer s)
  then have "ss_token s = ss_token (sw_server w)" by (auto simp: settle_setup_def split: sum.splits prod.splits)
  moreover have "sw_connecting w \<noteq> []" using settle(2) by auto
  ultimately show ?thesis using assms(2) settle(1) by (auto simp: setup_inv_def)
qed

text \<open>The handler, run on its own, is a course of these moves.\<close>

lemma handler_moves:
  assumes "sw_admitted w = []" "sw_connecting w = []" "handle_setup ae connect r body (sw_server w, x) = (answer, s', x')"
  shows "\<exists>w'. (setup_moves ae)\<^sup>*\<^sup>* w w' \<and> sw_server w' = s' \<and> sw_admitted w' = [] \<and> sw_connecting w' = []"
proof (cases "admit_setup ae r body (sw_server w)")
  case (Inl p)
  then show ?thesis using assms by (intro exI [of _ w]) (simp add: handle_setup_def)
next
  case (Inr req)
  have "match_locked (offered_token r) (sw_server w)"
    using Inr by (auto simp: admit_setup_def split: if_splits)
  then have spent: "consume_setup_token (offered_token r) (sw_server w) = (True, (sw_server w)\<lparr>ss_token := []\<rparr>)" (is "_ = (True, ?s)")
    by (simp add: consume_setup_token_def)
  obtain outcome where settled: "settle_setup outcome ?s = (answer, s')"
    using assms(3) Inr spent by (auto simp: handle_setup_def split: prod.splits)
  let ?w1 = "w\<lparr>sw_admitted := [(r, req)]\<rparr>"
  let ?w2 = "w\<lparr>sw_server := ?s, sw_admitted := [], sw_connecting := [(r, req)], sw_connects := (r, req) # sw_connects w\<rparr>"
  let ?w3 = "?w2\<lparr>sw_server := s', sw_connecting := []\<rparr>"
  have "setup_moves ae w ?w1" using setup_moves.admit [OF Inr] assms(1) by simp
  moreover have "setup_moves ae ?w1 ?w2" using setup_moves.spend [of r req ?w1 ?s ae] spent assms(2) by simp
  moreover have "setup_moves ae ?w2 ?w3" using setup_moves.settle [of r req ?w2 outcome answer s' ae] settled by simp
  ultimately have "(setup_moves ae)\<^sup>*\<^sup>* w ?w3" by (meson r_into_rtranclp rtranclp_trans)
  then show ?thesis by (intro exI [of _ ?w3]) (simp add: assms(1))
qed

text \<open>C38. The console token buys one attempt. Whatever the order in which the requests of an unconfigured
  server arrive, are admitted, spend the token, connect, fail or succeed, at most one of them ever reaches
  the cluster, and that one came over a transport that hides a password, offered the token printed on the
  console and named a storage; the server only reports that it is set up after such an attempt.\<close>

theorem setup_connects_once:
  assumes "(setup_moves ae)\<^sup>*\<^sup>* (fresh_setup token) w"
  shows "length (sw_connects w) \<le> 1 \<and> list_all (admitted_well ae token) (sw_connects w) \<and>
    (ss_done (sw_server w) \<longrightarrow> length (sw_connects w) = 1 \<and> ss_token (sw_server w) = [])"
proof -
  have "setup_inv ae token w"
    using assms
  proof (induction rule: rtranclp_induct)
    case base
    show ?case by (simp add: setup_inv_def fresh_setup_def)
  next
    case (step w w')
    then show ?case using setup_inv_moves by blast
  qed
  then show ?thesis by (auto simp: setup_inv_def)
qed

text \<open>Two requests with the token are admitted, one spends it and succeeds, the other is turned away.\<close>

definition lab_request :: request where
  "lab_request = sample_request\<lparr>hq_authorization := ''Bearer console'', hq_tls := True\<rparr>"

definition lab_setup :: setup_request where
  "lab_setup = \<lparr>sr_endpoint = [], sr_admin_user = [], sr_admin_password = [], sr_storages = [''nfs''], sr_insecure = False,
     sr_fingerprint = [], sr_create_bridge = False, sr_apply_bridge = False\<rparr>"

definition lab_outcome :: setup_result where
  "lab_outcome = \<lparr>st_steps = [], st_provider_id = ''pve'', st_node = [], st_bridge = [], st_bridge_applied = False,
     st_token = ''rl_'', st_token_name = ''setup''\<rparr>"

lemma lab_offer: "offered_token lab_request = ''console''"
  by (simp add: offered_token_def lab_request_def) code_simp

theorem setup_connects_once_witness:
  "\<exists>w. (setup_moves sample_env)\<^sup>*\<^sup>* (fresh_setup ''console'') w \<and> length (sw_connects w) = 1 \<and> sw_admitted w = [] \<and>
     ss_done (sw_server w)"
proof -
  let ?a = "(lab_request, lab_setup)" and ?spent = "\<lparr>ss_token = [], ss_done = False\<rparr>"
  let ?w0 = "fresh_setup ''console''"
  let ?w1 = "?w0\<lparr>sw_admitted := [?a]\<rparr>" and ?w2 = "?w0\<lparr>sw_admitted := [?a, ?a]\<rparr>"
  let ?w3 = "\<lparr>sw_server = ?spent, sw_admitted = [?a], sw_connecting = [?a], sw_connects = [?a]\<rparr>"
  let ?w4 = "?w3\<lparr>sw_admitted := []\<rparr>"
  let ?w5 = "?w4\<lparr>sw_server := \<lparr>ss_token = [], ss_done = True\<rparr>, sw_connecting := []\<rparr>"
  have in': "admit_setup sample_env lab_request (Some lab_setup) \<lparr>ss_token = ''console'', ss_done = False\<rparr> = Inr lab_setup"
    by (simp add: admit_setup_def secure_transport_def match_locked_def lab_offer) (simp add: lab_request_def lab_setup_def)
  have "setup_moves sample_env ?w0 ?w1"
    using setup_moves.admit [of sample_env lab_request "Some lab_setup" ?w0 lab_setup] in' by (simp add: fresh_setup_def)
  moreover have "setup_moves sample_env ?w1 ?w2"
    using setup_moves.admit [of sample_env lab_request "Some lab_setup" ?w1 lab_setup] in' by (simp add: fresh_setup_def)
  moreover have "setup_moves sample_env ?w2 ?w3"
    using setup_moves.spend [of lab_request lab_setup ?w2 ?spent sample_env]
    by (simp add: fresh_setup_def consume_setup_token_def match_locked_def lab_offer)
  moreover have "setup_moves sample_env ?w3 ?w4"
    using setup_moves.refuse [of lab_request lab_setup ?w3 ?spent sample_env]
    by (simp add: consume_setup_token_def match_locked_def)
  moreover have "setup_moves sample_env ?w4 ?w5"
    using setup_moves.settle [of lab_request lab_setup ?w4 "Inr lab_outcome" "SetupDone lab_outcome" "?spent\<lparr>ss_done := True\<rparr>" sample_env]
    by (simp add: settle_setup_def)
  ultimately have "(setup_moves sample_env)\<^sup>*\<^sup>* ?w0 ?w5"
    by (meson r_into_rtranclp rtranclp_trans)
  from this setup_connects_once [OF this] show ?thesis by (intro exI [of _ ?w5]) simp
qed


section \<open>Views of the cluster and the calendar\<close>

text \<open>
  A body past the cap is cut, not refused: the document that is stored is its first 64 KiB, when they parse.
\<close>

lemma long_body_is_cut:
  "b \<noteq> [] \<Longrightarrow> read_document (Some b) = Inr (take 65536 b)"
  by (simp add: read_document_def max_request_body_def)

text \<open>The schedule shows what one listing of plans holds: fifty at most, in the order of their names.\<close>

lemma schedule_shows_fifty:
  "handle_get_schedule (sql_plans d ce) rd last_of t s = Inr (code, pg) \<Longrightarrow> length (pg_items pg) \<le> 50"
proof -
  assume h: "handle_get_schedule (sql_plans d ce) rd last_of t s = Inr (code, pg)"
  have "length (list_plans [] 0 s) \<le> 50"
    by (simp add: list_plans_def limit_rows_def limit_or_default_def default_list_limit_def)
  moreover have "length (List.map_filter f xs) \<le> length xs" for f :: "stored_plan \<Rightarrow> scheduled_plan_dto option" and xs
    by (simp add: List.map_filter_def)
  ultimately show ?thesis using h le_trans by (fastforce simp: handle_get_schedule_def sql_plans_def)
qed

text \<open>
  The slot that is announced is ahead of the clock and of the last slot decided, under a schedule whose next
  instant is always later.
\<close>

lemma announced_slot_is_ahead:
  assumes "scheduled_plan rd last_of row t = Some dto" "sc_next_slot_at dto = Some n"
    and "\<And>sched u. u < schedule_next (pd_sched rd) sched u"
  shows "t < n \<and> (case last_of (sp_id row) of Inl _ \<Rightarrow> True | Inr l \<Rightarrow> so_slot_at l < n)"
  using assms(1,2) assms(3) [of t] assms(3) [of "so_slot_at (projr (last_of (sp_id row)))"]
  by (auto simp: scheduled_plan_def Let_def split: sum.splits option.splits if_splits)
    (use assms(3) in \<open>meson less_trans not_le le_less_trans\<close>)+

text \<open>The score of a workload is shown when it was drilled and only then, and it is a percentage.\<close>

lemma confidence_answer:
  "\<exists>c. handle_workload_confidence ac weights bp wall t i s = Inr (200, c) \<and>
     (cn_score c = None \<longleftrightarrow> confidence_runs i s = []) \<and> cn_runs_considered c \<le> 20 \<and>
     (case cn_score c of None \<Rightarrow> True | Some n \<Rightarrow> 0 \<le> n \<and> n \<le> 100)"
proof -
  let ?c = "score (ac_numbers ac) wall (confidence_input_of (confidence_runs i s) (latest_backup_at bp i) t) weights"
  have "cf_tested ?c \<longleftrightarrow> confidence_runs i s \<noteq> []"
    by (cases "confidence_runs i s") (simp_all add: score_def confidence_input_of_def Let_def split: prod.split)
  moreover have "int (length (confidence_runs i s)) \<le> 20"
    by (simp add: confidence_runs_def list_runs_listing limit_or_default_def confidence_history_depth_def)
  ultimately show ?thesis
    by (simp add: handle_workload_confidence_def Let_def score_in_range)
qed

end
