(* ===== verification/Net_Checks.thy ===== *)
theory Net_Checks
  imports Checks
begin

text \<open>
  internal/checks, the checks that reach the guest over the network: tcp.go, http.go, dns.go and ping.go, and
  reachability.go, which tells an answer from silence. The sockets, the resolver, the ICMP library, the HTTP
  client, JSON and regular expressions are functions over the world \<open>'w\<close>; each measures the time it took.
\<close>

section \<open>What an error of the network says\<close>

record dns_error =
  dn_name :: string
  dn_err :: string
  dn_not_found :: bool
  dn_timeout :: bool

text \<open>What \<open>errors.Is\<close> and \<open>errors.As\<close> find in the chain of an error.\<close>

record net_error =
  ne_text :: string
  ne_deadline :: bool
  ne_canceled :: bool
  ne_errno :: "int option"
  ne_timeout :: bool
  ne_dns :: "dns_error option"
  ne_permission :: bool

text \<open>The error numbers of the platform the code is compiled for.\<close>

record errnos =
  en_reset :: int
  en_host_unreach :: int
  en_net_unreach :: int
  en_answered :: "int list"
  en_silent :: "int list"

record posix_numbers =
  ps_refused :: int
  ps_reset :: int
  ps_timed_out :: int
  ps_host_down :: int
  ps_host_unreach :: int
  ps_net_unreach :: int
  ps_net_down :: int

definition unix_errnos :: "posix_numbers \<Rightarrow> errnos" where
  "unix_errnos ps = \<lparr>en_reset = ps_reset ps, en_host_unreach = ps_host_unreach ps, en_net_unreach = ps_net_unreach ps,
     en_answered = [ps_refused ps, ps_reset ps],
     en_silent = [ps_timed_out ps, ps_host_down ps, ps_host_unreach ps, ps_net_unreach ps, ps_net_down ps]\<rparr>"

definition windows_errnos :: errnos where
  "windows_errnos = \<lparr>en_reset = 10054, en_host_unreach = 10065, en_net_unreach = 10051,
     en_answered = [10061, 10054], en_silent = [10060, 10064, 10065, 10051, 10050]\<rparr>"

definition other_errnos :: errnos where
  "other_errnos = \<lparr>en_reset = 0, en_host_unreach = 0, en_net_unreach = 0, en_answered = [], en_silent = []\<rparr>"

text \<open>Which of the three files is compiled: their build constraints.\<close>

datatype platform = PlatformUnix posix_numbers | PlatformWindows | PlatformOther

definition errnos_for :: "platform \<Rightarrow> errnos" where
  "errnos_for os = (case os of
      PlatformUnix ps \<Rightarrow> unix_errnos ps | PlatformWindows \<Rightarrow> windows_errnos | PlatformOther \<Rightarrow> other_errnos)"

definition answered_cause :: "errnos \<Rightarrow> int \<Rightarrow> string" where
  "answered_cause en n = (if n = en_reset en then ''connection reset'' else ''connection refused'')"

definition silent_cause :: "errnos \<Rightarrow> int \<Rightarrow> string" where
  "silent_cause en n =
     (if n = en_host_unreach en then ''no route to host''
      else if n = en_net_unreach en then ''network unreachable'' else ''no answer'')"

definition dial_failure :: "errnos \<Rightarrow> net_error \<Rightarrow> string \<times> bool" where
  "dial_failure en e =
     (if ne_deadline e then (''timed out'', True)
      else if ne_canceled e then (''cancelled'', False)
      else
        case (case ne_errno e of
                None \<Rightarrow> None
              | Some n \<Rightarrow>
                  if n \<in> set (en_answered en) then Some (answered_cause en n, False)
                  else if n \<in> set (en_silent en) then Some (silent_cause en n, True) else None) of
          Some r \<Rightarrow> r
        | None \<Rightarrow>
            if ne_timeout e then (''timed out'', True)
            else (case ne_dns e of
                    Some d \<Rightarrow>
                      if dn_not_found d then (''no such host: '' @ dn_name d, False)
                      else if dn_timeout d then (''no answer resolving '' @ dn_name d, True)
                      else (dn_err d @ '': '' @ dn_name d, False)
                  | None \<Rightarrow> (ne_text e, False)))"

definition no_route_hint :: string where
  "no_route_hint =
     ''nothing answered: either this machine has no route into the isolated recovery network, '' @
     ''or the guest never brought its own network up. A check of this kind can only work when RestoreLab runs '' @
     ''somewhere that can reach the recovery network; a cmd: check runs inside the guest and needs no route at all''"

definition is_permission_error :: "net_error \<Rightarrow> bool" where
  "is_permission_error e \<longleftrightarrow> ne_permission e \<or>
     list_ex (contains (to_lower (ne_text e)))
       [''operation not permitted'', ''permission denied'', ''access is denied'', ''forbidden by its access permissions'']"

definition latency_ms :: "duration \<Rightarrow> detail" where
  "latency_ms d = DetailFloat (div64 (of_int64 d) (of_int64 millisecond))"

definition join_host_port :: "string \<Rightarrow> int \<Rightarrow> string" where
  "join_host_port host port =
     (if CHR '':'' \<in> set host then ''['' @ host @ '']:'' @ itoa port else host @ '':'' @ itoa port)"


section \<open>The TCP check\<close>

definition format_latency :: "duration \<Rightarrow> duration" where
  "format_latency d = (if d < millisecond then dur_round d (10 * microsecond) else dur_round d millisecond)"

text \<open>
  A dial gives an error, or what the first read of the connection gives: the banner, and the text of its
  error when there is none.
\<close>

type_synonym 'w dialer = "duration \<Rightarrow> string \<Rightarrow> ('w, (net_error + string \<times> string) \<times> duration) call"

definition judge_banner :: "string \<Rightarrow> string \<Rightarrow> string \<Rightarrow> string \<Rightarrow> duration \<Rightarrow> check_result" where
  "judge_banner addr expected banner read_error latency =
     (let details = [(''banner'', DetailString banner), (''latency_ms'', latency_ms latency)] in
      if banner = [] then
        verdict CheckFail (''connected to '' @ addr @ '' but no banner received: '' @ read_error) details
      else if \<not> contains banner expected then
        verdict CheckFail (''connected to '' @ addr @ '' but banner '' @ quoted (truncate_to banner 120) @
          '' does not contain '' @ quoted expected) details
      else verdict CheckPass (''connected to '' @ addr @ '', banner matched '' @ quoted expected) details)"

definition tcp_check :: "errnos \<Rightarrow> template_engine \<Rightarrow> 'w dialer \<Rightarrow> 'w check_impl" where
  "tcp_check en tx dial limit tg cfg =
     (case string_param tx ''host'' (tg_ip tg) (new_params (cc_params cfg) tg) of (host, p) \<Rightarrow>
      case require_int ''port'' p of (port, p) \<Rightarrow>
      case string_param tx ''expect_banner'' [] p of (expected, p) \<Rightarrow>
        (case params_err p of
           Some e \<Rightarrow> ret (verdict CheckError (err_text e) [])
         | None \<Rightarrow>
             if trim_space host = [] then
               ret (verdict CheckError ''tcp: no host (target has no IP and params.host is empty)'' [])
             else
               (let addr = join_host_port host port in
                bindM (dial limit addr) (\<lambda>(r, latency). ret
                  (case r of
                     Inl e \<Rightarrow>
                       (case dial_failure en e of (cause, silent) \<Rightarrow>
                          if silent then
                            verdict CheckError (cause @ '' on '' @ addr @ '' after '' @ dur_string (format_latency latency) @
                              '' - '' @ no_route_hint) [(''latency_ms'', latency_ms latency)]
                          else
                            verdict CheckFail (cause @ '' on '' @ addr @ '' after '' @ dur_string (format_latency latency))
                              [(''latency_ms'', latency_ms latency)])
                   | Inr (banner, read_error) \<Rightarrow>
                       if expected = [] then
                         verdict CheckPass (''connected to '' @ addr @ '' in '' @ dur_string (format_latency latency))
                           [(''latency_ms'', latency_ms latency)]
                       else judge_banner addr expected banner read_error latency)))))"


section \<open>The DNS check\<close>

datatype dns_answer =
    DnsAddresses "(bool \<times> string) list"
  | DnsName string
  | DnsMailers "(string \<times> int) list"
  | DnsTexts "string list"

text \<open>An address says whether it is IPv4. The resolver is told the record type, the name and the server.\<close>

type_synonym 'w resolver =
  "duration \<Rightarrow> string \<Rightarrow> string \<Rightarrow> string \<Rightarrow> int \<Rightarrow> ('w, (net_error + dns_answer) \<times> duration) call"

definition record_types :: "string list" where "record_types = [''A'', ''AAAA'', ''CNAME'', ''MX'', ''TXT'']"

definition answers_of :: "string \<Rightarrow> dns_answer \<Rightarrow> string list" where
  "answers_of qtype a =
     (case a of
        DnsAddresses ips \<Rightarrow> map snd (filter (\<lambda>ip. (qtype = ''A'') = fst ip) ips)
      | DnsName cname \<Rightarrow> [trim_suffix cname ''.'']
      | DnsMailers mxs \<Rightarrow> map (\<lambda>(host, pref). trim_suffix host ''.'' @ '' '' @ itoa pref) mxs
      | DnsTexts txts \<Rightarrow> txts)"

definition judge_answers :: "string \<Rightarrow> string list \<Rightarrow> string list \<Rightarrow> duration \<Rightarrow> check_result" where
  "judge_answers query answers expected latency =
     (let details = [(''answers'', DetailStrings answers), (''latency_ms'', latency_ms latency)];
          matched = filter (\<lambda>w. w \<in> set answers) expected in
      if answers = [] then verdict CheckFail (query @ '' returned no answers'') details
      else if expected = [] then verdict CheckPass (query @ '' -> '' @ join '', '' answers) details
      else if matched = [] then
        verdict CheckFail (query @ '' -> '' @ join '', '' answers @ '' (expected one of '' @ join '', '' expected @ '')'') details
      else verdict CheckPass (query @ '' -> '' @ join '', '' answers @ '' (matched '' @ join '', '' matched @ '')'') details)"

definition dns_check :: "errnos \<Rightarrow> template_engine \<Rightarrow> 'w resolver \<Rightarrow> 'w check_impl" where
  "dns_check en tx resolve limit tg cfg =
     (case require_string tx ''name'' (new_params (cc_params cfg) tg) of (name, p) \<Rightarrow>
      case string_param tx ''server'' (tg_ip tg) p of (server, p) \<Rightarrow>
      case int_param ''port'' 53 p of (port, p) \<Rightarrow>
      case string_param tx ''type'' ''A'' p of (qt, p) \<Rightarrow>
      case string_slice tx ''expect'' p of (expected, p) \<Rightarrow>
        (let qtype = to_upper qt in
         case params_err p of
           Some e \<Rightarrow> ret (verdict CheckError (err_text e) [])
         | None \<Rightarrow>
             if trim_space server = [] then
               ret (verdict CheckError ''dns: no server (target has no IP and params.server is empty)'' [])
             else if qtype \<notin> set record_types then
               ret (verdict CheckError (''dns: unsupported record type '' @ quoted qtype @
                 '' (supported: A, AAAA, CNAME, MX, TXT)'') [])
             else
               (let query = ''query '' @ qtype @ '' '' @ name @ '' via '' @ server @ '':'' @ itoa port in
                bindM (resolve limit qtype name server port) (\<lambda>(r, latency). ret
                  (case r of
                     Inl e \<Rightarrow>
                       (case dial_failure en e of (cause, silent) \<Rightarrow>
                          if silent then
                            verdict CheckError (query @ '': '' @ cause @ '' after '' @ dur_string (dur_round latency millisecond) @
                              '' - '' @ no_route_hint) [(''latency_ms'', latency_ms latency)]
                          else
                            verdict CheckFail (query @ '' failed after '' @ dur_string (dur_round latency millisecond) @ '': '' @
                              ne_text e) [(''latency_ms'', latency_ms latency)])
                   | Inr a \<Rightarrow> judge_answers query (answers_of qtype a) expected latency)))))"


section \<open>The ping check\<close>

record ping_stats =
  pn_sent :: int
  pn_received :: int
  pn_avg_rtt :: duration
  pn_loss :: f64

record ping_plan =
  pp_host :: string
  pp_count :: int
  pp_interval :: duration
  pp_timeout :: duration
  pp_privileged :: bool

text \<open>
  The pinger refuses the host, or runs: the error of the run, if any, and the statistics. \<open>ms\<close> prints
  milliseconds to two decimals.
\<close>

type_synonym 'w pinger = "duration \<Rightarrow> ping_plan \<Rightarrow> ('w, string + net_error option \<times> ping_stats) call"

definition judge_ping :: "(f64 \<Rightarrow> string) \<Rightarrow> string \<Rightarrow> net_error option \<times> ping_stats \<Rightarrow> check_result" where
  "judge_ping ms host r =
     (case r of (run_error, st) \<Rightarrow>
        (let avg = div64 (of_int64 (pn_avg_rtt st)) (of_int64 millisecond);
             details = [(''packets_sent'', DetailInt (pn_sent st)), (''packets_recv'', DetailInt (pn_received st)),
               (''avg_rtt_ms'', DetailFloat avg), (''packet_loss'', DetailFloat (pn_loss st))];
             judged =
               (if pn_received st = 0 then
                  verdict CheckError (''no replies from '' @ host @ '' ('' @ itoa (pn_received st) @ ''/'' @ itoa (pn_sent st) @
                    '' packets, 100% loss) - '' @ no_route_hint) details
                else
                  verdict CheckPass (itoa (pn_received st) @ ''/'' @ itoa (pn_sent st) @ '' replies, avg '' @ ms avg @ ''ms'')
                    details) in
         case run_error of
           None \<Rightarrow> judged
         | Some e \<Rightarrow>
             if is_permission_error e then
               verdict CheckError (''ping '' @ host @ '': '' @ ne_text e @
                 '' (ICMP socket denied; set privileged: true and grant CAP_NET_RAW / run elevated, '' @
                 ''or leave unprivileged if your OS supports it)'') details
             else if \<not> ne_deadline e \<and> \<not> ne_canceled e then
               verdict CheckError (''ping '' @ host @ '': '' @ ne_text e) details
             else judged))"

definition ping_check ::
  "template_engine \<Rightarrow> (string \<Rightarrow> duration option) \<Rightarrow> (f64 \<Rightarrow> string) \<Rightarrow> 'w pinger \<Rightarrow> 'w check_impl" where
  "ping_check tx pd ms ping limit tg cfg =
     (case string_param tx ''host'' (tg_ip tg) (new_params (cc_params cfg) tg) of (host, p) \<Rightarrow>
      case int_param ''count'' 3 p of (cnt, p) \<Rightarrow>
      case duration_param tx pd ''interval'' (500 * millisecond) p of (interval, p) \<Rightarrow>
      case bool_param ''privileged'' False p of (privileged, p) \<Rightarrow>
        (case params_err p of
           Some e \<Rightarrow> ret (verdict CheckError (err_text e) [])
         | None \<Rightarrow>
             if trim_space host = [] then
               ret (verdict CheckError ''ping: no host (target has no IP and params.host is empty)'' [])
             else
               (let cnt = (if cnt < 1 then 1 else cnt);
                    interval = (if interval < millisecond then millisecond else interval) in
                bindM (ping limit \<lparr>pp_host = host, pp_count = cnt, pp_interval = interval,
                    pp_timeout = wrap64 (wrap64 (interval * cnt) + 2 * second), pp_privileged = privileged\<rparr>) (\<lambda>r. ret
                  (case r of
                     Inl e \<Rightarrow> verdict CheckError (''ping '' @ host @ '': could not resolve host: '' @ e) []
                   | Inr outcome \<Rightarrow> judge_ping ms host outcome)))))"


section \<open>The HTTP check\<close>

definition default_max_body_bytes :: int where "default_max_body_bytes = 1048576"
definition max_body_snippet :: nat where "max_body_snippet = 512"

record http_params =
  hp_url :: string
  hp_method :: string
  hp_expected_status :: int
  hp_expected_statuses :: "int list"
  hp_headers :: "(string \<times> string) list"
  hp_body :: string
  hp_body_contains :: string
  hp_body_matches :: string
  hp_json_path :: string
  hp_json_equals :: "anyval option"
  hp_insecure_tls :: bool
  hp_follow_redirects :: bool
  hp_max_body_bytes :: int

definition decode_http :: "template_engine \<Rightarrow> target \<Rightarrow> check_config \<Rightarrow> http_params \<times> param_view" where
  "decode_http tx tg cfg =
     (case require_string tx ''url'' (new_params (cc_params cfg) tg) of (url, p) \<Rightarrow>
      case string_param tx ''method'' ''GET'' p of (meth, p) \<Rightarrow>
      case int_param ''expected_status'' 200 p of (status, p) \<Rightarrow>
      case int_slice ''expected_statuses'' p of (statuses, p) \<Rightarrow>
      case string_map tx ''headers'' p of (headers, p) \<Rightarrow>
      case string_param tx ''body'' [] p of (body, p) \<Rightarrow>
      case string_param tx ''body_contains'' [] p of (has, p) \<Rightarrow>
      case string_param tx ''body_matches'' [] p of (expr, p) \<Rightarrow>
      case string_param tx ''json_path'' [] p of (path, p) \<Rightarrow>
      case any_param tx ''json_equals'' p of (want, p) \<Rightarrow>
      case bool_param ''insecure_tls'' False p of (insecure, p) \<Rightarrow>
      case bool_param ''follow_redirects'' True p of (follow, p) \<Rightarrow>
      case int_param ''max_body_bytes'' default_max_body_bytes p of (cap, p) \<Rightarrow>
        (\<lparr>hp_url = url, hp_method = to_upper meth, hp_expected_status = status, hp_expected_statuses = statuses,
          hp_headers = (case headers of None \<Rightarrow> [] | Some hs \<Rightarrow> hs), hp_body = body, hp_body_contains = has,
          hp_body_matches = expr, hp_json_path = path, hp_json_equals = want, hp_insecure_tls = insecure,
          hp_follow_redirects = follow,
          hp_max_body_bytes = (if cap \<le> 0 then default_max_body_bytes else cap)\<rparr>, p))"

text \<open>
  A response has a status and its body read through a limit: the text of the error, or the bytes.
  \<open>ht_refuse\<close> is the error \<open>http.NewRequest\<close> gives for a method and a URL.
\<close>

record http_reply =
  ry_status :: int
  ry_read :: "int \<Rightarrow> string + string"

record 'w http_client =
  ht_refuse :: "string \<Rightarrow> string \<Rightarrow> string option"
  ht_do :: "duration \<Rightarrow> http_params \<Rightarrow> ('w, (net_error + http_reply) \<times> duration) call"
  ht_json :: "string \<Rightarrow> goerr + anyval"
  ht_regexp :: "string \<Rightarrow> goerr + (string \<Rightarrow> bool)"

definition describe_http_err :: "string \<Rightarrow> string" where
  "describe_http_err msg =
     (let quote = char_of (34 :: nat); inner = dropWhile (\<lambda>c. c \<noteq> quote) msg in
      if inner = [] then msg
      else (let closing = dropWhile (\<lambda>c. c \<noteq> quote) (tl inner) in
            if closing = [] then msg
            else (let rest = tl closing; rest = (if has_prefix rest '': '' then drop 2 rest else rest) in
                  if rest \<noteq> [] then rest else msg)))"

definition ints_to_string :: "int list \<Rightarrow> string" where
  "ints_to_string ns = ''['' @ join '', '' (map itoa ns) @ '']''"

fun path_lookup :: "string list \<Rightarrow> anyval \<Rightarrow> string + anyval" where
  "path_lookup [] cur = Inr cur"
| "path_lookup (part # parts) cur =
     (if part = [] then path_lookup parts cur
      else case cur of
        AnyMap kvs \<Rightarrow>
          (case map_of kvs part of
             None \<Rightarrow> Inl (''key '' @ quoted part @ '' not found'')
           | Some v \<Rightarrow> path_lookup parts v)
      | AnyList vs \<Rightarrow>
          (case atoi part of
             None \<Rightarrow> Inl (''expected an array index, got '' @ quoted part)
           | Some i \<Rightarrow>
               if i < 0 \<or> int (length vs) \<le> i
               then Inl (''array index '' @ itoa i @ '' out of range (length '' @ itoa (int (length vs)) @ '')'')
               else path_lookup parts (vs ! nat i))
      | _ \<Rightarrow> Inl (''cannot descend into '' @ go_type cur @ '' at '' @ quoted part))"

definition json_path_lookup :: "anyval \<Rightarrow> string \<Rightarrow> string + anyval" where
  "json_path_lookup doc path = path_lookup (split_on (CHR ''.'') path) doc"

fun to_float_value :: "anyval \<Rightarrow> f64 option" where
  "to_float_value (AnyFloat x t) = Some x"
| "to_float_value (AnyInt n) = Some (of_int64 n)"
| "to_float_value _ = None"

definition json_values_equal :: "anyval \<Rightarrow> anyval \<Rightarrow> bool" where
  "json_values_equal got want =
     (case (to_float_value got, to_float_value want) of
        (Some g, Some w) \<Rightarrow> eq64 g w | _ \<Rightarrow> fmt_v got = fmt_v want)"

text \<open>What is asked of the body, in order; \<open>None\<close> when all of it holds. \<open>head\<close> opens each message.\<close>

definition judge_body ::
  "'w http_client \<Rightarrow> http_params \<Rightarrow> string \<Rightarrow> string \<Rightarrow> (check_status \<times> string) option" where
  "judge_body hc h head data =
     (if hp_body_contains h \<noteq> [] \<and> \<not> contains data (hp_body_contains h) then
        Some (CheckFail, head @ '' but body does not contain '' @ quoted (hp_body_contains h) @ '' (body: '' @
          truncate_to data 200 @ '')'')
      else
        case (if hp_body_matches h = [] then None
              else case ht_regexp hc (hp_body_matches h) of
                     Inl e \<Rightarrow> Some (CheckError, ''http: invalid body_matches regex '' @ quoted (hp_body_matches h) @ '': '' @ err_text e)
                   | Inr m \<Rightarrow>
                       if \<not> m data then
                         Some (CheckFail, head @ '' but body does not match /'' @ hp_body_matches h @ ''/ (body: '' @
                           truncate_to data 200 @ '')'')
                       else None) of
          Some r \<Rightarrow> Some r
        | None \<Rightarrow>
            if hp_json_path h = [] then None
            else case ht_json hc data of
                   Inl e \<Rightarrow> Some (CheckFail, head @ '' but body is not valid JSON: '' @ err_text e)
                 | Inr doc \<Rightarrow>
                     (case json_path_lookup doc (hp_json_path h) of
                        Inl e \<Rightarrow> Some (CheckFail, head @ '' but json_path '' @ quoted (hp_json_path h) @ '': '' @ e)
                      | Inr got \<Rightarrow>
                          (case hp_json_equals h of
                             None \<Rightarrow> None
                           | Some want \<Rightarrow>
                               if json_values_equal got want then None
                               else Some (CheckFail, head @ '' but json_path '' @ quoted (hp_json_path h) @ '' = '' @
                                 fmt_v got @ '' (expected '' @ fmt_v want @ '')''))))"

definition status_accepted :: "http_params \<Rightarrow> int \<Rightarrow> bool" where
  "status_accepted h status =
     (if hp_expected_statuses h \<noteq> [] then status \<in> set (hp_expected_statuses h) else status = hp_expected_status h)"

definition judge_reply :: "'w http_client \<Rightarrow> http_params \<Rightarrow> http_reply \<Rightarrow> duration \<Rightarrow> check_result" where
  "judge_reply hc h r latency =
     (let head = hp_method h @ '' '' @ hp_url h @ '' -> '' @ itoa (ry_status r);
          took = dur_string (dur_round latency millisecond) in
      case ry_read r (hp_max_body_bytes h) of
        Inl e \<Rightarrow>
          verdict CheckFail (head @ '' but reading the body failed: '' @ e)
            [(''status_code'', DetailInt (ry_status r)), (''latency_ms'', latency_ms latency)]
      | Inr data \<Rightarrow>
          (let details = [(''status_code'', DetailInt (ry_status r)), (''latency_ms'', latency_ms latency),
                 (''body_size'', DetailInt (int (length data))),
                 (''body_snippet'', DetailString (truncate_to data max_body_snippet))] in
           if \<not> status_accepted h (ry_status r) then
             verdict CheckFail (head @ '' (expected '' @
               (if hp_expected_statuses h \<noteq> [] then ints_to_string (hp_expected_statuses h) else itoa (hp_expected_status h)) @
               '') in '' @ took) details
           else case judge_body hc h head data of
                  Some (st, message) \<Rightarrow> verdict st message details
                | None \<Rightarrow> verdict CheckPass (head @ '' in '' @ took) details))"

definition http_check :: "errnos \<Rightarrow> template_engine \<Rightarrow> 'w http_client \<Rightarrow> 'w check_impl" where
  "http_check en tx hc limit tg cfg =
     (case decode_http tx tg cfg of (h, p) \<Rightarrow>
        case params_err p of
          Some e \<Rightarrow> ret (verdict CheckError (err_text e) [])
        | None \<Rightarrow>
            (case ht_refuse hc (hp_method h) (hp_url h) of
               Some e \<Rightarrow>
                 ret (verdict CheckError (''http: invalid request '' @ hp_method h @ '' '' @ hp_url h @ '': '' @ e) [])
             | None \<Rightarrow>
                 bindM (ht_do hc limit h) (\<lambda>(r, latency). ret
                   (case r of
                      Inl e \<Rightarrow>
                        (case dial_failure en e of (cause, silent) \<Rightarrow>
                           if silent then
                             verdict CheckError (hp_method h @ '' '' @ hp_url h @ '': '' @ cause @ '' after '' @
                               dur_string (dur_round latency millisecond) @ '' - '' @ no_route_hint)
                               [(''latency_ms'', latency_ms latency)]
                           else
                             verdict CheckFail (hp_method h @ '' '' @ hp_url h @ '' failed after '' @
                               dur_string (dur_round latency millisecond) @ '': '' @ describe_http_err (ne_text e))
                               [(''latency_ms'', latency_ms latency)])
                    | Inr reply \<Rightarrow> judge_reply hc h reply latency))))"

end
