(* ===== verification/Net_Checks_Safety.thy ===== *)
theory Net_Checks_Safety
  imports Net_Checks Checks_Safety
begin

text \<open>
  What the checks of the network are trusted for: silence is never reported as a failed recovery, a failure is
  always somebody's answer, and a pass is an answer that holds everything the plan asked for.
\<close>

section \<open>What a check asked for\<close>











lemma verdict_status [simp]: "cr_status (verdict st m ds) = st"
  by (simp add: verdict_def)







text \<open>What a check that makes one call ends in: it could not run and called nobody, or it judged the call.\<close>

definition heard :: "(check_result \<Rightarrow> 'w \<Rightarrow> bool) \<Rightarrow> 'w \<Rightarrow> check_result \<Rightarrow> 'w \<Rightarrow> bool" where
  "heard J w r w' \<longleftrightarrow> cr_status r = CheckError \<and> w' = w \<or> J r w'"


lemma heard_error [simp]: "heard J w (verdict CheckError m ds) w"
  by (simp add: heard_def)


section \<open>From the parameters to the verdict\<close>

definition same_view :: "param_view \<Rightarrow> param_view \<Rightarrow> bool" where
  "same_view p q \<longleftrightarrow> pv_raw p = pv_raw q \<and> pv_vars p = pv_vars q"


lemma same_view_refl [simp]: "same_view p p" by (simp add: same_view_def)

lemma add_err_view [simp]: "same_view (add_err e p) q \<longleftrightarrow> same_view p q"
  by (simp add: same_view_def add_err_def)
















section \<open>The tables of error numbers\<close>

text \<open>What Windows reports for a dial into a black hole is silence, although \<open>Timeout()\<close> says otherwise.\<close>

lemma windows_black_hole:
  assumes "\<not> ne_deadline e" "\<not> ne_canceled e" "ne_errno e = Some 10060"
  shows "dial_failure windows_errnos e = (''no answer'', True)"
  using assms by (simp add: dial_failure_def windows_errnos_def silent_cause_def)

lemma windows_refusal:
  assumes "\<not> ne_deadline e" "\<not> ne_canceled e" "ne_errno e = Some 10061"
  shows "dial_failure windows_errnos e = (''connection refused'', False)"
  using assms by (simp add: dial_failure_def windows_errnos_def answered_cause_def)

text \<open>Where no table is known, only a deadline, a timeout or a resolver that never answers is silence.\<close>

lemma other_platforms:
  "snd (dial_failure other_errnos e) \<longleftrightarrow>
     ne_deadline e \<or> (\<not> ne_canceled e \<and>
       (ne_timeout e \<or> (case ne_dns e of Some d \<Rightarrow> \<not> dn_not_found d \<and> dn_timeout d | None \<Rightarrow> False)))"
  by (auto simp: dial_failure_def other_errnos_def split: option.splits)

end
