(* ===== verification/Channels.thy ===== *)
theory Channels
  imports Api Notify
begin

text \<open>
  The channels a server sends its news to, as an operator edits them: internal/api/notifications.go over the interface
  of internal/api/server.go, and its implementation on the configuration, \<open>cliNotifications\<close> of internal/cli/notify.go.
  The file system, the cipher and the last deliveries are parameters; a body is what the decoder made of it.
\<close>

section \<open>The interface\<close>

record api_channel =
  hc_id :: string
  hc_kind :: string
  hc_host :: string
  hc_enabled :: bool

text \<open>
  \<open>Notifications\<close>: listing, saving with a URL or without one, removing, and the URL in clear. A write gives its error.
\<close>

record 's channel_ops =
  co_list :: "'s \<Rightarrow> api_channel list"
  co_save :: "api_channel \<Rightarrow> string \<Rightarrow> 's \<Rightarrow> goerr option \<times> 's"
  co_remove :: "string \<Rightarrow> 's \<Rightarrow> goerr option \<times> 's"
  co_target :: "string \<Rightarrow> 's \<Rightarrow> goerr + string"

text \<open>What the handlers use beside it: the last delivery of each channel, and the clock.\<close>

record 's channel_env =
  ce_deliveries :: "string list \<Rightarrow> 's \<Rightarrow> goerr + (string \<rightharpoonup> delivery)"
  ce_now :: "'s \<Rightarrow> time"
  ce_post :: "string \<Rightarrow> string \<Rightarrow> 's \<Rightarrow> post_result"
  ce_status_text :: "int \<Rightarrow> string"
  ce_net :: net_env


section \<open>The handlers\<close>

record notification_dto =
  nd_id :: string
  nd_kind :: string
  nd_host :: string
  nd_enabled :: bool
  nd_last_state :: string
  nd_last_sent :: "time option"
  nd_last_status :: int
  nd_last_error :: string

record notification_test_dto =
  nx_id :: string
  nx_kind :: string
  nx_status :: int
  nx_sent_at :: time

record notification_request =
  nr_id :: string
  nr_kind :: string
  nr_url :: string
  nr_enabled :: "bool option"

definition sample_rto :: duration where "sample_rto = 3 * minute"

definition channels_of :: "'s channel_ops option \<Rightarrow> problem + 's channel_ops" where
  "channels_of ops =
     (case ops of
        Some ops \<Rightarrow> Inr ops
      | None \<Rightarrow> Inl (new_problem ''notifications-unavailable'' ''Notification channels are unavailable'' 503
          (''this RestoreLab was started without a configuration file to write back to; '' @
           ''configure channels with `restorelab notify add`'')))"

definition find_channel :: "'s channel_ops option \<Rightarrow> string \<Rightarrow> 's \<Rightarrow> problem + 's channel_ops \<times> api_channel" where
  "find_channel ops i s =
     (case channels_of ops of
        Inl p \<Rightarrow> Inl p
      | Inr ops \<Rightarrow>
          (case find (\<lambda>ch. hc_id ch = i) (co_list ops s) of
             Some ch \<Rightarrow> Inr (ops, ch)
           | None \<Rightarrow> Inl (new_problem ''not-found'' ''No such notification channel'' 404
               (''no channel is configured with the id '' @ i))))"

fun delivery_state_name :: "delivery_state \<Rightarrow> string" where
  "delivery_state_name DeliveryPending = ''pending''"
| "delivery_state_name DeliverySent = ''sent''"
| "delivery_state_name DeliveryFailed = ''failed''"

definition new_notification_dto :: "api_channel \<Rightarrow> notification_dto" where
  "new_notification_dto ch = \<lparr>nd_id = hc_id ch, nd_kind = hc_kind ch, nd_host = hc_host ch, nd_enabled = hc_enabled ch,
     nd_last_state = [], nd_last_sent = None, nd_last_status = 0, nd_last_error = []\<rparr>"

definition with_last_delivery :: "(string \<rightharpoonup> delivery) \<Rightarrow> notification_dto \<Rightarrow> notification_dto" where
  "with_last_delivery latest item =
     (case latest (nd_id item) of
        None \<Rightarrow> item
      | Some d \<Rightarrow> item\<lparr>nd_last_state := delivery_state_name (dl_state d), nd_last_status := dl_status d,
          nd_last_error := scrub_secrets (dl_err d),
          nd_last_sent := (if is_zero (dl_sent_at d) then nd_last_sent item else Some (dl_sent_at d))\<rparr>)"

definition with_last_deliveries :: "'s channel_env \<Rightarrow> 's \<Rightarrow> notification_dto list \<Rightarrow> notification_dto list" where
  "with_last_deliveries ce s items =
     (if items = [] then []
      else case ce_deliveries ce (map nd_id items) s of
             Inl e \<Rightarrow> items | Inr latest \<Rightarrow> map (with_last_delivery latest) items)"

definition handle_list_notifications ::
  "'s channel_env \<Rightarrow> 's channel_ops option \<Rightarrow> 's \<Rightarrow> notification_dto page answer" where
  "handle_list_notifications ce ops s =
     (case channels_of ops of
        Inl p \<Rightarrow> Inl p
      | Inr ops \<Rightarrow> Inr (200, \<lparr>pg_items = with_last_deliveries ce s (map new_notification_dto (co_list ops s)),
          pg_next_cursor = []\<rparr>))"

definition read_notification :: "notification_request option \<Rightarrow> problem + notification_request" where
  "read_notification body =
     (case body of None \<Rightarrow> Inl (bad_request ''the body is not the JSON this endpoint expects'') | Some req \<Rightarrow> Inr req)"

definition notification_id_problem :: "string \<Rightarrow> problem option" where
  "notification_id_problem i =
     (if i = [] then Some (bad_request ''id is required: it is how this channel is named everywhere else'')
      else if list_ex (\<lambda>c. c = CHR ''/'' \<or> c = CHR '' '' \<or> c = char_of (9 :: nat)) i then
        Some (bad_request ''id must not contain a slash or a space: it is a path segment'')
      else None)"

definition invalid_kind :: "string \<Rightarrow> problem" where
  "invalid_kind k = new_problem ''invalid-channel-kind'' ''That is not a channel RestoreLab can render for'' 400
     (''kind '' @ quoted k @ '' is not supported: use one of '' @ join '', '' channel_kinds)"

definition notification_kind_problem :: "string \<Rightarrow> problem option" where
  "notification_kind_problem k =
     (case channel_for_kind k of Inl _ \<Rightarrow> Some (invalid_kind k) | Inr _ \<Rightarrow> None)"

definition notification_url_problem :: "'s channel_env \<Rightarrow> string \<Rightarrow> problem option" where
  "notification_url_problem ce raw =
     (case validate_notification_url (ce_net ce) raw of
        None \<Rightarrow> None
      | Some e \<Rightarrow> Some (new_problem ''invalid-channel-url'' ''That webhook URL cannot be used'' 400 (err_text e)))"

definition channel_read_back ::
  "'s channel_env \<Rightarrow> 's channel_ops \<Rightarrow> string \<Rightarrow> 's \<Rightarrow> problem + notification_dto" where
  "channel_read_back ce ops i s =
     (case find (\<lambda>ch. hc_id ch = i) (co_list ops s) of
        Some ch \<Rightarrow> Inr (hd (with_last_deliveries ce s [new_notification_dto ch]))
      | None \<Rightarrow> Inl (new_problem ''internal'' ''Internal error'' 500 ''the channel was saved but could not be read back''))"

text \<open>A save, and the answer read back from what it stored.\<close>

definition save_channel ::
  "'s channel_env \<Rightarrow> 's channel_ops \<Rightarrow> int \<Rightarrow> api_channel \<Rightarrow> string \<Rightarrow> 's \<Rightarrow> notification_dto answer \<times> 's" where
  "save_channel ce ops code ch url s =
     (case co_save ops ch url s of
        (Some e, s) \<Rightarrow> (Inl (problem_for e), s)
      | (None, s) \<Rightarrow>
          (case channel_read_back ce ops (hc_id ch) s of Inl p \<Rightarrow> (Inl p, s) | Inr dto \<Rightarrow> (Inr (code, dto), s)))"

definition creation_problem ::
  "'s channel_env \<Rightarrow> 's channel_ops \<Rightarrow> notification_request \<Rightarrow> 's \<Rightarrow> problem option" where
  "creation_problem ce ops req s =
     (case notification_id_problem (nr_id req) of
        Some p \<Rightarrow> Some p
      | None \<Rightarrow>
          if list_ex (\<lambda>ch. hc_id ch = nr_id req) (co_list ops s) then
            Some (new_problem ''id-taken'' ''That channel id is already used'' 409
              (''a channel called '' @ nr_id req @ '' already exists: edit it, or choose another id''))
          else
            (case notification_kind_problem (nr_kind req) of
               Some p \<Rightarrow> Some p
             | None \<Rightarrow>
                 if nr_url req = [] then
                   Some (bad_request ''url is required: a channel with no destination would never send anything'')
                 else notification_url_problem ce (nr_url req)))"

definition handle_create_notification ::
  "'s channel_env \<Rightarrow> 's channel_ops option \<Rightarrow> notification_request option \<Rightarrow> 's \<Rightarrow> notification_dto answer \<times> 's" where
  "handle_create_notification ce ops body s =
     (case channels_of ops of
        Inl p \<Rightarrow> (Inl p, s)
      | Inr ops \<Rightarrow>
          (case read_notification body of
             Inl p \<Rightarrow> (Inl p, s)
           | Inr req \<Rightarrow>
               (case creation_problem ce ops req s of
                  Some p \<Rightarrow> (Inl p, s)
                | None \<Rightarrow>
                    save_channel ce ops 201 \<lparr>hc_id = nr_id req, hc_kind = nr_kind req, hc_host = [],
                      hc_enabled = (case nr_enabled req of None \<Rightarrow> True | Some b \<Rightarrow> b)\<rparr> (nr_url req) s)))"

definition edited_channel :: "notification_request \<Rightarrow> api_channel \<Rightarrow> api_channel" where
  "edited_channel req current =
     current\<lparr>hc_kind := (if nr_kind req = [] then hc_kind current else nr_kind req),
       hc_enabled := (case nr_enabled req of None \<Rightarrow> hc_enabled current | Some b \<Rightarrow> b)\<rparr>"

definition edit_problem :: "'s channel_env \<Rightarrow> notification_request \<Rightarrow> problem option" where
  "edit_problem ce req =
     (case (if nr_kind req = [] then None else notification_kind_problem (nr_kind req)) of
        Some p \<Rightarrow> Some p
      | None \<Rightarrow> if nr_url req = [] then None else notification_url_problem ce (nr_url req))"

definition handle_update_notification ::
  "'s channel_env \<Rightarrow> 's channel_ops option \<Rightarrow> string \<Rightarrow> notification_request option \<Rightarrow> 's \<Rightarrow> notification_dto answer \<times> 's" where
  "handle_update_notification ce ops i body s =
     (case find_channel ops i s of
        Inl p \<Rightarrow> (Inl p, s)
      | Inr (ops, current) \<Rightarrow>
          (case read_notification body of
             Inl p \<Rightarrow> (Inl p, s)
           | Inr req \<Rightarrow>
               (case edit_problem ce req of
                  Some p \<Rightarrow> (Inl p, s)
                | None \<Rightarrow> save_channel ce ops 200 (edited_channel req current) (nr_url req) s)))"

definition handle_delete_notification :: "'s channel_ops option \<Rightarrow> string \<Rightarrow> 's \<Rightarrow> unit answer \<times> 's" where
  "handle_delete_notification ops i s =
     (case find_channel ops i s of
        Inl p \<Rightarrow> (Inl p, s)
      | Inr (ops, ch) \<Rightarrow>
          (case co_remove ops (hc_id ch) s of
             (Some e, s) \<Rightarrow> (Inl (problem_for e), s) | (None, s) \<Rightarrow> (Inr (204, ()), s)))"

text \<open>The sample: a workload that recovers after a failure, decided by the function that decides a real one.\<close>

definition sample_message :: "time \<Rightarrow> message option" where
  "sample_message t =
     map_option (\<lambda>tn. \<lparr>ms_workload = ''restorelab notification test'', ms_workload_id = ''test'',
         ms_plan_name = ''sent by hand, no drill ran'', ms_run_id = ''test'', ms_link = [], ms_at = t,
         ms_transition = tn, ms_rto = sample_rto\<rparr>)
       (decide_story RunSuccess \<lparr>sy_result = ResultSuccess, sy_proof = ProofService\<rparr>
          (Some \<lparr>sy_result = ResultFailed, sy_proof = ProofBoot\<rparr>) False)"

definition refused_channel :: "'s channel_env \<Rightarrow> int \<Rightarrow> goerr \<Rightarrow> string \<Rightarrow> problem" where
  "refused_channel ce st e target =
     (let detail = (if target \<noteq> [] \<and> contains (err_text e) target then ''the channel could not be reached'' else err_text e) in
      new_problem ''channel-refused'' ''The channel refused the message'' 502
        (if st > 0 then ''the channel answered '' @ ce_status_text ce st @ '': '' @ detail else detail))"

definition handle_test_notification ::
  "'s channel_env \<Rightarrow> 's channel_ops option \<Rightarrow> string \<Rightarrow> 's \<Rightarrow> notification_test_dto answer" where
  "handle_test_notification ce ops i s =
     (case find_channel ops i s of
        Inl p \<Rightarrow> Inl p
      | Inr (ops, ch) \<Rightarrow>
          (case channel_for_kind (hc_kind ch) of
             Inl _ \<Rightarrow> Inl (invalid_kind (hc_kind ch))
           | Inr render \<Rightarrow>
               (case co_target ops (hc_id ch) s of
                  Inl e \<Rightarrow> Inl (new_problem ''channel-unusable'' (''This channel'' @ [char_of (39 :: nat)] @ ''s webhook URL cannot be read'') 500
                    (''re-add the channel so its url is sealed with the current master key: '' @ err_text e))
                | Inr target \<Rightarrow>
                    (let r = ce_post ce target (case sample_message (ce_now ce s) of None \<Rightarrow> [] | Some m \<Rightarrow> render m) s in
                     case pt_err r of
                       Some e \<Rightarrow> Inl (refused_channel ce (pt_status r) e target)
                     | None \<Rightarrow> Inr (200, \<lparr>nx_id = hc_id ch, nx_kind = hc_kind ch, nx_status = pt_status r,
                         nx_sent_at = ce_now ce s\<rparr>)))))"


section \<open>The configuration behind it\<close>

text \<open>
  The configuration a process has loaded, or why it cannot, the master key, and the file. A save changes the loaded
  one in place before it is checked and written. \<open>yw_write\<close> is the error of writing the file, which is atomic.
\<close>

record config_desk =
  kd_config :: "goerr + config"
  kd_key :: "goerr + string"
  kd_file :: config

record config_world =
  yw_net :: net_env
  yw_cipher :: aead
  yw_nonce :: string
  yw_write :: "config \<Rightarrow> goerr option"

definition channel_host :: "config_world \<Rightarrow> string \<Rightarrow> notification \<Rightarrow> string" where
  "channel_host yw k n =
     (case channel_target (yw_cipher yw) k n of
        Inl _ \<Rightarrow> []
      | Inr t \<Rightarrow> (case ne_parse (yw_net yw) t of Inl _ \<Rightarrow> [] | Inr u \<Rightarrow> up_host u))"

definition cli_channels :: "config_world \<Rightarrow> config_desk \<Rightarrow> api_channel list" where
  "cli_channels yw s =
     (case kd_config s of
        Inl _ \<Rightarrow> []
      | Inr cfg \<Rightarrow> map (\<lambda>n. \<lparr>hc_id = nt_id n, hc_kind = nt_kind n,
          hc_host = (case kd_key s of Inl _ \<Rightarrow> [] | Inr k \<Rightarrow> channel_host yw k n), hc_enabled = channel_on n\<rparr>)
          (cf_notifications cfg))"

definition write_config :: "config_world \<Rightarrow> config \<Rightarrow> config_desk \<Rightarrow> goerr option \<times> config_desk" where
  "write_config yw cfg s =
     (let s = s\<lparr>kd_config := Inr cfg\<rparr> in
      case save_refusal cfg of
        Some e \<Rightarrow> (Some e, s)
      | None \<Rightarrow> (case yw_write yw cfg of Some e \<Rightarrow> (Some e, s) | None \<Rightarrow> (None, s\<lparr>kd_file := cfg\<rparr>)))"

definition stored_notification :: "config \<Rightarrow> string \<Rightarrow> goerr + notification" where
  "stored_notification cfg i =
     (case find_notification cfg i of
        Inl _ \<Rightarrow> Inl (Plain (''channel '' @ quoted i @ '' does not exist yet, so there is no stored url to keep: send one''))
      | Inr n \<Rightarrow> Inr n)"

definition cli_save :: "config_world \<Rightarrow> api_channel \<Rightarrow> string \<Rightarrow> config_desk \<Rightarrow> goerr option \<times> config_desk" where
  "cli_save yw ch target s =
     (case kd_config s of
        Inl e \<Rightarrow> (Some e, s)
      | Inr cfg \<Rightarrow>
          (case kd_key s of
             Inl e \<Rightarrow> (Some e, s)
           | Inr k \<Rightarrow>
               (case (if target = [] then map_sum id nt_url (stored_notification cfg (hc_id ch)) else Inr []) of
                  Inl e \<Rightarrow> (Some e, s)
                | Inr url \<Rightarrow>
                    (let cfg = upsert_notification
                       \<lparr>nt_id = hc_id ch, nt_kind = hc_kind ch, nt_url = url, nt_enabled = Some (hc_enabled ch)\<rparr> cfg in
                     case (if target = [] then Inr cfg
                           else set_notification_url (yw_net yw) (yw_cipher yw) (yw_nonce yw) k (hc_id ch) target cfg) of
                       Inl e \<Rightarrow> (Some e, s\<lparr>kd_config := Inr cfg\<rparr>)
                     | Inr cfg \<Rightarrow>
                         if validate_config (yw_net yw) cfg \<noteq> [] then
                           (Some (validate_error (validate_config (yw_net yw) cfg)), s\<lparr>kd_config := Inr cfg\<rparr>)
                         else write_config yw cfg s))))"

definition cli_remove :: "config_world \<Rightarrow> string \<Rightarrow> config_desk \<Rightarrow> goerr option \<times> config_desk" where
  "cli_remove yw i s =
     (case kd_config s of
        Inl e \<Rightarrow> (Some e, s)
      | Inr cfg \<Rightarrow>
          (case remove_notification i cfg of Inl e \<Rightarrow> (Some e, s) | Inr cfg \<Rightarrow> write_config yw cfg s))"

definition cli_target :: "config_world \<Rightarrow> string \<Rightarrow> config_desk \<Rightarrow> goerr + string" where
  "cli_target yw i s =
     (case kd_config s of
        Inl e \<Rightarrow> Inl e
      | Inr cfg \<Rightarrow>
          (case kd_key s of
             Inl e \<Rightarrow> Inl e
           | Inr k \<Rightarrow>
               (case find_notification cfg i of Inl e \<Rightarrow> Inl e | Inr n \<Rightarrow> channel_target (yw_cipher yw) k n)))"

definition cli_notifications :: "config_world \<Rightarrow> config_desk channel_ops" where
  "cli_notifications yw = \<lparr>co_list = cli_channels yw, co_save = cli_save yw, co_remove = cli_remove yw,
     co_target = cli_target yw\<rparr>"

text \<open>What the dispatcher is given at each pass, and what the diagnostic may see.\<close>

definition configured_channels :: "config_desk \<Rightarrow> notification list" where
  "configured_channels s = (case kd_config s of Inl _ \<Rightarrow> [] | Inr cfg \<Rightarrow> cf_notifications cfg)"

definition diag_channels :: "config_desk \<Rightarrow> (string \<times> string \<times> bool) list" where
  "diag_channels s = map (\<lambda>n. (nt_id n, nt_kind n, channel_on n)) (configured_channels s)"

end
