(* ===== verification/Channels_Safety.thy ===== *)
theory Channels_Safety
  imports Channels
begin

text \<open>
  What an operator's edit of a channel does: it names one channel and leaves the others; an edit without a URL keeps the
  webhook that is stored; what is answered as saved is in the file; what is refused leaves the file as it was.
\<close>

section \<open>The book of channels as an interface\<close>

text \<open>
  What is stored of a channel: its kind, whether it is on, its sealed URL. \<open>ondisk\<close> is what the file holds, and
  \<open>seal\<close> what sealing makes of a URL at that moment.
\<close>

type_synonym book = "string \<rightharpoonup> string \<times> bool \<times> string"

locale channel_book =
  fixes ops :: "'s channel_ops" and view :: "'s \<Rightarrow> book" and ondisk :: "'s \<Rightarrow> book"
    and inv :: "'s \<Rightarrow> bool" and seal :: "'s \<Rightarrow> string \<Rightarrow> string"
  assumes listed: "inv s \<Longrightarrow>
      map_option (\<lambda>ch. (hc_kind ch, hc_enabled ch)) (find (\<lambda>ch. hc_id ch = i) (co_list ops s)) =
      map_option (\<lambda>(k, on, u). (k, on)) (view s i)"
    and saved: "inv s \<Longrightarrow> co_save ops ch t s = (None, s') \<Longrightarrow> inv s' \<and> ondisk s' = view s' \<and>
      (\<exists>u. view s' = (view s)(hc_id ch \<mapsto> (hc_kind ch, hc_enabled ch, u)) \<and>
        (if t = [] then (\<exists>k on. view s (hc_id ch) = Some (k, on, u)) else u = seal s t))"
    and unsaved: "co_save ops ch t s = (Some e, s') \<Longrightarrow> ondisk s' = ondisk s"
    and removed: "inv s \<Longrightarrow> co_remove ops i s = (None, s') \<Longrightarrow>
      inv s' \<and> ondisk s' = view s' \<and> view s i \<noteq> None \<and> view s' = (view s)(i := None)"
    and unremoved: "co_remove ops i s = (Some e, s') \<Longrightarrow> ondisk s' = ondisk s"
begin

lemma listed_some:
  assumes "inv s" "find (\<lambda>ch. hc_id ch = i) (co_list ops s) = Some ch"
  shows "\<exists>u. view s i = Some (hc_kind ch, hc_enabled ch, u)" "hc_id ch = i"
proof -
  show "\<exists>u. view s i = Some (hc_kind ch, hc_enabled ch, u)"
    using listed [OF assms(1), of i] assms(2) by (cases "view s i") (auto split: prod.splits)
  show "hc_id ch = i" using assms(2) by (auto simp: find_Some_iff)
qed

lemma listed_none:
  assumes "inv s" shows "find (\<lambda>ch. hc_id ch = i) (co_list ops s) = None \<longleftrightarrow> view s i = None"
  using listed [OF assms, of i]
  by (cases "find (\<lambda>ch. hc_id ch = i) (co_list ops s)"; cases "view s i") simp_all

lemma saved_and_read:
  assumes "inv s" "save_channel ce ops code ch t s = (r, s')"
  shows "case r of
      Inl p \<Rightarrow> ondisk s' = ondisk s
    | Inr (c, dto) \<Rightarrow> c = code \<and> nd_id dto = hc_id ch \<and> ondisk s' = view s' \<and> inv s' \<and>
        (\<exists>u. view s' = (view s)(hc_id ch \<mapsto> (hc_kind ch, hc_enabled ch, u)) \<and>
          (if t = [] then (\<exists>k on. view s (hc_id ch) = Some (k, on, u)) else u = seal s t))"
proof (cases "co_save ops ch t s")
  case (Pair e s1)
  show ?thesis
  proof (cases e)
    case None
    note ok = saved [OF assms(1) Pair [unfolded None]]
    then have "view s1 (hc_id ch) \<noteq> None" by auto
    then obtain there where there: "find (\<lambda>c. hc_id c = hc_id ch) (co_list ops s1) = Some there"
      using listed_none [of s1 "hc_id ch"] ok by (cases "find (\<lambda>c. hc_id c = hc_id ch) (co_list ops s1)") auto
    have "hc_id there = hc_id ch" using listed_some(2) [OF _ there] ok by simp
    then show ?thesis
      using assms(2) ok there
      by (auto simp: save_channel_def Pair None channel_read_back_def with_last_deliveries_def new_notification_dto_def
          with_last_delivery_def split: sum.splits option.splits)
  next
    case (Some x)
    then show ?thesis using assms(2) unsaved [OF Pair [unfolded Some]] by (auto simp: save_channel_def Pair)
  qed
qed

lemma edited:
  assumes "inv s"
  shows "case handle_update_notification ce (Some ops) i body s of
      (Inl p, s') \<Rightarrow> ondisk s' = ondisk s
    | (Inr (code, dto), s') \<Rightarrow> code = 200 \<and> nd_id dto = i \<and> ondisk s' = view s' \<and> inv s' \<and>
        (\<exists>req k on u u'. body = Some req \<and> view s i = Some (k, on, u) \<and>
           view s' = (view s)(i \<mapsto> (if nr_kind req = [] then k else nr_kind req,
             case nr_enabled req of None \<Rightarrow> on | Some b \<Rightarrow> b, u')) \<and>
           u' = (if nr_url req = [] then u else seal s (nr_url req)))"
proof (cases "find (\<lambda>ch. hc_id ch = i) (co_list ops s)")
  case (Some ch)
  obtain u where u: "view s i = Some (hc_kind ch, hc_enabled ch, u)" and i: "hc_id ch = i"
    using listed_some [OF assms Some] by blast
  show ?thesis
  proof (cases "body = None \<or> (\<exists>req. body = Some req \<and> edit_problem ce req \<noteq> None)")
    case False
    then obtain req where req: "body = Some req" "edit_problem ce req = None" by (cases body) auto
    obtain r s' where r: "save_channel ce ops 200 (edited_channel req ch) (nr_url req) s = (r, s')" by fastforce
    have "handle_update_notification ce (Some ops) i body s = (r, s')"
      by (simp add: handle_update_notification_def find_channel_def channels_of_def Some req read_notification_def r)
    moreover have "case r of
        Inl p \<Rightarrow> ondisk s' = ondisk s
      | Inr (c, dto) \<Rightarrow> c = 200 \<and> nd_id dto = i \<and> ondisk s' = view s' \<and> inv s' \<and>
          (\<exists>u'. view s' = (view s)(i \<mapsto> (if nr_kind req = [] then hc_kind ch else nr_kind req,
             case nr_enabled req of None \<Rightarrow> hc_enabled ch | Some b \<Rightarrow> b, u')) \<and>
             u' = (if nr_url req = [] then u else seal s (nr_url req)))"
      using saved_and_read [OF assms r] i u
      by (auto simp: edited_channel_def split: sum.splits if_splits)
    ultimately show ?thesis using req u by (cases r) auto
  qed (auto simp: handle_update_notification_def find_channel_def channels_of_def Some read_notification_def
      split: option.splits)
qed (simp add: handle_update_notification_def find_channel_def channels_of_def)

lemma created:
  assumes "inv s"
  shows "case handle_create_notification ce (Some ops) body s of
      (Inl p, s') \<Rightarrow> ondisk s' = ondisk s
    | (Inr (code, dto), s') \<Rightarrow> code = 201 \<and> ondisk s' = view s' \<and> inv s' \<and>
        (\<exists>req. body = Some req \<and> nd_id dto = nr_id req \<and> view s (nr_id req) = None \<and> nr_url req \<noteq> [] \<and>
           notification_id_problem (nr_id req) = None \<and>
           view s' = (view s)(nr_id req \<mapsto> (nr_kind req, case nr_enabled req of None \<Rightarrow> True | Some b \<Rightarrow> b, seal s (nr_url req))))"
proof (cases "body = None \<or> (\<exists>req. body = Some req \<and> creation_problem ce ops req s \<noteq> None)")
  case False
  then obtain req where req: "body = Some req" "creation_problem ce ops req s = None" by (cases body) auto
  let ?ch = "\<lparr>hc_id = nr_id req, hc_kind = nr_kind req, hc_host = [],
    hc_enabled = (case nr_enabled req of None \<Rightarrow> True | Some b \<Rightarrow> b)\<rparr>"
  obtain r s' where r: "save_channel ce ops 201 ?ch (nr_url req) s = (r, s')" by fastforce
  have fresh: "notification_id_problem (nr_id req) = None" "nr_url req \<noteq> []"
    "\<not> list_ex (\<lambda>ch. hc_id ch = nr_id req) (co_list ops s)"
    using req(2) by (auto simp: creation_problem_def split: option.splits if_splits)
  then have "find (\<lambda>ch. hc_id ch = nr_id req) (co_list ops s) = None" by (simp add: find_None_iff list_ex_iff)
  then have "view s (nr_id req) = None" using listed_none [OF assms] by simp
  moreover have "handle_create_notification ce (Some ops) body s = (r, s')"
    by (simp add: handle_create_notification_def channels_of_def req read_notification_def r)
  ultimately show ?thesis
    using saved_and_read [OF assms r] fresh req by (cases r) auto
qed (auto simp: handle_create_notification_def channels_of_def read_notification_def split: option.splits)

lemma deleted:
  assumes "inv s"
  shows "case handle_delete_notification (Some ops) i s of
      (Inl p, s') \<Rightarrow> ondisk s' = ondisk s
    | (Inr (code, dto), s') \<Rightarrow> code = 204 \<and> inv s' \<and> ondisk s' = view s' \<and> view s i \<noteq> None \<and> view s' = (view s)(i := None)"
proof (cases "find (\<lambda>ch. hc_id ch = i) (co_list ops s)")
  case (Some ch)
  have i: "hc_id ch = i" using listed_some(2) [OF assms Some] .
  obtain e s' where e: "co_remove ops i s = (e, s')" by fastforce
  show ?thesis
    using removed [OF assms] unremoved e i
    by (cases e) (auto simp: handle_delete_notification_def find_channel_def channels_of_def Some)
qed (simp add: handle_delete_notification_def find_channel_def channels_of_def)

end


section \<open>The configuration is such a book\<close>

definition config_book :: "config \<Rightarrow> book" where
  "config_book cfg = (\<lambda>i. map_option (\<lambda>n. (nt_kind n, channel_on n, nt_url n))
     (find (\<lambda>n. nt_id n = i) (cf_notifications cfg)))"

definition desk_book :: "config_desk \<Rightarrow> book" where
  "desk_book s = (case kd_config s of Inl _ \<Rightarrow> Map.empty | Inr cfg \<Rightarrow> config_book cfg)"

definition desk_ok :: "config_desk \<Rightarrow> bool" where
  "desk_ok s = (case kd_config s of Inl _ \<Rightarrow> False | Inr cfg \<Rightarrow> distinct (map nt_id (cf_notifications cfg)))"

definition desk_seal :: "config_world \<Rightarrow> config_desk \<Rightarrow> string \<Rightarrow> string" where
  "desk_seal yw s t = (case kd_key s of Inl _ \<Rightarrow> [] | Inr k \<Rightarrow> seal_secret (yw_cipher yw) (yw_nonce yw) k t)"

lemma written:
  assumes "write_config yw cfg s = (e, s')"
  shows "kd_config s' = Inr cfg" "kd_key s' = kd_key s" "kd_file s' = (if e = None then cfg else kd_file s)"
  using assms by (auto simp: write_config_def Let_def split: option.splits)

lemma book_upsert:
  "config_book (upsert_notification n cfg) = (config_book cfg)(nt_id n \<mapsto> (nt_kind n, channel_on n, nt_url n))"
  by (rule ext) (simp add: config_book_def upsert_notification_def find_put_by)

lemma book_url:
  assumes "set_notification_url ne ci nonce k i t cfg = Inr cfg'" "config_book cfg i = Some (kind, on, u)"
  shows "config_book cfg' = (config_book cfg)(i \<mapsto> (kind, on, seal_secret ci nonce k t))"
    "map nt_id (cf_notifications cfg') = map nt_id (cf_notifications cfg)"
  using assms
  by (auto simp: set_notification_url_def config_book_def find_replace_first [where key = nt_id] map_replace_first channel_on_def
      fun_eq_iff split: sum.splits option.splits)

lemma distinct_upsert:
  "distinct (map nt_id (cf_notifications cfg)) \<Longrightarrow> distinct (map nt_id (cf_notifications (upsert_notification n cfg)))"
  by (simp add: upsert_notification_def distinct_put_by)

lemma cli_saves:
  assumes "desk_ok s" "cli_save yw ch t s = (None, s')"
  shows "desk_ok s' \<and> config_book (kd_file s') = desk_book s' \<and>
    (\<exists>u. desk_book s' = (desk_book s)(hc_id ch \<mapsto> (hc_kind ch, hc_enabled ch, u)) \<and>
      (if t = [] then (\<exists>k on. desk_book s (hc_id ch) = Some (k, on, u)) else u = desk_seal yw s t))"
proof -
  obtain cfg where cfg: "kd_config s = Inr cfg" and dist: "distinct (map nt_id (cf_notifications cfg))"
    using assms(1) by (auto simp: desk_ok_def split: sum.splits)
  obtain k where k: "kd_key s = Inr k"
    using assms(2) by (cases "kd_key s") (auto simp: cli_save_def cfg)
  define up where "up = (\<lambda>u. upsert_notification
    \<lparr>nt_id = hc_id ch, nt_kind = hc_kind ch, nt_url = u, nt_enabled = Some (hc_enabled ch)\<rparr> cfg)"
  have up: "config_book (up u) = (config_book cfg)(hc_id ch \<mapsto> (hc_kind ch, hc_enabled ch, u))"
    "distinct (map nt_id (cf_notifications (up u)))" for u
    by (simp_all add: up_def book_upsert distinct_upsert [OF dist] channel_on_def)
  show ?thesis
  proof (cases "t = []")
    case True
    then obtain n where n: "find_notification cfg (hc_id ch) = Inr n"
      using assms(2) by (cases "find_notification cfg (hc_id ch)") (auto simp: cli_save_def cfg k stored_notification_def)
    have "write_config yw (up (nt_url n)) s = (None, s')"
      using assms(2) by (auto simp: cli_save_def cfg k stored_notification_def n True Let_def up_def split: if_splits)
    note w = written [OF this]
    have "config_book cfg (hc_id ch) = Some (nt_kind n, channel_on n, nt_url n)"
      using n by (auto simp: find_notification_def config_book_def split: option.splits)
    then show ?thesis
      using True w up [of "nt_url n"] by (simp add: desk_ok_def desk_book_def cfg)
  next
    case False
    then obtain cfg' where cfg': "set_notification_url (yw_net yw) (yw_cipher yw) (yw_nonce yw) k (hc_id ch) t (up []) = Inr cfg'"
      and "write_config yw cfg' s = (None, s')"
      using assms(2) by (auto simp: cli_save_def cfg k Let_def up_def split: sum.splits if_splits)
    note w = written [OF this(2)]
    have "config_book (up []) (hc_id ch) = Some (hc_kind ch, hc_enabled ch, [])" by (simp add: up)
    note b = book_url [OF cfg' this]
    show ?thesis
      using False w b up [of "[]"] by (simp add: desk_ok_def desk_book_def cfg desk_seal_def k)
  qed
qed

lemma cli_removes:
  assumes "desk_ok s" "cli_remove yw i s = (None, s')"
  shows "desk_ok s' \<and> config_book (kd_file s') = desk_book s' \<and> desk_book s i \<noteq> None \<and> desk_book s' = (desk_book s)(i := None)"
proof -
  obtain cfg where cfg: "kd_config s = Inr cfg" and dist: "distinct (map nt_id (cf_notifications cfg))"
    using assms(1) by (auto simp: desk_ok_def split: sum.splits)
  obtain cfg' where cfg': "remove_notification i cfg = Inr cfg'" and "write_config yw cfg' s = (None, s')"
    using assms(2) by (auto simp: cli_remove_def cfg split: sum.splits)
  note w = written [OF this(2)]
  have "i \<in> nt_id ` set (cf_notifications cfg)"
    and c: "cfg' = cfg\<lparr>cf_notifications := drop_first (\<lambda>n. nt_id n = i) (cf_notifications cfg)\<rparr>"
    using cfg' by (auto simp: remove_notification_def split: if_splits)
  then have "config_book cfg i \<noteq> None" using find_none_key [of nt_id i] by (auto simp: config_book_def)
  moreover have "config_book cfg' = (config_book cfg)(i := None)"
    by (rule ext) (simp add: config_book_def c find_drop_first [OF dist])
  moreover have "distinct (map nt_id (cf_notifications cfg'))" by (simp add: c drop_first_keys dist)
  ultimately show ?thesis using w by (simp add: desk_ok_def desk_book_def cfg)
qed

lemma unsaved_file:
  "cli_save yw ch t s = (Some e, s') \<Longrightarrow> kd_file s' = kd_file s"
  "cli_remove yw i s = (Some e, s') \<Longrightarrow> kd_file s' = kd_file s"
  by (auto simp: cli_save_def cli_remove_def Let_def write_config_def split: sum.splits if_splits option.splits)

lemma cli_lists:
  assumes "desk_ok s"
  shows "map_option (\<lambda>ch. (hc_kind ch, hc_enabled ch)) (find (\<lambda>ch. hc_id ch = i) (cli_channels yw s)) =
      map_option (\<lambda>(k, on, u). (k, on)) (desk_book s i)"
proof -
  have "map_option (\<lambda>ch. (hc_kind ch, hc_enabled ch)) (find (\<lambda>ch. hc_id ch = i)
        (map (\<lambda>n. \<lparr>hc_id = nt_id n, hc_kind = nt_kind n, hc_host = h n, hc_enabled = channel_on n\<rparr>) ns)) =
      map_option (\<lambda>n. (nt_kind n, channel_on n)) (find (\<lambda>n. nt_id n = i) ns)" for h ns
    by (induction ns) auto
  then show ?thesis
    using assms
    by (auto simp: cli_channels_def desk_ok_def desk_book_def config_book_def option.map_comp comp_def split: sum.splits)
qed

interpretation notifications: channel_book "cli_notifications yw" desk_book "\<lambda>s. config_book (kd_file s)" desk_ok "desk_seal yw"
  for yw :: config_world
proof
  fix s s' :: config_desk and i ch t e
  show "map_option (\<lambda>ch. (hc_kind ch, hc_enabled ch)) (find (\<lambda>ch. hc_id ch = i) (co_list (cli_notifications yw) s)) =
      map_option (\<lambda>(k, on, u). (k, on)) (desk_book s i)" if "desk_ok s"
    using cli_lists [OF that] by (simp only: cli_notifications_def channel_ops.simps)
  show "desk_ok s' \<and> config_book (kd_file s') = desk_book s' \<and>
      (\<exists>u. desk_book s' = (desk_book s)(hc_id ch \<mapsto> (hc_kind ch, hc_enabled ch, u)) \<and>
        (if t = [] then (\<exists>k on. desk_book s (hc_id ch) = Some (k, on, u)) else u = desk_seal yw s t))"
    if "desk_ok s" "co_save (cli_notifications yw) ch t s = (None, s')"
    by (rule cli_saves [OF that(1)]) (use that(2) in \<open>simp only: cli_notifications_def channel_ops.simps\<close>)
  show "config_book (kd_file s') = config_book (kd_file s)" if "co_save (cli_notifications yw) ch t s = (Some e, s')"
    using that unsaved_file(1) [of yw ch t s e s'] by (simp only: cli_notifications_def channel_ops.simps)
  show "desk_ok s' \<and> config_book (kd_file s') = desk_book s' \<and> desk_book s i \<noteq> None \<and> desk_book s' = (desk_book s)(i := None)"
    if "desk_ok s" "co_remove (cli_notifications yw) i s = (None, s')"
    by (rule cli_removes [OF that(1)]) (use that(2) in \<open>simp only: cli_notifications_def channel_ops.simps\<close>)
  show "config_book (kd_file s') = config_book (kd_file s)" if "co_remove (cli_notifications yw) i s = (Some e, s')"
    using that unsaved_file(2) [of yw i s e s'] by (simp only: cli_notifications_def channel_ops.simps)
qed

text \<open>C39. An operator's edit touches one channel. When a PUT is refused the file is as it was; when it is answered 200, the
  file and the running configuration agree, every other channel is as it was, and this one has the kind and the switch the
  request gave, or those it had, and the URL sealed from the request, or, when the request gave none, the very one that was
  stored.\<close>

theorem edit_keeps_the_webhook:
  assumes "desk_ok s"
  shows "case handle_update_notification ce (Some (cli_notifications yw)) i body s of
      (Inl p, s') \<Rightarrow> config_book (kd_file s') = config_book (kd_file s)
    | (Inr (code, dto), s') \<Rightarrow> code = 200 \<and> nd_id dto = i \<and> config_book (kd_file s') = desk_book s' \<and> desk_ok s' \<and>
        (\<exists>req k on u u'. body = Some req \<and> desk_book s i = Some (k, on, u) \<and>
           desk_book s' = (desk_book s)(i \<mapsto> (if nr_kind req = [] then k else nr_kind req,
             case nr_enabled req of None \<Rightarrow> on | Some b \<Rightarrow> b, u')) \<and>
           u' = (if nr_url req = [] then u else desk_seal yw s (nr_url req)))"
  by (rule notifications.edited [OF assms])

text \<open>A POST adds a channel under an id nobody uses, and a DELETE removes the one it names.\<close>

theorem creation_replaces_nobody:
  assumes "desk_ok s"
  shows "case handle_create_notification ce (Some (cli_notifications yw)) body s of
      (Inl p, s') \<Rightarrow> config_book (kd_file s') = config_book (kd_file s)
    | (Inr (code, dto), s') \<Rightarrow> code = 201 \<and> config_book (kd_file s') = desk_book s' \<and> desk_ok s' \<and>
        (\<exists>req. body = Some req \<and> nd_id dto = nr_id req \<and> desk_book s (nr_id req) = None \<and> nr_url req \<noteq> [] \<and>
           notification_id_problem (nr_id req) = None \<and>
           desk_book s' = (desk_book s)(nr_id req \<mapsto>
             (nr_kind req, case nr_enabled req of None \<Rightarrow> True | Some b \<Rightarrow> b, desk_seal yw s (nr_url req))))"
  by (rule notifications.created [OF assms])

theorem deletion_removes_one:
  assumes "desk_ok s"
  shows "case handle_delete_notification (Some (cli_notifications yw)) i s of
      (Inl p, s') \<Rightarrow> config_book (kd_file s') = config_book (kd_file s)
    | (Inr (code, dto), s') \<Rightarrow> code = 204 \<and> desk_ok s' \<and> config_book (kd_file s') = desk_book s' \<and> desk_book s i \<noteq> None \<and>
        desk_book s' = (desk_book s)(i := None)"
  by (rule notifications.deleted [OF assms])


section \<open>A sample\<close>

definition lab_book :: config where
  "lab_book = new_config\<lparr>cf_notifications :=
     [\<lparr>nt_id = ''ops'', nt_kind = ''discord'', nt_url = ''rlsec:v1:QUJD'', nt_enabled = None\<rparr>,
      \<lparr>nt_id = ''dev'', nt_kind = ''slack'', nt_url = ''rlsec:v1:REVG'', nt_enabled = None\<rparr>]\<rparr>"

definition lab_desk :: config_desk where
  "lab_desk = \<lparr>kd_config = Inr lab_book, kd_key = Inr ''key'', kd_file = lab_book\<rparr>"

definition lab_configs :: "(config \<Rightarrow> goerr option) \<Rightarrow> config_world" where
  "lab_configs write = \<lparr>yw_net = \<lparr>ne_parse = (\<lambda>_. Inl (Plain [])), ne_loopback_ip = (\<lambda>_. False)\<rparr>,
     yw_cipher = \<lparr>ae_seal = (\<lambda>k n p. p), ae_open = (\<lambda>k n c. Some c)\<rparr>, yw_nonce = [], yw_write = write\<rparr>"

definition lab_channels :: "config_desk channel_env" where
  "lab_channels = \<lparr>ce_deliveries = (\<lambda>_ _. Inl (Plain [])), ce_now = (\<lambda>_. 0),
     ce_post = (\<lambda>_ _ _. \<lparr>pt_status = 204, pt_err = None, pt_retry = False, pt_retry_at = 0\<rparr>),
     ce_status_text = (\<lambda>_. []), ce_net = yw_net (lab_configs (\<lambda>_. None))\<rparr>"

definition lab_edit :: notification_request where
  "lab_edit = \<lparr>nr_id = [], nr_kind = [], nr_url = [], nr_enabled = Some False\<rparr>"

lemma lab_update:
  "case fst (handle_update_notification lab_channels (Some (cli_notifications (lab_configs (\<lambda>_. None)))) ''ops'' (Some lab_edit) lab_desk) of
     Inr (c, d) \<Rightarrow> c = 200 | Inl _ \<Rightarrow> False"
  by code_simp

lemma lab_books: "desk_ok lab_desk" "desk_book lab_desk ''ops'' = Some (''discord'', True, ''rlsec:v1:QUJD'')"
  by code_simp+

theorem edit_keeps_the_webhook_witness:
  "\<exists>dto s'. handle_update_notification lab_channels (Some (cli_notifications (lab_configs (\<lambda>_. None)))) ''ops'' (Some lab_edit) lab_desk =
      (Inr (200, dto), s') \<and> desk_book s' = (desk_book lab_desk)(''ops'' \<mapsto> (''discord'', False, ''rlsec:v1:QUJD''))"
proof -
  let ?h = "handle_update_notification lab_channels (Some (cli_notifications (lab_configs (\<lambda>_. None)))) ''ops'' (Some lab_edit) lab_desk"
  obtain dto s' where h: "?h = (Inr (200, dto), s')" using lab_update by (cases ?h) (auto split: sum.splits)
  then show ?thesis
    using edit_keeps_the_webhook [OF lab_books(1), where ce = lab_channels and yw = "lab_configs (\<lambda>_. None)"
      and i = "''ops''" and body = "Some lab_edit"] lab_books(2)
    by (auto simp: lab_edit_def)
qed

text \<open>
  A save changes the configuration in memory before it is checked and written: when the file cannot be written, the
  caller is told so, the file is as it was, and the running process goes on with the new channel.
\<close>

lemma failed_save_changes_what_runs:
  "case cli_save (lab_configs (\<lambda>_. Some (Plain ''no space left''))) \<lparr>hc_id = ''ops'', hc_kind = ''discord'', hc_host = h, hc_enabled = False\<rparr> [] lab_desk of
     (r, s') \<Rightarrow> r = Some (Plain ''no space left'') \<and> kd_file s' = kd_file lab_desk \<and>
       desk_book s' ''ops'' = Some (''discord'', False, ''rlsec:v1:QUJD'') \<and>
       desk_book lab_desk ''ops'' = Some (''discord'', True, ''rlsec:v1:QUJD'')"
  by code_simp

text \<open>A text that looks sealed is taken for a URL, and sealed again.\<close>

lemma sealed_text_is_taken_for_a_url: "is_sealed raw \<Longrightarrow> notification_url_problem ce raw = None"
  by (auto simp: notification_url_problem_def validate_notification_url_def is_sealed_def seal_prefix_def)

end
