(* ===== verification/Providers.thy ===== *)
theory Providers
  imports Proxmox_Guest Config
begin

text \<open>
  internal/providers: the backups of one Proxmox Backup Server datastore (pbs), the client a configured provider becomes
  (factory.go), and how a command finds its provider (internal/cli/root.go). The transport, X.509, SHA-256, the decoder
  of JSON and the file system are parameters. Decoding leaves the text of a number where the code reads it itself.
\<close>

section \<open>The backup server's client\<close>

record pbs_config =
  bc_id :: string
  bc_endpoint :: string
  bc_token_id :: string
  bc_token_secret :: string
  bc_datastore :: string
  bc_pve_storage :: string
  bc_insecure :: bool
  bc_ca :: string
  bc_fingerprint :: string
  bc_skip_failed :: bool
  bc_timeout :: duration

record tls_config =
  tc_insecure :: bool
  tc_roots :: "string option"
  tc_pin :: "string option"

record pbs =
  pb_config :: pbs_config
  pb_tls :: tls_config
  pb_base :: string

text \<open>What the standard library says of a PEM text, and of a text that is not hexadecimal.\<close>

record trust_env =
  te_pem :: "string \<Rightarrow> bool"
  te_hex :: "string \<Rightarrow> goerr"

definition normalize_fingerprint :: "trust_env \<Rightarrow> string \<Rightarrow> goerr + string" where
  "normalize_fingerprint te fp =
     (let s = to_lower (filter (\<lambda>c. c \<noteq> CHR '':'') fp) in
      if length s \<noteq> 64 then
        Inl (Plain (''expected 64 hex characters (colons optional), got '' @ itoa (int (length s))))
      else
        (case hex_decode s of
           None \<Rightarrow> Inl (Wrapped (''not valid hex: '' @ err_text (te_hex te s)) (te_hex te s))
         | Some _ \<Rightarrow> Inr s))"

definition build_tls_config :: "trust_env \<Rightarrow> pbs_config \<Rightarrow> goerr + tls_config" where
  "build_tls_config te c =
     (if bc_fingerprint c \<noteq> [] then
        (case normalize_fingerprint te (bc_fingerprint c) of
           Inl x \<Rightarrow> Inl (Wrapped (''pbs: invalid Fingerprint: '' @ err_text x) x)
         | Inr want \<Rightarrow> Inr \<lparr>tc_insecure = True, tc_roots = None, tc_pin = Some want\<rparr>)
      else if bc_ca c \<noteq> [] \<and> \<not> te_pem te (bc_ca c) then
        Inl (Plain ''pbs: CACertPEM does not contain a valid PEM certificate'')
      else Inr \<lparr>tc_insecure = bc_insecure c, tc_roots = (if bc_ca c = [] then None else Some (bc_ca c)), tc_pin = None\<rparr>)"

definition hex_digit :: "nat \<Rightarrow> char" where
  "hex_digit n = (if n < 10 then char_of (48 + n) else char_of (87 + n))"

fun hex_encode :: "string \<Rightarrow> string" where
  "hex_encode [] = []"
| "hex_encode (c # cs) = hex_digit (of_char c div 16) # hex_digit (of_char c mod 16) # hex_encode cs"

text \<open>The check the pin installs, on the certificates the server presented.\<close>

definition verify_peer :: "(string \<Rightarrow> string) \<Rightarrow> string \<Rightarrow> string list \<Rightarrow> goerr option" where
  "verify_peer sha want certs =
     (case certs of
        [] \<Rightarrow> Some (Plain ''pbs: server presented no certificate'')
      | leaf # _ \<Rightarrow>
          (let got = hex_encode (sha leaf) in
           if got \<noteq> want then Some (Plain (''pbs: certificate fingerprint mismatch (got '' @ got @ '')'')) else None))"

text \<open>
  What crypto/tls does with that configuration: the chain is verified against the roots unless verification is off, then
  the installed check runs.
\<close>

definition accepts_server ::
  "(string option \<Rightarrow> string list \<Rightarrow> bool) \<Rightarrow> (string \<Rightarrow> string) \<Rightarrow> tls_config \<Rightarrow> string list \<Rightarrow> bool" where
  "accepts_server chain sha t certs \<longleftrightarrow>
     (tc_insecure t \<or> chain (tc_roots t) certs) \<and>
     (case tc_pin t of None \<Rightarrow> True | Some want \<Rightarrow> verify_peer sha want certs = None)"

definition blank :: "string \<Rightarrow> bool" where "blank s \<longleftrightarrow> trim_space s = []"

definition new_pbs :: "trust_env \<Rightarrow> pbs_config \<Rightarrow> goerr + pbs" where
  "new_pbs te c =
     (if blank (bc_endpoint c) then Inl (Plain ''pbs: Endpoint is required'')
      else if blank (bc_token_id c) then Inl (Plain ''pbs: TokenID is required'')
      else if blank (bc_token_secret c) then Inl (Plain ''pbs: TokenSecret is required'')
      else if blank (bc_datastore c) then Inl (Plain ''pbs: Datastore is required'')
      else
        (let c = c\<lparr>bc_timeout := (if bc_timeout c \<le> 0 then 30 * second else bc_timeout c),
               bc_pve_storage := (if blank (bc_pve_storage c) then bc_datastore c else bc_pve_storage c)\<rparr> in
         case build_tls_config te c of
           Inl x \<Rightarrow> Inl x
         | Inr t \<Rightarrow> Inr \<lparr>pb_config = c, pb_tls = t, pb_base = trim_right (\<lambda>x. x = CHR ''/'') (bc_endpoint c)\<rparr>))"


section \<open>Requests\<close>

text \<open>The entries of a listing, as the decoder leaves them: \<open>None\<close> is a number the object does not have.\<close>

record raw_store =
  rw_store :: string
  rw_name :: string
  rw_path :: string
  rw_comment :: string

record raw_snapshot =
  rn_type :: string
  rn_id :: string
  rn_time :: "string option"
  rn_size :: "string option"
  rn_protected :: bool
  rn_comment :: string
  rn_verification :: "(string \<times> string option) option"
  rn_files :: "(string \<times> string option) list"

record 'w pbs_env =
  bp_http :: "ctx \<Rightarrow> string \<Rightarrow> form \<Rightarrow> string \<Rightarrow> 'w \<Rightarrow> pve_reply \<times> 'w"
  bp_envelope :: "string \<Rightarrow> goerr + string"
  bp_version :: "string \<Rightarrow> goerr + unit"
  bp_stores :: "string \<Rightarrow> goerr + raw_store list"
  bp_snapshots :: "string \<Rightarrow> goerr + raw_snapshot list"
  bp_unquote :: "string \<Rightarrow> goerr + string"
  bp_integer :: "string \<Rightarrow> goerr"

definition max_error_body_bytes :: nat where "max_error_body_bytes = 512"

definition truncate_body :: "string \<Rightarrow> string" where
  "truncate_body b =
     (let s = trim_space b in
      if length s \<le> max_error_body_bytes then s else take max_error_body_bytes s @ ''...(truncated)'')"

definition pbs_status_error :: "int \<Rightarrow> string \<Rightarrow> string \<Rightarrow> goerr" where
  "pbs_status_error status path body =
     (let rest = '': '' @ ''pbs: '' @ path @ '': status '' @ itoa status @ '': '' @ truncate_body body;
          as_sentinel = (\<lambda>s. Wrapped (sentinel_text s @ rest) (Sentinel s)) in
      if status = 401 \<or> status = 403 then as_sentinel ErrUnauthorized
      else if status = 404 then as_sentinel ErrNotFound
      else if status \<ge> 500 then
        Retry_Err (Plain (''pbs: '' @ path @ '': status '' @ itoa status @ '': '' @ truncate_body body))
      else Plain (''pbs: '' @ path @ '': unexpected status '' @ itoa status @ '': '' @ truncate_body body))"

definition pbs_reply :: "'w pbs_env \<Rightarrow> (string \<Rightarrow> goerr + 'a) \<Rightarrow> string \<Rightarrow> pve_reply \<Rightarrow> goerr + 'a" where
  "pbs_reply e dec path r =
     (case r of
        NotBuilt x \<Rightarrow> Inl (Wrapped (''pbs: building request for '' @ path @ '': '' @ err_text x) x)
      | NotSent x \<Rightarrow> Inl (Retry_Err (Wrapped (''pbs: request to '' @ path @ '' failed: '' @ err_text x) x))
      | NotRead x \<Rightarrow> Inl (Retry_Err (Wrapped (''pbs: reading response from '' @ path @ '': '' @ err_text x) x))
      | Answered status body \<Rightarrow>
          if status \<noteq> 200 then Inl (pbs_status_error status path body)
          else
            (case bp_envelope e body of
               Inl x \<Rightarrow> Inl (Wrapped (''pbs: decoding envelope from '' @ path @ '': '' @ err_text x) x)
             | Inr raw \<Rightarrow>
                 (case dec raw of
                    Inl x \<Rightarrow> Inl (Wrapped (''pbs: decoding data from '' @ path @ '': '' @ err_text x) x)
                  | Inr a \<Rightarrow> Inr a)))"

definition pbs_authorization :: "pbs \<Rightarrow> string" where
  "pbs_authorization p = ''PBSAPIToken='' @ bc_token_id (pb_config p) @ '':'' @ bc_token_secret (pb_config p)"

definition pbs_get ::
  "'w pbs_env \<Rightarrow> pbs \<Rightarrow> ctx \<Rightarrow> string \<Rightarrow> form \<Rightarrow> (string \<Rightarrow> goerr + 'a) \<Rightarrow> 'w \<Rightarrow> (goerr + 'a) \<times> 'w" where
  "pbs_get e p c path q dec w =
     (case bp_http e c (pb_base p @ path) q (pbs_authorization p) w of (r, w) \<Rightarrow> (pbs_reply e dec path r, w))"

definition pbs_ping :: "'w pbs_env \<Rightarrow> pbs \<Rightarrow> ctx \<Rightarrow> 'w \<Rightarrow> (goerr + unit) \<times> 'w" where
  "pbs_ping e p c w =
     (case pbs_get e p c ''/api2/json/version'' [] (bp_version e) w of
        (Inl x, w) \<Rightarrow> (Inl (wrapf ''pbs: ping'' x), w) | (Inr u, w) \<Rightarrow> (Inr u, w))"

record datastore =
  da_name :: string
  da_path :: string
  da_comment :: string

definition datastore_of :: "raw_store \<Rightarrow> datastore" where
  "datastore_of r = \<lparr>da_name = (if rw_store r = [] then rw_name r else rw_store r), da_path = rw_path r,
     da_comment = rw_comment r\<rparr>"

definition list_datastores :: "'w pbs_env \<Rightarrow> pbs \<Rightarrow> ctx \<Rightarrow> 'w \<Rightarrow> (goerr + datastore list) \<times> 'w" where
  "list_datastores e p c w =
     (case pbs_get e p c ''/api2/json/admin/datastore'' [] (bp_stores e) w of
        (Inl x, w) \<Rightarrow> (Inl (wrapf ''pbs: listing datastores'' x), w)
      | (Inr rs, w) \<Rightarrow> (Inr (map datastore_of rs), w))"


section \<open>Numbers and snapshots\<close>

text \<open>\<open>jsonNumber\<close>: a number, a number in quotes, or null.\<close>

definition json_number :: "'w pbs_env \<Rightarrow> string \<Rightarrow> goerr + string" where
  "json_number e b =
     (let s = trim_space b in
      if s = ''null'' \<or> s = [] then Inr []
      else if length s \<ge> 2 \<and> hd s = CHR 0x22 \<and> last s = CHR 0x22 then
        (case bp_unquote e b of
           Inl x \<Rightarrow> Inl (Wrapped (''pbs: decoding quoted number: '' @ err_text x) x) | Inr u \<Rightarrow> Inr u)
      else Inr s)"

definition number_field :: "'w pbs_env \<Rightarrow> string option \<Rightarrow> goerr + string" where
  "number_field e f = (case f of None \<Rightarrow> Inr [] | Some b \<Rightarrow> json_number e b)"

definition number_value :: "'w pbs_env \<Rightarrow> string \<Rightarrow> goerr + int" where
  "number_value e n =
     (if n = [] then Inr 0
      else
        (case atoi n of
           None \<Rightarrow> Inl (Wrapped (''pbs: '' @ quoted n @ '' is not an integer: '' @ err_text (bp_integer e n)) (bp_integer e n))
         | Some v \<Rightarrow> Inr v))"

record pbs_snapshot =
  bn_type :: string
  bn_id :: string
  bn_time :: string
  bn_size :: string
  bn_protected :: bool
  bn_comment :: string
  bn_verification :: "string option"
  bn_crypt_modes :: "string list"

fun number_fields :: "'w pbs_env \<Rightarrow> string option list \<Rightarrow> goerr + string list" where
  "number_fields e [] = Inr []"
| "number_fields e (f # fs) =
     (case number_field e f of
        Inl x \<Rightarrow> Inl x | Inr n \<Rightarrow> (case number_fields e fs of Inl x \<Rightarrow> Inl x | Inr ns \<Rightarrow> Inr (n # ns)))"

text \<open>The numbers of a verification and of a file are decoded too, and only then ignored.\<close>

definition snapshot_of :: "'w pbs_env \<Rightarrow> raw_snapshot \<Rightarrow> goerr + pbs_snapshot" where
  "snapshot_of e r =
     (case number_fields e ([rn_time r, rn_size r] @ (case rn_verification r of None \<Rightarrow> [] | Some (_, t) \<Rightarrow> [t]) @
             map snd (rn_files r)) of
        Inl x \<Rightarrow> Inl x
      | Inr ns \<Rightarrow> Inr \<lparr>bn_type = rn_type r, bn_id = rn_id r, bn_time = ns ! 0, bn_size = ns ! 1,
          bn_protected = rn_protected r, bn_comment = rn_comment r,
          bn_verification = map_option fst (rn_verification r), bn_crypt_modes = map fst (rn_files r)\<rparr>)"

fun each_ok :: "('a \<Rightarrow> goerr + 'b) \<Rightarrow> 'a list \<Rightarrow> goerr + 'b list" where
  "each_ok f [] = Inr []"
| "each_ok f (x # xs) =
     (case f x of Inl e \<Rightarrow> Inl e | Inr y \<Rightarrow> (case each_ok f xs of Inl e \<Rightarrow> Inl e | Inr ys \<Rightarrow> Inr (y # ys)))"

definition decode_snapshots :: "'w pbs_env \<Rightarrow> string \<Rightarrow> goerr + pbs_snapshot list" where
  "decode_snapshots e raw = (case bp_snapshots e raw of Inl x \<Rightarrow> Inl x | Inr rs \<Rightarrow> each_ok (snapshot_of e) rs)"

definition snapshot_path :: "string \<Rightarrow> string \<Rightarrow> time \<Rightarrow> string" where
  "snapshot_path kind i t = kind @ ''/'' @ i @ ''/'' @ format_rfc3339 t"

definition vol_id :: "string \<Rightarrow> string \<Rightarrow> time \<Rightarrow> string" where
  "vol_id pve_storage workload t = pve_storage @ '':backup/vm/'' @ workload @ ''/'' @ format_rfc3339 t"

definition verification_state_of :: "string option \<Rightarrow> verification_state" where
  "verification_state_of v =
     (case v of
        None \<Rightarrow> VerificationNone
      | Some s \<Rightarrow> if s = ''ok'' then VerificationOK else if s = ''failed'' then VerificationFailed else VerificationUnknown)"

definition is_encrypted :: "string list \<Rightarrow> bool" where
  "is_encrypted modes \<longleftrightarrow> list_ex (\<lambda>m. m \<noteq> [] \<and> m \<noteq> ''none'') modes"

definition to_backup :: "'w pbs_env \<Rightarrow> pbs_config \<Rightarrow> pbs_snapshot \<Rightarrow> goerr + backup" where
  "to_backup e c sn =
     (let tell = (\<lambda>what x. Wrapped (''snapshot '' @ bn_type sn @ ''/'' @ bn_id sn @ '': '' @ what @ '': '' @ err_text x) x) in
      case number_value e (bn_time sn) of
        Inl x \<Rightarrow> Inl (tell ''backup-time'' x)
      | Inr ts \<Rightarrow>
          (case number_value e (bn_size sn) of
             Inl x \<Rightarrow> Inl (tell ''size'' x)
           | Inr n \<Rightarrow> Inr \<lparr>bk_id = vol_id (bc_pve_storage c) (bn_id sn) (ts * second), bk_workload_id = bn_id sn,
               bk_provider_id = bc_id c, bk_datastore = bc_datastore c, bk_node = [], bk_created_at = ts * second,
               bk_size_bytes = n, bk_protected = bn_protected sn, bk_encrypted = is_encrypted (bn_crypt_modes sn),
               bk_verified = verification_state_of (bn_verification sn), bk_format = ''pbs'', bk_notes = bn_comment sn\<rparr>))"

text \<open>\<open>url.PathEscape\<close>.\<close>

definition path_plain :: "char \<Rightarrow> bool" where
  "path_plain c \<longleftrightarrow> (let n = (of_char c :: nat) in
     48 \<le> n \<and> n \<le> 57 \<or> 65 \<le> n \<and> n \<le> 90 \<or> 97 \<le> n \<and> n \<le> 122) \<or> c \<in> set ''-_.~$&+:=@''"

definition upper_hex :: "nat \<Rightarrow> char" where
  "upper_hex n = (if n < 10 then char_of (48 + n) else char_of (55 + n))"

definition path_escape :: "string \<Rightarrow> string" where
  "path_escape s =
     concat (map (\<lambda>c. if path_plain c then [c] else [CHR ''%'', upper_hex (of_char c div 16), upper_hex (of_char c mod 16)]) s)"

definition snapshots_path :: "pbs_config \<Rightarrow> string" where
  "snapshots_path c = ''/api2/json/admin/datastore/'' @ path_escape (bc_datastore c) @ ''/snapshots''"

definition pbs_list_backups :: "'w pbs_env \<Rightarrow> pbs \<Rightarrow> ctx \<Rightarrow> string \<Rightarrow> 'w \<Rightarrow> (goerr + backup list) \<times> 'w" where
  "pbs_list_backups e p c i w =
     (let what = ''pbs: listing backups for workload '' @ i in
      case pbs_get e p c (snapshots_path (pb_config p)) [(''backup-type'', [''vm'']), (''backup-id'', [i])]
             (decode_snapshots e) w of
        (Inl x, w) \<Rightarrow> (Inl (wrapf what x), w)
      | (Inr sns, w) \<Rightarrow>
          (case each_ok (to_backup e (pb_config p)) sns of
             Inl x \<Rightarrow> (Inl (wrapf what x), w) | Inr bs \<Rightarrow> (Inr (newest_backups bs), w)))"

definition pbs_get_latest :: "'w pbs_env \<Rightarrow> pbs \<Rightarrow> ctx \<Rightarrow> string \<Rightarrow> 'w \<Rightarrow> (goerr + backup) \<times> 'w" where
  "pbs_get_latest e p c i w =
     (case pbs_list_backups e p c i w of
        (Inl x, w) \<Rightarrow> (Inl x, w)
      | (Inr bs, w) \<Rightarrow>
          (case find (\<lambda>b. \<not> (bc_skip_failed (pb_config p) \<and> bk_verified b = VerificationFailed)) bs of
             Some b \<Rightarrow> (Inr b, w) | None \<Rightarrow> (Inl (Sentinel ErrNoBackup), w)))"


section \<open>The client of a configured provider\<close>

record factory_env =
  fx_cipher :: aead
  fx_file :: "string \<Rightarrow> goerr + string"
  fx_trust :: trust_env

definition read_ca :: "factory_env \<Rightarrow> provider_config \<Rightarrow> goerr + string" where
  "read_ca fx p =
     (if pv_ca_cert_path p = [] then Inr []
      else
        (case fx_file fx (pv_ca_cert_path p) of
           Inl x \<Rightarrow> Inl (Wrapped (''provider '' @ quoted (pv_id p) @ '': read ca_cert_path: '' @ err_text x) x)
         | Inr pem \<Rightarrow> Inr pem))"

definition factory_timeout :: duration where "factory_timeout = 30 * second"

definition new_proxmox :: "factory_env \<Rightarrow> provider_config \<Rightarrow> string \<Rightarrow> goerr + pve_config" where
  "new_proxmox fx p k =
     (case provider_secret (fx_cipher fx) k p of
        Inl x \<Rightarrow> Inl x
      | Inr secret \<Rightarrow>
          (case read_ca fx p of
             Inl x \<Rightarrow> Inl x
           | Inr ca \<Rightarrow> new_pve (te_pem (fx_trust fx))
               \<lparr>px_id = pv_id p, px_endpoint = pv_endpoint p, px_token_id = pv_token_id p, px_token_secret = secret,
                px_insecure = pv_insecure p, px_ca = ca, px_timeout = factory_timeout,
                px_backup_storage = pv_backup_storage p, px_temp_id_min = pv_temp_id_min p,
                px_temp_id_max = pv_temp_id_max p, px_name_prefix = []\<rparr>))"

definition new_backup_server :: "factory_env \<Rightarrow> provider_config \<Rightarrow> string \<Rightarrow> goerr + pbs" where
  "new_backup_server fx p k =
     (case provider_secret (fx_cipher fx) k p of
        Inl x \<Rightarrow> Inl x
      | Inr secret \<Rightarrow>
          (case read_ca fx p of
             Inl x \<Rightarrow> Inl x
           | Inr ca \<Rightarrow> new_pbs (fx_trust fx)
               \<lparr>bc_id = pv_id p, bc_endpoint = pv_endpoint p, bc_token_id = pv_token_id p, bc_token_secret = secret,
                bc_datastore = pv_datastore p, bc_pve_storage = pv_pve_storage p, bc_insecure = pv_insecure p,
                bc_ca = ca, bc_fingerprint = pv_fingerprint p, bc_skip_failed = False, bc_timeout = factory_timeout\<rparr>))"

definition unknown_provider :: "provider_config \<Rightarrow> goerr" where
  "unknown_provider p = Plain (''unknown provider kind '' @ quoted (pv_kind p) @ '' for provider '' @ quoted (pv_id p))"

definition new_hypervisor :: "factory_env \<Rightarrow> provider_config \<Rightarrow> string \<Rightarrow> goerr + pve_config" where
  "new_hypervisor fx p k =
     (if pv_kind p = ''proxmox'' then new_proxmox fx p k
      else if pv_kind p = ''pbs'' then
        Inl (Plain (''provider '' @ quoted (pv_id p) @ '' is a backup server: it cannot restore or start workloads''))
      else Inl (unknown_provider p))"

datatype backup_client = OnCluster pve_config | OnServer pbs

definition new_backup_provider :: "factory_env \<Rightarrow> provider_config \<Rightarrow> string \<Rightarrow> goerr + backup_client" where
  "new_backup_provider fx p k =
     (if pv_kind p = ''proxmox'' then map_sum id OnCluster (new_proxmox fx p k)
      else if pv_kind p = ''pbs'' then map_sum id OnServer (new_backup_server fx p k)
      else Inl (unknown_provider p))"

definition has_role :: "provider_config \<Rightarrow> string \<Rightarrow> bool" where
  "has_role p role \<longleftrightarrow> (if pv_roles p = [] then role = ''backup'' \<or> pv_kind p = ''proxmox'' else role \<in> set (pv_roles p))"


section \<open>The provider of a command\<close>

definition role_default :: "config \<Rightarrow> string \<Rightarrow> string" where
  "role_default cfg role =
     (if role = ''hypervisor'' then df_provider (cf_defaults cfg)
      else if role = ''backup'' then
        (if df_backup_provider (cf_defaults cfg) = [] then df_provider (cf_defaults cfg)
         else df_backup_provider (cf_defaults cfg))
      else [])"

definition only_candidate :: "config \<Rightarrow> string \<Rightarrow> goerr + provider_config" where
  "only_candidate cfg role =
     (case filter (\<lambda>p. has_role p role) (cf_providers cfg) of
        [] \<Rightarrow> Inl (Plain (''no '' @ role @ '' provider configured: run `restorelab provider add`''))
      | [p] \<Rightarrow> Inr p
      | _ \<Rightarrow> Inl (Plain (''several '' @ role @ '' providers are configured: pick one with --provider, or set defaults.'' @
          role @ '' in the config'')))"

definition provider_entry :: "goerr + config \<Rightarrow> string \<Rightarrow> string \<Rightarrow> goerr + provider_config" where
  "provider_entry loaded i role =
     (case loaded of
        Inl x \<Rightarrow> Inl x
      | Inr cfg \<Rightarrow>
          (let i = (if i = [] then role_default cfg role else i) in
           if i = [] then only_candidate cfg role
           else
             (case find_provider cfg i of
                Inl x \<Rightarrow> Inl x
              | Inr p \<Rightarrow>
                  if has_role p role then Inr p
                  else Inl (Plain (''provider '' @ quoted (pv_id p) @ '' does not have the '' @ quoted role @ '' role'')))))"

text \<open>\<open>app.hypervisor\<close> and \<open>app.backups\<close>, with the key already asked for.\<close>

definition app_hypervisor ::
  "factory_env \<Rightarrow> goerr + config \<Rightarrow> goerr + string \<Rightarrow> string \<Rightarrow> goerr + pve_config" where
  "app_hypervisor fx loaded mk i =
     (case provider_entry loaded i ''hypervisor'' of
        Inl x \<Rightarrow> Inl x | Inr p \<Rightarrow> (case mk of Inl x \<Rightarrow> Inl x | Inr k \<Rightarrow> new_hypervisor fx p k))"

definition app_backups ::
  "factory_env \<Rightarrow> goerr + config \<Rightarrow> goerr + string \<Rightarrow> string \<Rightarrow> goerr + backup_client" where
  "app_backups fx loaded mk i =
     (case provider_entry loaded i ''backup'' of
        Inl x \<Rightarrow> Inl x | Inr p \<Rightarrow> (case mk of Inl x \<Rightarrow> Inl x | Inr k \<Rightarrow> new_backup_provider fx p k))"

end
