(* ===== verification/Bootstrap.thy ===== *)
theory Bootstrap
  imports Proxmox
begin

text \<open>
  internal/providers/proxmox/bootstrap.go and network_admin.go: the one-time set-up of a cluster with an
  administrator's credentials. It creates the roles, the pool, the account, the grants and the token a drill needs,
  and the isolated bridge a restored workload is attached to. What each call of the session sent is written at the
  end of a log no operation reads.
\<close>

section \<open>The administrator's session\<close>

record admin_config =
  ac_endpoint :: string
  ac_username :: string
  ac_password :: string
  ac_insecure :: bool
  ac_ca :: string
  ac_timeout :: duration

definition admin_config_text :: "admin_config \<Rightarrow> string" where
  "admin_config_text c =
     ''AdminConfig{Endpoint:'' @ quoted (ac_endpoint c) @ '', Username:'' @ quoted (ac_username c) @
     '', Password:'' @ quoted ''[REDACTED]'' @ '', InsecureSkipVerify:'' @ (if ac_insecure c then ''true'' else ''false'') @
     '', Timeout:'' @ dur_string (ac_timeout c) @ ''}''"

record admin_client =
  cl_endpoint :: string
  cl_timeout :: duration
  cl_username :: string
  cl_password :: string
  cl_ticket :: string
  cl_csrf :: string

definition new_admin_client :: "(string \<Rightarrow> bool) \<Rightarrow> admin_config \<Rightarrow> goerr + admin_client" where
  "new_admin_client valid_pem c =
     (if ac_endpoint c = [] then Inl (Plain ''proxmox: AdminConfig.Endpoint is required'')
      else if ac_username c = [] then Inl (Plain ''proxmox: AdminConfig.Username is required'')
      else if ac_password c = [] then Inl (Plain ''proxmox: AdminConfig.Password is required'')
      else if ac_ca c \<noteq> [] \<and> \<not> valid_pem (ac_ca c) then
        Inl (Plain ''proxmox: AdminConfig.CACertPEM does not contain a valid PEM certificate'')
      else Inr \<lparr>cl_endpoint = trim_right (\<lambda>x. x = CHR ''/'') (ac_endpoint c),
                cl_timeout = (if ac_timeout c \<le> 0 then 30 * second else ac_timeout c),
                cl_username = ac_username c, cl_password = ac_password c, cl_ticket = [], cl_csrf = []\<rparr>)"

record admin_call =
  aq_method :: pve_method
  aq_path :: string
  aq_form :: form
  aq_headers :: "(string \<times> string) list"
  aq_answer :: "goerr + anyval option"

record 'w admin =
  ad_world :: 'w
  ad_client :: admin_client
  ad_log :: "admin_call list"

text \<open>The transport is told the method, the address, the form and the headers; the rest is the provider's.\<close>

record 'w admin_env =
  ax_http :: "pve_method \<Rightarrow> string \<Rightarrow> form \<Rightarrow> (string \<times> string) list \<Rightarrow> 'w \<Rightarrow> pve_reply \<times> 'w"
  ax_pve :: "'w pve_env"

definition logged_in :: "admin_client \<Rightarrow> bool" where
  "logged_in c \<longleftrightarrow> cl_ticket c \<noteq> []"

definition close_admin :: "admin_client \<Rightarrow> admin_client" where
  "close_admin c = c\<lparr>cl_password := [], cl_ticket := [], cl_csrf := []\<rparr>"

definition admin_headers :: "pve_method \<Rightarrow> admin_client \<Rightarrow> (string \<times> string) list" where
  "admin_headers m c =
     (if m = HttpPost \<or> m = HttpPut then [(''Content-Type'', ''application/x-www-form-urlencoded'')] else []) @
     (if cl_ticket c \<noteq> [] then [(''Cookie'', ''PVEAuthCookie='' @ cl_ticket c)] else []) @
     (if cl_csrf c \<noteq> [] \<and> m \<noteq> HttpGet then [(''CSRFPreventionToken'', cl_csrf c)] else [])"

definition admin_request ::
  "'w admin_env \<Rightarrow> pve_method \<Rightarrow> string \<Rightarrow> form \<Rightarrow> ('w admin, goerr + anyval option) eng" where
  "admin_request e m path f = (\<lambda>s.
     let hs = admin_headers m (ad_client s) in
     case ax_http e m (cl_endpoint (ad_client s) @ ''/api2/json'' @ path) f hs (ad_world s) of
       (r, w) \<Rightarrow>
         (let a = read_reply (ax_pve e) RunCtx m path r w
          in (Done a, s\<lparr>ad_world := w,
                ad_log := ad_log s @ [\<lparr>aq_method = m, aq_path = path, aq_form = f, aq_headers = hs, aq_answer = a\<rparr>]\<rparr>)))"

definition ticket_of :: "anyval \<Rightarrow> (string \<times> string) option" where
  "ticket_of v =
     (case object_of v of
        None \<Rightarrow> None
      | Some m \<Rightarrow>
          (case (text_of (key ''ticket'' m), text_of (key ''CSRFPreventionToken'' m)) of
             (Some t, Some c) \<Rightarrow> Some (t, c) | _ \<Rightarrow> None))"

definition login :: "'w admin_env \<Rightarrow> ('w admin, goerr + unit) eng" where
  "login e =
     bindM (gets ad_client) (\<lambda>cl.
     bindM (admin_request e HttpPost ''/access/ticket'' [(''username'', [cl_username cl]), (''password'', [cl_password cl])])
       (\<lambda>r. case r of
          Inl x \<Rightarrow>
            ret (Inl (if errors_is x ErrUnauthorized then
                   Wrapped (''proxmox: login failed for user '' @ quoted (cl_username cl) @ '': '' @ err_text x @
                     '' (the username must include its realm, e.g. '' @ quoted ''root@pam'' @ '' rather than '' @
                     quoted ''root'' @ '')'') x
                 else x))
        | Inr d \<Rightarrow>
            (case decoded (ax_pve e) ticket_of ''proxmox: decode ticket response'' d of
               Inl x \<Rightarrow> ret (Inl x)
             | Inr (ticket, csrf) \<Rightarrow>
                 if ticket = [] then ret (Inl (Plain ''proxmox: ticket response did not include a ticket''))
                 else thenM (modify (\<lambda>s. s\<lparr>ad_client := (ad_client s)\<lparr>cl_ticket := ticket, cl_csrf := csrf\<rparr>\<rparr>))
                        (ret (Inr ())))))"

definition admin_version :: "'w admin_env \<Rightarrow> ('w admin, goerr + string) eng" where
  "admin_version e =
     callE (admin_request e HttpGet ''/version'' []) (\<lambda>d. ret (
       case decoded (ax_pve e) object_of ''proxmox: decode version response'' d of
         Inl x \<Rightarrow> Inl x | Inr m \<Rightarrow> Inr (as_string (pe_readers (ax_pve e)) (key ''version'' m))))"


section \<open>Privileges\<close>

definition read_only_privileges :: "string list" where
  "read_only_privileges =
     [''VM.Audit'', ''VM.Backup'', ''VM.GuestAgent.Audit'', ''Datastore.Audit'', ''Datastore.AllocateSpace'',
      ''Sys.Audit'', ''VM.Monitor'']"

definition drill_privileges :: "string list" where
  "drill_privileges = read_only_privileges @
     [''VM.Allocate'', ''VM.Config.CPU'', ''VM.Config.Disk'', ''VM.Config.HWType'', ''VM.Config.Memory'',
      ''VM.Config.Network'', ''VM.Config.Options'', ''VM.GuestAgent.Unrestricted'', ''VM.PowerMgmt'',
      ''Datastore.AllocateSpace'']"

definition optional_privileges :: "string \<rightharpoonup> string" where
  "optional_privileges = map_of
     [(''VM.Monitor'', ''runtime state reads, removed in Proxmox VE 9''),
      (''VM.GuestAgent.Audit'', ''guest agent queries, used to discover the restored guest'' @ [char_of (39 :: nat)] @ ''s address and OS''),
      (''VM.GuestAgent.Unrestricted'', ''in-guest command checks''),
      (''SDN.Use'', ''attaching a workload to the isolated bridge (Proxmox VE 9 and newer)'')]"

definition storage_privileges :: "string list" where
  "storage_privileges = [''Datastore.Audit'', ''Datastore.AllocateSpace'']"

definition sdn_privileges :: "string list" where "sdn_privileges = [''SDN.Use'']"

definition read_only_role_name :: string where "read_only_role_name = ''RestoreLabRead''"

definition privs_key :: "string list \<Rightarrow> string" where
  "privs_key privs = join '','' (sort_strings privs)"

definition split_privs :: "string \<Rightarrow> string list" where
  "split_privs s = (if s = [] then [] else split_on (CHR '','') s)"

text \<open>The roles of the cluster, one entry each; what is written last replaces.\<close>

type_synonym role_map = "(string \<times> string) list"

definition put_role :: "string \<Rightarrow> string \<Rightarrow> role_map \<Rightarrow> role_map" where
  "put_role k v roles = (k, v) # filter (\<lambda>r. fst r \<noteq> k) roles"

definition supported_privileges :: "role_map \<Rightarrow> string list" where
  "supported_privileges roles = concat (map (\<lambda>r. split_privs (snd r)) roles)"

definition filter_privileges :: "string list \<Rightarrow> string list \<Rightarrow> string list \<times> string list" where
  "filter_privileges want supported =
     (if supported = [] then (want, [])
      else (filter (\<lambda>p. p \<in> set supported) want, filter (\<lambda>p. p \<notin> set supported) want))"

definition describe_dropped :: "string list \<Rightarrow> goerr + string" where
  "describe_dropped dropped =
     (if dropped = [] then Inr []
      else
        (let required = filter (\<lambda>p. optional_privileges p = None) dropped;
             optional = concat (map (\<lambda>p. case optional_privileges p of Some why \<Rightarrow> [p @ '' - '' @ why] | None \<Rightarrow> []) dropped) in
         if required \<noteq> [] then
           Inl (Plain (''proxmox: this cluster does not know the privilege(s) '' @ join '', '' required @
             '', which RestoreLab cannot work without; please report your Proxmox VE version''))
         else Inr (''not supported on this Proxmox version, skipped: '' @ join ''; '' optional)))"


section \<open>What is asked, and what was done\<close>

record bootstrap_options =
  bo_user :: string
  bo_comment :: string
  bo_token :: string
  bo_role :: string
  bo_pool :: string
  bo_read_only :: bool
  bo_node :: string
  bo_storages :: "string list"
  bo_bridge :: string
  bo_sdn_zone :: string
  bo_reuse :: bool
  bo_dry_run :: bool

definition default_sdn_zone :: string where "default_sdn_zone = ''localnetwork''"

definition validate_bootstrap :: "bootstrap_options \<Rightarrow> goerr option" where
  "validate_bootstrap opts =
     (if bo_user opts = [] then Some (Plain ''proxmox: BootstrapOptions.UserID is required'')
      else if bo_token opts = [] then Some (Plain ''proxmox: BootstrapOptions.TokenName is required'')
      else if bo_role opts = [] then Some (Plain ''proxmox: BootstrapOptions.RoleName is required'')
      else None)"

record boot_step =
  bt_description :: string
  bt_status :: string
  bt_detail :: string

record boot_result =
  br_token_id :: string
  br_secret :: string
  br_steps :: "boot_step list"

definition boot_result_text :: "boot_result \<Rightarrow> string" where
  "boot_result_text r =
     ''BootstrapResult{TokenID:'' @ quoted (br_token_id r) @ '', Secret:'' @ quoted ''[REDACTED]'' @ '', Steps:'' @
     itoa (int (length (br_steps r))) @ ''}''"

definition no_step :: boot_step where "no_step = \<lparr>bt_description = [], bt_status = [], bt_detail = []\<rparr>"

definition new_step :: "string \<Rightarrow> string \<Rightarrow> string \<Rightarrow> boot_step" where
  "new_step desc st detail = \<lparr>bt_description = desc, bt_status = st, bt_detail = detail\<rparr>"


section \<open>One action at a time\<close>

text \<open>An action gives the step to record, which an error usually leaves empty, and its error.\<close>

type_synonym 'w action = "('w admin, boot_step \<times> goerr option) eng"

definition attempt_step :: "'w admin_env \<Rightarrow> pve_method \<Rightarrow> string \<Rightarrow> form \<Rightarrow> string \<Rightarrow> boot_step \<Rightarrow> 'w action" where
  "attempt_step e m path f what step =
     bindM (admin_request e m path f) (\<lambda>r. ret (case r of
       Inl x \<Rightarrow> (no_step, Some (wrapf what x)) | Inr _ \<Rightarrow> (step, None)))"

definition decode_rows :: "anyval option \<Rightarrow> params list option" where
  "decode_rows d = (case d of None \<Rightarrow> Some [] | Some v \<Rightarrow> objects_of v)"

definition admin_rows :: "'w admin_env \<Rightarrow> string \<Rightarrow> string \<Rightarrow> ('w admin, goerr + params list) eng" where
  "admin_rows e path what =
     callE (admin_request e HttpGet path []) (\<lambda>d. ret (case decode_rows d of
       None \<Rightarrow> Inl (wrapf what (pe_mismatch (ax_pve e) d)) | Some rows \<Rightarrow> Inr rows))"

definition row_text :: "'w admin_env \<Rightarrow> string \<Rightarrow> params \<Rightarrow> string" where
  "row_text e k row = as_string (pe_readers (ax_pve e)) (key k row)"

definition list_roles :: "'w admin_env \<Rightarrow> ('w admin, goerr + role_map) eng" where
  "list_roles e =
     callE (admin_rows e ''/access/roles'' ''proxmox: decode roles'') (\<lambda>rows. ret (Inr
       (fold (\<lambda>row. put_role (row_text e ''roleid'' row) (row_text e ''privs'' row)) rows [])))"

definition ensure_role ::
  "'w admin_env \<Rightarrow> role_map \<Rightarrow> string list \<Rightarrow> string \<Rightarrow> string list \<Rightarrow> bool \<Rightarrow> 'w action" where
  "ensure_role e existing supported role privs dry =
     (case filter_privileges privs supported of (kept, dropped) \<Rightarrow>
      case describe_dropped dropped of
        Inl x \<Rightarrow> ret (no_step, Some x)
      | Inr note \<Rightarrow>
          (let desc = ''create role '' @ role; desired = privs_key kept;
               detail = (\<lambda>base. if note = [] then base else base @ '' - '' @ note);
               done = (\<lambda>st. new_step desc st (detail (''privileges: '' @ desired))) in
           case map_of existing role of
             Some cur \<Rightarrow>
               if privs_key (split_privs cur) = desired then ret (done ''already exists'', None)
               else if dry then
                 ret (new_step desc ''would create'' (detail (''would update privileges to: '' @ desired)), None)
               else attempt_step e HttpPut (''/access/roles/'' @ role) [(''privs'', [desired]), (''append'', [''0''])]
                      (''proxmox: update role '' @ role) (done ''updated'')
           | None \<Rightarrow>
               if dry then ret (done ''would create'', None)
               else attempt_step e HttpPost ''/access/roles'' [(''roleid'', [role]), (''privs'', [desired])]
                      (''proxmox: create role '' @ role) (done ''created'')))"

definition list_names :: "'w admin_env \<Rightarrow> string \<Rightarrow> string \<Rightarrow> string \<Rightarrow> ('w admin, goerr + string list) eng" where
  "list_names e path k what =
     callE (admin_rows e path what) (\<lambda>rows. ret (Inr (map (row_text e k) rows)))"

definition list_pools :: "'w admin_env \<Rightarrow> ('w admin, goerr + string list) eng" where
  "list_pools e = list_names e ''/pools'' ''poolid'' ''proxmox: decode pools''"

definition list_users :: "'w admin_env \<Rightarrow> ('w admin, goerr + string list) eng" where
  "list_users e = list_names e ''/access/users'' ''userid'' ''proxmox: decode users''"

definition list_token_ids :: "'w admin_env \<Rightarrow> string \<Rightarrow> ('w admin, goerr + string list) eng" where
  "list_token_ids e user =
     list_names e (''/access/users/'' @ user @ ''/token'') ''tokenid'' ''proxmox: decode tokens''"

definition ensure_pool :: "'w admin_env \<Rightarrow> string list \<Rightarrow> string \<Rightarrow> string \<Rightarrow> bool \<Rightarrow> 'w action" where
  "ensure_pool e existing pool comment dry =
     (let desc = ''create pool '' @ pool in
      if pool \<in> set existing then ret (new_step desc ''already exists'' [], None)
      else if dry then ret (new_step desc ''would create'' [], None)
      else attempt_step e HttpPost ''/pools'' [(''poolid'', [pool]), (''comment'', [comment])]
             (''proxmox: create pool '' @ pool) (new_step desc ''created'' []))"

definition ensure_user :: "'w admin_env \<Rightarrow> string list \<Rightarrow> string \<Rightarrow> string \<Rightarrow> bool \<Rightarrow> 'w action" where
  "ensure_user e existing user comment dry =
     (let desc = ''create user '' @ user in
      if user \<in> set existing then ret (new_step desc ''already exists'' [], None)
      else if dry then ret (new_step desc ''would create'' [], None)
      else attempt_step e HttpPost ''/access/users''
             [(''userid'', [user]), (''comment'', [comment]), (''enable'', [''1''])]
             (''proxmox: create user '' @ user) (new_step desc ''created'' []))"

definition grant_acl :: "'w admin_env \<Rightarrow> string \<Rightarrow> string \<Rightarrow> string \<Rightarrow> bool \<Rightarrow> 'w action" where
  "grant_acl e path user role dry =
     (let desc = ''grant '' @ role @ '' on '' @ path in
      if dry then ret (new_step desc ''would create'' [], None)
      else attempt_step e HttpPut ''/access/acl''
             [(''path'', [path]), (''users'', [user]), (''roles'', [role]), (''propagate'', [''1''])]
             (''proxmox: grant '' @ role @ '' on '' @ path) (new_step desc ''created'' []))"

definition token_answer :: "anyval \<Rightarrow> (string \<times> string) option" where
  "token_answer v =
     (case object_of v of
        None \<Rightarrow> None
      | Some m \<Rightarrow>
          (case (text_of (key ''full-tokenid'' m), text_of (key ''value'' m)) of
             (Some i, Some s) \<Rightarrow> Some (i, s) | _ \<Rightarrow> None))"

text \<open>The step, the token's identifier, its secret and the error.\<close>

definition ensure_token ::
  "'w admin_env \<Rightarrow> string \<Rightarrow> string \<Rightarrow> bool \<Rightarrow> bool \<Rightarrow>
   ('w admin, boot_step \<times> string \<times> string \<times> goerr option) eng" where
  "ensure_token e user token reuse dry =
     (let full = user @ ''!'' @ token; desc = ''create token '' @ full;
          failed = (\<lambda>x. (no_step, [], [], Some x)) in
      bindM (list_token_ids e user) (\<lambda>r. case r of
        Inl x \<Rightarrow> ret (failed (wrapf (''proxmox: list tokens for '' @ user) x))
      | Inr existing \<Rightarrow>
          if token \<in> set existing \<and> reuse then
            ret (new_step desc ''already exists'' ''kept, along with the secret you already hold'', full, [], None)
          else if token \<in> set existing then
            ret (new_step desc ''skipped'' (''a token named '' @ quoted token @ '' already exists on '' @ user @
                   ''; Proxmox reveals a token secret only once, at creation time, so RestoreLab cannot recover it and '' @
                   ''will not delete the existing token automatically - choose a different TokenName or delete the '' @
                   ''existing token yourself first''), [], [],
                 Some (Plain (''proxmox: token '' @ quoted token @ '' already exists for user '' @ user @
                   '' and its secret cannot be recovered; choose a new TokenName or delete the token first'')))
          else if dry then ret (new_step desc ''would create'' [], full, [], None)
          else
            bindM (admin_request e HttpPost (''/access/users/'' @ user @ ''/token/'' @ token) [(''privsep'', [''0''])])
              (\<lambda>r. ret (case r of
                 Inl x \<Rightarrow> failed (wrapf (''proxmox: create token '' @ full) x)
               | Inr d \<Rightarrow>
                   (case decoded (ax_pve e) token_answer ''proxmox: decode token response'' d of
                      Inl x \<Rightarrow> failed x
                    | Inr (i, secret) \<Rightarrow>
                        if secret = [] \<or> i = [] then
                          failed (Plain ''proxmox: token creation response missing value or full-tokenid'')
                        else (new_step desc ''created'' [], i, secret, None))))))"


section \<open>The whole set-up\<close>

definition noted :: "'w action \<Rightarrow> boot_step list \<Rightarrow> ('w admin, boot_step list \<times> goerr option) eng" where
  "noted m acc = bindM m (\<lambda>(step, err). ret (if bt_description step = [] then acc else acc @ [step], err))"

text \<open>What a phase recorded is kept when it fails, and the next phase goes on from it when it does not.\<close>

definition phase ::
  "('w admin, boot_step list \<times> goerr option) eng \<Rightarrow>
   (boot_step list \<Rightarrow> ('w admin, boot_result option \<times> goerr option) eng) \<Rightarrow>
   ('w admin, boot_result option \<times> goerr option) eng" where
  "phase m k = bindM m (\<lambda>(acc, err). case err of
     Some x \<Rightarrow> ret (Some \<lparr>br_token_id = [], br_secret = [], br_steps = acc\<rparr>, Some x) | None \<Rightarrow> k acc)"

fun grant_each ::
  "'w admin_env \<Rightarrow> string \<Rightarrow> string \<Rightarrow> bool \<Rightarrow> string list \<Rightarrow> boot_step list \<Rightarrow>
   ('w admin, boot_step list \<times> goerr option) eng" where
  "grant_each e user role dry [] acc = ret (acc, None)"
| "grant_each e user role dry (path # paths) acc =
     bindM (noted (grant_acl e path user role dry) acc) (\<lambda>(acc, err). case err of
       Some x \<Rightarrow> ret (acc, Some x) | None \<Rightarrow> grant_each e user role dry paths acc)"

definition baseline_paths :: "bootstrap_options \<Rightarrow> string list" where
  "baseline_paths opts =
     [''/vms'', (if bo_node opts \<noteq> [] then ''/nodes/'' @ bo_node opts else ''/nodes''), ''/storage'']"

definition bootstrap_pool ::
  "'w admin_env \<Rightarrow> bootstrap_options \<Rightarrow> boot_step list \<Rightarrow> ('w admin, boot_step list \<times> goerr option) eng" where
  "bootstrap_pool e opts acc =
     (if bo_pool opts \<noteq> [] \<and> \<not> bo_read_only opts then
        bindM (list_pools e) (\<lambda>r. case r of
          Inl x \<Rightarrow> ret (acc, Some (wrapf ''proxmox: list pools'' x))
        | Inr pools \<Rightarrow> noted (ensure_pool e pools (bo_pool opts) (bo_comment opts) (bo_dry_run opts)) acc)
      else ret (acc, None))"

definition bootstrap_user ::
  "'w admin_env \<Rightarrow> bootstrap_options \<Rightarrow> boot_step list \<Rightarrow> ('w admin, boot_step list \<times> goerr option) eng" where
  "bootstrap_user e opts acc =
     bindM (list_users e) (\<lambda>r. case r of
       Inl x \<Rightarrow> ret (acc, Some (wrapf ''proxmox: list users'' x))
     | Inr users \<Rightarrow> noted (ensure_user e users (bo_user opts) (bo_comment opts) (bo_dry_run opts)) acc)"

definition unscoped_warning :: string where
  "unscoped_warning =
     ''no resource pool configured: this token'' @ [char_of (39 :: nat)] @ ''s role is granted on /vms directly, so it '' @
     ''can create, reconfigure and destroy ANY VM or container on the cluster, not only RestoreLab'' @
     [char_of (39 :: nat)] @ ''s own temporary drill workloads. Set BootstrapOptions.Pool to scope this token down '' @
     ''to a resource pool.''"

definition drill_path :: "bootstrap_options \<Rightarrow> string" where
  "drill_path opts = (if bo_pool opts \<noteq> [] then ''/pool/'' @ bo_pool opts else ''/vms'')"

definition grant_drill ::
  "'w admin_env \<Rightarrow> bootstrap_options \<Rightarrow> boot_step list \<Rightarrow> ('w admin, boot_step list \<times> goerr option) eng" where
  "grant_drill e opts acc =
     noted (bindM (grant_acl e (drill_path opts) (bo_user opts) (bo_role opts) (bo_dry_run opts)) (\<lambda>(step, err). ret
       (if bo_pool opts = [] then step\<lparr>bt_detail := unscoped_warning\<rparr> else step, err))) acc"

definition storage_role :: "bootstrap_options \<Rightarrow> string" where "storage_role opts = bo_role opts @ ''Storage''"
definition network_role :: "bootstrap_options \<Rightarrow> string" where "network_role opts = bo_role opts @ ''Network''"

text \<open>The grants of a drill: where it restores to, and the storages it needs.\<close>

definition bootstrap_drill ::
  "'w admin_env \<Rightarrow> bootstrap_options \<Rightarrow> role_map \<Rightarrow> string list \<Rightarrow> boot_step list \<Rightarrow>
   ('w admin, boot_step list \<times> goerr option) eng" where
  "bootstrap_drill e opts roles supported acc =
     (if bo_read_only opts then ret (acc, None)
      else
        bindM (grant_drill e opts acc) (\<lambda>(acc, err). case err of Some x \<Rightarrow> ret (acc, Some x) | None \<Rightarrow>
          if bo_storages opts = [] then ret (acc, None)
          else
            bindM (noted (ensure_role e roles supported (storage_role opts) storage_privileges (bo_dry_run opts)) acc)
              (\<lambda>(acc, err). case err of Some x \<Rightarrow> ret (acc, Some x) | None \<Rightarrow>
                grant_each e (bo_user opts) (storage_role opts) (bo_dry_run opts)
                  (map (\<lambda>s. ''/storage/'' @ s) (bo_storages opts)) acc)))"

definition bridge_path :: "bootstrap_options \<Rightarrow> string" where
  "bridge_path opts =
     ''/sdn/zones/'' @ (if bo_sdn_zone opts = [] then default_sdn_zone else bo_sdn_zone opts) @ ''/'' @ bo_bridge opts"

definition bootstrap_bridge ::
  "'w admin_env \<Rightarrow> bootstrap_options \<Rightarrow> role_map \<Rightarrow> string list \<Rightarrow> boot_step list \<Rightarrow>
   ('w admin, boot_step list \<times> goerr option) eng" where
  "bootstrap_bridge e opts roles supported acc =
     (if \<not> bo_read_only opts \<and> bo_bridge opts \<noteq> [] then
        bindM (noted (ensure_role e roles supported (network_role opts) sdn_privileges (bo_dry_run opts)) acc)
          (\<lambda>(acc, err). case err of Some x \<Rightarrow> ret (acc, Some x) | None \<Rightarrow>
            noted (grant_acl e (bridge_path opts) (bo_user opts) (network_role opts) (bo_dry_run opts)) acc)
      else ret (acc, None))"

definition bootstrap_token ::
  "'w admin_env \<Rightarrow> bootstrap_options \<Rightarrow> boot_step list \<Rightarrow> ('w admin, boot_result option \<times> goerr option) eng" where
  "bootstrap_token e opts acc =
     bindM (ensure_token e (bo_user opts) (bo_token opts) (bo_reuse opts) (bo_dry_run opts)) (\<lambda>(step, i, secret, err).
       (let acc = (if bt_description step = [] then acc else acc @ [step]) in
        ret (case err of
          Some x \<Rightarrow> (Some \<lparr>br_token_id = [], br_secret = [], br_steps = acc\<rparr>, Some x)
        | None \<Rightarrow> (Some \<lparr>br_token_id = i, br_secret = secret, br_steps = acc\<rparr>, None))))"

text \<open>
  The roles written are put in the map under the privileges the code declares, whether or not the cluster knows
  them all; the vocabulary is that of the roles that were there.
\<close>

definition with_drill_role :: "bootstrap_options \<Rightarrow> role_map \<Rightarrow> role_map" where
  "with_drill_role opts roles =
     (if bo_read_only opts then roles else put_role (bo_role opts) (privs_key drill_privileges) roles)"

definition with_storage_role :: "bootstrap_options \<Rightarrow> role_map \<Rightarrow> role_map" where
  "with_storage_role opts roles =
     (if \<not> bo_read_only opts \<and> bo_storages opts \<noteq> []
      then put_role (storage_role opts) (privs_key storage_privileges) roles else roles)"

definition bootstrap_roles ::
  "'w admin_env \<Rightarrow> bootstrap_options \<Rightarrow> role_map \<Rightarrow> ('w admin, boot_result option \<times> goerr option) eng" where
  "bootstrap_roles e opts roles =
     (let dry = bo_dry_run opts; supported = supported_privileges roles;
          ro = (if bo_read_only opts then bo_role opts else read_only_role_name) in
      phase (noted (ensure_role e roles supported ro read_only_privileges dry) []) (\<lambda>acc.
      (let roles = put_role ro (privs_key read_only_privileges) roles in
      phase (if bo_read_only opts then ret (acc, None)
             else noted (ensure_role e roles supported (bo_role opts) drill_privileges dry) acc) (\<lambda>acc.
      (let roles = with_drill_role opts roles in
      phase (bootstrap_pool e opts acc) (\<lambda>acc.
      phase (bootstrap_user e opts acc) (\<lambda>acc.
      phase (grant_each e (bo_user opts) ro dry (baseline_paths opts) acc) (\<lambda>acc.
      phase (bootstrap_drill e opts roles supported acc) (\<lambda>acc.
      phase (bootstrap_bridge e opts (with_storage_role opts roles) supported acc)
        (bootstrap_token e opts)))))))))) "

definition bootstrap ::
  "'w admin_env \<Rightarrow> bootstrap_options \<Rightarrow> ('w admin, boot_result option \<times> goerr option) eng" where
  "bootstrap e opts =
     (case validate_bootstrap opts of
        Some x \<Rightarrow> ret (None, Some x)
      | None \<Rightarrow>
          bindM (gets ad_client) (\<lambda>cl.
            if \<not> logged_in cl then
              ret (None, Some (Plain ''proxmox: Bootstrap requires a successful Login first''))
            else
              bindM (list_roles e) (\<lambda>r. case r of
                Inl x \<Rightarrow> ret (Some \<lparr>br_token_id = [], br_secret = [], br_steps = []\<rparr>, Some (wrapf ''proxmox: list roles'' x))
              | Inr roles \<Rightarrow> bootstrap_roles e opts roles)))"


section \<open>The isolated bridge\<close>

definition max_bridge_number :: int where "max_bridge_number = 4094"

text \<open>\<open>vmbr\<close>, one to four digits, and no more than the largest number.\<close>

definition bridge_number :: "string \<Rightarrow> int option" where
  "bridge_number name =
     (let ds = drop 4 name in
      if has_prefix name ''vmbr'' \<and> ds \<noteq> [] \<and> length ds \<le> 4 \<and> list_all is_digit ds then atoi ds else None)"

definition validate_bridge_name :: "string \<Rightarrow> goerr option" where
  "validate_bridge_name name =
     (let invalid = Some (Plain (''proxmox: bridge name '' @ quoted name @ '' is invalid: expected the form '' @
            quoted ''vmbrN'' @ '' with N between 0 and '' @ itoa max_bridge_number @ '' (e.g. '' @ quoted ''vmbr99'' @ '')'')) in
      case bridge_number name of
        None \<Rightarrow> invalid | Some n \<Rightarrow> if n > max_bridge_number then invalid else None)"

definition default_bridge_comment :: string where
  "default_bridge_comment = ''RestoreLab isolated recovery network''"

record bridge_options =
  bg_node :: string
  bg_bridge :: string
  bg_comment :: string
  bg_apply :: bool
  bg_dry_run :: bool

definition validate_bridge :: "bridge_options \<Rightarrow> goerr option" where
  "validate_bridge opts =
     (if bg_node opts = [] then Some (Plain ''proxmox: BridgeOptions.Node is required'')
      else if bg_bridge opts = [] then Some (Plain ''proxmox: BridgeOptions.Bridge is required'')
      else validate_bridge_name (bg_bridge opts))"

record bridge_result =
  bz_steps :: "boot_step list"
  bz_applied :: bool
  bz_pending :: bool

record network_interface =
  nf_type :: string
  nf_ports :: string
  nf_address :: string
  nf_gateway :: string
  nf_cidr :: string
  nf_address6 :: string
  nf_gateway6 :: string
  nf_cidr6 :: string

definition interface_of :: "'w admin_env \<Rightarrow> params \<Rightarrow> network_interface" where
  "interface_of e row =
     \<lparr>nf_type = row_text e ''type'' row, nf_ports = row_text e ''bridge_ports'' row,
      nf_address = row_text e ''address'' row, nf_gateway = row_text e ''gateway'' row,
      nf_cidr = row_text e ''cidr'' row, nf_address6 = row_text e ''address6'' row,
      nf_gateway6 = row_text e ''gateway6'' row, nf_cidr6 = row_text e ''cidr6'' row\<rparr>"

definition network_path :: "string \<Rightarrow> string" where
  "network_path node = ''/nodes/'' @ node @ ''/network''"

definition find_network_interface ::
  "'w admin_env \<Rightarrow> string \<Rightarrow> string \<Rightarrow> ('w admin, goerr + network_interface option) eng" where
  "find_network_interface e node iface =
     callE (admin_rows e (network_path node) ''decode network interfaces'') (\<lambda>rows. ret (Inr
       (map_option (interface_of e) (find (\<lambda>row. row_text e ''iface'' row = iface) rows))))"

definition check_safe_to_reuse :: "string \<Rightarrow> network_interface \<Rightarrow> goerr option" where
  "check_safe_to_reuse name i =
     (if nf_type i \<noteq> ''bridge'' then
        Some (Plain (''proxmox: interface '' @ quoted name @ '' already exists but is type '' @ quoted (nf_type i) @
          '', not a bridge; refusing to touch it''))
      else if nf_ports i \<noteq> [] \<and> nf_ports i \<noteq> ''none'' then
        Some (Plain (''proxmox: bridge '' @ quoted name @ '' already exists with bridge_ports '' @ quoted (nf_ports i) @
          '' attached; refusing to turn it into an isolated bridge, since that would sever whatever is attached to it''))
      else if nf_address i \<noteq> [] \<or> nf_cidr i \<noteq> [] \<or> nf_address6 i \<noteq> [] \<or> nf_cidr6 i \<noteq> [] then
        Some (Plain (''proxmox: bridge '' @ quoted name @ '' already exists with an address configured; refusing to touch it, '' @
          ''since that means something already relies on it''))
      else if nf_gateway i \<noteq> [] \<or> nf_gateway6 i \<noteq> [] then
        Some (Plain (''proxmox: bridge '' @ quoted name @ '' already exists with a gateway configured; refusing to touch it, '' @
          ''since that means something already relies on it''))
      else None)"

definition create_isolated_bridge ::
  "'w admin_env \<Rightarrow> string \<Rightarrow> string \<Rightarrow> string \<Rightarrow> ('w admin, goerr option) eng" where
  "create_isolated_bridge e node iface comment =
     bindM (admin_request e HttpPost (network_path node)
       [(''iface'', [iface]), (''type'', [''bridge'']), (''autostart'', [''1'']), (''bridge_ports'', [[]]),
        (''comments'', [comment])])
       (\<lambda>r. ret (case r of
          Inl x \<Rightarrow> Some (wrapf (''proxmox: create bridge '' @ iface @ '' on '' @ node) x) | Inr _ \<Rightarrow> None))"

definition apply_network :: "'w admin_env \<Rightarrow> string \<Rightarrow> ('w admin, goerr option) eng" where
  "apply_network e node =
     bindM (admin_request e HttpPut (network_path node) []) (\<lambda>r. ret (case r of
       Inl x \<Rightarrow> Some (wrapf (''proxmox: apply network configuration on '' @ node) x) | Inr _ \<Rightarrow> None))"

definition apply_text :: "string \<Rightarrow> string" where
  "apply_text node = ''apply pending network configuration on '' @ node"

definition dry_bridge :: "bridge_options \<Rightarrow> boot_step \<Rightarrow> bridge_result" where
  "dry_bridge opts created =
     (let st = (\<lambda>detail. new_step (apply_text (bg_node opts)) ''would apply'' detail) in
      if bg_apply opts then \<lparr>bz_steps = [created, st []], bz_applied = False, bz_pending = False\<rparr>
      else \<lparr>bz_steps = [created, st (bg_bridge opts @ '' would exist only in '' @ bg_node opts @ [char_of (39 :: nat)] @
              ''s pending network configuration; it would take effect on the next reboot or apply'')],
            bz_applied = False, bz_pending = True\<rparr>)"

definition build_bridge ::
  "'w admin_env \<Rightarrow> bridge_options \<Rightarrow> string \<Rightarrow> ('w admin, bridge_result option \<times> goerr option) eng" where
  "build_bridge e opts comment =
     bindM (create_isolated_bridge e (bg_node opts) (bg_bridge opts) comment) (\<lambda>err. case err of
       Some x \<Rightarrow> ret (Some \<lparr>bz_steps = [], bz_applied = False, bz_pending = False\<rparr>, Some x)
     | None \<Rightarrow>
         (let created = new_step (''create isolated bridge '' @ bg_bridge opts @ '' on '' @ bg_node opts) ''created'' [] in
          if \<not> bg_apply opts then
            ret (Some \<lparr>bz_steps = [created, new_step (apply_text (bg_node opts)) ''skipped''
                   (bg_bridge opts @ '' was created but exists only in '' @ bg_node opts @ [char_of (39 :: nat)] @
                    ''s pending network configuration; it needs an apply (EnsureIsolatedBridge with Apply: true) or a reboot to become active'')],
                 bz_applied = False, bz_pending = True\<rparr>, None)
          else
            bindM (apply_network e (bg_node opts)) (\<lambda>err. ret (case err of
              Some x \<Rightarrow> (Some \<lparr>bz_steps = [created], bz_applied = False, bz_pending = False\<rparr>, Some x)
            | None \<Rightarrow>
                (Some \<lparr>bz_steps = [created, new_step (apply_text (bg_node opts)) ''applied'' []],
                   bz_applied = True, bz_pending = False\<rparr>, None)))))"

definition ensure_isolated_bridge ::
  "'w admin_env \<Rightarrow> bridge_options \<Rightarrow> ('w admin, bridge_result option \<times> goerr option) eng" where
  "ensure_isolated_bridge e opts =
     (case validate_bridge opts of
        Some x \<Rightarrow> ret (None, Some x)
      | None \<Rightarrow>
          bindM (gets ad_client) (\<lambda>cl.
            if \<not> logged_in cl then
              ret (None, Some (Plain ''proxmox: EnsureIsolatedBridge requires a successful Login first''))
            else
              (let comment = (if bg_comment opts = [] then default_bridge_comment else bg_comment opts);
                   desc = ''create isolated bridge '' @ bg_bridge opts @ '' on '' @ bg_node opts;
                   result = (\<lambda>steps. \<lparr>bz_steps = steps, bz_applied = False, bz_pending = False\<rparr>) in
               bindM (find_network_interface e (bg_node opts) (bg_bridge opts)) (\<lambda>r. case r of
                 Inl x \<Rightarrow> ret (Some (result []), Some (wrapf (''proxmox: list network interfaces on '' @ bg_node opts) x))
               | Inr (Some i) \<Rightarrow>
                   ret (case check_safe_to_reuse (bg_bridge opts) i of
                     Some x \<Rightarrow> (Some (result []), Some x)
                   | None \<Rightarrow>
                       (Some (result [new_step desc ''already exists'' (bg_bridge opts @
                          '' is already an isolated bridge: no ports, no address or gateway configured'')]), None))
               | Inr None \<Rightarrow>
                   if bg_dry_run opts then ret (Some (dry_bridge opts (new_step desc ''would create'' [])), None)
                   else build_bridge e opts comment))))"

definition revert_pending_network :: "'w admin_env \<Rightarrow> string \<Rightarrow> ('w admin, goerr option) eng" where
  "revert_pending_network e node =
     (if node = [] then ret (Some (Plain ''proxmox: RevertPendingNetwork requires a node''))
      else
        bindM (gets ad_client) (\<lambda>cl.
          if \<not> logged_in cl then
            ret (Some (Plain ''proxmox: RevertPendingNetwork requires a successful Login first''))
          else
            bindM (admin_request e HttpDelete (network_path node) []) (\<lambda>r. ret (case r of
              Inl x \<Rightarrow> Some (wrapf (''proxmox: revert pending network configuration on '' @ node) x)
            | Inr _ \<Rightarrow> None))))"

end
