(* ===== verification/Provision.thy ===== *)
theory Provision
  imports Providers Bootstrap Access
begin

text \<open>
  internal/cli/provision.go: the connection of a cluster, from an empty machine to a sealed token that has been seen to
  work; the key and the configuration it makes sure of first (connect.go, init.go, root.go); and the first-run set-up
  of the browser (setup.go). Nothing is printed. The file system, the cipher, the transport and random bytes are
  parameters; the conversation of \<open>connect\<close> is a step the caller gives.
\<close>

section \<open>The process and its files\<close>

text \<open>
  The cached configuration and key, and the files: the configuration as reading and decoding it answers, \<open>Inl None\<close> when
  there is none, and the key files.
\<close>

record app_state =
  va_config :: "config option"
  va_file :: "goerr option + config"
  va_key :: "string option"
  va_keys :: "string \<Rightarrow> goerr option + string"

record app_env =
  vn_net :: net_env
  vn_factory :: factory_env
  vn_nonce :: string
  vn_env_key :: "string option"
  vn_key_path :: string
  vn_home_key :: "goerr + string"
  vn_fresh_key :: "goerr + string"
  vn_save_key :: "string \<Rightarrow> goerr option"
  vn_write :: "config \<Rightarrow> goerr option"

definition load_config :: "net_env \<Rightarrow> goerr option + config \<Rightarrow> goerr option + config" where
  "load_config ne file =
     (case file of
        Inl x \<Rightarrow> Inl x
      | Inr c \<Rightarrow> if validate_config ne c \<noteq> [] then Inl (Some (validate_error (validate_config ne c))) else Inr c)"

definition app_config :: "app_env \<Rightarrow> app_state \<Rightarrow> (goerr option + config) \<times> app_state" where
  "app_config ve a =
     (case va_config a of
        Some c \<Rightarrow> (Inr c, a)
      | None \<Rightarrow>
          (case load_config (vn_net ve) (va_file a) of
             Inl x \<Rightarrow> (Inl x, a) | Inr c \<Rightarrow> (Inr c, a\<lparr>va_config := Some c\<rparr>)))"

definition loaded_config :: "goerr option + config \<Rightarrow> goerr + config" where
  "loaded_config r =
     (case r of Inl None \<Rightarrow> Inl (Plain ''config file not found'') | Inl (Some x) \<Rightarrow> Inl x | Inr c \<Rightarrow> Inr c)"

definition found_key :: "app_env \<Rightarrow> app_state \<Rightarrow> goerr + string \<times> string" where
  "found_key ve a = load_key (vn_env_key ve) (va_keys a) (vn_home_key ve) (vn_key_path ve)"

definition master_key :: "app_env \<Rightarrow> app_state \<Rightarrow> (goerr + string) \<times> app_state" where
  "master_key ve a =
     (case va_key a of
        Some k \<Rightarrow> (Inr k, a)
      | None \<Rightarrow>
          (case found_key ve a of Inl x \<Rightarrow> (Inl x, a) | Inr (k, _) \<Rightarrow> (Inr k, a\<lparr>va_key := Some k\<rparr>)))"

definition forget :: "app_state \<Rightarrow> app_state" where
  "forget a = a\<lparr>va_config := None, va_key := None\<rparr>"

definition ensure_master_key :: "app_env \<Rightarrow> app_state \<Rightarrow> (goerr + unit) \<times> app_state" where
  "ensure_master_key ve a =
     (case found_key ve a of
        Inr _ \<Rightarrow> (Inr (), a)
      | Inl x \<Rightarrow>
          if x \<noteq> no_key then (Inl x, a)
          else
            (case (if vn_key_path ve \<noteq> [] then Inr (vn_key_path ve) else vn_home_key ve) of
               Inl x \<Rightarrow> (Inl (Wrapped (''locate home directory: '' @ err_text x) x), a)
             | Inr path \<Rightarrow>
                 (case vn_fresh_key ve of
                    Inl x \<Rightarrow> (Inl x, a)
                  | Inr k \<Rightarrow>
                      (case vn_save_key ve path of
                         Some x \<Rightarrow> (Inl x, a)
                       | None \<Rightarrow> (Inr (), a\<lparr>va_keys := (va_keys a)(path := Inr (encode_key k))\<rparr>)))))"

definition save_config :: "app_env \<Rightarrow> config \<Rightarrow> app_state \<Rightarrow> goerr option \<times> app_state" where
  "save_config ve c a =
     (case save_refusal c of
        Some x \<Rightarrow> (Some x, a)
      | None \<Rightarrow> (case vn_write ve c of Some x \<Rightarrow> (Some x, a) | None \<Rightarrow> (None, a\<lparr>va_file := Inr c\<rparr>)))"

definition ensure_initialised :: "app_env \<Rightarrow> app_state \<Rightarrow> (goerr + config \<times> string) \<times> app_state" where
  "ensure_initialised ve a =
     (case ensure_master_key ve a of
        (Inl x, a) \<Rightarrow> (Inl x, a)
      | (Inr _, a) \<Rightarrow>
          (case master_key ve a of
             (Inl x, a) \<Rightarrow> (Inl x, a)
           | (Inr k, a) \<Rightarrow>
               (case app_config ve a of
                  (Inr c, a) \<Rightarrow> (Inr (c, k), a)
                | (Inl (Some x), a) \<Rightarrow> (Inl x, a)
                | (Inl None, a) \<Rightarrow>
                    (case save_config ve new_config a of
                       (Some x, a) \<Rightarrow> (Inl x, a)
                     | (None, a) \<Rightarrow> (Inr (new_config, k), a\<lparr>va_config := Some new_config\<rparr>)))))"


section \<open>What is asked and what came of it\<close>

record provision_options =
  vo_endpoint :: string
  vo_admin_user :: string
  vo_admin_password :: string
  vo_insecure :: bool
  vo_ca_pem :: string
  vo_ca_path :: string
  vo_provider_id :: string
  vo_service_user :: string
  vo_token_name :: string
  vo_role :: string
  vo_pool :: string
  vo_node :: string
  vo_storages :: "string list"
  vo_create_bridge :: bool
  vo_apply_bridge :: bool
  vo_bridge :: string
  vo_read_only :: bool
  vo_dry_run :: bool

record provision_result =
  vr_steps :: "boot_step list"
  vr_entry :: provider_config
  vr_node :: string
  vr_bridge :: string
  vr_bridge_applied :: bool
  vr_bridge_created :: bool
  vr_token_id :: string
  vr_bootstrap :: "bootstrap_options option"
  vr_node_count :: int

definition no_provider :: provider_config where
  "no_provider = \<lparr>pv_id = [], pv_kind = [], pv_roles = [], pv_endpoint = [], pv_token_id = [], pv_token_secret = [],
     pv_insecure = False, pv_fingerprint = [], pv_ca_cert_path = [], pv_node = [], pv_backup_storage = [], pv_pool = [],
     pv_temp_id_min = 0, pv_temp_id_max = 0, pv_datastore = [], pv_pve_storage = []\<rparr>"

definition no_result :: provision_result where
  "no_result = \<lparr>vr_steps = [], vr_entry = no_provider, vr_node = [], vr_bridge = [], vr_bridge_applied = False,
     vr_bridge_created = False, vr_token_id = [], vr_bootstrap = None, vr_node_count = 0\<rparr>"

text \<open>The administrator's session and the process; the session's world is also the new token's.\<close>

record 'w connecting =
  vs_app :: app_state
  vs_admin :: "'w admin"

record 'w provision_env =
  ve_app :: app_env
  ve_admin :: "'w admin_env"
  ve_after :: "(pve_config \<Rightarrow> node list \<Rightarrow> ('w admin, goerr option) eng) option"

definition as_admin :: "('w admin, 'a) eng \<Rightarrow> ('w connecting, 'a) eng" where
  "as_admin m = (\<lambda>s. case m (vs_admin s) of (r, t) \<Rightarrow> (r, s\<lparr>vs_admin := t\<rparr>))"

definition as_token :: "('w pve, 'a) eng \<Rightarrow> ('w connecting, 'a) eng" where
  "as_token m = (\<lambda>s. case m \<lparr>pv_world = ad_world (vs_admin s), pv_log = []\<rparr> of
     (r, t) \<Rightarrow> (r, s\<lparr>vs_admin := (vs_admin s)\<lparr>ad_world := pv_world t\<rparr>\<rparr>))"

definition in_app :: "(app_state \<Rightarrow> 'a \<times> app_state) \<Rightarrow> ('w connecting, 'a) eng" where
  "in_app f = (\<lambda>s. case f (vs_app s) of (r, a) \<Rightarrow> (Done r, s\<lparr>vs_app := a\<rparr>))"

type_synonym 'w provisioning = "('w connecting, provision_result \<times> goerr option) eng"


section \<open>The bridge\<close>

definition drill_node :: "string \<Rightarrow> node list \<Rightarrow> string" where
  "drill_node node nodes =
     (if node \<noteq> [] then node else case find nd_online nodes of None \<Rightarrow> [] | Some n \<Rightarrow> nd_id n)"

definition bridge_step :: "provision_options \<Rightarrow> string \<Rightarrow> string \<Rightarrow> boot_step" where
  "bridge_step opts node st = new_step (''create isolated bridge '' @ vo_bridge opts @ '' on '' @ node) st []"

definition isolated_bridge :: "string \<Rightarrow> network_config" where
  "isolated_bridge b = \<lparr>nw_bridge = b, nw_model = [], nw_vlan_tag = 0, nw_firewall = False, nw_isolated = True\<rparr>"

definition make_bridge :: "'w provision_env \<Rightarrow> provision_options \<Rightarrow> string \<Rightarrow> provision_result \<Rightarrow> 'w provisioning" where
  "make_bridge e opts node out =
     bindM (as_admin (ensure_isolated_bridge (ve_admin e)
         \<lparr>bg_node = node, bg_bridge = vo_bridge opts, bg_comment = [], bg_apply = vo_apply_bridge opts, bg_dry_run = False\<rparr>))
       (\<lambda>(_, err). ret (case err of
          Some x \<Rightarrow> (out, Some (wrapf (''creating the isolated bridge '' @ vo_bridge opts @ '' on '' @ node) x))
        | None \<Rightarrow>
            (out\<lparr>vr_steps := vr_steps out @ [bridge_step opts node
                   (if vo_apply_bridge opts then ''created'' else ''written, applies at the next reboot'')],
                 vr_bridge_created := True, vr_bridge_applied := vo_apply_bridge opts\<rparr>, None)))"

definition provision_bridge ::
  "'w provision_env \<Rightarrow> provision_options \<Rightarrow> pve_config \<Rightarrow> node list \<Rightarrow> provision_result \<Rightarrow> 'w provisioning" where
  "provision_bridge e opts hv nodes out =
     (let node = drill_node (vo_node opts) nodes in
      if node = [] \<or> vo_bridge opts = [] then
        ret (out, Some (Plain (''no node or bridge to create: node '' @ quoted node @ '', bridge '' @ quoted (vo_bridge opts))))
      else
        (let out = out\<lparr>vr_node := node, vr_bridge := vo_bridge opts\<rparr> in
         bindM (as_token (validate_isolation (ax_pve (ve_admin e)) hv RunCtx node (isolated_bridge (vo_bridge opts)))) (\<lambda>r.
           case r of
             Inr _ \<Rightarrow> ret (out\<lparr>vr_steps := vr_steps out @ [bridge_step opts node ''already exists'']\<rparr>, None)
           | Inl _ \<Rightarrow> make_bridge e opts node out)))"


section \<open>The sequence\<close>

definition stored_secret :: "config \<Rightarrow> string \<Rightarrow> string" where
  "stored_secret c i = (case find_provider c i of Inl _ \<Rightarrow> [] | Inr p \<Rightarrow> pv_token_secret p)"

definition full_token :: "provision_options \<Rightarrow> string" where
  "full_token opts = vo_service_user opts @ ''!'' @ vo_token_name opts"

text \<open>Keeping the token on the cluster is safe only when its secret is the one already sealed here.\<close>

definition holds_token :: "config \<Rightarrow> provision_options \<Rightarrow> bool" where
  "holds_token c opts =
     (case find_provider c (vo_provider_id opts) of
        Inl _ \<Rightarrow> False | Inr p \<Rightarrow> pv_token_id p = full_token opts \<and> pv_token_secret p \<noteq> [])"

definition bootstrap_of :: "config \<Rightarrow> provision_options \<Rightarrow> bootstrap_options" where
  "bootstrap_of c opts =
     \<lparr>bo_user = vo_service_user opts, bo_comment = ''RestoreLab recovery drills'', bo_token = vo_token_name opts,
      bo_role = vo_role opts, bo_pool = vo_pool opts, bo_read_only = vo_read_only opts, bo_node = vo_node opts,
      bo_storages = vo_storages opts, bo_bridge = vo_bridge opts, bo_sdn_zone = [], bo_reuse = holds_token c opts,
      bo_dry_run = vo_dry_run opts\<rparr>"

definition new_entry :: "provision_options \<Rightarrow> string \<Rightarrow> provider_config" where
  "new_entry opts token =
     no_provider\<lparr>pv_id := vo_provider_id opts, pv_kind := ''proxmox'', pv_roles := [''hypervisor'', ''backup''],
       pv_endpoint := vo_endpoint opts, pv_token_id := token, pv_insecure := vo_insecure opts,
       pv_ca_cert_path := vo_ca_path opts, pv_node := vo_node opts, pv_pool := vo_pool opts,
       pv_temp_id_min := default_temp_id_min, pv_temp_id_max := default_temp_id_max\<rparr>"

text \<open>The entry in the configuration, with the secret just minted or the one that was there.\<close>

definition with_secret ::
  "app_env \<Rightarrow> string \<Rightarrow> string \<Rightarrow> string \<Rightarrow> provider_config \<Rightarrow> config \<Rightarrow> goerr + config" where
  "with_secret ve k secret previous entry c =
     (if secret \<noteq> [] then set_provider_secret (fx_cipher (vn_factory ve)) (vn_nonce ve) k (pv_id entry) secret c
      else if previous \<noteq> [] then
        (case find_provider c (pv_id entry) of
           Inl x \<Rightarrow> Inl x
         | Inr _ \<Rightarrow> Inr (c\<lparr>cf_providers := replace_first (\<lambda>p. pv_id p = pv_id entry)
             (\<lambda>p. p\<lparr>pv_token_secret := previous\<rparr>) (cf_providers c)\<rparr>))
      else Inl (Plain (''no token secret available for '' @ pv_token_id entry @
        '': delete the token in Proxmox and connect again'')))"

definition with_default :: "string \<Rightarrow> config \<Rightarrow> config" where
  "with_default i c =
     (if df_provider (cf_defaults c) = [] then c\<lparr>cf_defaults := (cf_defaults c)\<lparr>df_provider := i\<rparr>\<rparr> else c)"

text \<open>
  Storing the entry. The loaded configuration is changed in place, so a step that fails leaves the process with what it
  had changed by then.
\<close>

definition store_entry ::
  "app_env \<Rightarrow> string \<Rightarrow> string \<Rightarrow> provider_config \<Rightarrow> config \<Rightarrow> app_state \<Rightarrow> goerr option \<times> app_state" where
  "store_entry ve k secret entry c a =
     (let previous = stored_secret c (pv_id entry); c = upsert_provider entry c in
      case with_secret ve k secret previous entry c of
        Inl x \<Rightarrow> (Some x, a\<lparr>va_config := Some c\<rparr>)
      | Inr c \<Rightarrow>
          (let c = with_default (pv_id entry) c in
           case save_config ve c (a\<lparr>va_config := Some c\<rparr>) of
             (Some x, a) \<Rightarrow> (Some (wrapf ''the token was created in Proxmox but could not be saved'' x), a)
           | (None, a) \<Rightarrow> (None, a)))"

text \<open>Proof that the token works, and what follows it.\<close>

definition finish_provision ::
  "'w provision_env \<Rightarrow> provision_options \<Rightarrow> pve_config \<Rightarrow> node list \<Rightarrow> provision_result \<Rightarrow> 'w provisioning" where
  "finish_provision e opts hv nodes out =
     bindM (case ve_after e of None \<Rightarrow> ret None | Some f \<Rightarrow> as_admin (f hv nodes)) (\<lambda>err. case err of
       Some x \<Rightarrow> ret (out, Some x)
     | None \<Rightarrow> if vo_create_bridge opts then provision_bridge e opts hv nodes out else ret (out, None))"

definition verify_token ::
  "'w provision_env \<Rightarrow> provision_options \<Rightarrow> provision_result \<Rightarrow> 'w provisioning" where
  "verify_token e opts out =
     bindM (in_app (app_config (ve_app e))) (\<lambda>c.
     bindM (in_app (master_key (ve_app e))) (\<lambda>mk.
     case app_hypervisor (vn_factory (ve_app e)) (loaded_config c) mk (vo_provider_id opts) of
       Inl x \<Rightarrow> ret (out, Some x)
     | Inr hv \<Rightarrow>
         bindM (as_token (list_nodes (ax_pve (ve_admin e)) hv RunCtx)) (\<lambda>r. case r of
           Inl x \<Rightarrow> ret (out, Some (wrapf ''the token was created but cannot be used'' x))
         | Inr nodes \<Rightarrow> finish_provision e opts hv nodes (out\<lparr>vr_node_count := int (length nodes)\<rparr>))))"

definition provision_token ::
  "'w provision_env \<Rightarrow> provision_options \<Rightarrow> config \<Rightarrow> string \<Rightarrow> boot_result \<Rightarrow> provision_result \<Rightarrow> 'w provisioning" where
  "provision_token e opts c k r out =
     (let out = out\<lparr>vr_token_id := br_token_id r\<rparr>; entry = new_entry opts (br_token_id r) in
      if vo_dry_run opts then ret (out, None)
      else
        bindM (in_app (store_entry (ve_app e) k (br_secret r) entry c)) (\<lambda>err. case err of
          Some x \<Rightarrow> ret (out, Some x)
        | None \<Rightarrow> verify_token e opts (out\<lparr>vr_entry := entry\<rparr>)))"

definition provision_session ::
  "'w provision_env \<Rightarrow> provision_options \<Rightarrow> config \<Rightarrow> string \<Rightarrow> 'w provisioning" where
  "provision_session e opts c k =
     bindM (as_admin (login (ve_admin e))) (\<lambda>r. case r of
       Inl x \<Rightarrow> ret (no_result, Some x)
     | Inr _ \<Rightarrow>
         bindM (as_admin (bootstrap (ve_admin e) (bootstrap_of c opts))) (\<lambda>(r, err).
           (let out = no_result\<lparr>vr_bootstrap := Some (bootstrap_of c opts),
                  vr_steps := (case r of None \<Rightarrow> [] | Some r \<Rightarrow> br_steps r)\<rparr> in
            case err of
              Some x \<Rightarrow> ret (out, Some x)
            | None \<Rightarrow> bindM (deref r) (\<lambda>r. provision_token e opts c k r out))))"

definition admin_config_of :: "provision_options \<Rightarrow> admin_config" where
  "admin_config_of opts = \<lparr>ac_endpoint = vo_endpoint opts, ac_username = vo_admin_user opts,
     ac_password = vo_admin_password opts, ac_insecure = vo_insecure opts, ac_ca = vo_ca_pem opts, ac_timeout = 30 * second\<rparr>"

text \<open>\<open>Close\<close> is deferred: the session's secrets are cleared however the sequence ends.\<close>

definition closing :: "('w connecting, 'a) eng \<Rightarrow> ('w connecting, 'a) eng" where
  "closing m = (\<lambda>s. case m s of (r, t) \<Rightarrow> (r, t\<lparr>vs_admin := (vs_admin t)\<lparr>ad_client := close_admin (ad_client (vs_admin t))\<rparr>\<rparr>))"

definition provision :: "'w provision_env \<Rightarrow> provision_options \<Rightarrow> 'w connecting \<Rightarrow>
   (provision_result \<times> goerr option) outcome \<times> 'w connecting" where
  "provision e opts =
     bindM (in_app (ensure_initialised (ve_app e))) (\<lambda>r. case r of
       Inl x \<Rightarrow> ret (no_result, Some x)
     | Inr (c, k) \<Rightarrow>
         (case new_admin_client (te_pem (fx_trust (vn_factory (ve_app e)))) (admin_config_of opts) of
            Inl x \<Rightarrow> ret (no_result, Some x)
          | Inr cl \<Rightarrow>
              thenM (modify (\<lambda>s. s\<lparr>vs_admin := (vs_admin s)\<lparr>ad_client := cl, ad_log := []\<rparr>\<rparr>))
                (closing (provision_session e opts c k))))"


section \<open>The set-up of the browser\<close>

definition setup_bridge :: "app_env \<Rightarrow> app_state \<Rightarrow> (goerr + string) \<times> app_state" where
  "setup_bridge ve a =
     (case ensure_initialised ve a of
        (Inl x, a) \<Rightarrow> (Inl x, a)
      | (Inr (c, _), a) \<Rightarrow>
          (let name = (if df_network (cf_defaults c) = [] then ''isolated'' else df_network (cf_defaults c)) in
           case find_network c name of
             Inl x \<Rightarrow> (Inl (Wrapped (''no isolated network profile '' @ quoted name @ '' in the configuration: '' @ err_text x) x), a)
           | Inr n \<Rightarrow> (Inr (np_bridge n), a)))"

definition connect_bridge :: "config \<Rightarrow> string \<Rightarrow> string" where
  "connect_bridge c asked =
     (if asked \<noteq> [] then asked
      else
        (case find_network c (if df_network (cf_defaults c) = [] then ''isolated'' else df_network (cf_defaults c)) of
           Inl _ \<Rightarrow> [] | Inr n \<Rightarrow> if np_isolated n then np_bridge n else []))"

definition setup_token_name :: "string \<Rightarrow> string" where
  "setup_token_name random = ''drills-'' @ hex_encode random"

definition setup_options :: "string \<Rightarrow> string \<Rightarrow> bool \<Rightarrow> bool \<Rightarrow> bool \<Rightarrow> string \<Rightarrow> string \<Rightarrow> string list \<Rightarrow> string \<Rightarrow> provision_options" where
  "setup_options endpoint user insecure create apply_bridge password token storages bridge =
     \<lparr>vo_endpoint = endpoint, vo_admin_user = user, vo_admin_password = password, vo_insecure = insecure, vo_ca_pem = [],
      vo_ca_path = [], vo_provider_id = ''proxmox-main'', vo_service_user = ''restorelab@pve'', vo_token_name = token,
      vo_role = ''RestoreLabDrill'', vo_pool = ''restorelab'', vo_node = [], vo_storages = storages,
      vo_create_bridge = create, vo_apply_bridge = apply_bridge, vo_bridge = bridge, vo_read_only = False,
      vo_dry_run = False\<rparr>"

text \<open>Whether there is a cluster to serve: the file is read, not the cache.\<close>

definition configured :: "net_env \<Rightarrow> app_state \<Rightarrow> bool" where
  "configured ne a = (case load_config ne (va_file a) of Inl _ \<Rightarrow> False | Inr c \<Rightarrow> cf_providers c \<noteq> [])"

definition dashboard_token_name :: string where "dashboard_token_name = ''dashboard''"

definition mint_dashboard_token ::
  "goerr \<Rightarrow> (string \<Rightarrow> string) \<Rightarrow> string \<Rightarrow> string \<Rightarrow> time \<Rightarrow> db option \<Rightarrow> (goerr + string) \<times> db option" where
  "mint_dashboard_token ce h i random now_time history =
     (case history of
        None \<Rightarrow> (Inl (Plain ''no history database to keep the token in: see `restorelab db status`''), None)
      | Some s \<Rightarrow>
          (case new_token h i random dashboard_token_name now_time of
             (secret, t) \<Rightarrow>
               (case create_token ce (t\<lparr>to_scopes := [scope_read, scope_operate, scope_manage]\<rparr>) s of
                  (Inl x, s) \<Rightarrow> (Inl x, Some s) | (Inr _, s) \<Rightarrow> (Inr secret, Some s))))"

end
