(* ===== verification/Bootstrap_Safety.thy ===== *)
theory Bootstrap_Safety
  imports Bootstrap
begin

text \<open>
  What the set-up of a cluster is trusted for: a dry run changes nothing; a real one creates only the roles, grants,
  pool, account and token it declares, with no privilege beyond those lists, deletes nothing, and hands out a secret
  only when the cluster has just minted it; an interface that is already there is never touched.
\<close>

section \<open>What a session may send\<close>

definition admin_sent :: "(admin_client \<Rightarrow> admin_call \<Rightarrow> bool) \<Rightarrow> 'w admin \<Rightarrow> 'w admin \<Rightarrow> bool" where
  "admin_sent P s t \<longleftrightarrow> ad_client t = ad_client s \<and>
     (\<exists>xs. ad_log t = ad_log s @ xs \<and> list_all (P (ad_client s)) xs)"

abbreviation admin_sends :: "(admin_client \<Rightarrow> admin_call \<Rightarrow> bool) \<Rightarrow> ('w admin, 'a) eng \<Rightarrow> bool" where
  "admin_sends P m \<equiv> keeps (admin_sent P) m"

interpretation admin_sent: kept_order "admin_sent P" for P :: "admin_client \<Rightarrow> admin_call \<Rightarrow> bool"
proof
  show "admin_sent P s s" for s :: "'w admin" by (simp add: admin_sent_def)
  show "admin_sent P s u" if st: "admin_sent P s t" and tu: "admin_sent P t u" for s t u :: "'w admin"
  proof -
    have c: "ad_client t = ad_client s" "ad_client u = ad_client t" using st tu by (simp_all add: admin_sent_def)
    obtain xs where "ad_log t = ad_log s @ xs" "list_all (P (ad_client s)) xs"
      using st by (auto simp: admin_sent_def)
    moreover obtain ys where "ad_log u = ad_log t @ ys" "list_all (P (ad_client s)) ys"
      using tu c by (auto simp: admin_sent_def)
    ultimately have "ad_log u = ad_log s @ (xs @ ys) \<and> list_all (P (ad_client s)) (xs @ ys) \<and> ad_client u = ad_client s"
      using c by simp
    then show ?thesis unfolding admin_sent_def by blast
  qed
qed

lemma admin_sends_request:
  "(\<And>cl a. P cl \<lparr>aq_method = m, aq_path = path, aq_form = f, aq_headers = admin_headers m cl, aq_answer = a\<rparr>) \<Longrightarrow>
   admin_sends P (admin_request e m path f)"
  by (simp add: keeps_def admin_sent_def admin_request_def Let_def split: prod.split)

lemma keeps_ifI: "(b \<Longrightarrow> keeps R m) \<Longrightarrow> (\<not> b \<Longrightarrow> keeps R n) \<Longrightarrow> keeps R (if b then m else n)"
  by simp

lemma admin_sends_callE [pres_intros]: "admin_sends P m \<Longrightarrow> (\<And>a. admin_sends P (f a)) \<Longrightarrow> admin_sends P (callE m f)"
  unfolding callE_def by (intro pres_intros)


section \<open>What the set-up declares\<close>

definition baseline_role :: "bootstrap_options \<Rightarrow> string" where
  "baseline_role opts = (if bo_read_only opts then bo_role opts else read_only_role_name)"

definition declared_grants :: "bootstrap_options \<Rightarrow> (string \<times> string) list" where
  "declared_grants opts =
     map (\<lambda>path. (path, baseline_role opts)) (baseline_paths opts) @
     (if bo_read_only opts then []
      else (drill_path opts, bo_role opts) #
        map (\<lambda>s. (''/storage/'' @ s, storage_role opts)) (bo_storages opts) @
        (if bo_bridge opts = [] then [] else [(bridge_path opts, network_role opts)]))"

definition declared_roles :: "bootstrap_options \<Rightarrow> (string \<times> string list) list" where
  "declared_roles opts =
     (baseline_role opts, read_only_privileges) #
     (if bo_read_only opts then []
      else [(bo_role opts, drill_privileges), (storage_role opts, storage_privileges), (network_role opts, sdn_privileges)])"

definition field :: "string \<Rightarrow> form \<Rightarrow> string" where
  "field k f = (case map_of f k of Some [v] \<Rightarrow> v | _ \<Rightarrow> [])"

definition only_among :: "string list \<Rightarrow> string \<Rightarrow> bool" where
  "only_among privs s = list_all (\<lambda>p. p \<in> set privs) (split_privs s)"

definition creates :: "bootstrap_options \<Rightarrow> admin_call \<Rightarrow> bool" where
  "creates opts x \<longleftrightarrow>
     (aq_path x = ''/access/roles'' \<and>
        list_ex (\<lambda>(role, privs). field ''roleid'' (aq_form x) = role \<and> only_among privs (field ''privs'' (aq_form x)))
          (declared_roles opts)) \<or>
     (aq_path x = ''/pools'' \<and> field ''poolid'' (aq_form x) = bo_pool opts) \<or>
     (aq_path x = ''/access/users'' \<and> field ''userid'' (aq_form x) = bo_user opts) \<or>
     (aq_path x = ''/access/users/'' @ bo_user opts @ ''/token/'' @ bo_token opts \<and>
        aq_form x = [(''privsep'', [''0''])])"

definition updates :: "bootstrap_options \<Rightarrow> admin_call \<Rightarrow> bool" where
  "updates opts x \<longleftrightarrow>
     list_ex (\<lambda>(role, privs). aq_path x = ''/access/roles/'' @ role \<and> only_among privs (field ''privs'' (aq_form x)))
       (declared_roles opts) \<or>
     (aq_path x = ''/access/acl'' \<and> field ''users'' (aq_form x) = bo_user opts \<and>
        (field ''path'' (aq_form x), field ''roles'' (aq_form x)) \<in> set (declared_grants opts))"

text \<open>A read, or, when this is not a dry run, one of the writes declared; with the headers of the session.\<close>

definition permitted :: "bootstrap_options \<Rightarrow> admin_client \<Rightarrow> admin_call \<Rightarrow> bool" where
  "permitted opts cl x \<longleftrightarrow>
     aq_headers x = admin_headers (aq_method x) cl \<and>
     (case aq_method x of
        HttpGet \<Rightarrow> True
      | HttpPost \<Rightarrow> \<not> bo_dry_run opts \<and> creates opts x
      | HttpPut \<Rightarrow> \<not> bo_dry_run opts \<and> updates opts x
      | HttpDelete \<Rightarrow> False)"

lemma permitted_read [pres_intros]: "admin_sends (permitted opts) (admin_request e HttpGet path f)"
  by (rule admin_sends_request) (simp add: permitted_def)

lemma permitted_rows [pres_intros]: "admin_sends (permitted opts) (admin_rows e path what)"
  unfolding admin_rows_def by (intro pres_intros)

lemma permitted_names [pres_intros]: "admin_sends (permitted opts) (list_names e path k what)"
  unfolding list_names_def by (intro pres_intros)

lemma permitted_lists [pres_intros]:
  "admin_sends (permitted opts) (list_roles e)" "admin_sends (permitted opts) (list_pools e)"
  "admin_sends (permitted opts) (list_users e)" "admin_sends (permitted opts) (list_token_ids e u)"
  unfolding list_roles_def list_pools_def list_users_def list_token_ids_def by (intro pres_intros)+

lemma permitted_write:
  assumes "\<not> bo_dry_run opts"
    "\<And>hs a. m = HttpPost \<and> creates opts \<lparr>aq_method = m, aq_path = path, aq_form = f, aq_headers = hs, aq_answer = a\<rparr> \<or>
       m = HttpPut \<and> updates opts \<lparr>aq_method = m, aq_path = path, aq_form = f, aq_headers = hs, aq_answer = a\<rparr>"
  shows "admin_sends (permitted opts) (admin_request e m path f)"
proof (rule admin_sends_request)
  fix cl a
  show "permitted opts cl \<lparr>aq_method = m, aq_path = path, aq_form = f, aq_headers = admin_headers m cl, aq_answer = a\<rparr>"
    using assms(1) assms(2) [of "admin_headers m cl" a] by (auto simp: permitted_def)
qed

lemma permitted_step:
  "admin_sends (permitted opts) (admin_request e m path f) \<Longrightarrow> admin_sends (permitted opts) (attempt_step e m path f what step)"
  unfolding attempt_step_def by (intro pres_intros)


section \<open>Privileges are not invented\<close>

lemma split_on_one: "c \<notin> set xs \<Longrightarrow> split_on c xs = [xs]"
  by (induction xs) auto

lemma split_on_first: "c \<notin> set xs \<Longrightarrow> split_on c (xs @ c # ys) = xs # split_on c ys"
  by (induction xs) auto

lemma split_on_join: "xs \<noteq> [] \<Longrightarrow> \<forall>x \<in> set xs. c \<notin> set x \<Longrightarrow> split_on c (join [c] xs) = xs"
  by (induction "[c]" xs rule: join.induct) (simp_all add: split_on_one split_on_first)

lemma only_among_kept:
  assumes "\<forall>p \<in> set privs. CHR '','' \<notin> set p" "set kept \<subseteq> set privs"
  shows "only_among privs (privs_key kept)"
proof (cases "kept = []")
  case True
  then show ?thesis by (simp add: only_among_def privs_key_def sort_strings_def split_privs_def)
next
  case False
  then have "set (split_on (CHR '','') (privs_key kept)) = set kept"
    unfolding privs_key_def
    by (subst split_on_join) (use assms in \<open>auto simp flip: set_empty\<close>)
  then show ?thesis using assms(2) by (auto simp: only_among_def split_privs_def list_all_iff)
qed

lemma declared_no_comma:
  "\<forall>p \<in> set read_only_privileges. CHR '','' \<notin> set p" "\<forall>p \<in> set drill_privileges. CHR '','' \<notin> set p"
  "\<forall>p \<in> set storage_privileges. CHR '','' \<notin> set p" "\<forall>p \<in> set sdn_privileges. CHR '','' \<notin> set p"
  by (simp_all add: read_only_privileges_def drill_privileges_def storage_privileges_def sdn_privileges_def)

lemma filter_privileges_keeps: "filter_privileges want supported = (kept, dropped) \<Longrightarrow> set kept \<subseteq> set want"
  by (auto simp: filter_privileges_def split: if_splits)

lemma permitted_role:
  assumes role: "(role, privs) \<in> set (declared_roles opts)" and privs: "\<forall>p \<in> set privs. CHR '','' \<notin> set p"
  shows "admin_sends (permitted opts) (ensure_role e existing supported role privs (bo_dry_run opts))"
proof -
  obtain kept dropped where kd: "filter_privileges privs supported = (kept, dropped)" by fastforce
  note ok = filter_privileges_keeps [OF kd, THEN only_among_kept [OF privs]]
  have "admin_sends (permitted opts) (admin_request e HttpPut (''/access/roles/'' @ role)
      [(''privs'', [privs_key kept]), (''append'', [''0''])])"
    "admin_sends (permitted opts) (admin_request e HttpPost ''/access/roles''
      [(''roleid'', [role]), (''privs'', [privs_key kept])])" if "\<not> bo_dry_run opts"
    by (rule permitted_write [OF that]; use role ok in \<open>fastforce simp: updates_def creates_def field_def list_ex_iff\<close>)+
  then show ?thesis
    unfolding ensure_role_def kd prod.case Let_def
    by (intro pres_intros keeps_ifI permitted_step)
qed

lemma permitted_grant:
  assumes "(path, role) \<in> set (declared_grants opts)"
  shows "admin_sends (permitted opts) (grant_acl e path (bo_user opts) role (bo_dry_run opts))"
proof (cases "bo_dry_run opts")
  case False
  have "admin_sends (permitted opts) (admin_request e HttpPut ''/access/acl''
      [(''path'', [path]), (''users'', [bo_user opts]), (''roles'', [role]), (''propagate'', [''1''])])"
    by (rule permitted_write [OF False]) (use assms in \<open>simp add: updates_def field_def\<close>)
  then show ?thesis unfolding grant_acl_def Let_def using False by (auto intro: permitted_step)
qed (auto simp: grant_acl_def Let_def intro: pres_intros)

lemma permitted_pool [pres_intros]:
  "admin_sends (permitted opts) (ensure_pool e existing (bo_pool opts) c (bo_dry_run opts))"
proof (cases "bo_dry_run opts")
  case False
  have "admin_sends (permitted opts) (admin_request e HttpPost ''/pools''
      [(''poolid'', [bo_pool opts]), (''comment'', [c])])"
    by (rule permitted_write [OF False]) (simp add: creates_def field_def)
  then show ?thesis unfolding ensure_pool_def Let_def using False by (auto intro: permitted_step pres_intros)
qed (auto simp: ensure_pool_def Let_def intro: pres_intros)

lemma permitted_user [pres_intros]:
  "admin_sends (permitted opts) (ensure_user e existing (bo_user opts) c (bo_dry_run opts))"
proof (cases "bo_dry_run opts")
  case False
  have "admin_sends (permitted opts) (admin_request e HttpPost ''/access/users''
      [(''userid'', [bo_user opts]), (''comment'', [c]), (''enable'', [''1''])])"
    by (rule permitted_write [OF False]) (simp add: creates_def field_def)
  then show ?thesis unfolding ensure_user_def Let_def using False by (auto intro: permitted_step pres_intros)
qed (auto simp: ensure_user_def Let_def intro: pres_intros)

lemma permitted_token [pres_intros]:
  "admin_sends (permitted opts) (ensure_token e (bo_user opts) (bo_token opts) reuse (bo_dry_run opts))"
proof (cases "bo_dry_run opts")
  case False
  have "admin_sends (permitted opts) (admin_request e HttpPost
      (''/access/users/'' @ bo_user opts @ ''/token/'' @ bo_token opts) [(''privsep'', [''0''])])"
    by (rule permitted_write [OF False]) (simp add: creates_def)
  then show ?thesis unfolding ensure_token_def Let_def by (intro pres_intros) auto
qed (auto simp: ensure_token_def Let_def intro!: pres_intros)

lemma permitted_noted [pres_intros]: "admin_sends P m \<Longrightarrow> admin_sends P (noted m acc)"
  unfolding noted_def by (intro pres_intros)

lemma permitted_phase [pres_intros]: "admin_sends P m \<Longrightarrow> (\<And>acc. admin_sends P (k acc)) \<Longrightarrow> admin_sends P (phase m k)"
  unfolding phase_def by (intro pres_intros)

lemma permitted_each:
  "(\<And>path. path \<in> set paths \<Longrightarrow> (path, role) \<in> set (declared_grants opts)) \<Longrightarrow>
   admin_sends (permitted opts) (grant_each e (bo_user opts) role (bo_dry_run opts) paths acc)"
proof (induction paths arbitrary: acc)
  case (Cons path paths)
  show ?case
    unfolding grant_each.simps
    by (intro pres_intros permitted_grant Cons.IH) (use Cons.prems in auto)
qed (auto intro: pres_intros)



section \<open>The whole set-up\<close>

lemma permitted_grant_drill [pres_intros]:
  "\<not> bo_read_only opts \<Longrightarrow> admin_sends (permitted opts) (grant_drill e opts acc)"
  unfolding grant_drill_def
  by (intro pres_intros permitted_grant) (simp add: declared_grants_def)

lemma permitted_drill [pres_intros]: "admin_sends (permitted opts) (bootstrap_drill e opts roles supported acc)"
  unfolding bootstrap_drill_def
  by (intro pres_intros keeps_ifI permitted_role permitted_each declared_no_comma)
    (auto simp: declared_roles_def declared_grants_def)

lemma permitted_bridge [pres_intros]: "admin_sends (permitted opts) (bootstrap_bridge e opts roles supported acc)"
  unfolding bootstrap_bridge_def
  by (intro keeps_ifI admin_sent.keeps_bind pres_intros permitted_role permitted_grant declared_no_comma)
    (auto simp: declared_roles_def declared_grants_def)

lemma permitted_pool_user [pres_intros]:
  "admin_sends (permitted opts) (bootstrap_pool e opts acc)" "admin_sends (permitted opts) (bootstrap_user e opts acc)"
  unfolding bootstrap_pool_def bootstrap_user_def by (intro pres_intros)+

lemma permitted_last [pres_intros]: "admin_sends (permitted opts) (bootstrap_token e opts acc)"
  unfolding bootstrap_token_def Let_def by (intro pres_intros)

lemma permitted_roles [pres_intros]: "admin_sends (permitted opts) (bootstrap_roles e opts roles)"
  unfolding bootstrap_roles_def Let_def
  by (intro pres_intros keeps_ifI permitted_role permitted_each declared_no_comma)
    (auto simp: declared_roles_def declared_grants_def baseline_role_def)

lemma permitted_bootstrap: "admin_sends (permitted opts) (bootstrap e opts)"
  unfolding bootstrap_def by (intro pres_intros)

text \<open>C29. The set-up of a cluster is as narrow as it says: whatever the cluster answers, every call of it is a read or,
  unless this is a dry run, one of the writes it declares - a role with privileges of its declared list and no other, one of
  the declared grants to the declared account (the drill role on the pool, or on every guest when no pool is
  configured, the storage role on the named storages, the network role on the one bridge), the pool, the account,
  the token. It deletes nothing, and each call carries the headers of the session, which is left as it was.\<close>

theorem bootstrap_is_as_declared:
  "\<exists>xs. ad_log (snd (bootstrap e opts s)) = ad_log s @ xs \<and>
     list_all (permitted opts (ad_client s)) xs \<and> ad_client (snd (bootstrap e opts s)) = ad_client s"
  using keepsD [OF permitted_bootstrap, of opts s e] by (auto simp: admin_sent_def)



section \<open>The secret of the token\<close>

text \<open>A listing of the account's tokens, as the cluster answered it, and the creation that may follow it.\<close>

definition lists_tokens :: "string \<Rightarrow> (params list \<Rightarrow> bool) \<Rightarrow> admin_call \<Rightarrow> bool" where
  "lists_tokens user P x \<longleftrightarrow>
     aq_method x = HttpGet \<and> aq_path x = ''/access/users/'' @ user @ ''/token'' \<and>
     (case aq_answer x of
        Inl _ \<Rightarrow> False
      | Inr d \<Rightarrow> (case decode_rows d of None \<Rightarrow> False | Some rows \<Rightarrow> P rows))"

definition lists_with :: "'w admin_env \<Rightarrow> string \<Rightarrow> string \<Rightarrow> admin_call \<Rightarrow> bool" where
  "lists_with e user token = lists_tokens user (list_ex (\<lambda>row. row_text e ''tokenid'' row = token))"

definition lists_without :: "'w admin_env \<Rightarrow> string \<Rightarrow> string \<Rightarrow> admin_call \<Rightarrow> bool" where
  "lists_without e user token = lists_tokens user (list_all (\<lambda>row. row_text e ''tokenid'' row \<noteq> token))"

definition mints :: "string \<Rightarrow> string \<Rightarrow> string \<times> string \<Rightarrow> admin_call \<Rightarrow> bool" where
  "mints user token minted x \<longleftrightarrow>
     aq_method x = HttpPost \<and> aq_path x = ''/access/users/'' @ user @ ''/token/'' @ token \<and>
     (case aq_answer x of Inr (Some v) \<Rightarrow> token_answer v = Some minted | _ \<Rightarrow> False)"

definition token_story :: "'w admin_env \<Rightarrow> bootstrap_options \<Rightarrow> string \<Rightarrow> string \<Rightarrow> admin_call list \<Rightarrow> bool" where
  "token_story e opts i secret calls =
     (if secret = [] then i = bo_user opts @ ''!'' @ bo_token opts \<and>
        (\<exists>earlier listing. calls = earlier @ [listing] \<and>
           (bo_reuse opts \<and> lists_with e (bo_user opts) (bo_token opts) listing \<or>
            bo_dry_run opts \<and> lists_without e (bo_user opts) (bo_token opts) listing))
      else \<not> bo_dry_run opts \<and>
        (\<exists>earlier listing mint. calls = earlier @ [listing, mint] \<and>
           lists_without e (bo_user opts) (bo_token opts) listing \<and> mints (bo_user opts) (bo_token opts) (i, secret) mint))"

lemma wp_admin_request:
  "wp (admin_request e m path f) Q E s \<longleftrightarrow>
     (let hs = admin_headers m (ad_client s);
          x = ax_http e m (cl_endpoint (ad_client s) @ ''/api2/json'' @ path) f hs (ad_world s);
          a = read_reply (ax_pve e) RunCtx m path (fst x) (snd x)
      in Q a (s\<lparr>ad_world := snd x, ad_log := ad_log s @
           [\<lparr>aq_method = m, aq_path = path, aq_form = f, aq_headers = hs, aq_answer = a\<rparr>]\<rparr>))"
  by (simp add: wp_def admin_request_def Let_def split: prod.split)

lemma wp_callE: "wp (callE m f) Q E s \<longleftrightarrow> wp m (\<lambda>r t. case r of Inl x \<Rightarrow> Q (Inl x) t | Inr a \<Rightarrow> wp (f a) Q E t) E s"
  by (simp add: callE_def wp_def bindM_def ret_def split: prod.splits outcome.splits sum.splits)

lemma wp_list_tokens:
  assumes "\<And>x t. Q (Inl x) t"
    "\<And>t names listing. ad_log t = ad_log s @ [listing] \<Longrightarrow>
       (\<And>token. token \<notin> set names \<Longrightarrow> lists_without e user token listing) \<Longrightarrow>
       (\<And>token. token \<in> set names \<Longrightarrow> lists_with e user token listing) \<Longrightarrow> Q (Inr names) t"
  shows "wp (list_token_ids e user) Q E s"
  unfolding list_token_ids_def list_names_def admin_rows_def wp_callE wp_admin_request Let_def
  by (auto simp: assms(1) lists_without_def lists_with_def lists_tokens_def list_all_iff list_ex_iff
      split: sum.split option.split intro!: assms(2))

lemma token_minted:
  "wp (ensure_token e (bo_user opts) (bo_token opts) (bo_reuse opts) (bo_dry_run opts))
     (\<lambda>(step, i, secret, err) t. err = None \<longrightarrow> token_story e opts i secret (ad_log t)) E s"
  unfolding ensure_token_def Let_def wp_bind
proof (rule wp_list_tokens, goal_cases)
  case (2 t names listing)
  then show ?case
    by (auto simp: wp_admin_request Let_def token_story_def mints_def decoded_def
        split: sum.splits option.splits bind_splits)
qed simp

lemma wp_phase:
  assumes "\<And>acc s. wp (k acc) Q E s" "\<And>r x t. Q (r, Some x) t" "\<And>x s. E x s"
  shows "wp (phase m k) Q E s"
  unfolding phase_def wp_bind
  by (rule wp_mono [OF wp_true]) (auto simp: assms split: option.splits)

definition minted_or_kept ::
  "'w admin_env \<Rightarrow> bootstrap_options \<Rightarrow> boot_result option \<times> goerr option \<Rightarrow> 'w admin \<Rightarrow> bool" where
  "minted_or_kept e opts out t =
     (case out of (Some r, None) \<Rightarrow> token_story e opts (br_token_id r) (br_secret r) (ad_log t) | _ \<Rightarrow> True)"

lemma minted_error [simp]: "minted_or_kept e opts (r, Some x) t" "minted_or_kept e opts (None, y) t"
  by (auto simp: minted_or_kept_def split: option.split)

lemma token_minted_or_kept: "wp (bootstrap_token e opts acc) (minted_or_kept e opts) (\<lambda>_ _. True) s"
  unfolding bootstrap_token_def Let_def wp_bind
  by (rule wp_mono [OF token_minted]) (auto simp: minted_or_kept_def split: option.splits)

lemma roles_minted_or_kept: "wp (bootstrap_roles e opts roles) (minted_or_kept e opts) (\<lambda>_ _. True) s"
  unfolding bootstrap_roles_def Let_def by (intro wp_phase token_minted_or_kept) simp_all

lemma bootstrap_minted_or_kept: "wp (bootstrap e opts) (minted_or_kept e opts) (\<lambda>_ _. True) s"
proof (cases "validate_bootstrap opts")
  case None
  have "wp (list_roles e) (\<lambda>r t. wp (case r of
         Inl x \<Rightarrow> ret (Some \<lparr>br_token_id = [], br_secret = [], br_steps = []\<rparr>, Some (wrapf ''proxmox: list roles'' x))
       | Inr roles \<Rightarrow> bootstrap_roles e opts roles) (minted_or_kept e opts) (\<lambda>_ _. True) t) (\<lambda>_ _. True) t" for t
    by (rule wp_mono [OF wp_true]) (auto simp: roles_minted_or_kept split: sum.split)
  then show ?thesis unfolding bootstrap_def None option.case by simp
qed (simp add: bootstrap_def)

text \<open>C30. Proxmox shows a secret once, and the set-up hands out only that one: when it succeeds with a secret, the last
  two calls of the session are the listing of the account's tokens, which did not hold this token, and its creation,
  whose answer gave exactly the identifier and the secret returned; when it succeeds without one, the identifier names
  the account's token and the last call is the listing: either the caller asked to keep the token and the listing holds
  it, or this is a dry run and the listing does not.\<close>

theorem secret_is_freshly_minted:
  "case bootstrap e opts s of
     (Done (Some r, None), t) \<Rightarrow> token_story e opts (br_token_id r) (br_secret r) (ad_log t)
   | _ \<Rightarrow> True"
  using bootstrap_minted_or_kept [of e opts s]
  by (auto simp: wp_def minted_or_kept_def split: prod.splits outcome.splits option.splits)


section \<open>The isolated bridge\<close>

definition lists_interfaces :: "bridge_options \<Rightarrow> admin_call \<Rightarrow> bool" where
  "lists_interfaces opts x \<longleftrightarrow> aq_method x = HttpGet \<and> aq_path x = network_path (bg_node opts)"

text \<open>The interfaces of the listing that carry the name asked for.\<close>

definition namesakes :: "'w admin_env \<Rightarrow> bridge_options \<Rightarrow> admin_call \<Rightarrow> network_interface list" where
  "namesakes e opts x =
     (case aq_answer x of
        Inl _ \<Rightarrow> []
      | Inr d \<Rightarrow> (case decode_rows d of None \<Rightarrow> []
          | Some rows \<Rightarrow> map (interface_of e) (filter (\<lambda>row. row_text e ''iface'' row = bg_bridge opts) rows)))"

definition isolated :: "network_interface \<Rightarrow> bool" where
  "isolated i \<longleftrightarrow> nf_type i = ''bridge'' \<and> nf_ports i \<in> {[], ''none''} \<and>
     list_all (\<lambda>a. a = []) [nf_address i, nf_cidr i, nf_address6 i, nf_cidr6 i, nf_gateway i, nf_gateway6 i]"

definition makes_portless :: "bridge_options \<Rightarrow> admin_call \<Rightarrow> bool" where
  "makes_portless opts x \<longleftrightarrow> aq_method x = HttpPost \<and> aq_path x = network_path (bg_node opts) \<and>
     map_of (aq_form x) ''iface'' = Some [bg_bridge opts] \<and> map_of (aq_form x) ''type'' = Some [''bridge''] \<and>
     map_of (aq_form x) ''bridge_ports'' = Some [[]] \<and>
     list_all (\<lambda>k. map_of (aq_form x) k = None) [''address'', ''cidr'', ''gateway'', ''address6'', ''cidr6'', ''gateway6'']"

definition applies :: "bridge_options \<Rightarrow> admin_call \<Rightarrow> bool" where
  "applies opts x \<longleftrightarrow> aq_method x = HttpPut \<and> aq_path x = network_path (bg_node opts) \<and> aq_form x = []"

text \<open>
  What the session sends, against its result: nothing for a request that is refused; a listing alone when the
  interface is there, for a dry run or when the listing failed; then the creation, and the activation when asked.
\<close>

fun bridge_story ::
  "'w admin_env \<Rightarrow> bridge_options \<Rightarrow> bridge_result option \<times> goerr option \<Rightarrow> admin_call list \<Rightarrow> bool" where
  "bridge_story e opts (r, err) [] = (r = None)"
| "bridge_story e opts (r, err) [listing] =
     (lists_interfaces opts listing \<and>
      (case (r, err) of
         (Some r, None) \<Rightarrow> \<not> bz_applied r \<and>
           (if namesakes e opts listing = [] then bg_dry_run opts else isolated (hd (namesakes e opts listing)))
       | _ \<Rightarrow> True))"
| "bridge_story e opts (r, err) [listing, mk] =
     (lists_interfaces opts listing \<and> namesakes e opts listing = [] \<and> \<not> bg_dry_run opts \<and> makes_portless opts mk \<and>
      (case (r, err) of
         (Some r, None) \<Rightarrow> \<not> bg_apply opts \<and> bz_pending r \<and> \<not> bz_applied r
       | (Some r, Some _) \<Rightarrow> \<not> bz_applied r | _ \<Rightarrow> False))"
| "bridge_story e opts (r, err) [listing, mk, ap] =
     (lists_interfaces opts listing \<and> namesakes e opts listing = [] \<and> \<not> bg_dry_run opts \<and> makes_portless opts mk \<and>
      bg_apply opts \<and> applies opts ap \<and>
      (case (r, err) of (Some r, None) \<Rightarrow> bz_applied r \<and> \<not> bz_pending r | (Some r, Some _) \<Rightarrow> \<not> bz_applied r | _ \<Rightarrow> False))"
| "bridge_story e opts out _ = False"

lemma safe_is_isolated: "check_safe_to_reuse name i = None \<longleftrightarrow> isolated i"
  by (auto simp: check_safe_to_reuse_def isolated_def)

lemma find_filter: "find P xs = (case filter P xs of [] \<Rightarrow> None | x # _ \<Rightarrow> Some x)"
  by (induction xs) auto

lemma wp_find_interface:
  assumes "\<And>x listing t. ad_log t = ad_log s @ [listing] \<Longrightarrow> lists_interfaces opts listing \<Longrightarrow> Q (Inl x) t"
    "\<And>listing t. ad_log t = ad_log s @ [listing] \<Longrightarrow> lists_interfaces opts listing \<Longrightarrow> namesakes e opts listing = [] \<Longrightarrow>
       Q (Inr None) t"
    "\<And>i is listing t. ad_log t = ad_log s @ [listing] \<Longrightarrow> lists_interfaces opts listing \<Longrightarrow> namesakes e opts listing = i # is \<Longrightarrow>
       Q (Inr (Some i)) t"
  shows "wp (find_network_interface e (bg_node opts) (bg_bridge opts)) Q E s"
  unfolding find_network_interface_def admin_rows_def wp_callE wp_admin_request Let_def
  by (auto simp: lists_interfaces_def namesakes_def find_filter split: sum.split option.split list.split
      intro!: assms)

lemma bridge_built:
  assumes "ad_log s = earlier @ [listing]" "lists_interfaces opts listing" "namesakes e opts listing = []"
    "\<not> bg_dry_run opts"
  shows "wp (build_bridge e opts comment)
    (\<lambda>out t. \<exists>xs. ad_log t = earlier @ xs \<and> bridge_story e opts out xs) E s"
  using assms
  by (auto simp: build_bridge_def create_isolated_bridge_def apply_network_def wp_admin_request Let_def
      makes_portless_def applies_def split: sum.split option.split)

lemma bridge_followed:
  "wp (ensure_isolated_bridge e opts)
     (\<lambda>out t. \<exists>xs. ad_log t = ad_log s @ xs \<and> bridge_story e opts out xs) (\<lambda>_ _. False) s"
proof (cases "validate_bridge opts")
  case None
  show ?thesis
  proof (cases "logged_in (ad_client s)")
    case True
    have skip: "(if \<not> logged_in (ad_client s) then a else b) = b" for a b :: 'z
      using True by simp
    show ?thesis
      unfolding ensure_isolated_bridge_def None option.case wp_bind wp_gets Let_def skip
    proof (rule wp_find_interface [where opts = opts and e = e], goal_cases)
      case (1 x listing t)
      then show ?case by simp
    next
      case (2 listing t)
      then show ?case by (auto simp: dry_bridge_def Let_def intro: bridge_built)
    next
      case (3 i others listing t)
      then show ?case by (auto simp: safe_is_isolated split: option.split)
    qed
  qed (simp add: ensure_isolated_bridge_def None)
qed (simp add: ensure_isolated_bridge_def)

text \<open>C31. The isolated bridge is made, never taken: a request that is not valid sends nothing; an interface that already
  has the name is only read, and is accepted only when it is a bridge without ports, address or gateway; otherwise, and
  unless this is a dry run, the session sends the creation of a bridge with no ports, no address and no gateway, then
  the activation if it was asked for, and the result says applied exactly when the activation was answered.\<close>

theorem bridge_is_made_never_taken:
  "\<exists>out xs. fst (ensure_isolated_bridge e opts s) = Done out \<and>
     ad_log (snd (ensure_isolated_bridge e opts s)) = ad_log s @ xs \<and> bridge_story e opts out xs"
  using bridge_followed [of e opts s] by (auto simp: wp_def split: prod.splits outcome.splits)


section \<open>What the set-up gets wrong\<close>

text \<open>
  The drill privileges name one privilege twice. A cluster keeps the privileges of a role as a set, so what it shows
  never equals what is wanted, and the role is written again at every run.
\<close>

lemma drill_role_is_written_again:
  "ensure_role e [(role, privs_key (remdups drill_privileges))] drill_privileges role drill_privileges False =
   attempt_step e HttpPut (''/access/roles/'' @ role) [(''privs'', [privs_key drill_privileges]), (''append'', [''0''])]
     (''proxmox: update role '' @ role)
     (new_step (''create role '' @ role) ''updated'' (''privileges: '' @ privs_key drill_privileges))"
proof -
  have "privs_key (split_privs (privs_key (remdups drill_privileges))) \<noteq> privs_key drill_privileges"
    by code_simp
  moreover have "filter_privileges drill_privileges drill_privileges = (drill_privileges, [])"
    by (simp add: filter_privileges_def)
  ultimately show ?thesis by (simp add: ensure_role_def describe_dropped_def Let_def)
qed

text \<open>
  A drill account whose role is given the name of the read-only role: the role granted on every guest is the one that
  is given the drill privileges, pool or no pool.
\<close>

definition obliging :: "unit admin_env" where
  "obliging = \<lparr>ax_http = (\<lambda>m url f hs w. (Answered 200 [], w)),
     ax_pve = \<lparr>pe_http = (\<lambda>c m url f auth w. (Answered 200 [], w)), pe_ctx_err = (\<lambda>c w. None), pe_pause = (\<lambda>c w. (True, w)),
       pe_now = (\<lambda>w. (0, w)), pe_envelope = (\<lambda>b. Inr None), pe_mismatch = (\<lambda>d. Plain []), pe_address = (\<lambda>a. None),
       pe_readers = \<lparr>px_text = (\<lambda>x. []), px_number = (\<lambda>s. Fin 0)\<rparr>\<rparr>\<rparr>"

definition shared_name :: bootstrap_options where
  "shared_name = \<lparr>bo_user = ''restorelab@pve'', bo_comment = [], bo_token = ''drills'', bo_role = ''RestoreLabRead'',
     bo_pool = ''drills'', bo_read_only = False, bo_node = [], bo_storages = [], bo_bridge = [], bo_sdn_zone = [],
     bo_reuse = False, bo_dry_run = False\<rparr>"

definition session :: "unit admin" where
  "session = \<lparr>ad_world = (), ad_client = \<lparr>cl_endpoint = [], cl_timeout = 0, cl_username = ''root@pam'', cl_password = ''p'',
     cl_ticket = ''t'', cl_csrf = ''c''\<rparr>, ad_log = []\<rparr>"

lemma obliging_request:
  "admin_request obliging m path f s = (Done (Inr None), s\<lparr>ad_log := ad_log s @
     [\<lparr>aq_method = m, aq_path = path, aq_form = f, aq_headers = admin_headers m (ad_client s), aq_answer = Inr None\<rparr>]\<rparr>)"
  by (simp add: admin_request_def obliging_def read_reply_def Let_def)

lemma obliging_attempt:
  "attempt_step obliging m path f what step s = (Done (step, None), s\<lparr>ad_log := ad_log s @
     [\<lparr>aq_method = m, aq_path = path, aq_form = f, aq_headers = admin_headers m (ad_client s), aq_answer = Inr None\<rparr>]\<rparr>)"
  by (simp add: attempt_step_def bindM_def obliging_request ret_def)

lemma obliging_rows: "admin_rows obliging path what s = (Done (Inr []), s\<lparr>ad_log := ad_log s @
     [\<lparr>aq_method = HttpGet, aq_path = path, aq_form = [], aq_headers = admin_headers HttpGet (ad_client s), aq_answer = Inr None\<rparr>]\<rparr>)"
  by (simp add: admin_rows_def callE_def bindM_def obliging_request ret_def decode_rows_def)

lemma keys_differ: "privs_key (split_privs (privs_key read_only_privileges)) \<noteq> privs_key drill_privileges"
  by code_simp

lemma shared_role_name_widens_the_account:
  "(let calls = ad_log (snd (bootstrap obliging shared_name session)) in
    list_ex (\<lambda>x. aq_path x = ''/access/roles/RestoreLabRead'' \<and> field ''privs'' (aq_form x) = privs_key drill_privileges) calls \<and>
    list_ex (\<lambda>x. aq_path x = ''/access/acl'' \<and> field ''path'' (aq_form x) = ''/vms'' \<and>
      field ''roles'' (aq_form x) = ''RestoreLabRead'') calls)"
proof -
  have start: "list_roles obliging session = (Done (Inr []), session\<lparr>ad_log := [\<lparr>aq_method = HttpGet, aq_path = ''/access/roles'',
      aq_form = [], aq_headers = admin_headers HttpGet (ad_client session), aq_answer = Inr None\<rparr>]\<rparr>)"
    by (simp add: list_roles_def callE_def bindM_def obliging_rows ret_def session_def)
  have role: "ensure_role obliging ex [] role privs False s =
     (case map_of ex role of
        None \<Rightarrow> attempt_step obliging HttpPost ''/access/roles'' [(''roleid'', [role]), (''privs'', [privs_key privs])]
          (''proxmox: create role '' @ role) (new_step (''create role '' @ role) ''created'' (''privileges: '' @ privs_key privs)) s
      | Some cur \<Rightarrow>
          if privs_key (split_privs cur) = privs_key privs
          then (Done (new_step (''create role '' @ role) ''already exists'' (''privileges: '' @ privs_key privs), None), s)
          else attempt_step obliging HttpPut (''/access/roles/'' @ role) [(''privs'', [privs_key privs]), (''append'', [''0''])]
            (''proxmox: update role '' @ role) (new_step (''create role '' @ role) ''updated'' (''privileges: '' @ privs_key privs)) s)"
    for ex role privs s
    by (simp add: ensure_role_def filter_privileges_def describe_dropped_def Let_def ret_def split: option.split)
  note run = bindM_def gets_def ret_def phase_def noted_def callE_def new_step_def
  have first: "snd (bootstrap obliging shared_name session) =
     snd (bootstrap_roles obliging shared_name [] (snd (list_roles obliging session)))"
    by (simp add: bootstrap_def validate_bootstrap_def shared_name_def session_def logged_in_def run
        start [unfolded session_def] split: prod.split)
  show ?thesis
    unfolding first
    by (simp add: start bootstrap_roles_def supported_privileges_def shared_name_def read_only_role_name_def
        baseline_paths_def with_drill_role_def with_storage_role_def put_role_def Let_def role run keys_differ
        obliging_request obliging_attempt obliging_rows bootstrap_pool_def list_pools_def list_names_def ensure_pool_def
        bootstrap_user_def list_users_def ensure_user_def grant_acl_def bootstrap_drill_def grant_drill_def
        drill_path_def bootstrap_bridge_def bootstrap_token_def ensure_token_def list_token_ids_def
        decoded_def field_def session_def)
qed

text \<open>Closing a session leaves the name of the administrator in it.\<close>

lemma close_keeps_the_username: "cl_username (close_admin c) = cl_username c"
  by (simp add: close_admin_def)

end
