(* ===== verification/Providers_Safety.thy ===== *)
theory Providers_Safety
  imports Providers
begin

text \<open>
  What the choice and the making of a provider's client promise: a server whose certificate was pinned is that server; the
  backup a drill starts from is the newest one of the datastore that is not known to be bad; a command runs against a
  provider that has the role it needs.
\<close>

section \<open>Trust\<close>

lemma normalized: "normalize_fingerprint te fp = Inr want \<Longrightarrow>
    want = to_lower (filter (\<lambda>c. c \<noteq> CHR '':'') fp) \<and> length want = 64"
  by (auto simp: normalize_fingerprint_def Let_def split: if_splits option.splits)

definition known_by :: "string \<Rightarrow> (string \<Rightarrow> string) \<Rightarrow> string list \<Rightarrow> bool" where
  "known_by fp sha certs \<longleftrightarrow>
     (case certs of [] \<Rightarrow> False | leaf # _ \<Rightarrow> hex_encode (sha leaf) = to_lower (filter (\<lambda>c. c \<noteq> CHR '':'') fp))"

text \<open>A connection is as trusted as it was configured: a client that was made with a fingerprint accepts a server
  exactly when the SHA-256 of the first certificate presented is that fingerprint, colons and case aside, whatever
  the other settings say; one made without accepts exactly the chains the configured roots verify, unless verification
  was switched off by name.\<close>

theorem server_is_the_one_named:
  assumes "new_pbs te c = Inr p"
  shows "accepts_server chain sha (pb_tls p) certs =
    (if bc_fingerprint c \<noteq> [] then known_by (bc_fingerprint c) sha certs
     else bc_insecure c \<or> chain (if bc_ca c = [] then None else Some (bc_ca c)) certs)"
proof -
  let ?c = "c\<lparr>bc_timeout := (if bc_timeout c \<le> 0 then 30 * second else bc_timeout c),
     bc_pve_storage := (if blank (bc_pve_storage c) then bc_datastore c else bc_pve_storage c)\<rparr>"
  have t: "build_tls_config te ?c = Inr (pb_tls p)"
    using assms by (auto simp: new_pbs_def Let_def split: if_splits sum.splits)
  show ?thesis
  proof (cases "bc_fingerprint c = []")
    case True
    then have "pb_tls p = \<lparr>tc_insecure = bc_insecure c, tc_roots = (if bc_ca c = [] then None else Some (bc_ca c)), tc_pin = None\<rparr>"
      using t by (auto simp: build_tls_config_def split: if_splits)
    then show ?thesis by (simp add: accepts_server_def True)
  next
    case False
    then obtain want where "normalize_fingerprint te (bc_fingerprint c) = Inr want"
        "pb_tls p = \<lparr>tc_insecure = True, tc_roots = None, tc_pin = Some want\<rparr>"
      using t by (auto simp: build_tls_config_def split: sum.splits)
    then show ?thesis using False normalized [of te "bc_fingerprint c" want]
      by (auto simp: accepts_server_def known_by_def verify_peer_def Let_def split: list.split)
  qed
qed

definition lab_trust :: trust_env where
  "lab_trust = \<lparr>te_pem = (\<lambda>_. True), te_hex = (\<lambda>_. Plain ''encoding/hex: invalid byte'')\<rparr>"

definition lab_server :: pbs_config where
  "lab_server = \<lparr>bc_id = ''pbs'', bc_endpoint = ''https://pbs:8007/'', bc_token_id = ''drills@pbs!r'', bc_token_secret = ''s'',
     bc_datastore = ''main'', bc_pve_storage = [], bc_insecure = True, bc_ca = [],
     bc_fingerprint = concat (replicate 32 ''AB:''), bc_skip_failed = False, bc_timeout = 0\<rparr>"

definition lab_pbs :: pbs where
  "lab_pbs = \<lparr>pb_config = lab_server\<lparr>bc_timeout := 30 * second, bc_pve_storage := ''main''\<rparr>,
     pb_tls = \<lparr>tc_insecure = True, tc_roots = None, tc_pin = Some (concat (replicate 32 ''ab''))\<rparr>, pb_base = ''https://pbs:8007''\<rparr>"

lemma lab_pbs: "new_pbs lab_trust lab_server = Inr lab_pbs"
  by code_simp

theorem server_is_the_one_named_witness:
  "accepts_server (\<lambda>_ _. False) (\<lambda>_. replicate 32 (char_of (171 :: nat))) (pb_tls lab_pbs) [''leaf''] \<and>
   \<not> accepts_server (\<lambda>_ _. True) (\<lambda>_. replicate 32 (char_of (172 :: nat))) (pb_tls lab_pbs) [''leaf'']"
proof -
  note named = server_is_the_one_named [OF lab_pbs]
  have pinned: "bc_fingerprint lab_server \<noteq> []" by code_simp
  have "known_by (bc_fingerprint lab_server) (\<lambda>_. replicate 32 (char_of (171 :: nat))) [''leaf'']"
    "\<not> known_by (bc_fingerprint lab_server) (\<lambda>_. replicate 32 (char_of (172 :: nat))) [''leaf'']" by code_simp+
  then show ?thesis by (simp add: named pinned)
qed


section \<open>The newest backup\<close>

lemma each_ok_all2: "each_ok f xs = Inr ys \<Longrightarrow> list_all2 (\<lambda>x y. f x = Inr y) xs ys"
  by (induction xs arbitrary: ys) (auto split: sum.splits)

lemma newest_first: "sorted_wrt (\<lambda>a b. bk_created_at b \<le> bk_created_at a) (newest_backups bs)"
proof -
  have "sorted (map (\<lambda>b. - bk_created_at b) (newest_backups bs))" unfolding newest_backups_def by (rule sorted_sort_key)
  then show ?thesis by (simp add: sorted_map)
qed

lemma find_sorted:
  "find P xs = Some x \<Longrightarrow> sorted_wrt R xs \<Longrightarrow> y \<in> set xs \<Longrightarrow> P y \<Longrightarrow> y = x \<or> R x y"
  by (induction xs) (auto split: if_splits)

definition may_be_used :: "pbs \<Rightarrow> backup \<Rightarrow> bool" where
  "may_be_used p b \<longleftrightarrow> \<not> (bc_skip_failed (pb_config p) \<and> bk_verified b = VerificationFailed)"

text \<open>The backups an answer of the datastore holds, in the order it lists them.\<close>

definition answered_backups :: "'w pbs_env \<Rightarrow> pbs \<Rightarrow> string \<Rightarrow> pve_reply \<Rightarrow> goerr + backup list" where
  "answered_backups e p i r =
     (case pbs_reply e (decode_snapshots e) (snapshots_path (pb_config p)) r of
        Inl x \<Rightarrow> Inl x | Inr sns \<Rightarrow> each_ok (to_backup e (pb_config p)) sns)"

definition asked_backups :: "'w pbs_env \<Rightarrow> pbs \<Rightarrow> ctx \<Rightarrow> string \<Rightarrow> 'w \<Rightarrow> pve_reply \<times> 'w" where
  "asked_backups e p c i w = bp_http e c (pb_base p @ snapshots_path (pb_config p))
     [(''backup-type'', [''vm'']), (''backup-id'', [i])] (pbs_authorization p) w"

lemma listed_backups:
  "pbs_list_backups e p c i w =
     (case asked_backups e p c i w of (r, w) \<Rightarrow>
        (case answered_backups e p i r of
           Inl x \<Rightarrow> (Inl (wrapf (''pbs: listing backups for workload '' @ i) x), w)
         | Inr bs \<Rightarrow> (Inr (newest_backups bs), w)))"
  by (simp add: pbs_list_backups_def pbs_get_def asked_backups_def answered_backups_def Let_def
      split: prod.split sum.split)

lemma set_newest [simp]: "set (newest_backups bs) = set bs" by (simp add: newest_backups_def)

text \<open>The backup server sends one read for the backups of a workload and gives the newest one that may be used, any
  of them unless those known to be bad are to be skipped; it says that there is no backup exactly when the datastore
  answered and none may be used, and any other failure to answer is an error of its own.\<close>

theorem latest_backup_is_the_newest:
  "case asked_backups e p c i w of (r, w') \<Rightarrow>
    snd (pbs_get_latest e p c i w) = w' \<and>
    (case answered_backups e p i r of
       Inl x \<Rightarrow> fst (pbs_get_latest e p c i w) = Inl (wrapf (''pbs: listing backups for workload '' @ i) x)
     | Inr bs \<Rightarrow>
         (case fst (pbs_get_latest e p c i w) of
            Inl x \<Rightarrow> x = Sentinel ErrNoBackup \<and> filter (may_be_used p) bs = []
          | Inr b \<Rightarrow> b \<in> set (filter (may_be_used p) bs) \<and>
              list_all (\<lambda>b'. bk_created_at b' \<le> bk_created_at b) (filter (may_be_used p) bs)))"
proof (cases "asked_backups e p c i w")
  case (Pair r w')
  show ?thesis
  proof (cases "answered_backups e p i r")
    case (Inl x)
    then show ?thesis by (simp add: Pair pbs_get_latest_def listed_backups)
  next
    case (Inr bs)
    have "find (may_be_used p) (newest_backups bs) = Some b \<Longrightarrow> b' \<in> set bs \<Longrightarrow> may_be_used p b' \<Longrightarrow>
        bk_created_at b' \<le> bk_created_at b" for b b'
      using find_sorted [OF _ newest_first, of "may_be_used p" bs b b'] by auto
    then show ?thesis
      by (auto simp: Pair Inr pbs_get_latest_def listed_backups may_be_used_def [abs_def] list_all_iff find_None_iff find_Some_iff
          filter_empty_conv split: option.splits)
         (metis nth_mem set_newest)+
  qed
qed

text \<open>No configuration reaches the switch that skips the backups known to be bad.\<close>

lemma bad_backups_are_never_skipped:
  "new_backup_server fx pc k = Inr p \<Longrightarrow> may_be_used p b"
  by (auto simp: new_backup_server_def new_pbs_def may_be_used_def Let_def split: sum.splits if_splits)


section \<open>The provider of a command\<close>

text \<open>The provider a command ends with, when it names one, when a default does, and when neither does.\<close>

definition meant :: "config \<Rightarrow> string \<Rightarrow> string \<Rightarrow> provider_config \<Rightarrow> bool" where
  "meant cfg i role p \<longleftrightarrow>
     (let name = (if i = [] then role_default cfg role else i) in
      if name = [] then filter (\<lambda>p. has_role p role) (cf_providers cfg) = [p]
      else find (\<lambda>p. pv_id p = name) (cf_providers cfg) = Some p)"

lemma picked_provider:
  "provider_entry (Inr cfg) i role = Inr p \<longleftrightarrow> meant cfg i role p \<and> has_role p role"
proof -
  have one: "has_role p role" if "filter (\<lambda>p. has_role p role) (cf_providers cfg) = [p]"
  proof -
    have "p \<in> set (filter (\<lambda>p. has_role p role) (cf_providers cfg))" by (simp add: that)
    then show ?thesis by simp
  qed
  show ?thesis
    using one
    by (auto simp: provider_entry_def meant_def Let_def only_candidate_def find_provider_def
        split: list.splits option.splits if_splits sum.splits)
qed

lemma hypervisor_is_a_cluster:
  assumes "app_hypervisor fx (Inr cfg) mk i = Inr h"
  shows "\<exists>p k. mk = Inr k \<and> meant cfg i ''hypervisor'' p \<and> has_role p ''hypervisor'' \<and> pv_kind p = ''proxmox'' \<and>
    px_id h = pv_id p \<and> px_token_id h = pv_token_id p \<and> provider_secret (fx_cipher fx) k p = Inr (px_token_secret h)"
proof -
  obtain p where p: "provider_entry (Inr cfg) i ''hypervisor'' = Inr p"
    using assms by (auto simp: app_hypervisor_def split: sum.splits)
  obtain k where k: "mk = Inr k" "new_hypervisor fx p k = Inr h"
    using assms by (auto simp: app_hypervisor_def p split: sum.splits)
  then have "pv_kind p = ''proxmox'' \<and> px_id h = pv_id p \<and> px_token_id h = pv_token_id p \<and>
      provider_secret (fx_cipher fx) k p = Inr (px_token_secret h)"
    by (auto simp: new_hypervisor_def new_proxmox_def new_pve_def Let_def split: sum.splits if_splits)
  then show ?thesis using p k by (auto simp: picked_provider)
qed


section \<open>A bridge that is not what it seems\<close>

text \<open>
  Isolation is read off \<open>bridge_ports\<close> and \<open>gateway\<close>. An Open vSwitch bridge names its uplink in \<open>ovs_ports\<close>, and a
  gateway may be an IPv6 one; both pass. The set-up, which looks at more, and the drill disagree the other way round too: a
  bridge whose ports are written \<open>none\<close> is isolated for the one and has an uplink for the other.
\<close>

definition iface_entry :: "(string \<times> string) list \<Rightarrow> params" where
  "iface_entry kvs = map (\<lambda>(k, v). (k, AnyString v)) kvs"

definition drill_bridge :: "string \<Rightarrow> network_config" where
  "drill_bridge b = \<lparr>nw_bridge = b, nw_model = [], nw_vlan_tag = 0, nw_firewall = False, nw_isolated = True\<rparr>"

lemma trimmed_texts [simp]: "trim_space [] = []" "trim_space ''none'' = ''none''" by code_simp+

lemma open_vswitch_uplink_passes:
  "bridge_verdict rd ''pve1'' (drill_bridge ''vmbr0'')
     [iface_entry [(''iface'', ''vmbr0''), (''type'', ''OVSBridge''), (''ovs_ports'', ''eno1''), (''cidr'', ''10.0.0.2/24'')]] = Inr ()"
  by (simp add: bridge_verdict_def iface_entry_def drill_bridge_def key_def as_string_def Let_def)

lemma ipv6_gateway_passes:
  "bridge_verdict rd ''pve1'' (drill_bridge ''vmbr9'')
     [iface_entry [(''iface'', ''vmbr9''), (''type'', ''bridge''), (''gateway6'', ''fe80::1'')]] = Inr ()"
  by (simp add: bridge_verdict_def iface_entry_def drill_bridge_def key_def as_string_def Let_def)

lemma no_ports_is_an_uplink:
  "\<exists>x. bridge_verdict rd ''pve1'' (drill_bridge ''vmbr9'')
     [iface_entry [(''iface'', ''vmbr9''), (''type'', ''bridge''), (''bridge_ports'', ''none'')]] = Inl x"
  by (simp add: bridge_verdict_def iface_entry_def drill_bridge_def key_def as_string_def Let_def)

end
