(* ===== verification/Provision_Safety.thy ===== *)
theory Provision_Safety
  imports Provision Bootstrap_Safety Providers_Safety
begin

text \<open>
  What connecting a cluster promises: the secret the cluster shows once is sealed and in the file before anything else is
  tried, so it is there however the rest of the sequence ends; a token that is kept keeps its secret; nothing else in the
  configuration moves; and a later process finds the key that opens it.
\<close>

section \<open>What only the process changes\<close>

definition same_app :: "'w connecting \<Rightarrow> 'w connecting \<Rightarrow> bool" where
  "same_app s t \<longleftrightarrow> vs_app t = vs_app s"

interpretation outside: kept_order same_app
  by unfold_locales (auto simp: same_app_def)

definition same_files :: "'w connecting \<Rightarrow> 'w connecting \<Rightarrow> bool" where
  "same_files s t \<longleftrightarrow> va_file (vs_app t) = va_file (vs_app s) \<and> va_keys (vs_app t) = va_keys (vs_app s)"

interpretation files: kept_order same_files
  by unfold_locales (auto simp: same_files_def)

lemma keeps_as_admin [pres_intros]: "keeps same_app (as_admin m)" "keeps same_files (as_admin m)"
  by (auto simp: keeps_def same_app_def same_files_def as_admin_def split: prod.split)

lemma keeps_as_token [pres_intros]: "keeps same_app (as_token m)" "keeps same_files (as_token m)"
  by (auto simp: keeps_def same_app_def same_files_def as_token_def split: prod.split)

lemma keeps_in_app:
  "(\<And>a. va_file (snd (f a)) = va_file a \<and> va_keys (snd (f a)) = va_keys a) \<Longrightarrow> keeps same_files (in_app f)"
  by (auto simp: keeps_def same_files_def in_app_def split: prod.split) (metis snd_conv)+

lemma keeps_app_config [pres_intros]: "keeps same_files (in_app (app_config ve))"
  by (rule keeps_in_app) (auto simp: app_config_def split: option.split sum.split)

lemma keeps_master_key [pres_intros]: "keeps same_files (in_app (master_key ve))"
  by (rule keeps_in_app) (auto simp: master_key_def split: option.split sum.split)

lemma keeps_make_bridge [pres_intros]: "keeps same_files (make_bridge e opts node out)"
  unfolding make_bridge_def by (intro pres_intros)

lemma keeps_provision_bridge [pres_intros]: "keeps same_files (provision_bridge e opts hv nodes out)"
  unfolding provision_bridge_def by (intro pres_intros)

lemma keeps_finish [pres_intros]: "keeps same_files (finish_provision e opts hv nodes out)"
  unfolding finish_provision_def by (intro pres_intros)

lemma keeps_verify [pres_intros]: "keeps same_files (verify_token e opts out)"
  unfolding verify_token_def by (intro pres_intros)


section \<open>The entry that is stored\<close>

definition sound_cipher :: "app_env \<Rightarrow> bool" where
  "sound_cipher ve \<longleftrightarrow> length (vn_nonce ve) = nonce_size \<and>
     (\<forall>k n p. ae_open (fx_cipher (vn_factory ve)) k n (ae_seal (fx_cipher (vn_factory ve)) k n p) = Some p)"

text \<open>The configuration but for one provider, and the default provider that is set when there is none.\<close>

definition same_elsewhere :: "string \<Rightarrow> config \<Rightarrow> config \<Rightarrow> bool" where
  "same_elsewhere i c c' \<longleftrightarrow>
     c'\<lparr>cf_providers := cf_providers c\<rparr> = with_default i c \<and>
     (\<forall>j. j \<noteq> i \<longrightarrow> find (\<lambda>p. pv_id p = j) (cf_providers c') = find (\<lambda>p. pv_id p = j) (cf_providers c))"

definition holds_secret :: "app_env \<Rightarrow> string \<Rightarrow> config \<Rightarrow> boot_result \<Rightarrow> provider_config \<Rightarrow> bool" where
  "holds_secret ve k c r p \<longleftrightarrow> pv_token_id p = br_token_id r \<and>
     (if br_secret r = [] then pv_token_secret p = stored_secret c (pv_id p) \<and> pv_token_secret p \<noteq> []
      else provider_secret (fx_cipher (vn_factory ve)) k p = Inr (br_secret r))"

definition secret_kept :: "app_env \<Rightarrow> provision_options \<Rightarrow> config \<Rightarrow> string \<Rightarrow> boot_result \<Rightarrow> app_state \<Rightarrow> bool" where
  "secret_kept ve opts c k r a \<longleftrightarrow>
     (\<exists>c' p. va_file a = Inr c' \<and> find_provider c' (vo_provider_id opts) = Inr p \<and> holds_secret ve k c r p \<and>
        same_elsewhere (vo_provider_id opts) c c')"

lemma upserted [simp]: "find_provider (upsert_provider p c) (pv_id p) = Inr p"
  by (simp add: find_provider_def upsert_provider_def find_put_by [where key = pv_id])

lemma put_and_set: "find (\<lambda>p. pv_id p = j) (replace_first (\<lambda>p. pv_id p = i) (\<lambda>p. p\<lparr>pv_token_secret := x\<rparr>)
     (put_by pv_id p ps)) =
   (if j = i \<and> i = pv_id p then Some (p\<lparr>pv_token_secret := x\<rparr>)
    else if j = i then map_option (\<lambda>p. p\<lparr>pv_token_secret := x\<rparr>) (find (\<lambda>p. pv_id p = j) ps)
    else if j = pv_id p then Some p else find (\<lambda>p. pv_id p = j) ps)"
  by (simp add: find_replace_first [where key = pv_id] find_put_by [where key = pv_id])

lemma default_rest [simp]:
  "cf_providers (with_default i c) = cf_providers c"
  "(with_default i (c\<lparr>cf_providers := ps\<rparr>))\<lparr>cf_providers := qs\<rparr> = with_default i (c\<lparr>cf_providers := qs\<rparr>)"
  "(with_default i c)\<lparr>cf_providers := qs\<rparr> = with_default i (c\<lparr>cf_providers := qs\<rparr>)"
  "df_provider (cf_defaults c) \<noteq> [] \<Longrightarrow> with_default i c = c"
  by (simp_all add: with_default_def)

lemma secret_written:
  assumes "with_secret ve k secret previous entry (upsert_provider entry c) = Inr c'"
  obtains x where "c' = c\<lparr>cf_providers := replace_first (\<lambda>p. pv_id p = pv_id entry) (\<lambda>p. p\<lparr>pv_token_secret := x\<rparr>)
      (put_by pv_id entry (cf_providers c))\<rparr>"
    "if secret = [] then x = previous \<and> previous \<noteq> []
     else x = seal_secret (fx_cipher (vn_factory ve)) (vn_nonce ve) k secret"
  using assms by (auto simp: with_secret_def set_provider_secret_def split: if_splits) (auto simp: upsert_provider_def)

lemma sealed_entry:
  "sound_cipher ve \<Longrightarrow> provider_secret (fx_cipher (vn_factory ve)) k
     (p\<lparr>pv_token_secret := seal_secret (fx_cipher (vn_factory ve)) (vn_nonce ve) k secret\<rparr>) = Inr secret"
  by (simp add: provider_secret_def sealed_form open_sealed sound_cipher_def)

lemma entry_with_secret:
  assumes "with_secret ve k secret previous entry (upsert_provider entry c) = Inr c'" "sound_cipher ve"
  shows "\<exists>p. find (\<lambda>p. pv_id p = pv_id entry) (cf_providers c') = Some p \<and> pv_token_id p = pv_token_id entry \<and>
      pv_id p = pv_id entry \<and>
      (if secret = [] then pv_token_secret p = previous \<and> previous \<noteq> []
       else provider_secret (fx_cipher (vn_factory ve)) k p = Inr secret)"
    and "c'\<lparr>cf_providers := ps\<rparr> = c\<lparr>cf_providers := ps\<rparr>"
    and "j \<noteq> pv_id entry \<Longrightarrow> find (\<lambda>p. pv_id p = j) (cf_providers c') = find (\<lambda>p. pv_id p = j) (cf_providers c)"
  by (rule secret_written [OF assms(1)]; auto simp: put_and_set sealed_entry [OF assms(2)])+

text \<open>A set-up that hands out no secret was told that the token's own is already here.\<close>

definition answered_well :: "provision_options \<Rightarrow> config \<Rightarrow> boot_result \<Rightarrow> bool" where
  "answered_well opts c r \<longleftrightarrow> (br_secret r = [] \<longrightarrow> stored_secret c (vo_provider_id opts) \<noteq> [])"

definition not_saved :: "goerr \<Rightarrow> bool" where
  "not_saved x \<longleftrightarrow> (\<exists>cause. x = wrapf ''the token was created in Proxmox but could not be saved'' cause)"

lemma stored_entry:
  assumes "store_entry ve k (br_secret r) (new_entry opts (br_token_id r)) c a = (err, a')"
    "sound_cipher ve" "answered_well opts c r"
  shows "va_keys a' = va_keys a \<and>
    (case err of
       None \<Rightarrow> secret_kept ve opts c k r a' | Some x \<Rightarrow> not_saved x \<and> va_file a' = va_file a)"
proof -
  let ?entry = "new_entry opts (br_token_id r)"
  have entry: "pv_id ?entry = vo_provider_id opts" "pv_token_id ?entry = br_token_id r" by (simp_all add: new_entry_def)
  obtain c' where c': "with_secret ve k (br_secret r) (stored_secret c (vo_provider_id opts)) ?entry (upsert_provider ?entry c) = Inr c'"
  proof -
    have "\<exists>c'. with_secret ve k (br_secret r) (stored_secret c (vo_provider_id opts)) ?entry (upsert_provider ?entry c) = Inr c'"
      using assms(3) by (cases "br_secret r = []") (simp_all add: with_secret_def set_provider_secret_def answered_well_def)
    then show thesis using that by blast
  qed
  note facts = entry_with_secret [OF c' assms(2), unfolded entry]
  have kept: "secret_kept ve opts c k r b" if "va_file b = Inr (with_default (vo_provider_id opts) c')" for b
    using facts(1) facts(2) [of "cf_providers c"] facts(3) that
    by (auto simp: secret_kept_def find_provider_def holds_secret_def same_elsewhere_def split: if_splits)
  show ?thesis
    using assms(1) kept
    by (auto simp: store_entry_def Let_def entry c' save_config_def not_saved_def split: option.splits)
qed


section \<open>The whole sequence\<close>

text \<open>What the set-up of the cluster answered in this run, and the configuration and key it ran with.\<close>

definition session_answer ::
  "'w provision_env \<Rightarrow> provision_options \<Rightarrow> config \<Rightarrow> 'w admin \<Rightarrow> boot_result option" where
  "session_answer e opts c s =
     (case login (ve_admin e) s of
        (Done (Inr _), t) \<Rightarrow>
          (case bootstrap (ve_admin e) (bootstrap_of c opts) t of (Done (Some r, None), _) \<Rightarrow> Some r | _ \<Rightarrow> None)
      | _ \<Rightarrow> None)"

definition session_result ::
  "'w provision_env \<Rightarrow> provision_options \<Rightarrow> 'w connecting \<Rightarrow> (config \<times> string \<times> boot_result) option" where
  "session_result e opts s =
     (case ensure_initialised (ve_app e) (vs_app s) of
        (Inr (c, k), _) \<Rightarrow>
          (case new_admin_client (te_pem (fx_trust (vn_factory (ve_app e)))) (admin_config_of opts) of
             Inr cl \<Rightarrow> map_option (\<lambda>r. (c, k, r))
               (session_answer e opts c ((vs_admin s)\<lparr>ad_client := cl, ad_log := []\<rparr>))
           | _ \<Rightarrow> None)
      | _ \<Rightarrow> None)"

definition initialised_app :: "'w provision_env \<Rightarrow> 'w connecting \<Rightarrow> app_state" where
  "initialised_app e s = snd (ensure_initialised (ve_app e) (vs_app s))"

lemma session_answered_well:
  assumes "session_answer e opts c s = Some r" "\<not> vo_dry_run opts"
  shows "answered_well opts c r"
proof -
  obtain u t where "bootstrap (ve_admin e) (bootstrap_of c opts) u = (Done (Some r, None), t)"
    using assms(1) by (auto simp: session_answer_def split: prod.splits outcome.splits sum.splits option.splits)
  then have "token_story (ve_admin e) (bootstrap_of c opts) (br_token_id r) (br_secret r) (ad_log t)"
    using bootstrap_minted_or_kept [of "ve_admin e" "bootstrap_of c opts" u] by (simp add: wp_def minted_or_kept_def)
  then show ?thesis using assms(2)
    by (auto simp: token_story_def answered_well_def bootstrap_of_def holds_token_def stored_secret_def split: sum.splits)
qed

text \<open>After the set-up answered: either everything is kept, or it could not be written.\<close>

definition followed_through ::
  "'w provision_env \<Rightarrow> provision_options \<Rightarrow> config \<Rightarrow> string \<Rightarrow> boot_result \<Rightarrow> app_state \<Rightarrow>
   (provision_result \<times> goerr option) outcome \<Rightarrow> app_state \<Rightarrow> bool" where
  "followed_through e opts c k r a res b \<longleftrightarrow> va_keys b = va_keys a \<and>
     (secret_kept (ve_app e) opts c k r b \<or>
      va_file b = va_file a \<and> (case res of Done (_, Some x) \<Rightarrow> not_saved x | _ \<Rightarrow> False))"

lemma token_accounted:
  assumes "sound_cipher (ve_app e)" "answered_well opts c r" "\<not> vo_dry_run opts"
    "provision_token e opts c k r out s = (res, t)"
  shows "followed_through e opts c k r (vs_app s) res (vs_app t)"
proof -
  obtain err a where st: "store_entry (ve_app e) k (br_secret r) (new_entry opts (br_token_id r)) c (vs_app s) = (err, a)"
    by fastforce
  note stored = stored_entry [OF st assms(1,2)]
  show ?thesis
  proof (cases err)
    case (Some x)
    then show ?thesis using assms(3,4) stored
      by (auto simp: provision_token_def in_app_def st bindM_def ret_def followed_through_def Let_def)
  next
    case None
    let ?out = "out\<lparr>vr_token_id := br_token_id r, vr_entry := new_entry opts (br_token_id r)\<rparr>"
    have "verify_token e opts ?out (s\<lparr>vs_app := a\<rparr>) = (res, t)"
      using assms(3,4) by (simp add: provision_token_def in_app_def st bindM_def None Let_def)
    then have "same_files (s\<lparr>vs_app := a\<rparr>) t"
      using keepsD [OF keeps_verify, of "s\<lparr>vs_app := a\<rparr>" e opts ?out] by simp
    then show ?thesis using stored by (simp add: None followed_through_def secret_kept_def same_files_def)
  qed
qed

lemma closing_run: "closing m s = (res, t) \<Longrightarrow> \<exists>u. m s = (res, u) \<and> vs_app t = vs_app u"
  by (auto simp: closing_def split: prod.splits)

definition session_started :: "'w provision_env \<Rightarrow> admin_client \<Rightarrow> 'w connecting \<Rightarrow> app_state \<Rightarrow> 'w connecting" where
  "session_started e cl s a = s\<lparr>vs_app := a, vs_admin := (vs_admin s)\<lparr>ad_client := cl, ad_log := []\<rparr>\<rparr>"

text \<open>Up to the answer of the set-up, only the cluster is spoken to.\<close>

lemma session_accounted:
  assumes "provision_session e opts c k s = (res, t)"
  shows "case session_answer e opts c (vs_admin s) of
     None \<Rightarrow> vs_app t = vs_app s
   | Some r \<Rightarrow> \<exists>out u. vs_app u = vs_app s \<and> provision_token e opts c k r out u = (res, t)"
  using assms
  by (auto simp: provision_session_def session_answer_def bindM_def ret_def as_admin_def deref_def panic_def Let_def
      split: prod.splits outcome.splits sum.splits option.splits)
     (metis connecting.select_convs(1) connecting.surjective connecting.update_convs(2))+

lemma session_kept:
  assumes "sound_cipher (ve_app e)" "provision_session e opts c k s = (res, t)"
  shows "case session_answer e opts c (vs_admin s) of
     None \<Rightarrow> vs_app t = vs_app s
   | Some r \<Rightarrow> if vo_dry_run opts then vs_app t = vs_app s else followed_through e opts c k r (vs_app s) res (vs_app t)"
proof (cases "session_answer e opts c (vs_admin s)")
  case None
  then show ?thesis using session_accounted [OF assms(2)] by simp
next
  case (Some r)
  then obtain out v where v: "vs_app v = vs_app s" "provision_token e opts c k r out v = (res, t)"
    using session_accounted [OF assms(2)] by auto
  show ?thesis
  proof (cases "vo_dry_run opts")
    case True
    then show ?thesis using v by (auto simp: Some provision_token_def Let_def ret_def)
  next
    case False
    then show ?thesis using token_accounted [OF assms(1) session_answered_well [OF Some False] False v(2)]
      by (simp add: Some v(1))
  qed
qed

text \<open>
  The key of the run is the one a later process finds: a process has loaded no key yet, or the one it
  would find. A new process starts that way, and initialising, which both callers of the set-up do before
  they call it (\<open>ensureInitialisedQuietly\<close> in connect, \<open>bridgeName\<close> in the browser's set-up), leaves it that way.
\<close>

definition key_current :: "app_env \<Rightarrow> app_state \<Rightarrow> bool" where
  "key_current ve a \<longleftrightarrow> (case va_key a of None \<Rightarrow> True | Some k \<Rightarrow> (\<exists>source. found_key ve a = Inr (k, source)))"

lemma found_key_same: "va_keys b = va_keys a \<Longrightarrow> found_key ve b = found_key ve a"
  by (simp add: found_key_def)

lemma key_current_same: "va_keys b = va_keys a \<Longrightarrow> va_key b = va_key a \<Longrightarrow> key_current ve b = key_current ve a"
  using found_key_same [of b a ve] by (simp add: key_current_def split: option.split)

lemma fresh_process_current: "va_key a = None \<Longrightarrow> key_current ve a"
  by (simp add: key_current_def)

lemma made_key_current: "key_current ve a \<Longrightarrow> ensure_master_key ve a = (r, b) \<Longrightarrow> key_current ve b"
  by (cases "found_key ve a"; cases "va_key a")
    (auto simp: ensure_master_key_def key_current_def split: sum.splits option.splits if_splits)

lemma loaded_key_current:
  assumes "key_current ve a" "master_key ve a = (r, b)"
  shows "key_current ve b" "r = Inr k \<Longrightarrow> \<exists>source. found_key ve b = Inr (k, source)"
  using assms
  by (auto simp: master_key_def key_current_def found_key_def split: option.splits sum.splits)

lemma configuring_keeps_keys:
  "app_config ve a = (z, b) \<Longrightarrow> va_keys b = va_keys a \<and> va_key b = va_key a"
  "save_config ve c a = (x, b) \<Longrightarrow> va_keys b = va_keys a \<and> va_key b = va_key a"
  by (auto simp: app_config_def save_config_def split: option.splits sum.splits)

lemma initialised_current:
  assumes "key_current ve a" "ensure_initialised ve a = (r, b)"
  shows "key_current ve b" "r = Inr (c, k) \<Longrightarrow> \<exists>source. found_key ve b = Inr (k, source)"
proof -
  obtain x a1 where made: "ensure_master_key ve a = (x, a1)" by fastforce
  obtain y a2 where loaded: "master_key ve a1 = (y, a2)" by fastforce
  obtain z a3 where config: "app_config ve a2 = (z, a3)" by fastforce
  obtain w a4 where saved: "save_config ve new_config a3 = (w, a4)" by fastforce
  have same: "va_keys a3 = va_keys a2" "va_key a3 = va_key a2" "va_keys a4 = va_keys a2" "va_key a4 = va_key a2"
    using configuring_keeps_keys(1) [OF config] configuring_keeps_keys(2) [OF saved] by simp_all
  have ends: "b = a1 \<and> (\<exists>e. r = Inl e) \<or>
      va_keys b = va_keys a2 \<and> va_key b = va_key a2 \<and> (case r of Inl _ \<Rightarrow> True | Inr (_, k) \<Rightarrow> y = Inr k)"
  proof (cases x)
    case (Inl e)
    then show ?thesis using assms(2) by (auto simp: ensure_initialised_def made)
  next
    case (Inr u)
    show ?thesis using assms(2) same
      by (cases y; cases z; cases w)
        (auto simp: ensure_initialised_def made Inr loaded config saved split: option.splits)
  qed
  note cur1 = made_key_current [OF assms(1) made]
  note cur2 = loaded_key_current [OF cur1 loaded]
  show "key_current ve b" using ends cur1 cur2(1) key_current_same [of b a2 ve] by auto
  show "\<exists>source. found_key ve b = Inr (k, source)" if "r = Inr (c, k)"
    using ends that cur2(2) [of k] found_key_same [of b a2 ve] by auto
qed

text \<open>So both callers: one initialises, the other looks for the bridge and initialises for that.\<close>

lemma callers_current:
  assumes "key_current ve a"
  shows "key_current ve (snd (ensure_initialised ve a))" "key_current ve (snd (setup_bridge ve a))"
proof -
  obtain r b where i: "ensure_initialised ve a = (r, b)" by fastforce
  show "key_current ve (snd (ensure_initialised ve a))" using initialised_current(1) [OF assms i] by (simp add: i)
  have "snd (setup_bridge ve a) = b"
    by (auto simp: setup_bridge_def i Let_def split: sum.split)
  then show "key_current ve (snd (setup_bridge ve a))" using initialised_current(1) [OF assms i] by simp
qed

lemma provision_run:
  assumes "ensure_initialised (ve_app e) (vs_app s) = (r, a)" "provision e opts s = (res, t)"
  shows "case r of
      Inl _ \<Rightarrow> vs_app t = a
    | Inr (c, k) \<Rightarrow>
        (case new_admin_client (te_pem (fx_trust (vn_factory (ve_app e)))) (admin_config_of opts) of
           Inl _ \<Rightarrow> vs_app t = a
         | Inr cl \<Rightarrow> \<exists>u. provision_session e opts c k (session_started e cl s a) = (res, u) \<and> vs_app t = vs_app u)"
  using assms closing_run
  by (auto simp: provision_def in_app_def bindM_def ret_def thenM_def modify_def session_started_def
      split: prod.splits sum.splits) blast+

text \<open>C40. The secret the cluster shows once is never dropped on the way: when the set-up of the cluster has answered, the
  file holds, however the rest of the run ends - the token refused, the bridge refused, a panic, a run that never
  returns - the provider under its identifier, with the token created and, sealed, the very secret the cluster answered, or
  the secret that was there when the token is one it already had; every other provider and setting is as it was, and
  a later process finds the key it was sealed with. This holds of a process that has loaded no key yet and of one that
  has loaded the key it would find, which is what initialising leaves, and both callers initialise first. The one
  exception is told: the configuration could not be written, and
  the file is as it was. When the set-up did not answer, or this was a dry run, the file is as initialising left it.\<close>

theorem minted_secret_is_kept:
  assumes "sound_cipher (ve_app e)" "key_current (ve_app e) (vs_app s)"
  shows "case provision e opts s of (res, t) \<Rightarrow>
    (case session_result e opts s of
       None \<Rightarrow> va_file (vs_app t) = va_file (initialised_app e s)
     | Some (c, k, r) \<Rightarrow>
         (\<exists>source. found_key (ve_app e) (vs_app t) = Inr (k, source)) \<and>
         (if vo_dry_run opts then va_file (vs_app t) = va_file (initialised_app e s)
          else secret_kept (ve_app e) opts c k r (vs_app t) \<or>
            va_file (vs_app t) = va_file (initialised_app e s) \<and>
            (case res of Done (_, Some x) \<Rightarrow> not_saved x | _ \<Rightarrow> False)))"
proof -
  obtain res t where run: "provision e opts s = (res, t)" by fastforce
  obtain r a where init: "ensure_initialised (ve_app e) (vs_app s) = (r, a)" by fastforce
  note facts = provision_run [OF init run]
  have a: "initialised_app e s = a" by (simp add: initialised_app_def init)
  show ?thesis
  proof (cases r)
    case (Inl x)
    then show ?thesis using facts by (simp add: run a session_result_def init)
  next
    case (Inr ck)
    obtain c k where ck: "ck = (c, k)" by fastforce
    show ?thesis
    proof (cases "new_admin_client (te_pem (fx_trust (vn_factory (ve_app e)))) (admin_config_of opts)")
      case (Inl x)
      then show ?thesis using facts by (simp add: run a session_result_def init Inr ck)
    next
      case client: (Inr cl)
      obtain u where u: "provision_session e opts c k (session_started e cl s a) = (res, u)" "vs_app t = vs_app u"
        using facts by (auto simp: Inr ck client)
      have start: "vs_app (session_started e cl s a) = a"
        "session_result e opts s = map_option (\<lambda>r. (c, k, r)) (session_answer e opts c (vs_admin (session_started e cl s a)))"
        by (simp_all add: session_result_def init Inr ck client session_started_def)
      show ?thesis using session_kept [OF assms(1) u(1)]
        by (auto simp: run a start u(2) followed_through_def initialised_current(2) [OF assms(2) init [unfolded Inr ck] refl, unfolded found_key_def] found_key_def split: option.splits if_splits)
    qed
  qed
qed


section \<open>A machine with nothing on it\<close>

definition lab_api :: "unit pve_env" where
  "lab_api = \<lparr>pe_http = (\<lambda>c m url f auth w. (Answered 200 [], w)), pe_ctx_err = (\<lambda>c w. None), pe_pause = (\<lambda>c w. (True, w)),
     pe_now = (\<lambda>w. (0, w)),
     pe_envelope = (\<lambda>b. Inr (Some (AnyMap [(''ticket'', AnyString ''t''), (''CSRFPreventionToken'', AnyString ''c''),
       (''full-tokenid'', AnyString ''r@pve!drills''), (''value'', AnyString ''s3cret'')]))),
     pe_mismatch = (\<lambda>d. Plain ''mismatch''), pe_address = (\<lambda>a. None),
     pe_readers = \<lparr>px_text = (\<lambda>x. []), px_number = (\<lambda>s. Fin 0)\<rparr>\<rparr>"

definition lab_app :: app_env where
  "lab_app = \<lparr>vn_net = \<lparr>ne_parse = (\<lambda>s. Inl (Plain [])), ne_loopback_ip = (\<lambda>_. False)\<rparr>,
     vn_factory = \<lparr>fx_cipher = lab_cipher, fx_file = (\<lambda>_. Inl (Plain [])), fx_trust = lab_trust\<rparr>,
     vn_nonce = ''twelve bytes'', vn_env_key = None, vn_key_path = ''/k'', vn_home_key = Inl (Plain ''no home''),
     vn_fresh_key = Inr (replicate 32 (CHR ''k'')), vn_save_key = (\<lambda>_. None), vn_write = (\<lambda>_. None)\<rparr>"

definition lab_admin :: "unit admin_env" where
  "lab_admin = \<lparr>ax_http = (\<lambda>m url f hs w. (Answered 200 (if m = HttpPost then ''x'' else []), w)), ax_pve = lab_api\<rparr>"

definition lab_provision :: "unit provision_env" where
  "lab_provision = \<lparr>ve_app = lab_app,
     ve_admin = lab_admin,
     ve_after = None\<rparr>"

definition lab_machine :: "unit connecting" where
  "lab_machine = \<lparr>vs_app = \<lparr>va_config = None, va_file = Inl None, va_key = None, va_keys = (\<lambda>_. Inl None)\<rparr>,
     vs_admin = \<lparr>ad_world = (), ad_client = \<lparr>cl_endpoint = [], cl_timeout = 0, cl_username = [], cl_password = [],
       cl_ticket = [], cl_csrf = []\<rparr>, ad_log = []\<rparr>\<rparr>"

definition lab_asked :: provision_options where
  "lab_asked = (setup_options ''https://pve:8006'' ''root@pam'' True False False ''pw'' ''drills'' [] [])
     \<lparr>vo_read_only := True, vo_pool := []\<rparr>"

text \<open>The session after a request; \<open>lab_told\<close> is all a POST is answered with.\<close>

definition sent_to_lab :: "pve_method \<Rightarrow> string \<Rightarrow> form \<Rightarrow> unit admin \<Rightarrow> unit admin" where
  "sent_to_lab m path f s = snd (admin_request lab_admin m path f s)"

definition lab_told :: anyval where
  "lab_told = AnyMap [(''ticket'', AnyString ''t''), (''CSRFPreventionToken'', AnyString ''c''),
     (''full-tokenid'', AnyString ''r@pve!drills''), (''value'', AnyString ''s3cret'')]"

lemma lab_request:
  "admin_request lab_admin m path f s = (Done (Inr (if m = HttpPost then Some lab_told else None)), sent_to_lab m path f s)"
  by (simp add: sent_to_lab_def admin_request_def lab_admin_def lab_api_def read_reply_def lab_told_def Let_def)

lemma lab_client [simp]: "ad_client (sent_to_lab m path f s) = ad_client s"
  by (simp add: sent_to_lab_def admin_request_def lab_admin_def Let_def)

lemma lab_rows: "admin_rows lab_admin path what s = (Done (Inr []), sent_to_lab HttpGet path [] s)"
  by (simp add: admin_rows_def callE_def bindM_def lab_request ret_def decode_rows_def)

lemma lab_attempt: "attempt_step lab_admin m path f what step s = (Done (step, None), sent_to_lab m path f s)"
  by (simp add: attempt_step_def bindM_def lab_request ret_def)

lemma lab_answers: "token_answer lab_told = Some (''r@pve!drills'', ''s3cret'')" "ticket_of lab_told = Some (''t'', ''c'')"
  by code_simp+

text \<open>A phase that goes through, and a set-up that ends with the secret.\<close>

definition goes :: "(unit admin, boot_step list \<times> goerr option) eng \<Rightarrow> bool" where
  "goes m \<longleftrightarrow> (\<forall>s. \<exists>acc t. m s = (Done (acc, None), t))"

definition yields :: "(unit admin, boot_result option \<times> goerr option) eng \<Rightarrow> bool" where
  "yields m \<longleftrightarrow> (\<forall>s. \<exists>steps t. m s =
     (Done (Some \<lparr>br_token_id = ''r@pve!drills'', br_secret = ''s3cret'', br_steps = steps\<rparr>, None), t))"

lemma yields_phase: "goes m \<Longrightarrow> (\<And>acc. yields (f acc)) \<Longrightarrow> yields (phase m f)"
proof -
  assume m: "goes m" and f: "\<And>acc. yields (f acc)"
  show "yields (phase m f)" unfolding yields_def
  proof
    fix s
    obtain acc t where "m s = (Done (acc, None), t)" using m unfolding goes_def by blast
    then have "phase m f s = f acc t" by (simp add: phase_def bindM_def)
    then show "\<exists>steps t. phase m f s =
        (Done (Some \<lparr>br_token_id = ''r@pve!drills'', br_secret = ''s3cret'', br_steps = steps\<rparr>, None), t)"
      using f [of acc] by (simp add: yields_def)
  qed
qed

lemma goes_ret: "goes (ret (acc, None))" by (simp add: goes_def ret_def)

lemma goes_role: "goes (noted (ensure_role lab_admin [] [] role privs False) acc)"
  by (simp add: goes_def noted_def ensure_role_def filter_privileges_def describe_dropped_def Let_def bindM_def lab_attempt
      ret_def)

lemma goes_user: "goes (bootstrap_user lab_admin (bootstrap_of c lab_asked) acc)"
  by (simp add: goes_def bootstrap_user_def list_users_def list_names_def callE_def noted_def ensure_user_def Let_def bindM_def
      lab_rows lab_attempt ret_def bootstrap_of_def lab_asked_def setup_options_def)

lemma goes_grants: "goes (grant_each lab_admin user role False paths acc)"
proof (induction paths arbitrary: acc)
  case (Cons path paths)
  then show ?case by (simp add: goes_def noted_def grant_acl_def bindM_def lab_attempt ret_def)
qed (simp add: goes_ret)

lemma yields_token: "yields (bootstrap_token lab_admin (bootstrap_of c lab_asked) acc)"
  by (simp add: yields_def bootstrap_token_def ensure_token_def list_token_ids_def list_names_def callE_def bindM_def ret_def
      lab_rows lab_request decoded_def lab_answers Let_def bootstrap_of_def lab_asked_def setup_options_def)

lemma lab_options: "bo_dry_run (bootstrap_of c lab_asked) = False" "bo_read_only (bootstrap_of c lab_asked) = True"
  "validate_bootstrap (bootstrap_of c lab_asked) = None"
  by (simp_all add: bootstrap_of_def lab_asked_def setup_options_def validate_bootstrap_def)

lemma yields_roles: "yields (bootstrap_roles lab_admin (bootstrap_of c lab_asked) [])"
  unfolding bootstrap_roles_def Let_def bootstrap_pool_def bootstrap_drill_def bootstrap_bridge_def
  by (simp add: lab_options supported_privileges_def)
     (intro yields_phase goes_ret goes_role goes_user goes_grants yields_token)

lemma lab_login: "login lab_admin s = (Done (Inr ()), (sent_to_lab HttpPost ''/access/ticket''
     [(''username'', [cl_username (ad_client s)]), (''password'', [cl_password (ad_client s)])] s)
   \<lparr>ad_client := (ad_client s)\<lparr>cl_ticket := ''t'', cl_csrf := ''c''\<rparr>\<rparr>)"
  by (simp add: login_def bindM_def gets_def lab_request decoded_def lab_answers thenM_def modify_def ret_def)

lemma lab_session: "\<exists>steps. session_answer lab_provision lab_asked c s =
    Some \<lparr>br_token_id = ''r@pve!drills'', br_secret = ''s3cret'', br_steps = steps\<rparr>"
proof -
  obtain u where u: "login lab_admin s = (Done (Inr ()), u)" "logged_in (ad_client u)"
    by (simp add: lab_login logged_in_def)
  have "bootstrap lab_admin (bootstrap_of c lab_asked) u =
      bootstrap_roles lab_admin (bootstrap_of c lab_asked) [] (sent_to_lab HttpGet ''/access/roles'' [] u)"
    by (simp add: bootstrap_def lab_options bindM_def gets_def u list_roles_def callE_def lab_rows ret_def)
  moreover obtain steps t where "bootstrap_roles lab_admin (bootstrap_of c lab_asked) [] (sent_to_lab HttpGet ''/access/roles'' [] u) =
      (Done (Some \<lparr>br_token_id = ''r@pve!drills'', br_secret = ''s3cret'', br_steps = steps\<rparr>, None), t)"
    using yields_roles [of c] unfolding yields_def by blast
  ultimately show ?thesis by (simp add: session_answer_def lab_provision_def u)
qed

text \<open>The machine as \<open>connect\<close> leaves it before it calls the set-up.\<close>

definition lab_called :: "unit connecting" where
  "lab_called = lab_machine\<lparr>vs_app := snd (ensure_initialised lab_app (vs_app lab_machine))\<rparr>"

lemma lab_initialised: "fst (ensure_initialised lab_app (vs_app lab_called)) = Inr (new_config, replicate 32 (CHR ''k''))"
  by code_simp

lemma lab_result: "\<exists>steps. session_result lab_provision lab_asked lab_called =
    Some (new_config, replicate 32 (CHR ''k''), \<lparr>br_token_id = ''r@pve!drills'', br_secret = ''s3cret'', br_steps = steps\<rparr>)"
proof -
  obtain a where "ensure_initialised lab_app (vs_app lab_called) = (Inr (new_config, replicate 32 (CHR ''k'')), a)"
    using lab_initialised by (cases "ensure_initialised lab_app (vs_app lab_called)") simp
  moreover have "\<exists>cl. new_admin_client (te_pem lab_trust) (admin_config_of lab_asked) = Inr cl"
    by (simp add: new_admin_client_def admin_config_of_def lab_asked_def setup_options_def)
  ultimately show ?thesis
    using lab_session [of new_config] by (auto simp: session_result_def lab_provision_def lab_app_def)
qed

lemma lab_cipher_sound: "sound_cipher lab_app"
  by (simp add: sound_cipher_def lab_app_def lab_cipher_def marked_key nonce_size_def)

theorem minted_secret_is_kept_witness:
  "\<exists>r. br_secret r = ''s3cret'' \<and>
     (case provision lab_provision lab_asked lab_called of (res, t) \<Rightarrow>
       (\<exists>source. found_key lab_app (vs_app t) = Inr (replicate 32 (CHR ''k''), source)) \<and>
       (secret_kept lab_app lab_asked new_config (replicate 32 (CHR ''k'')) r (vs_app t) \<or>
        va_file (vs_app t) = va_file (initialised_app lab_provision lab_called) \<and>
        (case res of Done (_, Some x) \<Rightarrow> not_saved x | _ \<Rightarrow> False)))"
proof -
  obtain steps where r: "session_result lab_provision lab_asked lab_called =
      Some (new_config, replicate 32 (CHR ''k''), \<lparr>br_token_id = ''r@pve!drills'', br_secret = ''s3cret'', br_steps = steps\<rparr>)"
    using lab_result by blast
  have wet: "\<not> vo_dry_run lab_asked" by (simp add: lab_asked_def setup_options_def)
  have app: "ve_app lab_provision = lab_app" by (simp add: lab_provision_def)
  have "va_key (vs_app lab_machine) = None" by (simp add: lab_machine_def)
  then have kc: "key_current lab_app (vs_app lab_called)"
    unfolding lab_called_def by (simp add: callers_current(1) fresh_process_current)
  show ?thesis
    using minted_secret_is_kept [where e = lab_provision and s = lab_called and opts = lab_asked, unfolded app r, OF lab_cipher_sound kc]
    by (intro exI [of _ "\<lparr>br_token_id = ''r@pve!drills'', br_secret = ''s3cret'', br_steps = steps\<rparr>"]) (simp add: wet)
qed


section \<open>What a second run loses\<close>

text \<open>
  The entry is written anew, so a range of identifiers or a backup storage an operator had set for the provider goes
  back to the default at the next run, which is said to be safe.
\<close>

lemma rerun_resets_the_range:
  assumes "store_entry ve k s (new_entry opts token) c a = (None, b)"
  shows "\<exists>c' p. va_file b = Inr c' \<and> find_provider c' (vo_provider_id opts) = Inr p \<and>
    pv_temp_id_min p = default_temp_id_min \<and> pv_temp_id_max p = default_temp_id_max \<and> pv_backup_storage p = []"
proof -
  let ?entry = "new_entry opts token"
  obtain c' where c': "with_secret ve k s (stored_secret c (pv_id ?entry)) ?entry (upsert_provider ?entry c) = Inr c'"
      "va_file b = Inr (with_default (pv_id ?entry) c')"
    using assms by (auto simp: store_entry_def Let_def save_config_def split: sum.splits option.splits)
  show ?thesis
    by (rule secret_written [OF c'(1)])
       (simp add: c'(2) find_provider_def put_and_set, simp add: new_entry_def no_provider_def)
qed

text \<open>
  The browser's set-up hands the bridge of the profile to the cluster without asking whether the profile is an isolated
  one, which \<open>connect\<close> does.
\<close>

lemma setup_takes_any_profile:
  "\<exists>c. connect_bridge c [] = [] \<and>
     (\<exists>a. fst (setup_bridge lab_app (a\<lparr>va_config := Some c\<rparr>)) = Inr ''vmbr0'')"
proof -
  let ?c = "new_config\<lparr>cf_networks := [(''isolated'', \<lparr>np_bridge = ''vmbr0'', np_vlan_tag = 0, np_firewall = False, np_isolated = False\<rparr>)]\<rparr>"
  let ?a = "(vs_app lab_machine)\<lparr>va_key := Some (replicate 32 (CHR ''k''))\<rparr>"
  have "connect_bridge ?c [] = []" by code_simp
  moreover have "fst (setup_bridge lab_app (?a\<lparr>va_config := Some ?c\<rparr>)) = Inr ''vmbr0''" by code_simp
  ultimately show ?thesis by blast
qed

end
