(* ===== verification/Spec2Isabelle.thy ===== *)
theory Spec2Isabelle
  imports Engine_Limits History_Safety Worker_Safety Queue_Refinement Scheduler_Safety Notify_Safety Access Proxmox_Drill Report_Safety Catalog_Safety Api_Safety
    Net_Checks_Safety Channels_Safety Provision_Safety
begin

text \<open>
  Verification library of RestoreLab (restorelab/restorelab).

  RestoreLab proves that backups restore. A \<^emph>\<open>plan\<close> names a workload, where its backup is kept and the checks a
  restored copy has to pass. A \<^emph>\<open>drill\<close> restores the backup into a temporary workload on an isolated network,
  starts it, runs the checks, grades what was proven and destroys the copy. Around the drill are a catalogue of plans,
  a queue of runs in an SQL database, workers, a scheduler, notifications, an HTTP interface, reports, and a provider
  for Proxmox clusters.

  \<^bold>\<open>How the parts interact.\<close> A plan document is parsed and validated (internal/plan) and stored (internal/catalog over
  internal/store). A drill is asked for by the command line, by the HTTP interface or by the scheduler; internal/trigger
  prepares it and puts a run in the queue. A worker claims the run under a lease, runs the recovery engine
  (internal/recovery) and records it through the journal (internal/journal). The engine knows only interfaces: a backup
  provider, a hypervisor (internal/providers/proxmox is both) and a runner of checks (internal/checks). A run that a dead
  worker left is settled by a sweep. Settled runs are announced by the dispatcher (internal/notify) to the configured
  channels (internal/config, internal/crypto), and read by the reports (internal/report) and by the handlers of
  internal/api, behind tokens and sessions. Before all that a cluster is connected once (internal/cli/provision.go).

  \<^bold>\<open>The foundations.\<close>

    \<^item> Prelude: the collections of facts, generic lemmas on lists, options and strings, 64-bit integers as \<open>int\<close> with
      the wrap-around of \<open>wrap64\<close> written where the code can reach it, byte-wise string order, decimal printing.
    \<^item> Float64: Go's float64 arithmetic as rounding of real numbers.
    \<^item> Core (internal/core): error values and their chains, proof levels, checks and their results, runs, steps, workloads.
    \<^item> Sql: tables as lists of rows, what an ORDER BY and a LIMIT answer (locale \<open>row_order\<close>), a transaction as a function
      that returns the new tables or an error with the old ones.

  \<^bold>\<open>The drill.\<close>

    \<^item> Plan (internal/plan): defaults, validation, durations, proof levels, schedules.
    \<^item> Naming, Effects, Engine (internal/recovery): an effectful function of Go is a function from the state of a run to an
      outcome (\<open>Done\<close> a value, \<open>Panicked\<close>, \<open>Diverged\<close>) and a state; the world behind the providers is a type variable.
      Every call a run makes is noted in a log no definition reads, so a policy over calls is a property of logs.
      Engine_Safety: the policy a run follows. Engine_Contract: error, state and verdict agree; the copy is deleted; success
      is earned. Engine_Limits: termination, proof level, capacity, backup, cancellation. Engine_World carries a relation
      over each call to whole runs; Lab is a small concrete cluster on which witnesses compute.
    \<^item> Check_Values, Checks, Net_Checks (internal/checks): captured values and drift, the command check, the registry, and
      the tcp, dns, http and ping checks. Checks_Safety, Drill and Net_Checks_Safety: a pass is earned, silence is no
      failure, every check is accounted for.
    \<^item> Proxmox, Proxmox_Guest (internal/providers/proxmox): requests and answers of the client, the provider's operations,
      commands in the guest. Proxmox_Safety: what each operation may send. Proxmox_Drill: the engine, the checks and
      the provider put together, and what a whole drill may destroy on a cluster.
    \<^item> Bootstrap (bootstrap.go, network_admin.go): the one-time set-up of a cluster. Bootstrap_Safety: it creates what it
      declares and no more.
    \<^item> Providers (internal/providers/pbs, factory.go, and the choice of a provider in cli/root.go): the backups of a Proxmox
      Backup Server and the client a configured provider becomes. Providers_Safety: a pinned server, the newest backup.
    \<^item> Provision (cli/provision.go, connect.go, init.go, setup.go, root.go): a process with its configuration and key, and the
      sequence from an empty machine to a stored token. Provision_Safety: the minted secret is kept.

  \<^bold>\<open>The record of drills.\<close>

    \<^item> Store, Queue, History, Plans (internal/store): the rows and their encodings; every statement on runs, steps, checks,
      events, values, slots, deliveries and plans. Json: what encoding/json makes of the details of a check on the way to a column and
      back, and which numbers it refuses. Queue_Safety: the step relation \<open>store_step\<close>, one constructor for every operation
      of the store that writes, and its invariants; its argument says which outcomes UpdateRun may record (any, those
      of other runs, final ones), as the property at hand needs. Queue_Refinement: the queue implements an abstract life cycle of runs. History_Safety: pages,
      slots, announcements.
    \<^item> Journal (internal/journal) and Journal_Safety: what a drill writes reads back.
    \<^item> Worker (internal/worker) and Worker_Safety: execution of a claimed run, the sweep, the claim loop as a machine of
      interleaved steps.
    \<^item> Scheduler (internal/trigger, internal/scheduler) and Scheduler_Safety: which slot is decided, what a pass queues.

  \<^bold>\<open>Around it.\<close>

    \<^item> Catalog (internal/catalog, internal/adhoc) and Catalog_Safety: plan documents over an interface of five operations.
    \<^item> Secrets (internal/crypto) and Config (internal/config): sealing, keys, lookups, edits and validation.
    \<^item> Notify, Dispatcher (internal/notify) and Notify_Safety: what is news, one POST and its retries, a pass.
    \<^item> Access (store/tokens.go, store/sessions.go, api/auth.go, api/session.go): who may call a route.
    \<^item> Problems, Api, Api_Views (internal/api) and Api_Safety: what each handler answers and does to the store; first-run
      set-up as the step relation \<open>setup_moves\<close> over interleaved requests.
    \<^item> Channels (api/notifications.go, cli/notify.go) and Channels_Safety: an operator's edits of the channels.
    \<^item> Report (internal/report) and Report_Safety: the confidence score, the measured values, the printed forms.

  \<^bold>\<open>The interfaces.\<close> Where a part relies on a contract the contract is a locale, interpreted on the definitions of the
  part that provides it. \<open>kept_order\<close>, \<open>base_order\<close>, \<open>step_order\<close> and \<open>call_policy\<close> (Effects) say what a relation on states
  needs for every combinator, every step of a run or every call to keep it; \<open>all_steps\<close>, \<open>erring_steps\<close> and \<open>whole_run\<close>
  (Engine_Contract) extend them to workflows, \<open>engine_world\<close> (Engine_World) to the provider's side, where the Proxmox
  provider instantiates it. \<open>ladder\<close> (Core) is the scale of proof levels; \<open>row_order\<close> (Sql) a sort key with its listing
  and paging lemmas, interpreted once per ORDER BY of the store; \<open>row_history\<close> and \<open>full_history\<close> (Queue_Safety) a property
  of one run's row that every statement keeps; \<open>numbered_table\<close> (Journal_Safety) a table filled by position;
  \<open>plan_store\<close> (Catalog_Safety) what the catalogue asks of its store, kept by the plans table; \<open>channel_book\<close>
  (Channels_Safety) what the handlers ask of the settings, kept by the configuration on disk.

  \<^bold>\<open>What is shown.\<close> A run makes only calls its protocol allows; a drill on a Proxmox cluster destroys only what it
  restored; a restore is contained on its network; a restored copy is deleted however the run ended; success is earned;
  a dry run only observes; a run ends. A run is claimed once, settled once, announced once; the queue refines a life
  cycle; the journal reads back. The scheduler decides the latest due slot, keeps to its queue limit and to one drill a
  workload. A pass of the dispatcher bounds the attempts of each delivery. A route's handler runs only for a live token
  with the scope. A document saved is the document found; following the cursors visits every run once; the console token of
  the set-up buys one connection; no problem shows a credential; an edit of a channel without a URL keeps its webhook;
  connecting a cluster never drops the secret it shows once. Where
  the code falls short of its intent a lemma shows the input, next to the component's other lemmas (for example
  \<open>schedule_shows_fifty\<close> of Api_Safety, or the last sections of Scheduler_Safety and Report_Safety).

  \<^bold>\<open>Loops and bounds.\<close> Waiting for a guest takes fuel, one unit a poll; Engine_Limits shows that one poll for every three
  seconds of the startup timeout is enough when calls return and the clock moves on, and the properties of runs hold for
  every fuel. The polling loops of the Proxmox client are \<open>poll_until\<close>, a partial function whose \<open>None\<close> is a loop that never
  ends. The remaining loops recurse on data or on a counter of the code's: 10000 collapsed slots, four attempts of a
  delivery, bridge numbers up to 4094, the range of temporary identifiers. Default list limit 50, page limit 200,
  request bodies 65536 bytes, HTTP check bodies 1 MiB and error excerpts 512 bytes are the code's constants.

  \<^bold>\<open>Parameters.\<close> Code outside the repository is an argument of the definitions: HTTP clients, sockets, the resolver, ICMP,
  JSON, YAML, SHA-256, AES-GCM, cron and the zone database, regexp, text/template, the decimal text of floats, net.ParseIP,
  url.Parse, base64 and layouts of instants, http.StatusText, the file system, the numbers of the platform's errors, the wall
  clock, fresh identifiers. A theorem that needs something of them names it as a hypothesis and has a witness. Strings are
  their bytes; folding of case is that of ASCII; the keys of JSON objects are matched exactly, and the keys of a check's
  details are taken to be UTF-8. That a cursor of the API reads back is proved from what base64 and the layout of
  instants promise. The error numbers the checks know are those of the platform's file (\<open>errnos_for\<close>). Connecting a
  cluster starts from a process whose key is unloaded or the one it would find (\<open>key_current\<close>), which initialising keeps.

  \<^bold>\<open>Atomic steps.\<close> A statement or a transaction of the store is one step. A handler of the API runs as a sequence with
  nothing in between, the first-run set-up apart; for a trigger, whose search and insert are two statements,
  \<open>overlapping_triggers_queue_two\<close> (Api_Safety) shows what an interleaving does.

  \<^bold>\<open>Not modelled.\<close> The readiness report of the doctor command (internal/diag), opening databases and migrating them, the layout of text and HTML reports, routing, server-sent events and static
  files, command-line flags, prompts and printing, the embedded dashboard, and the store's conformance suite, which is
  tests. Log lines and contexts' deadlines on a driver are left out; where a database failure changes what the code does
  (the scheduler, the dispatcher) it is a branch.
\<close>

end
